(* ===== verification/Prelude.thy ===== *)
theory Prelude
  imports Complex_Main "HOL-Library.Sublist" "HOL-Library.Char_ord" "HOL-Library.List_Lexorder"
begin

text \<open>
  Shared vocabulary of the development: the theorem collections the component proofs draw on,
  the decimal rendering of integers that template literals use, and the small algebra of
  SQL-style list operations (first row of a result set, \<open>UPDATE ... WHERE\<close>,
  \<open>DELETE ... WHERE\<close>) in which every table access of the code is expressed.
\<close>

named_theorems wp_simps "symbolic execution of a transaction body, one equation per primitive"
named_theorems bind_simps "one statement of a body together with its continuation"

section \<open>Decimal rendering\<close>

definition digit_char :: "int \<Rightarrow> char" where
  "digit_char d = ''0123456789'' ! nat d"

function show_nonneg :: "int \<Rightarrow> string" where
  "show_nonneg n =
     (if n < 10 then [digit_char n]
      else show_nonneg (n div 10) @ [digit_char (n mod 10)])"
  by pat_completeness auto
termination
  by (relation "measure nat") auto

declare show_nonneg.simps [simp del]

text \<open>\<open>String(n)\<close> and \<open>`${n}`\<close> for an integer-valued number.\<close>

definition show_int :: "int \<Rightarrow> string" where
  "show_int n = (if n < 0 then ''-'' @ show_nonneg (- n) else show_nonneg n)"

section \<open>Lists as JavaScript treats them\<close>

text \<open>
  \<open>all.filter((x, index) => all.indexOf(x) !== index)\<close> and \<open>[...new Set(xs)]\<close>: the later
  occurrences, and the first ones.
\<close>

fun later_occurrences :: "'a list \<Rightarrow> 'a list \<Rightarrow> 'a list" where
  "later_occurrences seen [] = []"
| "later_occurrences seen (x # xs) =
     (if x \<in> set seen then x # later_occurrences seen xs else later_occurrences (x # seen) xs)"

fun first_occurrences :: "'a list \<Rightarrow> 'a list \<Rightarrow> 'a list" where
  "first_occurrences seen [] = []"
| "first_occurrences seen (x # xs) =
     (if x \<in> set seen then first_occurrences seen xs else x # first_occurrences (x # seen) xs)"

text \<open>\<open>xs.join(sep)\<close>.\<close>

fun js_join :: "string \<Rightarrow> string list \<Rightarrow> string" where
  "js_join sep [] = []"
| "js_join sep [x] = x"
| "js_join sep (x # y # ys) = x @ sep @ js_join sep (y # ys)"

section \<open>Result sets\<close>

text \<open>\<open>rows[0]\<close>: the first row of a result set, undefined when there is none.\<close>

definition first_row :: "'a list \<Rightarrow> 'a option" where
  "first_row rows = (case rows of [] \<Rightarrow> None | r # _ \<Rightarrow> Some r)"

lemma first_row_simps [simp]: "first_row [] = None" "first_row (r # rs) = Some r"
  by (simp_all add: first_row_def)

lemma first_row_None [simp]: "first_row rows = None \<longleftrightarrow> rows = []"
  by (simp add: first_row_def split: list.splits)

lemma first_row_in: "first_row rows = Some r \<Longrightarrow> r \<in> set rows"
  by (auto simp: first_row_def split: list.splits)

lemma first_row_unique:
  assumes "x \<in> set rows" "\<And>y. y \<in> set rows \<Longrightarrow> y = x"
  shows "first_row rows = Some x"
proof (cases rows)
  case Nil
  with assms(1) show ?thesis by simp
next
  case (Cons y ys)
  moreover have "y = x" using Cons by (intro assms(2)) simp
  ultimately show ?thesis by (simp only: first_row_simps)
qed

text \<open>
  \<open>ORDER BY\<close> with the given strict ``comes before'' test: a stable insertion sort, so rows
  that compare equal keep the table's order.
\<close>

fun insert_ordered :: "('a \<Rightarrow> 'a \<Rightarrow> bool) \<Rightarrow> 'a \<Rightarrow> 'a list \<Rightarrow> 'a list" where
  "insert_ordered before x [] = [x]"
| "insert_ordered before x (y # ys) =
     (if before y x then y # insert_ordered before x ys else x # y # ys)"

definition order_by :: "('a \<Rightarrow> 'a \<Rightarrow> bool) \<Rightarrow> 'a list \<Rightarrow> 'a list" where
  "order_by before xs = foldr (insert_ordered before) xs []"

lemma set_insert_ordered [simp]: "set (insert_ordered before x ys) = insert x (set ys)"
  by (induction ys) auto

lemma set_order_by [simp]: "set (order_by before xs) = set xs"
  by (induction xs) (auto simp: order_by_def)

lemma length_insert_ordered [simp]: "length (insert_ordered before x ys) = Suc (length ys)"
  by (induction ys) auto

lemma length_order_by [simp]: "length (order_by before xs) = length xs"
  by (induction xs) (auto simp: order_by_def)

lemma distinct_insert_ordered [simp]:
  "distinct (insert_ordered before x ys) = (x \<notin> set ys \<and> distinct ys)"
  by (induction ys) auto

lemma distinct_order_by [simp]: "distinct (order_by before xs) = distinct xs"
proof (induction xs)
  case (Cons x xs)
  then show ?case using set_order_by [of before xs] by (simp add: order_by_def)
qed (simp add: order_by_def)

text \<open>The first row comes before or ties with every other.\<close>

lemma order_by_first:
  assumes "first_row (order_by before xs) = Some x"
    "\<And>a b. before a b \<Longrightarrow> \<not> before b a" "\<And>a b c. before a c \<Longrightarrow> \<not> before b c \<Longrightarrow> before a b"
    "y \<in> set xs"
  shows "\<not> before y x"
  using assms(1,4)
proof (induction xs arbitrary: x y)
  case (Cons z zs)
  note eq = Cons.prems(1) [unfolded order_by_def, simplified, folded order_by_def]
  show ?case
  proof (cases "order_by before zs")
    case Nil
    then have "zs = []" using length_order_by [of before zs] by simp
    with Nil eq Cons.prems(2) assms(2) show ?thesis by auto
  next
    case (Cons w ws)
    have ih: "\<not> before y' w" if "y' \<in> set zs" for y' using Cons.IH that Cons by simp
    show ?thesis
    proof (cases "before w z")
      case True
      then have "x = w" "\<not> before z w" using eq Cons assms(2) by simp_all
      with ih Cons.prems(2) show ?thesis by auto
    next
      case False
      then have x: "x = z" using eq Cons by simp
      have "\<not> before y' z" if "y' \<in> set zs" for y' using assms(3) [of y' z w] False ih [OF that] by blast
      with x Cons.prems(2) assms(2) show ?thesis by auto
    qed
  qed
qed simp

text \<open>\<open>UPDATE table SET f WHERE p\<close> and \<open>DELETE FROM table WHERE p\<close>.\<close>

definition update_where :: "('r \<Rightarrow> bool) \<Rightarrow> ('r \<Rightarrow> 'r) \<Rightarrow> 'r list \<Rightarrow> 'r list" where
  "update_where p f rows = map (\<lambda>r. if p r then f r else r) rows"

definition delete_where :: "('r \<Rightarrow> bool) \<Rightarrow> 'r list \<Rightarrow> 'r list" where
  "delete_where p rows = filter (\<lambda>r. \<not> p r) rows"

definition count_where :: "('r \<Rightarrow> bool) \<Rightarrow> 'r list \<Rightarrow> int" where
  "count_where p rows = int (length (filter p rows))"

lemma update_where_Nil [simp]: "update_where p f [] = []"
  by (simp add: update_where_def)

lemma update_where_Cons [simp]:
  "update_where p f (r # rs) = (if p r then f r else r) # update_where p f rs"
  by (simp add: update_where_def)

lemma length_update_where [simp]: "length (update_where p f rows) = length rows"
  by (simp add: update_where_def)

lemma nth_update_where [simp]:
  "i < length rows \<Longrightarrow>
   update_where p f rows ! i = (if p (rows ! i) then f (rows ! i) else rows ! i)"
  by (simp add: update_where_def)

lemma set_update_where:
  "set (update_where p f rows) = f ` {r \<in> set rows. p r} \<union> {r \<in> set rows. \<not> p r}"
  by (auto simp: update_where_def)

lemma update_where_none: "(\<And>r. r \<in> set rows \<Longrightarrow> \<not> p r) \<Longrightarrow> update_where p f rows = rows"
  by (simp add: update_where_def map_idI)

lemma map_update_where:
  "(\<And>r. p r \<Longrightarrow> g (f r) = g r) \<Longrightarrow> map g (update_where p f rows) = map g rows"
  by (simp add: update_where_def)

lemma delete_where_Nil [simp]: "delete_where p [] = []"
  by (simp add: delete_where_def)

lemma set_delete_where [simp]: "set (delete_where p rows) = {r \<in> set rows. \<not> p r}"
  by (auto simp: delete_where_def)

lemma delete_where_idem [simp]: "delete_where p (delete_where p rows) = delete_where p rows"
  by (simp add: delete_where_def)

lemma delete_where_none: "(\<And>r. r \<in> set rows \<Longrightarrow> \<not> p r) \<Longrightarrow> delete_where p rows = rows"
  by (auto simp: delete_where_def filter_id_conv)

lemma distinct_map_delete_where: "distinct (map g rows) \<Longrightarrow> distinct (map g (delete_where p rows))"
  by (simp add: delete_where_def distinct_map_filter)

lemma count_where_zero [simp]: "count_where p rows = 0 \<longleftrightarrow> (\<forall>r \<in> set rows. \<not> p r)"
  by (auto simp: count_where_def filter_empty_conv)

lemma count_where_nonneg [simp]: "0 \<le> count_where p rows"
  by (simp add: count_where_def)

text \<open>A key that is unique in a table names one row.\<close>

lemma distinct_map_unique:
  "distinct (map g xs) \<Longrightarrow> x \<in> set xs \<Longrightarrow> y \<in> set xs \<Longrightarrow> g x = g y \<Longrightarrow> x = y"
  by (auto simp: distinct_map inj_on_def)

end
