(* ===== verification/Domain.thy ===== *)
theory Domain
  imports Prelude
begin

text \<open>
  The canonical states and roles of \<open>packages/core/src/domain/states.ts\<close>, one \<open>datatype\<close>
  per constant object with its string literals, and the row types of
  \<open>packages/core/src/domain/entities.ts\<close> together with the \<open>store\<close> record that holds the
  tables. A table is the list of its rows in insertion order.

  Times are milliseconds since the epoch (\<open>int\<close>); the code keeps them as fixed-format ISO-8601
  strings, whose lexicographic order is the order of the instants. Versions, fences and counts
  are integers, as the code's numbers. Nullable columns and optional payload fields are
  \<open>option\<close>. The store also carries what the code reads from its surroundings: the clock
  behind \<open>Date.now()\<close>, the sequence of \<open>Math.random()\<close> suffixes with the number already
  drawn, and the environment variables.
\<close>

section \<open>States\<close>

datatype PlanState = PL_DRAFT | PL_PENDING_APPROVAL | PL_APPROVED | PL_ACTIVATED_FOR_EXECUTION

fun plan_state_str :: "PlanState \<Rightarrow> string" where
  "plan_state_str PL_DRAFT = ''draft''"
| "plan_state_str PL_PENDING_APPROVAL = ''pending_approval''"
| "plan_state_str PL_APPROVED = ''approved''"
| "plan_state_str PL_ACTIVATED_FOR_EXECUTION = ''activated_for_execution''"

datatype ProjectState =
    PJ_ACTIVE
  | PJ_IMPLEMENTATION_COMPLETE
  | PJ_DESIGN_DOCUMENT_GENERATING
  | PJ_DESIGN_DOCUMENT_READY_FOR_REVIEW
  | PJ_DESIGN_DOCUMENT_REVISION_REQUESTED
  | PJ_DESIGN_DOCUMENT_APPROVED
  | PJ_PROJECT_COMPLETE

fun project_state_str :: "ProjectState \<Rightarrow> string" where
  "project_state_str PJ_ACTIVE = ''active''"
| "project_state_str PJ_IMPLEMENTATION_COMPLETE = ''implementation_complete''"
| "project_state_str PJ_DESIGN_DOCUMENT_GENERATING = ''design_document_generating''"
| "project_state_str PJ_DESIGN_DOCUMENT_READY_FOR_REVIEW = ''design_document_ready_for_review''"
| "project_state_str PJ_DESIGN_DOCUMENT_REVISION_REQUESTED = ''design_document_revision_requested''"
| "project_state_str PJ_DESIGN_DOCUMENT_APPROVED = ''design_document_approved''"
| "project_state_str PJ_PROJECT_COMPLETE = ''project_complete''"

datatype FeatureExecutionState =
    FE_APPROVED_PENDING_EXECUTION
  | FE_SELECTED
  | FE_CODING
  | FE_CODE_PUSHED
  | FE_PR_OPENED
  | FE_CI_RUNNING
  | FE_UNDER_REVIEW
  | FE_CHANGES_REQUESTED
  | FE_FIXING
  | FE_APPROVED_BY_POLICY
  | FE_MERGE_READY
  | FE_MERGED
  | FE_CI_FAILED
  | FE_MERGE_FAILED
  | FE_HUMAN_REQUIRED
  | FE_BLOCKED
  | FE_FAILED
  | FE_SYSTEM_FAILED
  | FE_SKIPPED

fun fe_str :: "FeatureExecutionState \<Rightarrow> string" where
  "fe_str FE_APPROVED_PENDING_EXECUTION = ''approved_pending_execution''"
| "fe_str FE_SELECTED = ''selected''"
| "fe_str FE_CODING = ''coding''"
| "fe_str FE_CODE_PUSHED = ''code_pushed''"
| "fe_str FE_PR_OPENED = ''pr_opened''"
| "fe_str FE_CI_RUNNING = ''ci_running''"
| "fe_str FE_UNDER_REVIEW = ''under_review''"
| "fe_str FE_CHANGES_REQUESTED = ''changes_requested''"
| "fe_str FE_FIXING = ''fixing''"
| "fe_str FE_APPROVED_BY_POLICY = ''approved_by_policy''"
| "fe_str FE_MERGE_READY = ''merge_ready''"
| "fe_str FE_MERGED = ''merged''"
| "fe_str FE_CI_FAILED = ''ci_failed''"
| "fe_str FE_MERGE_FAILED = ''merge_failed''"
| "fe_str FE_HUMAN_REQUIRED = ''human_required''"
| "fe_str FE_BLOCKED = ''blocked''"
| "fe_str FE_FAILED = ''failed''"
| "fe_str FE_SYSTEM_FAILED = ''system_failed''"
| "fe_str FE_SKIPPED = ''skipped''"

datatype AutomationState =
    AU_RUNNING
  | AU_PAUSED_BY_OPERATOR
  | AU_PAUSED_BUDGET_EXCEEDED
  | AU_WAITING_FOR_BUDGET_APPROVAL

fun au_str :: "AutomationState \<Rightarrow> string" where
  "au_str AU_RUNNING = ''running''"
| "au_str AU_PAUSED_BY_OPERATOR = ''paused_by_operator''"
| "au_str AU_PAUSED_BUDGET_EXCEEDED = ''paused_budget_exceeded''"
| "au_str AU_WAITING_FOR_BUDGET_APPROVAL = ''waiting_for_budget_approval''"

datatype AgentRunState = AR_QUEUED | AR_RUNNING | AR_SUCCEEDED | AR_FAILED | AR_CANCELLED

datatype WorkflowRunState =
  WR_QUEUED | WR_RUNNING | WR_WAITING | WR_SUCCEEDED | WR_FAILED | WR_CANCELLED

datatype ArtifactExportState = AE_PENDING | AE_GENERATING | AE_EXPORTED | AE_STALE | AE_FAILED

fun artifact_state_str :: "ArtifactExportState \<Rightarrow> string" where
  "artifact_state_str AE_PENDING = ''pending''"
| "artifact_state_str AE_GENERATING = ''generating''"
| "artifact_state_str AE_EXPORTED = ''exported''"
| "artifact_state_str AE_STALE = ''stale''"
| "artifact_state_str AE_FAILED = ''failed''"

datatype ReadinessStatus = RS_SUFFICIENT | RS_SUFFICIENT_WITH_ASSUMPTIONS | RS_INSUFFICIENT

fun readiness_str :: "ReadinessStatus \<Rightarrow> string" where
  "readiness_str RS_SUFFICIENT = ''sufficient''"
| "readiness_str RS_SUFFICIENT_WITH_ASSUMPTIONS = ''sufficient_with_assumptions''"
| "readiness_str RS_INSUFFICIENT = ''insufficient''"

datatype ClarificationStatus =
  CL_NOT_REQUIRED | CL_REQUIRED | CL_IN_PROGRESS | CL_COMPLETE | CL_BLOCKED

fun clarification_str :: "ClarificationStatus \<Rightarrow> string" where
  "clarification_str CL_NOT_REQUIRED = ''clarification_not_required''"
| "clarification_str CL_REQUIRED = ''clarification_required''"
| "clarification_str CL_IN_PROGRESS = ''clarification_in_progress''"
| "clarification_str CL_COMPLETE = ''clarification_complete''"
| "clarification_str CL_BLOCKED = ''clarification_blocked''"

datatype GapSeverity = GAP_BLOCKING | GAP_NON_BLOCKING

fun gap_severity_str :: "GapSeverity \<Rightarrow> string" where
  "gap_severity_str GAP_BLOCKING = ''blocking''"
| "gap_severity_str GAP_NON_BLOCKING = ''non_blocking''"

datatype FeatureKind = FEATURE | DISCOVERY

fun kind_str :: "FeatureKind \<Rightarrow> string" where
  "kind_str FEATURE = ''feature''"
| "kind_str DISCOVERY = ''discovery''"

datatype FindingSeverity =
    SEV_BLOCKING
  | SEV_NON_BLOCKING
  | SEV_QUESTION
  | SEV_NIT
  | SEV_OUT_OF_SCOPE
  | SEV_REQUIRES_HUMAN_DECISION

datatype UserRole = VIEWER | OPERATOR | APPROVER | ADMIN

fun role_str :: "UserRole \<Rightarrow> string" where
  "role_str VIEWER = ''viewer''"
| "role_str OPERATOR = ''operator''"
| "role_str APPROVER = ''approver''"
| "role_str ADMIN = ''admin''"

datatype BudgetScope = SCOPE_PROJECT | SCOPE_FEATURE | SCOPE_REVIEW_CYCLE

text \<open>
  Statuses of outbox and inbox rows. \<open>EventStatus\<close> in states.ts lists the other five; the
  dispatcher and the processor also write \<open>'processing'\<close>.
\<close>

datatype EventStatus =
  EV_PENDING | EV_PROCESSING | EV_DELIVERED | EV_PROCESSED | EV_FAILED | EV_SKIPPED

datatype DisagreementState = DIS_OPEN | DIS_RESOLVED | DIS_ESCALATED

text \<open>\<open>packages/core/src/domain/constants.ts\<close>.\<close>

definition FIX_ATTEMPT_THRESHOLD :: int where
  "FIX_ATTEMPT_THRESHOLD = 5"

section \<open>JSON values\<close>

datatype json =
    JNull
  | JBool bool
  | JNum rat
  | JStr string
  | JArr "json list"
  | JObj "(string \<times> json) list"

definition JInt :: "int \<Rightarrow> json" where
  "JInt n = JNum (of_int n)"

text \<open>\<open>x ?? null\<close> for an optional string.\<close>

definition j_opt_str :: "string option \<Rightarrow> json" where
  "j_opt_str x = (case x of None \<Rightarrow> JNull | Some v \<Rightarrow> JStr v)"

section \<open>Command results\<close>

record command_result =
  res_commandId :: string
  res_accepted :: bool
  res_resultingState :: string
  res_emittedEventIds :: "string list"

section \<open>Rows\<close>

record feature_run_row =
  run_id :: string
  run_feature_request_id :: string
  run_attempt_no :: int
  run_state :: FeatureExecutionState
  run_fix_attempt_count :: int
  run_version :: int
  run_updated_at :: int

record feature_request_row =
  req_id :: string
  req_plan_id :: string
  req_project_id :: string
  req_fr_id :: string
  req_title :: string
  req_description :: string
  req_kind :: FeatureKind
  req_executable :: bool
  req_state :: FeatureExecutionState
  req_priority :: int
  req_created_at :: int

record feature_dependency_row =
  dep_id :: string
  dep_source_fr_id :: string
  dep_target_fr_id :: string

record workflow_state_row =
  ws_id :: string
  ws_project_id :: string
  ws_active_feature_run_id :: "string option"
  ws_automation_state :: AutomationState
  ws_version :: int
  ws_updated_at :: int

record workflow_event_row =
  we_id :: string
  we_feature_run_id :: "string option"
  we_project_id :: "string option"
  we_event_type :: string
  we_from_state :: string
  we_to_state :: string
  we_actor :: string
  we_payload :: "json option"
  we_payload_schema_version :: string
  we_occurred_at :: int

text \<open>Outbox and inbox events share their columns; \<open>inbox_row\<close> adds the dedup key.\<close>

record queue_row =
  q_id :: string
  q_event_type :: string
  q_payload :: json
  q_payload_schema_version :: string
  q_status :: EventStatus
  q_attempts :: int
  q_next_retry_at :: "int option"
  q_version :: int
  q_created_at :: int
  q_updated_at :: int

record inbox_row = queue_row +
  in_dedup_key :: string
  in_source :: string

text \<open>
  The \<open>result\<close> column holds JSON: the result of a command in a command's scope, the response of a
  route in a route's. Two fields stand for it, one for each of the types it is parsed to.
\<close>

record route_response =
  rs_status :: int
  rs_body :: json

record idempotency_row =
  ik_id :: string
  ik_key :: string
  ik_scope :: string
  ik_result :: "command_result option"
  ik_response :: "route_response option"
  ik_expires_at :: int
  ik_version :: int
  ik_updated_at :: int

record workflow_lock_row =
  wl_id :: string
  wl_project_id :: string
  wl_resource_key :: string
  wl_holder_id :: string
  wl_fence :: int
  wl_expires_at :: "int option"
  wl_version :: int
  wl_updated_at :: int

datatype approval_decision = DEC_APPROVED | DEC_REJECTED | DEC_DEFERRED

record human_approval_row =
  ha_id :: string
  ha_project_id :: string
  ha_feature_request_id :: "string option"
  ha_feature_run_id :: "string option"
  ha_context_type :: string
  ha_context_id :: "string option"
  ha_decision :: "approval_decision option"
  ha_actor :: string
  ha_actor_role :: UserRole
  ha_notes :: "string option"
  ha_decided_at :: "int option"
  ha_updated_at :: int

record policy_decision_row =
  pd_id :: string
  pd_project_id :: string
  pd_feature_run_id :: "string option"
  pd_policy_type :: string
  pd_decision :: string
  pd_context :: "json option"
  pd_actor :: string
  pd_decided_at :: int

record review_finding_row =
  rf_id :: string
  rf_feature_run_id :: string
  rf_reviewer_run_id :: "string option"
  rf_review_cycle :: int
  rf_severity :: FindingSeverity
  rf_category :: string
  rf_description :: string
  rf_file_path :: "string option"
  rf_line_start :: "int option"
  rf_line_end :: "int option"
  rf_resolved :: bool
  rf_resolved_by_run_id :: "string option"
  rf_version :: int
  rf_updated_at :: int

record coder_response_row =
  cr_id :: string
  cr_finding_id :: string
  cr_coder_run_id :: string
  cr_response_type :: string
  cr_notes :: string
  cr_created_at :: int

record review_occurrence_row =
  ro_id :: string
  ro_feature_run_id :: string
  ro_head_sha :: string
  ro_review_cycle :: int
  ro_outcome :: string
  ro_created_at :: int

record disagreement_row =
  dr_id :: string
  dr_feature_run_id :: string
  dr_finding_id :: "string option"
  dr_review_cycle :: int
  dr_state :: DisagreementState
  dr_arbiter_run_id :: "string option"
  dr_resolution :: "string option"
  dr_resolved_at :: "int option"
  dr_version :: int
  dr_updated_at :: int

record pull_request_row =
  pr_id :: string
  pr_feature_run_id :: string
  pr_number :: int
  pr_branch_name :: string
  pr_base_branch :: string
  pr_head_sha :: "string option"
  pr_state :: string
  pr_review_state :: string
  pr_ci_status :: string
  pr_mergeable :: "bool option"
  pr_blocking_labels :: "string list"
  pr_conversations_resolved :: bool
  pr_merged_at :: "int option"
  pr_merge_sha :: "string option"
  pr_closed_at :: "int option"
  pr_version :: int
  pr_updated_at :: int

record repository_row =
  repo_id :: string
  repo_project_id :: string
  repo_owner :: string
  repo_name :: string
  repo_full_name :: string
  repo_default_branch :: string
  repo_provider :: string
  repo_base_url :: "string option"

text \<open>Money is rational: the rounding of floating-point sums is not modelled.\<close>

record budget_policy_row =
  bp_id :: string
  bp_project_id :: string
  bp_scope :: BudgetScope
  bp_feature_request_id :: "string option"
  bp_soft_limit :: "rat option"
  bp_hard_limit :: "rat option"
  bp_window_days :: "int option"
  bp_is_active :: bool
  bp_updated_at :: int

record cost_record_row =
  co_id :: string
  co_project_id :: string
  co_feature_request_id :: "string option"
  co_feature_run_id :: "string option"
  co_agent_run_id :: "string option"
  co_scope :: BudgetScope
  co_amount :: rat
  co_provider :: "string option"
  co_model :: "string option"
  co_input_tokens :: "int option"
  co_output_tokens :: "int option"
  co_recorded_at :: int

record merge_gate_row =
  mg_id :: string
  mg_feature_run_id :: string
  mg_ci_status :: "string option"
  mg_review_status :: "string option"
  mg_unresolved_blocking_findings :: int
  mg_budget_status :: string
  mg_human_approval_required :: bool
  mg_human_approval_id :: "string option"
  mg_branch_protection_ok :: bool
  mg_final_decision :: string
  mg_evaluated_at :: int

text \<open>The tables of the planning phase.\<close>

record project_row =
  pj_id :: string
  pj_name :: string
  pj_description :: "string option"
  pj_state :: ProjectState
  pj_version :: int
  pj_updated_at :: int

record specification_input_row =
  si_id :: string
  si_project_id :: string
  si_content :: string
  si_content_type :: string
  si_created_at :: int

record assessment_row =
  as_id :: string
  as_project_id :: string
  as_specification_input_id :: "string option"
  as_status :: ReadinessStatus
  as_created_at :: int

record planning_gap_row =
  pg_id :: string
  pg_assessment_id :: string
  pg_description :: string
  pg_severity :: GapSeverity
  pg_resolution :: "string option"
  pg_resolved_at :: "int option"
  pg_version :: int
  pg_updated_at :: int

record planning_question_row =
  pq_id :: string
  pq_assessment_id :: string
  pq_question :: string
  pq_answer :: "string option"
  pq_round :: int
  pq_created_at :: int

datatype confidence = CONF_HIGH | CONF_MEDIUM | CONF_LOW

record planning_assumption_row =
  pa_id :: string
  pa_assessment_id :: string
  pa_description :: string
  pa_confidence :: confidence
  pa_created_at :: int

record clarification_session_row =
  cs_id :: string
  cs_project_id :: string
  cs_specification_input_id :: "string option"
  cs_assessment_id :: "string option"
  cs_status :: ClarificationStatus
  cs_round :: int
  cs_max_rounds :: int
  cs_round_timeout_at :: "int option"
  cs_version :: int
  cs_created_at :: int
  cs_updated_at :: int

record clarification_question_row =
  cq_id :: string
  cq_session_id :: string
  cq_question :: string
  cq_round :: int
  cq_order_index :: int
  cq_asked_at :: "int option"
  cq_answered_at :: "int option"
  cq_version :: int
  cq_updated_at :: int

record clarification_answer_row =
  ca_id :: string
  ca_question_id :: string
  ca_answer :: string
  ca_actor :: string
  ca_actor_role :: UserRole
  ca_answered_at :: int

record clarification_decision_row =
  cd_id :: string
  cd_session_id :: string
  cd_decision_type :: string
  cd_actor :: string
  cd_actor_role :: UserRole
  cd_notes :: "string option"
  cd_decided_at :: int

record plan_row =
  pl_id :: string
  pl_project_id :: string
  pl_assessment_id :: "string option"
  pl_state :: PlanState
  pl_title :: string
  pl_summary :: "string option"
  pl_backlog_version :: int
  pl_backlog_validated_at :: "int option"
  pl_backlog_validated_state :: "string option"
  pl_backlog_validated_version :: "int option"
  pl_version :: int
  pl_created_at :: int
  pl_updated_at :: int

record plan_section_row =
  ps_id :: string
  ps_plan_id :: string
  ps_title :: string
  ps_content :: string
  ps_order_index :: int

record acceptance_criterion_row =
  ac_id :: string
  ac_feature_request_id :: string
  ac_description :: string
  ac_order_index :: int

datatype test_type = TEST_UNIT | TEST_INTEGRATION | TEST_SYSTEM

record test_expectation_row =
  te_id :: string
  te_feature_request_id :: string
  te_description :: string
  te_test_type :: "test_type option"
  te_order_index :: int

record artifact_export_row =
  ae_id :: string
  ae_project_id :: string
  ae_artifact_type :: string
  ae_state :: ArtifactExportState
  ae_content :: "string option"
  ae_format :: string
  ae_design_document_id :: "string option"
  ae_exported_at :: "int option"
  ae_version :: int
  ae_created_at :: int
  ae_updated_at :: int

text \<open>
  The design document. Its state is free text in the schema and in \<open>entities.ts\<close>; \<open>design_decisions\<close>
  and \<open>glossary_terms\<close> are only read.
\<close>

record design_document_row =
  dd_id :: string
  dd_project_id :: string
  dd_state :: string
  dd_version :: int
  dd_created_at :: int
  dd_updated_at :: int

record design_document_section_row =
  ds_id :: string
  ds_design_document_id :: string
  ds_section_name :: string
  ds_content :: "string option"
  ds_order_index :: int
  ds_version :: int
  ds_updated_at :: int

record design_decision_row =
  dn_id :: string
  dn_project_id :: string
  dn_title :: string
  dn_context :: "string option"
  dn_decision :: string
  dn_consequences :: "string option"
  dn_status :: string
  dn_created_at :: int

record glossary_term_row =
  gt_id :: string
  gt_project_id :: "string option"
  gt_term :: string
  gt_definition :: string
  gt_category :: "string option"

record planning_tables =
  projects :: "project_row list"
  specification_inputs :: "specification_input_row list"
  planning_readiness_assessments :: "assessment_row list"
  planning_gaps :: "planning_gap_row list"
  planning_questions :: "planning_question_row list"
  planning_assumptions :: "planning_assumption_row list"
  clarification_sessions :: "clarification_session_row list"
  clarification_questions :: "clarification_question_row list"
  clarification_answers :: "clarification_answer_row list"
  clarification_decisions :: "clarification_decision_row list"
  implementation_plans :: "plan_row list"
  plan_sections :: "plan_section_row list"
  acceptance_criteria :: "acceptance_criterion_row list"
  test_expectations :: "test_expectation_row list"
  artifact_exports :: "artifact_export_row list"
  design_documents :: "design_document_row list"
  design_document_sections :: "design_document_section_row list"
  design_decisions :: "design_decision_row list"
  glossary_terms :: "glossary_term_row list"

text \<open>The tables of the adapters and their runs. A role is the string of \<open>AgentRole\<close>.\<close>

record agent_adapter_row =
  aa_id :: string
  aa_role :: string
  aa_name :: string
  aa_implementation :: string
  aa_is_active :: bool
  aa_version :: int
  aa_updated_at :: int

record agent_capability_row =
  ay_id :: string
  ay_adapter_id :: string
  ay_capability :: string

record agent_configuration_row =
  aq_id :: string
  aq_adapter_id :: string
  aq_project_id :: "string option"
  aq_config :: json
  aq_version :: int
  aq_updated_at :: int

record adapter_revision_row =
  av_id :: string
  av_adapter_id :: string
  av_role :: string
  av_name :: string
  av_implementation :: string
  av_version :: int
  av_capabilities :: "string list"
  av_is_active :: bool
  av_created_at :: int

record agent_run_row =
  ar_id :: string
  ar_adapter_id :: string
  ar_adapter_revision_id :: "string option"
  ar_project_id :: "string option"
  ar_feature_run_id :: "string option"
  ar_role :: string
  ar_state :: AgentRunState
  ar_input_summary :: json
  ar_output_summary :: "json option"
  ar_error :: "string option"
  ar_started_at :: "int option"
  ar_ended_at :: "int option"
  ar_tokens_used :: "int option"
  ar_cost_usd :: "rat option"
  ar_provider :: "string option"
  ar_model :: "string option"
  ar_adapter_name :: string
  ar_adapter_implementation :: string
  ar_adapter_version :: int
  ar_capabilities_used :: "string list"
  ar_prompt_template_version :: "string option"
  ar_version :: int
  ar_updated_at :: int

record agent_context_pack_row =
  ak_id :: string
  ak_agent_run_id :: string
  ak_content :: json
  ak_content_schema_version :: string

datatype agent_error_type =
    ERR_TIMEOUT | ERR_RATE_LIMITED | ERR_INVALID_OUTPUT | ERR_AUTH | ERR_PROVIDER_UNAVAILABLE | ERR_CANCELLED

record agent_error_row =
  ax_id :: string
  ax_agent_run_id :: string
  ax_error_type :: agent_error_type
  ax_message :: string
  ax_occurred_at :: int

record agent_tool_operation_row =
  ao_id :: string
  ao_agent_run_id :: string
  ao_tool_name :: string
  ao_input_summary :: "string option"
  ao_output_summary :: "string option"
  ao_status :: string
  ao_duration_ms :: "int option"
  ao_occurred_at :: int

record agent_tables =
  agent_adapters :: "agent_adapter_row list"
  agent_capabilities :: "agent_capability_row list"
  agent_configurations :: "agent_configuration_row list"
  adapter_revisions :: "adapter_revision_row list"
  agent_runs :: "agent_run_row list"
  agent_context_packs :: "agent_context_pack_row list"
  agent_errors :: "agent_error_row list"
  agent_tool_operations :: "agent_tool_operation_row list"

section \<open>The store\<close>

record store =
  clock :: int
  entropy :: "int \<Rightarrow> string"
  draws :: int
  env_vars :: "string \<Rightarrow> string option"
  feature_runs :: "feature_run_row list"
  feature_requests :: "feature_request_row list"
  feature_dependencies :: "feature_dependency_row list"
  workflow_states :: "workflow_state_row list"
  workflow_events :: "workflow_event_row list"
  outbox_events :: "queue_row list"
  inbox_events :: "inbox_row list"
  idempotency_keys :: "idempotency_row list"
  workflow_locks :: "workflow_lock_row list"
  human_approvals :: "human_approval_row list"
  policy_decisions :: "policy_decision_row list"
  review_findings :: "review_finding_row list"
  coder_responses :: "coder_response_row list"
  review_occurrence_markers :: "review_occurrence_row list"
  disagreement_records :: "disagreement_row list"
  pull_requests :: "pull_request_row list"
  repositories :: "repository_row list"
  budget_policies :: "budget_policy_row list"
  cost_records :: "cost_record_row list"
  merge_gate_evaluations :: "merge_gate_row list"
  planning :: planning_tables
  agents :: agent_tables

end
