(* ===== verification/Redaction.thy ===== *)
theory Redaction
  imports Domain
begin

text \<open>
  \<open>packages/core/src/auth/redaction.ts\<close>: the secret redactor every outbox payload passes
  through. The five default rules are JavaScript regular expressions; the part of that language
  they use (literals, character classes with a lower repetition bound, alternatives, word
  boundaries, one leading capture group, global replacement) is the little backtracking matcher
  of the first section. Strings are sequences of ASCII characters.
\<close>

section \<open>The regular expressions used\<close>

text \<open>
  One element of a pattern: a character satisfying a test, a greedy run of at least \<open>n\<close> such
  characters, one of several words (tried in order, ignoring case), or \<open>\b\<close>.
\<close>

datatype re =
    One "char \<Rightarrow> bool"
  | Many "char \<Rightarrow> bool" nat
  | Words "string list"
  | Boundary

definition lower_char :: "char \<Rightarrow> char" where
  "lower_char c =
     (let n = of_char c :: nat in if 65 \<le> n \<and> n \<le> 90 then char_of (n + 32) else c)"

definition to_lower :: "string \<Rightarrow> string" where
  "to_lower s = map lower_char s"

definition is_alnum :: "char \<Rightarrow> bool" where
  "is_alnum c =
     (let n = of_char c :: nat
      in (48 \<le> n \<and> n \<le> 57) \<or> (65 \<le> n \<and> n \<le> 90) \<or> (97 \<le> n \<and> n \<le> 122))"

definition is_word :: "char \<Rightarrow> bool" where
  "is_word c = (is_alnum c \<or> c = CHR ''_'')"

definition is_space :: "char \<Rightarrow> bool" where
  "is_space c = (let n = of_char c :: nat in n = 32 \<or> (9 \<le> n \<and> n \<le> 13))"

definition at_boundary :: "char option \<Rightarrow> string \<Rightarrow> bool" where
  "at_boundary prev s =
     ((case prev of None \<Rightarrow> False | Some c \<Rightarrow> is_word c)
      \<noteq> (case s of [] \<Rightarrow> False | c # _ \<Rightarrow> is_word c))"

text \<open>The character before position \<open>n\<close> of \<open>s\<close>, when \<open>prev\<close> stands before \<open>s\<close>.\<close>

definition char_before :: "char option \<Rightarrow> string \<Rightarrow> nat \<Rightarrow> char option" where
  "char_before prev s n = (if n = 0 then prev else Some (s ! (n - 1)))"

text \<open>The first alternative that matches, in order of priority.\<close>

fun first_some :: "('a \<Rightarrow> 'b option) \<Rightarrow> 'a list \<Rightarrow> 'b option" where
  "first_some f [] = None"
| "first_some f (x # xs) = (case f x of None \<Rightarrow> first_some f xs | Some y \<Rightarrow> Some y)"

lemma first_some_cong [fundef_cong]:
  "xs = ys \<Longrightarrow> (\<And>x. x \<in> set ys \<Longrightarrow> f x = g x) \<Longrightarrow> first_some f xs = first_some g ys"
  by (induction ys arbitrary: xs) (auto split: option.splits)

text \<open>The candidate lengths of one element at the front of a string, longest (or first) first.\<close>

fun candidates :: "re \<Rightarrow> char option \<Rightarrow> string \<Rightarrow> nat list" where
  "candidates (One p) prev s = (case s of [] \<Rightarrow> [] | c # _ \<Rightarrow> (if p c then [1] else []))"
| "candidates (Many p n) prev s = rev [n ..< Suc (length (takeWhile p s))]"
| "candidates (Words ws) prev s =
     map length (filter (\<lambda>w. to_lower (take (length w) s) = to_lower w) ws)"
| "candidates Boundary prev s = (if at_boundary prev s then [0] else [])"

text \<open>A match is the list of the lengths its elements consume.\<close>

fun rmatch :: "re list \<Rightarrow> char option \<Rightarrow> string \<Rightarrow> nat list option" where
  "rmatch [] prev s = Some []"
| "rmatch (r # rs) prev s =
     first_some
       (\<lambda>n. map_option ((#) n) (rmatch rs (char_before prev s n) (drop n s)))
       (candidates r prev s)"

text \<open>
  A rule: the elements of the capture group \<open>$1\<close> (kept), the elements that are replaced, and
  the replacement text.
\<close>

record redaction_rule =
  keep :: "re list"
  drop_part :: "re list"
  replacement :: string

text \<open>
  \<open>String.replace\<close> with a global expression: at each position the leftmost match is replaced
  and scanning resumes after it. No rule matches the empty string; a match of length 0 would
  advance by one character.
\<close>

function replace_all :: "redaction_rule \<Rightarrow> char option \<Rightarrow> string \<Rightarrow> string" where
  "replace_all rule prev [] = []"
| "replace_all rule prev (c # cs) =
     (case rmatch (keep rule @ drop_part rule) prev (c # cs) of
        None \<Rightarrow> c # replace_all rule (Some c) cs
      | Some lens \<Rightarrow>
          (let n = sum_list lens; k = sum_list (take (length (keep rule)) lens)
           in if n = 0 then c # replace_all rule (Some c) cs
              else take k (c # cs) @ replacement rule
                   @ replace_all rule (char_before prev (c # cs) n) (drop n (c # cs))))"
  by pat_completeness auto
termination
  by (relation "measure (\<lambda>(rule, prev, s). length s)") (auto simp del: sum_list_eq_0_iff)

section \<open>The default rules\<close>

definition DEFAULT_REPLACEMENT :: string where
  "DEFAULT_REPLACEMENT = ''[REDACTED]''"

definition quote_char :: char where
  "quote_char = char_of (34 :: nat)"

definition quoted :: "string \<Rightarrow> string" where
  "quoted s = quote_char # s @ [quote_char]"

definition SECRET_KEY_WORDS :: "string list" where
  "SECRET_KEY_WORDS =
     [''token'', ''apiKey'', ''api_key'', ''password'', ''secret'', ''credential'',
      ''privateKey'', ''private_key'', ''accessKey'', ''access_key'', ''accessToken'',
      ''access_token'', ''refreshToken'', ''refresh_token'', ''clientSecret'',
      ''client_secret'', ''webhookSecret'', ''webhook_secret'', ''signingSecret'',
      ''signing_secret'', ''authorization'']"

definition DEFAULT_RULES :: "redaction_rule list" where
  "DEFAULT_RULES =
     [\<lparr>keep = [Words (map (\<lambda>w. quoted w @ '':'') SECRET_KEY_WORDS), Many is_space 0],
       drop_part = [One (\<lambda>c. c = quote_char), Many (\<lambda>c. c \<noteq> quote_char) 0,
                    One (\<lambda>c. c = quote_char)],
       replacement = quoted DEFAULT_REPLACEMENT\<rparr>,
      \<lparr>keep = [],
       drop_part = [Boundary, One (\<lambda>c. c = CHR ''g''), One (\<lambda>c. c = CHR ''h''),
                    One (\<lambda>c. c = CHR ''p'' \<or> c = CHR ''s''), One (\<lambda>c. c = CHR ''_''),
                    Many is_alnum 36, Boundary],
       replacement = DEFAULT_REPLACEMENT\<rparr>,
      \<lparr>keep = [],
       drop_part = [Boundary, One (\<lambda>c. c = CHR ''s''), One (\<lambda>c. c = CHR ''k''),
                    One (\<lambda>c. c = CHR ''-''), Many is_alnum 32, Boundary],
       replacement = DEFAULT_REPLACEMENT\<rparr>,
      \<lparr>keep = [],
       drop_part = [Boundary, One (\<lambda>c. c = CHR ''g''), One (\<lambda>c. c = CHR ''l''),
                    One (\<lambda>c. c = CHR ''p''), One (\<lambda>c. c = CHR ''a''), One (\<lambda>c. c = CHR ''t''),
                    One (\<lambda>c. c = CHR ''-''), Many (\<lambda>c. is_word c \<or> c = CHR ''-'') 20, Boundary],
       replacement = DEFAULT_REPLACEMENT\<rparr>,
      \<lparr>keep = [Words [''Authorization:''], Many is_space 0, Words [''Bearer''], Many is_space 1],
       drop_part = [Many (\<lambda>c. \<not> is_space c) 1],
       replacement = DEFAULT_REPLACEMENT\<rparr>]"

definition redact :: "string \<Rightarrow> string" where
  "redact input = foldl (\<lambda>result rule. replace_all rule None result) input DEFAULT_RULES"

text \<open>\<open>re.test(input)\<close>: the rule matches at some position.\<close>

fun rule_hits :: "redaction_rule \<Rightarrow> char option \<Rightarrow> string \<Rightarrow> bool" where
  "rule_hits rule prev [] = (rmatch (keep rule @ drop_part rule) prev [] \<noteq> None)"
| "rule_hits rule prev (c # cs) =
     (rmatch (keep rule @ drop_part rule) prev (c # cs) \<noteq> None \<or> rule_hits rule (Some c) cs)"

text \<open>
  \<open>scanForSecrets\<close> returns the source text of each rule that matches; a rule is named here by
  its position in \<open>DEFAULT_RULES\<close>.
\<close>

definition scanForSecrets :: "string \<Rightarrow> nat list" where
  "scanForSecrets input =
     map fst (filter (\<lambda>(i, rule). rule_hits rule None input) (enumerate 0 DEFAULT_RULES))"

definition SECRET_FIELD_NAMES :: "string list" where
  "SECRET_FIELD_NAMES =
     [''token'', ''apikey'', ''api_key'', ''password'', ''secret'', ''credential'',
      ''privatekey'', ''private_key'', ''accesskey'', ''access_key'', ''accesstoken'',
      ''access_token'', ''refreshtoken'', ''refresh_token'', ''clientsecret'',
      ''client_secret'', ''webhooksecret'', ''webhook_secret'', ''signingsecret'',
      ''signing_secret'', ''authorization'']"

fun redactObject :: "json \<Rightarrow> json"
  and redactItems :: "json list \<Rightarrow> json list"
  and redactEntries :: "(string \<times> json) list \<Rightarrow> (string \<times> json) list"
where
  "redactObject (JStr s) = JStr (redact s)"
| "redactObject (JArr xs) = JArr (redactItems xs)"
| "redactObject (JObj es) = JObj (redactEntries es)"
| "redactObject JNull = JNull"
| "redactObject (JBool b) = JBool b"
| "redactObject (JNum n) = JNum n"
| "redactItems [] = []"
| "redactItems (x # xs) = redactObject x # redactItems xs"
| "redactEntries [] = []"
| "redactEntries ((key, value) # es) =
     (key,
      (case value of
         JStr s \<Rightarrow>
           (if to_lower key \<in> set SECRET_FIELD_NAMES then JStr DEFAULT_REPLACEMENT
            else redactObject value)
       | _ \<Rightarrow> redactObject value)) # redactEntries es"

section \<open>What redaction guarantees\<close>

text \<open>
  \<open>leaks v\<close>: somewhere in \<open>v\<close>, at any depth, an entry with a secret name holds a string other
  than the replacement text.
\<close>

fun leaks :: "json \<Rightarrow> bool"
  and leaks_items :: "json list \<Rightarrow> bool"
  and leaks_entries :: "(string \<times> json) list \<Rightarrow> bool"
where
  "leaks (JStr s) = False"
| "leaks (JArr xs) = leaks_items xs"
| "leaks (JObj es) = leaks_entries es"
| "leaks JNull = False"
| "leaks (JBool b) = False"
| "leaks (JNum n) = False"
| "leaks_items [] = False"
| "leaks_items (x # xs) = (leaks x \<or> leaks_items xs)"
| "leaks_entries [] = False"
| "leaks_entries ((key, value) # es) =
     ((to_lower key \<in> set SECRET_FIELD_NAMES
         \<and> (case value of JStr s \<Rightarrow> s \<noteq> DEFAULT_REPLACEMENT | _ \<Rightarrow> False))
      \<or> leaks value \<or> leaks_entries es)"

lemma no_leaks_after_redaction:
  "\<not> leaks (redactObject v)" "\<not> leaks_items (redactItems xs)" "\<not> leaks_entries (redactEntries es)"
  by (induction v and xs and es rule: redactObject_redactItems_redactEntries.induct)
    (auto split: json.splits)

lemma map_fst_redactEntries: "map fst (redactEntries es) = map fst es"
  by (induction es) auto

lemma length_redactItems: "length (redactItems xs) = length xs"
  by (induction xs) auto

text \<open>A text no rule matches comes back unchanged.\<close>

lemma replace_all_no_hit: "\<not> rule_hits rule prev s \<Longrightarrow> replace_all rule prev s = s"
  by (induction s arbitrary: prev) auto

declare redactObject.simps [simp del] redactItems.simps [simp del] redactEntries.simps [simp del]

end
