(* ===== verification/Persistence.thy ===== *)
theory Persistence
  imports Redaction
begin

text \<open>
  The persistence interface of \<open>packages/core/src/persistence\<close>: errors as values, statements
  run inside one transaction as a state-and-error monad over the store, and
  \<open>db.transaction\<close>, which commits the resulting store or rolls back to the initial one. A
  SELECT is a function of the store, an UPDATE is \<open>update_where\<close> with the number of affected
  rows, and an INSERT fails when it violates the primary key (or, with ON CONFLICT DO NOTHING,
  reports 0 rows on the named key). Foreign keys are not modelled.

  Properties of transaction bodies are stated with \<open>wp m Q E s\<close>: running \<open>m\<close> from \<open>s\<close> ends in
  a result and store satisfying \<open>Q\<close>, or in an error satisfying \<open>E\<close>. The collection
  \<open>wp_simps\<close> computes it statement by statement.
\<close>

section \<open>Errors\<close>

text \<open>\<open>ProblemDetail\<close> of \<open>commands/types.ts\<close>.\<close>

record problem =
  prob_type :: string
  prob_title :: string
  prob_status :: int
  prob_detail :: string
  prob_instance :: "string option"

datatype error =
    CommandError problem
  | MergeGateBlockedError "string list" problem
  | TransitionError string string string
  | OptimisticLockError string string int int
  | StaleFenceError string int int
  | AuthorizationError string UserRole UserRole string
  | LockConflictError string string
  | ConstraintViolation string
  | SerializationFailureError
  | UnknownAdapterError string string
  | CapabilityError string "string list"
  | InvalidCapabilityError string "string list"
  | RunRoleMismatchError string string string
  | UndeclaredCapabilityError string "string list"
  | AdapterRunError agent_error_type string
  | OtherError string

section \<open>Transaction bodies\<close>

type_synonym 'a tx = "store \<Rightarrow> error + 'a \<times> store"

definition returnT :: "'a \<Rightarrow> 'a tx" where
  "returnT a = (\<lambda>s. Inr (a, s))"

definition throwT :: "error \<Rightarrow> 'a tx" where
  "throwT e = (\<lambda>s. Inl e)"

definition bindT :: "'a tx \<Rightarrow> ('a \<Rightarrow> 'b tx) \<Rightarrow> 'b tx" where
  "bindT m k = (\<lambda>s. case m s of Inl e \<Rightarrow> Inl e | Inr (a, t) \<Rightarrow> k a t)"

text \<open>\<open>tx.query\<close>, \<open>tx.execute\<close> and \<open>tx.executeAffected\<close>.\<close>

definition queryT :: "(store \<Rightarrow> 'a) \<Rightarrow> 'a tx" where
  "queryT f = (\<lambda>s. Inr (f s, s))"

definition executeT :: "(store \<Rightarrow> store) \<Rightarrow> unit tx" where
  "executeT f = (\<lambda>s. Inr ((), f s))"

definition executeAffectedT :: "(store \<Rightarrow> int) \<Rightarrow> (store \<Rightarrow> store) \<Rightarrow> int tx" where
  "executeAffectedT count f = (\<lambda>s. Inr (count s, f s))"

text \<open>
  A plain INSERT through a table's selector and update function: \<open>clash\<close> says which existing
  rows have the new row's primary key.
\<close>

definition insertT ::
    "string \<Rightarrow> (store \<Rightarrow> 'r list) \<Rightarrow> (('r list \<Rightarrow> 'r list) \<Rightarrow> store \<Rightarrow> store)
      \<Rightarrow> ('r \<Rightarrow> string) \<Rightarrow> 'r \<Rightarrow> unit tx" where
  "insertT table get upd key row =
     (\<lambda>s. if key row \<in> set (map key (get s)) then Inl (ConstraintViolation table)
          else Inr ((), upd (\<lambda>rows. rows @ [row]) s))"

text \<open>
  INSERT ... ON CONFLICT (unique key) DO NOTHING: 1 or 0 affected rows; \<open>uniq\<close> is the key the
  clause names, \<open>key\<close> the primary key, whose violation is still an error.
\<close>

definition insertOnConflictT ::
    "string \<Rightarrow> (store \<Rightarrow> 'r list) \<Rightarrow> (('r list \<Rightarrow> 'r list) \<Rightarrow> store \<Rightarrow> store)
      \<Rightarrow> ('r \<Rightarrow> string) \<Rightarrow> ('r \<Rightarrow> 'u) \<Rightarrow> 'r \<Rightarrow> int tx" where
  "insertOnConflictT table get upd key uniq row =
     (\<lambda>s. if uniq row \<in> set (map uniq (get s)) then Inr (0, s)
          else if key row \<in> set (map key (get s)) then Inl (ConstraintViolation table)
          else Inr (1, upd (\<lambda>rows. rows @ [row]) s))"

text \<open>A loop over a list, in order, stopping at the first error.\<close>

fun forEachT :: "('a \<Rightarrow> unit tx) \<Rightarrow> 'a list \<Rightarrow> unit tx" where
  "forEachT f [] = returnT ()"
| "forEachT f (x # xs) = bindT (f x) (\<lambda>_. forEachT f xs)"

section \<open>Transactions\<close>

type_synonym 'a db_action = "store \<Rightarrow> (error + 'a) \<times> store"

text \<open>
  \<open>transaction\<close> of \<open>packages/persistence-sqlite/src/client.ts\<close>: BEGIN, the callback, COMMIT; on
  an exception ROLLBACK and rethrow. Nested transactions and a failing ROLLBACK do not occur in
  the model.
\<close>

definition transaction :: "'a tx \<Rightarrow> 'a db_action" where
  "transaction m = (\<lambda>s. case m s of Inl e \<Rightarrow> (Inl e, s) | Inr (a, t) \<Rightarrow> (Inr a, t))"

definition bindA :: "'a db_action \<Rightarrow> ('a \<Rightarrow> 'b db_action) \<Rightarrow> 'b db_action" where
  "bindA m k = (\<lambda>s. case m s of (Inl e, t) \<Rightarrow> (Inl e, t) | (Inr a, t) \<Rightarrow> k a t)"

definition throwA :: "error \<Rightarrow> 'a db_action" where
  "throwA e = (\<lambda>s. (Inl e, s))"

definition returnA :: "'a \<Rightarrow> 'a db_action" where
  "returnA a = (\<lambda>s. (Inr a, s))"

text \<open>\<open>try { ... } catch (err) { ... }\<close>: the handler runs on the store the failed action left.\<close>

definition catchA :: "'a db_action \<Rightarrow> (error \<Rightarrow> 'a db_action) \<Rightarrow> 'a db_action" where
  "catchA m h = (\<lambda>s. case m s of (Inl e, t) \<Rightarrow> h e t | (Inr a, t) \<Rightarrow> (Inr a, t))"

definition queryA :: "(store \<Rightarrow> 'a) \<Rightarrow> 'a db_action" where
  "queryA f = (\<lambda>s. (Inr (f s), s))"

section \<open>Symbolic execution\<close>

definition wp :: "'a tx \<Rightarrow> ('a \<Rightarrow> store \<Rightarrow> bool) \<Rightarrow> (error \<Rightarrow> bool) \<Rightarrow> store \<Rightarrow> bool" where
  "wp m Q E s = (case m s of Inl e \<Rightarrow> E e | Inr (a, t) \<Rightarrow> Q a t)"

lemma wp_returnT [wp_simps]: "wp (returnT a) Q E s = Q a s"
  by (simp add: wp_def returnT_def)

lemma wp_throwT [wp_simps]: "wp (throwT e) Q E s = E e"
  by (simp add: wp_def throwT_def)

lemma wp_bindT [wp_simps]: "wp (bindT m k) Q E s = wp m (\<lambda>a. wp (k a) Q E) E s"
  by (simp add: wp_def bindT_def split: sum.splits prod.splits)

lemma wp_queryT [wp_simps]: "wp (queryT f) Q E s = Q (f s) s"
  by (simp add: wp_def queryT_def)

lemma wp_executeT [wp_simps]: "wp (executeT f) Q E s = Q () (f s)"
  by (simp add: wp_def executeT_def)

lemma wp_executeAffectedT [wp_simps]: "wp (executeAffectedT c f) Q E s = Q (c s) (f s)"
  by (simp add: wp_def executeAffectedT_def)

lemma wp_insertT [wp_simps]:
  "wp (insertT table get upd key row) Q E s =
     (if key row \<in> set (map key (get s)) then E (ConstraintViolation table)
      else Q () (upd (\<lambda>rows. rows @ [row]) s))"
  by (simp add: wp_def insertT_def)

lemma wp_insertOnConflictT [wp_simps]:
  "wp (insertOnConflictT table get upd key uniq row) Q E s =
     (if uniq row \<in> set (map uniq (get s)) then Q 0 s
      else if key row \<in> set (map key (get s)) then E (ConstraintViolation table)
      else Q 1 (upd (\<lambda>rows. rows @ [row]) s))"
  by (simp add: wp_def insertOnConflictT_def)

lemma wp_if [wp_simps]:
  "wp (if b then m else n) Q E s = (if b then wp m Q E s else wp n Q E s)"
  by simp

lemma wp_option [wp_simps]:
  "wp (case x of None \<Rightarrow> m | Some y \<Rightarrow> n y) Q E s =
     (case x of None \<Rightarrow> wp m Q E s | Some y \<Rightarrow> wp (n y) Q E s)"
  by (cases x) simp_all

lemma wp_prod [wp_simps]: "wp (case p of (x, y) \<Rightarrow> m x y) Q E s = (case p of (x, y) \<Rightarrow> wp (m x y) Q E s)"
  by (cases p) simp

lemma wp_Let [wp_simps]: "wp (Let x m) Q E s = (let y = x in wp (m y) Q E s)"
  by simp

lemma wp_forEachT_Nil [wp_simps]: "wp (forEachT f []) Q E s = Q () s"
  by (simp add: wp_simps)

text \<open>Weakening the postcondition; an invariant of a loop.\<close>

lemma wp_mono:
  assumes "wp m Q E s" "\<And>a t. Q a t \<Longrightarrow> Q' a t" "\<And>e. E e \<Longrightarrow> E' e"
  shows "wp m Q' E' s"
  using assms by (auto simp: wp_def split: sum.splits prod.splits)

lemma wp_conj: "wp m Q E s \<Longrightarrow> wp m Q' E s \<Longrightarrow> wp m (\<lambda>a t. Q a t \<and> Q' a t) E s"
  by (auto simp: wp_def split: sum.splits prod.splits)

lemma wp_forEachT:
  assumes "I s" "\<And>x t. x \<in> set xs \<Longrightarrow> I t \<Longrightarrow> wp (f x) (\<lambda>_. I) E t"
  shows "wp (forEachT f xs) (\<lambda>_. I) E s"
  using assms
proof (induction xs arbitrary: s)
  case Nil
  then show ?case by (simp add: wp_simps)
next
  case (Cons x xs)
  have "wp (f x) (\<lambda>_. I) E s" using Cons.prems by simp
  then have "wp (f x) (\<lambda>_. wp (forEachT f xs) (\<lambda>_. I) E) E s"
    by (rule wp_mono) (use Cons in auto)
  then show ?case by (simp add: wp_simps)
qed

text \<open>From a transaction body to the transaction.\<close>

lemma transaction_ok:
  assumes "transaction m s = (Inr a, t)" "wp m Q E s"
  shows "Q a t"
  using assms by (auto simp: transaction_def wp_def split: sum.splits prod.splits)

lemma transaction_rollback: "transaction m s = (Inl e, t) \<Longrightarrow> t = s"
  by (auto simp: transaction_def split: sum.splits prod.splits)

lemma transaction_error:
  assumes "wp m (\<lambda>_ _. False) (\<lambda>e'. e' = e) s"
  shows "transaction m s = (Inl e, s)"
  using assms by (auto simp: transaction_def wp_def split: sum.splits prod.splits)

lemma transaction_result:
  assumes "wp m (\<lambda>a' t'. a' = a \<and> t' = t) (\<lambda>_. False) s"
  shows "transaction m s = (Inr a, t)"
  using assms by (auto simp: transaction_def wp_def split: sum.splits prod.splits)

lemma bindA_Inr:
  "bindA m k s = (Inr b, t) \<longleftrightarrow> (\<exists>a u. m s = (Inr a, u) \<and> k a u = (Inr b, t))"
  by (auto simp: bindA_def split: prod.splits sum.splits)

lemma bindA_Inl:
  "bindA m k s = (Inl e, t) \<longleftrightarrow>
     m s = (Inl e, t) \<or> (\<exists>a u. m s = (Inr a, u) \<and> k a u = (Inl e, t))"
  by (auto simp: bindA_def split: prod.splits sum.splits)

section \<open>Relations every statement keeps\<close>

text \<open>
  A two-state guarantee: a reflexive, transitive relation between stores. If every statement of
  a body keeps it, so does the body. The components instantiate it with what no command may
  do: drop a log entry, move a run along something that is not an edge of its state machine,
  lower a fence.
\<close>

locale store_guarantee =
  fixes R :: "store \<Rightarrow> store \<Rightarrow> bool"
  assumes R_refl: "R s s"
    and R_trans: "R s t \<Longrightarrow> R t u \<Longrightarrow> R s u"
begin

definition keeps :: "'a tx \<Rightarrow> bool" where
  "keeps m \<longleftrightarrow> (\<forall>s. wp m (\<lambda>_ t. R s t) (\<lambda>_. True) s)"

definition keepsA :: "'a db_action \<Rightarrow> bool" where
  "keepsA m \<longleftrightarrow> (\<forall>s. R s (snd (m s)))"

lemma keepsI: "(\<And>s. wp m (\<lambda>_ t. R s t) (\<lambda>_. True) s) \<Longrightarrow> keeps m"
  by (simp add: keeps_def)

lemma keepsD: "keeps m \<Longrightarrow> wp m (\<lambda>_ t. R s t) (\<lambda>_. True) s"
  by (simp add: keeps_def)

lemma keeps_returnT [intro]: "keeps (returnT a)"
  by (simp add: keeps_def wp_simps R_refl)

lemma keeps_throwT [intro]: "keeps (throwT e)"
  by (simp add: keeps_def wp_simps)

lemma keeps_queryT [intro]: "keeps (queryT f)"
  by (simp add: keeps_def wp_simps R_refl)

lemma keeps_bindT [intro]:
  assumes "keeps m" "\<And>a. keeps (k a)"
  shows "keeps (bindT m k)"
proof (rule keepsI)
  fix s
  have "wp m (\<lambda>_ t. R s t) (\<lambda>_. True) s" using assms(1) by (rule keepsD)
  then show "wp (bindT m k) (\<lambda>_ t. R s t) (\<lambda>_. True) s"
    unfolding wp_bindT
  proof (rule wp_mono)
    fix a t assume st: "R s t"
    show "wp (k a) (\<lambda>_ u. R s u) (\<lambda>_. True) t"
      using keepsD [OF assms(2)] by (rule wp_mono) (use st in \<open>auto intro: R_trans\<close>)
  qed auto
qed

lemma keeps_if [intro]: "keeps m \<Longrightarrow> keeps n \<Longrightarrow> keeps (if b then m else n)"
  by simp

lemma keeps_option [intro]:
  "keeps m \<Longrightarrow> (\<And>y. keeps (n y)) \<Longrightarrow> keeps (case x of None \<Rightarrow> m | Some y \<Rightarrow> n y)"
  by (cases x) simp_all

lemma keeps_forEachT [intro]: "(\<And>x. keeps (f x)) \<Longrightarrow> keeps (forEachT f xs)"
  by (induction xs) auto

lemma keeps_transaction:
  assumes "keeps m"
  shows "keepsA (transaction m)"
  unfolding keepsA_def
proof
  fix s
  have "wp m (\<lambda>_ t. R s t) (\<lambda>_. True) s" using assms by (rule keepsD)
  then show "R s (snd (transaction m s))"
    by (auto simp: transaction_def wp_def R_refl split: sum.splits prod.splits)
qed

lemma keepsA_bindA:
  assumes "keepsA m" "\<And>a. keepsA (k a)"
  shows "keepsA (bindA m k)"
  unfolding keepsA_def
proof
  fix s
  have m: "R s (snd (m s))" using assms(1) by (simp add: keepsA_def)
  show "R s (snd (bindA m k s))"
  proof (cases "m s")
    case (Pair r t)
    with m have st: "R s t" by simp
    show ?thesis
    proof (cases r)
      case (Inl e)
      with Pair st show ?thesis by (simp add: bindA_def)
    next
      case (Inr a)
      have "R t (snd (k a t))" using assms(2) by (simp add: keepsA_def)
      with Pair Inr st show ?thesis by (auto simp: bindA_def intro: R_trans)
    qed
  qed
qed

lemma keepsA_catchA:
  assumes "keepsA m" "\<And>e. keepsA (h e)"
  shows "keepsA (catchA m h)"
  unfolding keepsA_def
proof
  fix s
  obtain r t where m: "m s = (r, t)" by fastforce
  then have "R s t" using assms(1) by (metis keepsA_def snd_conv)
  moreover have "R t (snd (h e t))" for e using assms(2) by (simp add: keepsA_def)
  ultimately show "R s (snd (catchA m h s))"
    using m by (cases r) (auto simp: catchA_def intro: R_trans)
qed

lemma keepsA_option:
  "keepsA m \<Longrightarrow> (\<And>y. keepsA (n y)) \<Longrightarrow> keepsA (case x of None \<Rightarrow> m | Some y \<Rightarrow> n y)"
  by (cases x) simp_all

lemma keepsA_if: "keepsA m \<Longrightarrow> keepsA n \<Longrightarrow> keepsA (if b then m else n)"
  by simp

lemma keepsA_throwA: "keepsA (throwA e)"
  by (simp add: keepsA_def throwA_def R_refl)

lemma keepsA_returnA: "keepsA (returnA a)"
  by (simp add: keepsA_def returnA_def R_refl)

lemma keepsA_queryA: "keepsA (queryA f)"
  by (simp add: keepsA_def queryA_def R_refl)

end

section \<open>Optimistic versions\<close>

text \<open>
  \<open>assertVersion\<close> of \<open>persistence/optimistic.ts\<close>: it throws for a missing row and for a row at
  another version, and otherwise the row is there (the code's type assertion), which is why the
  model returns it.
\<close>

definition assertVersion ::
    "string \<Rightarrow> string \<Rightarrow> ('r \<Rightarrow> int) \<Rightarrow> 'r option \<Rightarrow> int \<Rightarrow> 'r tx" where
  "assertVersion table rid version_of row expected =
     (case row of
        None \<Rightarrow> throwT (OptimisticLockError table rid expected (-1))
      | Some r \<Rightarrow>
          (if version_of r \<noteq> expected
           then throwT (OptimisticLockError table rid expected (version_of r))
           else returnT r))"

definition nextVersion :: "int \<Rightarrow> int" where
  "nextVersion current = current + 1"

lemma wp_assertVersion [wp_simps]:
  "wp (assertVersion table rid v row expected) Q E s =
     (case row of
        None \<Rightarrow> E (OptimisticLockError table rid expected (-1))
      | Some r \<Rightarrow> if v r \<noteq> expected then E (OptimisticLockError table rid expected (v r)) else Q r s)"
  by (simp add: assertVersion_def wp_simps split: option.splits)

end
