(* ===== verification/Auth.thy ===== *)
theory Auth
  imports Persistence
begin

text \<open>
  \<open>packages/core/src/auth\<close>: actors, the ranking of roles, the authorization guard every command
  passes first, and the local provider of identities. The display name of an actor is read by no
  decision and is kept only as a field.
\<close>

datatype actor_kind = Human | SystemKind

record actor_identity =
  actor_id :: string
  actor_role :: UserRole
  actorKind :: actor_kind
  actor_correlationId :: string
  displayName :: "string option"

record auth_context =
  auth_actor :: actor_identity
  issuedAt :: int
  auth_expiresAt :: "int option"

fun ROLE_RANK :: "UserRole \<Rightarrow> nat" where
  "ROLE_RANK VIEWER = 0"
| "ROLE_RANK OPERATOR = 1"
| "ROLE_RANK APPROVER = 2"
| "ROLE_RANK ADMIN = 3"

text \<open>Roles are ordered by rank, so that the library's order lemmas apply to them.\<close>

instantiation UserRole :: linorder
begin

definition less_eq_UserRole :: "UserRole \<Rightarrow> UserRole \<Rightarrow> bool" where
  "less_eq_UserRole a b = (ROLE_RANK a \<le> ROLE_RANK b)"

definition less_UserRole :: "UserRole \<Rightarrow> UserRole \<Rightarrow> bool" where
  "less_UserRole a b = (ROLE_RANK a < ROLE_RANK b)"

instance
proof
  fix a b :: UserRole
  assume "a \<le> b" "b \<le> a"
  then show "a = b"
    by (cases a; cases b) (simp_all add: less_eq_UserRole_def)
qed (auto simp: less_eq_UserRole_def less_UserRole_def)

end

definition meetsRole :: "UserRole \<Rightarrow> UserRole \<Rightarrow> bool" where
  "meetsRole role required = (ROLE_RANK role \<ge> ROLE_RANK required)"

definition assertRole ::
    "actor_identity \<Rightarrow> UserRole \<Rightarrow> string \<Rightarrow> actor_kind option \<Rightarrow> error + unit" where
  "assertRole act required command requiredKind =
     (if (case requiredKind of None \<Rightarrow> False | Some k \<Rightarrow> actorKind act \<noteq> k)
      then Inl (AuthorizationError (actor_id act) (actor_role act) required command)
      else if \<not> meetsRole (actor_role act) required
      then Inl (AuthorizationError (actor_id act) (actor_role act) required command)
      else Inr ())"

lemma meetsRole_le: "meetsRole role required \<longleftrightarrow> required \<le> role"
  by (simp add: meetsRole_def less_eq_UserRole_def)

lemma meetsRole_trans: "meetsRole a b \<Longrightarrow> meetsRole b c \<Longrightarrow> meetsRole a c"
  by (simp add: meetsRole_le)

lemma assertRole_ok:
  "assertRole act required command kind = Inr () \<longleftrightarrow>
     required \<le> actor_role act \<and> (\<forall>k. kind = Some k \<longrightarrow> actorKind act = k)"
  by (auto simp: assertRole_def meetsRole_le split: option.splits)

lemma assertRole_error:
  "assertRole act required command kind = Inl e \<longleftrightarrow>
     e = AuthorizationError (actor_id act) (actor_role act) required command
     \<and> \<not> (required \<le> actor_role act \<and> (\<forall>k. kind = Some k \<longrightarrow> actorKind act = k))"
  by (auto simp: assertRole_def meetsRole_le split: option.splits)

section \<open>Generated identifiers and the local provider\<close>

text \<open>
  \<open>generateId\<close> of \<open>commands/helpers.ts\<close>: the time and a random suffix. Each call draws the next
  suffix of the store's sequence; a suffix drawn by a transaction that rolls back is drawn
  again, since nothing it named was kept.
\<close>

definition generateId :: "string tx" where
  "generateId =
     (\<lambda>s. Inr (show_int (clock s) @ ''-'' @ entropy s (draws s), s\<lparr>draws := draws s + 1\<rparr>))"

lemma wp_generateId [wp_simps]:
  "wp generateId Q E s =
     Q (show_int (clock s) @ ''-'' @ entropy s (draws s)) (s\<lparr>draws := draws s + 1\<rparr>)"
  by (simp add: wp_def generateId_def)

definition generateCorrelationId :: "string tx" where
  "generateCorrelationId = bindT generateId (\<lambda>i. returnT (''corr-'' @ i))"

record local_auth_config =
  conf_actorId :: string
  conf_role :: UserRole
  conf_displayName :: "string option"
  conf_sessionDurationMs :: "int option"

definition issueContext :: "local_auth_config \<Rightarrow> auth_context tx" where
  "issueContext config =
     bindT (queryT clock) (\<lambda>now.
     let durationMs = (case conf_sessionDurationMs config of None \<Rightarrow> 8 * 60 * 60 * 1000 | Some d \<Rightarrow> d)
     in bindT generateCorrelationId (\<lambda>corr.
        returnT
          \<lparr>auth_actor =
             \<lparr>actor_id = conf_actorId config, actor_role = conf_role config, actorKind = Human,
              actor_correlationId = corr, displayName = conf_displayName config\<rparr>,
           issuedAt = now, auth_expiresAt = Some (now + durationMs)\<rparr>))"

definition issueSystemContext :: "auth_context tx" where
  "issueSystemContext =
     bindT (queryT clock) (\<lambda>now.
     bindT generateCorrelationId (\<lambda>corr.
        returnT
          \<lparr>auth_actor =
             \<lparr>actor_id = ''system'', actor_role = ADMIN, actorKind = SystemKind,
              actor_correlationId = corr, displayName = Some ''MiniCoder System''\<rparr>,
           issuedAt = now, auth_expiresAt = None\<rparr>))"

end
