(* ===== verification/Commands.thy ===== *)
theory Commands
  imports Auth
begin

text \<open>
  \<open>packages/core/src/commands\<close>: envelopes, handlers, the executor, the registry, and the helpers
  every handler is written with (\<open>helpers.ts\<close>): the claim-first idempotency slot, the writers of
  the workflow log, the outbox and the audit tables, and the lock fence check.

  Payload schemas (zod) are checked before the executor and are not modelled.
\<close>

section \<open>Envelopes and handlers\<close>

record lock_context =
  lc_lockId :: string
  lc_fence :: int
  lc_holderId :: string
  lc_projectId :: "string option"
  lc_resourceKey :: "string option"

record 'p envelope =
  commandId :: string
  idempotencyKey :: string
  payload :: 'p
  env_actor :: actor_identity
  correlationId :: string
  lockContext :: "lock_context option"

record 'p handler =
  commandName :: string
  requiredRole :: UserRole
  requiredActorKind :: "actor_kind option"
  idempotencyScope :: string
  handler_execute :: "'p envelope \<Rightarrow> command_result db_action"

text \<open>\<open>new CommandError({...})\<close>; the helper errors have no \<open>instance\<close>.\<close>

definition commandError ::
    "string \<Rightarrow> string \<Rightarrow> int \<Rightarrow> string \<Rightarrow> string option \<Rightarrow> error" where
  "commandError typ title status detail inst =
     CommandError \<lparr>prob_type = typ, prob_title = title, prob_status = status,
                   prob_detail = detail, prob_instance = inst\<rparr>"

section \<open>The idempotency slot\<close>

definition IDEMPOTENCY_TTL_MS :: int where
  "IDEMPOTENCY_TTL_MS = 7 * 24 * 60 * 60 * 1000"

datatype claim = Owned string | NotOwned command_result

definition idempotency_slot :: "string \<Rightarrow> string \<Rightarrow> store \<Rightarrow> idempotency_row option" where
  "idempotency_slot key scope s =
     first_row (filter (\<lambda>r. ik_key r = key \<and> ik_scope r = scope \<and> ik_expires_at r > clock s)
                 (idempotency_keys s))"

definition concurrent_command :: "string \<Rightarrow> error" where
  "concurrent_command key =
     commandError ''concurrent-command'' ''Concurrent command in progress'' 409
       (''A concurrent request with idempotency key \"'' @ key @ ''\" is already in progress'') None"

definition claimIdempotencyKey :: "string \<Rightarrow> string \<Rightarrow> int \<Rightarrow> claim tx" where
  "claimIdempotencyKey key scope ttlMs =
     bindT generateId (\<lambda>claimId.
     bindT (queryT clock) (\<lambda>now.
     bindT (executeT (idempotency_keys_update
              (delete_where (\<lambda>r. ik_key r = key \<and> ik_scope r = scope \<and> ik_expires_at r \<le> now)))) (\<lambda>_.
     bindT (insertOnConflictT ''idempotency_keys'' idempotency_keys idempotency_keys_update
              ik_id (\<lambda>r. (ik_key r, ik_scope r))
              \<lparr>ik_id = claimId, ik_key = key, ik_scope = scope, ik_result = None, ik_response = None,
               ik_expires_at = now + ttlMs, ik_version = 1, ik_updated_at = now\<rparr>) (\<lambda>inserted.
     if inserted = 1 then returnT (Owned claimId)
     else
       bindT (queryT (idempotency_slot key scope)) (\<lambda>existing.
       case existing of
         None \<Rightarrow> throwT (concurrent_command key)
       | Some r \<Rightarrow>
           (case ik_result r of
              Some result \<Rightarrow> returnT (NotOwned result)
            | None \<Rightarrow> throwT (concurrent_command key)))))))"

definition fulfillIdempotencyKey :: "string \<Rightarrow> command_result \<Rightarrow> unit tx" where
  "fulfillIdempotencyKey claimId result =
     bindT (queryT clock) (\<lambda>now.
     executeT (idempotency_keys_update
       (update_where (\<lambda>r. ik_id r = claimId)
         (\<lambda>r. r\<lparr>ik_result := Some result, ik_version := ik_version r + 1, ik_updated_at := now\<rparr>))))"

text \<open>
  How every handler uses the slot: \<open>if (!claim.owned) return claim.result\<close> before its body, and
  \<open>await fulfillIdempotencyKey(tx, claim.claimId, result); return result\<close> after it.
\<close>

definition with_claim_ttl ::
    "int \<Rightarrow> string \<Rightarrow> string \<Rightarrow> command_result tx \<Rightarrow> command_result tx" where
  "with_claim_ttl ttlMs key scope body =
     bindT (claimIdempotencyKey key scope ttlMs) (\<lambda>claim.
     case claim of
       NotOwned result \<Rightarrow> returnT result
     | Owned claimId \<Rightarrow>
         bindT body (\<lambda>result.
         bindT (fulfillIdempotencyKey claimId result) (\<lambda>_.
         returnT result)))"

abbreviation with_claim :: "string \<Rightarrow> string \<Rightarrow> command_result tx \<Rightarrow> command_result tx" where
  "with_claim \<equiv> with_claim_ttl IDEMPOTENCY_TTL_MS"

text \<open>
  What a guarantee needs so that claiming and fulfilling a slot around a body keeps it: that it
  says nothing of the idempotency table and of the identifiers drawn.
\<close>

locale claim_guarantee = store_guarantee +
  assumes R_slots: "R s (idempotency_keys_update f s)"
    and R_draws: "R s (s\<lparr>draws := d\<rparr>)"
begin

lemma keeps_generateId: "keeps generateId"
  by (rule keepsI) (simp add: wp_simps R_draws)

lemma keeps_slot_update: "keeps (executeT (idempotency_keys_update f))"
  by (rule keepsI) (simp add: wp_simps R_slots)

lemma keeps_slot_insert:
  "keeps (insertOnConflictT table idempotency_keys idempotency_keys_update key uniq row)"
  by (rule keepsI) (simp add: wp_simps R_slots R_refl)

lemma keeps_claim: "keeps (claimIdempotencyKey key scope ttl)"
  unfolding claimIdempotencyKey_def
  by (intro keeps_bindT keeps_queryT keeps_option keeps_if keeps_throwT keeps_returnT keeps_slot_insert
      keeps_slot_update keeps_generateId)

lemma keeps_fulfill: "keeps (fulfillIdempotencyKey i result)"
  unfolding fulfillIdempotencyKey_def by (intro keeps_bindT keeps_queryT keeps_slot_update)

lemma keeps_with_claim:
  assumes "keeps body"
  shows "keeps (with_claim_ttl ttl key scope body)"
  unfolding with_claim_ttl_def
proof (rule keeps_bindT [OF keeps_claim])
  fix c
  show "keeps (case c of Owned i \<Rightarrow>
      bindT body (\<lambda>result. bindT (fulfillIdempotencyKey i result) (\<lambda>_. returnT result))
    | NotOwned result \<Rightarrow> returnT result)"
    by (cases c) (auto intro: assms keeps_fulfill)
qed

end

section \<open>Logs and audit rows\<close>

definition SCHEMA_VERSION :: string where
  "SCHEMA_VERSION = ''1.0.0''"

definition writeWorkflowEvent ::
    "string option \<Rightarrow> string option \<Rightarrow> string \<Rightarrow> string \<Rightarrow> string \<Rightarrow> string \<Rightarrow> json option \<Rightarrow> string tx" where
  "writeWorkflowEvent featureRunId projectId eventType from_s to_s actorId pay =
     bindT generateId (\<lambda>i.
     bindT (queryT clock) (\<lambda>now.
     bindT (insertT ''workflow_events'' workflow_events workflow_events_update we_id
              \<lparr>we_id = i, we_feature_run_id = featureRunId, we_project_id = projectId,
               we_event_type = eventType, we_from_state = from_s, we_to_state = to_s,
               we_actor = actorId, we_payload = pay, we_payload_schema_version = SCHEMA_VERSION,
               we_occurred_at = now\<rparr>) (\<lambda>_.
     returnT i)))"

definition writeOutboxEvent :: "string \<Rightarrow> (string \<times> json) list \<Rightarrow> string tx" where
  "writeOutboxEvent eventType pay =
     bindT generateId (\<lambda>i.
     bindT (queryT clock) (\<lambda>now.
     let safePayload = redactObject (JObj pay) in
     bindT (insertT ''outbox_events'' outbox_events outbox_events_update q_id
              \<lparr>q_id = i, q_event_type = eventType, q_payload = safePayload,
               q_payload_schema_version = SCHEMA_VERSION, q_status = EV_PENDING, q_attempts = 0,
               q_next_retry_at = None, q_version = 1, q_created_at = now, q_updated_at = now\<rparr>) (\<lambda>_.
     returnT i)))"

definition insertPolicyDecision ::
    "string \<Rightarrow> string option \<Rightarrow> string \<Rightarrow> string \<Rightarrow> json option \<Rightarrow> string \<Rightarrow> string tx" where
  "insertPolicyDecision projectId featureRunId policyType decision context act =
     bindT generateId (\<lambda>i.
     bindT (queryT clock) (\<lambda>now.
     bindT (insertT ''policy_decisions'' policy_decisions policy_decisions_update pd_id
              \<lparr>pd_id = i, pd_project_id = projectId, pd_feature_run_id = featureRunId,
               pd_policy_type = policyType, pd_decision = decision, pd_context = context,
               pd_actor = act, pd_decided_at = now\<rparr>) (\<lambda>_.
     returnT i)))"

definition insertHumanApproval ::
    "string \<Rightarrow> string option \<Rightarrow> string option \<Rightarrow> string \<Rightarrow> string option \<Rightarrow> approval_decision
      \<Rightarrow> actor_identity \<Rightarrow> string option \<Rightarrow> string tx" where
  "insertHumanApproval projectId featureRequestId featureRunId contextType contextId decision act notes =
     bindT generateId (\<lambda>i.
     bindT (queryT clock) (\<lambda>now.
     bindT (insertT ''human_approvals'' human_approvals human_approvals_update ha_id
              \<lparr>ha_id = i, ha_project_id = projectId, ha_feature_request_id = featureRequestId,
               ha_feature_run_id = featureRunId, ha_context_type = contextType,
               ha_context_id = contextId, ha_decision = Some decision, ha_actor = actor_id act,
               ha_actor_role = actor_role act, ha_notes = notes, ha_decided_at = Some now,
               ha_updated_at = now\<rparr>) (\<lambda>_.
     returnT i)))"

section \<open>The lock fence\<close>

definition lock_by_id :: "string \<Rightarrow> store \<Rightarrow> workflow_lock_row option" where
  "lock_by_id i s = first_row (filter (\<lambda>l. wl_id l = i) (workflow_locks s))"

definition assertLockFence :: "lock_context \<Rightarrow> unit tx" where
  "assertLockFence ctx =
     bindT (queryT clock) (\<lambda>now.
     bindT (queryT (lock_by_id (lc_lockId ctx))) (\<lambda>row.
     case row of
       None \<Rightarrow> throwT (StaleFenceError (lc_lockId ctx) (lc_fence ctx) (-1))
     | Some current \<Rightarrow>
         (if (case wl_expires_at current of None \<Rightarrow> False | Some e \<Rightarrow> e < now)
          then throwT (StaleFenceError (lc_lockId ctx) (lc_fence ctx) (wl_fence current))
          else if wl_fence current \<noteq> lc_fence ctx
          then throwT (StaleFenceError (lc_lockId ctx) (lc_fence ctx) (wl_fence current))
          else if wl_holder_id current \<noteq> lc_holderId ctx
          then throwT (StaleFenceError (lc_lockId ctx) (lc_fence ctx) (wl_fence current))
          else if (case lc_projectId ctx of None \<Rightarrow> False | Some p \<Rightarrow> wl_project_id current \<noteq> p)
          then throwT (StaleFenceError (lc_lockId ctx) (lc_fence ctx) (wl_fence current))
          else if (case lc_resourceKey ctx of None \<Rightarrow> False | Some k \<Rightarrow> wl_resource_key current \<noteq> k)
          then throwT (StaleFenceError (lc_lockId ctx) (lc_fence ctx) (wl_fence current))
          else returnT ())))"

text \<open>
  \<open>assertLockFence(tx, { ...envelope.lockContext, projectId, resourceKey: `execution-lane:...` })\<close>
  after the missing-lock check, as the execution-lane commands open.
\<close>

definition requireExecutionLane :: "string \<Rightarrow> 'p envelope \<Rightarrow> string \<Rightarrow> unit tx" where
  "requireExecutionLane name envelope projectId =
     (case lockContext envelope of
        None \<Rightarrow> throwT (commandError ''missing-lock'' ''Execution lock required'' 400
                    (name @ '' requires a workflow lock context'') None)
      | Some ctx \<Rightarrow>
          assertLockFence (ctx\<lparr>lc_projectId := Some projectId,
                               lc_resourceKey := Some (''execution-lane:'' @ projectId)\<rparr>))"

text \<open>What the check guarantees: an unexpired lock at this fence, held by this holder.\<close>

definition fence_held :: "lock_context \<Rightarrow> store \<Rightarrow> bool" where
  "fence_held ctx s =
     (case lock_by_id (lc_lockId ctx) s of
        None \<Rightarrow> False
      | Some l \<Rightarrow>
          (case wl_expires_at l of None \<Rightarrow> True | Some e \<Rightarrow> clock s \<le> e)
          \<and> wl_fence l = lc_fence ctx \<and> wl_holder_id l = lc_holderId ctx
          \<and> (case lc_projectId ctx of None \<Rightarrow> True | Some p \<Rightarrow> wl_project_id l = p)
          \<and> (case lc_resourceKey ctx of None \<Rightarrow> True | Some k \<Rightarrow> wl_resource_key l = k))"

section \<open>The executor and the registry\<close>

definition checkIdempotencyKey :: "string \<Rightarrow> string \<Rightarrow> store \<Rightarrow> command_result option" where
  "checkIdempotencyKey key scope s =
     (case first_row (filter (\<lambda>r. ik_key r = key \<and> ik_scope r = scope \<and> ik_expires_at r > clock s
                                 \<and> ik_result r \<noteq> None) (idempotency_keys s)) of
        None \<Rightarrow> None
      | Some r \<Rightarrow> ik_result r)"

definition execute :: "'p handler \<Rightarrow> 'p envelope \<Rightarrow> command_result db_action" where
  "execute h envelope =
     (case assertRole (env_actor envelope) (requiredRole h) (commandName h) (requiredActorKind h) of
        Inl e \<Rightarrow> throwA e
      | Inr _ \<Rightarrow>
          bindA (queryA (checkIdempotencyKey (idempotencyKey envelope) (idempotencyScope h))) (\<lambda>cached.
          case cached of
            Some result \<Rightarrow> returnA result
          | None \<Rightarrow> handler_execute h envelope))"

text \<open>The registry: a map from command names, in registration order.\<close>

type_synonym 'h registry = "(string \<times> 'h) list"

definition register :: "string \<Rightarrow> 'h \<Rightarrow> 'h registry \<Rightarrow> error + 'h registry" where
  "register name h reg =
     (if map_of reg name \<noteq> None
      then Inl (OtherError (''Command handler already registered: '' @ name))
      else Inr (reg @ [(name, h)]))"

definition registry_get :: "string \<Rightarrow> 'h registry \<Rightarrow> 'h option" where
  "registry_get name reg = map_of reg name"

definition registeredCommands :: "'h registry \<Rightarrow> string list" where
  "registeredCommands reg = map fst reg"

end
