(* ===== verification/StateMachine.thy ===== *)
theory StateMachine
  imports Domain
begin

text \<open>
  \<open>packages/core/src/statemachine\<close>: the transition matrices of the eight state machines, row by
  row in the order of the arrays, and the validator the command handlers consult. The prose
  columns \<open>guardDescription\<close> and \<open>recoveryPath\<close>, and the optional \<open>guard\<close> that no row sets, are
  omitted. The locale \<open>transition_system\<close> states what a matrix must satisfy for the validator to
  be its decision procedure; it is interpreted on all eight matrices.
\<close>

section \<open>Rows and the validator\<close>

datatype matrix_actor = Role UserRole | System

record 's transition_row =
  fromState :: 's
  toState :: 's
  triggeringCommand :: string
  actor :: matrix_actor
  sideEffects :: "string list"
  emittedEvents :: "string list"
  idempotencyKeyTemplate :: string

text \<open>
  \<open>new Map(matrix.map(...))\<close>: of two entries with one key the later wins. The key string
  \<open>from\<rightarrow>to\<close> is modelled as the pair of states.
\<close>

definition edge_of :: "'s transition_row \<Rightarrow> 's \<times> 's" where
  "edge_of row = (fromState row, toState row)"

definition lookup :: "'s transition_row list \<Rightarrow> 's \<times> 's \<Rightarrow> 's transition_row option" where
  "lookup matrix = map_of (rev (map (\<lambda>row. (edge_of row, row)) matrix))"

text \<open>\<open>TransitionError\<close> carries the state strings, hence the naming function \<open>str\<close>.\<close>

definition assertValid ::
    "'s transition_row list \<Rightarrow> ('s \<Rightarrow> string) \<Rightarrow> string \<Rightarrow> 's \<Rightarrow> 's
      \<Rightarrow> (string \<times> string \<times> string) + 's transition_row" where
  "assertValid matrix str machineName from_s to_s =
     (case lookup matrix (from_s, to_s) of
        None \<Rightarrow> Inl (str from_s, str to_s, machineName)
      | Some row \<Rightarrow> Inr row)"

definition isValid :: "'s transition_row list \<Rightarrow> 's \<Rightarrow> 's \<Rightarrow> bool" where
  "isValid matrix from_s to_s = (lookup matrix (from_s, to_s) \<noteq> None)"

fun validNextStates :: "'s transition_row list \<Rightarrow> 's \<Rightarrow> 's list" where
  "validNextStates [] from_s = []"
| "validNextStates (row # rows) from_s =
     (if fromState row = from_s then toState row # validNextStates rows from_s
      else validNextStates rows from_s)"

definition edges :: "'s transition_row list \<Rightarrow> ('s \<times> 's) set" where
  "edges matrix = set (map edge_of matrix)"

section \<open>The matrices\<close>

text \<open>\<open>statemachine/machines/plan-lifecycle.ts\<close>.\<close>

definition PLAN_LIFECYCLE_MATRIX :: "PlanState transition_row list" where
  "PLAN_LIFECYCLE_MATRIX =
     [
      \<lparr>fromState = PL_DRAFT, toState = PL_PENDING_APPROVAL,
       triggeringCommand = ''SubmitPlanForApprovalCommand'', actor = Role OPERATOR,
       sideEffects = [''write_workflow_event'', ''write_outbox_event''],
       emittedEvents = [''plan.submitted_for_approval''],
       idempotencyKeyTemplate = ''submit-plan:{planId}''\<rparr>,
      \<lparr>fromState = PL_PENDING_APPROVAL, toState = PL_APPROVED,
       triggeringCommand = ''ApprovePlanCommand'', actor = Role APPROVER,
       sideEffects = [''record_human_approval'', ''write_workflow_event'', ''write_outbox_event''],
       emittedEvents = [''plan.approved''],
       idempotencyKeyTemplate = ''approve-plan:{planId}''\<rparr>,
      \<lparr>fromState = PL_APPROVED, toState = PL_ACTIVATED_FOR_EXECUTION,
       triggeringCommand = ''ActivatePlanCommand'', actor = Role APPROVER,
       sideEffects = [''set_feature_requests_to_approved_pending_execution'', ''write_workflow_event'', ''write_outbox_event''],
       emittedEvents = [''plan.activated''],
       idempotencyKeyTemplate = ''activate-plan:{planId}''\<rparr>]"

text \<open>\<open>statemachine/machines/project-lifecycle.ts\<close>.\<close>

definition PROJECT_LIFECYCLE_MATRIX :: "ProjectState transition_row list" where
  "PROJECT_LIFECYCLE_MATRIX =
     [
      \<lparr>fromState = PJ_ACTIVE, toState = PJ_IMPLEMENTATION_COMPLETE,
       triggeringCommand = ''MarkImplementationCompleteCommand'', actor = System,
       sideEffects = [''write_workflow_event'', ''write_outbox_event''],
       emittedEvents = [''project.implementation_complete''],
       idempotencyKeyTemplate = ''implementation-complete:{projectId}''\<rparr>,
      \<lparr>fromState = PJ_IMPLEMENTATION_COMPLETE, toState = PJ_DESIGN_DOCUMENT_GENERATING,
       triggeringCommand = ''GenerateDesignDocumentCommand'', actor = Role OPERATOR,
       sideEffects = [''create_artifact_export_record'', ''write_workflow_event'', ''write_outbox_event''],
       emittedEvents = [''project.design_document_generating''],
       idempotencyKeyTemplate = ''generate-design-doc:{projectId}''\<rparr>,
      \<lparr>fromState = PJ_DESIGN_DOCUMENT_GENERATING, toState = PJ_DESIGN_DOCUMENT_READY_FOR_REVIEW,
       triggeringCommand = ''RecordDesignDocumentReadyCommand'', actor = System,
       sideEffects = [''mark_artifact_exported'', ''write_workflow_event'', ''write_outbox_event''],
       emittedEvents = [''project.design_document_ready''],
       idempotencyKeyTemplate = ''design-doc-ready:{projectId}:{artifactId}''\<rparr>,
      \<lparr>fromState = PJ_DESIGN_DOCUMENT_READY_FOR_REVIEW, toState = PJ_DESIGN_DOCUMENT_REVISION_REQUESTED,
       triggeringCommand = ''RequestDesignDocumentRevisionCommand'', actor = Role APPROVER,
       sideEffects = [''record_human_approval'', ''write_workflow_event'', ''write_outbox_event''],
       emittedEvents = [''project.design_document_revision_requested''],
       idempotencyKeyTemplate = ''request-design-revision:{projectId}''\<rparr>,
      \<lparr>fromState = PJ_DESIGN_DOCUMENT_REVISION_REQUESTED, toState = PJ_DESIGN_DOCUMENT_GENERATING,
       triggeringCommand = ''RegenerateDesignDocumentCommand'', actor = Role OPERATOR,
       sideEffects = [''create_artifact_export_record'', ''write_workflow_event'', ''write_outbox_event''],
       emittedEvents = [''project.design_document_regenerating''],
       idempotencyKeyTemplate = ''regenerate-design-doc:{projectId}''\<rparr>,
      \<lparr>fromState = PJ_DESIGN_DOCUMENT_READY_FOR_REVIEW, toState = PJ_DESIGN_DOCUMENT_APPROVED,
       triggeringCommand = ''ApproveDesignDocumentCommand'', actor = Role APPROVER,
       sideEffects = [''record_human_approval'', ''write_workflow_event'', ''write_outbox_event''],
       emittedEvents = [''project.design_document_approved''],
       idempotencyKeyTemplate = ''approve-design-doc:{projectId}''\<rparr>,
      \<lparr>fromState = PJ_DESIGN_DOCUMENT_APPROVED, toState = PJ_PROJECT_COMPLETE,
       triggeringCommand = ''CompleteProjectCommand'', actor = System,
       sideEffects = [''write_workflow_event'', ''write_outbox_event''],
       emittedEvents = [''project.complete''],
       idempotencyKeyTemplate = ''complete-project:{projectId}''\<rparr>]"

text \<open>\<open>statemachine/machines/automation-control.ts\<close>.\<close>

definition AUTOMATION_CONTROL_MATRIX :: "AutomationState transition_row list" where
  "AUTOMATION_CONTROL_MATRIX =
     [
      \<lparr>fromState = AU_RUNNING, toState = AU_PAUSED_BY_OPERATOR,
       triggeringCommand = ''PauseAutomationCommand'', actor = Role OPERATOR,
       sideEffects = [''write_workflow_event'', ''write_outbox_event''],
       emittedEvents = [''automation.paused_by_operator''],
       idempotencyKeyTemplate = ''pause-automation:{projectId}:{expectedVersion}''\<rparr>,
      \<lparr>fromState = AU_PAUSED_BY_OPERATOR, toState = AU_RUNNING,
       triggeringCommand = ''ResumeAutomationCommand'', actor = Role OPERATOR,
       sideEffects = [''record_policy_decision'', ''write_workflow_event'', ''write_outbox_event''],
       emittedEvents = [''automation.resumed''],
       idempotencyKeyTemplate = ''resume-automation:{projectId}:{expectedVersion}''\<rparr>,
      \<lparr>fromState = AU_RUNNING, toState = AU_PAUSED_BUDGET_EXCEEDED,
       triggeringCommand = ''RecordBudgetExceededCommand'', actor = System,
       sideEffects = [''write_workflow_event'', ''write_outbox_event''],
       emittedEvents = [''automation.budget_exceeded''],
       idempotencyKeyTemplate = ''budget-exceeded:{projectId}:{policyId}:{expectedVersion}''\<rparr>,
      \<lparr>fromState = AU_PAUSED_BUDGET_EXCEEDED, toState = AU_RUNNING,
       triggeringCommand = ''ApproveBudgetOverrideCommand'', actor = Role APPROVER,
       sideEffects = [''record_policy_decision'', ''write_workflow_event'', ''write_outbox_event''],
       emittedEvents = [''automation.budget_override_approved'', ''automation.resumed''],
       idempotencyKeyTemplate = ''budget-override:{projectId}:{expectedVersion}''\<rparr>,
      \<lparr>fromState = AU_RUNNING, toState = AU_WAITING_FOR_BUDGET_APPROVAL,
       triggeringCommand = ''RecordBudgetApprovalWaitingCommand'', actor = System,
       sideEffects = [''write_workflow_event'', ''write_outbox_event''],
       emittedEvents = [''automation.budget_approval_waiting''],
       idempotencyKeyTemplate = ''budget-approval-waiting:{projectId}:{policyId}:{expectedVersion}''\<rparr>,
      \<lparr>fromState = AU_WAITING_FOR_BUDGET_APPROVAL, toState = AU_RUNNING,
       triggeringCommand = ''ApproveBudgetOverrideCommand'', actor = Role APPROVER,
       sideEffects = [''record_policy_decision'', ''write_workflow_event'', ''write_outbox_event''],
       emittedEvents = [''automation.budget_override_approved'', ''automation.resumed''],
       idempotencyKeyTemplate = ''budget-override-waiting:{projectId}:{expectedVersion}''\<rparr>]"

text \<open>\<open>statemachine/machines/agent-run.ts\<close>.\<close>

definition AGENT_RUN_MATRIX :: "AgentRunState transition_row list" where
  "AGENT_RUN_MATRIX =
     [
      \<lparr>fromState = AR_QUEUED, toState = AR_RUNNING,
       triggeringCommand = ''StartAgentRunCommand'', actor = System,
       sideEffects = [''write_workflow_event'', ''write_outbox_event''],
       emittedEvents = [''agent_run.started''],
       idempotencyKeyTemplate = ''start-agent-run:{agentRunId}''\<rparr>,
      \<lparr>fromState = AR_RUNNING, toState = AR_SUCCEEDED,
       triggeringCommand = ''RecordAgentRunSucceededCommand'', actor = System,
       sideEffects = [''store_adapter_output'', ''release_workflow_lock'', ''write_workflow_event'', ''write_outbox_event''],
       emittedEvents = [''agent_run.succeeded''],
       idempotencyKeyTemplate = ''agent-run-succeeded:{agentRunId}''\<rparr>,
      \<lparr>fromState = AR_RUNNING, toState = AR_FAILED,
       triggeringCommand = ''RecordAgentRunFailedCommand'', actor = System,
       sideEffects = [''record_agent_error'', ''release_workflow_lock'', ''write_workflow_event'', ''write_outbox_event''],
       emittedEvents = [''agent_run.failed''],
       idempotencyKeyTemplate = ''agent-run-failed:{agentRunId}''\<rparr>,
      \<lparr>fromState = AR_RUNNING, toState = AR_CANCELLED,
       triggeringCommand = ''CancelAgentRunCommand'', actor = Role OPERATOR,
       sideEffects = [''release_workflow_lock'', ''write_workflow_event'', ''write_outbox_event''],
       emittedEvents = [''agent_run.cancelled''],
       idempotencyKeyTemplate = ''cancel-agent-run:{agentRunId}''\<rparr>,
      \<lparr>fromState = AR_QUEUED, toState = AR_CANCELLED,
       triggeringCommand = ''CancelAgentRunCommand'', actor = Role OPERATOR,
       sideEffects = [''write_workflow_event'', ''write_outbox_event''],
       emittedEvents = [''agent_run.cancelled''],
       idempotencyKeyTemplate = ''cancel-queued-agent-run:{agentRunId}''\<rparr>]"

text \<open>\<open>statemachine/machines/workflow-run.ts\<close>.\<close>

definition WORKFLOW_RUN_MATRIX :: "WorkflowRunState transition_row list" where
  "WORKFLOW_RUN_MATRIX =
     [
      \<lparr>fromState = WR_QUEUED, toState = WR_RUNNING,
       triggeringCommand = ''StartWorkflowRunCommand'', actor = System,
       sideEffects = [''write_workflow_event'', ''write_outbox_event''],
       emittedEvents = [''workflow_run.started''],
       idempotencyKeyTemplate = ''start-workflow-run:{workflowRunId}''\<rparr>,
      \<lparr>fromState = WR_RUNNING, toState = WR_WAITING,
       triggeringCommand = ''RecordWorkflowWaitingCommand'', actor = System,
       sideEffects = [''write_workflow_event'', ''write_outbox_event''],
       emittedEvents = [''workflow_run.waiting''],
       idempotencyKeyTemplate = ''workflow-waiting:{workflowRunId}''\<rparr>,
      \<lparr>fromState = WR_WAITING, toState = WR_RUNNING,
       triggeringCommand = ''ResumeWorkflowRunCommand'', actor = System,
       sideEffects = [''write_workflow_event'', ''write_outbox_event''],
       emittedEvents = [''workflow_run.resumed''],
       idempotencyKeyTemplate = ''resume-workflow-run:{workflowRunId}''\<rparr>,
      \<lparr>fromState = WR_RUNNING, toState = WR_SUCCEEDED,
       triggeringCommand = ''RecordWorkflowSucceededCommand'', actor = System,
       sideEffects = [''write_workflow_event'', ''write_outbox_event''],
       emittedEvents = [''workflow_run.succeeded''],
       idempotencyKeyTemplate = ''workflow-succeeded:{workflowRunId}''\<rparr>,
      \<lparr>fromState = WR_RUNNING, toState = WR_FAILED,
       triggeringCommand = ''RecordWorkflowFailedCommand'', actor = System,
       sideEffects = [''write_workflow_event'', ''write_outbox_event''],
       emittedEvents = [''workflow_run.failed''],
       idempotencyKeyTemplate = ''workflow-failed:{workflowRunId}''\<rparr>,
      \<lparr>fromState = WR_RUNNING, toState = WR_CANCELLED,
       triggeringCommand = ''CancelWorkflowRunCommand'', actor = Role OPERATOR,
       sideEffects = [''write_workflow_event'', ''write_outbox_event''],
       emittedEvents = [''workflow_run.cancelled''],
       idempotencyKeyTemplate = ''cancel-workflow-run:{workflowRunId}''\<rparr>,
      \<lparr>fromState = WR_WAITING, toState = WR_CANCELLED,
       triggeringCommand = ''CancelWorkflowRunCommand'', actor = Role OPERATOR,
       sideEffects = [''write_workflow_event'', ''write_outbox_event''],
       emittedEvents = [''workflow_run.cancelled''],
       idempotencyKeyTemplate = ''cancel-waiting-workflow-run:{workflowRunId}''\<rparr>,
      \<lparr>fromState = WR_QUEUED, toState = WR_CANCELLED,
       triggeringCommand = ''CancelWorkflowRunCommand'', actor = Role OPERATOR,
       sideEffects = [''write_workflow_event'', ''write_outbox_event''],
       emittedEvents = [''workflow_run.cancelled''],
       idempotencyKeyTemplate = ''cancel-queued-workflow-run:{workflowRunId}''\<rparr>]"

text \<open>\<open>statemachine/machines/artifact-export.ts\<close>.\<close>

definition ARTIFACT_EXPORT_MATRIX :: "ArtifactExportState transition_row list" where
  "ARTIFACT_EXPORT_MATRIX =
     [
      \<lparr>fromState = AE_PENDING, toState = AE_GENERATING,
       triggeringCommand = ''StartArtifactGenerationCommand'', actor = System,
       sideEffects = [''write_workflow_event'', ''write_outbox_event''],
       emittedEvents = [''artifact_export.generating''],
       idempotencyKeyTemplate = ''start-artifact-generation:{artifactExportId}''\<rparr>,
      \<lparr>fromState = AE_GENERATING, toState = AE_EXPORTED,
       triggeringCommand = ''RecordArtifactExportedCommand'', actor = System,
       sideEffects = [''store_artifact_content'', ''write_workflow_event'', ''write_outbox_event''],
       emittedEvents = [''artifact_export.exported''],
       idempotencyKeyTemplate = ''artifact-exported:{artifactExportId}''\<rparr>,
      \<lparr>fromState = AE_GENERATING, toState = AE_FAILED,
       triggeringCommand = ''RecordArtifactExportFailedCommand'', actor = System,
       sideEffects = [''write_workflow_event'', ''write_outbox_event''],
       emittedEvents = [''artifact_export.failed''],
       idempotencyKeyTemplate = ''artifact-export-failed:{artifactExportId}''\<rparr>,
      \<lparr>fromState = AE_EXPORTED, toState = AE_STALE,
       triggeringCommand = ''MarkArtifactStaleCommand'', actor = System,
       sideEffects = [''write_workflow_event'', ''write_outbox_event''],
       emittedEvents = [''artifact_export.stale''],
       idempotencyKeyTemplate = ''artifact-stale:{artifactExportId}''\<rparr>,
      \<lparr>fromState = AE_STALE, toState = AE_GENERATING,
       triggeringCommand = ''StartArtifactGenerationCommand'', actor = Role OPERATOR,
       sideEffects = [''write_workflow_event'', ''write_outbox_event''],
       emittedEvents = [''artifact_export.generating''],
       idempotencyKeyTemplate = ''restart-artifact-generation:{artifactExportId}''\<rparr>,
      \<lparr>fromState = AE_FAILED, toState = AE_GENERATING,
       triggeringCommand = ''StartArtifactGenerationCommand'', actor = Role OPERATOR,
       sideEffects = [''write_workflow_event'', ''write_outbox_event''],
       emittedEvents = [''artifact_export.generating''],
       idempotencyKeyTemplate = ''retry-artifact-generation:{artifactExportId}''\<rparr>]"

text \<open>\<open>statemachine/machines/clarification.ts\<close>.\<close>

definition CLARIFICATION_MATRIX :: "ClarificationStatus transition_row list" where
  "CLARIFICATION_MATRIX =
     [
      \<lparr>fromState = CL_NOT_REQUIRED, toState = CL_COMPLETE,
       triggeringCommand = ''MarkClarificationNotRequiredCommand'', actor = System,
       sideEffects = [''write_workflow_event'', ''write_outbox_event''],
       emittedEvents = [''clarification.not_required''],
       idempotencyKeyTemplate = ''clarification-not-required:{projectId}''\<rparr>,
      \<lparr>fromState = CL_REQUIRED, toState = CL_IN_PROGRESS,
       triggeringCommand = ''StartClarificationCommand'', actor = Role OPERATOR,
       sideEffects = [''write_workflow_event'', ''write_outbox_event''],
       emittedEvents = [''clarification.started''],
       idempotencyKeyTemplate = ''start-clarification:{projectId}:{round}''\<rparr>,
      \<lparr>fromState = CL_IN_PROGRESS, toState = CL_COMPLETE,
       triggeringCommand = ''CompleteClarificationCommand'', actor = Role OPERATOR,
       sideEffects = [''write_workflow_event'', ''write_outbox_event''],
       emittedEvents = [''clarification.complete''],
       idempotencyKeyTemplate = ''complete-clarification:{projectId}''\<rparr>,
      \<lparr>fromState = CL_IN_PROGRESS, toState = CL_REQUIRED,
       triggeringCommand = ''RequestAnotherClarificationRoundCommand'', actor = System,
       sideEffects = [''increment_round_count'', ''write_workflow_event'', ''write_outbox_event''],
       emittedEvents = [''clarification.round_completed''],
       idempotencyKeyTemplate = ''clarification-next-round:{projectId}:{round}''\<rparr>,
      \<lparr>fromState = CL_IN_PROGRESS, toState = CL_BLOCKED,
       triggeringCommand = ''BlockClarificationCommand'', actor = System,
       sideEffects = [''write_workflow_event'', ''write_outbox_event''],
       emittedEvents = [''clarification.blocked''],
       idempotencyKeyTemplate = ''clarification-blocked:{projectId}''\<rparr>,
      \<lparr>fromState = CL_REQUIRED, toState = CL_BLOCKED,
       triggeringCommand = ''BlockClarificationCommand'', actor = System,
       sideEffects = [''write_workflow_event'', ''write_outbox_event''],
       emittedEvents = [''clarification.blocked''],
       idempotencyKeyTemplate = ''clarification-blocked-from-required:{projectId}''\<rparr>]"

text \<open>
  \<open>statemachine/machines/feature-execution.ts\<close>, one definition per section of the array.
\<close>

definition FE_MAIN_FLOW :: "FeatureExecutionState transition_row list" where
  "FE_MAIN_FLOW =
     [
      \<lparr>fromState = FE_APPROVED_PENDING_EXECUTION, toState = FE_SELECTED,
       triggeringCommand = ''SelectFeatureCommand'', actor = Role OPERATOR,
       sideEffects = [''set_active_feature_run'', ''write_workflow_event'', ''write_outbox_event''],
       emittedEvents = [''feature.selected''],
       idempotencyKeyTemplate = ''select-feature:{featureRunId}''\<rparr>,
      \<lparr>fromState = FE_SELECTED, toState = FE_CODING,
       triggeringCommand = ''StartCodingCommand'', actor = System,
       sideEffects = [''write_workflow_event'', ''write_outbox_event''],
       emittedEvents = [''feature.coding_started''],
       idempotencyKeyTemplate = ''start-coding:{featureRunId}''\<rparr>,
      \<lparr>fromState = FE_CODING, toState = FE_CODE_PUSHED,
       triggeringCommand = ''RecordCodePushedCommand'', actor = System,
       sideEffects = [''record_commit_sha'', ''write_workflow_event'', ''write_outbox_event''],
       emittedEvents = [''feature.code_pushed''],
       idempotencyKeyTemplate = ''record-code-pushed:{featureRunId}:{commitSha}''\<rparr>,
      \<lparr>fromState = FE_CODE_PUSHED, toState = FE_PR_OPENED,
       triggeringCommand = ''RecordPrOpenedCommand'', actor = System,
       sideEffects = [''record_pr_number'', ''write_workflow_event'', ''write_outbox_event''],
       emittedEvents = [''feature.pr_opened''],
       idempotencyKeyTemplate = ''record-pr-opened:{featureRunId}:{prNumber}''\<rparr>,
      \<lparr>fromState = FE_PR_OPENED, toState = FE_CI_RUNNING,
       triggeringCommand = ''RecordCiRunningCommand'', actor = System,
       sideEffects = [''record_ci_run_id'', ''write_workflow_event'', ''write_outbox_event''],
       emittedEvents = [''feature.ci_running''],
       idempotencyKeyTemplate = ''record-ci-running:{featureRunId}:{checkRunId}''\<rparr>]"

definition FE_REPOSITORY_DIVERGENCE :: "FeatureExecutionState transition_row list" where
  "FE_REPOSITORY_DIVERGENCE =
     [
      \<lparr>fromState = FE_PR_OPENED, toState = FE_HUMAN_REQUIRED,
       triggeringCommand = ''EscalateToHumanCommand'', actor = System,
       sideEffects = [''write_workflow_event'', ''write_outbox_event''],
       emittedEvents = [''feature.human_required''],
       idempotencyKeyTemplate = ''escalate-human-github:{featureRunId}''\<rparr>,
      \<lparr>fromState = FE_CI_RUNNING, toState = FE_HUMAN_REQUIRED,
       triggeringCommand = ''EscalateToHumanCommand'', actor = System,
       sideEffects = [''write_workflow_event'', ''write_outbox_event''],
       emittedEvents = [''feature.human_required''],
       idempotencyKeyTemplate = ''escalate-human-github:{featureRunId}''\<rparr>,
      \<lparr>fromState = FE_APPROVED_PENDING_EXECUTION, toState = FE_HUMAN_REQUIRED,
       triggeringCommand = ''EscalateToHumanCommand'', actor = System,
       sideEffects = [''write_workflow_event'', ''write_outbox_event''],
       emittedEvents = [''feature.human_required''],
       idempotencyKeyTemplate = ''escalate-human-github:{featureRunId}''\<rparr>,
      \<lparr>fromState = FE_SELECTED, toState = FE_HUMAN_REQUIRED,
       triggeringCommand = ''EscalateToHumanCommand'', actor = System,
       sideEffects = [''write_workflow_event'', ''write_outbox_event''],
       emittedEvents = [''feature.human_required''],
       idempotencyKeyTemplate = ''escalate-human-github:{featureRunId}''\<rparr>,
      \<lparr>fromState = FE_CODING, toState = FE_HUMAN_REQUIRED,
       triggeringCommand = ''EscalateToHumanCommand'', actor = System,
       sideEffects = [''write_workflow_event'', ''write_outbox_event''],
       emittedEvents = [''feature.human_required''],
       idempotencyKeyTemplate = ''escalate-human-github:{featureRunId}''\<rparr>,
      \<lparr>fromState = FE_CODE_PUSHED, toState = FE_HUMAN_REQUIRED,
       triggeringCommand = ''EscalateToHumanCommand'', actor = System,
       sideEffects = [''write_workflow_event'', ''write_outbox_event''],
       emittedEvents = [''feature.human_required''],
       idempotencyKeyTemplate = ''escalate-human-github:{featureRunId}''\<rparr>,
      \<lparr>fromState = FE_CHANGES_REQUESTED, toState = FE_HUMAN_REQUIRED,
       triggeringCommand = ''EscalateToHumanCommand'', actor = System,
       sideEffects = [''write_workflow_event'', ''write_outbox_event''],
       emittedEvents = [''feature.human_required''],
       idempotencyKeyTemplate = ''escalate-human-github:{featureRunId}''\<rparr>,
      \<lparr>fromState = FE_FIXING, toState = FE_HUMAN_REQUIRED,
       triggeringCommand = ''EscalateToHumanCommand'', actor = System,
       sideEffects = [''write_workflow_event'', ''write_outbox_event''],
       emittedEvents = [''feature.human_required''],
       idempotencyKeyTemplate = ''escalate-human-github:{featureRunId}''\<rparr>,
      \<lparr>fromState = FE_APPROVED_BY_POLICY, toState = FE_HUMAN_REQUIRED,
       triggeringCommand = ''EscalateToHumanCommand'', actor = System,
       sideEffects = [''write_workflow_event'', ''write_outbox_event''],
       emittedEvents = [''feature.human_required''],
       idempotencyKeyTemplate = ''escalate-human-github:{featureRunId}''\<rparr>,
      \<lparr>fromState = FE_MERGE_READY, toState = FE_HUMAN_REQUIRED,
       triggeringCommand = ''EscalateToHumanCommand'', actor = System,
       sideEffects = [''write_workflow_event'', ''write_outbox_event''],
       emittedEvents = [''feature.human_required''],
       idempotencyKeyTemplate = ''escalate-human-github:{featureRunId}''\<rparr>]"

definition FE_CI_OUTCOMES :: "FeatureExecutionState transition_row list" where
  "FE_CI_OUTCOMES =
     [
      \<lparr>fromState = FE_CI_RUNNING, toState = FE_UNDER_REVIEW,
       triggeringCommand = ''RecordCiPassedCommand'', actor = System,
       sideEffects = [''write_workflow_event'', ''write_outbox_event''],
       emittedEvents = [''feature.ci_passed''],
       idempotencyKeyTemplate = ''record-ci-passed:{featureRunId}:{checkRunId}''\<rparr>,
      \<lparr>fromState = FE_CI_RUNNING, toState = FE_CI_FAILED,
       triggeringCommand = ''RecordCiFailedCommand'', actor = System,
       sideEffects = [''record_blocking_finding'', ''write_workflow_event'', ''write_outbox_event''],
       emittedEvents = [''feature.ci_failed''],
       idempotencyKeyTemplate = ''record-ci-failed:{featureRunId}:{checkRunId}''\<rparr>,
      \<lparr>fromState = FE_CI_FAILED, toState = FE_CHANGES_REQUESTED,
       triggeringCommand = ''RequestChangesAfterCiFailCommand'', actor = System,
       sideEffects = [''increment_fix_attempt_count'', ''write_workflow_event'', ''write_outbox_event''],
       emittedEvents = [''feature.changes_requested''],
       idempotencyKeyTemplate = ''changes-requested-after-ci:{featureRunId}:{expectedVersion}''\<rparr>,
      \<lparr>fromState = FE_CI_FAILED, toState = FE_HUMAN_REQUIRED,
       triggeringCommand = ''EscalateToHumanCommand'', actor = System,
       sideEffects = [''write_workflow_event'', ''write_outbox_event''],
       emittedEvents = [''feature.human_required''],
       idempotencyKeyTemplate = ''escalate-human-ci-limit:{featureRunId}''\<rparr>]"

definition FE_REVIEW_LOOP :: "FeatureExecutionState transition_row list" where
  "FE_REVIEW_LOOP =
     [
      \<lparr>fromState = FE_UNDER_REVIEW, toState = FE_CHANGES_REQUESTED,
       triggeringCommand = ''RecordChangesRequestedCommand'', actor = System,
       sideEffects = [''increment_fix_attempt_count'', ''write_workflow_event'', ''write_outbox_event''],
       emittedEvents = [''feature.changes_requested''],
       idempotencyKeyTemplate = ''changes-requested:{featureRunId}:{reviewId}''\<rparr>,
      \<lparr>fromState = FE_UNDER_REVIEW, toState = FE_HUMAN_REQUIRED,
       triggeringCommand = ''EscalateToHumanCommand'', actor = System,
       sideEffects = [''write_workflow_event'', ''write_outbox_event''],
       emittedEvents = [''feature.human_required''],
       idempotencyKeyTemplate = ''escalate-human-review:{featureRunId}''\<rparr>,
      \<lparr>fromState = FE_UNDER_REVIEW, toState = FE_APPROVED_BY_POLICY,
       triggeringCommand = ''RecordApprovedByPolicyCommand'', actor = System,
       sideEffects = [''write_merge_gate_evaluation'', ''write_workflow_event'', ''write_outbox_event''],
       emittedEvents = [''feature.approved_by_policy''],
       idempotencyKeyTemplate = ''approved-by-policy:{featureRunId}:{expectedVersion}''\<rparr>,
      \<lparr>fromState = FE_CHANGES_REQUESTED, toState = FE_FIXING,
       triggeringCommand = ''StartFixingCommand'', actor = System,
       sideEffects = [''write_workflow_event'', ''write_outbox_event''],
       emittedEvents = [''feature.fixing_started''],
       idempotencyKeyTemplate = ''start-fixing:{featureRunId}:{expectedVersion}''\<rparr>,
      \<lparr>fromState = FE_FIXING, toState = FE_CODE_PUSHED,
       triggeringCommand = ''RecordCodePushedCommand'', actor = System,
       sideEffects = [''record_commit_sha'', ''write_workflow_event'', ''write_outbox_event''],
       emittedEvents = [''feature.code_pushed''],
       idempotencyKeyTemplate = ''record-code-pushed:{featureRunId}:{commitSha}''\<rparr>]"

definition FE_MERGE_PATH :: "FeatureExecutionState transition_row list" where
  "FE_MERGE_PATH =
     [
      \<lparr>fromState = FE_APPROVED_BY_POLICY, toState = FE_MERGE_READY,
       triggeringCommand = ''MergeIfReadyCommand'', actor = Role APPROVER,
       sideEffects = [''write_merge_gate_evaluation'', ''write_workflow_event'', ''write_outbox_event''],
       emittedEvents = [''feature.merge_ready''],
       idempotencyKeyTemplate = ''merge-ready:{featureRunId}:{expectedVersion}''\<rparr>,
      \<lparr>fromState = FE_MERGE_READY, toState = FE_MERGED,
       triggeringCommand = ''RecordMergedCommand'', actor = System,
       sideEffects = [''clear_active_feature_run'', ''record_merge_sha'', ''write_workflow_event'', ''write_outbox_event''],
       emittedEvents = [''feature.merged''],
       idempotencyKeyTemplate = ''record-merged:{featureRunId}:{mergeSha}''\<rparr>,
      \<lparr>fromState = FE_MERGE_READY, toState = FE_MERGE_FAILED,
       triggeringCommand = ''RecordMergeFailedCommand'', actor = System,
       sideEffects = [''write_workflow_event'', ''write_outbox_event''],
       emittedEvents = [''feature.merge_failed''],
       idempotencyKeyTemplate = ''record-merge-failed:{featureRunId}:{expectedVersion}''\<rparr>,
      \<lparr>fromState = FE_MERGE_FAILED, toState = FE_UNDER_REVIEW,
       triggeringCommand = ''ReconcileMergeFailedCommand'', actor = System,
       sideEffects = [''write_workflow_event'', ''write_outbox_event''],
       emittedEvents = [''feature.returned_to_review''],
       idempotencyKeyTemplate = ''reconcile-merge-failed:{featureRunId}:{expectedVersion}''\<rparr>,
      \<lparr>fromState = FE_MERGE_FAILED, toState = FE_HUMAN_REQUIRED,
       triggeringCommand = ''EscalateToHumanCommand'', actor = System,
       sideEffects = [''write_workflow_event'', ''write_outbox_event''],
       emittedEvents = [''feature.human_required''],
       idempotencyKeyTemplate = ''escalate-human-merge-failed:{featureRunId}:{expectedVersion}''\<rparr>]"

definition FE_FAILURE_STATES :: "FeatureExecutionState transition_row list" where
  "FE_FAILURE_STATES =
     [
      \<lparr>fromState = FE_FAILED, toState = FE_HUMAN_REQUIRED,
       triggeringCommand = ''EscalateToHumanCommand'', actor = System,
       sideEffects = [''write_workflow_event'', ''write_outbox_event''],
       emittedEvents = [''feature.human_required''],
       idempotencyKeyTemplate = ''escalate-human-failed:{featureRunId}''\<rparr>,
      \<lparr>fromState = FE_SYSTEM_FAILED, toState = FE_HUMAN_REQUIRED,
       triggeringCommand = ''EscalateToHumanCommand'', actor = System,
       sideEffects = [''write_workflow_event'', ''write_outbox_event''],
       emittedEvents = [''feature.human_required''],
       idempotencyKeyTemplate = ''escalate-human-system-failed:{featureRunId}''\<rparr>,
      \<lparr>fromState = FE_BLOCKED, toState = FE_APPROVED_PENDING_EXECUTION,
       triggeringCommand = ''UnblockFeatureCommand | HumanUnblockFeatureCommand'', actor = Role APPROVER,
       sideEffects = [''write_workflow_event'', ''write_outbox_event''],
       emittedEvents = [''feature.unblocked''],
       idempotencyKeyTemplate = ''unblock-feature:{featureRunId} | human-unblock-feature:{featureRunId}:{expectedVersion}''\<rparr>]"

definition FE_HUMAN_DISPOSITIONS :: "FeatureExecutionState transition_row list" where
  "FE_HUMAN_DISPOSITIONS =
     [
      \<lparr>fromState = FE_HUMAN_REQUIRED, toState = FE_CHANGES_REQUESTED,
       triggeringCommand = ''ResolveDisagreementCommand'', actor = Role APPROVER,
       sideEffects = [''resolve_disagreement_record'', ''write_human_approval'', ''write_workflow_event'', ''write_outbox_event''],
       emittedEvents = [''feature.disagreement_resolved''],
       idempotencyKeyTemplate = ''resolve-disagreement:{featureRunId}:{expectedVersion}''\<rparr>,
      \<lparr>fromState = FE_HUMAN_REQUIRED, toState = FE_UNDER_REVIEW,
       triggeringCommand = ''ResumeFeatureExecutionCommand'', actor = Role APPROVER,
       sideEffects = [''write_human_approval'', ''write_workflow_event'', ''write_outbox_event''],
       emittedEvents = [''feature.resumed_from_human_required''],
       idempotencyKeyTemplate = ''resume-feature-execution:{featureRunId}:{expectedVersion}''\<rparr>,
      \<lparr>fromState = FE_HUMAN_REQUIRED, toState = FE_SELECTED,
       triggeringCommand = ''RetryFeatureCommand'', actor = Role APPROVER,
       sideEffects = [''write_human_approval'', ''write_workflow_event'', ''write_outbox_event''],
       emittedEvents = [''feature.retried''],
       idempotencyKeyTemplate = ''retry-feature:{featureRunId}:{expectedVersion}''\<rparr>,
      \<lparr>fromState = FE_HUMAN_REQUIRED, toState = FE_SKIPPED,
       triggeringCommand = ''SkipFeatureCommand'', actor = Role APPROVER,
       sideEffects = [''write_human_approval'', ''write_workflow_event'', ''write_outbox_event''],
       emittedEvents = [''feature.skipped''],
       idempotencyKeyTemplate = ''skip-feature:{featureRunId}:{expectedVersion}''\<rparr>,
      \<lparr>fromState = FE_HUMAN_REQUIRED, toState = FE_BLOCKED,
       triggeringCommand = ''BlockFeatureCommand'', actor = Role APPROVER,
       sideEffects = [''write_human_approval'', ''write_workflow_event'', ''write_outbox_event''],
       emittedEvents = [''feature.blocked_by_human''],
       idempotencyKeyTemplate = ''block-feature:{featureRunId}:{expectedVersion}''\<rparr>,
      \<lparr>fromState = FE_APPROVED_PENDING_EXECUTION, toState = FE_BLOCKED,
       triggeringCommand = ''SkipFeatureCommand'', actor = System,
       sideEffects = [''write_workflow_event'', ''write_outbox_event''],
       emittedEvents = [''feature.blocked_by_skipped_dependency''],
       idempotencyKeyTemplate = ''skip-feature-cascade-block:{featureRunId}:{expectedVersion}''\<rparr>]"

definition FEATURE_EXECUTION_MATRIX :: "FeatureExecutionState transition_row list" where
  "FEATURE_EXECUTION_MATRIX =
     FE_MAIN_FLOW @ FE_REPOSITORY_DIVERGENCE @ FE_CI_OUTCOMES @ FE_REVIEW_LOOP
     @ FE_MERGE_PATH @ FE_FAILURE_STATES @ FE_HUMAN_DISPOSITIONS"

section \<open>The validator decides the edge relation\<close>

lemma set_validNextStates: "set (validNextStates matrix a) = {b. (a, b) \<in> edges matrix}"
  by (induction matrix) (auto simp: edges_def edge_of_def)

lemma isValid_iff_edge: "isValid matrix a b \<longleftrightarrow> (a, b) \<in> edges matrix"
  by (force simp: isValid_def lookup_def edges_def map_of_eq_None_iff)

lemma assertValid_edge: "assertValid matrix str name a b = Inr row \<Longrightarrow> (a, b) \<in> edges matrix"
  by (auto simp: assertValid_def isValid_iff_edge [symmetric] isValid_def split: option.splits)

lemma assertValid_no_edge:
  "(a, b) \<notin> edges matrix \<Longrightarrow> assertValid matrix str name a b = Inl (str a, str b, name)"
  by (auto simp: assertValid_def isValid_iff_edge [symmetric] isValid_def split: option.splits)

text \<open>
  A well-formed matrix has one row per edge, so that the row the map returns is the row of the
  array, and no row stays in its state.
\<close>

locale transition_system =
  fixes matrix :: "'s transition_row list"
  assumes distinct_edges: "distinct (map edge_of matrix)"
    and irreflexive: "row \<in> set matrix \<Longrightarrow> fromState row \<noteq> toState row"
begin

lemma lookup_row:
  assumes "row \<in> set matrix"
  shows "lookup matrix (edge_of row) = Some row"
proof -
  have "distinct (map fst (rev (map (\<lambda>row. (edge_of row, row)) matrix)))"
    using distinct_edges by (simp add: rev_map [symmetric] comp_def)
  then show ?thesis
    unfolding lookup_def using assms by (intro map_of_is_SomeI) auto
qed

lemma lookup_Some: "lookup matrix (a, b) = Some row \<longleftrightarrow> row \<in> set matrix \<and> edge_of row = (a, b)"
proof
  assume "lookup matrix (a, b) = Some row"
  then show "row \<in> set matrix \<and> edge_of row = (a, b)"
    unfolding lookup_def by (auto dest!: map_of_SomeD)
next
  assume "row \<in> set matrix \<and> edge_of row = (a, b)"
  then show "lookup matrix (a, b) = Some row"
    using lookup_row by metis
qed

lemma assertValid_exact:
  "assertValid matrix str name a b = Inr row \<longleftrightarrow> row \<in> set matrix \<and> edge_of row = (a, b)"
  using lookup_Some [of a b row] by (auto simp: assertValid_def split: option.splits)

lemma no_self_edge: "(a, a) \<notin> edges matrix"
  using irreflexive by (force simp: edges_def edge_of_def)

lemma distinct_validNextStates: "distinct (validNextStates matrix a)"
  using distinct_edges
proof (induction matrix)
  case (Cons row rows)
  then show ?case
    using set_validNextStates [of rows a] by (auto simp: edges_def edge_of_def)
qed simp

end

lemmas matrix_defs =
  PLAN_LIFECYCLE_MATRIX_def PROJECT_LIFECYCLE_MATRIX_def AUTOMATION_CONTROL_MATRIX_def
  AGENT_RUN_MATRIX_def WORKFLOW_RUN_MATRIX_def ARTIFACT_EXPORT_MATRIX_def
  CLARIFICATION_MATRIX_def

lemmas fe_matrix_defs =
  FEATURE_EXECUTION_MATRIX_def FE_MAIN_FLOW_def FE_REPOSITORY_DIVERGENCE_def
  FE_CI_OUTCOMES_def FE_REVIEW_LOOP_def FE_MERGE_PATH_def FE_FAILURE_STATES_def
  FE_HUMAN_DISPOSITIONS_def

interpretation plan_lifecycle: transition_system PLAN_LIFECYCLE_MATRIX
  by unfold_locales (auto simp: matrix_defs edge_of_def)

interpretation project_lifecycle: transition_system PROJECT_LIFECYCLE_MATRIX
  by unfold_locales (auto simp: matrix_defs edge_of_def)

interpretation automation_control: transition_system AUTOMATION_CONTROL_MATRIX
  by unfold_locales (auto simp: matrix_defs edge_of_def)

interpretation agent_run: transition_system AGENT_RUN_MATRIX
  by unfold_locales (auto simp: matrix_defs edge_of_def)

interpretation workflow_run: transition_system WORKFLOW_RUN_MATRIX
  by unfold_locales (auto simp: matrix_defs edge_of_def)

interpretation artifact_export: transition_system ARTIFACT_EXPORT_MATRIX
  by unfold_locales (auto simp: matrix_defs edge_of_def)

interpretation clarification: transition_system CLARIFICATION_MATRIX
  by unfold_locales (auto simp: matrix_defs edge_of_def)

section \<open>The feature execution machine\<close>

lemma fe_edge_list:
  "map edge_of FEATURE_EXECUTION_MATRIX =
     [(FE_APPROVED_PENDING_EXECUTION, FE_SELECTED), (FE_SELECTED, FE_CODING), (FE_CODING,
      FE_CODE_PUSHED), (FE_CODE_PUSHED, FE_PR_OPENED), (FE_PR_OPENED, FE_CI_RUNNING),
      (FE_PR_OPENED, FE_HUMAN_REQUIRED), (FE_CI_RUNNING, FE_HUMAN_REQUIRED),
      (FE_APPROVED_PENDING_EXECUTION, FE_HUMAN_REQUIRED), (FE_SELECTED, FE_HUMAN_REQUIRED),
      (FE_CODING, FE_HUMAN_REQUIRED), (FE_CODE_PUSHED, FE_HUMAN_REQUIRED),
      (FE_CHANGES_REQUESTED, FE_HUMAN_REQUIRED), (FE_FIXING, FE_HUMAN_REQUIRED),
      (FE_APPROVED_BY_POLICY, FE_HUMAN_REQUIRED), (FE_MERGE_READY, FE_HUMAN_REQUIRED),
      (FE_CI_RUNNING, FE_UNDER_REVIEW), (FE_CI_RUNNING, FE_CI_FAILED), (FE_CI_FAILED,
      FE_CHANGES_REQUESTED), (FE_CI_FAILED, FE_HUMAN_REQUIRED), (FE_UNDER_REVIEW,
      FE_CHANGES_REQUESTED), (FE_UNDER_REVIEW, FE_HUMAN_REQUIRED), (FE_UNDER_REVIEW,
      FE_APPROVED_BY_POLICY), (FE_CHANGES_REQUESTED, FE_FIXING), (FE_FIXING, FE_CODE_PUSHED),
      (FE_APPROVED_BY_POLICY, FE_MERGE_READY), (FE_MERGE_READY, FE_MERGED), (FE_MERGE_READY,
      FE_MERGE_FAILED), (FE_MERGE_FAILED, FE_UNDER_REVIEW), (FE_MERGE_FAILED,
      FE_HUMAN_REQUIRED), (FE_FAILED, FE_HUMAN_REQUIRED), (FE_SYSTEM_FAILED, FE_HUMAN_REQUIRED),
      (FE_BLOCKED, FE_APPROVED_PENDING_EXECUTION), (FE_HUMAN_REQUIRED, FE_CHANGES_REQUESTED),
      (FE_HUMAN_REQUIRED, FE_UNDER_REVIEW), (FE_HUMAN_REQUIRED, FE_SELECTED),
      (FE_HUMAN_REQUIRED, FE_SKIPPED), (FE_HUMAN_REQUIRED, FE_BLOCKED),
      (FE_APPROVED_PENDING_EXECUTION, FE_BLOCKED)]"
  by (simp add: fe_matrix_defs edge_of_def)

interpretation feature_execution: transition_system FEATURE_EXECUTION_MATRIX
proof
  show "distinct (map edge_of FEATURE_EXECUTION_MATRIX)"
    by (simp add: fe_edge_list)
  fix row assume "row \<in> set FEATURE_EXECUTION_MATRIX"
  then have "edge_of row \<in> set (map edge_of FEATURE_EXECUTION_MATRIX)"
    by simp
  then show "fromState row \<noteq> toState row"
    unfolding fe_edge_list by (auto simp: edge_of_def)
qed

definition fe_edges :: "(FeatureExecutionState \<times> FeatureExecutionState) set" where
  "fe_edges = edges FEATURE_EXECUTION_MATRIX"

lemma fe_edges_eq:
  "fe_edges = set [(FE_APPROVED_PENDING_EXECUTION, FE_SELECTED), (FE_SELECTED, FE_CODING), (FE_CODING,
      FE_CODE_PUSHED), (FE_CODE_PUSHED, FE_PR_OPENED), (FE_PR_OPENED, FE_CI_RUNNING),
      (FE_PR_OPENED, FE_HUMAN_REQUIRED), (FE_CI_RUNNING, FE_HUMAN_REQUIRED),
      (FE_APPROVED_PENDING_EXECUTION, FE_HUMAN_REQUIRED), (FE_SELECTED, FE_HUMAN_REQUIRED),
      (FE_CODING, FE_HUMAN_REQUIRED), (FE_CODE_PUSHED, FE_HUMAN_REQUIRED),
      (FE_CHANGES_REQUESTED, FE_HUMAN_REQUIRED), (FE_FIXING, FE_HUMAN_REQUIRED),
      (FE_APPROVED_BY_POLICY, FE_HUMAN_REQUIRED), (FE_MERGE_READY, FE_HUMAN_REQUIRED),
      (FE_CI_RUNNING, FE_UNDER_REVIEW), (FE_CI_RUNNING, FE_CI_FAILED), (FE_CI_FAILED,
      FE_CHANGES_REQUESTED), (FE_CI_FAILED, FE_HUMAN_REQUIRED), (FE_UNDER_REVIEW,
      FE_CHANGES_REQUESTED), (FE_UNDER_REVIEW, FE_HUMAN_REQUIRED), (FE_UNDER_REVIEW,
      FE_APPROVED_BY_POLICY), (FE_CHANGES_REQUESTED, FE_FIXING), (FE_FIXING, FE_CODE_PUSHED),
      (FE_APPROVED_BY_POLICY, FE_MERGE_READY), (FE_MERGE_READY, FE_MERGED), (FE_MERGE_READY,
      FE_MERGE_FAILED), (FE_MERGE_FAILED, FE_UNDER_REVIEW), (FE_MERGE_FAILED,
      FE_HUMAN_REQUIRED), (FE_FAILED, FE_HUMAN_REQUIRED), (FE_SYSTEM_FAILED, FE_HUMAN_REQUIRED),
      (FE_BLOCKED, FE_APPROVED_PENDING_EXECUTION), (FE_HUMAN_REQUIRED, FE_CHANGES_REQUESTED),
      (FE_HUMAN_REQUIRED, FE_UNDER_REVIEW), (FE_HUMAN_REQUIRED, FE_SELECTED),
      (FE_HUMAN_REQUIRED, FE_SKIPPED), (FE_HUMAN_REQUIRED, FE_BLOCKED),
      (FE_APPROVED_PENDING_EXECUTION, FE_BLOCKED)]"
  unfolding fe_edges_def edges_def fe_edge_list by (rule refl)

text \<open>The handlers' \<open>validator.assertValid(from, to)\<close> on the feature machine.\<close>

definition fe_valid :: "FeatureExecutionState \<Rightarrow> FeatureExecutionState \<Rightarrow> bool" where
  "fe_valid a b = isValid FEATURE_EXECUTION_MATRIX a b"

lemma fe_valid_iff: "fe_valid a b \<longleftrightarrow> (a, b) \<in> fe_edges"
  by (simp add: fe_valid_def isValid_iff_edge fe_edges_def)

lemma merged_terminal: "(FE_MERGED, b) \<notin> fe_edges"
  by (auto simp: fe_edges_eq)

lemma skipped_terminal: "(FE_SKIPPED, b) \<notin> fe_edges"
  by (auto simp: fe_edges_eq)

lemma into_merged: "(a, FE_MERGED) \<in> fe_edges \<longleftrightarrow> a = FE_MERGE_READY"
  by (auto simp: fe_edges_eq)

lemma into_skipped: "(a, FE_SKIPPED) \<in> fe_edges \<longleftrightarrow> a = FE_HUMAN_REQUIRED"
  by (auto simp: fe_edges_eq)

lemma into_merge_ready: "(a, FE_MERGE_READY) \<in> fe_edges \<longleftrightarrow> a = FE_APPROVED_BY_POLICY"
  by (auto simp: fe_edges_eq)

lemma into_approved: "(a, FE_APPROVED_BY_POLICY) \<in> fe_edges \<longleftrightarrow> a = FE_UNDER_REVIEW"
  by (auto simp: fe_edges_eq)

lemma into_fixing: "(a, FE_FIXING) \<in> fe_edges \<longleftrightarrow> a = FE_CHANGES_REQUESTED"
  by (auto simp: fe_edges_eq)

lemma into_coding: "(a, FE_CODING) \<in> fe_edges \<longleftrightarrow> a = FE_SELECTED"
  by (auto simp: fe_edges_eq)

text \<open>The two failure states can be left but, in this matrix, never entered.\<close>

lemma failure_states_unreachable: "(a, FE_FAILED) \<notin> fe_edges" "(a, FE_SYSTEM_FAILED) \<notin> fe_edges"
  by (auto simp: fe_edges_eq)

text \<open>Every state but the two terminal ones can reach a merge.\<close>

lemma can_reach_merged:
  assumes "a \<noteq> FE_SKIPPED"
  shows "(a, FE_MERGED) \<in> fe_edges\<^sup>*"
proof -
  have main: "(FE_SELECTED, FE_MERGED) \<in> fe_edges\<^sup>*" "(FE_HUMAN_REQUIRED, FE_MERGED) \<in> fe_edges\<^sup>*"
  proof -
    have e: "(FE_SELECTED, FE_CODING) \<in> fe_edges" "(FE_CODING, FE_CODE_PUSHED) \<in> fe_edges"
      "(FE_CODE_PUSHED, FE_PR_OPENED) \<in> fe_edges" "(FE_PR_OPENED, FE_CI_RUNNING) \<in> fe_edges"
      "(FE_CI_RUNNING, FE_UNDER_REVIEW) \<in> fe_edges"
      "(FE_UNDER_REVIEW, FE_APPROVED_BY_POLICY) \<in> fe_edges"
      "(FE_APPROVED_BY_POLICY, FE_MERGE_READY) \<in> fe_edges"
      "(FE_MERGE_READY, FE_MERGED) \<in> fe_edges" "(FE_HUMAN_REQUIRED, FE_SELECTED) \<in> fe_edges"
      by (simp_all add: fe_edges_eq)
    show "(FE_SELECTED, FE_MERGED) \<in> fe_edges\<^sup>*"
      by (intro e(1-8) [THEN converse_rtrancl_into_rtrancl] rtrancl_refl)
    with e(9) show "(FE_HUMAN_REQUIRED, FE_MERGED) \<in> fe_edges\<^sup>*"
      by (rule converse_rtrancl_into_rtrancl)
  qed
  have "(a, FE_HUMAN_REQUIRED) \<in> fe_edges
      \<or> a \<in> {FE_HUMAN_REQUIRED, FE_MERGED, FE_BLOCKED}"
    using assms by (cases a) (simp_all add: fe_edges_eq)
  moreover have "(FE_BLOCKED, FE_APPROVED_PENDING_EXECUTION) \<in> fe_edges"
    "(FE_APPROVED_PENDING_EXECUTION, FE_SELECTED) \<in> fe_edges"
    by (simp_all add: fe_edges_eq)
  ultimately show ?thesis
    using main by (auto intro: converse_rtrancl_into_rtrancl)
qed

section \<open>The automation control machine\<close>

definition au_edges :: "(AutomationState \<times> AutomationState) set" where
  "au_edges = edges AUTOMATION_CONTROL_MATRIX"

definition au_valid :: "AutomationState \<Rightarrow> AutomationState \<Rightarrow> bool" where
  "au_valid a b = isValid AUTOMATION_CONTROL_MATRIX a b"

lemma au_edges_eq:
  "au_edges = set [(AU_RUNNING, AU_PAUSED_BY_OPERATOR), (AU_PAUSED_BY_OPERATOR, AU_RUNNING), (AU_RUNNING,
      AU_PAUSED_BUDGET_EXCEEDED), (AU_PAUSED_BUDGET_EXCEEDED, AU_RUNNING), (AU_RUNNING,
      AU_WAITING_FOR_BUDGET_APPROVAL), (AU_WAITING_FOR_BUDGET_APPROVAL, AU_RUNNING)]"
  by (simp add: au_edges_def edges_def edge_of_def matrix_defs)

lemma au_valid_iff: "au_valid a b \<longleftrightarrow> (a, b) \<in> au_edges"
  by (simp add: au_valid_def isValid_iff_edge au_edges_def)

end
