(* ===== verification/FeatureRuns.thy ===== *)
theory FeatureRuns
  imports Commands StateMachine
begin

text \<open>
  The statements the feature command handlers share, and what they do to the tables: the SELECT
  that joins a run to its request's project, the validator call, the compare-and-set UPDATE of a
  run, and the UPDATE that clears a project's active run. Then the guarantee every command keeps
  (\<open>evolves\<close>): the logs only grow, each run only moves along edges of its matrix, one
  version per edge, and so do the automation states.
\<close>

section \<open>Statements\<close>

text \<open>
  \<open>SELECT ... FROM feature_runs fr JOIN feature_requests freq ON ... WHERE fr.id = ? AND
  freq.project_id = ?\<close>, first row.
\<close>

definition run_in_project :: "string \<Rightarrow> store \<Rightarrow> feature_run_row \<Rightarrow> bool" where
  "run_in_project projectId s r =
     list_ex (\<lambda>q. req_id q = run_feature_request_id r \<and> req_project_id q = projectId)
       (feature_requests s)"

definition find_run :: "string \<Rightarrow> string \<Rightarrow> store \<Rightarrow> feature_run_row option" where
  "find_run featureRunId projectId s =
     first_row (filter (\<lambda>r. run_id r = featureRunId \<and> run_in_project projectId s r) (feature_runs s))"

definition workflow_state_of :: "string \<Rightarrow> store \<Rightarrow> workflow_state_row option" where
  "workflow_state_of projectId s =
     first_row (filter (\<lambda>w. ws_project_id w = projectId) (workflow_states s))"

text \<open>\<open>wsRows[0]?.active_feature_run_id\<close>.\<close>

definition active_run_of :: "string \<Rightarrow> store \<Rightarrow> string option" where
  "active_run_of projectId s =
     (case workflow_state_of projectId s of None \<Rightarrow> None | Some w \<Rightarrow> ws_active_feature_run_id w)"

text \<open>The dependencies of a request none of whose runs has merged.\<close>

definition unmet_dependencies :: "string \<Rightarrow> store \<Rightarrow> feature_dependency_row list" where
  "unmet_dependencies requestId s =
     filter (\<lambda>d. dep_source_fr_id d = requestId
               \<and> \<not> list_ex (\<lambda>r. run_feature_request_id r = dep_target_fr_id d \<and> run_state r = FE_MERGED)
                     (feature_runs s))
       (feature_dependencies s)"

text \<open>\<open>validator.assertValid(from, to)\<close>.\<close>

definition fe_assertValid :: "FeatureExecutionState \<Rightarrow> FeatureExecutionState \<Rightarrow> unit tx" where
  "fe_assertValid from_s to_s =
     (case assertValid FEATURE_EXECUTION_MATRIX fe_str ''feature-execution'' from_s to_s of
        Inl (a, b, m) \<Rightarrow> throwT (TransitionError a b m)
      | Inr _ \<Rightarrow> returnT ())"

definition au_assertValid :: "AutomationState \<Rightarrow> AutomationState \<Rightarrow> unit tx" where
  "au_assertValid from_s to_s =
     (case assertValid AUTOMATION_CONTROL_MATRIX au_str ''automation-control'' from_s to_s of
        Inl (a, b, m) \<Rightarrow> throwT (TransitionError a b m)
      | Inr _ \<Rightarrow> returnT ())"

text \<open>
  \<open>UPDATE feature_runs SET current_execution_state = ?, version = ?, updated_at = ? WHERE id = ?
  AND version = ?\<close>, with the number of affected rows.
\<close>

definition at_version :: "string \<Rightarrow> int \<Rightarrow> feature_run_row \<Rightarrow> bool" where
  "at_version featureRunId v r = (run_id r = featureRunId \<and> run_version r = v)"

definition set_run_state ::
    "FeatureExecutionState \<Rightarrow> int \<Rightarrow> int \<Rightarrow> feature_run_row \<Rightarrow> feature_run_row" where
  "set_run_state to_s newVersion now r =
     r\<lparr>run_state := to_s, run_version := newVersion, run_updated_at := now\<rparr>"

definition cas_run ::
    "string \<Rightarrow> int \<Rightarrow> FeatureExecutionState \<Rightarrow> int \<Rightarrow> int \<Rightarrow> int tx" where
  "cas_run featureRunId expectedVersion to_s newVersion now =
     executeAffectedT (\<lambda>s. count_where (at_version featureRunId expectedVersion) (feature_runs s))
       (feature_runs_update
          (update_where (at_version featureRunId expectedVersion) (set_run_state to_s newVersion now)))"

text \<open>
  The same UPDATE with \<open>AND EXISTS (SELECT 1 FROM workflow_states WHERE project_id = ? AND
  automation_state = 'running')\<close>, and the one that also counts a fix attempt.
\<close>

definition automation_running :: "string \<Rightarrow> store \<Rightarrow> bool" where
  "automation_running projectId s =
     list_ex (\<lambda>w. ws_project_id w = projectId \<and> ws_automation_state w = AU_RUNNING) (workflow_states s)"

definition cas_run_if_running ::
    "string \<Rightarrow> int \<Rightarrow> FeatureExecutionState \<Rightarrow> int \<Rightarrow> int \<Rightarrow> string \<Rightarrow> int tx" where
  "cas_run_if_running featureRunId expectedVersion to_s newVersion now projectId =
     executeAffectedT
       (\<lambda>s. count_where (\<lambda>r. at_version featureRunId expectedVersion r \<and> automation_running projectId s)
              (feature_runs s))
       (\<lambda>s. feature_runs_update
          (update_where (\<lambda>r. at_version featureRunId expectedVersion r \<and> automation_running projectId s)
             (set_run_state to_s newVersion now)) s)"

definition cas_run_fix_attempt ::
    "string \<Rightarrow> int \<Rightarrow> FeatureExecutionState \<Rightarrow> int \<Rightarrow> int \<Rightarrow> int tx" where
  "cas_run_fix_attempt featureRunId expectedVersion to_s newVersion now =
     executeAffectedT (\<lambda>s. count_where (at_version featureRunId expectedVersion) (feature_runs s))
       (feature_runs_update
          (update_where (at_version featureRunId expectedVersion)
             (\<lambda>r. (set_run_state to_s newVersion now r)
                    \<lparr>run_fix_attempt_count := run_fix_attempt_count r + 1\<rparr>)))"

text \<open>
  \<open>UPDATE workflow_states SET active_feature_run_id = NULL, version = version + 1, updated_at = ?
  WHERE project_id = ? AND active_feature_run_id = ?\<close>.
\<close>

definition clear_active_run :: "string \<Rightarrow> string \<Rightarrow> int \<Rightarrow> int tx" where
  "clear_active_run projectId featureRunId now =
     executeAffectedT
       (\<lambda>s. count_where (\<lambda>w. ws_project_id w = projectId \<and> ws_active_feature_run_id w = Some featureRunId)
              (workflow_states s))
       (workflow_states_update
          (update_where (\<lambda>w. ws_project_id w = projectId \<and> ws_active_feature_run_id w = Some featureRunId)
             (\<lambda>w. w\<lparr>ws_active_feature_run_id := None, ws_version := ws_version w + 1,
                    ws_updated_at := now\<rparr>)))"

text \<open>
  \<open>UPDATE workflow_states SET active_feature_run_id = ?, version = version + 1, updated_at = ? WHERE
  project_id = ? AND automation_state = 'running' AND active_feature_run_id IS NULL\<close>.
\<close>

definition activate_run :: "string \<Rightarrow> string \<Rightarrow> int \<Rightarrow> int tx" where
  "activate_run projectId featureRunId now =
     executeAffectedT
       (\<lambda>s. count_where (\<lambda>w. ws_project_id w = projectId \<and> ws_automation_state w = AU_RUNNING
                          \<and> ws_active_feature_run_id w = None) (workflow_states s))
       (workflow_states_update
          (update_where (\<lambda>w. ws_project_id w = projectId \<and> ws_automation_state w = AU_RUNNING
                          \<and> ws_active_feature_run_id w = None)
             (\<lambda>w. w\<lparr>ws_active_feature_run_id := Some featureRunId, ws_version := ws_version w + 1,
                    ws_updated_at := now\<rparr>)))"

text \<open>The error of a run that is not in the project, common to the handlers that throw it.\<close>

definition run_not_found :: "'p envelope \<Rightarrow> string \<Rightarrow> string \<Rightarrow> error" where
  "run_not_found envelope featureRunId projectId =
     commandError ''not-found'' ''Feature run not found'' 404
       (''Feature run '' @ featureRunId @ '' not found in project '' @ projectId)
       (Some (correlationId envelope))"

text \<open>\<open>if (x)\<close> for an optional string: absent and empty are both false.\<close>

definition truthy :: "string option \<Rightarrow> bool" where
  "truthy x = (case x of None \<Rightarrow> False | Some v \<Rightarrow> v \<noteq> [])"

text \<open>The result record the handlers return.\<close>

definition accepted_result :: "'p envelope \<Rightarrow> string \<Rightarrow> string list \<Rightarrow> command_result" where
  "accepted_result envelope st eventIds =
     \<lparr>res_commandId = commandId envelope, res_accepted = True, res_resultingState = st,
      res_emittedEventIds = eventIds\<rparr>"

text \<open>The payload fields every run command has.\<close>

record run_payload =
  p_featureRunId :: string
  p_projectId :: string
  p_expectedVersion :: int


section \<open>How rows may move\<close>

text \<open>
  One step of a run row: along an edge, at the next version. Only a step into
  \<open>changes_requested\<close> may count a fix attempt, and only below the threshold.
\<close>

inductive run_step :: "feature_run_row \<Rightarrow> feature_run_row \<Rightarrow> bool" where
  move: "(run_state r, to_s) \<in> fe_edges \<Longrightarrow>
         run_step r (set_run_state to_s (run_version r + 1) now r)"
| fix_attempt: "(run_state r, FE_CHANGES_REQUESTED) \<in> fe_edges \<Longrightarrow>
         run_fix_attempt_count r < FIX_ATTEMPT_THRESHOLD \<Longrightarrow>
         run_step r ((set_run_state FE_CHANGES_REQUESTED (run_version r + 1) now r)
                       \<lparr>run_fix_attempt_count := run_fix_attempt_count r + 1\<rparr>)"

text \<open>
  One step of a project's workflow row: a run becomes active while none is and automation is
  running, the active run is cleared, or the automation state moves along an edge.
\<close>

inductive ws_step :: "workflow_state_row \<Rightarrow> workflow_state_row \<Rightarrow> bool" where
  activate: "ws_active_feature_run_id w = None \<Longrightarrow> ws_automation_state w = AU_RUNNING \<Longrightarrow>
         ws_step w (w\<lparr>ws_active_feature_run_id := Some i, ws_version := ws_version w + 1,
                      ws_updated_at := now\<rparr>)"
| clear: "ws_active_feature_run_id w = Some i \<Longrightarrow>
         ws_step w (w\<lparr>ws_active_feature_run_id := None, ws_version := ws_version w + 1,
                      ws_updated_at := now\<rparr>)"
| automation: "(ws_automation_state w, to_s) \<in> au_edges \<Longrightarrow>
         ws_step w (w\<lparr>ws_automation_state := to_s, ws_version := ws_version w + 1,
                      ws_updated_at := now\<rparr>)"

lemma run_step_edge: "run_step r r' \<Longrightarrow> (run_state r, run_state r') \<in> fe_edges"
  by (induction rule: run_step.induct) (simp_all add: set_run_state_def)

lemma run_step_frame:
  "run_step r r' \<Longrightarrow> run_id r' = run_id r \<and> run_feature_request_id r' = run_feature_request_id r"
  by (induction rule: run_step.induct) (simp_all add: set_run_state_def)

lemma run_step_version: "run_step r r' \<Longrightarrow> run_version r' = run_version r + 1"
  by (induction rule: run_step.induct) (simp_all add: set_run_state_def)

lemma run_step_fix_bound:
  "run_step r r' \<Longrightarrow> run_fix_attempt_count r \<le> FIX_ATTEMPT_THRESHOLD \<Longrightarrow>
   run_fix_attempt_count r' \<le> FIX_ATTEMPT_THRESHOLD"
  by (induction rule: run_step.induct) (simp_all add: set_run_state_def FIX_ATTEMPT_THRESHOLD_def)

lemma ws_step_frame: "ws_step w w' \<Longrightarrow> ws_id w' = ws_id w \<and> ws_project_id w' = ws_project_id w"
  by (induction rule: ws_step.induct) simp_all

lemma ws_step_version: "ws_step w w' \<Longrightarrow> ws_version w' = ws_version w + 1"
  by (induction rule: ws_step.induct) simp_all

definition run_moves :: "feature_run_row \<Rightarrow> feature_run_row \<Rightarrow> bool" where
  "run_moves = run_step\<^sup>*\<^sup>*"

definition ws_moves :: "workflow_state_row \<Rightarrow> workflow_state_row \<Rightarrow> bool" where
  "ws_moves = ws_step\<^sup>*\<^sup>*"

lemma run_moves_refl [simp]: "run_moves r r"
  by (simp add: run_moves_def)

lemma run_moves_trans: "run_moves a b \<Longrightarrow> run_moves b c \<Longrightarrow> run_moves a c"
  unfolding run_moves_def by (rule rtranclp_trans)

lemma run_moves_step: "run_step a b \<Longrightarrow> run_moves a b"
  unfolding run_moves_def by (rule r_into_rtranclp)

lemma ws_moves_refl [simp]: "ws_moves w w"
  by (simp add: ws_moves_def)

lemma ws_moves_trans: "ws_moves a b \<Longrightarrow> ws_moves b c \<Longrightarrow> ws_moves a c"
  unfolding ws_moves_def by (rule rtranclp_trans)

lemma ws_moves_step: "ws_step a b \<Longrightarrow> ws_moves a b"
  unfolding ws_moves_def by (rule r_into_rtranclp)

text \<open>Every version counts one edge of the matrix.\<close>

lemma run_moves_path:
  assumes "run_moves r r'"
  shows "\<exists>n. (run_state r, run_state r') \<in> fe_edges ^^ n \<and> run_version r' = run_version r + int n"
  using assms unfolding run_moves_def
proof (induction rule: rtranclp_induct)
  case base
  then show ?case by (intro exI [of _ 0]) simp
next
  case (step y z)
  then obtain n where "(run_state r, run_state y) \<in> fe_edges ^^ n" "run_version y = run_version r + int n"
    by blast
  with step.hyps(2) show ?case
    by (intro exI [of _ "Suc n"]) (auto intro: relcompI simp: run_step_edge run_step_version)
qed

lemma run_moves_frame:
  "run_moves r r' \<Longrightarrow> run_id r' = run_id r \<and> run_feature_request_id r' = run_feature_request_id r"
  unfolding run_moves_def by (induction rule: rtranclp_induct) (auto dest: run_step_frame)

lemma run_moves_fix_bound:
  "run_moves r r' \<Longrightarrow> run_fix_attempt_count r \<le> FIX_ATTEMPT_THRESHOLD \<Longrightarrow>
   run_fix_attempt_count r' \<le> FIX_ATTEMPT_THRESHOLD"
  unfolding run_moves_def by (induction rule: rtranclp_induct) (auto intro: run_step_fix_bound)

lemma run_moves_terminal:
  assumes "run_moves r r'" "\<And>b. (run_state r, b) \<notin> fe_edges"
  shows "r' = r"
  using assms unfolding run_moves_def
  by (metis converse_rtranclpE run_step_edge)

lemma ws_moves_frame: "ws_moves w w' \<Longrightarrow> ws_id w' = ws_id w \<and> ws_project_id w' = ws_project_id w"
  unfolding ws_moves_def by (induction rule: rtranclp_induct) (auto dest: ws_step_frame)

lemma ws_moves_version: "ws_moves w w' \<Longrightarrow> ws_version w \<le> ws_version w'"
  unfolding ws_moves_def by (induction rule: rtranclp_induct) (auto dest: ws_step_version)

section \<open>The guarantee of a command\<close>

definition wf_store :: "store \<Rightarrow> bool" where
  "wf_store s = (distinct (map run_id (feature_runs s)) \<and> distinct (map ws_id (workflow_states s)))"

definition same_surroundings :: "store \<Rightarrow> store \<Rightarrow> bool" where
  "same_surroundings s t =
     (clock t = clock s \<and> entropy t = entropy s \<and> env_vars t = env_vars s
      \<and> feature_requests t = feature_requests s \<and> feature_dependencies t = feature_dependencies s
      \<and> repositories t = repositories s \<and> budget_policies t = budget_policies s
      \<and> cost_records t = cost_records s \<and> workflow_locks t = workflow_locks s
      \<and> inbox_events t = inbox_events s \<and> planning t = planning s \<and> agents t = agents s)"

text \<open>
  What a command may do to the outbox: append fresh events, pending and never attempted, with a
  payload that leaks no secret field, under identifiers no other event has.
\<close>

definition fresh_event :: "queue_row \<Rightarrow> bool" where
  "fresh_event q =
     (q_status q = EV_PENDING \<and> q_attempts q = 0 \<and> q_next_retry_at q = None \<and> q_version q = 1
      \<and> \<not> leaks (q_payload q))"

definition outbox_grows :: "queue_row list \<Rightarrow> queue_row list \<Rightarrow> bool" where
  "outbox_grows qs qs' =
     (\<exists>new. qs' = qs @ new \<and> list_all fresh_event new \<and> (distinct (map q_id qs) \<longrightarrow> distinct (map q_id qs')))"

lemma outbox_grows_refl [simp]: "outbox_grows qs qs"
  by (simp add: outbox_grows_def)

lemma outbox_grows_trans: "outbox_grows a b \<Longrightarrow> outbox_grows b c \<Longrightarrow> outbox_grows a c"
  by (fastforce simp: outbox_grows_def)

lemma outbox_grows_append:
  "fresh_event q \<Longrightarrow> q_id q \<notin> q_id ` set qs \<Longrightarrow> outbox_grows qs (qs @ [q])"
  by (auto simp: outbox_grows_def)

definition logs_grow :: "store \<Rightarrow> store \<Rightarrow> bool" where
  "logs_grow s t =
     (prefix (workflow_events s) (workflow_events t) \<and> outbox_grows (outbox_events s) (outbox_events t)
      \<and> prefix (human_approvals s) (human_approvals t)
      \<and> prefix (policy_decisions s) (policy_decisions t)
      \<and> prefix (merge_gate_evaluations s) (merge_gate_evaluations t)
      \<and> prefix (coder_responses s) (coder_responses t))"

definition rows_move :: "store \<Rightarrow> store \<Rightarrow> bool" where
  "rows_move s t =
     (list_all2 run_moves (feature_runs s) (feature_runs t)
      \<and> list_all2 ws_moves (workflow_states s) (workflow_states t))"

definition evolves :: "store \<Rightarrow> store \<Rightarrow> bool" where
  "evolves s t = (same_surroundings s t \<and> logs_grow s t \<and> (wf_store s \<longrightarrow> wf_store t \<and> rows_move s t))"

text \<open>A body, between claiming and fulfilling its slot, leaves the idempotency table alone.\<close>

definition body_evolves :: "store \<Rightarrow> store \<Rightarrow> bool" where
  "body_evolves s t = (evolves s t \<and> idempotency_keys t = idempotency_keys s)"

lemma rows_move_refl: "rows_move s s"
  by (simp add: rows_move_def list_all2_refl)

lemma rows_move_trans: "rows_move s t \<Longrightarrow> rows_move t u \<Longrightarrow> rows_move s u"
  unfolding rows_move_def
  using list_all2_trans [where ?P1.0 = run_moves and ?P2.0 = run_moves and ?P3.0 = run_moves]
    list_all2_trans [where ?P1.0 = ws_moves and ?P2.0 = ws_moves and ?P3.0 = ws_moves]
    run_moves_trans ws_moves_trans by meson

lemma evolves_refl: "evolves s s"
  by (simp add: evolves_def same_surroundings_def logs_grow_def rows_move_refl)

lemma evolves_trans: "evolves s t \<Longrightarrow> evolves t u \<Longrightarrow> evolves s u"
  unfolding evolves_def same_surroundings_def logs_grow_def
  by (auto intro: rows_move_trans prefix_order.trans outbox_grows_trans)

interpretation evo: claim_guarantee evolves
proof
  show "evolves s s" for s by (rule evolves_refl)
  show "evolves s u" if "evolves s t" "evolves t u" for s t u using that by (rule evolves_trans)
  show "evolves s (idempotency_keys_update f s)" "evolves s (s\<lparr>draws := d\<rparr>)" for s f d
    by (simp_all add: evolves_def same_surroundings_def logs_grow_def rows_move_def wf_store_def list_all2_refl)
qed

interpretation body: store_guarantee body_evolves
  by unfold_locales (auto simp: body_evolves_def intro: evolves_refl evolves_trans)

lemmas guarantee_defs =
  body_evolves_def evolves_def same_surroundings_def logs_grow_def rows_move_def

lemma body_evolves_frame:
  assumes "feature_runs t = feature_runs s" "workflow_states t = workflow_states s"
    "same_surroundings s t" "logs_grow s t" "idempotency_keys t = idempotency_keys s"
  shows "body_evolves s t"
  using assms by (auto simp: body_evolves_def evolves_def rows_move_def wf_store_def list_all2_refl)


section \<open>What each statement guarantees\<close>

lemma list_all2_update_where:
  assumes "\<And>r. r \<in> set rows \<Longrightarrow> p r \<Longrightarrow> P r (f r)" "\<And>r. P r r"
  shows "list_all2 P rows (update_where p f rows)"
  using assms by (auto simp: update_where_def list_all2_conv_all_nth)

lemma map_update_where_on:
  assumes "\<And>r. r \<in> set rows \<Longrightarrow> p r \<Longrightarrow> g (f r) = g r"
  shows "map g (update_where p f rows) = map g rows"
  using assms by (simp add: update_where_def)

lemma body_update_runs:
  assumes "\<And>r. wf_store s \<Longrightarrow> r \<in> set (feature_runs s) \<Longrightarrow> p r \<Longrightarrow> run_step r (f r)"
  shows "body_evolves s (feature_runs_update (update_where p f) s)"
proof -
  have "map run_id (update_where p f (feature_runs s)) = map run_id (feature_runs s)" if "wf_store s"
    using assms [OF that] by (intro map_update_where_on) (simp add: run_step_frame)
  moreover have "list_all2 run_moves (feature_runs s) (update_where p f (feature_runs s))" if "wf_store s"
    using assms [OF that] by (intro list_all2_update_where) (simp_all add: run_moves_step)
  ultimately show ?thesis
    by (simp add: guarantee_defs wf_store_def list_all2_refl)
qed

lemma body_update_ws:
  assumes "\<And>w. wf_store s \<Longrightarrow> w \<in> set (workflow_states s) \<Longrightarrow> p w \<Longrightarrow> ws_step w (f w)"
  shows "body_evolves s (workflow_states_update (update_where p f) s)"
proof -
  have "map ws_id (update_where p f (workflow_states s)) = map ws_id (workflow_states s)" if "wf_store s"
    using assms [OF that] by (intro map_update_where_on) (simp add: ws_step_frame)
  moreover have "list_all2 ws_moves (workflow_states s) (update_where p f (workflow_states s))" if "wf_store s"
    using assms [OF that] by (intro list_all2_update_where) (simp_all add: ws_moves_step)
  ultimately show ?thesis
    by (simp add: guarantee_defs wf_store_def list_all2_refl)
qed

lemma find_run_Some:
  assumes "find_run i p s = Some r"
  shows "r \<in> set (feature_runs s)" "run_id r = i" "run_in_project p s r"
  using assms by (auto simp: find_run_def dest: first_row_in)

text \<open>In a well-formed store, the row a SELECT by id found is the row the UPDATE changes.\<close>

lemma at_version_unique:
  assumes "find_run i p s = Some r" "wf_store s" "r' \<in> set (feature_runs s)" "at_version i v r'"
  shows "r' = r"
  using assms find_run_Some [OF assms(1)]
  by (auto simp: wf_store_def at_version_def intro: distinct_map_unique)

lemma workflow_state_of_Some:
  assumes "workflow_state_of p s = Some w"
  shows "w \<in> set (workflow_states s)" "ws_project_id w = p"
  using assms by (auto simp: workflow_state_of_def dest: first_row_in)

text \<open>
  The compare-and-set rules. \<open>s0\<close> is where the body began; the run was found, at the expected
  version, in a state the matrix lets move to \<open>to_s\<close>.
\<close>

lemma wp_body_chain:
  assumes "body_evolves s0 s" "body_evolves s t" "body.keeps k"
  shows "wp k (\<lambda>_ u. body_evolves s0 u) (\<lambda>_. True) t"
  using body.keepsD [OF assms(3)]
  by (rule wp_mono) (use assms(1,2) in \<open>auto intro: body.R_trans\<close>)

lemma body_cas_run:
  assumes "body_evolves s0 s" "find_run i p s = Some r" "run_version r = v"
    "fe_valid (run_state r) to_s" "nv = v + 1" "\<And>a. body.keeps (k a)"
  shows "wp (bindT (cas_run i v to_s nv now) k) (\<lambda>_ u. body_evolves s0 u) (\<lambda>_. True) s"
  unfolding cas_run_def wp_bindT wp_executeAffectedT
proof (rule wp_body_chain [OF assms(1) body_update_runs assms(6)])
  fix r' assume "wf_store s" "r' \<in> set (feature_runs s)" "at_version i v r'"
  with assms(2) have "r' = r" by (auto intro: at_version_unique)
  with assms show "run_step r' (set_run_state to_s nv now r')"
    using run_step.move [of r to_s now] by (simp add: fe_valid_iff)
qed

lemma body_cas_run_if_running:
  assumes "body_evolves s0 s" "find_run i p s = Some r" "run_version r = v"
    "fe_valid (run_state r) to_s" "nv = v + 1" "\<And>a. body.keeps (k a)"
  shows "wp (bindT (cas_run_if_running i v to_s nv now q) k) (\<lambda>_ u. body_evolves s0 u) (\<lambda>_. True) s"
  unfolding cas_run_if_running_def wp_bindT wp_executeAffectedT
proof (rule wp_body_chain [OF assms(1) body_update_runs assms(6)])
  fix r' assume "wf_store s" "r' \<in> set (feature_runs s)" "at_version i v r' \<and> automation_running q s"
  with assms(2) have "r' = r" by (auto intro: at_version_unique)
  with assms show "run_step r' (set_run_state to_s nv now r')"
    using run_step.move [of r to_s now] by (simp add: fe_valid_iff)
qed

lemma body_cas_run_fix_attempt:
  assumes "body_evolves s0 s" "find_run i p s = Some r" "run_version r = v"
    "fe_valid (run_state r) FE_CHANGES_REQUESTED" "run_fix_attempt_count r < FIX_ATTEMPT_THRESHOLD"
    "nv = v + 1" "\<And>a. body.keeps (k a)"
  shows "wp (bindT (cas_run_fix_attempt i v FE_CHANGES_REQUESTED nv now) k)
           (\<lambda>_ u. body_evolves s0 u) (\<lambda>_. True) s"
  unfolding cas_run_fix_attempt_def wp_bindT wp_executeAffectedT
proof (rule wp_body_chain [OF assms(1) body_update_runs assms(7)])
  fix r' assume "wf_store s" "r' \<in> set (feature_runs s)" "at_version i v r'"
  with assms(2) have "r' = r" by (auto intro: at_version_unique)
  with assms show "run_step r' ((set_run_state FE_CHANGES_REQUESTED nv now r')
      \<lparr>run_fix_attempt_count := run_fix_attempt_count r' + 1\<rparr>)"
    using run_step.fix_attempt [of r now] by (simp add: fe_valid_iff)
qed

text \<open>Everything else a body does.\<close>

lemma body_frame_update:
  assumes "\<And>s. feature_runs (f s) = feature_runs s" "\<And>s. workflow_states (f s) = workflow_states s"
    "\<And>s. same_surroundings s (f s)" "\<And>s. logs_grow s (f s)"
    "\<And>s. idempotency_keys (f s) = idempotency_keys s"
  shows "body.keeps (executeT f)" "body.keeps (executeAffectedT c f)"
  using assms by (auto intro!: body.keepsI body_evolves_frame simp: wp_simps)

lemma body_generateId: "body.keeps generateId"
  by (rule body.keepsI)
    (auto simp: wp_simps same_surroundings_def logs_grow_def intro!: body_evolves_frame)

lemma body_insertT:
  assumes "\<And>f s. feature_runs (upd f s) = feature_runs s"
    "\<And>f s. workflow_states (upd f s) = workflow_states s"
    "\<And>f s. same_surroundings s (upd f s)"
    "\<And>row s. logs_grow s (upd (\<lambda>rows. rows @ [row]) s)"
    "\<And>f s. idempotency_keys (upd f s) = idempotency_keys s"
  shows "body.keeps (insertT table get upd key row)"
    "body.keeps (insertOnConflictT table get upd key uniq row)"
  using assms by (auto intro!: body.keepsI body_evolves_frame body.R_refl simp: wp_simps)

lemma body_clear_active_run: "body.keeps (clear_active_run p i now)"
proof (rule body.keepsI)
  fix s
  have "ws_step w (w\<lparr>ws_active_feature_run_id := None, ws_version := ws_version w + 1, ws_updated_at := now\<rparr>)"
    if "ws_active_feature_run_id w = Some i" for w
    using that by (rule ws_step.clear)
  then show "wp (clear_active_run p i now) (\<lambda>_ t. body_evolves s t) (\<lambda>_. True) s"
    by (auto simp: clear_active_run_def wp_simps intro: body_update_ws)
qed

lemma body_activate_run: "body.keeps (activate_run p i now)"
proof (rule body.keepsI)
  fix s
  have "ws_step w (w\<lparr>ws_active_feature_run_id := Some i, ws_version := ws_version w + 1, ws_updated_at := now\<rparr>)"
    if "ws_project_id w = p \<and> ws_automation_state w = AU_RUNNING \<and> ws_active_feature_run_id w = None" for w
    using that by (auto intro: ws_step.activate)
  then show "wp (activate_run p i now) (\<lambda>_ t. body_evolves s t) (\<lambda>_. True) s"
    by (auto simp: activate_run_def wp_simps intro: body_update_ws)
qed

lemmas body_insert_simps = same_surroundings_def logs_grow_def

lemma body_Let: "(\<And>x. body.keeps (m x)) \<Longrightarrow> body.keeps (Let a m)"
  by simp

lemma body_lock_fence: "body.keeps (assertLockFence ctx)"
  unfolding assertLockFence_def
  by (intro body.keeps_bindT body.keeps_queryT body.keeps_option body.keeps_if body.keeps_throwT
      body.keeps_returnT)

lemma body_workflow_event: "body.keeps (writeWorkflowEvent a b c d e f g)"
  unfolding writeWorkflowEvent_def
  by (intro body.keeps_bindT body.keeps_queryT body_generateId body.keeps_returnT body_insertT)
    (simp_all add: body_insert_simps)

lemma body_outbox_event: "body.keeps (writeOutboxEvent a b)"
  by (rule body.keepsI)
    (auto simp: writeOutboxEvent_def wp_simps body_insert_simps fresh_event_def Let_def no_leaks_after_redaction
      intro!: body_evolves_frame outbox_grows_append)

lemma body_policy_decision: "body.keeps (insertPolicyDecision a b c d e f)"
  unfolding insertPolicyDecision_def
  by (intro body.keeps_bindT body.keeps_queryT body_generateId body.keeps_returnT body_insertT)
    (simp_all add: body_insert_simps)

lemma body_human_approval: "body.keeps (insertHumanApproval a b c d e f g h)"
  unfolding insertHumanApproval_def
  by (intro body.keeps_bindT body.keeps_queryT body_generateId body.keeps_returnT body_insertT)
    (simp_all add: body_insert_simps)

lemmas body_rules =
  body.keeps_bindT body.keeps_queryT body.keeps_option body.keeps_if body.keeps_throwT
  body.keeps_returnT body.keeps_forEachT body_Let body_generateId body_clear_active_run body_activate_run
  body_lock_fence body_workflow_event body_outbox_event body_policy_decision body_human_approval

text \<open>
  The statements that come before the compare-and-set, executed one by one with their
  continuation; \<open>bind_simps\<close> leaves the compare-and-set itself in place.
\<close>

lemma bind_query [bind_simps]: "wp (bindT (queryT f) k) Q E s = wp (k (f s)) Q E s"
  by (simp add: wp_simps)

lemma bind_assoc [bind_simps]: "bindT (bindT m k) h = bindT m (\<lambda>a. bindT (k a) h)"
  by (rule ext) (simp add: bindT_def split: sum.splits prod.splits)

lemma bind_return [bind_simps]: "bindT (returnT a) k = k a"
  by (rule ext) (simp add: bindT_def returnT_def)

lemma bind_throw [bind_simps]: "bindT (throwT e) k = throwT e"
  by (rule ext) (simp add: bindT_def throwT_def)

lemma bind_assertVersion [bind_simps]:
  "wp (bindT (assertVersion table i ver row v) k) Q E s =
     (case row of
        None \<Rightarrow> E (OptimisticLockError table i v (-1))
      | Some r \<Rightarrow> if ver r \<noteq> v then E (OptimisticLockError table i v (ver r)) else wp (k r) Q E s)"
  by (simp add: wp_simps)

lemma fe_assertValid_eq:
  "fe_assertValid a b =
     (if fe_valid a b then returnT ()
      else throwT (TransitionError (fe_str a) (fe_str b) ''feature-execution''))"
  by (auto simp: fe_assertValid_def assertValid_def fe_valid_def isValid_def split: option.splits)

lemma au_assertValid_eq:
  "au_assertValid a b =
     (if au_valid a b then returnT ()
      else throwT (TransitionError (au_str a) (au_str b) ''automation-control''))"
  by (auto simp: au_assertValid_def assertValid_def au_valid_def isValid_def split: option.splits)

lemma bind_fe_assertValid [bind_simps]:
  "wp (bindT (fe_assertValid a b) k) Q E s =
     (if fe_valid a b then wp (k ()) Q E s
      else E (TransitionError (fe_str a) (fe_str b) ''feature-execution''))"
  by (simp add: fe_assertValid_eq wp_simps)

lemma bind_au_assertValid [bind_simps]:
  "wp (bindT (au_assertValid a b) k) Q E s =
     (if au_valid a b then wp (k ()) Q E s
      else E (TransitionError (au_str a) (au_str b) ''automation-control''))"
  by (simp add: au_assertValid_eq wp_simps)

text \<open>The fence check as a condition.\<close>

lemma wp_assertLockFence:
  "wp (assertLockFence ctx) Q E s =
     (if fence_held ctx s then Q () s
      else E (StaleFenceError (lc_lockId ctx) (lc_fence ctx)
                (case lock_by_id (lc_lockId ctx) s of None \<Rightarrow> -1 | Some l \<Rightarrow> wl_fence l)))"
proof (cases "lock_by_id (lc_lockId ctx) s")
  case (Some l)
  then show ?thesis
    by (cases "lc_projectId ctx"; cases "lc_resourceKey ctx"; cases "wl_expires_at l")
      (simp_all add: assertLockFence_def fence_held_def wp_simps)
qed (simp add: assertLockFence_def fence_held_def wp_simps)

definition lane_held :: "'p envelope \<Rightarrow> string \<Rightarrow> store \<Rightarrow> bool" where
  "lane_held envelope projectId s =
     (case lockContext envelope of
        None \<Rightarrow> False
      | Some ctx \<Rightarrow>
          fence_held (ctx\<lparr>lc_projectId := Some projectId,
                          lc_resourceKey := Some (''execution-lane:'' @ projectId)\<rparr>) s)"

lemma bind_requireExecutionLane:
  "wp (bindT (requireExecutionLane name envelope projectId) k) Q (\<lambda>_. True) s =
     (lane_held envelope projectId s \<longrightarrow> wp (k ()) Q (\<lambda>_. True) s)"
  by (auto simp: requireExecutionLane_def lane_held_def wp_simps wp_assertLockFence split: option.splits)

lemmas bind_steps [bind_simps] =
  bind_requireExecutionLane wp_throwT wp_returnT wp_option wp_if wp_Let Let_def nextVersion_def

lemmas handler_intros =
  body_cas_run body_cas_run_if_running body_cas_run_fix_attempt body.R_refl body_rules


section \<open>From a body to its handler\<close>

text \<open>A handler: one transaction that claims the slot, runs the body and fulfils the slot.\<close>

definition claimed_transaction_ttl ::
    "int \<Rightarrow> string \<Rightarrow> ('p envelope \<Rightarrow> command_result tx) \<Rightarrow> 'p envelope \<Rightarrow> command_result db_action" where
  "claimed_transaction_ttl ttlMs scope body envelope =
     transaction (with_claim_ttl ttlMs (idempotencyKey envelope) scope (body envelope))"

abbreviation claimed_transaction ::
    "string \<Rightarrow> ('p envelope \<Rightarrow> command_result tx) \<Rightarrow> 'p envelope \<Rightarrow> command_result db_action" where
  "claimed_transaction \<equiv> claimed_transaction_ttl IDEMPOTENCY_TTL_MS"

lemma evo_keeps_body: "body.keeps m \<Longrightarrow> evo.keeps m"
  unfolding body.keeps_def evo.keeps_def
  by (auto simp: body_evolves_def intro: wp_mono)

lemma claimed_transaction_evolves:
  assumes "\<And>e. body.keeps (body e)"
  shows "evo.keepsA (claimed_transaction_ttl ttl scope body e)"
  unfolding claimed_transaction_ttl_def by (intro evo.keeps_transaction evo.keeps_with_claim evo_keeps_body assms)

end
