(* ===== verification/Review.thy ===== *)
theory Review
  imports FeatureRuns
begin

text \<open>
  \<open>packages/core/src/review\<close> and \<open>packages/core/src/disagreement\<close>: normalising a reviewer's
  findings, writing them under deterministic ids, the ledger of reviewed commits, and the records
  of coder/reviewer disagreement. These writers run inside the transactions of the command
  handlers (or of the review task).
\<close>

section \<open>Findings\<close>

text \<open>A finding as the reviewer adapter returns it, and as \<open>ReviewFindingInsertSchema\<close> admits it.\<close>

record raw_finding =
  raw_severity :: string
  raw_category :: string
  raw_description :: string
  raw_filePath :: "string option"
  raw_lineStart :: "int option"
  raw_lineEnd :: "int option"

record finding_insert =
  fi_severity :: FindingSeverity
  fi_category :: string
  fi_description :: string
  fi_filePath :: "string option"
  fi_lineStart :: "int option"
  fi_lineEnd :: "int option"

fun severity_str :: "FindingSeverity \<Rightarrow> string" where
  "severity_str SEV_BLOCKING = ''blocking''"
| "severity_str SEV_NON_BLOCKING = ''non_blocking''"
| "severity_str SEV_QUESTION = ''question''"
| "severity_str SEV_NIT = ''nit''"
| "severity_str SEV_OUT_OF_SCOPE = ''out_of_scope''"
| "severity_str SEV_REQUIRES_HUMAN_DECISION = ''requires_human_decision''"

definition all_severities :: "FindingSeverity list" where
  "all_severities =
     [SEV_BLOCKING, SEV_NON_BLOCKING, SEV_QUESTION, SEV_NIT, SEV_OUT_OF_SCOPE,
      SEV_REQUIRES_HUMAN_DECISION]"

definition parse_severity :: "string \<Rightarrow> FindingSeverity option" where
  "parse_severity s = first_row (filter (\<lambda>v. severity_str v = s) all_severities)"

definition parseFinding :: "raw_finding \<Rightarrow> error + finding_insert" where
  "parseFinding f =
     (case parse_severity (raw_severity f) of
        None \<Rightarrow> Inl (OtherError ''ZodError'')
      | Some sev \<Rightarrow>
          (if raw_category f = [] \<or> raw_description f = []
              \<or> (case raw_lineStart f of None \<Rightarrow> False | Some n \<Rightarrow> n < 0)
              \<or> (case raw_lineEnd f of None \<Rightarrow> False | Some n \<Rightarrow> n < 0)
           then Inl (OtherError ''ZodError'')
           else Inr \<lparr>fi_severity = sev, fi_category = raw_category f,
                     fi_description = raw_description f, fi_filePath = raw_filePath f,
                     fi_lineStart = raw_lineStart f, fi_lineEnd = raw_lineEnd f\<rparr>))"

fun normalizeReviewerFindings :: "raw_finding list \<Rightarrow> error + finding_insert list" where
  "normalizeReviewerFindings [] = Inr []"
| "normalizeReviewerFindings (f # fs) =
     (case parseFinding f of
        Inl e \<Rightarrow> Inl e
      | Inr g \<Rightarrow>
          (case normalizeReviewerFindings fs of Inl e \<Rightarrow> Inl e | Inr gs \<Rightarrow> Inr (g # gs)))"

definition reviewFindingId :: "string \<Rightarrow> int \<Rightarrow> nat \<Rightarrow> string" where
  "reviewFindingId featureRunId reviewCycle index =
     ''review-finding:'' @ featureRunId @ '':'' @ show_int reviewCycle @ '':'' @ show_int (int index)"

definition finding_row ::
    "string \<Rightarrow> string option \<Rightarrow> int \<Rightarrow> int \<Rightarrow> nat \<Rightarrow> finding_insert \<Rightarrow> review_finding_row" where
  "finding_row featureRunId reviewerRunId reviewCycle now index f =
     \<lparr>rf_id = reviewFindingId featureRunId reviewCycle index, rf_feature_run_id = featureRunId,
      rf_reviewer_run_id = reviewerRunId, rf_review_cycle = reviewCycle,
      rf_severity = fi_severity f, rf_category = fi_category f, rf_description = fi_description f,
      rf_file_path = fi_filePath f, rf_line_start = fi_lineStart f, rf_line_end = fi_lineEnd f,
      rf_resolved = False, rf_resolved_by_run_id = None, rf_version = 1, rf_updated_at = now\<rparr>"

definition insertReviewFindings ::
    "string \<Rightarrow> string option \<Rightarrow> int \<Rightarrow> finding_insert list \<Rightarrow> unit tx" where
  "insertReviewFindings featureRunId reviewerRunId reviewCycle findings =
     bindT (queryT clock) (\<lambda>now.
     forEachT
       (\<lambda>(index, f).
          bindT (insertOnConflictT ''review_findings'' review_findings review_findings_update
                   rf_id rf_id (finding_row featureRunId reviewerRunId reviewCycle now index f))
            (\<lambda>_. returnT ()))
       (enumerate 0 findings))"

section \<open>The ledger of reviewed commits\<close>

definition findReviewOccurrenceMarker :: "string \<Rightarrow> string \<Rightarrow> store \<Rightarrow> (int \<times> string) option" where
  "findReviewOccurrenceMarker featureRunId headSha s =
     (case first_row (filter (\<lambda>m. ro_feature_run_id m = featureRunId \<and> ro_head_sha m = headSha)
                        (review_occurrence_markers s)) of
        None \<Rightarrow> None
      | Some m \<Rightarrow> Some (ro_review_cycle m, ro_outcome m))"

definition recordReviewOccurrenceMarker :: "string \<Rightarrow> string \<Rightarrow> int \<Rightarrow> string \<Rightarrow> unit tx" where
  "recordReviewOccurrenceMarker featureRunId headSha reviewCycle outcome =
     bindT (queryT clock) (\<lambda>now.
     bindT (insertOnConflictT ''review_occurrence_markers'' review_occurrence_markers
              review_occurrence_markers_update ro_id (\<lambda>m. (ro_feature_run_id m, ro_head_sha m))
              \<lparr>ro_id = ''review-occurrence:'' @ featureRunId @ '':'' @ headSha,
               ro_feature_run_id = featureRunId, ro_head_sha = headSha,
               ro_review_cycle = reviewCycle, ro_outcome = outcome, ro_created_at = now\<rparr>) (\<lambda>_.
     returnT ()))"

text \<open>
  What the review task (\<open>run-review.ts\<close>) writes in one transaction for a commit whose review asks for
  nothing: the findings and, when the head is known, the marker.
\<close>

definition recordCleanReview ::
    "string \<Rightarrow> string option \<Rightarrow> string \<Rightarrow> int \<Rightarrow> finding_insert list \<Rightarrow> unit tx" where
  "recordCleanReview featureRunId headSha reviewerRunId reviewCycle findings =
     bindT (insertReviewFindings featureRunId (Some reviewerRunId) reviewCycle findings) (\<lambda>_.
     if truthy headSha
     then recordReviewOccurrenceMarker featureRunId (the headSha) reviewCycle ''approved''
     else returnT ())"

section \<open>Disagreements\<close>

definition disagreementRecordId :: "string \<Rightarrow> int \<Rightarrow> string" where
  "disagreementRecordId featureRunId reviewCycle =
     ''disagreement:'' @ featureRunId @ '':'' @ show_int reviewCycle"

definition insertDisagreementRecord :: "string \<Rightarrow> string option \<Rightarrow> int \<Rightarrow> string tx" where
  "insertDisagreementRecord featureRunId findingId reviewCycle =
     bindT (queryT clock) (\<lambda>now.
     let i = disagreementRecordId featureRunId reviewCycle in
     bindT (insertOnConflictT ''disagreement_records'' disagreement_records
              disagreement_records_update dr_id dr_id
              \<lparr>dr_id = i, dr_feature_run_id = featureRunId, dr_finding_id = findingId,
               dr_review_cycle = reviewCycle, dr_state = DIS_OPEN, dr_arbiter_run_id = None,
               dr_resolution = None, dr_resolved_at = None, dr_version = 1,
               dr_updated_at = now\<rparr>) (\<lambda>_.
     returnT i))"

text \<open>The state argument is \<open>resolved\<close> or \<open>escalated\<close>.\<close>

definition recordArbiterDisposition ::
    "string \<Rightarrow> string \<Rightarrow> DisagreementState \<Rightarrow> string \<Rightarrow> unit tx" where
  "recordArbiterDisposition disagreementId arbiterRunId st resolution =
     bindT (queryT clock) (\<lambda>now.
     executeT (disagreement_records_update
       (update_where (\<lambda>d. dr_id d = disagreementId)
          (\<lambda>d. d\<lparr>dr_state := st, dr_arbiter_run_id := Some arbiterRunId,
                 dr_resolution := Some resolution, dr_resolved_at := Some now,
                 dr_version := dr_version d + 1, dr_updated_at := now\<rparr>))))"

definition unresolved_for :: "string \<Rightarrow> disagreement_row \<Rightarrow> bool" where
  "unresolved_for featureRunId d =
     (dr_feature_run_id d = featureRunId \<and> (dr_state d = DIS_OPEN \<or> dr_state d = DIS_ESCALATED))"

definition findOpenDisagreement :: "string \<Rightarrow> store \<Rightarrow> disagreement_row option" where
  "findOpenDisagreement featureRunId s =
     first_row (order_by (\<lambda>a b. dr_review_cycle a > dr_review_cycle b)
       (filter (unresolved_for featureRunId) (disagreement_records s)))"

definition findDisagreementForFeatureRun ::
    "string \<Rightarrow> string option \<Rightarrow> store \<Rightarrow> disagreement_row option" where
  "findDisagreementForFeatureRun featureRunId disagreementId s =
     (if \<not> truthy disagreementId then findOpenDisagreement featureRunId s
      else first_row (filter (\<lambda>d. Some (dr_id d) = disagreementId \<and> unresolved_for featureRunId d)
                        (disagreement_records s)))"

definition resolveDisagreementByHuman :: "string \<Rightarrow> string \<Rightarrow> string \<Rightarrow> int tx" where
  "resolveDisagreementByHuman disagreementId featureRunId resolution =
     bindT (queryT clock) (\<lambda>now.
     executeAffectedT
       (\<lambda>s. count_where (\<lambda>d. dr_id d = disagreementId \<and> unresolved_for featureRunId d)
              (disagreement_records s))
       (disagreement_records_update
          (update_where (\<lambda>d. dr_id d = disagreementId \<and> unresolved_for featureRunId d)
             (\<lambda>d. d\<lparr>dr_state := DIS_RESOLVED, dr_resolution := Some resolution,
                    dr_resolved_at := Some now, dr_version := dr_version d + 1,
                    dr_updated_at := now\<rparr>))))"

text \<open>\<open>String.prototype.trim\<close>.\<close>

definition js_trim :: "string \<Rightarrow> string" where
  "js_trim s = rev (dropWhile is_space (rev (dropWhile is_space s)))"

text \<open>The earlier blocking finding, of the latest cycle first, whose text recurs.\<close>

definition findRepeatedFinding ::
    "string \<Rightarrow> int \<Rightarrow> finding_insert list \<Rightarrow> store \<Rightarrow> (string \<times> int \<times> string) option" where
  "findRepeatedFinding featureRunId reviewCycle findings s =
     (let candidates = map (\<lambda>f. js_trim (fi_description f))
                         (filter (\<lambda>f. fi_severity f = SEV_BLOCKING) findings) in
      if candidates = [] then None
      else
        (case first_row (filter (\<lambda>r. js_trim (rf_description r) \<in> set candidates)
                (order_by (\<lambda>a b. rf_review_cycle a > rf_review_cycle b)
                  (filter (\<lambda>r. rf_feature_run_id r = featureRunId \<and> rf_review_cycle r < reviewCycle
                             \<and> rf_severity r = SEV_BLOCKING) (review_findings s)))) of
           None \<Rightarrow> None
         | Some r \<Rightarrow> Some (rf_id r, rf_review_cycle r, rf_description r)))"

section \<open>Lemmas\<close>

lemma body_insert_findings: "body.keeps (insertReviewFindings a b c d)"
  unfolding insertReviewFindings_def
proof (intro body.keeps_bindT body.keeps_queryT body.keeps_forEachT)
  fix now x
  show "body.keeps (case x of (index, f) \<Rightarrow>
      bindT (insertOnConflictT ''review_findings'' review_findings review_findings_update
               rf_id rf_id (finding_row a b c now index f)) (\<lambda>_. returnT ()))"
    by (cases x) (auto intro!: body.keeps_bindT body.keeps_returnT body_insertT simp: body_insert_simps)
qed

lemma body_clean_review: "body.keeps (recordCleanReview a b c d e)"
  unfolding recordCleanReview_def recordReviewOccurrenceMarker_def
  by (auto intro!: body.keeps_bindT body.keeps_queryT body.keeps_returnT body_insert_findings body_insertT
      simp: body_insert_simps)

lemma body_resolve_disagreement: "body.keeps (resolveDisagreementByHuman a b c)"
  unfolding resolveDisagreementByHuman_def
  by (intro body.keeps_bindT body.keeps_queryT body_frame_update) (simp_all add: body_insert_simps)

lemma bind_resolve_disagreement [bind_simps]:
  "wp (bindT (resolveDisagreementByHuman i r x) k) Q E s =
     wp (k (count_where (\<lambda>d. dr_id d = i \<and> unresolved_for r d) (disagreement_records s))) Q E
       (disagreement_records_update
          (update_where (\<lambda>d. dr_id d = i \<and> unresolved_for r d)
             (\<lambda>d. d\<lparr>dr_state := DIS_RESOLVED, dr_resolution := Some x, dr_resolved_at := Some (clock s),
                    dr_version := dr_version d + 1, dr_updated_at := clock s\<rparr>)) s)"
  by (simp add: resolveDisagreementByHuman_def wp_simps)

lemma body_disagreement_update: "body_evolves s (disagreement_records_update f s)"
  by (intro body_evolves_frame) (simp_all add: body_insert_simps)

lemma find_run_disagreement [simp]:
  "find_run i p (disagreement_records_update f s) = find_run i p s"
  by (simp add: find_run_def run_in_project_def)

lemma findDisagreement_scoped:
  assumes "findDisagreementForFeatureRun r i s = Some d"
  shows "d \<in> set (disagreement_records s)" "unresolved_for r d" "truthy i \<Longrightarrow> i = Some (dr_id d)"
  using assms
  by (auto simp: findDisagreementForFeatureRun_def findOpenDisagreement_def dest!: first_row_in
      split: if_splits)

end
