(* ===== verification/FeatureSelection.thy ===== *)
theory FeatureSelection
  imports Review
begin

text \<open>
  Selecting a feature and coding it: the handlers \<open>select-feature\<close>, \<open>start-coding\<close>,
  \<open>start-fixing\<close> and \<open>record-code-pushed\<close>, and the read-only picker of the next eligible run
  (\<open>packages/core/src/commands/handlers/feature\<close>). Each handler is its body between claiming and
  fulfilling the idempotency slot; \<open>claimed_transaction\<close> puts it in its transaction.
\<close>

section \<open>The next eligible run\<close>

text \<open>\<open>ORDER BY freq.created_at ASC, freq.id ASC\<close>.\<close>

definition request_before :: "feature_request_row \<Rightarrow> feature_request_row \<Rightarrow> bool" where
  "request_before a b =
     (req_created_at a < req_created_at b
      \<or> (req_created_at a = req_created_at b \<and> req_id a < req_id b))"

definition eligible_runs :: "string \<Rightarrow> store \<Rightarrow> (feature_run_row \<times> feature_request_row) list" where
  "eligible_runs projectId s =
     concat (map (\<lambda>r. map (\<lambda>q. (r, q))
         (filter (\<lambda>q. run_feature_request_id r = req_id q \<and> req_project_id q = projectId
                    \<and> run_state r = FE_APPROVED_PENDING_EXECUTION
                    \<and> unmet_dependencies (req_id q) s = [])
            (feature_requests s)))
       (feature_runs s))"

definition findNextEligibleFeatureRun :: "string \<Rightarrow> store \<Rightarrow> (string \<times> int) option" where
  "findNextEligibleFeatureRun projectId s =
     (case first_row (order_by (\<lambda>a b. request_before (snd a) (snd b)) (eligible_runs projectId s)) of
        None \<Rightarrow> None
      | Some (r, q) \<Rightarrow> Some (run_id r, run_version r))"

section \<open>select-feature\<close>

definition SelectFeature_body :: "run_payload envelope \<Rightarrow> command_result tx" where
  "SelectFeature_body envelope =
     (let featureRunId = p_featureRunId (payload envelope);
          projectId = p_projectId (payload envelope);
          expectedVersion = p_expectedVersion (payload envelope) in
      bindT (queryT (find_run featureRunId projectId)) (\<lambda>found.
      if found = None then throwT (run_not_found envelope featureRunId projectId)
      else
      bindT (assertVersion ''feature_runs'' featureRunId run_version found expectedVersion) (\<lambda>run.
      bindT (fe_assertValid (run_state run) FE_SELECTED) (\<lambda>_.
      bindT (queryT (unmet_dependencies (run_feature_request_id run))) (\<lambda>unmetDeps.
      if unmetDeps \<noteq> []
      then throwT (commandError ''unmet-dependencies'' ''Feature has unmet dependencies'' 409
             (''Cannot select feature: '' @ show_int (int (length unmetDeps))
                @ '' dependency(ies) not yet merged'') (Some (correlationId envelope)))
      else
      bindT (queryT clock) (\<lambda>now.
      bindT (cas_run featureRunId expectedVersion FE_SELECTED (nextVersion (run_version run)) now)
        (\<lambda>featureAffected.
      if featureAffected = 0
      then throwT (OptimisticLockError ''feature_runs'' featureRunId expectedVersion (-1))
      else
      bindT (activate_run projectId featureRunId now) (\<lambda>wsAffected.
      if wsAffected = 0
      then
        bindT (queryT (workflow_state_of projectId)) (\<lambda>ws.
        if (case ws of None \<Rightarrow> True | Some w \<Rightarrow> ws_automation_state w \<noteq> AU_RUNNING)
        then throwT (commandError ''automation-paused'' ''Automation is paused'' 409
               (''Cannot select feature: automation is ''
                  @ (case ws of None \<Rightarrow> ''unknown'' | Some w \<Rightarrow> au_str (ws_automation_state w)))
               (Some (correlationId envelope)))
        else throwT (commandError ''feature-already-active'' ''A feature run is already active'' 409
               ''Cannot select feature: active_feature_run_id is already set''
               (Some (correlationId envelope))))
      else
      bindT (writeWorkflowEvent (Some featureRunId) (Some projectId) ''feature.selected''
               (fe_str FE_APPROVED_PENDING_EXECUTION) (fe_str FE_SELECTED)
               (actor_id (env_actor envelope)) None) (\<lambda>eventId.
      bindT (writeOutboxEvent ''feature.selected''
               [(''featureRunId'', JStr featureRunId), (''projectId'', JStr projectId),
                (''fromState'', JStr ''approved_pending_execution''),
                (''toState'', JStr ''selected'')]) (\<lambda>_.
      returnT (accepted_result envelope (fe_str FE_SELECTED) [eventId])))))))))))"

definition SelectFeatureHandler :: "run_payload handler" where
  "SelectFeatureHandler =
     \<lparr>commandName = ''SelectFeatureCommand'', requiredRole = OPERATOR,
      requiredActorKind = Some Human, idempotencyScope = ''select-feature'',
      handler_execute = claimed_transaction ''select-feature'' SelectFeature_body\<rparr>"

section \<open>start-coding and start-fixing\<close>

text \<open>How both tell a stale version from paused automation when their UPDATE matched no row.\<close>

definition explain_not_running ::
    "'p envelope \<Rightarrow> string \<Rightarrow> string \<Rightarrow> string \<Rightarrow> int \<Rightarrow> 'a tx" where
  "explain_not_running envelope activity featureRunId projectId expectedVersion =
     bindT (queryT (workflow_state_of projectId)) (\<lambda>ws.
     if (case ws of None \<Rightarrow> True | Some w \<Rightarrow> ws_automation_state w \<noteq> AU_RUNNING)
     then throwT (commandError ''automation-paused'' ''Automation is paused'' 409
            (''Cannot start '' @ activity @ '': automation is ''
               @ (case ws of None \<Rightarrow> ''unknown'' | Some w \<Rightarrow> au_str (ws_automation_state w)))
            (Some (correlationId envelope)))
     else throwT (OptimisticLockError ''feature_runs'' featureRunId expectedVersion (-1)))"

definition StartCoding_body :: "run_payload envelope \<Rightarrow> command_result tx" where
  "StartCoding_body envelope =
     (let featureRunId = p_featureRunId (payload envelope);
          projectId = p_projectId (payload envelope);
          expectedVersion = p_expectedVersion (payload envelope) in
      bindT (requireExecutionLane ''StartCodingCommand'' envelope projectId) (\<lambda>_.
      bindT (queryT (active_run_of projectId)) (\<lambda>active.
      if active \<noteq> Some featureRunId
      then throwT (commandError ''not-active-feature-run'' ''Feature run is not the active run'' 409
             (''Feature run '' @ featureRunId @ '' is not the active run for project '' @ projectId)
             (Some (correlationId envelope)))
      else
      bindT (queryT (find_run featureRunId projectId)) (\<lambda>found.
      bindT (assertVersion ''feature_runs'' featureRunId run_version found expectedVersion) (\<lambda>run.
      bindT (fe_assertValid (run_state run) FE_CODING) (\<lambda>_.
      bindT (queryT clock) (\<lambda>now.
      bindT (cas_run_if_running featureRunId expectedVersion FE_CODING
               (nextVersion (run_version run)) now projectId) (\<lambda>startCodingAffected.
      if startCodingAffected = 0
      then explain_not_running envelope ''coding'' featureRunId projectId expectedVersion
      else
      bindT (writeWorkflowEvent (Some featureRunId) (Some projectId) ''feature.coding_started''
               (fe_str FE_SELECTED) (fe_str FE_CODING) (actor_id (env_actor envelope)) None) (\<lambda>eventId.
      bindT (writeOutboxEvent ''feature.coding_started''
               [(''featureRunId'', JStr featureRunId), (''projectId'', JStr projectId)]) (\<lambda>_.
      returnT (accepted_result envelope (fe_str FE_CODING) [eventId])))))))))))"

definition StartCodingHandler :: "run_payload handler" where
  "StartCodingHandler =
     \<lparr>commandName = ''StartCodingCommand'', requiredRole = ADMIN,
      requiredActorKind = Some SystemKind, idempotencyScope = ''start-coding'',
      handler_execute = claimed_transaction ''start-coding'' StartCoding_body\<rparr>"

definition StartFixing_body :: "run_payload envelope \<Rightarrow> command_result tx" where
  "StartFixing_body envelope =
     (let featureRunId = p_featureRunId (payload envelope);
          projectId = p_projectId (payload envelope);
          expectedVersion = p_expectedVersion (payload envelope) in
      bindT (requireExecutionLane ''StartFixingCommand'' envelope projectId) (\<lambda>_.
      bindT (queryT (find_run featureRunId projectId)) (\<lambda>found.
      bindT (assertVersion ''feature_runs'' featureRunId run_version found expectedVersion) (\<lambda>run.
      bindT (fe_assertValid (run_state run) FE_FIXING) (\<lambda>_.
      bindT (queryT clock) (\<lambda>now.
      bindT (cas_run_if_running featureRunId expectedVersion FE_FIXING
               (nextVersion (run_version run)) now projectId) (\<lambda>affected.
      if affected = 0
      then explain_not_running envelope ''fixing'' featureRunId projectId expectedVersion
      else
      bindT (writeWorkflowEvent (Some featureRunId) (Some projectId) ''feature.fixing_started''
               (fe_str FE_CHANGES_REQUESTED) (fe_str FE_FIXING) (actor_id (env_actor envelope)) None)
        (\<lambda>eventId.
      bindT (writeOutboxEvent ''feature.fixing_started''
               [(''featureRunId'', JStr featureRunId), (''projectId'', JStr projectId)]) (\<lambda>_.
      returnT (accepted_result envelope (fe_str FE_FIXING) [eventId]))))))))))"

definition StartFixingHandler :: "run_payload handler" where
  "StartFixingHandler =
     \<lparr>commandName = ''StartFixingCommand'', requiredRole = ADMIN,
      requiredActorKind = Some SystemKind, idempotencyScope = ''start-fixing'',
      handler_execute = claimed_transaction ''start-fixing'' StartFixing_body\<rparr>"

section \<open>record-code-pushed\<close>

record code_pushed_payload = run_payload +
  cp_commitSha :: string
  cp_branchName :: string
  cp_filesChanged :: int
  cp_coderRunId :: "string option"
  cp_resolvedFindingIds :: "string list option"

text \<open>The loop over the resolved findings: each is marked, and answered when it was this run's.\<close>

definition resolve_finding :: "string \<Rightarrow> string \<Rightarrow> int \<Rightarrow> string \<Rightarrow> unit tx" where
  "resolve_finding featureRunId coderRunId now findingId =
     bindT (executeAffectedT
              (\<lambda>s. count_where (\<lambda>r. rf_id r = findingId \<and> rf_feature_run_id r = featureRunId)
                     (review_findings s))
              (review_findings_update
                 (update_where (\<lambda>r. rf_id r = findingId \<and> rf_feature_run_id r = featureRunId)
                    (\<lambda>r. r\<lparr>rf_resolved := True, rf_resolved_by_run_id := Some coderRunId,
                           rf_version := rf_version r + 1, rf_updated_at := now\<rparr>))))
       (\<lambda>resolvedAffected.
     if resolvedAffected = 0 then returnT ()
     else
     insertT ''coder_responses'' coder_responses coder_responses_update cr_id
       \<lparr>cr_id = ''coder-response:'' @ featureRunId @ '':'' @ findingId, cr_finding_id = findingId,
        cr_coder_run_id = coderRunId, cr_response_type = ''fixed'',
        cr_notes = ''Optimistic: coder push completed without per-finding disposition (Phase 10 simplification)'',
        cr_created_at = now\<rparr>)"

definition RecordCodePushed_body :: "code_pushed_payload envelope \<Rightarrow> command_result tx" where
  "RecordCodePushed_body envelope =
     (let featureRunId = p_featureRunId (payload envelope);
          projectId = p_projectId (payload envelope);
          expectedVersion = p_expectedVersion (payload envelope);
          coderRunId = cp_coderRunId (payload envelope);
          resolvedFindingIds = cp_resolvedFindingIds (payload envelope) in
      bindT (requireExecutionLane ''RecordCodePushedCommand'' envelope projectId) (\<lambda>_.
      bindT (queryT (find_run featureRunId projectId)) (\<lambda>found.
      bindT (assertVersion ''feature_runs'' featureRunId run_version found expectedVersion) (\<lambda>run.
      bindT (fe_assertValid (run_state run) FE_CODE_PUSHED) (\<lambda>_.
      bindT (queryT clock) (\<lambda>now.
      bindT (cas_run featureRunId expectedVersion FE_CODE_PUSHED (nextVersion (run_version run)) now)
        (\<lambda>codePushedAffected.
      if codePushedAffected = 0
      then throwT (OptimisticLockError ''feature_runs'' featureRunId expectedVersion (-1))
      else
      bindT
        (case resolvedFindingIds of
           None \<Rightarrow> returnT ()
         | Some ids \<Rightarrow>
             if ids \<noteq> [] \<and> truthy coderRunId
             then forEachT (resolve_finding featureRunId (the coderRunId) now) ids
             else returnT ()) (\<lambda>_.
      bindT (writeWorkflowEvent (Some featureRunId) (Some projectId) ''feature.code_pushed''
               (fe_str (run_state run)) (fe_str FE_CODE_PUSHED) (actor_id (env_actor envelope)) None)
        (\<lambda>eventId.
      bindT (writeOutboxEvent ''feature.code_pushed''
               [(''featureRunId'', JStr featureRunId), (''projectId'', JStr projectId),
                (''commitSha'', JStr (cp_commitSha (payload envelope))),
                (''branchName'', JStr (cp_branchName (payload envelope))),
                (''filesChanged'', JInt (cp_filesChanged (payload envelope)))]) (\<lambda>_.
      returnT (accepted_result envelope (fe_str FE_CODE_PUSHED) [eventId])))))))))))"

definition RecordCodePushedHandler :: "code_pushed_payload handler" where
  "RecordCodePushedHandler =
     \<lparr>commandName = ''RecordCodePushedCommand'', requiredRole = ADMIN,
      requiredActorKind = Some SystemKind, idempotencyScope = ''record-code-pushed'',
      handler_execute = claimed_transaction ''record-code-pushed'' RecordCodePushed_body\<rparr>"

section \<open>Guarantees\<close>

lemma body_explain: "body.keeps (explain_not_running e a i p v)"
  unfolding explain_not_running_def by (intro body_rules)

lemma body_resolve_finding: "body.keeps (resolve_finding i c now f)"
  unfolding resolve_finding_def
  by (intro body_rules body_frame_update body_insertT) (simp_all add: body_insert_simps)

lemma SelectFeature_evolves: "body.keeps (SelectFeature_body e)"
  by (rule body.keepsI)
    (auto simp: SelectFeature_body_def bind_simps split: option.splits intro!: handler_intros)

lemma StartCoding_evolves: "body.keeps (StartCoding_body e)"
  by (rule body.keepsI)
    (auto simp: StartCoding_body_def bind_simps split: option.splits intro!: handler_intros body_explain)

lemma StartFixing_evolves: "body.keeps (StartFixing_body e)"
  by (rule body.keepsI)
    (auto simp: StartFixing_body_def bind_simps split: option.splits intro!: handler_intros body_explain)

lemma RecordCodePushed_evolves: "body.keeps (RecordCodePushed_body e)"
  by (rule body.keepsI)
    (auto simp: RecordCodePushed_body_def bind_simps split: option.splits
      intro!: handler_intros body_resolve_finding)

end
