(* ===== verification/HumanDispositions.thy ===== *)
theory HumanDispositions
  imports Review
begin

text \<open>
  Escalating a run to a human and the human's dispositions: the handlers
  \<open>escalate-to-human-required\<close>, \<open>resume-feature-execution\<close>, \<open>resolve-disagreement\<close>,
  \<open>retry-feature\<close>, \<open>skip-feature\<close> with its cascade over dependents, \<open>block-feature\<close>,
  \<open>unblock-feature\<close> and \<open>human-unblock-feature\<close>
  (\<open>packages/core/src/commands/handlers/feature\<close>).
\<close>

section \<open>escalate-to-human-required\<close>

record escalate_payload = run_payload +
  es_reason :: string
  es_reviewerRunId :: "string option"
  es_reviewCycle :: "int option"
  es_findings :: "finding_insert list option"

definition EscalateToHuman_body :: "escalate_payload envelope \<Rightarrow> command_result tx" where
  "EscalateToHuman_body envelope =
     (let featureRunId = p_featureRunId (payload envelope);
          projectId = p_projectId (payload envelope);
          expectedVersion = p_expectedVersion (payload envelope) in
      bindT (queryT (find_run featureRunId projectId)) (\<lambda>found.
      if found = None then throwT (run_not_found envelope featureRunId projectId)
      else
      bindT (assertVersion ''feature_runs'' featureRunId run_version found expectedVersion) (\<lambda>run.
      bindT (fe_assertValid (run_state run) FE_HUMAN_REQUIRED) (\<lambda>_.
      bindT (queryT clock) (\<lambda>now.
      bindT (cas_run featureRunId expectedVersion FE_HUMAN_REQUIRED (nextVersion (run_version run)) now)
        (\<lambda>escalateAffected.
      if escalateAffected = 0
      then throwT (OptimisticLockError ''feature_runs'' featureRunId expectedVersion (-1))
      else
      bindT
        (case es_findings (payload envelope) of
           None \<Rightarrow> returnT ()
         | Some findings \<Rightarrow>
             if findings \<noteq> []
             then insertReviewFindings featureRunId (es_reviewerRunId (payload envelope))
                    (case es_reviewCycle (payload envelope) of None \<Rightarrow> 1 | Some c \<Rightarrow> c) findings
             else returnT ()) (\<lambda>_.
      bindT (writeWorkflowEvent (Some featureRunId) (Some projectId) ''feature.human_required''
               (fe_str (run_state run)) (fe_str FE_HUMAN_REQUIRED) (actor_id (env_actor envelope)) None)
        (\<lambda>eventId.
      bindT (writeOutboxEvent ''feature.human_required''
               [(''featureRunId'', JStr featureRunId), (''projectId'', JStr projectId),
                (''reason'', JStr (es_reason (payload envelope)))]) (\<lambda>_.
      returnT (accepted_result envelope (fe_str FE_HUMAN_REQUIRED) [eventId]))))))))))"

definition EscalateToHumanHandler :: "escalate_payload handler" where
  "EscalateToHumanHandler =
     \<lparr>commandName = ''EscalateToHumanCommand'', requiredRole = OPERATOR,
      requiredActorKind = Some SystemKind, idempotencyScope = ''escalate-to-human'',
      handler_execute = claimed_transaction ''escalate-to-human'' EscalateToHuman_body\<rparr>"

section \<open>resume-feature-execution and resolve-disagreement\<close>

record resume_payload = run_payload +
  rs_notes :: string
  rs_disagreementId :: "string option"

text \<open>The part under \<open>if (disagreementId)\<close>.\<close>

definition resolve_named_disagreement ::
    "'p envelope \<Rightarrow> string \<Rightarrow> string \<Rightarrow> string \<Rightarrow> unit tx" where
  "resolve_named_disagreement envelope featureRunId disagreementId notes =
     bindT (queryT (findDisagreementForFeatureRun featureRunId (Some disagreementId))) (\<lambda>disagreement.
     case disagreement of
       None \<Rightarrow> throwT (commandError ''no-open-disagreement'' ''Disagreement not found for this feature run'' 409
                 (''Disagreement '' @ disagreementId
                    @ '' is not an open/escalated disagreement for feature run '' @ featureRunId)
                 (Some (correlationId envelope)))
     | Some d \<Rightarrow>
         bindT (resolveDisagreementByHuman (dr_id d) featureRunId notes) (\<lambda>resolvedAffected.
         if resolvedAffected = 0
         then throwT (commandError ''no-open-disagreement'' ''Disagreement was already resolved'' 409
                (''Disagreement '' @ dr_id d @ '' is no longer open/escalated'')
                (Some (correlationId envelope)))
         else returnT ()))"

definition ResumeFeatureExecution_body :: "resume_payload envelope \<Rightarrow> command_result tx" where
  "ResumeFeatureExecution_body envelope =
     (let featureRunId = p_featureRunId (payload envelope);
          projectId = p_projectId (payload envelope);
          expectedVersion = p_expectedVersion (payload envelope);
          notes = rs_notes (payload envelope);
          disagreementId = rs_disagreementId (payload envelope) in
      bindT (queryT (find_run featureRunId projectId)) (\<lambda>found.
      if found = None then throwT (run_not_found envelope featureRunId projectId)
      else
      bindT (assertVersion ''feature_runs'' featureRunId run_version found expectedVersion) (\<lambda>run.
      bindT (fe_assertValid (run_state run) FE_UNDER_REVIEW) (\<lambda>_.
      bindT (if truthy disagreementId
             then resolve_named_disagreement envelope featureRunId (the disagreementId) notes
             else returnT ()) (\<lambda>_.
      bindT (queryT clock) (\<lambda>now.
      bindT (cas_run featureRunId expectedVersion FE_UNDER_REVIEW (nextVersion (run_version run)) now)
        (\<lambda>affected.
      if affected = 0
      then throwT (OptimisticLockError ''feature_runs'' featureRunId expectedVersion (-1))
      else
      bindT (insertHumanApproval projectId (Some (run_feature_request_id run)) (Some featureRunId)
               (if truthy disagreementId then ''disagreement_resolution''
                else ''human_escalation_resolution'')
               disagreementId DEC_APPROVED (env_actor envelope) (Some notes)) (\<lambda>_.
      bindT (writeWorkflowEvent (Some featureRunId) (Some projectId)
               ''feature.resumed_from_human_required'' (fe_str FE_HUMAN_REQUIRED)
               (fe_str FE_UNDER_REVIEW) (actor_id (env_actor envelope)) None) (\<lambda>eventId.
      bindT (writeOutboxEvent ''feature.resumed_from_human_required''
               [(''featureRunId'', JStr featureRunId), (''projectId'', JStr projectId)]) (\<lambda>_.
      returnT (accepted_result envelope (fe_str FE_UNDER_REVIEW) [eventId])))))))))))"

definition ResumeFeatureExecutionHandler :: "resume_payload handler" where
  "ResumeFeatureExecutionHandler =
     \<lparr>commandName = ''ResumeFeatureExecutionCommand'', requiredRole = APPROVER,
      requiredActorKind = Some Human, idempotencyScope = ''resume-feature-execution'',
      handler_execute = claimed_transaction ''resume-feature-execution'' ResumeFeatureExecution_body\<rparr>"

record resolve_payload = run_payload +
  rd_resolution :: string
  rd_disagreementId :: "string option"

definition ResolveDisagreement_body :: "resolve_payload envelope \<Rightarrow> command_result tx" where
  "ResolveDisagreement_body envelope =
     (let featureRunId = p_featureRunId (payload envelope);
          projectId = p_projectId (payload envelope);
          expectedVersion = p_expectedVersion (payload envelope);
          resolution = rd_resolution (payload envelope);
          disagreementId = rd_disagreementId (payload envelope) in
      bindT (queryT (find_run featureRunId projectId)) (\<lambda>found.
      if found = None then throwT (run_not_found envelope featureRunId projectId)
      else
      bindT (assertVersion ''feature_runs'' featureRunId run_version found expectedVersion) (\<lambda>run.
      bindT (fe_assertValid (run_state run) FE_CHANGES_REQUESTED) (\<lambda>_.
      bindT (queryT (findDisagreementForFeatureRun featureRunId disagreementId)) (\<lambda>disagreement.
      case disagreement of
        None \<Rightarrow> throwT (commandError ''no-open-disagreement'' ''No open disagreement to resolve'' 409
                  (if truthy disagreementId
                   then ''Disagreement '' @ the disagreementId
                          @ '' is not an open/escalated disagreement for feature run '' @ featureRunId
                   else ''Feature run '' @ featureRunId @ '' has no open disagreement_records row'')
                  (Some (correlationId envelope)))
      | Some d \<Rightarrow>
      bindT (resolveDisagreementByHuman (dr_id d) featureRunId resolution) (\<lambda>resolvedAffected.
      if resolvedAffected = 0
      then throwT (commandError ''no-open-disagreement'' ''Disagreement was already resolved'' 409
             (''Disagreement '' @ dr_id d @ '' is no longer open/escalated'')
             (Some (correlationId envelope)))
      else
      bindT (queryT clock) (\<lambda>now.
      bindT (cas_run featureRunId expectedVersion FE_CHANGES_REQUESTED (nextVersion (run_version run)) now)
        (\<lambda>affected.
      if affected = 0
      then throwT (OptimisticLockError ''feature_runs'' featureRunId expectedVersion (-1))
      else
      bindT (insertHumanApproval projectId (Some (run_feature_request_id run)) (Some featureRunId)
               ''disagreement_resolution'' (Some (dr_id d)) DEC_APPROVED (env_actor envelope)
               (Some resolution)) (\<lambda>_.
      bindT (writeWorkflowEvent (Some featureRunId) (Some projectId) ''feature.disagreement_resolved''
               (fe_str FE_HUMAN_REQUIRED) (fe_str FE_CHANGES_REQUESTED)
               (actor_id (env_actor envelope)) None) (\<lambda>eventId.
      bindT (writeOutboxEvent ''feature.disagreement_resolved''
               [(''featureRunId'', JStr featureRunId), (''projectId'', JStr projectId),
                (''disagreementId'', JStr (dr_id d)), (''resolution'', JStr resolution)]) (\<lambda>_.
      returnT (accepted_result envelope (fe_str FE_CHANGES_REQUESTED) [eventId]))))))))))))"

definition ResolveDisagreementHandler :: "resolve_payload handler" where
  "ResolveDisagreementHandler =
     \<lparr>commandName = ''ResolveDisagreementCommand'', requiredRole = APPROVER,
      requiredActorKind = Some Human, idempotencyScope = ''resolve-disagreement'',
      handler_execute = claimed_transaction ''resolve-disagreement'' ResolveDisagreement_body\<rparr>"

section \<open>retry-feature\<close>

record notes_payload = run_payload +
  np_notes :: string

text \<open>The title of the error has a typographic apostrophe, here its UTF-8 bytes.\<close>

definition RetryFeature_body :: "notes_payload envelope \<Rightarrow> command_result tx" where
  "RetryFeature_body envelope =
     (let featureRunId = p_featureRunId (payload envelope);
          projectId = p_projectId (payload envelope);
          expectedVersion = p_expectedVersion (payload envelope) in
      bindT (queryT (find_run featureRunId projectId)) (\<lambda>found.
      if found = None then throwT (run_not_found envelope featureRunId projectId)
      else
      bindT (assertVersion ''feature_runs'' featureRunId run_version found expectedVersion) (\<lambda>run.
      bindT (fe_assertValid (run_state run) FE_SELECTED) (\<lambda>_.
      bindT (queryT (active_run_of projectId)) (\<lambda>active.
      if active \<noteq> Some featureRunId
      then throwT (commandError ''not-active-feature-run''
             (''Feature run is not the project'' @ [CHR 0xE2, CHR 0x80, CHR 0x99] @ ''s active feature'') 409
             (''Feature run '' @ featureRunId
                @ '' is not workflow_states.active_feature_run_id for project '' @ projectId
                @ ''; retry only applies to the currently active feature'')
             (Some (correlationId envelope)))
      else
      bindT (queryT clock) (\<lambda>now.
      bindT (cas_run featureRunId expectedVersion FE_SELECTED (nextVersion (run_version run)) now)
        (\<lambda>affected.
      if affected = 0
      then throwT (OptimisticLockError ''feature_runs'' featureRunId expectedVersion (-1))
      else
      bindT (insertHumanApproval projectId (Some (run_feature_request_id run)) (Some featureRunId)
               ''human_escalation_resolution'' None DEC_APPROVED (env_actor envelope)
               (Some (np_notes (payload envelope)))) (\<lambda>_.
      bindT (writeWorkflowEvent (Some featureRunId) (Some projectId) ''feature.retried''
               (fe_str FE_HUMAN_REQUIRED) (fe_str FE_SELECTED) (actor_id (env_actor envelope)) None)
        (\<lambda>eventId.
      bindT (writeOutboxEvent ''feature.retried''
               [(''featureRunId'', JStr featureRunId), (''projectId'', JStr projectId)]) (\<lambda>_.
      returnT (accepted_result envelope (fe_str FE_SELECTED) [eventId])))))))))))"

definition RetryFeatureHandler :: "notes_payload handler" where
  "RetryFeatureHandler =
     \<lparr>commandName = ''RetryFeatureCommand'', requiredRole = APPROVER,
      requiredActorKind = Some Human, idempotencyScope = ''retry-feature'',
      handler_execute = claimed_transaction ''retry-feature'' RetryFeature_body\<rparr>"

section \<open>block-feature, unblock-feature, human-unblock-feature\<close>

definition BlockFeature_body :: "notes_payload envelope \<Rightarrow> command_result tx" where
  "BlockFeature_body envelope =
     (let featureRunId = p_featureRunId (payload envelope);
          projectId = p_projectId (payload envelope);
          expectedVersion = p_expectedVersion (payload envelope) in
      bindT (queryT (find_run featureRunId projectId)) (\<lambda>found.
      if found = None then throwT (run_not_found envelope featureRunId projectId)
      else
      bindT (assertVersion ''feature_runs'' featureRunId run_version found expectedVersion) (\<lambda>run.
      bindT (fe_assertValid (run_state run) FE_BLOCKED) (\<lambda>_.
      bindT (queryT clock) (\<lambda>now.
      bindT (cas_run featureRunId expectedVersion FE_BLOCKED (nextVersion (run_version run)) now)
        (\<lambda>affected.
      if affected = 0
      then throwT (OptimisticLockError ''feature_runs'' featureRunId expectedVersion (-1))
      else
      bindT (clear_active_run projectId featureRunId now) (\<lambda>_.
      bindT (insertHumanApproval projectId (Some (run_feature_request_id run)) (Some featureRunId)
               ''human_escalation_resolution'' None DEC_DEFERRED (env_actor envelope)
               (Some (np_notes (payload envelope)))) (\<lambda>_.
      bindT (writeWorkflowEvent (Some featureRunId) (Some projectId) ''feature.blocked_by_human''
               (fe_str FE_HUMAN_REQUIRED) (fe_str FE_BLOCKED) (actor_id (env_actor envelope)) None)
        (\<lambda>eventId.
      bindT (writeOutboxEvent ''feature.blocked_by_human''
               [(''featureRunId'', JStr featureRunId), (''projectId'', JStr projectId)]) (\<lambda>_.
      returnT (accepted_result envelope (fe_str FE_BLOCKED) [eventId])))))))))))"

definition BlockFeatureHandler :: "notes_payload handler" where
  "BlockFeatureHandler =
     \<lparr>commandName = ''BlockFeatureCommand'', requiredRole = APPROVER,
      requiredActorKind = Some Human, idempotencyScope = ''block-feature'',
      handler_execute = claimed_transaction ''block-feature'' BlockFeature_body\<rparr>"

definition UnblockFeature_body :: "run_payload envelope \<Rightarrow> command_result tx" where
  "UnblockFeature_body envelope =
     (let featureRunId = p_featureRunId (payload envelope);
          projectId = p_projectId (payload envelope);
          expectedVersion = p_expectedVersion (payload envelope) in
      bindT (queryT (find_run featureRunId projectId)) (\<lambda>found.
      if found = None then throwT (run_not_found envelope featureRunId projectId)
      else
      bindT (assertVersion ''feature_runs'' featureRunId run_version found expectedVersion) (\<lambda>run.
      bindT (fe_assertValid (run_state run) FE_APPROVED_PENDING_EXECUTION) (\<lambda>_.
      bindT (queryT (unmet_dependencies (run_feature_request_id run))) (\<lambda>unmetDeps.
      if unmetDeps \<noteq> []
      then throwT (commandError ''unmet-dependencies'' ''Feature has unmet dependencies'' 409
             (''Cannot unblock feature: '' @ show_int (int (length unmetDeps))
                @ '' dependency(ies) not yet merged'') (Some (correlationId envelope)))
      else
      bindT (queryT clock) (\<lambda>now.
      bindT (cas_run featureRunId expectedVersion FE_APPROVED_PENDING_EXECUTION
               (nextVersion (run_version run)) now) (\<lambda>affected.
      if affected = 0
      then throwT (OptimisticLockError ''feature_runs'' featureRunId expectedVersion (-1))
      else
      bindT (writeWorkflowEvent (Some featureRunId) (Some projectId) ''feature.unblocked''
               (fe_str FE_BLOCKED) (fe_str FE_APPROVED_PENDING_EXECUTION)
               (actor_id (env_actor envelope)) None) (\<lambda>eventId.
      bindT (writeOutboxEvent ''feature.unblocked''
               [(''featureRunId'', JStr featureRunId), (''projectId'', JStr projectId)]) (\<lambda>_.
      returnT (accepted_result envelope (fe_str FE_APPROVED_PENDING_EXECUTION) [eventId]))))))))))"

definition UnblockFeatureHandler :: "run_payload handler" where
  "UnblockFeatureHandler =
     \<lparr>commandName = ''UnblockFeatureCommand'', requiredRole = ADMIN,
      requiredActorKind = Some SystemKind, idempotencyScope = ''unblock-feature'',
      handler_execute = claimed_transaction ''unblock-feature'' UnblockFeature_body\<rparr>"

definition HumanUnblockFeature_body :: "notes_payload envelope \<Rightarrow> command_result tx" where
  "HumanUnblockFeature_body envelope =
     (let featureRunId = p_featureRunId (payload envelope);
          projectId = p_projectId (payload envelope);
          expectedVersion = p_expectedVersion (payload envelope) in
      bindT (queryT (find_run featureRunId projectId)) (\<lambda>found.
      if found = None then throwT (run_not_found envelope featureRunId projectId)
      else
      bindT (assertVersion ''feature_runs'' featureRunId run_version found expectedVersion) (\<lambda>run.
      bindT (fe_assertValid (run_state run) FE_APPROVED_PENDING_EXECUTION) (\<lambda>_.
      bindT (queryT (unmet_dependencies (run_feature_request_id run))) (\<lambda>unmetDeps.
      if unmetDeps \<noteq> []
      then throwT (commandError ''unmet-dependencies'' ''Feature has unmet dependencies'' 409
             (''Cannot unblock feature: '' @ show_int (int (length unmetDeps))
                @ '' dependency(ies) not yet merged. ''
                @ ''Resolve the upstream dependency (e.g. retry it to '' @ [CHR 0x27] @ ''merged''
                @ [CHR 0x27] @ '') before unblocking this run.'') (Some (correlationId envelope)))
      else
      bindT (queryT clock) (\<lambda>now.
      bindT (cas_run featureRunId expectedVersion FE_APPROVED_PENDING_EXECUTION
               (nextVersion (run_version run)) now) (\<lambda>affected.
      if affected = 0
      then throwT (OptimisticLockError ''feature_runs'' featureRunId expectedVersion (-1))
      else
      bindT (insertHumanApproval projectId (Some (run_feature_request_id run)) (Some featureRunId)
               ''human_escalation_resolution'' None DEC_APPROVED (env_actor envelope)
               (Some (np_notes (payload envelope)))) (\<lambda>_.
      bindT (writeWorkflowEvent (Some featureRunId) (Some projectId) ''feature.unblocked''
               (fe_str FE_BLOCKED) (fe_str FE_APPROVED_PENDING_EXECUTION)
               (actor_id (env_actor envelope)) None) (\<lambda>eventId.
      bindT (writeOutboxEvent ''feature.unblocked''
               [(''featureRunId'', JStr featureRunId), (''projectId'', JStr projectId)]) (\<lambda>_.
      returnT (accepted_result envelope (fe_str FE_APPROVED_PENDING_EXECUTION) [eventId])))))))))))"

definition HumanUnblockFeatureHandler :: "notes_payload handler" where
  "HumanUnblockFeatureHandler =
     \<lparr>commandName = ''HumanUnblockFeatureCommand'', requiredRole = APPROVER,
      requiredActorKind = Some Human, idempotencyScope = ''human-unblock-feature'',
      handler_execute = claimed_transaction ''human-unblock-feature'' HumanUnblockFeature_body\<rparr>"

section \<open>Guarantees\<close>

lemma EscalateToHuman_evolves: "body.keeps (EscalateToHuman_body e)"
  by (rule body.keepsI)
    (auto simp: EscalateToHuman_body_def bind_simps split: option.splits
      intro!: handler_intros body_insert_findings)

lemma ResumeFeatureExecution_evolves: "body.keeps (ResumeFeatureExecution_body e)"
  by (rule body.keepsI)
    (auto simp: ResumeFeatureExecution_body_def resolve_named_disagreement_def bind_simps
      split: option.splits intro!: handler_intros body_disagreement_update)

lemma ResolveDisagreement_evolves: "body.keeps (ResolveDisagreement_body e)"
  by (rule body.keepsI)
    (auto simp: ResolveDisagreement_body_def bind_simps
      split: option.splits intro!: handler_intros body_disagreement_update)

lemma RetryFeature_evolves: "body.keeps (RetryFeature_body e)"
  by (rule body.keepsI)
    (auto simp: RetryFeature_body_def bind_simps split: option.splits intro!: handler_intros)

lemma BlockFeature_evolves: "body.keeps (BlockFeature_body e)"
  by (rule body.keepsI)
    (auto simp: BlockFeature_body_def bind_simps split: option.splits intro!: handler_intros)

lemma UnblockFeature_evolves: "body.keeps (UnblockFeature_body e)"
  by (rule body.keepsI)
    (auto simp: UnblockFeature_body_def bind_simps split: option.splits intro!: handler_intros)

lemma HumanUnblockFeature_evolves: "body.keeps (HumanUnblockFeature_body e)"
  by (rule body.keepsI)
    (auto simp: HumanUnblockFeature_body_def bind_simps split: option.splits intro!: handler_intros)

end
