(* ===== verification/SkipFeature.thy ===== *)
theory SkipFeature
  imports HumanDispositions
begin

text \<open>
  The \<open>skip-feature\<close> handler and its cascade: every dependent run still pending is blocked in the
  same transaction (\<open>packages/core/src/commands/handlers/feature/skip-feature.ts\<close>).
\<close>

section \<open>The handler\<close>

definition MAX_CASCADE_RETRIES :: nat where
  "MAX_CASCADE_RETRIES = 3"

text \<open>The joined SELECT over dependencies and runs, in the order of the dependencies.\<close>

definition pending_dependents :: "string \<Rightarrow> store \<Rightarrow> (string \<times> int) list" where
  "pending_dependents requestId s =
     concat (map (\<lambda>d. map (\<lambda>r. (run_id r, run_version r))
         (filter (\<lambda>r. run_feature_request_id r = dep_source_fr_id d
                    \<and> run_state r = FE_APPROVED_PENDING_EXECUTION) (feature_runs s)))
       (filter (\<lambda>d. dep_target_fr_id d = requestId) (feature_dependencies s)))"

definition run_by_id :: "string \<Rightarrow> store \<Rightarrow> feature_run_row option" where
  "run_by_id i s = first_row (filter (\<lambda>r. run_id r = i) (feature_runs s))"

text \<open>The retry loop of one dependent: whether it ended up blocked by this command.\<close>

fun cascade_attempts :: "nat \<Rightarrow> string \<Rightarrow> int \<Rightarrow> bool tx" where
  "cascade_attempts 0 currentId currentVersion = returnT False"
| "cascade_attempts (Suc attempts) currentId currentVersion =
     bindT (queryT clock) (\<lambda>dependentNow.
     bindT (cas_run currentId currentVersion FE_BLOCKED (nextVersion currentVersion) dependentNow)
       (\<lambda>dependentAffected.
     if dependentAffected > 0 then returnT True
     else
     bindT (queryT (run_by_id currentId)) (\<lambda>fresh.
     case fresh of
       None \<Rightarrow> returnT False
     | Some r \<Rightarrow>
         if run_state r \<noteq> FE_APPROVED_PENDING_EXECUTION then returnT False
         else cascade_attempts attempts currentId (run_version r))))"

definition cascade_block ::
    "'p envelope \<Rightarrow> string \<Rightarrow> string \<Rightarrow> string \<times> int \<Rightarrow> unit tx" where
  "cascade_block envelope featureRunId projectId dep =
     bindT (fe_assertValid FE_APPROVED_PENDING_EXECUTION FE_BLOCKED) (\<lambda>_.
     bindT (cascade_attempts MAX_CASCADE_RETRIES (fst dep) (snd dep)) (\<lambda>blocked.
     if \<not> blocked then returnT ()
     else
     bindT (writeWorkflowEvent (Some (fst dep)) (Some projectId)
              ''feature.blocked_by_skipped_dependency'' (fe_str FE_APPROVED_PENDING_EXECUTION)
              (fe_str FE_BLOCKED) (actor_id (env_actor envelope)) None) (\<lambda>_.
     bindT (writeOutboxEvent ''feature.blocked_by_skipped_dependency''
              [(''featureRunId'', JStr (fst dep)), (''projectId'', JStr projectId),
               (''skippedFeatureRunId'', JStr featureRunId)]) (\<lambda>_.
     returnT ()))))"

definition SkipFeature_body :: "notes_payload envelope \<Rightarrow> command_result tx" where
  "SkipFeature_body envelope =
     (let featureRunId = p_featureRunId (payload envelope);
          projectId = p_projectId (payload envelope);
          expectedVersion = p_expectedVersion (payload envelope) in
      bindT (queryT (find_run featureRunId projectId)) (\<lambda>found.
      if found = None then throwT (run_not_found envelope featureRunId projectId)
      else
      bindT (assertVersion ''feature_runs'' featureRunId run_version found expectedVersion) (\<lambda>run.
      bindT (fe_assertValid (run_state run) FE_SKIPPED) (\<lambda>_.
      bindT (queryT clock) (\<lambda>now.
      bindT (cas_run featureRunId expectedVersion FE_SKIPPED (nextVersion (run_version run)) now)
        (\<lambda>affected.
      if affected = 0
      then throwT (OptimisticLockError ''feature_runs'' featureRunId expectedVersion (-1))
      else
      bindT (clear_active_run projectId featureRunId now) (\<lambda>_.
      bindT (insertHumanApproval projectId (Some (run_feature_request_id run)) (Some featureRunId)
               ''human_escalation_resolution'' None DEC_REJECTED (env_actor envelope)
               (Some (np_notes (payload envelope)))) (\<lambda>_.
      bindT (writeWorkflowEvent (Some featureRunId) (Some projectId) ''feature.skipped''
               (fe_str FE_HUMAN_REQUIRED) (fe_str FE_SKIPPED) (actor_id (env_actor envelope)) None)
        (\<lambda>eventId.
      bindT (writeOutboxEvent ''feature.skipped''
               [(''featureRunId'', JStr featureRunId), (''projectId'', JStr projectId)]) (\<lambda>_.
      bindT (queryT (pending_dependents (run_feature_request_id run))) (\<lambda>dependents.
      bindT (forEachT (cascade_block envelope featureRunId projectId) dependents) (\<lambda>_.
      returnT (accepted_result envelope (fe_str FE_SKIPPED) [eventId])))))))))))))"

definition SkipFeatureHandler :: "notes_payload handler" where
  "SkipFeatureHandler =
     \<lparr>commandName = ''SkipFeatureCommand'', requiredRole = APPROVER,
      requiredActorKind = Some Human, idempotencyScope = ''skip-feature'',
      handler_execute = claimed_transaction ''skip-feature'' SkipFeature_body\<rparr>"

section \<open>The cascade\<close>

text \<open>
  While the cascade runs, each dependent the SELECT found is either as it found it or already
  blocked at a later version. What a cascade step may do to the table: it blocks, and a run
  that is still pending afterwards is one it did not touch.
\<close>

definition as_found :: "int \<Rightarrow> feature_run_row \<Rightarrow> bool" where
  "as_found v r =
     ((run_state r = FE_APPROVED_PENDING_EXECUTION \<and> run_version r = v)
      \<or> (run_state r = FE_BLOCKED \<and> run_version r \<noteq> v))"

definition pending_or_blocked :: "(string \<times> int) list \<Rightarrow> store \<Rightarrow> bool" where
  "pending_or_blocked deps s =
     (\<forall>(i, v) \<in> set deps. \<forall>r \<in> set (feature_runs s). run_id r = i \<longrightarrow> as_found v r)"

definition blocked_run :: "string \<Rightarrow> store \<Rightarrow> bool" where
  "blocked_run i s = (\<forall>r \<in> set (feature_runs s). run_id r = i \<longrightarrow> run_state r = FE_BLOCKED)"

definition cascade_rel :: "(string \<times> int) list \<Rightarrow> store \<Rightarrow> store \<Rightarrow> bool" where
  "cascade_rel deps s t =
     (body_evolves s t \<and> (wf_store t \<longleftrightarrow> wf_store s)
      \<and> (wf_store s \<and> pending_or_blocked deps s \<longrightarrow>
           pending_or_blocked deps t
           \<and> (\<forall>r \<in> set (feature_runs t). run_state r = FE_APPROVED_PENDING_EXECUTION \<longrightarrow>
                r \<in> set (feature_runs s))
           \<and> (\<forall>i. blocked_run i s \<longrightarrow> blocked_run i t)))"

interpretation cascade: store_guarantee "cascade_rel deps"
  by unfold_locales (auto simp: cascade_rel_def intro: body.R_refl body.R_trans)

lemma cascade_frame:
  assumes "body_evolves s t" "feature_runs t = feature_runs s" "workflow_states t = workflow_states s"
  shows "cascade_rel deps s t"
  using assms
  by (simp add: cascade_rel_def wf_store_def pending_or_blocked_def blocked_run_def)

definition block_at :: "string \<Rightarrow> int \<Rightarrow> store \<Rightarrow> store" where
  "block_at i v s =
     feature_runs_update (update_where (at_version i v) (set_run_state FE_BLOCKED (v + 1) (clock s))) s"

lemma block_at_rows:
  assumes "r' \<in> set (feature_runs (block_at i v s))"
  shows "\<exists>r \<in> set (feature_runs s). run_id r' = run_id r \<and>
           (if at_version i v r then run_state r' = FE_BLOCKED \<and> run_version r' = v + 1 else r' = r)"
  using assms by (auto simp: block_at_def update_where_def set_run_state_def)

lemma block_at_wf: "wf_store (block_at i v s) \<longleftrightarrow> wf_store s"
proof -
  have "map run_id (feature_runs (block_at i v s)) = map run_id (feature_runs s)"
    unfolding block_at_def by (simp add: map_update_where set_run_state_def)
  then show ?thesis by (simp add: wf_store_def block_at_def)
qed

lemma pending_to_blocked: "(FE_APPROVED_PENDING_EXECUTION, FE_BLOCKED) \<in> fe_edges"
  by (simp add: fe_edges_eq)

lemma block_at_evolves:
  assumes "wf_store s \<Longrightarrow> pending_or_blocked deps s \<and> (i, v) \<in> set deps"
  shows "body_evolves s (block_at i v s)"
  unfolding block_at_def
proof (rule body_update_runs)
  fix r assume r: "wf_store s" "r \<in> set (feature_runs s)" "at_version i v r"
  have "run_state r = FE_APPROVED_PENDING_EXECUTION" "run_version r = v"
    using assms r by (auto simp: pending_or_blocked_def as_found_def at_version_def)
  then show "run_step r (set_run_state FE_BLOCKED (v + 1) (clock s) r)"
    using run_step.move [of r FE_BLOCKED "clock s"] pending_to_blocked by simp
qed

lemma block_at_pending_or_blocked:
  assumes "pending_or_blocked deps s" "(i, v) \<in> set deps"
  shows "pending_or_blocked deps (block_at i v s)"
proof -
  have "as_found w r'" if w: "(run_id r', w) \<in> set deps" "r' \<in> set (feature_runs (block_at i v s))" for r' w
  proof -
    obtain r where r: "r \<in> set (feature_runs s)" "run_id r' = run_id r"
      "if at_version i v r then run_state r' = FE_BLOCKED \<and> run_version r' = v + 1 else r' = r"
      using block_at_rows [OF w(2)] by blast
    have "as_found w r" "at_version i v r \<Longrightarrow> as_found v r"
      using assms w r by (auto simp: pending_or_blocked_def at_version_def)
    with r(3) show ?thesis by (auto simp: as_found_def at_version_def split: if_splits)
  qed
  then show ?thesis by (auto simp: pending_or_blocked_def)
qed

lemma block_at_blocks:
  assumes "pending_or_blocked deps s" "(i, v) \<in> set deps"
  shows "blocked_run i (block_at i v s)"
  unfolding blocked_run_def
proof (intro ballI impI)
  fix r' assume r': "r' \<in> set (feature_runs (block_at i v s))" "run_id r' = i"
  obtain r where r: "r \<in> set (feature_runs s)" "run_id r' = run_id r"
    "if at_version i v r then run_state r' = FE_BLOCKED \<and> run_version r' = v + 1 else r' = r"
    using block_at_rows [OF r'(1)] by blast
  show "run_state r' = FE_BLOCKED"
  proof (cases "at_version i v r")
    case False
    with r r' assms show ?thesis
      by (auto simp: pending_or_blocked_def as_found_def at_version_def)
  qed (use r(3) in auto)
qed

lemma block_at_cascade:
  assumes "wf_store s \<Longrightarrow> pending_or_blocked deps s \<and> (i, v) \<in> set deps"
  shows "cascade_rel deps s (block_at i v s)"
proof -
  have "r' \<in> set (feature_runs s)"
    if r': "r' \<in> set (feature_runs (block_at i v s))" "run_state r' = FE_APPROVED_PENDING_EXECUTION" for r'
    using block_at_rows [OF r'(1)] r'(2) by (auto split: if_splits)
  moreover have "blocked_run j (block_at i v s)" if "blocked_run j s" for j
    unfolding blocked_run_def
  proof (intro ballI impI)
    fix r' assume "r' \<in> set (feature_runs (block_at i v s))" "run_id r' = j"
    with that show "run_state r' = FE_BLOCKED"
      using block_at_rows [of r' i v s] by (auto simp: blocked_run_def split: if_splits)
  qed
  ultimately show ?thesis
    using assms block_at_evolves [OF assms] block_at_pending_or_blocked [of deps s i v]
    by (auto simp: cascade_rel_def block_at_wf)
qed


text \<open>A statement that touches neither table is a cascade step.\<close>

lemma cascade_workflow_event:
  "cascade.keeps deps (writeWorkflowEvent a b c d e f g)"
  by (rule cascade.keepsI)
    (auto simp: writeWorkflowEvent_def wp_simps body_insert_simps
      intro!: cascade_frame body_evolves_frame)

lemma cascade_outbox_event: "cascade.keeps deps (writeOutboxEvent a b)"
  by (rule cascade.keepsI)
    (auto simp: writeOutboxEvent_def fresh_event_def no_leaks_after_redaction wp_simps body_insert_simps
      intro!: outbox_grows_append cascade_frame body_evolves_frame)

lemma cas_blocked:
  "cas_run i v FE_BLOCKED (nextVersion v) (clock s) s =
     Inr (count_where (at_version i v) (feature_runs s), block_at i v s)"
  by (simp add: cas_run_def executeAffectedT_def block_at_def nextVersion_def)

lemma wp_cas_blocked:
  "wp (cas_run i v FE_BLOCKED (nextVersion v) (clock s)) Q E s =
     Q (count_where (at_version i v) (feature_runs s)) (block_at i v s)"
  by (simp add: wp_def cas_blocked)

text \<open>
  In a well-formed store the first attempt settles a dependent: it blocks it, or finds it
  blocked by an earlier row of the same dependent.
\<close>

lemma attempts_wf:
  assumes "wf_store s" "pending_or_blocked deps s" "(i, v) \<in> set deps"
  shows "wp (cascade_attempts (Suc n) i v)
           (\<lambda>_ t. cascade_rel deps s t \<and> blocked_run i t) (\<lambda>_. False) s"
proof -
  have t: "cascade_rel deps s (block_at i v s)" "blocked_run i (block_at i v s)"
    using assms by (auto intro: block_at_cascade block_at_blocks)
  have "run_state r \<noteq> FE_APPROVED_PENDING_EXECUTION"
    if "run_by_id i (block_at i v s) = Some r" for r
    using that t(2) by (auto simp: run_by_id_def blocked_run_def dest!: first_row_in)
  with t show ?thesis
    by (simp add: bind_query wp_cas_blocked wp_simps split: option.splits)
qed

lemma attempts_not_wf:
  assumes "\<not> wf_store s"
  shows "wp (cascade_attempts n i v) (\<lambda>_ t. cascade_rel deps s t) (\<lambda>_. False) s"
  using assms
proof (induction n arbitrary: v s)
  case 0
  then show ?case by (simp add: wp_simps cascade.R_refl)
next
  case (Suc n)
  let ?t = "block_at i v s"
  have st: "cascade_rel deps s ?t" using Suc.prems by (intro block_at_cascade) simp
  have "wp (cascade_attempts n i w) (\<lambda>_ u. cascade_rel deps s u) (\<lambda>_. False) ?t" for w
    by (rule wp_mono [OF Suc.IH])
      (use Suc.prems st in \<open>auto simp: block_at_wf intro: cascade.R_trans\<close>)
  with st show ?case
    by (simp add: bind_query wp_cas_blocked wp_simps split: option.splits)
qed

lemma cascade_block_wp:
  assumes "wf_store s \<Longrightarrow> pending_or_blocked deps s" "dep \<in> set deps"
  shows "wp (cascade_block e f p dep)
           (\<lambda>_ t. cascade_rel deps s t \<and> (wf_store s \<longrightarrow> blocked_run (fst dep) t)) (\<lambda>_. True) s"
proof -
  have events: "cascade.keeps deps
      (if \<not> b then returnT () else
       bindT (writeWorkflowEvent a1 a2 a3 a4 a5 a6 a7) (\<lambda>_.
       bindT (writeOutboxEvent b1 b2) (\<lambda>_. returnT ())))" for b a1 a2 a3 a4 a5 a6 a7 b1 b2
    by (intro cascade.keeps_if cascade.keeps_returnT cascade.keeps_bindT cascade_workflow_event
        cascade_outbox_event)
  have "wp (cascade_attempts MAX_CASCADE_RETRIES (fst dep) (snd dep))
      (\<lambda>_ t. cascade_rel deps s t \<and> (wf_store s \<longrightarrow> blocked_run (fst dep) t)) (\<lambda>_. True) s"
  proof (cases "wf_store s")
    case True
    then show ?thesis
      using assms attempts_wf [of s deps "fst dep" "snd dep" 2]
      by (auto simp: MAX_CASCADE_RETRIES_def numeral_3_eq_3 numeral_2_eq_2 elim!: wp_mono)
  next
    case False
    then show ?thesis
      using attempts_not_wf [of s MAX_CASCADE_RETRIES "fst dep" "snd dep" deps]
      by (auto elim!: wp_mono)
  qed
  then have "wp (cascade_attempts MAX_CASCADE_RETRIES (fst dep) (snd dep))
      (\<lambda>b. wp (if \<not> b then returnT () else
         bindT (writeWorkflowEvent (Some (fst dep)) (Some p)
                  ''feature.blocked_by_skipped_dependency'' (fe_str FE_APPROVED_PENDING_EXECUTION)
                  (fe_str FE_BLOCKED) (actor_id (env_actor e)) None) (\<lambda>_.
         bindT (writeOutboxEvent ''feature.blocked_by_skipped_dependency''
                  [(''featureRunId'', JStr (fst dep)), (''projectId'', JStr p),
                   (''skippedFeatureRunId'', JStr f)]) (\<lambda>_. returnT ())))
         (\<lambda>_ t. cascade_rel deps s t \<and> (wf_store s \<longrightarrow> blocked_run (fst dep) t)) (\<lambda>_. True))
      (\<lambda>_. True) s"
  proof (rule wp_mono)
    fix b t assume t: "cascade_rel deps s t \<and> (wf_store s \<longrightarrow> blocked_run (fst dep) t)"
    show "wp (if \<not> b then returnT () else
         bindT (writeWorkflowEvent (Some (fst dep)) (Some p)
                  ''feature.blocked_by_skipped_dependency'' (fe_str FE_APPROVED_PENDING_EXECUTION)
                  (fe_str FE_BLOCKED) (actor_id (env_actor e)) None) (\<lambda>_.
         bindT (writeOutboxEvent ''feature.blocked_by_skipped_dependency''
                  [(''featureRunId'', JStr (fst dep)), (''projectId'', JStr p),
                   (''skippedFeatureRunId'', JStr f)]) (\<lambda>_. returnT ())))
         (\<lambda>_ t. cascade_rel deps s t \<and> (wf_store s \<longrightarrow> blocked_run (fst dep) t)) (\<lambda>_. True) t"
      by (rule wp_mono [OF cascade.keepsD [OF events]])
        (use t assms in \<open>auto simp: cascade_rel_def intro: body.R_trans\<close>)
  qed simp
  then show ?thesis
    by (simp add: cascade_block_def fe_assertValid_eq bind_return fe_valid_iff pending_to_blocked wp_bindT)
qed


lemma cascade_loop:
  assumes "wf_store s \<Longrightarrow> pending_or_blocked deps s" "set xs \<subseteq> set deps"
  shows "wp (forEachT (cascade_block e f p) xs)
           (\<lambda>_ t. cascade_rel deps s t \<and> (wf_store s \<longrightarrow> (\<forall>d \<in> set xs. blocked_run (fst d) t)))
           (\<lambda>_. True) s"
  using assms
proof (induction xs arbitrary: s)
  case Nil
  then show ?case by (simp add: wp_simps cascade.R_refl)
next
  case (Cons x xs)
  have "wp (cascade_block e f p x)
      (\<lambda>_ t. cascade_rel deps s t \<and> (wf_store s \<longrightarrow> blocked_run (fst x) t)) (\<lambda>_. True) s"
    using Cons.prems by (intro cascade_block_wp) auto
  then show ?case
    unfolding forEachT.simps wp_bindT
  proof (rule wp_mono)
    fix u t assume t: "cascade_rel deps s t \<and> (wf_store s \<longrightarrow> blocked_run (fst x) t)"
    have "wf_store t \<Longrightarrow> pending_or_blocked deps t"
      using t Cons.prems(1) by (simp add: cascade_rel_def)
    then have "wp (forEachT (cascade_block e f p) xs)
        (\<lambda>_ u. cascade_rel deps t u \<and> (wf_store t \<longrightarrow> (\<forall>d \<in> set xs. blocked_run (fst d) u)))
        (\<lambda>_. True) t"
      using Cons.prems(2) by (intro Cons.IH) auto
    then show "wp (forEachT (cascade_block e f p) xs)
        (\<lambda>_ u. cascade_rel deps s u \<and> (wf_store s \<longrightarrow> (\<forall>d \<in> set (x # xs). blocked_run (fst d) u)))
        (\<lambda>_. True) t"
      by (rule wp_mono)
        (use t Cons.prems(1) cascade.R_trans [of deps s t] in \<open>auto simp: cascade_rel_def\<close>)
  qed simp
qed

lemma in_pending_dependents:
  "(i, v) \<in> set (pending_dependents q s) \<longleftrightarrow>
     (\<exists>r \<in> set (feature_runs s). run_id r = i \<and> run_version r = v
        \<and> run_state r = FE_APPROVED_PENDING_EXECUTION
        \<and> (\<exists>d \<in> set (feature_dependencies s). dep_target_fr_id d = q
              \<and> dep_source_fr_id d = run_feature_request_id r))"
  by (auto simp: pending_dependents_def) metis+

lemma pending_dependents_found:
  assumes "wf_store s"
  shows "pending_or_blocked (pending_dependents q s) s"
proof -
  have "as_found v r" if dep: "(run_id r, v) \<in> set (pending_dependents q s)" "r \<in> set (feature_runs s)" for r v
  proof -
    obtain r' where "r' \<in> set (feature_runs s)" "run_id r' = run_id r" "run_version r' = v"
      "run_state r' = FE_APPROVED_PENDING_EXECUTION"
      using dep(1) by (auto simp: in_pending_dependents)
    moreover from this have "r' = r"
      using assms dep(2) by (auto simp: wf_store_def intro: distinct_map_unique)
    ultimately show ?thesis by (simp add: as_found_def)
  qed
  then show ?thesis by (auto simp: pending_or_blocked_def)
qed

text \<open>No dependent of the request is left pending.\<close>

definition no_pending_dependent :: "string \<Rightarrow> store \<Rightarrow> bool" where
  "no_pending_dependent q s = (pending_dependents q s = [])"

lemma cascade_wp:
  "wp (bindT (queryT (pending_dependents q)) (\<lambda>deps.
       bindT (forEachT (cascade_block e f p) deps) (\<lambda>_. returnT res)))
     (\<lambda>a t. a = res \<and> body_evolves s t \<and> (wf_store s \<longrightarrow> no_pending_dependent q t)) (\<lambda>_. True) s"
proof -
  let ?deps = "pending_dependents q s"
  have "wp (forEachT (cascade_block e f p) ?deps)
      (\<lambda>_ t. cascade_rel ?deps s t \<and> (wf_store s \<longrightarrow> (\<forall>d \<in> set ?deps. blocked_run (fst d) t)))
      (\<lambda>_. True) s"
    by (intro cascade_loop pending_dependents_found) auto
  then have "wp (forEachT (cascade_block e f p) ?deps)
      (\<lambda>_ t. body_evolves s t \<and> (wf_store s \<longrightarrow> no_pending_dependent q t)) (\<lambda>_. True) s"
  proof (rule wp_mono)
    fix a t
    assume t: "cascade_rel ?deps s t \<and> (wf_store s \<longrightarrow> (\<forall>d \<in> set ?deps. blocked_run (fst d) t))"
    then have ev: "body_evolves s t" by (simp add: cascade_rel_def)
    have "no_pending_dependent q t" if wf: "wf_store s"
    proof -
      have "False" if iv: "(i, v) \<in> set (pending_dependents q t)" for i v
      proof -
        obtain r d where r: "r \<in> set (feature_runs t)" "run_id r = i" "run_version r = v"
          "run_state r = FE_APPROVED_PENDING_EXECUTION" "d \<in> set (feature_dependencies t)"
          "dep_target_fr_id d = q" "dep_source_fr_id d = run_feature_request_id r"
          using iv unfolding in_pending_dependents by blast
        have "r \<in> set (feature_runs s)" "d \<in> set (feature_dependencies s)"
          using t ev wf r pending_dependents_found [OF wf]
          by (auto simp: cascade_rel_def guarantee_defs)
        then have "(i, v) \<in> set ?deps"
          using r unfolding in_pending_dependents by blast
        then have "blocked_run i t" using t wf by force
        with r show False by (simp add: blocked_run_def)
      qed
      then show ?thesis
        unfolding no_pending_dependent_def
        by (metis list.set_intros(1) neq_Nil_conv surj_pair)
    qed
    with ev show "body_evolves s t \<and> (wf_store s \<longrightarrow> no_pending_dependent q t)" by blast
  qed simp
  then show ?thesis
    unfolding wp_bindT wp_queryT by (rule wp_mono) (simp_all add: wp_simps)
qed

lemma body_cascade:
  "body.keeps (bindT (queryT (pending_dependents q)) (\<lambda>deps.
     bindT (forEachT (cascade_block e f p) deps) (\<lambda>_. returnT res)))"
  by (rule body.keepsI) (rule wp_mono [OF cascade_wp], auto)

lemma SkipFeature_evolves: "body.keeps (SkipFeature_body e)"
  by (rule body.keepsI)
    (auto simp: SkipFeature_body_def bind_simps split: option.splits intro!: body_cascade handler_intros)

end
