(* ===== verification/GithubHandlers.thy ===== *)
theory GithubHandlers
  imports Review
begin

text \<open>
  The handlers that record what GitHub reports (\<open>packages/core/src/commands/handlers/github\<close>):
  the tracked pull request row, \<open>record-pr-opened\<close>, \<open>record-ci-running\<close>, \<open>record-ci-passed\<close>,
  \<open>record-ci-failed\<close>, \<open>record-changes-requested\<close> and \<open>request-changes-after-ci-fail\<close>.
  GitHub itself is outside the model: an observed state is an argument.
\<close>

section \<open>The tracked pull request\<close>

text \<open>\<open>ObservedPullRequestState\<close> of \<open>scm/client.ts\<close>.\<close>

record observed_pr =
  ob_prNumber :: int
  ob_branchName :: string
  ob_baseBranch :: string
  ob_headSha :: "string option"
  ob_state :: string
  ob_reviewState :: string
  ob_ciStatus :: string
  ob_mergeable :: "bool option"
  ob_blockingLabels :: "string list"
  ob_conversationsResolved :: bool
  ob_mergedAt :: "int option"
  ob_mergeSha :: "string option"
  ob_closedAt :: "int option"

definition getPullRequestByFeatureRun :: "string \<Rightarrow> store \<Rightarrow> pull_request_row option" where
  "getPullRequestByFeatureRun featureRunId s =
     first_row (filter (\<lambda>p. pr_feature_run_id p = featureRunId) (pull_requests s))"

text \<open>
  \<open>feature_run_id\<close> is UNIQUE: the INSERT is reached only when there is no row for the run, so
  only its primary key can clash.
\<close>

definition insertPullRequestRow ::
    "string \<Rightarrow> string \<Rightarrow> int \<Rightarrow> string \<Rightarrow> string \<Rightarrow> string option \<Rightarrow> unit tx" where
  "insertPullRequestRow i featureRunId prNumber branchName baseBranch headSha =
     bindT (queryT clock) (\<lambda>now.
     bindT (queryT (getPullRequestByFeatureRun featureRunId)) (\<lambda>existing.
     if existing \<noteq> None
     then
       executeT (pull_requests_update
         (update_where (\<lambda>p. pr_feature_run_id p = featureRunId)
           (\<lambda>p. p\<lparr>pr_number := prNumber, pr_branch_name := branchName, pr_base_branch := baseBranch,
                  pr_head_sha := headSha, pr_state := ''open'', pr_review_state := ''none'',
                  pr_ci_status := ''pending'', pr_mergeable := None, pr_blocking_labels := [],
                  pr_conversations_resolved := False, pr_merged_at := None, pr_merge_sha := None,
                  pr_closed_at := None, pr_version := pr_version p + 1, pr_updated_at := now\<rparr>)))
     else
       insertT ''pull_requests'' pull_requests pull_requests_update pr_id
         \<lparr>pr_id = i, pr_feature_run_id = featureRunId, pr_number = prNumber,
          pr_branch_name = branchName, pr_base_branch = baseBranch, pr_head_sha = headSha,
          pr_state = ''open'', pr_review_state = ''none'', pr_ci_status = ''pending'',
          pr_mergeable = None, pr_blocking_labels = [], pr_conversations_resolved = False,
          pr_merged_at = None, pr_merge_sha = None, pr_closed_at = None, pr_version = 1,
          pr_updated_at = now\<rparr>))"

definition updatePullRequestCiStatus :: "string \<Rightarrow> string \<Rightarrow> unit tx" where
  "updatePullRequestCiStatus featureRunId ciStatus =
     bindT (queryT clock) (\<lambda>now.
     executeT (pull_requests_update
       (update_where (\<lambda>p. pr_feature_run_id p = featureRunId)
         (\<lambda>p. p\<lparr>pr_ci_status := ciStatus, pr_version := pr_version p + 1, pr_updated_at := now\<rparr>))))"

definition updatePullRequestReviewState :: "string \<Rightarrow> string \<Rightarrow> unit tx" where
  "updatePullRequestReviewState featureRunId reviewState =
     bindT (queryT clock) (\<lambda>now.
     executeT (pull_requests_update
       (update_where (\<lambda>p. pr_feature_run_id p = featureRunId)
         (\<lambda>p. p\<lparr>pr_review_state := reviewState, pr_version := pr_version p + 1,
                pr_updated_at := now\<rparr>))))"

text \<open>
  The normalising comparisons of the code (0/1 against booleans, JSON text against arrays,
  ISO strings against dates) are equality on the model's types.
\<close>

definition observed_unchanged :: "pull_request_row \<Rightarrow> observed_pr \<Rightarrow> bool" where
  "observed_unchanged existing ob =
     (pr_head_sha existing = ob_headSha ob \<and> pr_state existing = ob_state ob
      \<and> pr_review_state existing = ob_reviewState ob \<and> pr_ci_status existing = ob_ciStatus ob
      \<and> pr_mergeable existing = ob_mergeable ob
      \<and> pr_blocking_labels existing = ob_blockingLabels ob
      \<and> pr_conversations_resolved existing = ob_conversationsResolved ob
      \<and> pr_merged_at existing = ob_mergedAt ob \<and> pr_merge_sha existing = ob_mergeSha ob
      \<and> pr_closed_at existing = ob_closedAt ob)"

definition mirror_observed :: "observed_pr \<Rightarrow> int \<Rightarrow> pull_request_row \<Rightarrow> pull_request_row" where
  "mirror_observed ob now p =
     p\<lparr>pr_head_sha := ob_headSha ob, pr_state := ob_state ob, pr_review_state := ob_reviewState ob,
       pr_ci_status := ob_ciStatus ob, pr_mergeable := ob_mergeable ob,
       pr_blocking_labels := ob_blockingLabels ob,
       pr_conversations_resolved := ob_conversationsResolved ob, pr_merged_at := ob_mergedAt ob,
       pr_merge_sha := ob_mergeSha ob, pr_closed_at := ob_closedAt ob,
       pr_version := pr_version p + 1, pr_updated_at := now\<rparr>"

definition syncPullRequestObservedState :: "string \<Rightarrow> observed_pr \<Rightarrow> unit tx" where
  "syncPullRequestObservedState featureRunId ob =
     bindT (queryT (getPullRequestByFeatureRun featureRunId)) (\<lambda>existing.
     case existing of
       None \<Rightarrow> returnT ()
     | Some p \<Rightarrow>
         if observed_unchanged p ob then returnT ()
         else
           bindT (queryT clock) (\<lambda>now.
           executeT (pull_requests_update
             (update_where (\<lambda>q. pr_feature_run_id q = featureRunId) (mirror_observed ob now)))))"

section \<open>record-pr-opened\<close>

record pr_opened_payload = run_payload +
  po_prNumber :: int
  po_branchName :: string
  po_baseBranch :: string
  po_headSha :: "string option"

definition RecordPrOpened_body :: "pr_opened_payload envelope \<Rightarrow> command_result tx" where
  "RecordPrOpened_body envelope =
     (let featureRunId = p_featureRunId (payload envelope);
          projectId = p_projectId (payload envelope);
          expectedVersion = p_expectedVersion (payload envelope) in
      bindT (requireExecutionLane ''RecordPrOpenedCommand'' envelope projectId) (\<lambda>_.
      bindT (queryT (find_run featureRunId projectId)) (\<lambda>found.
      bindT (assertVersion ''feature_runs'' featureRunId run_version found expectedVersion) (\<lambda>run.
      bindT (fe_assertValid (run_state run) FE_PR_OPENED) (\<lambda>_.
      bindT (queryT clock) (\<lambda>now.
      bindT (cas_run featureRunId expectedVersion FE_PR_OPENED (nextVersion (run_version run)) now)
        (\<lambda>affected.
      if affected = 0
      then throwT (OptimisticLockError ''feature_runs'' featureRunId expectedVersion (-1))
      else
      bindT generateId (\<lambda>i.
      bindT (insertPullRequestRow i featureRunId (po_prNumber (payload envelope))
               (po_branchName (payload envelope)) (po_baseBranch (payload envelope))
               (po_headSha (payload envelope))) (\<lambda>_.
      bindT (writeWorkflowEvent (Some featureRunId) (Some projectId) ''github.pr_opened''
               (fe_str (run_state run)) (fe_str FE_PR_OPENED) (actor_id (env_actor envelope)) None)
        (\<lambda>eventId.
      bindT (writeOutboxEvent ''feature.pr_opened''
               [(''featureRunId'', JStr featureRunId), (''projectId'', JStr projectId),
                (''prNumber'', JInt (po_prNumber (payload envelope))),
                (''branchName'', JStr (po_branchName (payload envelope))),
                (''baseBranch'', JStr (po_baseBranch (payload envelope)))]) (\<lambda>_.
      returnT (accepted_result envelope (fe_str FE_PR_OPENED) [eventId]))))))))))))"

definition RecordPrOpenedHandler :: "pr_opened_payload handler" where
  "RecordPrOpenedHandler =
     \<lparr>commandName = ''RecordPrOpenedCommand'', requiredRole = ADMIN,
      requiredActorKind = Some SystemKind, idempotencyScope = ''record-pr-opened'',
      handler_execute = claimed_transaction ''record-pr-opened'' RecordPrOpened_body\<rparr>"

section \<open>record-ci-running and record-ci-passed\<close>

record check_payload = run_payload +
  ck_checkRunId :: string

definition RecordCiRunning_body :: "check_payload envelope \<Rightarrow> command_result tx" where
  "RecordCiRunning_body envelope =
     (let featureRunId = p_featureRunId (payload envelope);
          projectId = p_projectId (payload envelope);
          expectedVersion = p_expectedVersion (payload envelope) in
      bindT (requireExecutionLane ''RecordCiRunningCommand'' envelope projectId) (\<lambda>_.
      bindT (queryT (find_run featureRunId projectId)) (\<lambda>found.
      bindT (assertVersion ''feature_runs'' featureRunId run_version found expectedVersion) (\<lambda>run.
      bindT (fe_assertValid (run_state run) FE_CI_RUNNING) (\<lambda>_.
      bindT (queryT clock) (\<lambda>now.
      bindT (cas_run featureRunId expectedVersion FE_CI_RUNNING (nextVersion (run_version run)) now)
        (\<lambda>affected.
      if affected = 0
      then throwT (OptimisticLockError ''feature_runs'' featureRunId expectedVersion (-1))
      else
      bindT (writeWorkflowEvent (Some featureRunId) (Some projectId) ''github.ci_running''
               (fe_str (run_state run)) (fe_str FE_CI_RUNNING) (actor_id (env_actor envelope)) None)
        (\<lambda>eventId.
      bindT (writeOutboxEvent ''feature.ci_running''
               [(''featureRunId'', JStr featureRunId), (''projectId'', JStr projectId),
                (''checkRunId'', JStr (ck_checkRunId (payload envelope)))]) (\<lambda>_.
      returnT (accepted_result envelope (fe_str FE_CI_RUNNING) [eventId]))))))))))"

definition RecordCiRunningHandler :: "check_payload handler" where
  "RecordCiRunningHandler =
     \<lparr>commandName = ''RecordCiRunningCommand'', requiredRole = ADMIN,
      requiredActorKind = Some SystemKind, idempotencyScope = ''record-ci-running'',
      handler_execute = claimed_transaction ''record-ci-running'' RecordCiRunning_body\<rparr>"

definition RecordCiPassed_body :: "check_payload envelope \<Rightarrow> command_result tx" where
  "RecordCiPassed_body envelope =
     (let featureRunId = p_featureRunId (payload envelope);
          projectId = p_projectId (payload envelope);
          expectedVersion = p_expectedVersion (payload envelope) in
      bindT (queryT (find_run featureRunId projectId)) (\<lambda>found.
      bindT (assertVersion ''feature_runs'' featureRunId run_version found expectedVersion) (\<lambda>run.
      bindT (fe_assertValid (run_state run) FE_UNDER_REVIEW) (\<lambda>_.
      bindT (queryT clock) (\<lambda>now.
      bindT (cas_run featureRunId expectedVersion FE_UNDER_REVIEW (nextVersion (run_version run)) now)
        (\<lambda>affected.
      if affected = 0
      then throwT (OptimisticLockError ''feature_runs'' featureRunId expectedVersion (-1))
      else
      bindT (writeWorkflowEvent (Some featureRunId) (Some projectId) ''github.ci_passed''
               (fe_str (run_state run)) (fe_str FE_UNDER_REVIEW) (actor_id (env_actor envelope)) None)
        (\<lambda>eventId.
      bindT (writeOutboxEvent ''feature.ci_passed''
               [(''featureRunId'', JStr featureRunId), (''projectId'', JStr projectId),
                (''checkRunId'', JStr (ck_checkRunId (payload envelope))),
                (''conclusion'', JStr ''success'')]) (\<lambda>_.
      returnT (accepted_result envelope (fe_str FE_UNDER_REVIEW) [eventId])))))))))"

definition RecordCiPassedHandler :: "check_payload handler" where
  "RecordCiPassedHandler =
     \<lparr>commandName = ''RecordCiPassedCommand'', requiredRole = ADMIN,
      requiredActorKind = Some SystemKind, idempotencyScope = ''record-ci-passed'',
      handler_execute = claimed_transaction ''record-ci-passed'' RecordCiPassed_body\<rparr>"

section \<open>record-ci-failed\<close>

record ci_failed_payload = check_payload +
  cf_reason :: "string option"

text \<open>The finding a failed check leaves: \<open>`CI check ${checkRunId} failed${reason ? ... : ''}`\<close>.\<close>

definition ci_failure_finding :: "string \<Rightarrow> string option \<Rightarrow> finding_insert" where
  "ci_failure_finding checkRunId reason =
     \<lparr>fi_severity = SEV_BLOCKING, fi_category = ''ci_failure'',
      fi_description = ''CI check '' @ checkRunId @ '' failed''
        @ (if truthy reason then '': '' @ the reason else []),
      fi_filePath = None, fi_lineStart = None, fi_lineEnd = None\<rparr>"

definition RecordCiFailed_body :: "ci_failed_payload envelope \<Rightarrow> command_result tx" where
  "RecordCiFailed_body envelope =
     (let featureRunId = p_featureRunId (payload envelope);
          projectId = p_projectId (payload envelope);
          expectedVersion = p_expectedVersion (payload envelope) in
      bindT (queryT (find_run featureRunId projectId)) (\<lambda>found.
      bindT (assertVersion ''feature_runs'' featureRunId run_version found expectedVersion) (\<lambda>run.
      bindT (fe_assertValid (run_state run) FE_CI_FAILED) (\<lambda>_.
      bindT (queryT clock) (\<lambda>now.
      bindT (cas_run featureRunId expectedVersion FE_CI_FAILED (nextVersion (run_version run)) now)
        (\<lambda>affected.
      if affected = 0
      then throwT (OptimisticLockError ''feature_runs'' featureRunId expectedVersion (-1))
      else
      bindT (insertReviewFindings featureRunId None (run_fix_attempt_count run + 1)
               [ci_failure_finding (ck_checkRunId (payload envelope)) (cf_reason (payload envelope))])
        (\<lambda>_.
      bindT (writeWorkflowEvent (Some featureRunId) (Some projectId) ''github.ci_failed''
               (fe_str (run_state run)) (fe_str FE_CI_FAILED) (actor_id (env_actor envelope)) None)
        (\<lambda>eventId.
      bindT (writeOutboxEvent ''feature.ci_failed''
               [(''featureRunId'', JStr featureRunId), (''projectId'', JStr projectId),
                (''checkRunId'', JStr (ck_checkRunId (payload envelope))),
                (''conclusion'', JStr ''failure''),
                (''reason'', j_opt_str (cf_reason (payload envelope)))]) (\<lambda>_.
      returnT (accepted_result envelope (fe_str FE_CI_FAILED) [eventId]))))))))))"

definition RecordCiFailedHandler :: "ci_failed_payload handler" where
  "RecordCiFailedHandler =
     \<lparr>commandName = ''RecordCiFailedCommand'', requiredRole = ADMIN,
      requiredActorKind = Some SystemKind, idempotencyScope = ''record-ci-failed'',
      handler_execute = claimed_transaction ''record-ci-failed'' RecordCiFailed_body\<rparr>"

section \<open>record-changes-requested and request-changes-after-ci-fail\<close>

record changes_payload = run_payload +
  ch_reviewId :: string
  ch_reviewer :: "string option"
  ch_reviewerRunId :: "string option"
  ch_reviewCycle :: "int option"
  ch_findings :: "finding_insert list option"

definition fix_limit_exceeded :: "'p envelope \<Rightarrow> string \<Rightarrow> error" where
  "fix_limit_exceeded envelope featureRunId =
     commandError ''fix-attempt-limit-exceeded'' ''Fix-attempt threshold exceeded'' 409
       (''Feature run '' @ featureRunId @ '' has reached the fix-attempt threshold (''
          @ show_int FIX_ATTEMPT_THRESHOLD @ ''); dispatch EscalateToHumanCommand instead'')
       (Some (correlationId envelope))"

definition RecordChangesRequested_body :: "changes_payload envelope \<Rightarrow> command_result tx" where
  "RecordChangesRequested_body envelope =
     (let featureRunId = p_featureRunId (payload envelope);
          projectId = p_projectId (payload envelope);
          expectedVersion = p_expectedVersion (payload envelope) in
      bindT (queryT (find_run featureRunId projectId)) (\<lambda>found.
      bindT (assertVersion ''feature_runs'' featureRunId run_version found expectedVersion) (\<lambda>run.
      bindT (fe_assertValid (run_state run) FE_CHANGES_REQUESTED) (\<lambda>_.
      if run_fix_attempt_count run \<ge> FIX_ATTEMPT_THRESHOLD
      then throwT (fix_limit_exceeded envelope featureRunId)
      else
      bindT (queryT clock) (\<lambda>now.
      bindT (cas_run_fix_attempt featureRunId expectedVersion FE_CHANGES_REQUESTED
               (nextVersion (run_version run)) now) (\<lambda>affected.
      if affected = 0
      then throwT (OptimisticLockError ''feature_runs'' featureRunId expectedVersion (-1))
      else
      bindT
        (case ch_findings (payload envelope) of
           None \<Rightarrow> returnT ()
         | Some findings \<Rightarrow>
             if findings \<noteq> []
             then insertReviewFindings featureRunId (ch_reviewerRunId (payload envelope))
                    (case ch_reviewCycle (payload envelope) of
                       None \<Rightarrow> run_fix_attempt_count run + 1 | Some c \<Rightarrow> c) findings
             else returnT ()) (\<lambda>_.
      bindT (writeWorkflowEvent (Some featureRunId) (Some projectId) ''github.changes_requested''
               (fe_str (run_state run)) (fe_str FE_CHANGES_REQUESTED)
               (actor_id (env_actor envelope)) None) (\<lambda>eventId.
      bindT (writeOutboxEvent ''feature.changes_requested''
               [(''featureRunId'', JStr featureRunId), (''projectId'', JStr projectId),
                (''reviewId'', JStr (ch_reviewId (payload envelope))),
                (''reviewer'', j_opt_str (ch_reviewer (payload envelope)))]) (\<lambda>_.
      returnT (accepted_result envelope (fe_str FE_CHANGES_REQUESTED) [eventId]))))))))))"

definition RecordChangesRequestedHandler :: "changes_payload handler" where
  "RecordChangesRequestedHandler =
     \<lparr>commandName = ''RecordChangesRequestedCommand'', requiredRole = ADMIN,
      requiredActorKind = Some SystemKind, idempotencyScope = ''record-changes-requested'',
      handler_execute = claimed_transaction ''record-changes-requested'' RecordChangesRequested_body\<rparr>"

definition RequestChangesAfterCiFail_body :: "run_payload envelope \<Rightarrow> command_result tx" where
  "RequestChangesAfterCiFail_body envelope =
     (let featureRunId = p_featureRunId (payload envelope);
          projectId = p_projectId (payload envelope);
          expectedVersion = p_expectedVersion (payload envelope) in
      bindT (queryT (find_run featureRunId projectId)) (\<lambda>found.
      bindT (assertVersion ''feature_runs'' featureRunId run_version found expectedVersion) (\<lambda>run.
      bindT (fe_assertValid (run_state run) FE_CHANGES_REQUESTED) (\<lambda>_.
      if run_fix_attempt_count run \<ge> FIX_ATTEMPT_THRESHOLD
      then throwT (fix_limit_exceeded envelope featureRunId)
      else
      bindT (queryT clock) (\<lambda>now.
      bindT (cas_run_fix_attempt featureRunId expectedVersion FE_CHANGES_REQUESTED
               (nextVersion (run_version run)) now) (\<lambda>affected.
      if affected = 0
      then throwT (OptimisticLockError ''feature_runs'' featureRunId expectedVersion (-1))
      else
      bindT (writeWorkflowEvent (Some featureRunId) (Some projectId)
               ''github.changes_requested_after_ci_fail'' (fe_str (run_state run))
               (fe_str FE_CHANGES_REQUESTED) (actor_id (env_actor envelope)) None) (\<lambda>eventId.
      bindT (writeOutboxEvent ''feature.changes_requested''
               [(''featureRunId'', JStr featureRunId), (''projectId'', JStr projectId),
                (''reviewId'', JStr (''ci-failed:'' @ featureRunId)), (''reviewer'', JNull)]) (\<lambda>_.
      returnT (accepted_result envelope (fe_str FE_CHANGES_REQUESTED) [eventId])))))))))"

definition RequestChangesAfterCiFailHandler :: "run_payload handler" where
  "RequestChangesAfterCiFailHandler =
     \<lparr>commandName = ''RequestChangesAfterCiFailCommand'', requiredRole = ADMIN,
      requiredActorKind = Some SystemKind, idempotencyScope = ''request-changes-after-ci-fail'',
      handler_execute =
        claimed_transaction ''request-changes-after-ci-fail'' RequestChangesAfterCiFail_body\<rparr>"

section \<open>Guarantees\<close>

lemma body_insert_pull_request: "body.keeps (insertPullRequestRow a b c d e f)"
  unfolding insertPullRequestRow_def
  by (intro body_rules body_frame_update body_insertT) (simp_all add: body_insert_simps)

lemma body_sync_pull_request: "body.keeps (syncPullRequestObservedState a b)"
  unfolding syncPullRequestObservedState_def
  by (intro body_rules body_frame_update) (simp_all add: body_insert_simps)

lemma RecordPrOpened_evolves: "body.keeps (RecordPrOpened_body e)"
  by (rule body.keepsI)
    (auto simp: RecordPrOpened_body_def bind_simps split: option.splits
      intro!: handler_intros body_insert_pull_request)

lemma RecordCiRunning_evolves: "body.keeps (RecordCiRunning_body e)"
  by (rule body.keepsI)
    (auto simp: RecordCiRunning_body_def bind_simps split: option.splits intro!: handler_intros)

lemma RecordCiPassed_evolves: "body.keeps (RecordCiPassed_body e)"
  by (rule body.keepsI)
    (auto simp: RecordCiPassed_body_def bind_simps split: option.splits intro!: handler_intros)

lemma RecordCiFailed_evolves: "body.keeps (RecordCiFailed_body e)"
  by (rule body.keepsI)
    (auto simp: RecordCiFailed_body_def bind_simps split: option.splits
      intro!: handler_intros body_insert_findings)

lemma RecordChangesRequested_evolves: "body.keeps (RecordChangesRequested_body e)"
  by (rule body.keepsI)
    (auto simp: RecordChangesRequested_body_def bind_simps split: option.splits
      intro!: handler_intros body_insert_findings)

lemma RequestChangesAfterCiFail_evolves: "body.keeps (RequestChangesAfterCiFail_body e)"
  by (rule body.keepsI)
    (auto simp: RequestChangesAfterCiFail_body_def bind_simps split: option.splits
      intro!: handler_intros)

text \<open>Mirroring twice what was observed once changes nothing the second time.\<close>

lemma mirror_observed_unchanged: "observed_unchanged (mirror_observed ob now p) ob"
  by (simp add: observed_unchanged_def mirror_observed_def)

end
