(* ===== verification/Automation.thy ===== *)
theory Automation
  imports FeatureRuns
begin

text \<open>
  Automation control and budgets: the five handlers of
  \<open>packages/core/src/commands/handlers/automation\<close> and the cost manager of
  \<open>packages/core/src/cost\<close>, which evaluates or forecasts a budget and turns a breach into a
  command. Money is rational; the conversion of textual amounts (\<open>toNumber\<close>) is the identity.
\<close>

section \<open>The handlers\<close>

record project_payload =
  pp_projectId :: string
  pp_expectedVersion :: int

definition ws_at_version :: "string \<Rightarrow> int \<Rightarrow> workflow_state_row \<Rightarrow> bool" where
  "ws_at_version i v w = (ws_id w = i \<and> ws_version w = v)"

text \<open>
  \<open>UPDATE workflow_states SET automation_state = ?, version = ?, updated_at = ? WHERE id = ? AND
  version = ?\<close>.
\<close>

definition cas_automation :: "string \<Rightarrow> int \<Rightarrow> AutomationState \<Rightarrow> int \<Rightarrow> int \<Rightarrow> int tx" where
  "cas_automation i expectedVersion to_s newVersion now =
     executeAffectedT (\<lambda>s. count_where (ws_at_version i expectedVersion) (workflow_states s))
       (workflow_states_update
          (update_where (ws_at_version i expectedVersion)
             (\<lambda>w. w\<lparr>ws_automation_state := to_s, ws_version := newVersion, ws_updated_at := now\<rparr>)))"

definition PauseAutomation_body :: "project_payload envelope \<Rightarrow> command_result tx" where
  "PauseAutomation_body envelope =
     (let projectId = pp_projectId (payload envelope);
          expectedVersion = pp_expectedVersion (payload envelope) in
      bindT (queryT (workflow_state_of projectId)) (\<lambda>found.
      bindT (assertVersion ''workflow_states'' projectId ws_version found expectedVersion) (\<lambda>ws.
      bindT (au_assertValid (ws_automation_state ws) AU_PAUSED_BY_OPERATOR) (\<lambda>_.
      bindT (queryT clock) (\<lambda>now.
      bindT (cas_automation (ws_id ws) expectedVersion AU_PAUSED_BY_OPERATOR
               (nextVersion (ws_version ws)) now) (\<lambda>pauseAffected.
      if pauseAffected = 0
      then throwT (OptimisticLockError ''workflow_states'' projectId expectedVersion (-1))
      else
      bindT (writeWorkflowEvent None (Some projectId) ''automation.paused_by_operator''
               (au_str AU_RUNNING) (au_str AU_PAUSED_BY_OPERATOR) (actor_id (env_actor envelope)) None)
        (\<lambda>eventId.
      bindT (writeOutboxEvent ''automation.paused_by_operator''
               [(''projectId'', JStr projectId), (''reason'', JStr ''operator'')]) (\<lambda>_.
      returnT (accepted_result envelope (au_str AU_PAUSED_BY_OPERATOR) [eventId])))))))))"

definition PauseAutomationHandler :: "project_payload handler" where
  "PauseAutomationHandler =
     \<lparr>commandName = ''PauseAutomationCommand'', requiredRole = OPERATOR,
      requiredActorKind = Some Human, idempotencyScope = ''pause-automation'',
      handler_execute = claimed_transaction ''pause-automation'' PauseAutomation_body\<rparr>"

definition ResumeAutomation_body :: "project_payload envelope \<Rightarrow> command_result tx" where
  "ResumeAutomation_body envelope =
     (let projectId = pp_projectId (payload envelope);
          expectedVersion = pp_expectedVersion (payload envelope) in
      bindT (queryT (workflow_state_of projectId)) (\<lambda>found.
      bindT (assertVersion ''workflow_states'' projectId ws_version found expectedVersion) (\<lambda>ws.
      bindT (au_assertValid (ws_automation_state ws) AU_RUNNING) (\<lambda>_.
      bindT (queryT clock) (\<lambda>now.
      bindT (cas_automation (ws_id ws) expectedVersion AU_RUNNING (nextVersion (ws_version ws)) now)
        (\<lambda>affected.
      if affected = 0
      then throwT (OptimisticLockError ''workflow_states'' projectId expectedVersion (-1))
      else
      bindT (insertPolicyDecision projectId None ''automation_resume'' ''resumed''
               (Some (JObj [(''fromState'', JStr (au_str (ws_automation_state ws)))]))
               (actor_id (env_actor envelope))) (\<lambda>_.
      bindT (writeWorkflowEvent None (Some projectId) ''automation.resumed''
               (au_str (ws_automation_state ws)) (au_str AU_RUNNING) (actor_id (env_actor envelope)) None)
        (\<lambda>eventId.
      bindT (writeOutboxEvent ''automation.resumed''
               [(''projectId'', JStr projectId), (''reason'', JStr ''operator'')]) (\<lambda>_.
      returnT (accepted_result envelope (au_str AU_RUNNING) [eventId]))))))))))"

definition ResumeAutomationHandler :: "project_payload handler" where
  "ResumeAutomationHandler =
     \<lparr>commandName = ''ResumeAutomationCommand'', requiredRole = OPERATOR,
      requiredActorKind = Some Human, idempotencyScope = ''resume-automation'',
      handler_execute = claimed_transaction ''resume-automation'' ResumeAutomation_body\<rparr>"

record budget_exceeded_payload = project_payload +
  be_breachedPolicyId :: string
  be_currentSpend :: rat
  be_hardLimit :: rat
  be_featureRunId :: "string option"

definition RecordBudgetExceeded_body :: "budget_exceeded_payload envelope \<Rightarrow> command_result tx" where
  "RecordBudgetExceeded_body envelope =
     (let projectId = pp_projectId (payload envelope);
          expectedVersion = pp_expectedVersion (payload envelope) in
      bindT (queryT (workflow_state_of projectId)) (\<lambda>found.
      bindT (assertVersion ''workflow_states'' projectId ws_version found expectedVersion) (\<lambda>ws.
      bindT (au_assertValid (ws_automation_state ws) AU_PAUSED_BUDGET_EXCEEDED) (\<lambda>_.
      bindT (queryT clock) (\<lambda>now.
      bindT (cas_automation (ws_id ws) expectedVersion AU_PAUSED_BUDGET_EXCEEDED
               (nextVersion (ws_version ws)) now) (\<lambda>affected.
      if affected = 0
      then throwT (OptimisticLockError ''workflow_states'' projectId expectedVersion (-1))
      else
      bindT (writeWorkflowEvent (be_featureRunId (payload envelope)) (Some projectId)
               ''automation.budget_exceeded'' (au_str AU_RUNNING) (au_str AU_PAUSED_BUDGET_EXCEEDED)
               (actor_id (env_actor envelope)) None) (\<lambda>eventId.
      bindT (writeOutboxEvent ''automation.budget_exceeded''
               [(''projectId'', JStr projectId),
                (''breachedPolicyId'', JStr (be_breachedPolicyId (payload envelope))),
                (''currentSpend'', JNum (be_currentSpend (payload envelope))),
                (''hardLimit'', JNum (be_hardLimit (payload envelope)))]) (\<lambda>_.
      returnT (accepted_result envelope (au_str AU_PAUSED_BUDGET_EXCEEDED) [eventId])))))))))"

definition RecordBudgetExceededHandler :: "budget_exceeded_payload handler" where
  "RecordBudgetExceededHandler =
     \<lparr>commandName = ''RecordBudgetExceededCommand'', requiredRole = ADMIN,
      requiredActorKind = Some SystemKind, idempotencyScope = ''record-budget-exceeded'',
      handler_execute = claimed_transaction ''record-budget-exceeded'' RecordBudgetExceeded_body\<rparr>"

record budget_waiting_payload = project_payload +
  bw_breachedPolicyId :: string
  bw_currentSpend :: rat
  bw_softLimit :: rat

definition RecordBudgetApprovalWaiting_body :: "budget_waiting_payload envelope \<Rightarrow> command_result tx" where
  "RecordBudgetApprovalWaiting_body envelope =
     (let projectId = pp_projectId (payload envelope);
          expectedVersion = pp_expectedVersion (payload envelope) in
      bindT (queryT (workflow_state_of projectId)) (\<lambda>found.
      bindT (assertVersion ''workflow_states'' projectId ws_version found expectedVersion) (\<lambda>ws.
      bindT (au_assertValid (ws_automation_state ws) AU_WAITING_FOR_BUDGET_APPROVAL) (\<lambda>_.
      bindT (queryT clock) (\<lambda>now.
      bindT (cas_automation (ws_id ws) expectedVersion AU_WAITING_FOR_BUDGET_APPROVAL
               (nextVersion (ws_version ws)) now) (\<lambda>affected.
      if affected = 0
      then throwT (OptimisticLockError ''workflow_states'' projectId expectedVersion (-1))
      else
      bindT (writeWorkflowEvent None (Some projectId) ''automation.budget_approval_waiting''
               (au_str AU_RUNNING) (au_str AU_WAITING_FOR_BUDGET_APPROVAL)
               (actor_id (env_actor envelope)) None) (\<lambda>eventId.
      bindT (writeOutboxEvent ''automation.budget_approval_waiting''
               [(''projectId'', JStr projectId),
                (''breachedPolicyId'', JStr (bw_breachedPolicyId (payload envelope))),
                (''currentSpend'', JNum (bw_currentSpend (payload envelope))),
                (''softLimit'', JNum (bw_softLimit (payload envelope)))]) (\<lambda>_.
      returnT (accepted_result envelope (au_str AU_WAITING_FOR_BUDGET_APPROVAL) [eventId])))))))))"

definition RecordBudgetApprovalWaitingHandler :: "budget_waiting_payload handler" where
  "RecordBudgetApprovalWaitingHandler =
     \<lparr>commandName = ''RecordBudgetApprovalWaitingCommand'', requiredRole = ADMIN,
      requiredActorKind = Some SystemKind, idempotencyScope = ''record-budget-approval-waiting'',
      handler_execute =
        claimed_transaction ''record-budget-approval-waiting'' RecordBudgetApprovalWaiting_body\<rparr>"

record budget_override_payload = project_payload +
  bo_overrideReason :: string
  bo_approvedBudgetPolicyId :: string

definition ApproveBudgetOverride_body :: "budget_override_payload envelope \<Rightarrow> command_result tx" where
  "ApproveBudgetOverride_body envelope =
     (let projectId = pp_projectId (payload envelope);
          expectedVersion = pp_expectedVersion (payload envelope);
          overrideReason = bo_overrideReason (payload envelope);
          approvedBudgetPolicyId = bo_approvedBudgetPolicyId (payload envelope) in
      bindT (queryT (workflow_state_of projectId)) (\<lambda>found.
      bindT (assertVersion ''workflow_states'' projectId ws_version found expectedVersion) (\<lambda>ws.
      bindT (au_assertValid (ws_automation_state ws) AU_RUNNING) (\<lambda>_.
      bindT (queryT clock) (\<lambda>now.
      bindT (cas_automation (ws_id ws) expectedVersion AU_RUNNING (nextVersion (ws_version ws)) now)
        (\<lambda>affected.
      if affected = 0
      then throwT (OptimisticLockError ''workflow_states'' projectId expectedVersion (-1))
      else
      bindT (insertPolicyDecision projectId None ''budget_override'' ''approved''
               (Some (JObj [(''overrideReason'', JStr overrideReason),
                            (''approvedBudgetPolicyId'', JStr approvedBudgetPolicyId),
                            (''fromState'', JStr (au_str (ws_automation_state ws)))]))
               (actor_id (env_actor envelope))) (\<lambda>_.
      bindT (writeWorkflowEvent None (Some projectId) ''automation.budget_override_approved''
               (au_str (ws_automation_state ws)) (au_str AU_RUNNING) (actor_id (env_actor envelope)) None)
        (\<lambda>overrideEventId.
      bindT (writeWorkflowEvent None (Some projectId) ''automation.resumed''
               (au_str (ws_automation_state ws)) (au_str AU_RUNNING) (actor_id (env_actor envelope)) None)
        (\<lambda>resumedEventId.
      bindT (writeOutboxEvent ''automation.budget_override_approved''
               [(''projectId'', JStr projectId), (''overrideReason'', JStr overrideReason),
                (''approvedBudgetPolicyId'', JStr approvedBudgetPolicyId),
                (''fromState'', JStr (au_str (ws_automation_state ws)))]) (\<lambda>_.
      bindT (writeOutboxEvent ''automation.resumed''
               [(''projectId'', JStr projectId), (''reason'', JStr ''budget_override'')]) (\<lambda>_.
      returnT (accepted_result envelope (au_str AU_RUNNING) [overrideEventId, resumedEventId]))))))))))))"

definition ApproveBudgetOverrideHandler :: "budget_override_payload handler" where
  "ApproveBudgetOverrideHandler =
     \<lparr>commandName = ''ApproveBudgetOverrideCommand'', requiredRole = APPROVER,
      requiredActorKind = Some Human, idempotencyScope = ''approve-budget-override'',
      handler_execute = claimed_transaction ''approve-budget-override'' ApproveBudgetOverride_body\<rparr>"

section \<open>Budgets\<close>

datatype BudgetEvaluationStatus = BUDGET_OK | SOFT_BREACH | HARD_BREACH

fun budget_status_str :: "BudgetEvaluationStatus \<Rightarrow> string" where
  "budget_status_str BUDGET_OK = ''ok''"
| "budget_status_str SOFT_BREACH = ''soft_breach''"
| "budget_status_str HARD_BREACH = ''hard_breach''"

record budget_evaluation =
  ev_status :: BudgetEvaluationStatus
  ev_policy :: budget_policy_row
  ev_totalSpend :: rat

definition status_rank :: "BudgetEvaluationStatus \<Rightarrow> nat" where
  "status_rank st = (case st of BUDGET_OK \<Rightarrow> 0 | SOFT_BREACH \<Rightarrow> 1 | HARD_BREACH \<Rightarrow> 2)"

text \<open>Statuses are ordered by severity.\<close>

instantiation BudgetEvaluationStatus :: linorder
begin

definition less_eq_BudgetEvaluationStatus ::
    "BudgetEvaluationStatus \<Rightarrow> BudgetEvaluationStatus \<Rightarrow> bool" where
  "less_eq_BudgetEvaluationStatus a b = (status_rank a \<le> status_rank b)"

definition less_BudgetEvaluationStatus ::
    "BudgetEvaluationStatus \<Rightarrow> BudgetEvaluationStatus \<Rightarrow> bool" where
  "less_BudgetEvaluationStatus a b = (status_rank a < status_rank b)"

instance
proof
  fix a b :: BudgetEvaluationStatus
  assume "a \<le> b" "b \<le> a"
  then show "a = b"
    by (cases a; cases b) (simp_all add: less_eq_BudgetEvaluationStatus_def status_rank_def)
qed (auto simp: less_eq_BudgetEvaluationStatus_def less_BudgetEvaluationStatus_def)

end

text \<open>\<open>ORDER BY updated_at DESC, id DESC\<close>, then the first active row.\<close>

definition policy_before :: "budget_policy_row \<Rightarrow> budget_policy_row \<Rightarrow> bool" where
  "policy_before a b =
     (bp_updated_at a > bp_updated_at b
      \<or> (bp_updated_at a = bp_updated_at b \<and> bp_id a > bp_id b))"

definition active_policy :: "string \<Rightarrow> string option \<Rightarrow> BudgetScope \<Rightarrow> store \<Rightarrow> budget_policy_row option" where
  "active_policy projectId featureRequestId scope s =
     first_row (filter bp_is_active (order_by policy_before
       (filter (\<lambda>b. bp_project_id b = projectId \<and> bp_scope b = scope
                  \<and> bp_feature_request_id b = featureRequestId) (budget_policies s))))"

text \<open>
  \<open>SELECT COALESCE(SUM(amount), 0)\<close> over the project's cost records of the scope, of the feature
  request when one is given, and of the policy's window when it has one.
\<close>

definition live_spend ::
    "string \<Rightarrow> string option \<Rightarrow> BudgetScope \<Rightarrow> budget_policy_row \<Rightarrow> store \<Rightarrow> rat" where
  "live_spend projectId featureRequestId scope policy s =
     sum_list (map co_amount
       (filter (\<lambda>c. co_project_id c = projectId \<and> co_scope c = scope
                  \<and> (case featureRequestId of None \<Rightarrow> True | Some f \<Rightarrow> co_feature_request_id c = Some f)
                  \<and> (case bp_window_days policy of None \<Rightarrow> True
                      | Some days \<Rightarrow> co_recorded_at c \<ge> clock s - days * 24 * 60 * 60 * 1000))
          (cost_records s)))"

definition breach_status :: "budget_policy_row \<Rightarrow> rat \<Rightarrow> BudgetEvaluationStatus" where
  "breach_status policy spend =
     (if (case bp_hard_limit policy of None \<Rightarrow> False | Some hardLimit \<Rightarrow> spend \<ge> hardLimit)
      then HARD_BREACH
      else if (case bp_soft_limit policy of None \<Rightarrow> False | Some softLimit \<Rightarrow> spend \<ge> softLimit)
      then SOFT_BREACH
      else BUDGET_OK)"

definition evaluateBudget ::
    "string \<Rightarrow> string option \<Rightarrow> BudgetScope \<Rightarrow> store \<Rightarrow> budget_evaluation option" where
  "evaluateBudget projectId featureRequestId scope s =
     (case active_policy projectId featureRequestId scope s of
        None \<Rightarrow> None
      | Some policy \<Rightarrow>
          let totalSpend = live_spend projectId featureRequestId scope policy s in
          Some \<lparr>ev_status = breach_status policy totalSpend, ev_policy = policy,
                ev_totalSpend = totalSpend\<rparr>)"

record budget_forecast =
  fc_status :: BudgetEvaluationStatus
  fc_policy :: budget_policy_row
  fc_currentSpend :: rat
  fc_estimatedCostUsd :: rat
  fc_projectedSpend :: rat

definition forecastBudget ::
    "string \<Rightarrow> string option \<Rightarrow> BudgetScope \<Rightarrow> rat \<Rightarrow> store \<Rightarrow> budget_forecast option" where
  "forecastBudget projectId featureRequestId scope estimatedCostUsd s =
     (case active_policy projectId featureRequestId scope s of
        None \<Rightarrow> None
      | Some policy \<Rightarrow>
          let currentSpend = live_spend projectId featureRequestId scope policy s;
              projectedSpend = currentSpend + estimatedCostUsd in
          Some \<lparr>fc_status = breach_status policy projectedSpend, fc_policy = policy,
                fc_currentSpend = currentSpend, fc_estimatedCostUsd = estimatedCostUsd,
                fc_projectedSpend = projectedSpend\<rparr>)"

datatype budget_application = NotApplied | Applied BudgetEvaluationStatus

definition applyBudgetDecision ::
    "budget_evaluation \<Rightarrow> string \<Rightarrow> int \<Rightarrow> actor_identity \<Rightarrow> string \<Rightarrow> string option
      \<Rightarrow> budget_application db_action" where
  "applyBudgetDecision evaluation projectId expectedVersion act corr featureRunId =
     (case ev_status evaluation of
        BUDGET_OK \<Rightarrow> returnA NotApplied
      | HARD_BREACH \<Rightarrow>
          bindA (transaction generateId) (\<lambda>i.
          bindA (execute RecordBudgetExceededHandler
                   \<lparr>commandId = i,
                    idempotencyKey = ''budget-exceeded:'' @ projectId @ '':''
                      @ bp_id (ev_policy evaluation) @ '':'' @ show_int expectedVersion,
                    payload =
                      \<lparr>pp_projectId = projectId, pp_expectedVersion = expectedVersion,
                       be_breachedPolicyId = bp_id (ev_policy evaluation),
                       be_currentSpend = ev_totalSpend evaluation,
                       be_hardLimit = (case bp_hard_limit (ev_policy evaluation) of None \<Rightarrow> 0 | Some l \<Rightarrow> l),
                       be_featureRunId = featureRunId\<rparr>,
                    env_actor = act, correlationId = corr, lockContext = None\<rparr>) (\<lambda>_.
          returnA (Applied HARD_BREACH)))
      | SOFT_BREACH \<Rightarrow>
          bindA (transaction generateId) (\<lambda>i.
          bindA (execute RecordBudgetApprovalWaitingHandler
                   \<lparr>commandId = i,
                    idempotencyKey = ''budget-approval-waiting:'' @ projectId @ '':''
                      @ bp_id (ev_policy evaluation) @ '':'' @ show_int expectedVersion,
                    payload =
                      \<lparr>pp_projectId = projectId, pp_expectedVersion = expectedVersion,
                       bw_breachedPolicyId = bp_id (ev_policy evaluation),
                       bw_currentSpend = ev_totalSpend evaluation,
                       bw_softLimit = (case bp_soft_limit (ev_policy evaluation) of None \<Rightarrow> 0 | Some l \<Rightarrow> l)\<rparr>,
                    env_actor = act, correlationId = corr, lockContext = None\<rparr>) (\<lambda>_.
          returnA (Applied SOFT_BREACH))))"

section \<open>Guarantees\<close>

lemma ws_at_version_unique:
  assumes "workflow_state_of p s = Some w" "wf_store s" "w' \<in> set (workflow_states s)"
    "ws_at_version (ws_id w) v w'"
  shows "w' = w"
  using assms workflow_state_of_Some [OF assms(1)]
  by (auto simp: wf_store_def ws_at_version_def intro: distinct_map_unique)

lemma body_cas_automation:
  assumes "body_evolves s0 s" "workflow_state_of p s = Some w" "i = ws_id w" "ws_version w = v"
    "au_valid (ws_automation_state w) to_s" "nv = v + 1" "\<And>a. body.keeps (k a)"
  shows "wp (bindT (cas_automation i v to_s nv now) k) (\<lambda>_ u. body_evolves s0 u) (\<lambda>_. True) s"
  unfolding cas_automation_def wp_bindT wp_executeAffectedT
proof (rule wp_body_chain [OF assms(1) body_update_ws assms(7)])
  fix w' assume "wf_store s" "w' \<in> set (workflow_states s)" "ws_at_version i v w'"
  with assms(2,3) have "w' = w" by (auto intro: ws_at_version_unique)
  with assms show "ws_step w' (w'\<lparr>ws_automation_state := to_s, ws_version := nv, ws_updated_at := now\<rparr>)"
    using ws_step.automation [of w to_s now] by (simp add: au_valid_iff)
qed

lemma PauseAutomation_evolves: "body.keeps (PauseAutomation_body e)"
  by (rule body.keepsI)
    (auto simp: PauseAutomation_body_def bind_simps split: option.splits
      intro!: body_cas_automation body.R_refl body_rules)

lemma ResumeAutomation_evolves: "body.keeps (ResumeAutomation_body e)"
  by (rule body.keepsI)
    (auto simp: ResumeAutomation_body_def bind_simps split: option.splits
      intro!: body_cas_automation body.R_refl body_rules)

lemma RecordBudgetExceeded_evolves: "body.keeps (RecordBudgetExceeded_body e)"
  by (rule body.keepsI)
    (auto simp: RecordBudgetExceeded_body_def bind_simps split: option.splits
      intro!: body_cas_automation body.R_refl body_rules)

lemma RecordBudgetApprovalWaiting_evolves: "body.keeps (RecordBudgetApprovalWaiting_body e)"
  by (rule body.keepsI)
    (auto simp: RecordBudgetApprovalWaiting_body_def bind_simps split: option.splits
      intro!: body_cas_automation body.R_refl body_rules)

lemma ApproveBudgetOverride_evolves: "body.keeps (ApproveBudgetOverride_body e)"
  by (rule body.keepsI)
    (auto simp: ApproveBudgetOverride_body_def bind_simps split: option.splits
      intro!: body_cas_automation body.R_refl body_rules)

section \<open>Budget lemmas\<close>

lemma breach_status_mono:
  assumes "a \<le> b"
  shows "breach_status policy a \<le> breach_status policy b"
  using assms
  by (auto simp: breach_status_def less_eq_BudgetEvaluationStatus_def status_rank_def split: option.splits)

lemma evaluateBudget_Some:
  "evaluateBudget p f sc s = Some ev \<longleftrightarrow>
     (\<exists>policy. active_policy p f sc s = Some policy
        \<and> ev = \<lparr>ev_status = breach_status policy (live_spend p f sc policy s), ev_policy = policy,
                ev_totalSpend = live_spend p f sc policy s\<rparr>)"
  by (auto simp: evaluateBudget_def Let_def split: option.splits)

lemma active_policy_active:
  assumes "active_policy p f sc s = Some b"
  shows "b \<in> set (budget_policies s)" "bp_is_active b" "bp_project_id b = p" "bp_scope b = sc"
    "bp_feature_request_id b = f"
  using assms by (auto simp: active_policy_def dest!: first_row_in)

end
