(* ===== verification/MergeGate.thy ===== *)
theory MergeGate
  imports GithubHandlers Automation
begin

text \<open>
  The merge gate (\<open>packages/core/src/merge-gate\<close>) and the handlers around a merge
  (\<open>record-approved-by-policy\<close>, \<open>merge-if-ready\<close>, \<open>record-merged\<close>, \<open>record-merge-failed\<close>,
  \<open>reconcile-merge-failed\<close> of \<open>packages/core/src/commands/handlers/feature\<close>). The gate runs in a
  transaction of its own, which commits its evidence row whatever it decides; only an approval
  goes on to the transition.
\<close>

section \<open>Text helpers\<close>

fun js_split :: "char \<Rightarrow> string \<Rightarrow> string list" where
  "js_split c [] = [[]]"
| "js_split c (x # xs) =
     (case js_split c xs of
        [] \<Rightarrow> [[x]]
      | w # ws \<Rightarrow> if x = c then [] # w # ws else (x # w) # ws)"

definition quoted :: "string \<Rightarrow> string" where
  "quoted x = [CHR 0x27] @ x @ [CHR 0x27]"

section \<open>The blocking labels\<close>

definition DEFAULT_MERGE_GATE_BLOCKING_LABELS :: "string list" where
  "DEFAULT_MERGE_GATE_BLOCKING_LABELS = [''do-not-merge'', ''wip'', ''blocked'']"

definition resolveBlockingLabelsPolicy :: "store \<Rightarrow> string list" where
  "resolveBlockingLabelsPolicy s =
     (case env_vars s ''MERGE_GATE_BLOCKING_LABELS'' of
        None \<Rightarrow> DEFAULT_MERGE_GATE_BLOCKING_LABELS
      | Some raw \<Rightarrow>
          let trimmed = js_trim raw in
          if trimmed = [] then []
          else filter (\<lambda>label. length label > 0)
                 (map (\<lambda>label. to_lower (js_trim label)) (js_split (CHR 0x2C) trimmed)))"

section \<open>The evaluation\<close>

record merge_gate_result =
  mr_evaluationId :: string
  mr_decision :: string
  mr_reasons :: "string list"
  mr_ciStatus :: "string option"
  mr_reviewStatus :: "string option"
  mr_unresolvedBlockingFindings :: int
  mr_budgetStatus :: string
  mr_humanApprovalRequired :: bool
  mr_humanApprovalId :: "string option"
  mr_branchProtectionOk :: bool

definition default_branch_of :: "string \<Rightarrow> store \<Rightarrow> string option" where
  "default_branch_of projectId s =
     (case first_row (filter (\<lambda>r. repo_project_id r = projectId) (repositories s)) of
        None \<Rightarrow> None | Some r \<Rightarrow> Some (repo_default_branch r))"

definition unresolved_blocking :: "string \<Rightarrow> store \<Rightarrow> int" where
  "unresolved_blocking featureRunId s =
     count_where (\<lambda>f. rf_feature_run_id f = featureRunId \<and> \<not> rf_resolved f
                    \<and> (rf_severity f = SEV_BLOCKING \<or> rf_severity f = SEV_REQUIRES_HUMAN_DECISION))
       (review_findings s)"

definition matched_labels :: "pull_request_row option \<Rightarrow> store \<Rightarrow> string list" where
  "matched_labels pr s =
     (case pr of
        None \<Rightarrow> []
      | Some p \<Rightarrow>
          filter (\<lambda>label. label \<in> set (map to_lower (pr_blocking_labels p)))
            (resolveBlockingLabelsPolicy s))"

text \<open>\<open>ORDER BY updated_at DESC, id DESC LIMIT 1\<close> over the rejected and deferred approvals.\<close>

definition outstanding_approval :: "string \<Rightarrow> store \<Rightarrow> human_approval_row option" where
  "outstanding_approval featureRunId s =
     first_row (order_by
       (\<lambda>a b. ha_updated_at a > ha_updated_at b
            \<or> (ha_updated_at a = ha_updated_at b \<and> ha_id a > ha_id b))
       (filter (\<lambda>a. ha_feature_run_id a = Some featureRunId
                  \<and> (ha_decision a = Some DEC_REJECTED \<or> ha_decision a = Some DEC_DEFERRED))
          (human_approvals s)))"

fun decision_str :: "approval_decision \<Rightarrow> string" where
  "decision_str DEC_APPROVED = ''approved''"
| "decision_str DEC_REJECTED = ''rejected''"
| "decision_str DEC_DEFERRED = ''deferred''"

definition gate_budget_status :: "string \<Rightarrow> string \<Rightarrow> store \<Rightarrow> BudgetEvaluationStatus" where
  "gate_budget_status projectId featureRequestId s =
     (case evaluateBudget projectId (Some featureRequestId) SCOPE_FEATURE s of
        None \<Rightarrow> BUDGET_OK | Some ev \<Rightarrow> ev_status ev)"

definition pull_request_reasons :: "string option \<Rightarrow> pull_request_row option \<Rightarrow> string list" where
  "pull_request_reasons defaultBranch pr =
     (case pr of
        None \<Rightarrow> [''no pull request is tracked for this feature run yet'']
      | Some p \<Rightarrow>
          (if pr_state p \<noteq> ''open''
           then [''pull request state is '' @ quoted (pr_state p) @ '', not '' @ quoted ''open''] else [])
          @ (case defaultBranch of
               None \<Rightarrow> []
             | Some b \<Rightarrow>
                 if pr_base_branch p \<noteq> b
                 then [''pull request targets base branch '' @ quoted (pr_base_branch p)
                         @ '', not the repository's default branch '' @ quoted b]
                 else [])
          @ (if pr_ci_status p \<noteq> ''passed''
             then [''CI status is '' @ quoted (pr_ci_status p) @ '', not '' @ quoted ''passed''] else [])
          @ (if pr_review_state p = ''changes_requested''
             then [''GitHub reports outstanding review changes-requested''] else []))"

text \<open>The reasons for a rejection, in the order the code pushes them.\<close>

definition gate_reasons :: "string \<Rightarrow> string \<Rightarrow> string \<Rightarrow> store \<Rightarrow> string list" where
  "gate_reasons featureRunId projectId featureRequestId s =
     (let active = active_run_of projectId s;
          defaultBranch = default_branch_of projectId s;
          pr = getPullRequestByFeatureRun featureRunId s;
          unresolved = unresolved_blocking featureRunId s;
          matched = matched_labels pr s;
          budgetStatus = gate_budget_status projectId featureRequestId s in
      (if active \<noteq> Some featureRunId
       then [''feature run is not the project's active feature run (active: ''
               @ (case active of None \<Rightarrow> ''none'' | Some a \<Rightarrow> a) @ '')''] else [])
      @ (if defaultBranch = None
         then [''no repository is linked for this project; cannot verify the target base branch'']
         else [])
      @ pull_request_reasons defaultBranch pr
      @ (if unresolved > 0
         then [show_int unresolved @ '' unresolved blocking/requires-human-decision finding(s)''] else [])
      @ (if matched \<noteq> [] then [''blocking label(s) present: '' @ js_join '', '' matched] else [])
      @ (if (case pr of None \<Rightarrow> True | Some p \<Rightarrow> pr_mergeable p \<noteq> Some True)
         then [''pull request is not currently mergeable (branch protection / mergeability check)'']
         else [])
      @ (if budgetStatus \<noteq> BUDGET_OK
         then [''feature budget status is '' @ quoted (budget_status_str budgetStatus)] else [])
      @ (case outstanding_approval featureRunId s of
           None \<Rightarrow> []
         | Some a \<Rightarrow> [''a required human approval is '' @ quoted (case ha_decision a of None \<Rightarrow> ''null'' | Some d \<Rightarrow> decision_str d)
                        @ '', not '' @ quoted ''approved'']))"

definition evaluateMergeGate :: "string \<Rightarrow> string \<Rightarrow> string \<Rightarrow> merge_gate_result tx" where
  "evaluateMergeGate featureRunId projectId featureRequestId =
     bindT (queryT (gate_reasons featureRunId projectId featureRequestId)) (\<lambda>reasons.
     bindT (queryT (getPullRequestByFeatureRun featureRunId)) (\<lambda>pr.
     bindT (queryT (unresolved_blocking featureRunId)) (\<lambda>unresolved.
     bindT (queryT (gate_budget_status projectId featureRequestId)) (\<lambda>budgetStatus.
     bindT (queryT (outstanding_approval featureRunId)) (\<lambda>outstanding.
     let decision = (if reasons = [] then ''approved'' else ''rejected'');
         ciStatus = map_option pr_ci_status pr;
         reviewStatus = map_option pr_review_state pr;
         branchProtectionOk = (case pr of None \<Rightarrow> False | Some p \<Rightarrow> pr_mergeable p = Some True) in
     bindT generateId (\<lambda>evaluationId.
     bindT (queryT clock) (\<lambda>now.
     bindT (insertT ''merge_gate_evaluations'' merge_gate_evaluations merge_gate_evaluations_update mg_id
              \<lparr>mg_id = evaluationId, mg_feature_run_id = featureRunId, mg_ci_status = ciStatus,
               mg_review_status = reviewStatus, mg_unresolved_blocking_findings = unresolved,
               mg_budget_status = budget_status_str budgetStatus,
               mg_human_approval_required = (outstanding \<noteq> None),
               mg_human_approval_id = map_option ha_id outstanding,
               mg_branch_protection_ok = branchProtectionOk, mg_final_decision = decision,
               mg_evaluated_at = now\<rparr>) (\<lambda>_.
     returnT
       \<lparr>mr_evaluationId = evaluationId, mr_decision = decision, mr_reasons = reasons,
        mr_ciStatus = ciStatus, mr_reviewStatus = reviewStatus,
        mr_unresolvedBlockingFindings = unresolved,
        mr_budgetStatus = budget_status_str budgetStatus,
        mr_humanApprovalRequired = (outstanding \<noteq> None),
        mr_humanApprovalId = map_option ha_id outstanding,
        mr_branchProtectionOk = branchProtectionOk\<rparr>))))))))"

definition mergeGateBlocked :: "string list \<Rightarrow> string \<Rightarrow> string option \<Rightarrow> error" where
  "mergeGateBlocked reasons featureRunId corr =
     MergeGateBlockedError reasons
       \<lparr>prob_type = ''merge-gate-blocked'', prob_title = ''Merge gate did not pass'',
        prob_status = 409,
        prob_detail = ''Merge gate rejected feature run '' @ featureRunId @ '': '' @ js_join ''; '' reasons,
        prob_instance = corr\<rparr>"

text \<open>
  The options of \<open>publishMergeGateStatusCheck\<close>'s one call to the SCM client: the state and the
  description of the check, cut to 140 characters.
\<close>

definition status_check_of :: "string \<Rightarrow> string list \<Rightarrow> string \<times> string" where
  "status_check_of decision reasons =
     (if decision = ''approved'' then (''success'', ''Merge gate passed'')
      else (''failure'', take 140 (''Merge gate rejected: '' @ js_join ''; '' reasons)))"

section \<open>record-approved-by-policy and merge-if-ready\<close>

text \<open>The first transaction of both: the run is looked up and the gate evaluated.\<close>

definition gate_phase :: "run_payload envelope \<Rightarrow> merge_gate_result tx" where
  "gate_phase envelope =
     (let featureRunId = p_featureRunId (payload envelope);
          projectId = p_projectId (payload envelope) in
      bindT (queryT (find_run featureRunId projectId)) (\<lambda>found.
      case found of
        None \<Rightarrow> throwT (run_not_found envelope featureRunId projectId)
      | Some run \<Rightarrow> evaluateMergeGate featureRunId projectId (run_feature_request_id run)))"

text \<open>The second transaction: the transition, naming the evaluation that allowed it.\<close>

definition gated_transition ::
    "FeatureExecutionState \<Rightarrow> string \<Rightarrow> string \<Rightarrow> run_payload envelope \<Rightarrow> command_result tx" where
  "gated_transition to_s eventType evaluationId envelope =
     (let featureRunId = p_featureRunId (payload envelope);
          projectId = p_projectId (payload envelope);
          expectedVersion = p_expectedVersion (payload envelope) in
      bindT (queryT (find_run featureRunId projectId)) (\<lambda>found.
      bindT (assertVersion ''feature_runs'' featureRunId run_version found expectedVersion) (\<lambda>run.
      bindT (fe_assertValid (run_state run) to_s) (\<lambda>_.
      bindT (queryT clock) (\<lambda>now.
      bindT (cas_run featureRunId expectedVersion to_s (nextVersion (run_version run)) now)
        (\<lambda>affected.
      if affected = 0
      then throwT (OptimisticLockError ''feature_runs'' featureRunId expectedVersion (-1))
      else
      bindT (writeWorkflowEvent (Some featureRunId) (Some projectId) eventType
               (fe_str (run_state run)) (fe_str to_s) (actor_id (env_actor envelope)) None) (\<lambda>eventId.
      bindT (writeOutboxEvent eventType
               [(''featureRunId'', JStr featureRunId), (''projectId'', JStr projectId),
                (''mergeGateEvaluationId'', JStr evaluationId)]) (\<lambda>_.
      returnT (accepted_result envelope (fe_str to_s) [eventId])))))))))"

definition gated_execute ::
    "FeatureExecutionState \<Rightarrow> string \<Rightarrow> string \<Rightarrow> run_payload envelope \<Rightarrow> command_result db_action" where
  "gated_execute to_s eventType scope envelope =
     bindA (transaction (gate_phase envelope)) (\<lambda>evaluation.
     if mr_decision evaluation \<noteq> ''approved''
     then throwA (mergeGateBlocked (mr_reasons evaluation) (p_featureRunId (payload envelope))
                    (Some (correlationId envelope)))
     else
       claimed_transaction scope (gated_transition to_s eventType (mr_evaluationId evaluation)) envelope)"

definition RecordApprovedByPolicyHandler :: "run_payload handler" where
  "RecordApprovedByPolicyHandler =
     \<lparr>commandName = ''RecordApprovedByPolicyCommand'', requiredRole = ADMIN,
      requiredActorKind = Some SystemKind, idempotencyScope = ''record-approved-by-policy'',
      handler_execute =
        gated_execute FE_APPROVED_BY_POLICY ''feature.approved_by_policy'' ''record-approved-by-policy''\<rparr>"

definition MergeIfReadyHandler :: "run_payload handler" where
  "MergeIfReadyHandler =
     \<lparr>commandName = ''MergeIfReadyCommand'', requiredRole = APPROVER,
      requiredActorKind = Some Human, idempotencyScope = ''merge-if-ready'',
      handler_execute = gated_execute FE_MERGE_READY ''feature.merge_ready'' ''merge-if-ready''\<rparr>"

section \<open>record-merged, record-merge-failed, reconcile-merge-failed\<close>

record merged_payload = run_payload +
  me_mergeSha :: string

definition RecordMerged_body :: "merged_payload envelope \<Rightarrow> command_result tx" where
  "RecordMerged_body envelope =
     (let featureRunId = p_featureRunId (payload envelope);
          projectId = p_projectId (payload envelope);
          expectedVersion = p_expectedVersion (payload envelope);
          mergeSha = me_mergeSha (payload envelope) in
      bindT (queryT (find_run featureRunId projectId)) (\<lambda>found.
      if found = None then throwT (run_not_found envelope featureRunId projectId)
      else
      bindT (assertVersion ''feature_runs'' featureRunId run_version found expectedVersion) (\<lambda>run.
      bindT (fe_assertValid (run_state run) FE_MERGED) (\<lambda>_.
      bindT (queryT clock) (\<lambda>now.
      bindT (cas_run featureRunId expectedVersion FE_MERGED (nextVersion (run_version run)) now)
        (\<lambda>affected.
      if affected = 0
      then throwT (OptimisticLockError ''feature_runs'' featureRunId expectedVersion (-1))
      else
      bindT (executeT (pull_requests_update
               (update_where (\<lambda>p. pr_feature_run_id p = featureRunId)
                 (\<lambda>p. p\<lparr>pr_state := ''merged'', pr_merge_sha := Some mergeSha,
                        pr_merged_at := Some now, pr_version := pr_version p + 1,
                        pr_updated_at := now\<rparr>)))) (\<lambda>_.
      bindT (clear_active_run projectId featureRunId now) (\<lambda>_.
      bindT (writeWorkflowEvent (Some featureRunId) (Some projectId) ''feature.merged''
               (fe_str (run_state run)) (fe_str FE_MERGED) (actor_id (env_actor envelope)) None)
        (\<lambda>eventId.
      bindT (writeOutboxEvent ''feature.merged''
               [(''featureRunId'', JStr featureRunId), (''projectId'', JStr projectId),
                (''mergeSha'', JStr mergeSha)]) (\<lambda>_.
      returnT (accepted_result envelope (fe_str FE_MERGED) [eventId])))))))))))"

definition RecordMergedHandler :: "merged_payload handler" where
  "RecordMergedHandler =
     \<lparr>commandName = ''RecordMergedCommand'', requiredRole = ADMIN,
      requiredActorKind = Some SystemKind, idempotencyScope = ''record-merged'',
      handler_execute = claimed_transaction ''record-merged'' RecordMerged_body\<rparr>"

record merge_failed_payload = run_payload +
  mf_reason :: string
  mf_autoClearable :: bool

definition RecordMergeFailed_body :: "merge_failed_payload envelope \<Rightarrow> command_result tx" where
  "RecordMergeFailed_body envelope =
     (let featureRunId = p_featureRunId (payload envelope);
          projectId = p_projectId (payload envelope);
          expectedVersion = p_expectedVersion (payload envelope) in
      bindT (queryT (find_run featureRunId projectId)) (\<lambda>found.
      if found = None then throwT (run_not_found envelope featureRunId projectId)
      else
      bindT (assertVersion ''feature_runs'' featureRunId run_version found expectedVersion) (\<lambda>run.
      bindT (fe_assertValid (run_state run) FE_MERGE_FAILED) (\<lambda>_.
      bindT (queryT clock) (\<lambda>now.
      bindT (cas_run featureRunId expectedVersion FE_MERGE_FAILED (nextVersion (run_version run)) now)
        (\<lambda>affected.
      if affected = 0
      then throwT (OptimisticLockError ''feature_runs'' featureRunId expectedVersion (-1))
      else
      bindT (writeWorkflowEvent (Some featureRunId) (Some projectId) ''feature.merge_failed''
               (fe_str (run_state run)) (fe_str FE_MERGE_FAILED) (actor_id (env_actor envelope)) None)
        (\<lambda>eventId.
      bindT (writeOutboxEvent ''feature.merge_failed''
               [(''featureRunId'', JStr featureRunId), (''projectId'', JStr projectId),
                (''reason'', JStr (mf_reason (payload envelope))),
                (''autoClearable'', JBool (mf_autoClearable (payload envelope)))]) (\<lambda>_.
      returnT (accepted_result envelope (fe_str FE_MERGE_FAILED) [eventId])))))))))"

definition RecordMergeFailedHandler :: "merge_failed_payload handler" where
  "RecordMergeFailedHandler =
     \<lparr>commandName = ''RecordMergeFailedCommand'', requiredRole = ADMIN,
      requiredActorKind = Some SystemKind, idempotencyScope = ''record-merge-failed'',
      handler_execute = claimed_transaction ''record-merge-failed'' RecordMergeFailed_body\<rparr>"

definition ReconcileMergeFailed_body :: "run_payload envelope \<Rightarrow> command_result tx" where
  "ReconcileMergeFailed_body envelope =
     (let featureRunId = p_featureRunId (payload envelope);
          projectId = p_projectId (payload envelope);
          expectedVersion = p_expectedVersion (payload envelope) in
      bindT (queryT (find_run featureRunId projectId)) (\<lambda>found.
      if found = None then throwT (run_not_found envelope featureRunId projectId)
      else
      bindT (assertVersion ''feature_runs'' featureRunId run_version found expectedVersion) (\<lambda>run.
      bindT (fe_assertValid (run_state run) FE_UNDER_REVIEW) (\<lambda>_.
      bindT (queryT clock) (\<lambda>now.
      bindT (cas_run featureRunId expectedVersion FE_UNDER_REVIEW (nextVersion (run_version run)) now)
        (\<lambda>affected.
      if affected = 0
      then throwT (OptimisticLockError ''feature_runs'' featureRunId expectedVersion (-1))
      else
      bindT (writeWorkflowEvent (Some featureRunId) (Some projectId) ''feature.returned_to_review''
               (fe_str (run_state run)) (fe_str FE_UNDER_REVIEW) (actor_id (env_actor envelope)) None)
        (\<lambda>eventId.
      bindT (writeOutboxEvent ''feature.returned_to_review''
               [(''featureRunId'', JStr featureRunId), (''projectId'', JStr projectId)]) (\<lambda>_.
      returnT (accepted_result envelope (fe_str FE_UNDER_REVIEW) [eventId])))))))))"

definition ReconcileMergeFailedHandler :: "run_payload handler" where
  "ReconcileMergeFailedHandler =
     \<lparr>commandName = ''ReconcileMergeFailedCommand'', requiredRole = ADMIN,
      requiredActorKind = Some SystemKind, idempotencyScope = ''reconcile-merge-failed'',
      handler_execute = claimed_transaction ''reconcile-merge-failed'' ReconcileMergeFailed_body\<rparr>"

section \<open>Guarantees\<close>

lemma RecordMerged_evolves: "body.keeps (RecordMerged_body e)"
  by (rule body.keepsI)
    (auto simp: RecordMerged_body_def bind_simps body_insert_simps split: option.splits
      intro!: handler_intros body_frame_update)

lemma RecordMergeFailed_evolves: "body.keeps (RecordMergeFailed_body e)"
  by (rule body.keepsI)
    (auto simp: RecordMergeFailed_body_def bind_simps split: option.splits intro!: handler_intros)

lemma ReconcileMergeFailed_evolves: "body.keeps (ReconcileMergeFailed_body e)"
  by (rule body.keepsI)
    (auto simp: ReconcileMergeFailed_body_def bind_simps split: option.splits intro!: handler_intros)

lemma gated_transition_evolves: "body.keeps (gated_transition to_s ty i e)"
  by (rule body.keepsI)
    (auto simp: gated_transition_def bind_simps split: option.splits intro!: handler_intros)

lemma body_evaluateMergeGate: "body.keeps (evaluateMergeGate a b c)"
  unfolding evaluateMergeGate_def
  by (intro body_rules body_insertT) (simp_all add: body_insert_simps)

lemma gate_phase_evolves: "body.keeps (gate_phase e)"
  unfolding gate_phase_def by (intro body_rules body_evaluateMergeGate)

lemma gated_execute_evolves: "evo.keepsA (gated_execute to_s ty scope e)"
  unfolding gated_execute_def
proof (rule evo.keepsA_bindA)
  show "evo.keepsA (transaction (gate_phase e))"
    by (intro evo.keeps_transaction evo_keeps_body gate_phase_evolves)
  fix ev
  show "evo.keepsA (if mr_decision ev \<noteq> ''approved''
      then throwA (mergeGateBlocked (mr_reasons ev) (p_featureRunId (payload e)) (Some (correlationId e)))
      else claimed_transaction scope (gated_transition to_s ty (mr_evaluationId ev)) e)"
    by (simp add: evo.keepsA_throwA claimed_transaction_evolves gated_transition_evolves)
qed

end
