(* ===== verification/EventSchemas.thy ===== *)
theory EventSchemas
  imports FeatureSelection SkipFeature MergeGate
begin

text \<open>
  \<open>packages/core/src/events/schemas.ts\<close>: the payload schema of each event type, which the inbox
  processor checks before it calls a handler. A zod object schema is the list of its fields; it
  admits an object that has every field with a value of the field's kind, and ignores others.
\<close>

datatype field_kind =
    StringMin1
  | StringAny
  | Literal string
  | IntNonNegative
  | IntPositive
  | Boolean
  | Enum "string list"
  | NullableString

fun kind_ok :: "field_kind \<Rightarrow> json \<Rightarrow> bool" where
  "kind_ok StringMin1 (JStr s) = (s \<noteq> [])"
| "kind_ok StringAny (JStr s) = True"
| "kind_ok (Literal l) (JStr s) = (s = l)"
| "kind_ok IntNonNegative (JNum n) = (n = of_int \<lfloor>n\<rfloor> \<and> n \<ge> 0)"
| "kind_ok IntPositive (JNum n) = (n = of_int \<lfloor>n\<rfloor> \<and> n > 0)"
| "kind_ok Boolean (JBool b) = True"
| "kind_ok (Enum vs) (JStr s) = (s \<in> set vs)"
| "kind_ok NullableString (JStr s) = True"
| "kind_ok NullableString JNull = True"
| "kind_ok k v = False"

type_synonym event_schema = "(string \<times> field_kind) list"

definition schema_admits :: "event_schema \<Rightarrow> json \<Rightarrow> bool" where
  "schema_admits schema v =
     (case v of
        JObj es \<Rightarrow>
          list_all (\<lambda>(name, kind). case map_of es name of None \<Rightarrow> False | Some x \<Rightarrow> kind_ok kind x) schema
      | _ \<Rightarrow> False)"

definition run_fields :: event_schema where
  "run_fields = [(''featureRunId'', StringMin1), (''projectId'', StringMin1)]"

definition FeatureCiResultPayloadSchema :: event_schema where
  "FeatureCiResultPayloadSchema =
     run_fields @ [(''checkRunId'', StringAny),
       (''conclusion'', Enum [''success'', ''failure'', ''cancelled'', ''timed_out''])]"

definition AutomationPausedPayloadSchema :: event_schema where
  "AutomationPausedPayloadSchema =
     [(''projectId'', StringMin1),
      (''reason'', Enum [''operator'', ''budget_exceeded'', ''budget_approval_waiting''])]"

definition EVENT_SCHEMAS :: "(string \<times> event_schema) list" where
  "EVENT_SCHEMAS =
     [(''feature.selected'', run_fields @ [(''fromState'', Literal ''approved_pending_execution''),
         (''toState'', Literal ''selected'')]),
      (''feature.coding_started'', run_fields),
      (''feature.code_pushed'', run_fields @ [(''commitSha'', StringAny), (''branchName'', StringAny),
         (''filesChanged'', IntNonNegative)]),
      (''feature.ci_running'', run_fields @ [(''checkRunId'', StringAny)]),
      (''feature.ci_passed'', FeatureCiResultPayloadSchema),
      (''feature.ci_failed'', FeatureCiResultPayloadSchema),
      (''feature.merged'', run_fields @ [(''mergeSha'', StringAny)]),
      (''feature.approved_by_policy'', run_fields @ [(''mergeGateEvaluationId'', StringMin1)]),
      (''feature.merge_ready'', run_fields @ [(''mergeGateEvaluationId'', StringMin1)]),
      (''feature.merge_failed'', run_fields @ [(''reason'', StringMin1), (''autoClearable'', Boolean)]),
      (''feature.returned_to_review'', run_fields),
      (''feature.human_required'', run_fields @ [(''reason'', StringAny)]),
      (''feature.pr_opened'', run_fields @ [(''prNumber'', IntPositive), (''branchName'', StringAny),
         (''baseBranch'', StringAny)]),
      (''feature.changes_requested'', run_fields @ [(''reviewId'', StringAny),
         (''reviewer'', NullableString)]),
      (''plan.approved'', [(''planId'', StringMin1), (''projectId'', StringMin1)]),
      (''plan.activated'', [(''planId'', StringMin1), (''projectId'', StringMin1),
         (''activatedFeatureCount'', IntNonNegative)]),
      (''automation.paused_by_operator'', AutomationPausedPayloadSchema),
      (''automation.budget_exceeded'', AutomationPausedPayloadSchema),
      (''automation.resumed'', [(''projectId'', StringMin1)]),
      (''feature.disagreement_resolved'', run_fields @ [(''disagreementId'', StringMin1),
         (''resolution'', StringMin1)]),
      (''feature.resumed_from_human_required'', run_fields),
      (''feature.retried'', run_fields),
      (''feature.skipped'', run_fields),
      (''feature.blocked_by_human'', run_fields)]"

definition validateEventPayload :: "string \<Rightarrow> json \<Rightarrow> bool" where
  "validateEventPayload eventType v =
     (case map_of EVENT_SCHEMAS eventType of None \<Rightarrow> True | Some schema \<Rightarrow> schema_admits schema v)"

end
