(* ===== verification/Queue.thy ===== *)
theory Queue
  imports EventSchemas
begin

text \<open>
  \<open>packages/workflow/src/outbox\<close> and \<open>inbox\<close>: the two pollers. Their code is the same text over
  two tables, so the statements are written once over rows of any extension of \<open>queue_row\<close>, and
  the loop takes the table as a selector and an update function; \<open>pollAndDispatch\<close> and
  \<open>pollAndProcess\<close> are its two uses.

  What a handler does while its event is claimed is a parameter: the store transformer of each
  heartbeat interval that elapsed before it settled (with whether the database could be reached
  when the interval ended), the one of the rest of its run, and whether it threw. Anything may
  happen in there, other pollers included, as long as it keeps the guarantee \<open>queue_advances\<close>
  that every poller keeps.
\<close>

section \<open>Options and backoff\<close>

record queue_options =
  batchSize :: int
  maxAttempts :: int
  baseBackoffMs :: int
  maxBackoffMs :: int
  staleClaimMs :: int

definition DEFAULT_OPTIONS :: queue_options where
  "DEFAULT_OPTIONS =
     \<lparr>batchSize = 10, maxAttempts = 5, baseBackoffMs = 1000, maxBackoffMs = 60000,
      staleClaimMs = 300000\<rparr>"

text \<open>The constructors' check; a number that is not a finite integer has no model.\<close>

definition construct :: "queue_options \<Rightarrow> error + queue_options" where
  "construct options =
     (if staleClaimMs options < 2
      then Inl (OtherError (''staleClaimMs must be a finite integer >= 2 (got ''
                            @ show_int (staleClaimMs options)
              @ ''). Values below 2 produce a zero-delay heartbeat loop AND make the stale-claim ''
              @ ''threshold fire immediately, reclaiming active claims.''))
      else Inr options)"

definition deterministicBackoff :: "int \<Rightarrow> int \<Rightarrow> int \<Rightarrow> int" where
  "deterministicBackoff attempt baseMs maxMs =
     (if attempt \<le> 0 then 0 else min (baseMs * 2 ^ nat (attempt - 1)) maxMs)"

section \<open>Statements\<close>

text \<open>Stale claim recovery.\<close>

definition stale :: "int \<Rightarrow> ('m queue_row_scheme) \<Rightarrow> bool" where
  "stale threshold r = (q_status r = EV_PROCESSING \<and> q_updated_at r \<le> threshold)"

definition reset_claim :: "int \<Rightarrow> 'm queue_row_scheme \<Rightarrow> 'm queue_row_scheme" where
  "reset_claim now r = r\<lparr>q_status := EV_PENDING, q_version := q_version r + 1, q_updated_at := now\<rparr>"

text \<open>
  The two-pass SELECT; \<open>LIMIT\<close> with a negative number is no limit, as SQLite has it.
\<close>

definition limited :: "int \<Rightarrow> 'a list \<Rightarrow> 'a list" where
  "limited n rows = (if n < 0 then rows else take (nat n) rows)"

definition open_event :: "'m queue_row_scheme \<Rightarrow> bool" where
  "open_event r = (q_status r = EV_PENDING \<or> q_status r = EV_FAILED)"

definition due :: "queue_options \<Rightarrow> int \<Rightarrow> 'm queue_row_scheme \<Rightarrow> bool" where
  "due options now r =
     (open_event r \<and> q_attempts r < maxAttempts options
      \<and> (case q_next_retry_at r of None \<Rightarrow> True | Some t \<Rightarrow> t \<le> now))"

definition created_before :: "'m queue_row_scheme \<Rightarrow> 'm queue_row_scheme \<Rightarrow> bool" where
  "created_before a b = (q_created_at a < q_created_at b)"

definition select_due ::
    "queue_options \<Rightarrow> int \<Rightarrow> ('m queue_row_scheme \<Rightarrow> bool) \<Rightarrow> int \<Rightarrow> 'm queue_row_scheme list
      \<Rightarrow> 'm queue_row_scheme list" where
  "select_due options now wanted limit rows =
     limited limit (order_by created_before (filter (\<lambda>r. due options now r \<and> wanted r) rows))"

definition select_batch ::
    "queue_options \<Rightarrow> int \<Rightarrow> string list \<Rightarrow> 'm queue_row_scheme list \<Rightarrow> 'm queue_row_scheme list" where
  "select_batch options now knownTypes rows =
     (if knownTypes = [] then select_due options now (\<lambda>r. True) (batchSize options) rows
      else
        let knownRows =
              select_due options now (\<lambda>r. q_event_type r \<in> set knownTypes) (batchSize options) rows;
            remaining = batchSize options - int (length knownRows);
            unknownRows =
              (if remaining > 0
               then select_due options now (\<lambda>r. q_event_type r \<notin> set knownTypes) remaining rows
               else [])
        in knownRows @ unknownRows)"

text \<open>The claim, the heartbeat's renewal, and the statements that end a claim.\<close>

definition claimable_event :: "string \<Rightarrow> int \<Rightarrow> 'm queue_row_scheme \<Rightarrow> bool" where
  "claimable_event i v r = (q_id r = i \<and> open_event r \<and> q_version r = v)"

definition claim_event :: "int \<Rightarrow> 'm queue_row_scheme \<Rightarrow> 'm queue_row_scheme" where
  "claim_event now r = r\<lparr>q_status := EV_PROCESSING, q_version := q_version r + 1, q_updated_at := now\<rparr>"

definition event_at :: "string \<Rightarrow> int \<Rightarrow> 'm queue_row_scheme \<Rightarrow> bool" where
  "event_at i v r = (q_id r = i \<and> q_version r = v)"

definition renewable :: "string \<Rightarrow> int \<Rightarrow> 'm queue_row_scheme \<Rightarrow> bool" where
  "renewable i v r = (q_id r = i \<and> q_status r = EV_PROCESSING \<and> q_version r = v)"

definition renew_claim :: "int \<Rightarrow> 'm queue_row_scheme \<Rightarrow> 'm queue_row_scheme" where
  "renew_claim now r = r\<lparr>q_updated_at := now\<rparr>"

definition push_back :: "int \<Rightarrow> int \<Rightarrow> 'm queue_row_scheme \<Rightarrow> 'm queue_row_scheme" where
  "push_back nextRetryAt now r =
     r\<lparr>q_status := EV_PENDING, q_next_retry_at := Some nextRetryAt, q_version := q_version r + 1,
       q_updated_at := now\<rparr>"

definition mark_done :: "EventStatus \<Rightarrow> int \<Rightarrow> 'm queue_row_scheme \<Rightarrow> 'm queue_row_scheme" where
  "mark_done final now r = r\<lparr>q_status := final, q_version := q_version r + 1, q_updated_at := now\<rparr>"

definition mark_failed :: "int \<Rightarrow> int \<Rightarrow> int \<Rightarrow> 'm queue_row_scheme \<Rightarrow> 'm queue_row_scheme" where
  "mark_failed attempts nextRetryAt now r =
     r\<lparr>q_status := EV_FAILED, q_attempts := attempts, q_next_retry_at := Some nextRetryAt,
       q_version := q_version r + 1, q_updated_at := now\<rparr>"

section \<open>The loop\<close>

record handler_run =
  hr_intervals :: "((store \<Rightarrow> store) \<times> bool) list"
  hr_rest :: "store \<Rightarrow> store"
  hr_throws :: bool

type_synonym event_handler = "json \<Rightarrow> string \<Rightarrow> store \<Rightarrow> handler_run"

type_synonym 'r table = "(store \<Rightarrow> 'r list) \<times> (('r list \<Rightarrow> 'r list) \<Rightarrow> store \<Rightarrow> store)"

text \<open>\<open>executeAffected\<close> outside a transaction: the number of rows the UPDATE changed.\<close>

definition update_rows ::
    "'r table \<Rightarrow> ('r \<Rightarrow> bool) \<Rightarrow> ('r \<Rightarrow> 'r) \<Rightarrow> store \<Rightarrow> int \<times> store" where
  "update_rows table p f s = (count_where p (fst table s), snd table (update_where p f) s)"

text \<open>
  The handler's run with the heartbeat loop beside it: after each interval the claim is renewed;
  a renewal that finds no row, or cannot reach the database, is a loss of ownership and ends the
  heartbeat, not the handler.
\<close>

fun await_handler ::
    "'m queue_row_scheme table \<Rightarrow> string \<Rightarrow> int \<Rightarrow> ((store \<Rightarrow> store) \<times> bool) list \<Rightarrow> bool \<Rightarrow> store
      \<Rightarrow> bool \<times> store" where
  "await_handler table i v [] lostOwnership s = (lostOwnership, s)"
| "await_handler table i v ((during, reachable) # rest) lostOwnership s =
     (let t = during s in
      if lostOwnership \<or> \<not> reachable then await_handler table i v rest True t
      else
        (case update_rows table (renewable i v) (renew_claim (clock t)) t of
           (renewed, u) \<Rightarrow> await_handler table i v rest (renewed = 0) u))"

record poll_result =
  done_count :: int
  failed_count :: int

text \<open>One iteration of the loop over the selected rows.\<close>

definition process_event ::
    "'m queue_row_scheme table \<Rightarrow> EventStatus \<Rightarrow> (string \<Rightarrow> json \<Rightarrow> string \<Rightarrow> bool) \<Rightarrow> queue_options
      \<Rightarrow> (string \<times> event_handler) list \<Rightarrow> 'm queue_row_scheme \<Rightarrow> poll_result \<times> store
      \<Rightarrow> poll_result \<times> store" where
  "process_event table final admissible options handlers row acc =
     (case acc of (res, s) \<Rightarrow>
      (case update_rows table (claimable_event (q_id row) (q_version row)) (claim_event (clock s)) s of
         (claimed, s1) \<Rightarrow>
      if claimed = 0 then (res, s1)
      else
        let claimedVersion = q_version row + 1 in
        (case map_of handlers (q_event_type row) of
           None \<Rightarrow>
             let nextRetryAt = clock s1 + maxBackoffMs options in
             (res, snd (update_rows table (event_at (q_id row) claimedVersion)
                          (push_back nextRetryAt (clock s1)) s1))
         | Some handle \<Rightarrow>
             let ok = admissible (q_event_type row) (q_payload row) (q_payload_schema_version row);
                 run = handle (q_payload row) (q_payload_schema_version row) s1;
                 (lostOwnership, s2) =
                   (if ok
                    then (case await_handler table (q_id row) claimedVersion (hr_intervals run) False s1 of
                            (lost, t) \<Rightarrow> (lost, hr_rest run t))
                    else (False, s1))
             in if ok \<and> \<not> hr_throws run
                then
                  (if lostOwnership then (res, s2)
                   else
                     (case update_rows table (event_at (q_id row) claimedVersion)
                             (mark_done final (clock s2)) s2 of
                        (n, s3) \<Rightarrow>
                          (if n > 0 then res\<lparr>done_count := done_count res + 1\<rparr> else res, s3)))
                else
                  let nextAttempts = q_attempts row + 1;
                      nextRetryMs = deterministicBackoff nextAttempts (baseBackoffMs options) (maxBackoffMs options);
                      nextRetryAt = clock s2 + nextRetryMs
                  in
                  (if lostOwnership then (res, s2)
                   else
                     (case update_rows table (event_at (q_id row) claimedVersion)
                             (mark_failed nextAttempts nextRetryAt (clock s2)) s2 of
                        (n, s3) \<Rightarrow>
                          (if n > 0 then res\<lparr>failed_count := failed_count res + 1\<rparr> else res, s3))))))"

definition recover_stale :: "'m queue_row_scheme table \<Rightarrow> queue_options \<Rightarrow> store \<Rightarrow> store" where
  "recover_stale table options s =
     snd (update_rows table (stale (clock s - staleClaimMs options)) (reset_claim (clock s)) s)"

definition selected_rows ::
    "'m queue_row_scheme table \<Rightarrow> queue_options \<Rightarrow> (string \<times> event_handler) list \<Rightarrow> store
      \<Rightarrow> 'm queue_row_scheme list" where
  "selected_rows table options handlers s =
     select_batch options (clock s) (map fst handlers) (fst table s)"

definition poll ::
    "'m queue_row_scheme table \<Rightarrow> EventStatus \<Rightarrow> (string \<Rightarrow> json \<Rightarrow> string \<Rightarrow> bool) \<Rightarrow> queue_options
      \<Rightarrow> (string \<times> event_handler) list \<Rightarrow> store \<Rightarrow> poll_result \<times> store" where
  "poll table final admissible options handlers s =
     (let s1 = recover_stale table options s;
          rows = selected_rows table options handlers s1
      in fold (process_event table final admissible options handlers) rows
           (\<lparr>done_count = 0, failed_count = 0\<rparr>, s1))"

section \<open>The two pollers\<close>

definition outbox_table :: "queue_row table" where
  "outbox_table = (outbox_events, outbox_events_update)"

definition inbox_table :: "inbox_row table" where
  "inbox_table = (inbox_events, inbox_events_update)"

definition pollAndDispatch ::
    "queue_options \<Rightarrow> (string \<times> event_handler) list \<Rightarrow> store \<Rightarrow> poll_result \<times> store" where
  "pollAndDispatch = poll outbox_table EV_DELIVERED (\<lambda>eventType pay schemaVersion. True)"

text \<open>The inbox processor's checks before it calls the handler.\<close>

definition inbox_admissible :: "string \<Rightarrow> json \<Rightarrow> string \<Rightarrow> bool" where
  "inbox_admissible eventType pay schemaVersion =
     (schemaVersion = SCHEMA_VERSION \<and> validateEventPayload eventType pay)"

definition pollAndProcess ::
    "queue_options \<Rightarrow> (string \<times> event_handler) list \<Rightarrow> store \<Rightarrow> poll_result \<times> store" where
  "pollAndProcess = poll inbox_table EV_PROCESSED inbox_admissible"

end
