(* ===== verification/Execution.thy ===== *)
theory Execution
  imports FeatureRuns
begin

text \<open>
  What the executor and the claim-first idempotency slot guarantee, for every handler that is a
  \<open>claimed_transaction\<close>: a command either replays the result stored under its key or runs its
  body once and stores the result; a failed command changes nothing; a completed slot survives
  every other command until it expires.
\<close>

section \<open>The claim\<close>

definition claim_id :: "store \<Rightarrow> string" where
  "claim_id s = show_int (clock s) @ ''-'' @ entropy s (draws s)"

definition claim_sweep :: "string \<Rightarrow> string \<Rightarrow> store \<Rightarrow> store" where
  "claim_sweep key scope s =
     idempotency_keys_update
       (delete_where (\<lambda>r. ik_key r = key \<and> ik_scope r = scope \<and> ik_expires_at r \<le> clock s))
       (s\<lparr>draws := draws s + 1\<rparr>)"

definition claim_row :: "string \<Rightarrow> string \<Rightarrow> int \<Rightarrow> store \<Rightarrow> idempotency_row" where
  "claim_row key scope ttlMs s =
     \<lparr>ik_id = claim_id s, ik_key = key, ik_scope = scope, ik_result = None, ik_response = None,
      ik_expires_at = clock s + ttlMs, ik_version = 1, ik_updated_at = clock s\<rparr>"

definition claim_insert :: "string \<Rightarrow> string \<Rightarrow> int \<Rightarrow> store \<Rightarrow> store" where
  "claim_insert key scope ttlMs s =
     idempotency_keys_update (\<lambda>rows. rows @ [claim_row key scope ttlMs s]) (claim_sweep key scope s)"

definition fulfil_row :: "command_result \<Rightarrow> int \<Rightarrow> idempotency_row \<Rightarrow> idempotency_row" where
  "fulfil_row result now r =
     r\<lparr>ik_result := Some result, ik_version := ik_version r + 1, ik_updated_at := now\<rparr>"

definition fulfilled :: "string \<Rightarrow> command_result \<Rightarrow> store \<Rightarrow> store" where
  "fulfilled i result s =
     idempotency_keys_update (update_where (\<lambda>r. ik_id r = i) (fulfil_row result (clock s))) s"

lemma fulfill_eq: "fulfillIdempotencyKey i result s = Inr ((), fulfilled i result s)"
  by (simp add: fulfillIdempotencyKey_def bindT_def queryT_def executeT_def fulfilled_def fulfil_row_def [abs_def])

lemma idempotency_slot_None:
  "idempotency_slot key scope s = None \<longleftrightarrow>
     (key, scope) \<notin> (\<lambda>r. (ik_key r, ik_scope r)) ` set (idempotency_keys (claim_sweep key scope s))"
  by (auto simp: idempotency_slot_def claim_sweep_def filter_empty_conv not_less)

lemma slot_after_sweep: "idempotency_slot key scope (claim_sweep key scope s) = idempotency_slot key scope s"
proof -
  have "filter (\<lambda>r. ik_key r = key \<and> ik_scope r = scope \<and> ik_expires_at r > clock s)
      (delete_where (\<lambda>r. ik_key r = key \<and> ik_scope r = scope \<and> ik_expires_at r \<le> clock s)
         (idempotency_keys s)) =
    filter (\<lambda>r. ik_key r = key \<and> ik_scope r = scope \<and> ik_expires_at r > clock s) (idempotency_keys s)"
    by (auto simp: delete_where_def intro!: filter_cong)
  then show ?thesis
    unfolding idempotency_slot_def claim_sweep_def by simp
qed

lemma claim_eq:
  "claimIdempotencyKey key scope ttl s =
     (case idempotency_slot key scope s of
        None \<Rightarrow>
          if claim_id s \<in> set (map ik_id (idempotency_keys (claim_sweep key scope s)))
          then Inl (ConstraintViolation ''idempotency_keys'')
          else Inr (Owned (claim_id s), claim_insert key scope ttl s)
      | Some r \<Rightarrow>
          (case ik_result r of
             None \<Rightarrow> Inl (concurrent_command key)
           | Some result \<Rightarrow> Inr (NotOwned result, claim_sweep key scope s)))"
proof -
  let ?t = "claim_sweep key scope s"
  have step: "claimIdempotencyKey key scope ttl s =
      (if (key, scope) \<in> (\<lambda>r. (ik_key r, ik_scope r)) ` set (idempotency_keys ?t)
       then (case idempotency_slot key scope ?t of
               None \<Rightarrow> Inl (concurrent_command key)
             | Some r \<Rightarrow> (case ik_result r of
                           None \<Rightarrow> Inl (concurrent_command key)
                         | Some result \<Rightarrow> Inr (NotOwned result, ?t)))
       else if claim_id s \<in> set (map ik_id (idempotency_keys ?t))
       then Inl (ConstraintViolation ''idempotency_keys'')
       else Inr (Owned (claim_id s), claim_insert key scope ttl s))"
    by (simp add: claimIdempotencyKey_def bindT_def generateId_def queryT_def executeT_def
        insertOnConflictT_def returnT_def throwT_def claim_sweep_def claim_insert_def claim_row_def
        claim_id_def split: option.split)
  show ?thesis
    unfolding step slot_after_sweep
    using idempotency_slot_None [of key scope s] by (auto split: option.split)
qed

section \<open>The two ways a claimed transaction succeeds\<close>

lemma with_claim_cases:
  assumes "with_claim_ttl ttl key scope body s = Inr (res, t)"
  obtains (replayed) r where "idempotency_slot key scope s = Some r" "ik_result r = Some res"
      "t = claim_sweep key scope s"
  | (fresh) t1 where "idempotency_slot key scope s = None"
      "claim_id s \<notin> set (map ik_id (idempotency_keys (claim_sweep key scope s)))"
      "body (claim_insert key scope ttl s) = Inr (res, t1)"
      "t = fulfilled (claim_id s) res t1"
proof (cases "idempotency_slot key scope s")
  case None
  with assms show thesis
    by (auto simp: with_claim_ttl_def bindT_def claim_eq fulfill_eq returnT_def
        split: if_splits sum.splits intro: fresh)
next
  case (Some r)
  with assms show thesis
    by (auto simp: with_claim_ttl_def bindT_def claim_eq returnT_def split: option.splits intro: replayed)
qed

text \<open>The tables a claim touches: only the idempotency table, and one drawn suffix.\<close>

definition same_tables :: "store \<Rightarrow> store \<Rightarrow> bool" where
  "same_tables s t = (t = s\<lparr>draws := draws t, idempotency_keys := idempotency_keys t\<rparr>)"

lemma same_tables_claim_insert: "same_tables s (claim_insert key scope ttl s)"
  by (simp add: same_tables_def claim_insert_def claim_sweep_def)

lemma same_tables_sweep: "same_tables s (claim_sweep key scope s)"
  by (simp add: same_tables_def claim_sweep_def)

lemma same_tables_fulfilled: "same_tables s (fulfilled i res s)"
  by (simp add: same_tables_def fulfilled_def)

lemma transaction_Inr: "transaction m s = (Inr a, t) \<longleftrightarrow> m s = Inr (a, t)"
  by (auto simp: transaction_def split: sum.splits)

section \<open>Slots survive\<close>

definition wf_slots :: "store \<Rightarrow> bool" where
  "wf_slots s =
     (distinct (map ik_id (idempotency_keys s))
      \<and> distinct (map (\<lambda>r. (ik_key r, ik_scope r)) (idempotency_keys s)))"

definition slots_kept :: "store \<Rightarrow> store \<Rightarrow> bool" where
  "slots_kept s t =
     (clock s \<le> clock t
      \<and> (wf_slots s \<longrightarrow> wf_slots t
          \<and> (\<forall>r \<in> set (idempotency_keys s). ik_expires_at r > clock t \<longrightarrow> r \<in> set (idempotency_keys t))))"

interpretation slots: store_guarantee slots_kept
  by unfold_locales (fastforce simp: slots_kept_def)+

lemma sweep_slots:
  assumes "wf_slots s"
  shows "distinct (map ik_id (idempotency_keys (claim_sweep key scope s)))"
    "distinct (map (\<lambda>r. (ik_key r, ik_scope r)) (idempotency_keys (claim_sweep key scope s)))"
    "set (idempotency_keys (claim_sweep key scope s)) \<subseteq> set (idempotency_keys s)"
    "r \<in> set (idempotency_keys s) \<Longrightarrow> ik_expires_at r > clock s \<Longrightarrow>
       r \<in> set (idempotency_keys (claim_sweep key scope s))"
  using assms by (auto simp: wf_slots_def claim_sweep_def intro: distinct_map_delete_where)

lemma fulfil_rows:
  assumes "i \<notin> set (map ik_id rows)"
  shows "update_where (\<lambda>r. ik_id r = i) (fulfil_row res now) (rows @ [c]) =
           rows @ [if ik_id c = i then fulfil_row res now c else c]"
proof -
  have "update_where (\<lambda>r. ik_id r = i) (fulfil_row res now) rows = rows"
    using assms by (intro update_where_none) auto
  then show ?thesis by (simp add: update_where_def)
qed

text \<open>
  What a body does between claiming its slot and fulfilling it: it leaves the clock and the
  idempotency table alone. \<open>body_evolves\<close> is one guarantee that gives it.
\<close>

definition slot_frame :: "store \<Rightarrow> store \<Rightarrow> bool" where
  "slot_frame s t = (clock t = clock s \<and> idempotency_keys t = idempotency_keys s)"

interpretation frame: store_guarantee slot_frame
  by unfold_locales (simp_all add: slot_frame_def)

lemma frame_keeps_body: "body.keeps m \<Longrightarrow> frame.keeps m"
  unfolding body.keeps_def frame.keeps_def
  by (auto simp: guarantee_defs slot_frame_def intro: wp_mono)

lemma keeps_slot_frame: "frame.keeps m \<Longrightarrow> m s = Inr (a, t) \<Longrightarrow> slot_frame s t"
  by (auto simp: wp_def dest!: frame.keepsD [of m s])

text \<open>The row a fresh execution leaves.\<close>

definition done_row :: "string \<Rightarrow> string \<Rightarrow> int \<Rightarrow> command_result \<Rightarrow> store \<Rightarrow> idempotency_row" where
  "done_row key scope ttl res s = fulfil_row res (clock s) (claim_row key scope ttl s)"

lemma fresh_slots:
  assumes "claim_id s \<notin> set (map ik_id (idempotency_keys (claim_sweep key scope s)))"
    "slot_frame (claim_insert key scope ttl s) t1"
  shows "idempotency_keys (fulfilled (claim_id s) res t1) =
           idempotency_keys (claim_sweep key scope s) @ [done_row key scope ttl res s]"
    "clock (fulfilled (claim_id s) res t1) = clock s"
proof -
  have t1: "idempotency_keys t1 = idempotency_keys (claim_sweep key scope s) @ [claim_row key scope ttl s]"
    "clock t1 = clock s"
    using assms(2) by (simp_all add: slot_frame_def claim_insert_def claim_sweep_def)
  have "ik_id (claim_row key scope ttl s) = claim_id s" by (simp add: claim_row_def)
  with t1 fulfil_rows [OF assms(1), of res "clock s" "claim_row key scope ttl s"]
  show "idempotency_keys (fulfilled (claim_id s) res t1) =
      idempotency_keys (claim_sweep key scope s) @ [done_row key scope ttl res s]"
    by (simp add: fulfilled_def done_row_def)
  show "clock (fulfilled (claim_id s) res t1) = clock s"
    using t1 by (simp add: fulfilled_def)
qed

lemma with_claim_slots:
  assumes "frame.keeps body"
  shows "slots.keeps (with_claim_ttl ttl key scope body)"
proof (rule slots.keepsI)
  fix s
  have "slots_kept s t" if ok: "with_claim_ttl ttl key scope body s = Inr (res, t)" for res t
    using ok
  proof (cases rule: with_claim_cases)
    case (replayed r)
    then show ?thesis
      using sweep_slots [of s] by (auto simp: slots_kept_def wf_slots_def claim_sweep_def
          intro: distinct_map_delete_where)
  next
    case (fresh t1)
    have ev: "slot_frame (claim_insert key scope ttl s) t1"
      using assms fresh(3) by (rule keeps_slot_frame)
    note t = fresh_slots [OF fresh(2) ev, of res, folded fresh(4)]
    have row: "ik_id (done_row key scope ttl res s) = claim_id s"
      "ik_key (done_row key scope ttl res s) = key"
      "ik_scope (done_row key scope ttl res s) = scope"
      "ik_result (done_row key scope ttl res s) = Some res"
      by (simp_all add: done_row_def fulfil_row_def claim_row_def)
    have "wf_slots t" if wf: "wf_slots s"
      using sweep_slots(1-3) [OF wf, of key scope] fresh(1,2) row wf
      by (auto simp: wf_slots_def t idempotency_slot_None)
    moreover have "r \<in> set (idempotency_keys t)"
      if "wf_slots s" "r \<in> set (idempotency_keys s)" "ik_expires_at r > clock s" for r
      using sweep_slots(4) [OF that] by (simp add: t)
    ultimately show ?thesis by (auto simp: slots_kept_def t(2))
  qed
  then show "wp (with_claim_ttl ttl key scope body) (\<lambda>_ t. slots_kept s t) (\<lambda>_. True) s"
    by (auto simp: wp_def split: sum.splits)
qed

lemma claimed_transaction_slots:
  assumes "\<And>e. frame.keeps (body e)"
  shows "slots.keepsA (claimed_transaction_ttl ttl scope body e)"
  unfolding claimed_transaction_ttl_def by (intro slots.keeps_transaction with_claim_slots assms)

section \<open>The executor\<close>

lemma execute_cases:
  assumes "execute h e s = (r, t)"
  obtains (denied) err where
      "assertRole (env_actor e) (requiredRole h) (commandName h) (requiredActorKind h) = Inl err"
      "r = Inl err" "t = s"
  | (cached) res where
      "assertRole (env_actor e) (requiredRole h) (commandName h) (requiredActorKind h) = Inr ()"
      "checkIdempotencyKey (idempotencyKey e) (idempotencyScope h) s = Some res"
      "r = Inr res" "t = s"
  | (run) "assertRole (env_actor e) (requiredRole h) (commandName h) (requiredActorKind h) = Inr ()"
      "checkIdempotencyKey (idempotencyKey e) (idempotencyScope h) s = None"
      "handler_execute h e s = (r, t)"
  using assms
  by (auto simp: execute_def throwA_def bindA_def queryA_def returnA_def
      split: sum.splits option.splits)

context store_guarantee
begin

lemma keepsA_execute:
  assumes "keepsA (handler_execute h e)"
  shows "keepsA (execute h e)"
  unfolding keepsA_def
proof
  fix s
  obtain r t where rt: "execute h e s = (r, t)" by fastforce
  then show "R s (snd (execute h e s))"
    by (cases rule: execute_cases)
      (use rt assms R_refl in \<open>auto simp: keepsA_def dest: spec [of _ s]\<close>)
qed

end

text \<open>
  A live completed slot is what the executor's first look finds, whatever the payload: the
  command is answered from it and changes nothing.
\<close>

lemma unique_slot:
  assumes "wf_slots s" "r \<in> set (idempotency_keys s)" "ik_expires_at r > clock s"
  shows "checkIdempotencyKey (ik_key r) (ik_scope r) s = ik_result r"
proof -
  let ?P = "\<lambda>q. ik_key q = ik_key r \<and> ik_scope q = ik_scope r \<and> ik_expires_at q > clock s \<and> ik_result q \<noteq> None"
  have q: "q = r" if "q \<in> set (filter ?P (idempotency_keys s))" for q
    using assms that by (auto simp: wf_slots_def intro: distinct_map_unique)
  show ?thesis
  proof (cases "ik_result r")
    case None
    then have "filter ?P (idempotency_keys s) = []" using q by (fastforce simp: filter_empty_conv)
    with None show ?thesis by (simp add: checkIdempotencyKey_def)
  next
    case (Some res)
    then have "r \<in> set (filter ?P (idempotency_keys s))" using assms by simp
    with q have "first_row (filter ?P (idempotency_keys s)) = Some r" by (intro first_row_unique)
    then show ?thesis by (simp add: checkIdempotencyKey_def)
  qed
qed

lemma execute_replays:
  assumes "assertRole (env_actor e) (requiredRole h) (commandName h) (requiredActorKind h) = Inr ()"
    "checkIdempotencyKey (idempotencyKey e) (idempotencyScope h) s = Some res"
  shows "execute h e s = (Inr res, s)"
  using assms by (simp add: execute_def bindA_def queryA_def returnA_def)

text \<open>A fresh success leaves a completed slot that lives for the time to live.\<close>

lemma fresh_success_slot:
  assumes "handler_execute h = claimed_transaction_ttl ttl (idempotencyScope h) body"
    "\<And>e. frame.keeps (body e)" "wf_slots s"
    "checkIdempotencyKey (idempotencyKey e) (idempotencyScope h) s = None"
    "execute h e s = (Inr res, t)"
  shows "\<exists>r \<in> set (idempotency_keys t). ik_key r = idempotencyKey e \<and> ik_scope r = idempotencyScope h
           \<and> ik_result r = Some res \<and> ik_expires_at r = clock s + ttl"
  using assms(5)
proof (cases rule: execute_cases)
  case run
  then have "with_claim_ttl ttl (idempotencyKey e) (idempotencyScope h) (body e) s = Inr (res, t)"
    by (simp add: assms(1) claimed_transaction_ttl_def transaction_Inr)
  then show ?thesis
  proof (cases rule: with_claim_cases)
    case (replayed r)
    then have "r \<in> set (idempotency_keys s)" "ik_key r = idempotencyKey e"
      "ik_scope r = idempotencyScope h" "ik_expires_at r > clock s"
      by (auto simp: idempotency_slot_def dest!: first_row_in)
    then have "checkIdempotencyKey (idempotencyKey e) (idempotencyScope h) s = Some res"
      using unique_slot [OF assms(3), of r] replayed(2) by simp
    with assms(4) show ?thesis by simp
  next
    case (fresh t1)
    have ev: "slot_frame (claim_insert (idempotencyKey e) (idempotencyScope h) ttl s) t1"
      using assms(2) fresh(3) by (rule keeps_slot_frame)
    have "idempotency_keys t = idempotency_keys (claim_sweep (idempotencyKey e) (idempotencyScope h) s)
        @ [done_row (idempotencyKey e) (idempotencyScope h) ttl res s]"
      using fresh_slots(1) [OF fresh(2) ev, of res] fresh(4) by simp
    then show ?thesis by (simp add: done_row_def fulfil_row_def claim_row_def)
  qed
qed (use assms(4) in auto)

text \<open>
  The body's own account of a fresh success: what \<open>wp\<close> shows of the body from a store with the
  same tables holds of the result and of a store with the same tables as the final one.
\<close>

lemma fresh_success_body:
  assumes "execute h e s = (Inr res, t)"
    "handler_execute h = claimed_transaction_ttl ttl (idempotencyScope h) body"
    "idempotency_slot (idempotencyKey e) (idempotencyScope h) s = None"
    "checkIdempotencyKey (idempotencyKey e) (idempotencyScope h) s = None"
    "\<And>s1. same_tables s s1 \<Longrightarrow> wp (body e) (\<lambda>a t1. \<forall>u. same_tables t1 u \<longrightarrow> Q a u) (\<lambda>_. True) s1"
  shows "Q res t"
  using assms(1)
proof (cases rule: execute_cases)
  case run
  then have "with_claim_ttl ttl (idempotencyKey e) (idempotencyScope h) (body e) s = Inr (res, t)"
    by (simp add: assms(2) claimed_transaction_ttl_def transaction_Inr)
  then show ?thesis
  proof (cases rule: with_claim_cases)
    case (fresh t1)
    then show ?thesis
      using assms(5) [OF same_tables_claim_insert [of s "idempotencyKey e" "idempotencyScope h" ttl]]
        same_tables_fulfilled [of t1]
      by (auto simp: wp_def)
  qed (use assms(3) in simp)
qed (use assms(4) in auto)

end
