(* ===== verification/Delivery.thy ===== *)
theory Delivery
  imports Queue Execution
begin

text \<open>
  What the pollers of \<open>Queue\<close> guarantee. A row of an event table only gets later: its version
  grows with every statement but the heartbeat's, its attempts never fall, and a delivered or
  processed row never changes. From this follow the ownership of a claim (two claims of an event
  never both count) and the bound on attempts. The locale \<open>event_queue\<close> states what the poller
  needs of its table; the outbox and the inbox are its instances.
\<close>

text \<open>A predicate that determines a unique key selects one row.\<close>

lemma filter_unique_key:
  assumes "distinct (map g xs)" "x \<in> set xs" "p x" "\<And>y. p y \<Longrightarrow> g y = g x"
  shows "filter p xs = [x]"
  using assms
proof (induction xs)
  case (Cons y ys)
  have inys: "g z \<in> g ` set ys" if "z \<in> set ys" for z using that by (rule imageI)
  have y: "g y \<notin> g ` set ys" using Cons.prems(1) by simp
  show ?case
  proof (cases "y = x")
    case True
    have "\<not> p z" if "z \<in> set ys" for z
    proof
      assume "p z"
      then have "g z = g x" by (rule Cons.prems(4))
      with inys [OF that] y True show False by simp
    qed
    with True Cons.prems(3) show ?thesis by (simp add: filter_empty_conv)
  next
    case False
    then have x: "x \<in> set ys" using Cons.prems(2) by simp
    have "\<not> p y"
    proof
      assume "p y"
      then have "g y = g x" by (rule Cons.prems(4))
      with inys [OF x] y show False by simp
    qed
    moreover have "filter p ys = [x]"
      by (rule Cons.IH [OF _ x Cons.prems(3,4)]) (use Cons.prems(1) in auto)
    ultimately show ?thesis by simp
  qed
qed simp

section \<open>Later versions of an event\<close>

definition event_final :: "EventStatus \<Rightarrow> bool" where
  "event_final st = (st = EV_DELIVERED \<or> st = EV_PROCESSED)"

definition event_later :: "'m queue_row_scheme \<Rightarrow> 'm queue_row_scheme \<Rightarrow> bool" where
  "event_later r r' =
     (q_id r' = q_id r \<and> q_event_type r' = q_event_type r \<and> q_payload r' = q_payload r
      \<and> q_created_at r' = q_created_at r \<and> queue_row.more r' = queue_row.more r
      \<and> q_attempts r \<le> q_attempts r'
      \<and> (event_final (q_status r) \<longrightarrow> r' = r)
      \<and> (q_version r < q_version r' \<or> r' = r\<lparr>q_updated_at := q_updated_at r'\<rparr>))"

lemma event_later_refl [simp]: "event_later r r"
  by (simp add: event_later_def)

lemma event_later_trans:
  assumes "event_later a b" "event_later b c"
  shows "event_later a c"
proof -
  have "q_version a < q_version c \<or> c = a\<lparr>q_updated_at := q_updated_at c\<rparr>"
  proof (cases "q_version a < q_version b \<or> q_version b < q_version c")
    case True
    with assms show ?thesis
      by (metis event_later_def order.strict_trans queue_row.select_convs(8) queue_row.surjective
          queue_row.update_convs(10))
  next
    case False
    with assms have "b = a\<lparr>q_updated_at := q_updated_at b\<rparr>" "c = b\<lparr>q_updated_at := q_updated_at c\<rparr>"
      by (simp_all add: event_later_def)
    then have "c = a\<lparr>q_updated_at := q_updated_at c\<rparr>"
      by (metis (no_types) queue_row.surjective queue_row.update_convs(10))
    then show ?thesis ..
  qed
  with assms show ?thesis by (simp add: event_later_def)
qed

text \<open>The row at the version a claim took is still that claim's row.\<close>

lemma event_later_same_version:
  assumes "event_later r r'" "q_version r' = q_version r"
  shows "q_status r' = q_status r" "q_attempts r' = q_attempts r"
proof -
  have "r' = r\<lparr>q_updated_at := q_updated_at r'\<rparr>" using assms by (simp add: event_later_def)
  then show "q_status r' = q_status r" "q_attempts r' = q_attempts r"
    by (metis queue_row.select_convs(5) queue_row.select_convs(6) queue_row.surjective
        queue_row.update_convs(10))+
qed

definition wf_queue :: "int \<Rightarrow> 'm queue_row_scheme list \<Rightarrow> bool" where
  "wf_queue bound rows = (distinct (map q_id rows) \<and> (\<forall>r \<in> set rows. q_attempts r \<le> bound))"

definition queue_advances :: "'m queue_row_scheme table \<Rightarrow> int \<Rightarrow> store \<Rightarrow> store \<Rightarrow> bool" where
  "queue_advances table bound s t =
     (wf_queue bound (fst table s) \<longrightarrow>
        wf_queue bound (fst table t)
        \<and> (\<forall>r \<in> set (fst table s). \<exists>r' \<in> set (fst table t). event_later r r'))"

definition handlers_keep ::
    "(store \<Rightarrow> store \<Rightarrow> bool) \<Rightarrow> (string \<times> event_handler) list \<Rightarrow> bool" where
  "handlers_keep R handlers =
     (\<forall>(name, handle) \<in> set handlers. \<forall>pay ver s.
        (\<forall>(during, reachable) \<in> set (hr_intervals (handle pay ver s)). \<forall>t. R t (during t))
        \<and> (\<forall>t. R t (hr_rest (handle pay ver s) t)))"

lemma handlers_keep_mono [mono]:
  "R \<le> Q \<Longrightarrow> handlers_keep R handlers \<le> handlers_keep Q handlers"
  unfolding handlers_keep_def le_bool_def le_fun_def by fast

definition handlers_advance ::
    "'m queue_row_scheme table \<Rightarrow> int \<Rightarrow> (string \<times> event_handler) list \<Rightarrow> bool" where
  "handlers_advance table bound handlers = handlers_keep (queue_advances table bound) handlers"

section \<open>The selected batch\<close>

lemma set_limited: "set (limited n rows) \<subseteq> set rows"
  by (simp add: limited_def set_take_subset)

lemma select_due_member:
  assumes "r \<in> set (select_due options now wanted n rows)"
  shows "r \<in> set rows" "due options now r" "wanted r"
  using assms set_limited [of n "order_by created_before (filter (\<lambda>r. due options now r \<and> wanted r) rows)"]
  by (auto simp: select_due_def)

lemma select_batch_due: "set (select_batch options now known rows) \<subseteq> {r \<in> set rows. due options now r}"
  by (auto simp: select_batch_def Let_def split: if_splits dest: select_due_member)

lemma distinct_select_due:
  "distinct (map q_id rows) \<Longrightarrow> distinct (map q_id (select_due options now wanted n rows))"
proof -
  assume d: "distinct (map q_id rows)"
  let ?f = "filter (\<lambda>r. due options now r \<and> wanted r) rows"
  have "inj_on q_id (set rows)" "distinct rows" using d by (simp_all add: distinct_map)
  then have "distinct (map q_id (order_by created_before ?f))"
    unfolding distinct_map by (simp add: inj_on_def)
  then show ?thesis
    by (auto simp: select_due_def limited_def take_map [symmetric] intro: distinct_take)
qed

lemma distinct_select_batch:
  assumes "distinct (map q_id rows)"
  shows "distinct (map q_id (select_batch options now known rows))"
proof -
  let ?k = "\<lambda>r. q_event_type r \<in> set known" and ?u = "\<lambda>r. q_event_type r \<notin> set known"
  have "q_id a \<noteq> q_id b"
    if "a \<in> set (select_due options now ?k n rows)" "b \<in> set (select_due options now ?u m rows)" for a b n m
    using that [THEN select_due_member(1)] that [THEN select_due_member(3)] assms
    by (auto dest: distinct_map_unique)
  then have "q_id ` set (select_due options now ?k n rows) \<inter> q_id ` set (select_due options now ?u m rows) = {}" for n m
    by fastforce
  then show ?thesis
    using distinct_select_due [OF assms] by (simp add: select_batch_def Let_def)
qed

section \<open>The interface of an event table\<close>

locale event_queue =
  fixes table :: "'m queue_row_scheme table" and bound :: int
  assumes table_update: "fst table (snd table f s) = f (fst table s)"
begin

lemma advances_refl: "queue_advances table bound s s"
  by (auto simp: queue_advances_def intro: event_later_refl)

lemma advances_trans:
  "queue_advances table bound s t \<Longrightarrow> queue_advances table bound t u \<Longrightarrow> queue_advances table bound s u"
  unfolding queue_advances_def by (meson event_later_trans)

lemma update_advances:
  assumes "\<And>r. wf_queue bound (fst table s) \<Longrightarrow> r \<in> set (fst table s) \<Longrightarrow> p r \<Longrightarrow>
             event_later r (f r) \<and> q_attempts (f r) \<le> bound"
  shows "queue_advances table bound s (snd (update_rows table p f s))"
proof (cases "wf_queue bound (fst table s)")
  case True
  note step = assms [OF True]
  have "map q_id (update_where p f (fst table s)) = map q_id (fst table s)"
    using step by (intro map_update_where_on) (simp add: event_later_def)
  moreover have "\<exists>r' \<in> set (update_where p f (fst table s)). event_later r r'"
    if "r \<in> set (fst table s)" for r
    using that step [of r] by (cases "p r") (auto simp: set_update_where intro: event_later_refl)
  moreover have "\<forall>r \<in> set (update_where p f (fst table s)). q_attempts r \<le> bound"
    using step True by (auto simp: set_update_where wf_queue_def)
  ultimately show ?thesis
    using True by (simp add: queue_advances_def wf_queue_def update_rows_def table_update)
qed (simp add: queue_advances_def)

text \<open>A claim in force: the row is being processed at the claim's version.\<close>

definition claimed :: "string \<Rightarrow> int \<Rightarrow> int \<Rightarrow> store \<Rightarrow> bool" where
  "claimed i v a s =
     (\<exists>r \<in> set (fst table s). q_id r = i \<and> q_version r = v \<and> q_status r = EV_PROCESSING \<and> q_attempts r = a)"

lemma claimed_later:
  assumes "claimed i v a s" "wf_queue bound (fst table s)" "queue_advances table bound s u"
    "r \<in> set (fst table u)" "event_at i v r"
  shows "q_status r = EV_PROCESSING" "q_attempts r = a"
proof -
  obtain r0 where r0: "r0 \<in> set (fst table s)" "q_id r0 = i" "q_version r0 = v"
      "q_status r0 = EV_PROCESSING" "q_attempts r0 = a"
    using assms(1) by (auto simp: claimed_def)
  then obtain r1 where r1: "r1 \<in> set (fst table u)" "event_later r0 r1"
    using assms(2,3) by (auto simp: queue_advances_def)
  have "distinct (map q_id (fst table u))"
    using assms(2,3) by (simp add: queue_advances_def wf_queue_def)
  then have "r1 = r"
    using r1 assms(4,5) r0(2) by (auto simp: event_later_def event_at_def intro: distinct_map_unique)
  with r1(2) r0 assms(5) event_later_same_version [of r0 r]
  show "q_status r = EV_PROCESSING" "q_attempts r = a"
    by (simp_all add: event_at_def)
qed

lemma await_advances:
  assumes "\<And>during reachable t. (during, reachable) \<in> set intervals \<Longrightarrow> queue_advances table bound t (during t)"
  shows "queue_advances table bound s (snd (await_handler table i v intervals lost s))"
  using assms
proof (induction intervals arbitrary: s lost)
  case Nil
  then show ?case by (simp add: advances_refl)
next
  case (Cons p rest)
  obtain during reachable where p: "p = (during, reachable)" by force
  let ?u = "snd (update_rows table (renewable i v) (renew_claim (clock (during s))) (during s))"
  have first: "queue_advances table bound s (during s)"
    using Cons.prems by (auto simp: p)
  have renew: "queue_advances table bound (during s) ?u"
    by (rule update_advances)
      (auto simp: renewable_def renew_claim_def event_later_def event_final_def wf_queue_def)
  have rest: "queue_advances table bound x (snd (await_handler table i v rest l x))" for x l
    by (rule Cons.IH) (use Cons.prems in auto)
  show ?case
    using advances_trans [OF first rest] advances_trans [OF first advances_trans [OF renew rest]]
    by (auto simp: p Let_def split: prod.splits)
qed

text \<open>Claiming, and what the statements that end a claim do to its row.\<close>

lemma claim_advances:
  "queue_advances table bound s
     (snd (update_rows table (claimable_event i v) (claim_event now) s))"
  by (rule update_advances)
    (auto simp: claimable_event_def open_event_def claim_event_def event_later_def event_final_def wf_queue_def)

lemma claim_claimed:
  assumes "wf_queue bound (fst table s)" "row' \<in> set (fst table s)" "event_later row row'"
    "update_rows table (claimable_event (q_id row) (q_version row)) (claim_event now) s = (n, s1)" "n \<noteq> 0"
  shows "claimed (q_id row) (q_version row + 1) (q_attempts row) s1"
proof -
  obtain r where r: "r \<in> set (fst table s)" "claimable_event (q_id row) (q_version row) r"
    using assms(4,5) by (auto simp: update_rows_def)
  have "r = row'"
    using assms(1-3) r by (auto simp: wf_queue_def claimable_event_def event_later_def
        intro: distinct_map_unique)
  with r assms(3) have "q_attempts r = q_attempts row"
    by (auto simp: claimable_event_def dest: event_later_same_version)
  moreover have "claim_event now r \<in> set (fst table s1)"
    using r assms(4) by (auto simp: update_rows_def table_update set_update_where)
  ultimately show ?thesis
    using r(2) unfolding claimed_def
    by (intro bexI [of _ "claim_event now r"]) (simp_all add: claimable_event_def claim_event_def)
qed

lemma end_claim_advances:
  assumes "claimed i v a s" "wf_queue bound (fst table s)" "queue_advances table bound s u"
    "\<And>r. q_status r = EV_PROCESSING \<Longrightarrow> q_attempts r = a \<Longrightarrow> a \<le> bound \<Longrightarrow>
       event_later r (f r) \<and> q_attempts (f r) \<le> bound"
  shows "queue_advances table bound u (snd (update_rows table (event_at i v) f u))"
proof (rule update_advances)
  fix r assume r: "wf_queue bound (fst table u)" "r \<in> set (fst table u)" "event_at i v r"
  note later = claimed_later [OF assms(1-3) r(2,3)]
  moreover have "a \<le> bound" using later r(1,2) by (auto simp: wf_queue_def)
  ultimately show "event_later r (f r) \<and> q_attempts (f r) \<le> bound" by (rule assms(4))
qed

lemma process_event_advances:
  assumes "handlers_advance table bound handlers" "wf_queue bound (fst table s)"
    "row' \<in> set (fst table s)" "event_later row row'" "q_attempts row < bound"
  shows "queue_advances table bound s
           (snd (process_event table final admissible options handlers row (res, s)))"
proof -
  let ?i = "q_id row" and ?v = "q_version row + 1"
  obtain n s1 where claim: "update_rows table (claimable_event ?i (q_version row)) (claim_event (clock s)) s = (n, s1)"
    by fastforce
  have adv1: "queue_advances table bound s s1"
    using claim_advances [of s ?i "q_version row" "clock s"] by (simp add: claim)
  show ?thesis
  proof (cases "n = 0")
    case True
    with adv1 show ?thesis by (simp add: process_event_def claim)
  next
    case False
    note own = claim_claimed [OF assms(2-4) claim False]
    have wf1: "wf_queue bound (fst table s1)" using adv1 assms(2) by (simp add: queue_advances_def)
    have finish: "queue_advances table bound s (snd (update_rows table (event_at ?i ?v) f u))"
      if "queue_advances table bound s1 u"
        "\<And>r. q_status r = EV_PROCESSING \<Longrightarrow> q_attempts r = q_attempts row \<Longrightarrow>
           event_later r (f r) \<and> q_attempts (f r) \<le> bound" for f u
      using advances_trans [OF adv1 advances_trans [OF that(1) end_claim_advances [OF own wf1 that(1)]]] that(2)
      by blast
    have ending: "event_later r (push_back x y r) \<and> q_attempts (push_back x y r) \<le> bound"
      "event_later r (mark_done final y r) \<and> q_attempts (mark_done final y r) \<le> bound"
      "event_later r (mark_failed (q_attempts row + 1) x y r)
         \<and> q_attempts (mark_failed (q_attempts row + 1) x y r) \<le> bound"
      if "q_status r = EV_PROCESSING" "q_attempts r = q_attempts row" for r x y
      using that assms(5)
      by (simp_all add: push_back_def mark_done_def mark_failed_def event_later_def event_final_def)
    show ?thesis
    proof (cases "map_of handlers (q_event_type row)")
      case None
      with False finish [OF advances_refl ending(1)] show ?thesis
        by (simp add: process_event_def claim Let_def)
    next
      case (Some handle)
      let ?run = "handle (q_payload row) (q_payload_schema_version row) s1"
      have env: "queue_advances table bound t (during t)"
        if "(during, reachable) \<in> set (hr_intervals ?run)" for during reachable t
        using assms(1) that map_of_SomeD [OF Some] unfolding handlers_advance_def handlers_keep_def by fastforce
      have rest: "queue_advances table bound t (hr_rest ?run t)" for t
        using assms(1) map_of_SomeD [OF Some] unfolding handlers_advance_def handlers_keep_def by fastforce
      obtain lost t where await: "await_handler table ?i ?v (hr_intervals ?run) False s1 = (lost, t)"
        by fastforce
      have adv2: "queue_advances table bound s1 (hr_rest ?run t)"
        using advances_trans [OF await_advances rest] env await by (metis snd_conv)
      have adv: "queue_advances table bound s (hr_rest ?run t)" "queue_advances table bound s s1"
        using advances_trans [OF adv1 adv2] adv1 by simp_all
      show ?thesis
        using finish [OF adv2 ending(2)] finish [OF adv2 ending(3)] finish [OF advances_refl ending(3)] adv
        by (simp add: process_event_def claim False Some await Let_def case_prod_beta split: if_split)
    qed
  qed
qed

lemma fold_advances:
  assumes "handlers_advance table bound handlers" "wf_queue bound (fst table s)"
    "\<And>row. row \<in> set rows \<Longrightarrow> q_attempts row < bound \<and> (\<exists>row' \<in> set (fst table s). event_later row row')"
  shows "queue_advances table bound s
           (snd (fold (process_event table final admissible options handlers) rows (res, s)))"
  using assms(2,3)
proof (induction rows arbitrary: res s)
  case Nil
  then show ?case by (simp add: advances_refl)
next
  case (Cons row rows)
  obtain row' where row': "row' \<in> set (fst table s)" "event_later row row'" "q_attempts row < bound"
    using Cons.prems(2) by auto
  obtain res1 t where t: "process_event table final admissible options handlers row (res, s) = (res1, t)"
    by fastforce
  have st: "queue_advances table bound s t"
    using process_event_advances [OF assms(1) Cons.prems(1) row', of final admissible options res]
    by (simp add: t)
  have "queue_advances table bound t
      (snd (fold (process_event table final admissible options handlers) rows (res1, t)))"
  proof (rule Cons.IH)
    show "wf_queue bound (fst table t)" using st Cons.prems(1) by (simp add: queue_advances_def)
    fix r assume "r \<in> set rows"
    with Cons.prems(2) obtain r' where "q_attempts r < bound" "r' \<in> set (fst table s)" "event_later r r'"
      by (meson list.set_intros(2))
    with st Cons.prems(1) show "q_attempts r < bound \<and> (\<exists>row' \<in> set (fst table t). event_later r row')"
      unfolding queue_advances_def by (meson event_later_trans)
  qed
  with st show ?case by (simp add: t advances_trans)
qed

text \<open>A poll keeps the guarantee, whatever its handlers do that keeps it.\<close>

lemma poll_advances:
  assumes "handlers_advance table bound handlers" "maxAttempts options \<le> bound"
  shows "queue_advances table bound s (snd (poll table final admissible options handlers s))"
proof (cases "wf_queue bound (fst table s)")
  case True
  let ?s1 = "recover_stale table options s"
  let ?rows = "selected_rows table options handlers ?s1"
  have adv: "queue_advances table bound s ?s1"
    unfolding recover_stale_def
    by (rule update_advances)
      (auto simp: stale_def reset_claim_def event_later_def event_final_def wf_queue_def)
  moreover have "queue_advances table bound ?s1
      (snd (fold (process_event table final admissible options handlers) ?rows (r, ?s1)))" for r
  proof (rule fold_advances [OF assms(1)])
    show "wf_queue bound (fst table ?s1)" using adv True by (simp add: queue_advances_def)
    fix row assume "row \<in> set ?rows"
    then have "row \<in> set (fst table ?s1)" "due options (clock ?s1) row"
      using select_batch_due [of options] by (auto simp: selected_rows_def)
    with assms(2) show "q_attempts row < bound \<and> (\<exists>row' \<in> set (fst table ?s1). event_later row row')"
      by (auto simp: due_def intro: event_later_refl)
  qed
  ultimately show ?thesis by (simp add: poll_def Let_def advances_trans)
qed (simp add: queue_advances_def)

text \<open>
  Ownership: once an event is claimed a second time, nothing the first claim's poller does finds
  the row, so it can neither renew nor end its claim.
\<close>

lemma version_grows:
  assumes "wf_queue bound (fst table s)" "queue_advances table bound s t"
    "r \<in> set (fst table s)" "r' \<in> set (fst table t)" "q_id r' = q_id r"
  shows "q_version r \<le> q_version r'"
proof -
  obtain r1 where r1: "r1 \<in> set (fst table t)" "event_later r r1"
    using assms(1-3) by (auto simp: queue_advances_def)
  then have "r1 = r'"
    using assms by (auto simp: queue_advances_def wf_queue_def event_later_def intro: distinct_map_unique)
  then show ?thesis
    using r1(2) unfolding event_later_def by (metis less_imp_le order_refl queue_row.select_convs(8) queue_row.surjective
        queue_row.update_convs(10))
qed

lemma claim_wins:
  assumes "wf_queue bound (fst table s)"
    "update_rows table (claimable_event i v) (claim_event now) s = (n, s1)" "n \<noteq> 0"
  shows "\<exists>r \<in> set (fst table s1). q_id r = i \<and> q_version r = v + 1"
    "\<exists>r \<in> set (fst table s). q_id r = i \<and> q_version r = v"
proof -
  obtain r where r: "r \<in> set (fst table s)" "claimable_event i v r"
    using assms(2,3) by (auto simp: update_rows_def)
  then show "\<exists>r \<in> set (fst table s). q_id r = i \<and> q_version r = v"
    by (auto simp: claimable_event_def)
  have "claim_event now r \<in> set (fst table s1)"
    using r assms(2) by (auto simp: update_rows_def table_update set_update_where)
  with r(2) show "\<exists>r \<in> set (fst table s1). q_id r = i \<and> q_version r = v + 1"
    by (intro bexI [of _ "claim_event now r"]) (simp_all add: claimable_event_def claim_event_def)
qed

lemma lost_claim:
  assumes "wf_queue bound (fst table s)"
    "update_rows table (claimable_event i v) (claim_event now) s = (n, s1)" "n \<noteq> 0"
    "queue_advances table bound s1 t"
    "update_rows table (claimable_event i w) (claim_event now') t = (m, t1)" "m \<noteq> 0"
    "queue_advances table bound t1 u"
  shows "fst (update_rows table (event_at i (v + 1)) f u) = 0"
    "fst (update_rows table (renewable i (v + 1)) g u) = 0"
proof -
  have wf1: "wf_queue bound (fst table s1)"
    using claim_advances [of s i v now] assms(1,2) by (simp add: queue_advances_def)
  then have wft: "wf_queue bound (fst table t)" using assms(4) by (simp add: queue_advances_def)
  then have wft1: "wf_queue bound (fst table t1)"
    using claim_advances [of t i w now'] assms(5) by (simp add: queue_advances_def)
  have "v + 1 \<le> w"
    using claim_wins(1) [OF assms(1-3)] claim_wins(2) [OF wft assms(5,6)]
      version_grows [OF wf1 assms(4)] by metis
  then have "v + 1 < q_version r" if "r \<in> set (fst table u)" "q_id r = i" for r
    using claim_wins(1) [OF wft assms(5,6)] version_grows [OF wft1 assms(7) _ that(1)] that(2)
    by fastforce
  then show "fst (update_rows table (event_at i (v + 1)) f u) = 0"
    "fst (update_rows table (renewable i (v + 1)) g u) = 0"
    by (fastforce simp: update_rows_def event_at_def renewable_def)+
qed

end

sublocale event_queue \<subseteq> advances: store_guarantee "queue_advances table bound"
  by unfold_locales (rule advances_refl, rule advances_trans)

interpretation outbox_queue: event_queue outbox_table bound for bound
  by unfold_locales (simp add: outbox_table_def)

interpretation inbox_queue: event_queue inbox_table bound for bound
  by unfold_locales (simp add: inbox_table_def)

section \<open>What a poll leaves to its surroundings\<close>

text \<open>
  A guarantee that every handler keeps, and that no statement of the poller on its own table can
  break, is kept by the poll.
\<close>

definition same_event :: "('m queue_row_scheme \<Rightarrow> 'm queue_row_scheme) \<Rightarrow> bool" where
  "same_event f = (\<forall>r. q_id (f r) = q_id r \<and> q_payload (f r) = q_payload r)"

lemma same_event_statements:
  "same_event (reset_claim now)" "same_event (claim_event now)" "same_event (renew_claim now)"
  "same_event (push_back x now)" "same_event (mark_done final now)" "same_event (mark_failed a x now)"
  by (simp_all add: same_event_def reset_claim_def claim_event_def renew_claim_def push_back_def
      mark_done_def mark_failed_def)

context store_guarantee
begin

lemma keeps_await:
  assumes "\<And>during reachable t. (during, reachable) \<in> set intervals \<Longrightarrow> R t (during t)"
    "\<And>p f s. same_event f \<Longrightarrow> R s (snd (update_rows table p f s))"
  shows "R s (snd (await_handler table i v intervals lost s))"
  using assms(1)
proof (induction intervals arbitrary: s lost)
  case Nil
  then show ?case by (simp add: R_refl)
next
  case (Cons p rest)
  obtain during reachable where p: "p = (during, reachable)" by force
  have first: "R s (during s)" using Cons.prems by (auto simp: p)
  note renew = assms(2) [OF same_event_statements(3)]
  have rest: "R x (snd (await_handler table i v rest l x))" for x l
    by (rule Cons.IH) (use Cons.prems in auto)
  show ?case
    using R_trans [OF first rest] R_trans [OF first R_trans [OF renew rest]]
    by (simp add: p Let_def case_prod_beta)
qed

lemma keeps_process_event:
  assumes "handlers_keep R handlers" "\<And>p f s. same_event f \<Longrightarrow> R s (snd (update_rows table p f s))"
  shows "R s (snd (process_event table final admissible options handlers row (res, s)))"
proof -
  note upd = assms(2) [OF same_event_statements(1)] assms(2) [OF same_event_statements(2)]
    assms(2) [OF same_event_statements(4)] assms(2) [OF same_event_statements(5)]
    assms(2) [OF same_event_statements(6)]
  obtain n s1 where claim: "update_rows table (claimable_event (q_id row) (q_version row)) (claim_event (clock s)) s = (n, s1)"
    by fastforce
  have s1: "R s s1" using upd(2) claim by (metis snd_conv)
  show ?thesis
  proof (cases "map_of handlers (q_event_type row)")
    case None
    with s1 R_trans [OF s1 upd(3)] show ?thesis by (simp add: process_event_def claim Let_def)
  next
    case (Some handle)
    let ?run = "handle (q_payload row) (q_payload_schema_version row) s1"
    have env: "R t (during t)" if "(during, reachable) \<in> set (hr_intervals ?run)" for during reachable t
      using assms(1) that map_of_SomeD [OF Some] unfolding handlers_keep_def by fastforce
    have rest: "R t (hr_rest ?run t)" for t
      using assms(1) map_of_SomeD [OF Some] unfolding handlers_keep_def by fastforce
    obtain lost t where await: "await_handler table (q_id row) (q_version row + 1) (hr_intervals ?run) False s1 = (lost, t)"
      by fastforce
    have "R s1 (snd (await_handler table (q_id row) (q_version row + 1) (hr_intervals ?run) False s1))"
      by (rule keeps_await) (use env assms(2) in blast)+
    then have "R s1 t" by (simp add: await)
    then have t: "R s (hr_rest ?run t)" using R_trans [OF s1 R_trans [OF _ rest]] by blast
    show ?thesis
      using s1 t R_trans [OF t upd(4)] R_trans [OF t upd(5)] R_trans [OF s1 upd(5)]
      by (simp add: process_event_def claim Some await Let_def case_prod_beta split: if_split)
  qed
qed

lemma keeps_poll:
  assumes "handlers_keep R handlers" "\<And>p f s. same_event f \<Longrightarrow> R s (snd (update_rows table p f s))"
  shows "R s (snd (poll table final admissible options handlers s))"
proof -
  have fold: "R u (snd (fold (process_event table final admissible options handlers) rows (res, u)))" for rows res u
  proof (induction rows arbitrary: res u)
    case Nil
    then show ?case by (simp add: R_refl)
  next
    case (Cons row rows)
    have "R u (snd (process_event table final admissible options handlers row (res, u)))"
      by (rule keeps_process_event [OF assms])
    then show ?case
      using R_trans [OF _ Cons.IH]
      by (cases "process_event table final admissible options handlers row (res, u)") auto
  qed
  have "R s (recover_stale table options s)"
    unfolding recover_stale_def by (rule assms(2) [OF same_event_statements(1)])
  then show ?thesis using R_trans [OF _ fold] by (simp add: poll_def Let_def)
qed

end

section \<open>What a poll does when nothing interferes\<close>

text \<open>
  Handlers that leave the table alone, reach the database at every heartbeat, and throw exactly
  when \<open>throws\<close> says so.
\<close>

definition quiet_run :: "'m queue_row_scheme table \<Rightarrow> bool \<Rightarrow> handler_run \<Rightarrow> bool" where
  "quiet_run table throws run =
     ((\<forall>(during, reachable) \<in> set (hr_intervals run). reachable \<and> (\<forall>s. fst table (during s) = fst table s))
      \<and> (\<forall>s. fst table (hr_rest run s) = fst table s) \<and> hr_throws run = throws)"

definition quiet_handlers :: "'m queue_row_scheme table \<Rightarrow> bool \<Rightarrow> (string \<times> event_handler) list \<Rightarrow> bool" where
  "quiet_handlers table throws handlers =
     (\<forall>(name, handle) \<in> set handlers. \<forall>pay ver s. quiet_run table throws (handle pay ver s))"

text \<open>Where a selected event ends.\<close>

definition outcome ::
    "EventStatus \<Rightarrow> (string \<Rightarrow> json \<Rightarrow> string \<Rightarrow> bool) \<Rightarrow> (string \<times> event_handler) list \<Rightarrow> bool
      \<Rightarrow> 'm queue_row_scheme \<Rightarrow> EventStatus" where
  "outcome final admissible handlers throws row =
     (if map_of handlers (q_event_type row) = None then EV_PENDING
      else if admissible (q_event_type row) (q_payload row) (q_payload_schema_version row) \<and> \<not> throws
      then final else EV_FAILED)"

definition settled :: "EventStatus \<Rightarrow> 'm queue_row_scheme \<Rightarrow> 'm queue_row_scheme \<Rightarrow> bool" where
  "settled out row r =
     (q_id r = q_id row \<and> q_status r = out \<and> q_version r = q_version row + 2
      \<and> q_attempts r = (if out = EV_FAILED then q_attempts row + 1 else q_attempts row))"

definition others :: "string \<Rightarrow> 'm queue_row_scheme list \<Rightarrow> 'm queue_row_scheme list" where
  "others i rows = filter (\<lambda>r. q_id r \<noteq> i) rows"

lemma others_update_where:
  "(\<And>r. p r \<Longrightarrow> q_id r = i \<and> q_id (f r) = i) \<Longrightarrow> others i (update_where p f rows) = others i rows"
  by (induction rows) (auto simp: others_def)

context event_queue
begin

text \<open>The table holds one row of this id, as \<open>P\<close> says, and its other rows are \<open>rest\<close>.\<close>

definition sole :: "string \<Rightarrow> ('m queue_row_scheme \<Rightarrow> bool) \<Rightarrow> 'm queue_row_scheme list \<Rightarrow> store \<Rightarrow> bool" where
  "sole i P rest s =
     (distinct (map q_id (fst table s)) \<and> (\<exists>r \<in> set (fst table s). q_id r = i \<and> P r)
      \<and> others i (fst table s) = rest)"

lemma sole_update:
  assumes "sole i P rest s" "\<And>r. q_id r = i \<Longrightarrow> P r \<Longrightarrow> p r \<and> q_id (f r) = i \<and> Q (f r)"
    "\<And>r. p r \<Longrightarrow> q_id r = i \<and> q_id (f r) = i"
  shows "\<exists>u. update_rows table p f s = (1, u) \<and> sole i Q rest u"
proof -
  let ?rows = "fst table s"
  obtain r where r: "r \<in> set ?rows" "q_id r = i" "P r" using assms(1) by (auto simp: sole_def)
  have d: "distinct (map q_id ?rows)" using assms(1) by (simp add: sole_def)
  note fr = assms(2) [OF r(2,3)]
  have one: "filter p ?rows = [r]"
  proof (rule filter_unique_key [OF d r(1)])
    show "p r" using fr ..
    show "q_id y = q_id r" if "p y" for y using assms(3) [OF that] r(2) by simp
  qed
  have ids: "map q_id (update_where p f ?rows) = map q_id ?rows"
  proof (rule map_update_where)
    show "q_id (f y) = q_id y" if "p y" for y using assms(3) [OF that] by simp
  qed
  have mem: "f r \<in> set (update_where p f ?rows)"
    using r(1) fr by (simp add: set_update_where)
  have oth: "others i (update_where p f ?rows) = rest"
    by (subst others_update_where) (use assms(1,3) in \<open>auto simp: sole_def\<close>)
  have "sole i Q rest (snd table (update_where p f) s)"
    using ids d mem fr oth by (auto simp: sole_def table_update)
  then show ?thesis
    by (simp add: update_rows_def count_where_def one)
qed

lemma sole_frame: "fst table t = fst table s \<Longrightarrow> sole i P rest s \<Longrightarrow> sole i P rest t"
  by (simp add: sole_def)

definition in_claim :: "int \<Rightarrow> int \<Rightarrow> 'm queue_row_scheme \<Rightarrow> bool" where
  "in_claim v a r = (q_status r = EV_PROCESSING \<and> q_version r = v \<and> q_attempts r = a)"

lemma await_quiet:
  assumes "sole i (in_claim v a) rest s"
    "\<And>during reachable. (during, reachable) \<in> set intervals \<Longrightarrow>
       reachable \<and> (\<forall>t. fst table (during t) = fst table t)"
  obtains u where "await_handler table i v intervals False s = (False, u)" "sole i (in_claim v a) rest u"
  using assms
proof (induction intervals arbitrary: s thesis)
  case Nil
  then show ?case by simp
next
  case (Cons p intervals)
  obtain during reachable where p: "p = (during, reachable)" by force
  have q: "reachable" "fst table (during s) = fst table s"
    using Cons.prems(3) [of during reachable] by (simp_all add: p)
  have start: "sole i (in_claim v a) rest (during s)"
    using q(2) Cons.prems(2) by (rule sole_frame)
  have "\<exists>u. update_rows table (renewable i v) (renew_claim (clock (during s))) (during s) = (1, u)
      \<and> sole i (in_claim v a) rest u"
    by (rule sole_update [OF start]) (auto simp: renewable_def renew_claim_def in_claim_def)
  then obtain u where u: "update_rows table (renewable i v) (renew_claim (clock (during s))) (during s) = (1, u)"
      "sole i (in_claim v a) rest u"
    by blast
  obtain w where "await_handler table i v intervals False u = (False, w)" "sole i (in_claim v a) rest w"
    by (rule Cons.IH [OF _ u(2)]) (use Cons.prems(3) in auto)
  with q(1) u(1) show ?case by (intro Cons.prems(1)) (auto simp: p Let_def)
qed

definition tally :: "EventStatus \<Rightarrow> EventStatus \<Rightarrow> poll_result \<Rightarrow> poll_result" where
  "tally final out res =
     (if out = final then res\<lparr>done_count := done_count res + 1\<rparr>
      else if out = EV_FAILED then res\<lparr>failed_count := failed_count res + 1\<rparr> else res)"

lemma process_event_quiet:
  assumes "quiet_handlers table throws handlers" "event_final final" "open_event row"
    "sole (q_id row) (\<lambda>r. r = row) rest s"
  obtains u where "process_event table final admissible options handlers row (res, s) =
        (tally final (outcome final admissible handlers throws row) res, u)"
      "sole (q_id row) (settled (outcome final admissible handlers throws row) row) rest u"
proof -
  let ?i = "q_id row" and ?v = "q_version row + 1" and ?a = "q_attempts row"
  have fin: "final \<noteq> EV_PENDING" "final \<noteq> EV_FAILED" "EV_FAILED \<noteq> final" "EV_PENDING \<noteq> final"
    using assms(2) by (auto simp: event_final_def)
  have "\<exists>u. update_rows table (claimable_event ?i (q_version row)) (claim_event (clock s)) s = (1, u)
      \<and> sole ?i (in_claim ?v ?a) rest u"
    by (rule sole_update [OF assms(4)]) (use assms(3) in \<open>auto simp: claimable_event_def claim_event_def in_claim_def\<close>)
  then obtain s1 where s1: "update_rows table (claimable_event ?i (q_version row)) (claim_event (clock s)) s = (1, s1)"
      "sole ?i (in_claim ?v ?a) rest s1"
    by blast
  show thesis
  proof (cases "map_of handlers (q_event_type row)")
    case None
    have "\<exists>u. update_rows table (event_at ?i ?v) (push_back (clock s1 + maxBackoffMs options) (clock s1)) s1 = (1, u)
        \<and> sole ?i (settled EV_PENDING row) rest u"
      by (rule sole_update [OF s1(2)]) (auto simp: event_at_def push_back_def settled_def in_claim_def)
    with None s1(1) fin show thesis
      by (auto simp: process_event_def outcome_def tally_def Let_def intro: that)
  next
    case (Some handle)
    let ?run = "handle (q_payload row) (q_payload_schema_version row) s1"
    have run: "quiet_run table throws ?run"
      using assms(1) map_of_SomeD [OF Some] by (auto simp: quiet_handlers_def)
    obtain t where t: "await_handler table ?i ?v (hr_intervals ?run) False s1 = (False, t)"
        "sole ?i (in_claim ?v ?a) rest t"
      by (rule await_quiet [OF s1(2)]) (use run in \<open>auto simp: quiet_run_def\<close>)
    have rest: "sole ?i (in_claim ?v ?a) rest (hr_rest ?run t)"
      by (rule sole_frame [OF _ t(2)]) (use run in \<open>simp add: quiet_run_def\<close>)
    have throws: "hr_throws ?run = throws" using run by (simp add: quiet_run_def)
    have finish: "\<exists>w. update_rows table (event_at ?i ?v) f u = (1, w) \<and> sole ?i (settled out row) rest w"
      if "sole ?i (in_claim ?v ?a) rest u"
        "\<And>r. q_id r = ?i \<Longrightarrow> in_claim ?v ?a r \<Longrightarrow> settled out row (f r)" "\<And>r. q_id (f r) = q_id r" for f out u
      by (rule sole_update [OF that(1), of "event_at ?i ?v" f "settled out row"])
        (use that(2,3) in \<open>auto simp: event_at_def in_claim_def\<close>)
    have ok: "\<exists>w. update_rows table (event_at ?i ?v) (mark_done final now) u = (1, w)
        \<and> sole ?i (settled final row) rest w" if "sole ?i (in_claim ?v ?a) rest u" for now u
      by (rule finish [OF that]) (use fin in \<open>simp_all add: mark_done_def settled_def in_claim_def\<close>)
    have bad: "\<exists>w. update_rows table (event_at ?i ?v) (mark_failed (?a + 1) x now) u = (1, w)
        \<and> sole ?i (settled EV_FAILED row) rest w" if "sole ?i (in_claim ?v ?a) rest u" for x now u
      by (rule finish [OF that]) (simp_all add: mark_failed_def settled_def in_claim_def)
    note ends = ok [OF rest] bad [OF rest] bad [OF s1(2)]
    show thesis
    proof (cases "admissible (q_event_type row) (q_payload row) (q_payload_schema_version row)")
      case True
      obtain w1 where w1: "update_rows table (event_at ?i ?v) (mark_done final (clock (hr_rest ?run t))) (hr_rest ?run t) = (1, w1)"
          "sole ?i (settled final row) rest w1" using ends(1) by blast
      obtain w2 where w2: "update_rows table (event_at ?i ?v) (mark_failed (?a + 1)
            (clock (hr_rest ?run t) + deterministicBackoff (?a + 1) (baseBackoffMs options) (maxBackoffMs options))
            (clock (hr_rest ?run t))) (hr_rest ?run t) = (1, w2)"
          "sole ?i (settled EV_FAILED row) rest w2" using ends(2) by blast
      show thesis
        using True Some s1(1) t(1) throws fin w1 w2
        by (cases throws; intro that [of "if throws then w2 else w1"])
          (simp_all add: process_event_def outcome_def tally_def Let_def)
    next
      case False
      obtain w where "update_rows table (event_at ?i ?v) (mark_failed (?a + 1)
            (clock s1 + deterministicBackoff (?a + 1) (baseBackoffMs options) (maxBackoffMs options))
            (clock s1)) s1 = (1, w)"
          "sole ?i (settled EV_FAILED row) rest w" using ends(3) by blast
      with False Some s1(1) fin show thesis
        by (intro that [of w]) (simp_all add: process_event_def outcome_def tally_def Let_def)
    qed
  qed
qed

lemma others_member:
  assumes "others i xs = others i ys" "q_id r \<noteq> i"
  shows "r \<in> set xs \<longleftrightarrow> r \<in> set ys"
proof -
  have "r \<in> set xs \<longleftrightarrow> r \<in> set (others i xs)" "r \<in> set ys \<longleftrightarrow> r \<in> set (others i ys)"
    using assms(2) by (simp_all add: others_def)
  with assms(1) show ?thesis by argo
qed

lemma tally_counts:
  "event_final final \<Longrightarrow>
     done_count (tally final out res) = done_count res + (if out = final then 1 else 0)
     \<and> failed_count (tally final out res) = failed_count res + (if out = EV_FAILED then 1 else 0)"
  by (auto simp: tally_def event_final_def)

lemma fold_quiet:
  assumes "quiet_handlers table throws handlers" "event_final final"
    "distinct (map q_id rows)" "distinct (map q_id (fst table s))" "set rows \<subseteq> set (fst table s)"
    "\<And>row. row \<in> set rows \<Longrightarrow> open_event row"
  shows "\<exists>res' u. fold (process_event table final admissible options handlers) rows (res, s) = (res', u)
     \<and> done_count res' = done_count res
         + count_where (\<lambda>row. outcome final admissible handlers throws row = final) rows
     \<and> failed_count res' = failed_count res
         + count_where (\<lambda>row. outcome final admissible handlers throws row = EV_FAILED) rows
     \<and> (\<forall>row \<in> set rows. \<exists>r \<in> set (fst table u). settled (outcome final admissible handlers throws row) row r)
     \<and> (\<forall>r. q_id r \<notin> q_id ` set rows \<longrightarrow> (r \<in> set (fst table u) \<longleftrightarrow> r \<in> set (fst table s)))"
  using assms(3-6)
proof (induction rows arbitrary: res s)
  case Nil
  then show ?case by simp
next
  case (Cons row rows)
  let ?out = "outcome final admissible handlers throws"
  have "sole (q_id row) (\<lambda>r. r = row) (others (q_id row) (fst table s)) s"
    using Cons.prems(2,3) by (simp add: sole_def)
  then obtain t where t: "process_event table final admissible options handlers row (res, s) =
        (tally final (?out row) res, t)"
      "sole (q_id row) (settled (?out row) row) (others (q_id row) (fst table s)) t"
    using process_event_quiet [OF assms(1,2) Cons.prems(4) [OF list.set_intros(1)]] by metis
  have dt: "distinct (map q_id (fst table t))" using t(2) by (simp add: sole_def)
  have keep: "r \<in> set (fst table t) \<longleftrightarrow> r \<in> set (fst table s)" if "q_id r \<noteq> q_id row" for r
    using t(2) that by (intro others_member) (simp_all add: sole_def)
  have new: "q_id r \<noteq> q_id row" if "r \<in> set rows" for r
    using Cons.prems(1) that by (auto simp: image_iff)
  have sub: "set rows \<subseteq> set (fst table t)" using Cons.prems(3) keep new by auto
  obtain res' u where u: "fold (process_event table final admissible options handlers) rows
        (tally final (?out row) res, t) = (res', u)"
      "done_count res' = done_count (tally final (?out row) res) + count_where (\<lambda>row. ?out row = final) rows"
      "failed_count res' = failed_count (tally final (?out row) res) + count_where (\<lambda>row. ?out row = EV_FAILED) rows"
      "\<forall>row \<in> set rows. \<exists>r \<in> set (fst table u). settled (?out row) row r"
      "\<forall>r. q_id r \<notin> q_id ` set rows \<longrightarrow> (r \<in> set (fst table u) \<longleftrightarrow> r \<in> set (fst table t))"
    using Cons.IH [OF _ dt sub, of "tally final (?out row) res"] Cons.prems(1,4) by auto
  have "\<exists>r \<in> set (fst table u). settled (?out row) row r"
  proof -
    obtain r where r: "r \<in> set (fst table t)" "settled (?out row) row r" "q_id r = q_id row"
      using t(2) by (auto simp: sole_def)
    with u(5) Cons.prems(1) have "r \<in> set (fst table u)" by auto
    with r(2) show ?thesis by blast
  qed
  moreover have "r \<in> set (fst table u) \<longleftrightarrow> r \<in> set (fst table s)"
    if "q_id r \<notin> q_id ` set (row # rows)" for r
    using that u(5) keep by simp
  ultimately show ?case
    using u(2-4) tally_counts [OF assms(2), of "?out row" res]
    by (intro exI [of _ res'] exI [of _ u]) (auto simp: t(1) u(1) count_where_def)
qed

text \<open>Without interference a poll settles each row it selects and touches no other.\<close>

lemma poll_quiet:
  assumes "quiet_handlers table throws handlers" "event_final final" "distinct (map q_id (fst table s))"
  obtains res u where "poll table final admissible options handlers s = (res, u)"
      "done_count res = count_where (\<lambda>row. outcome final admissible handlers throws row = final)
         (selected_rows table options handlers (recover_stale table options s))"
      "failed_count res = count_where (\<lambda>row. outcome final admissible handlers throws row = EV_FAILED)
         (selected_rows table options handlers (recover_stale table options s))"
      "\<And>row. row \<in> set (selected_rows table options handlers (recover_stale table options s)) \<Longrightarrow>
         \<exists>r \<in> set (fst table u). settled (outcome final admissible handlers throws row) row r"
      "\<And>r. q_id r \<notin> q_id ` set (selected_rows table options handlers (recover_stale table options s)) \<Longrightarrow>
         r \<in> set (fst table u) \<longleftrightarrow> r \<in> set (fst table (recover_stale table options s))"
proof -
  have "map q_id (fst table (recover_stale table options s)) = map q_id (fst table s)"
    by (simp add: recover_stale_def update_rows_def table_update map_update_where reset_claim_def)
  then have d: "distinct (map q_id (fst table (recover_stale table options s)))" using assms(3) by simp
  have sel: "set (selected_rows table options handlers (recover_stale table options s)) \<subseteq> set (fst table (recover_stale table options s))"
    "row \<in> set (selected_rows table options handlers (recover_stale table options s)) \<Longrightarrow> open_event row" for row
    using select_batch_due [of options "clock (recover_stale table options s)" "map fst handlers"
        "fst table (recover_stale table options s)"] by (auto simp: selected_rows_def due_def)
  have p: "poll table final admissible options handlers s =
      fold (process_event table final admissible options handlers) (selected_rows table options handlers (recover_stale table options s))
        (\<lparr>done_count = 0, failed_count = 0\<rparr>, recover_stale table options s)"
    by (simp add: poll_def Let_def)
  show thesis
    using fold_quiet [OF assms(1,2) _ d sel(1) sel(2), of admissible options "\<lparr>done_count = 0, failed_count = 0\<rparr>"]
      distinct_select_batch [OF d]
    by (auto simp: p selected_rows_def intro!: that)
qed

end

text \<open>Commands only append to the outbox, so they keep the guarantee; so do statements on other tables.\<close>

lemma outbox_grows_advances:
  assumes "outbox_grows (outbox_events s) (outbox_events t)" "0 \<le> bound"
  shows "queue_advances outbox_table bound s t"
  using assms
  by (auto simp: queue_advances_def wf_queue_def outbox_table_def outbox_grows_def fresh_event_def list_all_iff
      intro: event_later_refl)

lemma evolves_outbox: "evolves s t \<Longrightarrow> 0 \<le> bound \<Longrightarrow> queue_advances outbox_table bound s t"
  by (intro outbox_grows_advances) (simp_all add: guarantee_defs)

lemma queue_frame: "fst table t = fst table s \<Longrightarrow> queue_advances table bound s t"
  by (auto simp: queue_advances_def intro: event_later_refl)

end
