(* ===== verification/Locks.thy ===== *)
theory Locks
  imports Execution
begin

text \<open>
  \<open>packages/workflow/src/locks\<close>, \<open>lanes\<close> and \<open>sweep\<close>: the lock manager with its fencing tokens,
  the execution lane (one lock per project) and the sweeper of expired idempotency keys. Lock
  rows are never deleted, so a fence is never reused; the guarantee \<open>locks_advance\<close> says so of
  every step of the system.
\<close>

section \<open>The lock manager\<close>

record acquired_lock =
  al_lockId :: string
  al_resourceKey :: string
  al_fence :: int
  al_expiresAt :: "int option"
  al_holderId :: string

record lock_options =
  lo_ttlMs :: int
  lo_holderId :: string

definition lock_generateId :: "string tx" where
  "lock_generateId = bindT generateId (\<lambda>i. returnT (''lock-'' @ i))"

text \<open>\<open>WHERE project_id = ? AND resource_key = ? AND (expires_at <= ? OR holder_id = ?)\<close>.\<close>

definition lock_for :: "string \<Rightarrow> string \<Rightarrow> workflow_lock_row \<Rightarrow> bool" where
  "lock_for projectId resourceKey l = (wl_project_id l = projectId \<and> wl_resource_key l = resourceKey)"

definition claimable :: "string \<Rightarrow> string \<Rightarrow> string \<Rightarrow> int \<Rightarrow> workflow_lock_row \<Rightarrow> bool" where
  "claimable projectId resourceKey holderId now l =
     (lock_for projectId resourceKey l
      \<and> ((case wl_expires_at l of None \<Rightarrow> False | Some e \<Rightarrow> e \<le> now) \<or> wl_holder_id l = holderId))"

definition acquire_body :: "string \<Rightarrow> string \<Rightarrow> lock_options \<Rightarrow> string \<Rightarrow> acquired_lock tx" where
  "acquire_body projectId resourceKey options lockId =
     bindT (queryT clock) (\<lambda>now.
     let holderId = lo_holderId options;
         expiresAt = now + lo_ttlMs options in
     bindT (executeAffectedT
              (\<lambda>s. count_where (claimable projectId resourceKey holderId now) (workflow_locks s))
              (workflow_locks_update
                 (update_where (claimable projectId resourceKey holderId now)
                    (\<lambda>l. l\<lparr>wl_holder_id := holderId, wl_fence := wl_fence l + 1,
                           wl_expires_at := Some expiresAt, wl_version := wl_version l + 1,
                           wl_updated_at := now\<rparr>)))) (\<lambda>updated.
     bindT
       (if updated = 0
        then
          bindT (insertOnConflictT ''workflow_locks'' workflow_locks workflow_locks_update wl_id
                   (\<lambda>l. (wl_project_id l, wl_resource_key l))
                   \<lparr>wl_id = lockId, wl_project_id = projectId, wl_resource_key = resourceKey,
                    wl_holder_id = holderId, wl_fence = 1, wl_expires_at = Some expiresAt,
                    wl_version = 1, wl_updated_at = now\<rparr>) (\<lambda>inserted.
          if inserted = 0 then throwT (LockConflictError resourceKey holderId) else returnT ())
        else returnT ()) (\<lambda>_.
     bindT (queryT (\<lambda>s. first_row (filter (lock_for projectId resourceKey) (workflow_locks s)))) (\<lambda>row.
     case row of
       None \<Rightarrow> throwT (OtherError (''Lock row missing after acquire for '' @ projectId @ ''/'' @ resourceKey))
     | Some lock \<Rightarrow>
         returnT \<lparr>al_lockId = wl_id lock, al_resourceKey = resourceKey, al_fence = wl_fence lock,
                  al_expiresAt = wl_expires_at lock, al_holderId = holderId\<rparr>))))"

definition acquire :: "string \<Rightarrow> string \<Rightarrow> lock_options \<Rightarrow> acquired_lock db_action" where
  "acquire projectId resourceKey options =
     bindA (transaction lock_generateId) (\<lambda>lockId.
     transaction (acquire_body projectId resourceKey options lockId))"

definition held_as :: "acquired_lock \<Rightarrow> workflow_lock_row \<Rightarrow> bool" where
  "held_as lock l =
     (wl_id l = al_lockId lock \<and> wl_holder_id l = al_holderId lock \<and> wl_fence l = al_fence lock)"

definition release :: "acquired_lock \<Rightarrow> unit db_action" where
  "release lock =
     transaction
       (bindT (queryT clock) (\<lambda>now.
        executeT (workflow_locks_update
          (update_where (held_as lock)
             (\<lambda>l. l\<lparr>wl_expires_at := Some now, wl_fence := wl_fence l + 1,
                    wl_version := wl_version l + 1, wl_updated_at := now\<rparr>)))))"

definition heartbeat :: "acquired_lock \<Rightarrow> int \<Rightarrow> unit db_action" where
  "heartbeat lock ttlMs =
     transaction
       (bindT (queryT clock) (\<lambda>now.
        executeT (workflow_locks_update
          (update_where (held_as lock)
             (\<lambda>l. l\<lparr>wl_expires_at := Some (now + ttlMs), wl_version := wl_version l + 1,
                    wl_updated_at := now\<rparr>)))))"

definition assertFence :: "acquired_lock \<Rightarrow> unit tx" where
  "assertFence lock =
     bindT (queryT clock) (\<lambda>now.
     bindT (queryT (lock_by_id (al_lockId lock))) (\<lambda>row.
     case row of
       None \<Rightarrow> throwT (StaleFenceError (al_lockId lock) (al_fence lock) (-1))
     | Some current \<Rightarrow>
         if (case wl_expires_at current of None \<Rightarrow> False | Some e \<Rightarrow> e < now)
         then throwT (StaleFenceError (al_lockId lock) (al_fence lock) (wl_fence current))
         else if wl_fence current \<noteq> al_fence lock
         then throwT (StaleFenceError (al_lockId lock) (al_fence lock) (wl_fence current))
         else returnT ()))"

section \<open>The execution lane and the sweeper\<close>

definition executionLaneKey :: "string \<Rightarrow> string" where
  "executionLaneKey projectId = ''execution-lane:'' @ projectId"

definition acquireForProject :: "string \<Rightarrow> string \<Rightarrow> int \<Rightarrow> acquired_lock db_action" where
  "acquireForProject projectId holderId ttlMs =
     acquire projectId (executionLaneKey projectId) \<lparr>lo_ttlMs = ttlMs, lo_holderId = holderId\<rparr>"

definition releaseForProject :: "acquired_lock \<Rightarrow> unit db_action" where
  "releaseForProject lock = release lock"

definition sweep :: "int db_action" where
  "sweep =
     transaction
       (bindT (queryT clock) (\<lambda>now.
        executeAffectedT (\<lambda>s. count_where (\<lambda>r. ik_expires_at r \<le> now) (idempotency_keys s))
          (idempotency_keys_update (delete_where (\<lambda>r. ik_expires_at r \<le> now)))))"

section \<open>Fences only grow\<close>

definition wf_locks :: "store \<Rightarrow> bool" where
  "wf_locks s =
     (distinct (map wl_id (workflow_locks s))
      \<and> distinct (map (\<lambda>l. (wl_project_id l, wl_resource_key l)) (workflow_locks s)))"

text \<open>
  A later version of a lock row: the same lock, and a fence that is larger unless the holder
  is the same.
\<close>

definition lock_later :: "workflow_lock_row \<Rightarrow> workflow_lock_row \<Rightarrow> bool" where
  "lock_later l l' =
     (wl_id l' = wl_id l \<and> wl_project_id l' = wl_project_id l \<and> wl_resource_key l' = wl_resource_key l
      \<and> (wl_fence l < wl_fence l' \<or> (wl_fence l' = wl_fence l \<and> wl_holder_id l' = wl_holder_id l)))"

definition locks_advance :: "store \<Rightarrow> store \<Rightarrow> bool" where
  "locks_advance s t =
     (clock s \<le> clock t
      \<and> (wf_locks s \<longrightarrow> wf_locks t
          \<and> (\<forall>l \<in> set (workflow_locks s). \<exists>l' \<in> set (workflow_locks t). lock_later l l')))"

lemma lock_later_refl: "lock_later l l"
  by (simp add: lock_later_def)

lemma lock_later_trans: "lock_later a b \<Longrightarrow> lock_later b c \<Longrightarrow> lock_later a c"
  by (auto simp: lock_later_def)

interpretation locks: store_guarantee locks_advance
proof
  fix s t u
  show "locks_advance s s"
    by (auto simp: locks_advance_def intro: lock_later_refl)
  assume "locks_advance s t" "locks_advance t u"
  then show "locks_advance s u"
    unfolding locks_advance_def by (meson lock_later_trans order_trans)
qed

lemma locks_update_where:
  assumes "\<And>l. p l \<Longrightarrow> lock_later l (f l)"
  shows "locks_advance s (workflow_locks_update (update_where p f) s)"
proof -
  have "map wl_id (update_where p f (workflow_locks s)) = map wl_id (workflow_locks s)"
    "map (\<lambda>l. (wl_project_id l, wl_resource_key l)) (update_where p f (workflow_locks s)) =
       map (\<lambda>l. (wl_project_id l, wl_resource_key l)) (workflow_locks s)"
    using assms by (auto simp: lock_later_def intro!: map_update_where)
  moreover have "\<exists>l' \<in> set (update_where p f (workflow_locks s)). lock_later l l'"
    if "l \<in> set (workflow_locks s)" for l
    using that assms [of l] lock_later_refl [of l]
    by (cases "p l") (auto simp: set_update_where)
  ultimately show ?thesis
    by (simp add: locks_advance_def wf_locks_def)
qed

lemma locks_frame:
  assumes "workflow_locks t = workflow_locks s" "clock t = clock s"
  shows "locks_advance s t"
  using assms by (auto simp: locks_advance_def wf_locks_def intro: lock_later_refl)

lemma evolves_locks: "evolves s t \<Longrightarrow> locks_advance s t"
  by (rule locks_frame) (simp_all add: guarantee_defs)

text \<open>What a successful acquisition leaves: the resource's only row, now this holder's.\<close>

definition acquired_row :: "string \<Rightarrow> string \<Rightarrow> lock_options \<Rightarrow> acquired_lock \<Rightarrow> store \<Rightarrow> bool" where
  "acquired_row projectId resourceKey options lock t =
     (\<exists>l \<in> set (workflow_locks t). lock_for projectId resourceKey l \<and> wl_id l = al_lockId lock
        \<and> wl_fence l = al_fence lock \<and> wl_holder_id l = lo_holderId options
        \<and> wl_expires_at l = Some (clock t + lo_ttlMs options))"

definition free_for :: "string \<Rightarrow> string \<Rightarrow> string \<Rightarrow> store \<Rightarrow> bool" where
  "free_for projectId resourceKey holderId s =
     (\<forall>l \<in> set (workflow_locks s). lock_for projectId resourceKey l \<longrightarrow>
        claimable projectId resourceKey holderId (clock s) l)"

lemma lock_for_unique:
  assumes "wf_locks s" "l \<in> set (workflow_locks s)" "l' \<in> set (workflow_locks s)"
    "lock_for p k l" "lock_for p k l'"
  shows "l' = l"
  using assms by (auto simp: wf_locks_def lock_for_def intro: distinct_map_unique)


definition grant :: "string \<Rightarrow> int \<Rightarrow> int \<Rightarrow> workflow_lock_row \<Rightarrow> workflow_lock_row" where
  "grant holderId expiresAt now l =
     l\<lparr>wl_holder_id := holderId, wl_fence := wl_fence l + 1, wl_expires_at := Some expiresAt,
       wl_version := wl_version l + 1, wl_updated_at := now\<rparr>"

lemma grant_later: "lock_later l (grant h e now l)"
  by (simp add: lock_later_def grant_def)

lemma filter_lock_for_update:
  assumes "wf_locks s" "l \<in> set (workflow_locks s)" "lock_for p k l" "claimable p k h now l"
  shows "filter (lock_for p k) (update_where (claimable p k h now) (grant h e now) (workflow_locks s)) =
           [grant h e now l]"
proof -
  let ?rows = "workflow_locks s"
  have "map (\<lambda>l. (wl_project_id l, wl_resource_key l)) (update_where (claimable p k h now) (grant h e now) ?rows)
      = map (\<lambda>l. (wl_project_id l, wl_resource_key l)) ?rows"
    by (intro map_update_where) (simp add: grant_def)
  with assms(1) have d: "distinct (map (\<lambda>l. (wl_project_id l, wl_resource_key l))
      (update_where (claimable p k h now) (grant h e now) ?rows))"
    by (simp add: wf_locks_def)
  have "grant h e now l \<in> set (update_where (claimable p k h now) (grant h e now) ?rows)"
    using assms by (auto simp: set_update_where)
  then obtain xs ys where split: "update_where (claimable p k h now) (grant h e now) ?rows =
      xs @ grant h e now l # ys"
    by (meson split_list)
  have g: "lock_for p k (grant h e now l)" using assms(3) by (simp add: lock_for_def grant_def)
  have "\<not> lock_for p k x" if "x \<in> set xs \<union> set ys" for x
    using d that g unfolding split by (auto simp: lock_for_def image_iff)
  then have "filter (lock_for p k) xs = []" "filter (lock_for p k) ys = []"
    by (auto simp: filter_empty_conv)
  with g show ?thesis by (simp add: split)
qed

definition new_lock :: "string \<Rightarrow> string \<Rightarrow> string \<Rightarrow> string \<Rightarrow> int \<Rightarrow> int \<Rightarrow> workflow_lock_row" where
  "new_lock i p k h e now =
     \<lparr>wl_id = i, wl_project_id = p, wl_resource_key = k, wl_holder_id = h, wl_fence = 1,
      wl_expires_at = Some e, wl_version = 1, wl_updated_at = now\<rparr>"

lemma acquire_body_unfold:
  "acquire_body p k opts i s =
     (let now = clock s; h = lo_holderId opts; e = now + lo_ttlMs opts;
          s1 = workflow_locks_update (update_where (claimable p k h now) (grant h e now)) s;
          read = (\<lambda>t. case first_row (filter (lock_for p k) (workflow_locks t)) of
             None \<Rightarrow> Inl (OtherError (''Lock row missing after acquire for '' @ p @ ''/'' @ k))
           | Some l \<Rightarrow> Inr (\<lparr>al_lockId = wl_id l, al_resourceKey = k, al_fence = wl_fence l,
                           al_expiresAt = wl_expires_at l, al_holderId = h\<rparr>, t)) in
      if count_where (claimable p k h now) (workflow_locks s) = 0
      then
        (case insertOnConflictT ''workflow_locks'' workflow_locks workflow_locks_update wl_id
                (\<lambda>l. (wl_project_id l, wl_resource_key l)) (new_lock i p k h e now) s1 of
           Inl err \<Rightarrow> Inl err
         | Inr (n, s2) \<Rightarrow> if n = 0 then Inl (LockConflictError k h) else read s2)
      else read s1)"
  by (simp add: acquire_body_def bindT_def queryT_def executeAffectedT_def returnT_def throwT_def
      Let_def grant_def [abs_def] new_lock_def split: option.split sum.split)

lemma count_where_zero_update: "count_where p rows = 0 \<Longrightarrow> update_where p f rows = rows"
  by (auto intro: update_where_none)

text \<open>The two ways to get a lock: take over the resource's row, or create it.\<close>

lemma acquire_body_cases:
  assumes "acquire_body p k opts i s = Inr (lock, t)" "wf_locks s"
  obtains (takeover) l where "l \<in> set (workflow_locks s)" "lock_for p k l"
      "claimable p k (lo_holderId opts) (clock s) l"
      "t = workflow_locks_update (update_where (claimable p k (lo_holderId opts) (clock s))
             (grant (lo_holderId opts) (clock s + lo_ttlMs opts) (clock s))) s"
      "lock = \<lparr>al_lockId = wl_id l, al_resourceKey = k, al_fence = wl_fence l + 1,
               al_expiresAt = Some (clock s + lo_ttlMs opts), al_holderId = lo_holderId opts\<rparr>"
  | (create) "\<forall>l \<in> set (workflow_locks s). \<not> lock_for p k l" "i \<notin> set (map wl_id (workflow_locks s))"
      "t = workflow_locks_update (\<lambda>rows. rows @
             [new_lock i p k (lo_holderId opts) (clock s + lo_ttlMs opts) (clock s)]) s"
      "lock = \<lparr>al_lockId = i, al_resourceKey = k, al_fence = 1,
               al_expiresAt = Some (clock s + lo_ttlMs opts), al_holderId = lo_holderId opts\<rparr>"
proof (cases "count_where (claimable p k (lo_holderId opts) (clock s)) (workflow_locks s) = 0")
  case True
  have id: "workflow_locks_update (update_where (claimable p k (lo_holderId opts) (clock s))
      (grant (lo_holderId opts) (clock s + lo_ttlMs opts) (clock s))) s = s"
    using count_where_zero_update [OF True] by simp
  let ?n = "new_lock i p k (lo_holderId opts) (clock s + lo_ttlMs opts) (clock s)"
  have none: "(p, k) \<notin> (\<lambda>l. (wl_project_id l, wl_resource_key l)) ` set (workflow_locks s)"
    "i \<notin> set (map wl_id (workflow_locks s))"
    using assms(1) True
    by (auto simp: acquire_body_unfold Let_def id insertOnConflictT_def new_lock_def split: if_splits)
  then have "filter (lock_for p k) (workflow_locks s) = []"
    by (auto simp: filter_empty_conv lock_for_def)
  then have "t = workflow_locks_update (\<lambda>rows. rows @ [?n]) s \<and>
      lock = \<lparr>al_lockId = i, al_resourceKey = k, al_fence = 1,
              al_expiresAt = Some (clock s + lo_ttlMs opts), al_holderId = lo_holderId opts\<rparr>"
    using assms(1) True none
    by (auto simp: acquire_body_unfold Let_def id insertOnConflictT_def new_lock_def lock_for_def)
  with none show thesis
    by (intro create) (auto simp: lock_for_def)
next
  case False
  then obtain l where l: "l \<in> set (workflow_locks s)" "claimable p k (lo_holderId opts) (clock s) l"
    by auto
  then have lf: "lock_for p k l" by (simp add: claimable_def)
  note read = filter_lock_for_update [OF assms(2) l(1) lf l(2), of "clock s + lo_ttlMs opts"]
  note eq = assms(1) [unfolded acquire_body_unfold Let_def if_not_P [OF False]]
  have g: "wl_id (grant h e n l) = wl_id l" "wl_fence (grant h e n l) = wl_fence l + 1"
    "wl_expires_at (grant h e n l) = Some e" for h e n
    by (simp_all add: grant_def)
  show thesis
    by (rule takeover [OF l(1) lf l(2)]) (use eq in \<open>simp_all add: read g\<close>)
qed

lemma acquire_body_advances: "locks.keeps (acquire_body p k opts i)"
proof (rule locks.keepsI)
  fix s
  have "locks_advance s t" if ok: "acquire_body p k opts i s = Inr (lock, t)" for lock t
  proof (cases "wf_locks s")
    case True
    show ?thesis
      using ok True
    proof (cases rule: acquire_body_cases)
      case takeover
      show ?thesis unfolding takeover(4) by (rule locks_update_where) (rule grant_later)
    next
      case create
      then show ?thesis
        using True by (auto simp: locks_advance_def wf_locks_def lock_for_def new_lock_def
            intro: lock_later_refl)
    qed
  next
    case False
    have "clock t = clock s"
      using ok by (auto simp: acquire_body_unfold Let_def insertOnConflictT_def
          split: if_splits option.splits)
    with False show ?thesis by (simp add: locks_advance_def)
  qed
  then show "wp (acquire_body p k opts i) (\<lambda>_ t. locks_advance s t) (\<lambda>_. True) s"
    by (auto simp: wp_def split: sum.splits)
qed

lemma lock_generateId_eq:
  "transaction lock_generateId s =
     (Inr (''lock-'' @ claim_id s), s\<lparr>draws := draws s + 1\<rparr>)"
  by (simp add: transaction_def lock_generateId_def bindT_def generateId_def returnT_def claim_id_def)

lemma acquire_advances: "locks.keepsA (acquire p k opts)"
  unfolding acquire_def
  by (intro locks.keepsA_bindA locks.keeps_transaction acquire_body_advances)
    (auto simp: lock_generateId_def wp_simps intro!: locks.keepsI locks_frame)

lemma release_advances: "locks.keepsA (release lock)"
  unfolding release_def
  by (intro locks.keeps_transaction locks.keepsI)
    (auto simp: wp_simps lock_later_def intro!: locks_update_where)

lemma heartbeat_advances: "locks.keepsA (heartbeat lock ttl)"
  unfolding heartbeat_def
  by (intro locks.keeps_transaction locks.keepsI)
    (auto simp: wp_simps lock_later_def intro!: locks_update_where)

lemma sweep_locks: "locks.keepsA sweep"
  unfolding sweep_def
  by (intro locks.keeps_transaction locks.keepsI) (auto simp: wp_simps intro!: locks_frame)

lemma sweep_slots_kept: "slots.keepsA sweep"
  unfolding sweep_def
proof (intro slots.keeps_transaction slots.keepsI)
  fix s
  show "wp (bindT (queryT clock) (\<lambda>now.
      executeAffectedT (\<lambda>s. count_where (\<lambda>r. ik_expires_at r \<le> now) (idempotency_keys s))
        (idempotency_keys_update (delete_where (\<lambda>r. ik_expires_at r \<le> now)))))
      (\<lambda>_ t. slots_kept s t) (\<lambda>_. True) s"
    by (auto simp: wp_simps slots_kept_def wf_slots_def intro: distinct_map_delete_where)
qed

end
