(* ===== verification/PlanningStore.thy ===== *)
theory PlanningStore
  imports Execution
begin

text \<open>
  What the handlers of \<open>commands/handlers/clarification\<close>, \<open>planning\<close> and \<open>plan\<close> share: the
  statements on the tables of the planning phase, the validator call for any of the matrices, and
  the guarantee they keep. Those commands also create runs, so their guarantee \<open>plan_evolves\<close> lets
  the table of runs grow by fresh rows where \<open>evolves\<close> fixes its length.
\<close>

section \<open>Statements on the planning tables\<close>

definition insertP ::
    "string \<Rightarrow> (planning_tables \<Rightarrow> 'r list) \<Rightarrow> (('r list \<Rightarrow> 'r list) \<Rightarrow> planning_tables \<Rightarrow> planning_tables)
      \<Rightarrow> ('r \<Rightarrow> string) \<Rightarrow> 'r \<Rightarrow> unit tx" where
  "insertP table get upd key row =
     insertT table (\<lambda>s. get (planning s)) (\<lambda>f. planning_update (upd f)) key row"

definition updateP ::
    "(planning_tables \<Rightarrow> 'r list) \<Rightarrow> (('r list \<Rightarrow> 'r list) \<Rightarrow> planning_tables \<Rightarrow> planning_tables)
      \<Rightarrow> ('r \<Rightarrow> bool) \<Rightarrow> ('r \<Rightarrow> 'r) \<Rightarrow> int tx" where
  "updateP get upd p f =
     executeAffectedT (\<lambda>s. count_where p (get (planning s))) (planning_update (upd (update_where p f)))"

text \<open>An INSERT into a table with a second key, declared UNIQUE.\<close>

definition insertUniqueT ::
    "string \<Rightarrow> (store \<Rightarrow> 'r list) \<Rightarrow> (('r list \<Rightarrow> 'r list) \<Rightarrow> store \<Rightarrow> store)
      \<Rightarrow> ('r \<Rightarrow> string) \<Rightarrow> ('r \<Rightarrow> 'u) \<Rightarrow> 'r \<Rightarrow> unit tx" where
  "insertUniqueT table get upd key uniq row =
     (\<lambda>s. if uniq row \<in> set (map uniq (get s)) then Inl (ConstraintViolation table)
          else insertT table get upd key row s)"

lemma wp_insertP [wp_simps]:
  "wp (insertP table get upd key row) Q E s =
     (if key row \<in> set (map key (get (planning s))) then E (ConstraintViolation table)
      else Q () (planning_update (upd (\<lambda>rows. rows @ [row])) s))"
  by (simp add: insertP_def wp_simps)

lemma wp_updateP [wp_simps]:
  "wp (updateP get upd p f) Q E s =
     Q (count_where p (get (planning s))) (planning_update (upd (update_where p f)) s)"
  by (simp add: updateP_def wp_simps)

lemma wp_insertUniqueT [wp_simps]:
  "wp (insertUniqueT table get upd key uniq row) Q E s =
     (if uniq row \<in> set (map uniq (get s)) \<or> key row \<in> set (map key (get s)) then E (ConstraintViolation table)
      else Q () (upd (\<lambda>rows. rows @ [row]) s))"
  by (auto simp: insertUniqueT_def wp_def insertT_def)

text \<open>\<open>validator.assertValid(from, to)\<close>.\<close>

definition assertValidT ::
    "'s transition_row list \<Rightarrow> ('s \<Rightarrow> string) \<Rightarrow> string \<Rightarrow> 's \<Rightarrow> 's \<Rightarrow> unit tx" where
  "assertValidT matrix str machine from_s to_s =
     (case assertValid matrix str machine from_s to_s of
        Inl (a, b, m) \<Rightarrow> throwT (TransitionError a b m)
      | Inr _ \<Rightarrow> returnT ())"

lemma assertValidT_eq:
  "assertValidT matrix str machine a b =
     (if isValid matrix a b then returnT () else throwT (TransitionError (str a) (str b) machine))"
  by (auto simp: assertValidT_def assertValid_def isValid_def split: option.splits)

lemma wp_assertValidT [wp_simps]:
  "wp (assertValidT matrix str machine a b) Q E s =
     (if isValid matrix a b then Q () s else E (TransitionError (str a) (str b) machine))"
  by (simp add: assertValidT_eq wp_simps)

text \<open>The validator of the clarification machine, which the assessment uses too.\<close>

definition cl_assertValid :: "ClarificationStatus \<Rightarrow> ClarificationStatus \<Rightarrow> unit tx" where
  "cl_assertValid = assertValidT CLARIFICATION_MATRIX clarification_str ''clarification''"

text \<open>The error of a row that is not there; its detail is the handler's own.\<close>

definition not_found :: "'p envelope \<Rightarrow> string \<Rightarrow> string \<Rightarrow> error" where
  "not_found envelope title detail =
     commandError ''not-found'' title 404 detail (Some (correlationId envelope))"

text \<open>\<open>for (let i = 0; i < xs.length; i++)\<close>.\<close>

fun forIndexT :: "int \<Rightarrow> (int \<Rightarrow> 'a \<Rightarrow> unit tx) \<Rightarrow> 'a list \<Rightarrow> unit tx" where
  "forIndexT i f [] = returnT ()"
| "forIndexT i f (x # xs) = bindT (f i x) (\<lambda>_. forIndexT (i + 1) f xs)"

text \<open>The time to live of the slots of half of the commands; the others' is \<open>IDEMPOTENCY_TTL_MS\<close>.\<close>

definition DAY_TTL_MS :: int where
  "DAY_TTL_MS = 24 * 60 * 60 * 1000"

section \<open>The implementation plan\<close>

definition find_plan :: "string \<Rightarrow> string \<Rightarrow> store \<Rightarrow> plan_row option" where
  "find_plan planId projectId s =
     first_row (filter (\<lambda>p. pl_id p = planId \<and> pl_project_id p = projectId) (implementation_plans (planning s)))"

text \<open>
  \<open>UPDATE implementation_plans SET state = ?, version = ?, updated_at = ? WHERE id = ? AND version
  = ?\<close>.
\<close>

definition cas_plan :: "string \<Rightarrow> int \<Rightarrow> PlanState \<Rightarrow> int \<Rightarrow> int \<Rightarrow> int tx" where
  "cas_plan planId expectedVersion to_s newVersion now =
     updateP implementation_plans implementation_plans_update
       (\<lambda>p. pl_id p = planId \<and> pl_version p = expectedVersion)
       (\<lambda>p. p\<lparr>pl_state := to_s, pl_version := newVersion, pl_updated_at := now\<rparr>)"

text \<open>
  \<open>UPDATE implementation_plans SET backlog_version = backlog_version + 1, backlog_validated_... =
  NULL, updated_at = ? WHERE id = ?\<close>.
\<close>

definition invalidate_backlog :: "string \<Rightarrow> int \<Rightarrow> int tx" where
  "invalidate_backlog planId now =
     updateP implementation_plans implementation_plans_update (\<lambda>p. pl_id p = planId)
       (\<lambda>p. p\<lparr>pl_backlog_version := pl_backlog_version p + 1, pl_backlog_validated_at := None,
              pl_backlog_validated_state := None, pl_backlog_validated_version := None,
              pl_updated_at := now\<rparr>)"

text \<open>\<open>SELECT id FROM planning_gaps WHERE assessment_id = ? AND severity = 'blocking' AND resolved_at IS NULL\<close>.\<close>

definition unresolved_blocking_gaps :: "string \<Rightarrow> store \<Rightarrow> string list" where
  "unresolved_blocking_gaps assessmentId s =
     map pg_id (filter (\<lambda>g. pg_assessment_id g = assessmentId \<and> pg_severity g = GAP_BLOCKING
                          \<and> pg_resolved_at g = None) (planning_gaps (planning s)))"

section \<open>The guarantee of a planning command\<close>

text \<open>
  What a planning command may do to the runs: append first attempts under fresh identifiers.
\<close>

definition first_attempt :: "feature_run_row \<Rightarrow> bool" where
  "first_attempt r =
     (run_attempt_no r = 1 \<and> run_state r = FE_APPROVED_PENDING_EXECUTION \<and> run_fix_attempt_count r = 0
      \<and> run_version r = 1)"

text \<open>A new project's workflow state: idle and running.\<close>

definition fresh_workflow :: "workflow_state_row \<Rightarrow> bool" where
  "fresh_workflow w =
     (ws_active_feature_run_id w = None \<and> ws_automation_state w = AU_RUNNING \<and> ws_version w = 1)"

definition rows_begin :: "('r \<Rightarrow> string) \<Rightarrow> ('r \<Rightarrow> bool) \<Rightarrow> 'r list \<Rightarrow> 'r list \<Rightarrow> bool" where
  "rows_begin key P rs rs' =
     (\<exists>new. rs' = rs @ new \<and> list_all P new \<and> (distinct (map key rs) \<longrightarrow> distinct (map key rs')))"

lemma rows_begin_refl [simp]: "rows_begin key P rs rs"
  by (simp add: rows_begin_def)

lemma rows_begin_trans: "rows_begin key P a b \<Longrightarrow> rows_begin key P b c \<Longrightarrow> rows_begin key P a c"
  by (fastforce simp: rows_begin_def)

lemma rows_begin_append: "P r \<Longrightarrow> key r \<notin> key ` set rs \<Longrightarrow> rows_begin key P rs (rs @ [r])"
  by (auto simp: rows_begin_def)

abbreviation runs_begin :: "feature_run_row list \<Rightarrow> feature_run_row list \<Rightarrow> bool" where
  "runs_begin \<equiv> rows_begin run_id first_attempt"

abbreviation workflows_begin :: "workflow_state_row list \<Rightarrow> workflow_state_row list \<Rightarrow> bool" where
  "workflows_begin \<equiv> rows_begin ws_id fresh_workflow"

definition same_execution :: "store \<Rightarrow> store \<Rightarrow> bool" where
  "same_execution s t =
     (clock t = clock s \<and> entropy t = entropy s \<and> env_vars t = env_vars s
      \<and> workflow_locks t = workflow_locks s
      \<and> inbox_events t = inbox_events s \<and> repositories t = repositories s
      \<and> pull_requests t = pull_requests s \<and> budget_policies t = budget_policies s
      \<and> cost_records t = cost_records s \<and> review_findings t = review_findings s
      \<and> review_occurrence_markers t = review_occurrence_markers s
      \<and> disagreement_records t = disagreement_records s \<and> agents t = agents s)"

definition plan_evolves :: "store \<Rightarrow> store \<Rightarrow> bool" where
  "plan_evolves s t =
     (same_execution s t \<and> logs_grow s t \<and> runs_begin (feature_runs s) (feature_runs t)
      \<and> workflows_begin (workflow_states s) (workflow_states t))"

definition plan_body_evolves :: "store \<Rightarrow> store \<Rightarrow> bool" where
  "plan_body_evolves s t = (plan_evolves s t \<and> idempotency_keys t = idempotency_keys s)"

lemmas plan_guarantee_defs =
  plan_body_evolves_def plan_evolves_def same_execution_def logs_grow_def

lemma plan_evolves_refl: "plan_evolves s s"
  by (simp add: plan_guarantee_defs)

lemma plan_evolves_trans: "plan_evolves s t \<Longrightarrow> plan_evolves t u \<Longrightarrow> plan_evolves s u"
  unfolding plan_evolves_def same_execution_def logs_grow_def
  by (auto intro: rows_begin_trans prefix_order.trans outbox_grows_trans)

interpretation plan: claim_guarantee plan_evolves
proof
  show "plan_evolves s s" for s by (rule plan_evolves_refl)
  show "plan_evolves s u" if "plan_evolves s t" "plan_evolves t u" for s t u
    using that by (rule plan_evolves_trans)
  show "plan_evolves s (idempotency_keys_update f s)" "plan_evolves s (s\<lparr>draws := d\<rparr>)" for s f d
    by (simp_all add: plan_guarantee_defs)
qed

interpretation planb: store_guarantee plan_body_evolves
  by unfold_locales (auto simp: plan_body_evolves_def intro: plan_evolves_refl plan_evolves_trans)

lemma plan_keeps_body: "planb.keeps m \<Longrightarrow> plan.keeps m"
  unfolding planb.keeps_def plan.keeps_def by (auto simp: plan_body_evolves_def intro: wp_mono)

lemma frame_keeps_plan: "planb.keeps m \<Longrightarrow> frame.keeps m"
  unfolding planb.keeps_def frame.keeps_def
  by (auto simp: plan_guarantee_defs slot_frame_def intro: wp_mono)

text \<open>Statements on the tables of the planning phase, whichever they are.\<close>

lemma planb_planning: "plan_body_evolves s (planning_update f s)"
  by (simp add: plan_guarantee_defs)

lemma planb_insertP: "planb.keeps (insertP table get upd key row)"
  by (rule planb.keepsI) (simp add: wp_simps planb_planning)

lemma planb_updateP: "planb.keeps (updateP get upd p f)"
  by (rule planb.keepsI) (simp add: wp_simps planb_planning)

lemma planb_insertUnique:
  assumes "\<And>s. plan_body_evolves s (upd (\<lambda>rows. rows @ [row]) s)"
  shows "planb.keeps (insertUniqueT table get upd key uniq row)"
  by (rule planb.keepsI) (simp add: wp_simps assms)

lemma planb_insertT:
  assumes "\<And>s. key row \<notin> key ` set (get s) \<Longrightarrow> plan_body_evolves s (upd (\<lambda>rows. rows @ [row]) s)"
  shows "planb.keeps (insertT table get upd key row)"
  by (rule planb.keepsI) (simp add: wp_simps assms)

lemma planb_generateId: "planb.keeps generateId"
  by (rule planb.keepsI) (simp add: wp_simps plan_guarantee_defs)

lemma planb_assertValid: "planb.keeps (assertValidT matrix str machine a b)"
  by (auto simp: assertValidT_eq)

lemma planb_assertVersion: "planb.keeps (assertVersion table i v row expected)"
  unfolding assertVersion_def by (intro planb.keeps_option planb.keeps_if planb.keeps_throwT planb.keeps_returnT)

lemma planb_Let: "(\<And>x. planb.keeps (m x)) \<Longrightarrow> planb.keeps (Let a m)"
  by simp

lemma planb_forIndexT: "(\<And>i x. planb.keeps (f i x)) \<Longrightarrow> planb.keeps (forIndexT i f xs)"
  by (induction xs arbitrary: i) auto

lemma planb_human_approval_row: "planb.keeps (insertT n human_approvals human_approvals_update ha_id row)"
  by (rule planb_insertT) (simp add: plan_guarantee_defs)

lemma planb_workflow_event: "planb.keeps (writeWorkflowEvent a b c d e f g)"
  unfolding writeWorkflowEvent_def
  by (intro planb.keeps_bindT planb.keeps_queryT planb_generateId planb.keeps_returnT planb_insertT)
    (simp_all add: plan_guarantee_defs)

lemma planb_outbox_event: "planb.keeps (writeOutboxEvent a b)"
  by (rule planb.keepsI)
    (auto simp: writeOutboxEvent_def wp_simps plan_guarantee_defs fresh_event_def Let_def
      no_leaks_after_redaction intro!: outbox_grows_append)

lemma planb_human_approval: "planb.keeps (insertHumanApproval a b c d e f g h)"
  unfolding insertHumanApproval_def
  by (intro planb.keeps_bindT planb.keeps_queryT planb_generateId planb.keeps_returnT planb_human_approval_row)

lemma planb_cas_plan: "planb.keeps (cas_plan a b c d e)"
  by (simp add: cas_plan_def planb_updateP)

lemma planb_invalidate: "planb.keeps (invalidate_backlog a b)"
  by (simp add: invalidate_backlog_def planb_updateP)

lemmas plan_rules =
  planb.keeps_bindT planb.keeps_queryT planb.keeps_option planb.keeps_if planb.keeps_throwT planb.keeps_returnT
  planb.keeps_forEachT planb_Let planb_generateId planb_insertP planb_updateP planb_assertValid
  planb_assertVersion planb_forIndexT planb_human_approval_row planb_workflow_event planb_outbox_event
  planb_human_approval planb_cas_plan planb_invalidate

lemma planned_transaction:
  assumes "\<And>e. planb.keeps (body e)"
  shows "plan.keepsA (claimed_transaction_ttl ttl scope body e)"
    "slots.keepsA (claimed_transaction_ttl ttl scope body e)"
proof -
  show "plan.keepsA (claimed_transaction_ttl ttl scope body e)"
    unfolding claimed_transaction_ttl_def
    by (intro plan.keeps_transaction plan.keeps_with_claim plan_keeps_body assms)
  show "slots.keepsA (claimed_transaction_ttl ttl scope body e)"
    by (intro claimed_transaction_slots frame_keeps_plan assms)
qed

end
