(* ===== verification/Clarification.thy ===== *)
theory Clarification
  imports PlanningStore
begin

text \<open>
  The clarification workflow, \<open>packages/core/src/commands/handlers/clarification\<close>: rounds of
  questions about a specification, with a circuit breaker.
\<close>

section \<open>Statements\<close>

definition find_session :: "string \<Rightarrow> string \<Rightarrow> store \<Rightarrow> clarification_session_row option" where
  "find_session sessionId projectId s =
     first_row (filter (\<lambda>c. cs_id c = sessionId \<and> cs_project_id c = projectId)
                  (clarification_sessions (planning s)))"

definition session_not_found :: "'p envelope \<Rightarrow> string \<Rightarrow> string \<Rightarrow> error" where
  "session_not_found envelope sessionId projectId =
     not_found envelope ''Clarification session not found''
       (''Clarification session '' @ sessionId @ '' not found in project '' @ projectId)"

text \<open>\<open>UPDATE clarification_sessions SET status = ?, version = ?, updated_at = ? WHERE id = ? AND version = ?\<close>.\<close>

definition cas_session ::
    "string \<Rightarrow> int \<Rightarrow> (clarification_session_row \<Rightarrow> clarification_session_row) \<Rightarrow> int tx" where
  "cas_session sessionId expectedVersion f =
     updateP clarification_sessions clarification_sessions_update
       (\<lambda>c. cs_id c = sessionId \<and> cs_version c = expectedVersion) f"

text \<open>The questions of a round that no answer row refers to.\<close>

definition unanswered_questions :: "string \<Rightarrow> int \<Rightarrow> store \<Rightarrow> clarification_question_row list" where
  "unanswered_questions sessionId rnd s =
     filter (\<lambda>q. cq_session_id q = sessionId \<and> cq_round q = rnd
               \<and> \<not> list_ex (\<lambda>a. ca_question_id a = cq_id q) (clarification_answers (planning s)))
       (clarification_questions (planning s))"

definition unanswered_error :: "'p envelope \<Rightarrow> nat \<Rightarrow> int \<Rightarrow> error" where
  "unanswered_error envelope n rnd =
     commandError ''unanswered-questions'' ''Clarification round has unanswered questions'' 409
       (show_int (int n) @ '' question(s) in round '' @ show_int rnd @ '' still unanswered'')
       (Some (correlationId envelope))"

definition round_limit_error :: "'p envelope \<Rightarrow> clarification_session_row \<Rightarrow> string \<Rightarrow> error" where
  "round_limit_error envelope session sessionId =
     commandError ''clarification-round-limit'' ''Clarification round limit reached'' 409
       (''Session '' @ sessionId @ '' has already used '' @ show_int (cs_round session) @ ''/''
          @ show_int (cs_max_rounds session) @ '' rounds'')
       (Some (correlationId envelope))"

definition insert_decision ::
    "string \<Rightarrow> string \<Rightarrow> actor_identity \<Rightarrow> string option \<Rightarrow> int \<Rightarrow> unit tx" where
  "insert_decision sessionId decisionType act notes now =
     bindT generateId (\<lambda>i.
     insertP ''clarification_decisions'' clarification_decisions clarification_decisions_update cd_id
       \<lparr>cd_id = i, cd_session_id = sessionId, cd_decision_type = decisionType, cd_actor = actor_id act,
        cd_actor_role = actor_role act, cd_notes = notes, cd_decided_at = now\<rparr>)"

section \<open>Starting a round\<close>

record session_payload =
  sp_clarificationSessionId :: string
  sp_projectId :: string
  sp_expectedVersion :: int

definition MAX_QUESTIONS :: nat where
  "MAX_QUESTIONS = 7"

text \<open>
  The project's planning questions without an answer, by round and identifier, at most
  \<open>MAX_QUESTIONS\<close>.
\<close>

definition open_questions :: "string \<Rightarrow> store \<Rightarrow> planning_question_row list" where
  "open_questions projectId s =
     take MAX_QUESTIONS
       (order_by (\<lambda>a b. pq_round a < pq_round b \<or> (pq_round a = pq_round b \<and> pq_id a < pq_id b))
         (filter (\<lambda>q. pq_answer q = None
                    \<and> list_ex (\<lambda>a. as_id a = pq_assessment_id q \<and> as_project_id a = projectId)
                        (planning_readiness_assessments (planning s)))
            (planning_questions (planning s))))"

definition ask_question :: "string \<Rightarrow> int \<Rightarrow> int \<Rightarrow> int \<Rightarrow> planning_question_row \<Rightarrow> unit tx" where
  "ask_question sessionId newRound now i q =
     bindT generateId (\<lambda>qid.
     insertP ''clarification_questions'' clarification_questions clarification_questions_update cq_id
       \<lparr>cq_id = qid, cq_session_id = sessionId, cq_question = pq_question q, cq_round = newRound,
        cq_order_index = i, cq_asked_at = Some now, cq_answered_at = None, cq_version = 1,
        cq_updated_at = now\<rparr>)"

definition StartClarification_body :: "session_payload envelope \<Rightarrow> command_result tx" where
  "StartClarification_body envelope =
     (let sessionId = sp_clarificationSessionId (payload envelope);
          projectId = sp_projectId (payload envelope);
          expectedVersion = sp_expectedVersion (payload envelope) in
      bindT (queryT (find_session sessionId projectId)) (\<lambda>found.
      case found of
        None \<Rightarrow> throwT (session_not_found envelope sessionId projectId)
      | Some _ \<Rightarrow>
      bindT (assertVersion ''clarification_sessions'' sessionId cs_version found expectedVersion) (\<lambda>session.
      bindT (cl_assertValid (cs_status session) CL_IN_PROGRESS) (\<lambda>_.
      if cs_round session \<ge> cs_max_rounds session
      then throwT (round_limit_error envelope session sessionId)
      else
      (let newRound = cs_round session + 1; newVersion = nextVersion (cs_version session) in
      bindT (queryT clock) (\<lambda>now.
      bindT (cas_session sessionId expectedVersion
               (\<lambda>c. c\<lparr>cs_status := CL_IN_PROGRESS, cs_round := newRound, cs_version := newVersion,
                      cs_updated_at := now\<rparr>)) (\<lambda>affected.
      if affected = 0
      then throwT (OptimisticLockError ''clarification_sessions'' sessionId expectedVersion (-1))
      else
      bindT (queryT (open_questions projectId)) (\<lambda>openQuestions.
      bindT (forIndexT 0 (ask_question sessionId newRound now) openQuestions) (\<lambda>_.
      bindT (writeWorkflowEvent None (Some projectId) ''clarification.started''
               (clarification_str CL_REQUIRED) (clarification_str CL_IN_PROGRESS)
               (actor_id (env_actor envelope)) None) (\<lambda>eventId.
      bindT (writeOutboxEvent ''clarification.started''
               [(''clarificationSessionId'', JStr sessionId), (''projectId'', JStr projectId),
                (''round'', JInt newRound)]) (\<lambda>_.
      returnT (accepted_result envelope (clarification_str CL_IN_PROGRESS) [eventId]))))))))))))"

definition StartClarificationHandler :: "session_payload handler" where
  "StartClarificationHandler =
     \<lparr>commandName = ''StartClarificationCommand'', requiredRole = OPERATOR,
      requiredActorKind = Some Human, idempotencyScope = ''start-clarification'',
      handler_execute = claimed_transaction ''start-clarification'' StartClarification_body\<rparr>"

section \<open>Answers\<close>

record answer_payload =
  an_clarificationQuestionId :: string
  an_clarificationSessionId :: string
  an_projectId :: string
  an_answer :: string
  an_expectedQuestionVersion :: int

definition find_question :: "string \<Rightarrow> string \<Rightarrow> store \<Rightarrow> clarification_question_row option" where
  "find_question questionId sessionId s =
     first_row (filter (\<lambda>q. cq_id q = questionId \<and> cq_session_id q = sessionId)
                  (clarification_questions (planning s)))"

definition RecordClarificationAnswer_body :: "answer_payload envelope \<Rightarrow> command_result tx" where
  "RecordClarificationAnswer_body envelope =
     (let questionId = an_clarificationQuestionId (payload envelope);
          sessionId = an_clarificationSessionId (payload envelope);
          projectId = an_projectId (payload envelope);
          expectedVersion = an_expectedQuestionVersion (payload envelope) in
      bindT (queryT (find_session sessionId projectId)) (\<lambda>foundSession.
      case foundSession of
        None \<Rightarrow> throwT (session_not_found envelope sessionId projectId)
      | Some session \<Rightarrow>
      bindT (queryT (find_question questionId sessionId)) (\<lambda>found.
      case found of
        None \<Rightarrow> throwT (not_found envelope ''Clarification question not found''
                  (''Clarification question '' @ questionId @ '' not found in session '' @ sessionId))
      | Some _ \<Rightarrow>
      bindT (assertVersion ''clarification_questions'' questionId cq_version found expectedVersion) (\<lambda>question.
      if cq_answered_at question \<noteq> None
      then throwT (commandError ''already-answered'' ''Clarification question already answered'' 409
             (''Clarification question '' @ questionId @ '' already has an answer'')
             (Some (correlationId envelope)))
      else
      bindT (queryT clock) (\<lambda>now.
      bindT (updateP clarification_questions clarification_questions_update
               (\<lambda>q. cq_id q = questionId \<and> cq_version q = expectedVersion)
               (\<lambda>q. q\<lparr>cq_answered_at := Some now, cq_version := nextVersion (cq_version question),
                      cq_updated_at := now\<rparr>)) (\<lambda>affected.
      if affected = 0
      then throwT (OptimisticLockError ''clarification_questions'' questionId expectedVersion (-1))
      else
      bindT generateId (\<lambda>i.
      bindT (insertUniqueT ''clarification_answers'' (\<lambda>s. clarification_answers (planning s))
               (\<lambda>f. planning_update (clarification_answers_update f)) ca_id ca_question_id
               \<lparr>ca_id = i, ca_question_id = questionId, ca_answer = an_answer (payload envelope),
                ca_actor = actor_id (env_actor envelope), ca_actor_role = actor_role (env_actor envelope),
                ca_answered_at = now\<rparr>) (\<lambda>_.
      bindT (writeWorkflowEvent None (Some projectId) ''clarification.answered''
               (clarification_str (cs_status session)) (clarification_str (cs_status session))
               (actor_id (env_actor envelope)) None) (\<lambda>eventId.
      bindT (writeOutboxEvent ''clarification.answered''
               [(''clarificationQuestionId'', JStr questionId), (''clarificationSessionId'', JStr sessionId),
                (''projectId'', JStr projectId)]) (\<lambda>_.
      returnT (accepted_result envelope (clarification_str (cs_status session)) [eventId])))))))))))"

definition RecordClarificationAnswerHandler :: "answer_payload handler" where
  "RecordClarificationAnswerHandler =
     \<lparr>commandName = ''RecordClarificationAnswerCommand'', requiredRole = OPERATOR,
      requiredActorKind = Some Human, idempotencyScope = ''record-clarification-answer'',
      handler_execute = claimed_transaction ''record-clarification-answer'' RecordClarificationAnswer_body\<rparr>"

section \<open>Ending a round\<close>

definition CompleteClarification_body :: "session_payload envelope \<Rightarrow> command_result tx" where
  "CompleteClarification_body envelope =
     (let sessionId = sp_clarificationSessionId (payload envelope);
          projectId = sp_projectId (payload envelope);
          expectedVersion = sp_expectedVersion (payload envelope) in
      bindT (queryT (find_session sessionId projectId)) (\<lambda>found.
      case found of
        None \<Rightarrow> throwT (session_not_found envelope sessionId projectId)
      | Some _ \<Rightarrow>
      bindT (assertVersion ''clarification_sessions'' sessionId cs_version found expectedVersion) (\<lambda>session.
      bindT (cl_assertValid (cs_status session) CL_COMPLETE) (\<lambda>_.
      bindT (queryT (unanswered_questions sessionId (cs_round session))) (\<lambda>unanswered.
      if unanswered \<noteq> []
      then throwT (unanswered_error envelope (length unanswered) (cs_round session))
      else
      bindT (queryT clock) (\<lambda>now.
      bindT (cas_session sessionId expectedVersion
               (\<lambda>c. c\<lparr>cs_status := CL_COMPLETE, cs_version := nextVersion (cs_version session),
                      cs_updated_at := now\<rparr>)) (\<lambda>affected.
      if affected = 0
      then throwT (OptimisticLockError ''clarification_sessions'' sessionId expectedVersion (-1))
      else
      bindT (insert_decision sessionId ''proceed'' (env_actor envelope) None now) (\<lambda>_.
      bindT (writeWorkflowEvent None (Some projectId) ''clarification.complete''
               (clarification_str CL_IN_PROGRESS) (clarification_str CL_COMPLETE)
               (actor_id (env_actor envelope)) None) (\<lambda>eventId.
      bindT (writeOutboxEvent ''clarification.complete''
               [(''clarificationSessionId'', JStr sessionId), (''projectId'', JStr projectId)]) (\<lambda>_.
      returnT (accepted_result envelope (clarification_str CL_COMPLETE) [eventId])))))))))))"

definition CompleteClarificationHandler :: "session_payload handler" where
  "CompleteClarificationHandler =
     \<lparr>commandName = ''CompleteClarificationCommand'', requiredRole = OPERATOR,
      requiredActorKind = Some Human, idempotencyScope = ''complete-clarification'',
      handler_execute = claimed_transaction ''complete-clarification'' CompleteClarification_body\<rparr>"

definition RequestAnotherRound_body :: "session_payload envelope \<Rightarrow> command_result tx" where
  "RequestAnotherRound_body envelope =
     (let sessionId = sp_clarificationSessionId (payload envelope);
          projectId = sp_projectId (payload envelope);
          expectedVersion = sp_expectedVersion (payload envelope) in
      bindT (queryT (find_session sessionId projectId)) (\<lambda>found.
      case found of
        None \<Rightarrow> throwT (session_not_found envelope sessionId projectId)
      | Some _ \<Rightarrow>
      bindT (assertVersion ''clarification_sessions'' sessionId cs_version found expectedVersion) (\<lambda>session.
      bindT (cl_assertValid (cs_status session) CL_REQUIRED) (\<lambda>_.
      if cs_round session \<ge> cs_max_rounds session
      then throwT (round_limit_error envelope session sessionId)
      else
      bindT (queryT (unanswered_questions sessionId (cs_round session))) (\<lambda>unanswered.
      if unanswered \<noteq> []
      then throwT (unanswered_error envelope (length unanswered) (cs_round session))
      else
      bindT (queryT clock) (\<lambda>now.
      bindT (cas_session sessionId expectedVersion
               (\<lambda>c. c\<lparr>cs_status := CL_REQUIRED, cs_version := nextVersion (cs_version session),
                      cs_updated_at := now\<rparr>)) (\<lambda>affected.
      if affected = 0
      then throwT (OptimisticLockError ''clarification_sessions'' sessionId expectedVersion (-1))
      else
      bindT (writeWorkflowEvent None (Some projectId) ''clarification.round_completed''
               (clarification_str CL_IN_PROGRESS) (clarification_str CL_REQUIRED)
               (actor_id (env_actor envelope)) None) (\<lambda>eventId.
      bindT (writeOutboxEvent ''clarification.round_completed''
               [(''clarificationSessionId'', JStr sessionId), (''projectId'', JStr projectId),
                (''round'', JInt (cs_round session))]) (\<lambda>_.
      returnT (accepted_result envelope (clarification_str CL_REQUIRED) [eventId]))))))))))"

definition RequestAnotherRoundHandler :: "session_payload handler" where
  "RequestAnotherRoundHandler =
     \<lparr>commandName = ''RequestAnotherClarificationRoundCommand'', requiredRole = ADMIN,
      requiredActorKind = Some SystemKind, idempotencyScope = ''request-another-clarification-round'',
      handler_execute = claimed_transaction ''request-another-clarification-round'' RequestAnotherRound_body\<rparr>"

section \<open>The circuit breaker\<close>

datatype block_reason = ROUND_LIMIT_EXCEEDED | ROUND_TIMEOUT

fun block_reason_str :: "block_reason \<Rightarrow> string" where
  "block_reason_str ROUND_LIMIT_EXCEEDED = ''round_limit_exceeded''"
| "block_reason_str ROUND_TIMEOUT = ''round_timeout''"

record block_clarification_payload = session_payload +
  bp_reason :: block_reason

definition BlockClarification_body :: "block_clarification_payload envelope \<Rightarrow> command_result tx" where
  "BlockClarification_body envelope =
     (let sessionId = sp_clarificationSessionId (payload envelope);
          projectId = sp_projectId (payload envelope);
          expectedVersion = sp_expectedVersion (payload envelope);
          reason = bp_reason (payload envelope) in
      bindT (queryT (find_session sessionId projectId)) (\<lambda>found.
      case found of
        None \<Rightarrow> throwT (session_not_found envelope sessionId projectId)
      | Some _ \<Rightarrow>
      bindT (assertVersion ''clarification_sessions'' sessionId cs_version found expectedVersion) (\<lambda>session.
      bindT (cl_assertValid (cs_status session) CL_BLOCKED) (\<lambda>_.
      bindT (queryT clock) (\<lambda>now.
      if reason = ROUND_LIMIT_EXCEEDED \<and> cs_round session < cs_max_rounds session
      then throwT (commandError ''round-limit-not-exceeded'' ''Round limit not yet exceeded'' 409
             (''Session '' @ sessionId @ '' has used '' @ show_int (cs_round session) @ ''/''
                @ show_int (cs_max_rounds session) @ '' rounds'')
             (Some (correlationId envelope)))
      else if reason = ROUND_TIMEOUT
              \<and> (case cs_round_timeout_at session of None \<Rightarrow> True | Some t \<Rightarrow> t > now)
      then throwT (commandError ''timeout-not-exceeded'' ''Round timeout not yet exceeded'' 409
             (''Session '' @ sessionId @ '' has not exceeded its round timeout'')
             (Some (correlationId envelope)))
      else
      bindT (cas_session sessionId expectedVersion
               (\<lambda>c. c\<lparr>cs_status := CL_BLOCKED, cs_version := nextVersion (cs_version session),
                      cs_updated_at := now\<rparr>)) (\<lambda>affected.
      if affected = 0
      then throwT (OptimisticLockError ''clarification_sessions'' sessionId expectedVersion (-1))
      else
      bindT (insert_decision sessionId ''block'' (env_actor envelope) (Some (block_reason_str reason)) now) (\<lambda>_.
      bindT (writeWorkflowEvent None (Some projectId) ''clarification.blocked''
               (clarification_str (cs_status session)) (clarification_str CL_BLOCKED)
               (actor_id (env_actor envelope)) None) (\<lambda>eventId.
      bindT (writeOutboxEvent ''clarification.blocked''
               [(''clarificationSessionId'', JStr sessionId), (''projectId'', JStr projectId),
                (''reason'', JStr (block_reason_str reason))]) (\<lambda>_.
      returnT (accepted_result envelope (clarification_str CL_BLOCKED) [eventId]))))))))))"

definition BlockClarificationHandler :: "block_clarification_payload handler" where
  "BlockClarificationHandler =
     \<lparr>commandName = ''BlockClarificationCommand'', requiredRole = ADMIN,
      requiredActorKind = Some SystemKind, idempotencyScope = ''block-clarification'',
      handler_execute = claimed_transaction ''block-clarification'' BlockClarification_body\<rparr>"

section \<open>What the commands guarantee\<close>

lemma clarification_statements:
  "planb.keeps (cl_assertValid a b)" "planb.keeps (cas_session i v f)"
  "planb.keeps (insert_decision sid ty act notes now)" "planb.keeps (ask_question sid n now k q)"
  by (simp_all add: cl_assertValid_def cas_session_def insert_decision_def ask_question_def)
    (intro plan_rules)+

lemma planb_answer_row:
  "planb.keeps (insertUniqueT t (\<lambda>s. clarification_answers (planning s))
     (\<lambda>f. planning_update (clarification_answers_update f)) ca_id ca_question_id row)"
  by (rule planb_insertUnique) (rule planb_planning)

lemmas clarification_rules = plan_rules clarification_statements planb_answer_row

lemma clarification_evolves:
  "planb.keeps (StartClarification_body e1)" "planb.keeps (RecordClarificationAnswer_body e2)"
  "planb.keeps (CompleteClarification_body e3)" "planb.keeps (RequestAnotherRound_body e4)"
  "planb.keeps (BlockClarification_body e5)"
  unfolding StartClarification_body_def RecordClarificationAnswer_body_def CompleteClarification_body_def
    RequestAnotherRound_body_def BlockClarification_body_def
  by (intro clarification_rules)+

end
