(* ===== verification/Backlog.thy ===== *)
theory Backlog
  imports Redaction
begin

text \<open>
  The backlog as a document and as a graph, without the database:
  \<open>packages/core/src/backlog/parse-backlog-markdown.ts\<close>, the Markdown that
  \<open>commands/handlers/planning/export-backlog.ts\<close> writes, and the cycle search of
  \<open>validate-backlog.ts\<close>. The three regular expressions of the parser are anchored and need
  no backtracking over more than one repetition, so each is written as a function.
\<close>

section \<open>Strings as JavaScript sees them\<close>

text \<open>\<open>\s\<close> and \<open>trim\<close>, and the characters that \<open>.\<close> matches, among the 8-bit characters.\<close>

definition js_space :: "char \<Rightarrow> bool" where
  "js_space c = (is_space c \<or> (of_char c :: nat) = 160)"

definition js_dot :: "char \<Rightarrow> bool" where
  "js_dot c = (c \<noteq> CHR 0x0A \<and> c \<noteq> CHR 0x0D)"

definition is_digit :: "char \<Rightarrow> bool" where
  "is_digit c = (let n = of_char c :: nat in 48 \<le> n \<and> n \<le> 57)"

definition rtrim :: "string \<Rightarrow> string" where
  "rtrim s = rev (dropWhile js_space (rev s))"

definition trim :: "string \<Rightarrow> string" where
  "trim s = rtrim (dropWhile js_space s)"

definition strip_prefix :: "string \<Rightarrow> string \<Rightarrow> string option" where
  "strip_prefix p s = (if take (length p) s = p then Some (drop (length p) s) else None)"

text \<open>\<open>split(/\r?\n/)\<close> and \<open>join('\n')\<close>.\<close>

fun split_lines :: "string \<Rightarrow> string list" where
  "split_lines [] = [[]]"
| "split_lines (c # cs) =
     (if c = CHR 0x0A then [] # split_lines cs
      else if c = CHR 0x0D \<and> take 1 cs = [CHR 0x0A] then split_lines cs
      else (case split_lines cs of [] \<Rightarrow> [[c]] | l # ls \<Rightarrow> (c # l) # ls))"

fun join_lines :: "string list \<Rightarrow> string" where
  "join_lines [] = []"
| "join_lines [l] = l"
| "join_lines (l # m # ls) = l @ CHR 0x0A # join_lines (m # ls)"

section \<open>The parser\<close>

datatype backlog_parse_error = BacklogParseError string "int option"

definition backlogParseError :: "string \<Rightarrow> int option \<Rightarrow> backlog_parse_error" where
  "backlogParseError message line =
     BacklogParseError
       (case line of None \<Rightarrow> message | Some n \<Rightarrow> message @ '' (line '' @ show_int n @ '')'') line"

record parsed_feature =
  pf_frId :: string
  pf_title :: string
  pf_description :: string
  pf_kind :: FeatureKind
  pf_priority :: int
  pf_dependsOnFrIds :: "string list"

text \<open>\<open>/^# Feature Backlog\s*$/\<close>.\<close>

definition title_heading :: "string \<Rightarrow> bool" where
  "title_heading l =
     (case strip_prefix ''# Feature Backlog'' l of None \<Rightarrow> False | Some rest \<Rightarrow> list_all js_space rest)"

text \<open>
  \<open>/^## (FR-\d+): (.+?)\s*$/\<close>: the title is the shortest non-empty prefix of the rest after which
  only white space follows.
\<close>

definition lazy_title :: "string \<Rightarrow> string option" where
  "lazy_title rest =
     (if rest = [] then None
      else let t = (if rtrim rest = [] then take 1 rest else rtrim rest)
           in if list_all js_dot t then Some t else None)"

definition feature_heading :: "string \<Rightarrow> (string \<times> string) option" where
  "feature_heading l =
     (case strip_prefix ''## FR-'' l of
        None \<Rightarrow> None
      | Some r \<Rightarrow>
          (if takeWhile is_digit r = [] then None
           else (case strip_prefix '': '' (dropWhile is_digit r) of
                   None \<Rightarrow> None
                 | Some rest \<Rightarrow>
                     (case lazy_title rest of
                        None \<Rightarrow> None
                      | Some t \<Rightarrow> Some (''FR-'' @ takeWhile is_digit r, t)))))"

text \<open>\<open>/^Kind: (feature|discovery)\s*$/\<close>.\<close>

definition kind_line :: "string \<Rightarrow> FeatureKind option" where
  "kind_line l =
     (case strip_prefix ''Kind: '' l of
        None \<Rightarrow> None
      | Some r \<Rightarrow>
          (case strip_prefix ''feature'' r of
             Some rest \<Rightarrow> (if list_all js_space rest then Some FEATURE else None)
           | None \<Rightarrow>
               (case strip_prefix ''discovery'' r of
                  Some rest \<Rightarrow> (if list_all js_space rest then Some DISCOVERY else None)
                | None \<Rightarrow> None)))"

record raw_section =
  rs_frId :: string
  rs_title :: string
  rs_headingLine :: int
  rs_bodyLines :: "string list"
  rs_bodyStartLine :: int

text \<open>
  The loop over the lines after the title, \<open>i\<close> being the 0-based index of the first of them and
  \<open>current\<close> the open section.
\<close>

fun collect_sections :: "int \<Rightarrow> string list \<Rightarrow> raw_section option \<Rightarrow> raw_section list" where
  "collect_sections i [] current = (case current of None \<Rightarrow> [] | Some c \<Rightarrow> [c])"
| "collect_sections i (l # ls) current =
     (case feature_heading l of
        Some (fr, t) \<Rightarrow>
          (case current of None \<Rightarrow> [] | Some c \<Rightarrow> [c])
            @ collect_sections (i + 1) ls
                (Some \<lparr>rs_frId = fr, rs_title = t, rs_headingLine = i + 1, rs_bodyLines = [],
                       rs_bodyStartLine = i + 2\<rparr>)
      | None \<Rightarrow>
          collect_sections (i + 1) ls
            (map_option (\<lambda>c. c\<lparr>rs_bodyLines := rs_bodyLines c @ [l]\<rparr>) current))"

text \<open>\<open>bodyLines.findIndex((l) => l.trim().startsWith('Kind:'))\<close>, \<open>None\<close> for -1.\<close>

fun find_kind_line :: "string list \<Rightarrow> nat option" where
  "find_kind_line [] = None"
| "find_kind_line (l # ls) =
     (if strip_prefix ''Kind:'' (trim l) \<noteq> None then Some 0 else map_option Suc (find_kind_line ls))"

fun parse_sections ::
    "string list \<Rightarrow> int \<Rightarrow> raw_section list \<Rightarrow> backlog_parse_error + parsed_feature list" where
  "parse_sections seenFrIds index [] = Inr []"
| "parse_sections seenFrIds index (c # cs) =
     (if rs_frId c \<in> set seenFrIds
      then Inl (backlogParseError (''Duplicate feature id \"'' @ rs_frId c @ ''\"'') (Some (rs_headingLine c)))
      else (case find_kind_line (rs_bodyLines c) of
        None \<Rightarrow> Inl (backlogParseError (''Missing \"Kind: <feature|discovery>\" line for '' @ rs_frId c)
                  (Some (rs_headingLine c)))
      | Some k \<Rightarrow>
          (case kind_line (trim (rs_bodyLines c ! k)) of
             None \<Rightarrow> Inl (backlogParseError
                 (''Invalid Kind value for '' @ rs_frId c
                    @ '' - expected \"Kind: feature\" or \"Kind: discovery\"'')
                 (Some (rs_bodyStartLine c + int k)))
           | Some kind \<Rightarrow>
               (let description = trim (join_lines (drop (k + 1) (rs_bodyLines c))) in
                if description = []
                then Inl (backlogParseError (''Missing description for '' @ rs_frId c)
                            (Some (rs_headingLine c)))
                else (case parse_sections (rs_frId c # seenFrIds) (index + 1) cs of
                        Inl e \<Rightarrow> Inl e
                      | Inr fs \<Rightarrow>
                          Inr (\<lparr>pf_frId = rs_frId c, pf_title = rs_title c,
                                pf_description = description, pf_kind = kind, pf_priority = index,
                                pf_dependsOnFrIds = []\<rparr> # fs))))))"

definition parseBacklogMarkdown :: "string \<Rightarrow> backlog_parse_error + parsed_feature list" where
  "parseBacklogMarkdown markdown =
     (let ls = split_lines markdown;
          blank = length (takeWhile (\<lambda>l. trim l = []) ls);
          rest = dropWhile (\<lambda>l. trim l = []) ls in
      case rest of
        [] \<Rightarrow> Inl (backlogParseError
               ''Expected the backlog markdown to start with a \"# Feature Backlog\" heading''
               (Some (int blank + 1)))
      | l # body \<Rightarrow>
          (if \<not> title_heading l
           then Inl (backlogParseError
                  ''Expected the backlog markdown to start with a \"# Feature Backlog\" heading''
                  (Some (int blank + 1)))
           else (let sections = collect_sections (int blank + 1) body None in
             if sections = []
             then Inl (backlogParseError
                    ''No feature sections (\"## FR-<n>: <title>\") found in backlog markdown'' None)
             else parse_sections [] 0 sections)))"

section \<open>The document the export writes\<close>

text \<open>The columns \<open>ExportBacklogHandler\<close> selects, and its \<open>[...].join('\n')\<close>.\<close>

record feature_entry =
  fe_fr_id :: string
  fe_title :: string
  fe_description :: string
  fe_kind :: FeatureKind

definition entry_lines :: "feature_entry \<Rightarrow> string list" where
  "entry_lines f =
     [''## '' @ fe_fr_id f @ '': '' @ fe_title f, [], ''Kind: '' @ kind_str (fe_kind f), [],
      fe_description f, []]"

definition render_backlog :: "feature_entry list \<Rightarrow> string" where
  "render_backlog features =
     join_lines ([''# Feature Backlog'', []] @ concat (map entry_lines features))"

section \<open>Cycles among dependencies\<close>

datatype colour = WHITE | GRAY | BLACK

text \<open>\<open>adjacency.get(id) ?? []\<close> for the rows \<open>(source_fr_id, target_fr_id)\<close>.\<close>

definition nexts :: "(string \<times> string) list \<Rightarrow> string \<Rightarrow> string list" where
  "nexts deps i = map snd (filter (\<lambda>d. fst d = i) deps)"

text \<open>
  The loop of \<open>visit\<close> over the successors of a node, with the recursive call written out; the
  colours are threaded through. A node without a colour is white.
\<close>

function visit_nexts ::
    "(string \<times> string) list \<Rightarrow> string list \<Rightarrow> (string \<Rightarrow> colour) \<Rightarrow> bool \<times> (string \<Rightarrow> colour)" where
  "visit_nexts deps [] col = (False, col)"
| "visit_nexts deps (x # xs) col =
     (case col x of
        GRAY \<Rightarrow> (True, col)
      | BLACK \<Rightarrow> visit_nexts deps xs col
      | WHITE \<Rightarrow>
          (let r = visit_nexts deps (nexts deps x) (col(x := GRAY)) in
           if fst r then (True, snd r)
           else visit_nexts deps xs ((snd r)(x := BLACK))))"
  by pat_completeness auto

text \<open>
  The recursion ends: every recursive descent colours a white node that has successors, of which
  there are finitely many, and nothing turns white again.
\<close>

definition reached :: "(string \<times> string) list \<Rightarrow> string set" where
  "reached deps = fst ` set deps \<union> snd ` set deps"

definition whites :: "(string \<times> string) list \<Rightarrow> (string \<Rightarrow> colour) \<Rightarrow> nat" where
  "whites deps col = card {x \<in> reached deps. col x = WHITE}"

lemma whites_mono: "(\<And>x. c x = WHITE \<Longrightarrow> col x = WHITE) \<Longrightarrow> whites deps c \<le> whites deps col"
  unfolding whites_def reached_def by (intro card_mono) auto

lemma whites_gray:
  assumes "col x = WHITE" "nexts deps x \<noteq> []"
  shows "whites deps (col(x := GRAY)) < whites deps col"
proof -
  have "x \<in> reached deps"
    using assms(2) by (force simp: nexts_def reached_def filter_empty_conv)
  then show ?thesis
    unfolding whites_def
    using assms(1) by (intro psubset_card_mono) (auto simp: reached_def)
qed

lemma visit_nexts_dom_white:
  "visit_nexts_dom (deps, xs, col) \<Longrightarrow> snd (visit_nexts deps xs col) y = WHITE \<Longrightarrow> col y = WHITE"
proof (induction deps xs col rule: visit_nexts.pinduct)
  case (1 deps col)
  then show ?case by (simp add: visit_nexts.psimps)
next
  case (2 deps x xs col)
  let ?r = "visit_nexts deps (nexts deps x) (col(x := GRAY))"
  have r: "col y = WHITE" if "col x = WHITE" "snd ?r y = WHITE"
    using 2(2) [OF that] by (simp split: if_splits)
  show ?case
  proof (cases "col x")
    case WHITE
    show ?thesis
    proof (cases "fst ?r")
      case True
      then show ?thesis using 2(1,5) WHITE r by (simp add: visit_nexts.psimps Let_def)
    next
      case False
      then have "((snd ?r)(x := BLACK)) y = WHITE"
        using 2(1,5) WHITE 2(3) [OF WHITE refl False] by (simp add: visit_nexts.psimps Let_def del: fun_upd_apply)
      then have "snd ?r y = WHITE" by (simp split: if_splits)
      then show ?thesis by (rule r [OF WHITE])
    qed
  qed (use 2 in \<open>simp_all add: visit_nexts.psimps\<close>)
qed

termination visit_nexts
proof (relation "measures [\<lambda>(deps, xs, col). whites deps col, \<lambda>(deps, xs, col). length xs]")
  fix deps :: "(string \<times> string) list" and x xs and col :: "string \<Rightarrow> colour"
  assume "col x = WHITE"
  then show "((deps, nexts deps x, col(x := GRAY)), deps, x # xs, col)
      \<in> measures [\<lambda>(deps, xs, col). whites deps col, \<lambda>(deps, xs, col). length xs]"
  proof (cases "nexts deps x = []")
    case True
    have "whites deps (col(x := GRAY)) \<le> whites deps col" by (intro whites_mono) (simp split: if_splits)
    with True show ?thesis by auto
  qed (use whites_gray in auto)
next
  fix deps :: "(string \<times> string) list" and x xs and col :: "string \<Rightarrow> colour" and r
  assume *: "col x = WHITE" "r = visit_nexts deps (nexts deps x) (col(x := GRAY))" "\<not> fst r"
    "visit_nexts_dom (deps, nexts deps x, col(x := GRAY))"
  have "whites deps ((snd r)(x := BLACK)) \<le> whites deps col"
    using * by (intro whites_mono) (auto dest: visit_nexts_dom_white split: if_splits)
  then show "((deps, xs, (snd r)(x := BLACK)), deps, x # xs, col)
      \<in> measures [\<lambda>(deps, xs, col). whites deps col, \<lambda>(deps, xs, col). length xs]"
    by auto
qed auto


text \<open>\<open>visit\<close> and \<open>hasCycle\<close>.\<close>

definition visit :: "(string \<times> string) list \<Rightarrow> string \<Rightarrow> (string \<Rightarrow> colour) \<Rightarrow> bool \<times> (string \<Rightarrow> colour)" where
  "visit deps i col =
     (let r = visit_nexts deps (nexts deps i) (col(i := GRAY)) in
      if fst r then (True, snd r) else (False, (snd r)(i := BLACK)))"

fun visit_features :: "(string \<times> string) list \<Rightarrow> string list \<Rightarrow> (string \<Rightarrow> colour) \<Rightarrow> bool" where
  "visit_features deps [] col = False"
| "visit_features deps (i # is) col =
     (if col i = WHITE
      then (let r = visit deps i col in if fst r then True else visit_features deps is (snd r))
      else visit_features deps is col)"

definition hasCycle :: "string list \<Rightarrow> (string \<times> string) list \<Rightarrow> bool" where
  "hasCycle features deps = visit_features deps features (\<lambda>_. WHITE)"

end
