(* ===== verification/Planning.thy ===== *)
theory Planning
  imports PlanningStore Backlog
begin

text \<open>
  From a specification to approved work: \<open>packages/core/src/commands/handlers/planning\<close> and
  \<open>plan\<close>, except for the backlog's documents (theory \<open>BacklogCommands\<close>). A call of the planner is
  a parameter of the assessment: the recorder and the adapter behind it.
\<close>

section \<open>Specifications and their assessment\<close>

record ingest_payload =
  in_projectId :: string
  in_content :: string
  in_contentType :: string

definition IngestSpecification_body :: "ingest_payload envelope \<Rightarrow> command_result tx" where
  "IngestSpecification_body envelope =
     (let projectId = in_projectId (payload envelope) in
      bindT (queryT clock) (\<lambda>now.
      bindT generateId (\<lambda>specificationInputId.
      bindT (insertP ''specification_inputs'' specification_inputs specification_inputs_update si_id
               \<lparr>si_id = specificationInputId, si_project_id = projectId,
                si_content = in_content (payload envelope),
                si_content_type = in_contentType (payload envelope), si_created_at = now\<rparr>) (\<lambda>_.
      bindT (writeWorkflowEvent None (Some projectId) ''specification.ingested'' ''none'' ''ingested''
               (actor_id (env_actor envelope)) None) (\<lambda>eventId.
      bindT (writeOutboxEvent ''specification.ingested''
               [(''projectId'', JStr projectId), (''specificationInputId'', JStr specificationInputId)]) (\<lambda>_.
      returnT (accepted_result envelope ''ingested'' [eventId])))))))"

definition IngestSpecificationHandler :: "ingest_payload handler" where
  "IngestSpecificationHandler =
     \<lparr>commandName = ''IngestSpecificationCommand'', requiredRole = OPERATOR,
      requiredActorKind = Some Human, idempotencyScope = ''ingest-specification'',
      handler_execute = claimed_transaction ''ingest-specification'' IngestSpecification_body\<rparr>"

text \<open>\<open>PlannerOutput\<close> of \<open>adapters/types.ts\<close>, without the token counts the recorder uses.\<close>

record planner_output =
  po_readinessResult :: ReadinessStatus
  po_questions :: "(string \<times> int) list"
  po_assumptions :: "(string \<times> confidence) list"
  po_gaps :: "(string \<times> GapSeverity) list"

record assess_payload =
  ap_projectId :: string
  ap_specificationInputId :: "string option"
  ap_specificationContent :: string

definition insert_gap :: "string \<Rightarrow> int \<Rightarrow> string \<times> GapSeverity \<Rightarrow> unit tx" where
  "insert_gap assessmentId now gap =
     bindT generateId (\<lambda>i.
     insertP ''planning_gaps'' planning_gaps planning_gaps_update pg_id
       \<lparr>pg_id = i, pg_assessment_id = assessmentId, pg_description = fst gap, pg_severity = snd gap,
        pg_resolution = None, pg_resolved_at = None, pg_version = 1, pg_updated_at = now\<rparr>)"

definition insert_question :: "string \<Rightarrow> int \<Rightarrow> string \<times> int \<Rightarrow> unit tx" where
  "insert_question assessmentId now q =
     bindT generateId (\<lambda>i.
     insertP ''planning_questions'' planning_questions planning_questions_update pq_id
       \<lparr>pq_id = i, pq_assessment_id = assessmentId, pq_question = fst q, pq_answer = None,
        pq_round = snd q, pq_created_at = now\<rparr>)"

definition insert_assumption :: "string \<Rightarrow> int \<Rightarrow> string \<times> confidence \<Rightarrow> unit tx" where
  "insert_assumption assessmentId now a =
     bindT generateId (\<lambda>i.
     insertP ''planning_assumptions'' planning_assumptions planning_assumptions_update pa_id
       \<lparr>pa_id = i, pa_assessment_id = assessmentId, pa_description = fst a, pa_confidence = snd a,
        pa_created_at = now\<rparr>)"

definition insert_session ::
    "string \<Rightarrow> string \<Rightarrow> string option \<Rightarrow> string \<Rightarrow> ClarificationStatus \<Rightarrow> int \<Rightarrow> unit tx" where
  "insert_session sessionId projectId specId assessmentId status now =
     insertP ''clarification_sessions'' clarification_sessions clarification_sessions_update cs_id
       \<lparr>cs_id = sessionId, cs_project_id = projectId, cs_specification_input_id = specId,
        cs_assessment_id = Some assessmentId, cs_status = status, cs_round = 0, cs_max_rounds = 3,
        cs_round_timeout_at = None, cs_version = 1, cs_created_at = now, cs_updated_at = now\<rparr>"

definition AssessPlanningReadiness_body ::
    "planner_output \<Rightarrow> assess_payload envelope \<Rightarrow> command_result tx" where
  "AssessPlanningReadiness_body out envelope =
     (let projectId = ap_projectId (payload envelope);
          specId = ap_specificationInputId (payload envelope);
          readiness = po_readinessResult out in
      bindT (queryT clock) (\<lambda>now.
      bindT generateId (\<lambda>assessmentId.
      bindT (insertP ''planning_readiness_assessments'' planning_readiness_assessments
               planning_readiness_assessments_update as_id
               \<lparr>as_id = assessmentId, as_project_id = projectId, as_specification_input_id = specId,
                as_status = readiness, as_created_at = now\<rparr>) (\<lambda>_.
      bindT (forEachT (insert_gap assessmentId now) (po_gaps out)) (\<lambda>_.
      bindT (forEachT (insert_question assessmentId now) (po_questions out)) (\<lambda>_.
      bindT (forEachT (insert_assumption assessmentId now) (po_assumptions out)) (\<lambda>_.
      bindT generateId (\<lambda>sessionId.
      bindT (if readiness = RS_INSUFFICIENT
             then bindT (insert_session sessionId projectId specId assessmentId CL_REQUIRED now) (\<lambda>_.
                  returnT CL_REQUIRED)
             else
               bindT (insert_session sessionId projectId specId assessmentId CL_NOT_REQUIRED now) (\<lambda>_.
               bindT (cl_assertValid CL_NOT_REQUIRED CL_COMPLETE) (\<lambda>_.
               bindT (updateP clarification_sessions clarification_sessions_update
                        (\<lambda>c. cs_id c = sessionId)
                        (\<lambda>c. c\<lparr>cs_status := CL_COMPLETE, cs_version := 2, cs_updated_at := now\<rparr>)) (\<lambda>_.
               returnT CL_COMPLETE)))) (\<lambda>clarificationStatus.
      bindT (writeWorkflowEvent None (Some projectId) ''planning_readiness.assessed'' ''none''
               (readiness_str readiness) (actor_id (env_actor envelope)) None) (\<lambda>eventId.
      bindT (writeOutboxEvent ''planning_readiness.assessed''
               [(''projectId'', JStr projectId), (''assessmentId'', JStr assessmentId),
                (''readinessResult'', JStr (readiness_str readiness)),
                (''clarificationSessionId'', JStr sessionId),
                (''clarificationStatus'', JStr (clarification_str clarificationStatus))]) (\<lambda>_.
      returnT (accepted_result envelope (readiness_str readiness) [eventId]))))))))))))"

definition AssessPlanningReadinessHandler ::
    "(assess_payload envelope \<Rightarrow> planner_output db_action) \<Rightarrow> assess_payload handler" where
  "AssessPlanningReadinessHandler plannerRun =
     \<lparr>commandName = ''AssessPlanningReadinessCommand'', requiredRole = ADMIN,
      requiredActorKind = Some SystemKind, idempotencyScope = ''assess-planning-readiness'',
      handler_execute = (\<lambda>envelope.
        bindA (plannerRun envelope) (\<lambda>out.
        claimed_transaction ''assess-planning-readiness'' (AssessPlanningReadiness_body out) envelope))\<rparr>"

record resolve_gap_payload =
  rg_projectId :: string
  rg_assessmentId :: string
  rg_gapId :: string
  rg_resolution :: string
  rg_expectedVersion :: int

definition find_gap :: "string \<Rightarrow> string \<Rightarrow> string \<Rightarrow> store \<Rightarrow> planning_gap_row option" where
  "find_gap gapId assessmentId projectId s =
     first_row (filter (\<lambda>g. pg_id g = gapId \<and> pg_assessment_id g = assessmentId
                  \<and> list_ex (\<lambda>a. as_id a = pg_assessment_id g \<and> as_project_id a = projectId)
                      (planning_readiness_assessments (planning s)))
                (planning_gaps (planning s)))"

definition ResolvePlanningGap_body :: "resolve_gap_payload envelope \<Rightarrow> command_result tx" where
  "ResolvePlanningGap_body envelope =
     (let projectId = rg_projectId (payload envelope);
          assessmentId = rg_assessmentId (payload envelope);
          gapId = rg_gapId (payload envelope);
          resolution = rg_resolution (payload envelope);
          expectedVersion = rg_expectedVersion (payload envelope) in
      bindT (queryT (find_gap gapId assessmentId projectId)) (\<lambda>found.
      case found of
        None \<Rightarrow> throwT (not_found envelope ''Planning gap not found''
                  (''Gap '' @ gapId @ '' not found for assessment '' @ assessmentId @ '' in project '' @ projectId))
      | Some gap \<Rightarrow>
      if pg_resolved_at gap \<noteq> None
      then throwT (commandError ''gap-already-resolved'' ''Planning gap is already resolved'' 409
             (''Gap '' @ gapId @ '' was already resolved'') (Some (correlationId envelope)))
      else
      bindT (assertVersion ''planning_gaps'' gapId pg_version found expectedVersion) (\<lambda>_.
      bindT (queryT clock) (\<lambda>now.
      bindT (updateP planning_gaps planning_gaps_update
               (\<lambda>g. pg_id g = gapId \<and> pg_version g = expectedVersion)
               (\<lambda>g. g\<lparr>pg_resolution := Some resolution, pg_resolved_at := Some now,
                      pg_version := nextVersion (pg_version gap), pg_updated_at := now\<rparr>)) (\<lambda>affected.
      if affected = 0
      then throwT (OptimisticLockError ''planning_gaps'' gapId expectedVersion (-1))
      else
      bindT (insertHumanApproval projectId None None ''planning_gap_resolution'' (Some gapId) DEC_APPROVED
               (env_actor envelope) (Some resolution)) (\<lambda>_.
      bindT (writeWorkflowEvent None (Some projectId) ''planning_gap.resolved''
               (gap_severity_str (pg_severity gap)) ''resolved'' (actor_id (env_actor envelope)) None) (\<lambda>eventId.
      bindT (writeOutboxEvent ''planning_gap.resolved''
               [(''projectId'', JStr projectId), (''assessmentId'', JStr assessmentId),
                (''gapId'', JStr gapId), (''resolution'', JStr resolution)]) (\<lambda>_.
      returnT (accepted_result envelope ''resolved'' [eventId])))))))))"

definition ResolvePlanningGapHandler :: "resolve_gap_payload handler" where
  "ResolvePlanningGapHandler =
     \<lparr>commandName = ''ResolvePlanningGapCommand'', requiredRole = APPROVER,
      requiredActorKind = Some Human, idempotencyScope = ''resolve-planning-gap'',
      handler_execute = claimed_transaction ''resolve-planning-gap'' ResolvePlanningGap_body\<rparr>"

section \<open>The plan and its backlog\<close>

record generate_plan_payload =
  gp_projectId :: string
  gp_assessmentId :: string
  gp_title :: string
  gp_summary :: "string option"
  gp_sections :: "(string \<times> string) list"

definition find_assessment :: "string \<Rightarrow> string \<Rightarrow> store \<Rightarrow> assessment_row option" where
  "find_assessment assessmentId projectId s =
     first_row (filter (\<lambda>a. as_id a = assessmentId \<and> as_project_id a = projectId)
                  (planning_readiness_assessments (planning s)))"

text \<open>\<open>... WHERE assessment_id = ? ORDER BY created_at DESC LIMIT 1\<close>.\<close>

definition latest_session :: "string \<Rightarrow> store \<Rightarrow> clarification_session_row option" where
  "latest_session assessmentId s =
     first_row (order_by (\<lambda>a b. cs_created_at a > cs_created_at b)
       (filter (\<lambda>c. cs_assessment_id c = Some assessmentId) (clarification_sessions (planning s))))"

text \<open>The warning both generators append when blocking gaps are open.\<close>

definition warn_blocking_gaps ::
    "'p envelope \<Rightarrow> string \<Rightarrow> string \<Rightarrow> string \<Rightarrow> string \<Rightarrow> string \<Rightarrow> unit tx" where
  "warn_blocking_gaps envelope projectId eventType st planId assessmentId =
     bindT (queryT (unresolved_blocking_gaps assessmentId)) (\<lambda>gaps.
     if gaps \<noteq> []
     then bindT (writeWorkflowEvent None (Some projectId) eventType st st
                   (actor_id (env_actor envelope))
                   (Some (JObj [(''planId'', JStr planId), (''assessmentId'', JStr assessmentId),
                                (''unresolvedBlockingGapCount'', JInt (int (length gaps))),
                                (''gapIds'', JArr (map JStr gaps))]))) (\<lambda>_. returnT ())
     else returnT ())"

definition insert_section :: "string \<Rightarrow> int \<Rightarrow> string \<times> string \<Rightarrow> unit tx" where
  "insert_section planId i section =
     bindT generateId (\<lambda>sid.
     insertP ''plan_sections'' plan_sections plan_sections_update ps_id
       \<lparr>ps_id = sid, ps_plan_id = planId, ps_title = fst section, ps_content = snd section,
        ps_order_index = i\<rparr>)"

definition GenerateImplementationPlan_body :: "generate_plan_payload envelope \<Rightarrow> command_result tx" where
  "GenerateImplementationPlan_body envelope =
     (let projectId = gp_projectId (payload envelope);
          assessmentId = gp_assessmentId (payload envelope) in
      bindT (queryT (find_assessment assessmentId projectId)) (\<lambda>found.
      case found of
        None \<Rightarrow> throwT (not_found envelope ''Planning readiness assessment not found''
                  (''Assessment '' @ assessmentId @ '' not found in project '' @ projectId))
      | Some assessment \<Rightarrow>
      if as_status assessment \<noteq> RS_SUFFICIENT \<and> as_status assessment \<noteq> RS_SUFFICIENT_WITH_ASSUMPTIONS
      then throwT (commandError ''not-ready'' ''Readiness assessment is not sufficient'' 409
             (''Assessment '' @ assessmentId @ '' has status \"'' @ readiness_str (as_status assessment) @ ''\"'')
             (Some (correlationId envelope)))
      else
      bindT (queryT (latest_session assessmentId)) (\<lambda>session.
      if (case session of None \<Rightarrow> False
          | Some c \<Rightarrow> cs_status c \<noteq> CL_NOT_REQUIRED \<and> cs_status c \<noteq> CL_COMPLETE)
      then throwT (commandError ''clarification-open'' ''Clarification is not complete'' 409
             (''Clarification session for project '' @ projectId @ '' has status \"''
                @ (case session of None \<Rightarrow> '''' | Some c \<Rightarrow> clarification_str (cs_status c)) @ ''\"'')
             (Some (correlationId envelope)))
      else
      bindT (queryT clock) (\<lambda>now.
      bindT generateId (\<lambda>planId.
      bindT (insertP ''implementation_plans'' implementation_plans implementation_plans_update pl_id
               \<lparr>pl_id = planId, pl_project_id = projectId, pl_assessment_id = Some assessmentId,
                pl_state = PL_DRAFT, pl_title = gp_title (payload envelope),
                pl_summary = gp_summary (payload envelope), pl_backlog_version = 0,
                pl_backlog_validated_at = None, pl_backlog_validated_state = None,
                pl_backlog_validated_version = None, pl_version = 1, pl_created_at = now, pl_updated_at = now\<rparr>) (\<lambda>_.
      bindT (forIndexT 0 (insert_section planId) (gp_sections (payload envelope))) (\<lambda>_.
      bindT (writeWorkflowEvent None (Some projectId) ''plan.generated'' ''none'' (plan_state_str PL_DRAFT)
               (actor_id (env_actor envelope)) None) (\<lambda>eventId.
      bindT (writeOutboxEvent ''plan.generated''
               [(''projectId'', JStr projectId), (''planId'', JStr planId),
                (''assessmentId'', JStr assessmentId)]) (\<lambda>_.
      bindT (warn_blocking_gaps envelope projectId ''plan.generated_with_unresolved_blocking_gaps''
               (plan_state_str PL_DRAFT) planId assessmentId) (\<lambda>_.
      returnT (accepted_result envelope (plan_state_str PL_DRAFT) [eventId])))))))))))"

definition GenerateImplementationPlanHandler :: "generate_plan_payload handler" where
  "GenerateImplementationPlanHandler =
     \<lparr>commandName = ''GenerateImplementationPlanCommand'', requiredRole = ADMIN,
      requiredActorKind = Some SystemKind, idempotencyScope = ''generate-implementation-plan'',
      handler_execute = claimed_transaction ''generate-implementation-plan'' GenerateImplementationPlan_body\<rparr>"

text \<open>
  \<open>INSERT INTO feature_requests ...\<close>; the table's second key is \<open>UNIQUE(project_id, fr_id)\<close>, that of
  the dependencies \<open>UNIQUE(source_fr_id, target_fr_id)\<close>.
\<close>

definition insert_request :: "string \<Rightarrow> string \<Rightarrow> int \<Rightarrow> string \<Rightarrow> 'z parsed_feature_scheme \<Rightarrow> unit tx" where
  "insert_request planId projectId now i feature =
     insertUniqueT ''feature_requests'' feature_requests feature_requests_update req_id
       (\<lambda>r. (req_project_id r, req_fr_id r))
       \<lparr>req_id = i, req_plan_id = planId, req_project_id = projectId, req_fr_id = pf_frId feature,
        req_title = pf_title feature, req_description = pf_description feature, req_kind = pf_kind feature,
        req_executable = (pf_kind feature = FEATURE), req_state = FE_APPROVED_PENDING_EXECUTION,
        req_priority = pf_priority feature, req_created_at = now\<rparr>"

definition insert_dependency :: "string \<Rightarrow> string \<Rightarrow> unit tx" where
  "insert_dependency sourceId targetId =
     bindT generateId (\<lambda>i.
     insertUniqueT ''feature_dependencies'' feature_dependencies feature_dependencies_update dep_id
       (\<lambda>d. (dep_source_fr_id d, dep_target_fr_id d))
       \<lparr>dep_id = i, dep_source_fr_id = sourceId, dep_target_fr_id = targetId\<rparr>)"

record feature_input = parsed_feature +
  fi_acceptanceCriteria :: "string list"
  fi_testExpectations :: "(string \<times> test_type option) list"

record generate_backlog_payload =
  gb_projectId :: string
  gb_planId :: string
  gb_features :: "feature_input list"

definition insert_criterion :: "string \<Rightarrow> int \<Rightarrow> string \<Rightarrow> unit tx" where
  "insert_criterion requestId i c =
     bindT generateId (\<lambda>cid.
     insertP ''acceptance_criteria'' acceptance_criteria acceptance_criteria_update ac_id
       \<lparr>ac_id = cid, ac_feature_request_id = requestId, ac_description = c, ac_order_index = i\<rparr>)"

definition insert_expectation :: "string \<Rightarrow> int \<Rightarrow> string \<times> test_type option \<Rightarrow> unit tx" where
  "insert_expectation requestId i te =
     bindT generateId (\<lambda>tid.
     insertP ''test_expectations'' test_expectations test_expectations_update te_id
       \<lparr>te_id = tid, te_feature_request_id = requestId, te_description = fst te, te_test_type = snd te,
        te_order_index = i\<rparr>)"

text \<open>
  The first loop: \<open>idByFrId\<close> is the map the loop fills, a later entry for the same \<open>frId\<close>
  replacing an earlier one.
\<close>

fun generate_requests ::
    "string \<Rightarrow> string \<Rightarrow> int \<Rightarrow> (string \<Rightarrow> string option) \<Rightarrow> feature_input list
      \<Rightarrow> (string \<Rightarrow> string option) tx" where
  "generate_requests planId projectId now idByFrId [] = returnT idByFrId"
| "generate_requests planId projectId now idByFrId (f # fs) =
     bindT generateId (\<lambda>i.
     bindT (insert_request planId projectId now i f) (\<lambda>_.
     bindT (forIndexT 0 (insert_criterion i) (fi_acceptanceCriteria f)) (\<lambda>_.
     bindT (forIndexT 0 (insert_expectation i) (fi_testExpectations f)) (\<lambda>_.
     generate_requests planId projectId now (idByFrId(pf_frId f \<mapsto> i)) fs))))"

definition generate_dependencies ::
    "'p envelope \<Rightarrow> (string \<Rightarrow> string option) \<Rightarrow> feature_input \<Rightarrow> unit tx" where
  "generate_dependencies envelope idByFrId f =
     forEachT (\<lambda>targetFrId.
       case idByFrId targetFrId of
         None \<Rightarrow> throwT (commandError ''unknown-dependency'' ''Unknown feature dependency'' 400
                   (''Feature '' @ pf_frId f @ '' depends on unknown fr_id \"'' @ targetFrId @ ''\"'')
                   (Some (correlationId envelope)))
       | Some targetId \<Rightarrow> insert_dependency (the (idByFrId (pf_frId f))) targetId)
       (pf_dependsOnFrIds f)"

definition GenerateFeatureBacklog_body :: "generate_backlog_payload envelope \<Rightarrow> command_result tx" where
  "GenerateFeatureBacklog_body envelope =
     (let projectId = gb_projectId (payload envelope);
          planId = gb_planId (payload envelope);
          features = gb_features (payload envelope) in
      bindT (queryT (find_plan planId projectId)) (\<lambda>found.
      case found of
        None \<Rightarrow> throwT (not_found envelope ''Implementation plan not found''
                  (''Plan '' @ planId @ '' not found in project '' @ projectId))
      | Some plan \<Rightarrow>
      bindT (queryT clock) (\<lambda>now.
      bindT (generate_requests planId projectId now (\<lambda>_. None) features) (\<lambda>idByFrId.
      bindT (forEachT (generate_dependencies envelope idByFrId) features) (\<lambda>_.
      bindT (invalidate_backlog planId now) (\<lambda>_.
      bindT (writeWorkflowEvent None (Some projectId) ''backlog.generated'' ''none'' ''generated''
               (actor_id (env_actor envelope)) None) (\<lambda>eventId.
      bindT (writeOutboxEvent ''backlog.generated''
               [(''projectId'', JStr projectId), (''planId'', JStr planId),
                (''featureCount'', JInt (int (length features)))]) (\<lambda>_.
      bindT (case pl_assessment_id plan of
               None \<Rightarrow> returnT ()
             | Some assessmentId \<Rightarrow>
                 if assessmentId = [] then returnT ()
                 else warn_blocking_gaps envelope projectId
                        ''backlog.generated_with_unresolved_blocking_gaps'' ''generated'' planId assessmentId) (\<lambda>_.
      returnT (accepted_result envelope ''generated'' [eventId]))))))))))"

definition GenerateFeatureBacklogHandler :: "generate_backlog_payload handler" where
  "GenerateFeatureBacklogHandler =
     \<lparr>commandName = ''GenerateFeatureBacklogCommand'', requiredRole = ADMIN,
      requiredActorKind = Some SystemKind, idempotencyScope = ''generate-feature-backlog'',
      handler_execute = claimed_transaction ''generate-feature-backlog'' GenerateFeatureBacklog_body\<rparr>"

section \<open>Submission, approval, activation\<close>

record plan_payload =
  py_planId :: string
  py_projectId :: string
  py_expectedVersion :: int

definition plan_not_found :: "'p envelope \<Rightarrow> string \<Rightarrow> string \<Rightarrow> error" where
  "plan_not_found envelope planId projectId =
     not_found envelope ''Plan not found'' (''Plan '' @ planId @ '' not found in project '' @ projectId)"

definition pl_assertValid :: "PlanState \<Rightarrow> PlanState \<Rightarrow> unit tx" where
  "pl_assertValid = assertValidT PLAN_LIFECYCLE_MATRIX plan_state_str ''plan-lifecycle''"

definition SubmitPlanForApproval_body :: "plan_payload envelope \<Rightarrow> command_result tx" where
  "SubmitPlanForApproval_body envelope =
     (let planId = py_planId (payload envelope);
          projectId = py_projectId (payload envelope);
          expectedVersion = py_expectedVersion (payload envelope) in
      bindT (queryT (find_plan planId projectId)) (\<lambda>found.
      case found of
        None \<Rightarrow> throwT (plan_not_found envelope planId projectId)
      | Some _ \<Rightarrow>
      bindT (assertVersion ''implementation_plans'' planId pl_version found expectedVersion) (\<lambda>plan.
      bindT (pl_assertValid (pl_state plan) PL_PENDING_APPROVAL) (\<lambda>_.
      if pl_backlog_validated_state plan \<noteq> Some ''valid''
         \<or> pl_backlog_validated_version plan \<noteq> Some (pl_backlog_version plan)
      then throwT (commandError ''backlog-not-validated'' ''Backlog has not passed validation'' 409
             (''Plan '' @ planId @ '' requires a passing ValidateBacklogCommand run against its current ''
                @ ''backlog (backlog_version='' @ show_int (pl_backlog_version plan)
                @ '') before it can be submitted for approval'')
             (Some (correlationId envelope)))
      else
      bindT (queryT (\<lambda>s. case pl_assessment_id plan of
                          None \<Rightarrow> []
                        | Some a \<Rightarrow> if a = [] then [] else unresolved_blocking_gaps a s)) (\<lambda>gaps.
      if gaps \<noteq> []
      then throwT (commandError ''unresolved-blocking-gaps'' ''Unresolved blocking gaps'' 409
             (show_int (int (length gaps)) @ '' unresolved blocking gap(s) for assessment ''
                @ (case pl_assessment_id plan of None \<Rightarrow> ''null'' | Some a \<Rightarrow> a))
             (Some (correlationId envelope)))
      else
      bindT (queryT clock) (\<lambda>now.
      bindT (cas_plan planId expectedVersion PL_PENDING_APPROVAL (nextVersion (pl_version plan)) now) (\<lambda>affected.
      if affected = 0
      then throwT (OptimisticLockError ''implementation_plans'' planId expectedVersion (-1))
      else
      bindT (writeWorkflowEvent None (Some projectId) ''plan.submitted_for_approval''
               (plan_state_str PL_DRAFT) (plan_state_str PL_PENDING_APPROVAL)
               (actor_id (env_actor envelope)) None) (\<lambda>eventId.
      bindT (writeOutboxEvent ''plan.submitted_for_approval''
               [(''planId'', JStr planId), (''projectId'', JStr projectId)]) (\<lambda>_.
      returnT (accepted_result envelope (plan_state_str PL_PENDING_APPROVAL) [eventId]))))))))))"

definition SubmitPlanForApprovalHandler :: "plan_payload handler" where
  "SubmitPlanForApprovalHandler =
     \<lparr>commandName = ''SubmitPlanForApprovalCommand'', requiredRole = OPERATOR,
      requiredActorKind = Some Human, idempotencyScope = ''submit-plan-for-approval'',
      handler_execute = claimed_transaction ''submit-plan-for-approval'' SubmitPlanForApproval_body\<rparr>"

text \<open>
  \<open>plan/approve-plan.ts\<close>. Its INSERT into \<open>human_approvals\<close> names neither \<open>decision\<close> nor
  \<open>decided_at\<close>, which stay NULL; the optional notes of the payload are not used.
\<close>

definition ApprovePlan_body :: "plan_payload envelope \<Rightarrow> command_result tx" where
  "ApprovePlan_body envelope =
     (let planId = py_planId (payload envelope);
          projectId = py_projectId (payload envelope);
          expectedVersion = py_expectedVersion (payload envelope) in
      bindT (queryT (find_plan planId projectId)) (\<lambda>found.
      case found of
        None \<Rightarrow> throwT (plan_not_found envelope planId projectId)
      | Some _ \<Rightarrow>
      bindT (assertVersion ''implementation_plans'' planId pl_version found expectedVersion) (\<lambda>plan.
      bindT (pl_assertValid (pl_state plan) PL_APPROVED) (\<lambda>_.
      bindT (queryT clock) (\<lambda>now.
      bindT (cas_plan planId expectedVersion PL_APPROVED (nextVersion (pl_version plan)) now) (\<lambda>planAffected.
      if planAffected = 0
      then throwT (OptimisticLockError ''implementation_plans'' planId expectedVersion (-1))
      else
      bindT generateId (\<lambda>i.
      bindT (insertT ''human_approvals'' human_approvals human_approvals_update ha_id
               \<lparr>ha_id = i, ha_project_id = projectId, ha_feature_request_id = None,
                ha_feature_run_id = None, ha_context_type = ''plan_approval'',
                ha_context_id = Some planId, ha_decision = None,
                ha_actor = actor_id (env_actor envelope), ha_actor_role = actor_role (env_actor envelope),
                ha_notes = None, ha_decided_at = None, ha_updated_at = now\<rparr>) (\<lambda>_.
      bindT (writeWorkflowEvent None (Some projectId) ''plan.approved''
               (plan_state_str PL_PENDING_APPROVAL) (plan_state_str PL_APPROVED)
               (actor_id (env_actor envelope)) None) (\<lambda>eventId.
      bindT (writeOutboxEvent ''plan.approved''
               [(''planId'', JStr planId), (''projectId'', JStr projectId)]) (\<lambda>_.
      returnT (accepted_result envelope (plan_state_str PL_APPROVED) [eventId])))))))))))"

definition ApprovePlanHandler :: "plan_payload handler" where
  "ApprovePlanHandler =
     \<lparr>commandName = ''ApprovePlanCommand'', requiredRole = APPROVER,
      requiredActorKind = Some Human, idempotencyScope = ''approve-plan'',
      handler_execute = claimed_transaction ''approve-plan'' ApprovePlan_body\<rparr>"

text \<open>
  One run per executable request that has no first attempt yet. The new run has no fix attempts,
  the column's default.
\<close>

definition has_first_attempt :: "string \<Rightarrow> store \<Rightarrow> bool" where
  "has_first_attempt requestId s =
     list_ex (\<lambda>r. run_feature_request_id r = requestId \<and> run_attempt_no r = 1) (feature_runs s)"

definition fresh_run :: "string \<Rightarrow> string \<Rightarrow> int \<Rightarrow> feature_run_row" where
  "fresh_run i requestId now =
     \<lparr>run_id = i, run_feature_request_id = requestId, run_attempt_no = 1,
      run_state = FE_APPROVED_PENDING_EXECUTION, run_fix_attempt_count = 0, run_version = 1,
      run_updated_at = now\<rparr>"

fun activate_features :: "int \<Rightarrow> int \<Rightarrow> string list \<Rightarrow> int tx" where
  "activate_features now activatedCount [] = returnT activatedCount"
| "activate_features now activatedCount (f # fs) =
     bindT (queryT (has_first_attempt f)) (\<lambda>existing.
     if existing then activate_features now activatedCount fs
     else
     bindT generateId (\<lambda>i.
     bindT (insertT ''feature_runs'' feature_runs feature_runs_update run_id (fresh_run i f now)) (\<lambda>_.
     activate_features now (activatedCount + 1) fs)))"

definition executable_requests :: "string \<Rightarrow> store \<Rightarrow> string list" where
  "executable_requests planId s =
     map req_id (filter (\<lambda>q. req_plan_id q = planId \<and> req_kind q = FEATURE) (feature_requests s))"

definition ActivatePlan_body :: "plan_payload envelope \<Rightarrow> command_result tx" where
  "ActivatePlan_body envelope =
     (let planId = py_planId (payload envelope);
          projectId = py_projectId (payload envelope);
          expectedVersion = py_expectedVersion (payload envelope) in
      bindT (queryT (find_plan planId projectId)) (\<lambda>found.
      case found of
        None \<Rightarrow> throwT (plan_not_found envelope planId projectId)
      | Some _ \<Rightarrow>
      bindT (assertVersion ''implementation_plans'' planId pl_version found expectedVersion) (\<lambda>plan.
      bindT (pl_assertValid (pl_state plan) PL_ACTIVATED_FOR_EXECUTION) (\<lambda>_.
      bindT (queryT clock) (\<lambda>now.
      bindT (cas_plan planId expectedVersion PL_ACTIVATED_FOR_EXECUTION (nextVersion (pl_version plan)) now) (\<lambda>affected.
      if affected = 0
      then throwT (OptimisticLockError ''implementation_plans'' planId expectedVersion (-1))
      else
      bindT (queryT (executable_requests planId)) (\<lambda>executableFeatures.
      bindT (activate_features now 0 executableFeatures) (\<lambda>activatedFeatureCount.
      bindT (writeWorkflowEvent None (Some projectId) ''plan.activated''
               (plan_state_str PL_APPROVED) (plan_state_str PL_ACTIVATED_FOR_EXECUTION)
               (actor_id (env_actor envelope)) None) (\<lambda>eventId.
      bindT (writeOutboxEvent ''plan.activated''
               [(''planId'', JStr planId), (''projectId'', JStr projectId),
                (''activatedFeatureCount'', JInt activatedFeatureCount)]) (\<lambda>_.
      returnT (accepted_result envelope (plan_state_str PL_ACTIVATED_FOR_EXECUTION) [eventId])))))))))))"

definition ActivatePlanHandler :: "plan_payload handler" where
  "ActivatePlanHandler =
     \<lparr>commandName = ''ActivatePlanCommand'', requiredRole = APPROVER,
      requiredActorKind = Some Human, idempotencyScope = ''activate-plan'',
      handler_execute = claimed_transaction ''activate-plan'' ActivatePlan_body\<rparr>"

section \<open>What the commands guarantee\<close>

lemma planning_statements:
  "planb.keeps (cl_assertValid a b)" "planb.keeps (pl_assertValid c d)"
  "planb.keeps (insert_gap i now g)" "planb.keeps (insert_question i now q)"
  "planb.keeps (insert_assumption i now x)" "planb.keeps (insert_session i p sp ass st now)"
  "planb.keeps (insert_section i k sec)" "planb.keeps (insert_criterion i k cr)"
  "planb.keeps (insert_expectation i k te)"
  by (simp_all add: cl_assertValid_def pl_assertValid_def insert_gap_def insert_question_def
      insert_assumption_def insert_session_def insert_section_def insert_criterion_def insert_expectation_def)
    (intro plan_rules)+

lemma planb_warn: "planb.keeps (warn_blocking_gaps envelope p ty st pl a)"
  unfolding warn_blocking_gaps_def by (intro plan_rules)

lemma planb_insert_request: "planb.keeps (insert_request pl p now i f)"
  unfolding insert_request_def by (rule planb_insertUnique) (simp add: plan_guarantee_defs)

lemma planb_insert_dependency: "planb.keeps (insert_dependency a b)"
  unfolding insert_dependency_def
  by (intro plan_rules planb_insertUnique) (simp add: plan_guarantee_defs)

lemmas planning_rules =
  plan_rules planning_statements planb_warn planb_insert_request planb_insert_dependency

lemma planb_generate_requests: "planb.keeps (generate_requests pl p now m fs)"
  by (induction fs arbitrary: m) (auto intro!: planning_rules)

lemma planb_generate_dependencies: "planb.keeps (generate_dependencies envelope m f)"
  unfolding generate_dependencies_def by (intro planning_rules)

lemma planb_activate: "planb.keeps (activate_features now n fs)"
proof (induction fs arbitrary: n)
  case (Cons f fs)
  have "planb.keeps (insertT ''feature_runs'' feature_runs feature_runs_update run_id (fresh_run i f now))" for i
    by (rule planb_insertT)
      (simp add: plan_guarantee_defs rows_begin_append first_attempt_def fresh_run_def)
  with Cons show ?case by (auto intro!: planning_rules)
qed auto

lemma planning_evolves:
  "planb.keeps (IngestSpecification_body e1)" "planb.keeps (AssessPlanningReadiness_body out e2)"
  "planb.keeps (ResolvePlanningGap_body e3)" "planb.keeps (GenerateImplementationPlan_body e4)"
  "planb.keeps (GenerateFeatureBacklog_body e5)" "planb.keeps (SubmitPlanForApproval_body e6)"
  "planb.keeps (ApprovePlan_body e7)" "planb.keeps (ActivatePlan_body e8)"
  unfolding IngestSpecification_body_def AssessPlanningReadiness_body_def ResolvePlanningGap_body_def
    GenerateImplementationPlan_body_def GenerateFeatureBacklog_body_def SubmitPlanForApproval_body_def
    ApprovePlan_body_def ActivatePlan_body_def
  by (intro planning_rules planb_generate_requests planb_generate_dependencies planb_activate)+

end
