(* ===== verification/BacklogCommands.thy ===== *)
theory BacklogCommands
  imports Planning
begin

text \<open>
  The commands on the backlog as a whole: \<open>import-backlog.ts\<close>, \<open>validate-backlog.ts\<close>,
  \<open>export-backlog.ts\<close> and \<open>export-plan.ts\<close> of \<open>commands/handlers/planning\<close>. Their slots live for a
  day. Two of them are not plain claimed transactions: the import validates before its transaction
  and answers a dry run without one, and the validation reports a bad backlog after its transaction
  has committed the outcome.
\<close>

section \<open>Import\<close>

record import_payload =
  ib_projectId :: string
  ib_planId :: string
  ib_features :: "parsed_feature list"
  ib_dryRun :: bool

text \<open>The first pair of a feature and a dependency that no feature of the payload answers to.\<close>

definition unknown_dependency :: "parsed_feature list \<Rightarrow> (string \<times> string) option" where
  "unknown_dependency features =
     first_row (filter (\<lambda>(f, d). d \<notin> pf_frId ` set features)
       (concat (map (\<lambda>f. map (\<lambda>d. (pf_frId f, d)) (pf_dependsOnFrIds f)) features)))"

definition import_plan_not_found :: "import_payload envelope \<Rightarrow> error" where
  "import_plan_not_found envelope =
     not_found envelope ''Implementation plan not found''
       (''Plan '' @ ib_planId (payload envelope) @ '' not found in project '' @ ib_projectId (payload envelope))"

definition import_check :: "import_payload envelope \<Rightarrow> store \<Rightarrow> error option" where
  "import_check envelope s =
     (let features = ib_features (payload envelope);
          duplicates = later_occurrences [] (map pf_frId features) in
      if duplicates \<noteq> []
      then Some (commandError ''duplicate-fr-id'' ''Duplicate feature id in import payload'' 400
             (''Duplicate fr_id(s) in import payload: '' @ js_join '', '' (first_occurrences [] duplicates))
             (Some (correlationId envelope)))
      else (case unknown_dependency features of
        Some (f, d) \<Rightarrow>
          Some (commandError ''unknown-dependency'' ''Unknown feature dependency in import payload'' 400
             (''Feature '' @ f @ '' depends on unknown fr_id \"'' @ d @ ''\"'')
             (Some (correlationId envelope)))
      | None \<Rightarrow>
          (if find_plan (ib_planId (payload envelope)) (ib_projectId (payload envelope)) s = None
           then Some (import_plan_not_found envelope) else None)))"

fun import_requests ::
    "string \<Rightarrow> string \<Rightarrow> int \<Rightarrow> (string \<Rightarrow> string option) \<Rightarrow> parsed_feature list
      \<Rightarrow> (string \<Rightarrow> string option) tx" where
  "import_requests planId projectId now idByFrId [] = returnT idByFrId"
| "import_requests planId projectId now idByFrId (f # fs) =
     bindT generateId (\<lambda>i.
     bindT (insert_request planId projectId now i f) (\<lambda>_.
     import_requests planId projectId now (idByFrId(pf_frId f \<mapsto> i)) fs))"

definition import_dependencies :: "(string \<Rightarrow> string option) \<Rightarrow> parsed_feature \<Rightarrow> unit tx" where
  "import_dependencies idByFrId f =
     forEachT (\<lambda>targetFrId. insert_dependency (the (idByFrId (pf_frId f))) (the (idByFrId targetFrId)))
       (pf_dependsOnFrIds f)"

definition ImportBacklog_body :: "import_payload envelope \<Rightarrow> command_result tx" where
  "ImportBacklog_body envelope =
     (let projectId = ib_projectId (payload envelope);
          planId = ib_planId (payload envelope);
          features = ib_features (payload envelope) in
      bindT (queryT (find_plan planId projectId)) (\<lambda>found.
      if found = None
      then throwT (import_plan_not_found envelope)
      else
      bindT (queryT clock) (\<lambda>now.
      bindT (import_requests planId projectId now (\<lambda>_. None) features) (\<lambda>idByFrId.
      bindT (forEachT (import_dependencies idByFrId) features) (\<lambda>_.
      bindT generateId (\<lambda>i.
      bindT (insertT ''human_approvals'' human_approvals human_approvals_update ha_id
               \<lparr>ha_id = i, ha_project_id = projectId, ha_feature_request_id = None,
                ha_feature_run_id = None, ha_context_type = ''backlog_import'',
                ha_context_id = Some planId, ha_decision = Some DEC_APPROVED,
                ha_actor = actor_id (env_actor envelope), ha_actor_role = actor_role (env_actor envelope),
                ha_notes = None, ha_decided_at = None, ha_updated_at = now\<rparr>) (\<lambda>_.
      bindT (invalidate_backlog planId now) (\<lambda>_.
      bindT (writeWorkflowEvent None (Some projectId) ''backlog.imported'' ''none'' ''imported''
               (actor_id (env_actor envelope)) None) (\<lambda>eventId.
      bindT (writeOutboxEvent ''backlog.imported''
               [(''projectId'', JStr projectId), (''planId'', JStr planId),
                (''featureCount'', JInt (int (length features)))]) (\<lambda>_.
      returnT (accepted_result envelope ''imported'' [eventId])))))))))))"

definition ImportBacklogHandler :: "import_payload handler" where
  "ImportBacklogHandler =
     \<lparr>commandName = ''ImportBacklogCommand'', requiredRole = APPROVER,
      requiredActorKind = Some Human, idempotencyScope = ''import-backlog'',
      handler_execute = (\<lambda>envelope.
        bindA (queryA (import_check envelope)) (\<lambda>problem.
        case problem of
          Some e \<Rightarrow> throwA e
        | None \<Rightarrow>
            if ib_dryRun (payload envelope) then returnA (accepted_result envelope ''previewed'' [])
            else claimed_transaction_ttl DAY_TTL_MS ''import-backlog'' ImportBacklog_body envelope))\<rparr>"

section \<open>Validation\<close>

record validate_payload =
  vb_projectId :: string
  vb_planId :: string

definition plan_features :: "string \<Rightarrow> string \<Rightarrow> store \<Rightarrow> feature_request_row list" where
  "plan_features planId projectId s =
     filter (\<lambda>q. req_plan_id q = planId \<and> req_project_id q = projectId) (feature_requests s)"

text \<open>
  \<open>SELECT ... FROM feature_dependencies fd JOIN feature_requests fr ON fd.source_fr_id = fr.id WHERE
  fr.plan_id = ?\<close>, request identifiers being unique.
\<close>

definition plan_dependencies :: "string \<Rightarrow> store \<Rightarrow> (string \<times> string) list" where
  "plan_dependencies planId s =
     map (\<lambda>d. (dep_source_fr_id d, dep_target_fr_id d))
       (filter (\<lambda>d. list_ex (\<lambda>q. req_id q = dep_source_fr_id d \<and> req_plan_id q = planId) (feature_requests s))
          (feature_dependencies s))"

definition backlog_problems :: "feature_request_row list \<Rightarrow> (string \<times> string) list \<Rightarrow> store \<Rightarrow> string list" where
  "backlog_problems features deps s =
     (if hasCycle (map req_id features) deps then [''feature_dependencies contains a cycle''] else [])
     @ concat (map (\<lambda>f.
         if req_kind f \<noteq> FEATURE then []
         else
           (if list_ex (\<lambda>c. ac_feature_request_id c = req_id f) (acceptance_criteria (planning s)) then []
            else [req_fr_id f @ '' has no acceptance criteria''])
           @ (if list_ex (\<lambda>e. te_feature_request_id e = req_id f) (test_expectations (planning s)) then []
              else [req_fr_id f @ '' has no test expectations'']))
         features)"

text \<open>
  The body of the transaction; the problems are the second part of what it returns. \<open>with_claim\<close>
  is written out, because a replay returns no problems.
\<close>

definition ValidateBacklog_body :: "validate_payload envelope \<Rightarrow> (command_result \<times> string list) tx" where
  "ValidateBacklog_body envelope =
     (let projectId = vb_projectId (payload envelope);
          planId = vb_planId (payload envelope) in
      bindT (queryT (plan_features planId projectId)) (\<lambda>features.
      if features = []
      then throwT (commandError ''empty-backlog'' ''Backlog is empty'' 409
             (''Plan '' @ planId @ '' has no feature requests to validate'') (Some (correlationId envelope)))
      else
      bindT (queryT (plan_dependencies planId)) (\<lambda>deps.
      bindT (queryT (backlog_problems features deps)) (\<lambda>problems.
      (let resultingState = (if problems = [] then ''valid'' else ''invalid'') in
      bindT (queryT clock) (\<lambda>now.
      bindT (updateP implementation_plans implementation_plans_update (\<lambda>p. pl_id p = planId)
               (\<lambda>p. p\<lparr>pl_backlog_validated_at := Some now, pl_backlog_validated_state := Some resultingState,
                      pl_backlog_validated_version := Some (pl_backlog_version p), pl_updated_at := now\<rparr>)) (\<lambda>_.
      bindT (writeWorkflowEvent None (Some projectId) ''backlog.validated'' ''generated'' resultingState
               (actor_id (env_actor envelope)) None) (\<lambda>eventId.
      bindT (writeOutboxEvent ''backlog.validated''
               [(''projectId'', JStr projectId), (''planId'', JStr planId),
                (''resultingState'', JStr resultingState), (''problems'', JArr (map JStr problems))]) (\<lambda>_.
      returnT ((accepted_result envelope resultingState [eventId])\<lparr>res_accepted := (resultingState = ''valid'')\<rparr>,
               problems))))))))))"

definition ValidateBacklog_tx :: "validate_payload envelope \<Rightarrow> (command_result \<times> string list) tx" where
  "ValidateBacklog_tx envelope =
     bindT (claimIdempotencyKey (idempotencyKey envelope) ''validate-backlog'' DAY_TTL_MS) (\<lambda>claim.
     case claim of
       NotOwned result \<Rightarrow> returnT (result, [])
     | Owned claimId \<Rightarrow>
         bindT (ValidateBacklog_body envelope) (\<lambda>(result, problems).
         bindT (fulfillIdempotencyKey claimId result) (\<lambda>_.
         returnT (result, problems))))"

definition ValidateBacklogHandler :: "validate_payload handler" where
  "ValidateBacklogHandler =
     \<lparr>commandName = ''ValidateBacklogCommand'', requiredRole = ADMIN,
      requiredActorKind = Some SystemKind, idempotencyScope = ''validate-backlog'',
      handler_execute = (\<lambda>envelope.
        bindA (transaction (ValidateBacklog_tx envelope)) (\<lambda>(result, problems).
        if res_resultingState result = ''invalid''
        then throwA (commandError ''backlog-invalid'' ''Backlog failed quality validation'' 422
               (js_join ''; '' problems) (Some (correlationId envelope)))
        else returnA result))\<rparr>"

section \<open>Exports\<close>

record export_payload =
  ex_projectId :: string
  ex_planId :: string

definition ae_assertValid :: "ArtifactExportState \<Rightarrow> ArtifactExportState \<Rightarrow> unit tx" where
  "ae_assertValid = assertValidT ARTIFACT_EXPORT_MATRIX artifact_state_str ''artifact-export''"

text \<open>
  What the two exports do once they know what to write: the row goes from \<open>pending\<close> over
  \<open>generating\<close> to \<open>exported\<close> within the transaction; the two final writes are the caller's payload
  and the event.
\<close>

definition export_artifact ::
    "'p envelope \<Rightarrow> string \<Rightarrow> string \<Rightarrow> string \<Rightarrow> (string \<Rightarrow> (string \<times> json) list) \<Rightarrow> command_result tx" where
  "export_artifact envelope projectId artifactType markdown pay =
     bindT (queryT clock) (\<lambda>now.
     bindT generateId (\<lambda>artifactExportId.
     bindT (insertP ''artifact_exports'' artifact_exports artifact_exports_update ae_id
              \<lparr>ae_id = artifactExportId, ae_project_id = projectId, ae_artifact_type = artifactType,
               ae_state = AE_PENDING, ae_content = None, ae_format = ''markdown'',
               ae_design_document_id = None, ae_exported_at = None, ae_version = 1, ae_created_at = now, ae_updated_at = now\<rparr>) (\<lambda>_.
     bindT (ae_assertValid AE_PENDING AE_GENERATING) (\<lambda>_.
     bindT (updateP artifact_exports artifact_exports_update (\<lambda>a. ae_id a = artifactExportId)
              (\<lambda>a. a\<lparr>ae_state := AE_GENERATING, ae_version := 2, ae_updated_at := now\<rparr>)) (\<lambda>_.
     bindT (ae_assertValid AE_GENERATING AE_EXPORTED) (\<lambda>_.
     bindT (queryT clock) (\<lambda>exportedAt.
     bindT (updateP artifact_exports artifact_exports_update (\<lambda>a. ae_id a = artifactExportId)
              (\<lambda>a. a\<lparr>ae_state := AE_EXPORTED, ae_content := Some markdown, ae_exported_at := Some exportedAt,
                     ae_version := 3, ae_updated_at := exportedAt\<rparr>)) (\<lambda>_.
     bindT (writeWorkflowEvent None (Some projectId) ''artifact_export.exported''
              (artifact_state_str AE_PENDING) (artifact_state_str AE_EXPORTED)
              (actor_id (env_actor envelope)) None) (\<lambda>eventId.
     bindT (writeOutboxEvent ''artifact_export.exported'' (pay artifactExportId)) (\<lambda>_.
     returnT (accepted_result envelope (artifact_state_str AE_EXPORTED) [eventId])))))))))))"

text \<open>\<open>... WHERE plan_id = ? AND project_id = ? ORDER BY priority ASC, fr_id ASC\<close>.\<close>

definition exported_features :: "string \<Rightarrow> string \<Rightarrow> store \<Rightarrow> feature_request_row list" where
  "exported_features planId projectId s =
     order_by (\<lambda>a b. req_priority a < req_priority b
                 \<or> (req_priority a = req_priority b \<and> req_fr_id a < req_fr_id b))
       (plan_features planId projectId s)"

definition entry_of :: "feature_request_row \<Rightarrow> feature_entry" where
  "entry_of q =
     \<lparr>fe_fr_id = req_fr_id q, fe_title = req_title q, fe_description = req_description q, fe_kind = req_kind q\<rparr>"

definition ExportBacklog_body :: "export_payload envelope \<Rightarrow> command_result tx" where
  "ExportBacklog_body envelope =
     (let projectId = ex_projectId (payload envelope);
          planId = ex_planId (payload envelope) in
      bindT (queryT (exported_features planId projectId)) (\<lambda>features.
      if features = []
      then throwT (not_found envelope ''No feature requests to export''
             (''Plan '' @ planId @ '' in project '' @ projectId @ '' has no feature requests''))
      else
        export_artifact envelope projectId ''backlog'' (render_backlog (map entry_of features))
          (\<lambda>artifactExportId.
             [(''projectId'', JStr projectId), (''planId'', JStr planId),
              (''artifactExportId'', JStr artifactExportId),
              (''featureCount'', JInt (int (length features)))])))"

definition ExportBacklogHandler :: "export_payload handler" where
  "ExportBacklogHandler =
     \<lparr>commandName = ''ExportBacklogCommand'', requiredRole = OPERATOR,
      requiredActorKind = Some Human, idempotencyScope = ''export-backlog'',
      handler_execute = claimed_transaction_ttl DAY_TTL_MS ''export-backlog'' ExportBacklog_body\<rparr>"

definition sections_of_plan :: "string \<Rightarrow> store \<Rightarrow> plan_section_row list" where
  "sections_of_plan planId s =
     order_by (\<lambda>a b. ps_order_index a < ps_order_index b)
       (filter (\<lambda>x. ps_plan_id x = planId) (plan_sections (planning s)))"

definition render_plan :: "plan_row \<Rightarrow> plan_section_row list \<Rightarrow> string" where
  "render_plan plan sections =
     join_lines ([''# '' @ pl_title plan, [], (case pl_summary plan of None \<Rightarrow> [] | Some x \<Rightarrow> x), []]
       @ concat (map (\<lambda>x. [''## '' @ ps_title x, [], ps_content x, []]) sections))"

definition ExportPlan_body :: "export_payload envelope \<Rightarrow> command_result tx" where
  "ExportPlan_body envelope =
     (let projectId = ex_projectId (payload envelope);
          planId = ex_planId (payload envelope) in
      bindT (queryT (find_plan planId projectId)) (\<lambda>found.
      case found of
        None \<Rightarrow> throwT (plan_not_found envelope planId projectId)
      | Some plan \<Rightarrow>
      bindT (queryT (sections_of_plan planId)) (\<lambda>sections.
        export_artifact envelope projectId ''plan'' (render_plan plan sections)
          (\<lambda>artifactExportId.
             [(''projectId'', JStr projectId), (''planId'', JStr planId),
              (''artifactExportId'', JStr artifactExportId)]))))"

definition ExportPlanHandler :: "export_payload handler" where
  "ExportPlanHandler =
     \<lparr>commandName = ''ExportPlanCommand'', requiredRole = OPERATOR,
      requiredActorKind = Some Human, idempotencyScope = ''export-plan'',
      handler_execute = claimed_transaction_ttl DAY_TTL_MS ''export-plan'' ExportPlan_body\<rparr>"

section \<open>What the commands guarantee\<close>

lemma planb_import_requests: "planb.keeps (import_requests pl p now m fs)"
  by (induction fs arbitrary: m) (auto intro!: planning_rules)

lemma planb_import_dependencies: "planb.keeps (import_dependencies m f)"
  unfolding import_dependencies_def by (intro planning_rules)

lemma planb_export_artifact: "planb.keeps (export_artifact e p ty md pay)"
  unfolding export_artifact_def ae_assertValid_def by (intro planning_rules)

lemma backlog_evolves:
  "planb.keeps (ImportBacklog_body e1)" "planb.keeps (ValidateBacklog_body e2)"
  "planb.keeps (ExportBacklog_body e3)" "planb.keeps (ExportPlan_body e4)"
  unfolding ImportBacklog_body_def ValidateBacklog_body_def ExportBacklog_body_def ExportPlan_body_def
  by (intro planning_rules planb_import_requests planb_import_dependencies planb_export_artifact)+

text \<open>The validation's transaction is a claimed one, but for the problems it returns beside its result.\<close>

lemma ValidateBacklog_tx_claim:
  assumes "ValidateBacklog_tx e s = Inr ((result, problems), t)"
  shows "with_claim_ttl DAY_TTL_MS (idempotencyKey e) ''validate-backlog''
           (bindT (ValidateBacklog_body e) (\<lambda>(r, _). returnT r)) s = Inr (result, t)"
  using assms
  by (auto simp: ValidateBacklog_tx_def with_claim_ttl_def bindT_def returnT_def
      split: sum.splits prod.splits claim.splits)

lemma planb_result: "planb.keeps (bindT (ValidateBacklog_body e) (\<lambda>(r, _). returnT r))"
  by (rule planb.keeps_bindT [OF backlog_evolves(2)]) (auto split: prod.split)

lemma ValidateBacklog_transaction:
  "plan.keepsA (transaction (ValidateBacklog_tx e))" "slots.keepsA (transaction (ValidateBacklog_tx e))"
proof -
  let ?m = "with_claim_ttl DAY_TTL_MS (idempotencyKey e) ''validate-backlog''
              (bindT (ValidateBacklog_body e) (\<lambda>(r, _). returnT r))"
  have eq: "snd (transaction (ValidateBacklog_tx e) s) = s
      \<or> (\<exists>r. transaction ?m s = (Inr r, snd (transaction (ValidateBacklog_tx e) s)))" for s
    by (auto simp: transaction_def split: sum.splits dest!: ValidateBacklog_tx_claim)
  have "plan.keepsA (transaction ?m)"
    by (intro plan.keeps_transaction plan.keeps_with_claim plan_keeps_body planb_result)
  then show "plan.keepsA (transaction (ValidateBacklog_tx e))"
    unfolding plan.keepsA_def using eq plan_evolves_refl by (metis snd_conv)
  have "slots.keepsA (transaction ?m)"
    by (intro slots.keeps_transaction with_claim_slots frame_keeps_plan planb_result)
  then show "slots.keepsA (transaction (ValidateBacklog_tx e))"
    unfolding slots.keepsA_def using eq slots.R_refl by (metis snd_conv)
qed

end
