(* ===== verification/DesignDoc.thy ===== *)
theory DesignDoc
  imports Backlog PlanningStore
begin

text \<open>
  The final design document: \<open>packages/core/src/design-doc\<close> (the required sections, the evidence,
  what is made of the adapter's answer, the Markdown) and the writer of its sections. Strings are
  8-bit; the line terminators U+2028 and U+2029 do not occur.
\<close>

section \<open>Sections\<close>

definition DESIGN_DOCUMENT_SECTION_NAMES :: "string list" where
  "DESIGN_DOCUMENT_SECTION_NAMES =
     [''Purpose and Scope'',
      ''Goals and Constraints'',
      ''System Context'',
      ''Architecture Overview'',
      ''Component Design'',
      ''Data Design'',
      ''API and Interface Design'',
      ''Workflows and Runtime Behavior'',
      ''Deployment and Infrastructure'',
      ''Observability and Operations'',
      ''Testing Strategy'',
      ''Design Decisions'',
      ''Glossary'']"

text \<open>
  \<open>/^\(no content (generated|drafted) for .+\)$/\<close> on the trimmed content; \<open>placeholder\<close> is the marker
  the generator itself writes.
\<close>

definition placeholder_with :: "string \<Rightarrow> string \<Rightarrow> bool" where
  "placeholder_with verb s =
     (case strip_prefix (''(no content '' @ verb @ '' for '') s of
        None \<Rightarrow> False
      | Some r \<Rightarrow> 2 \<le> length r \<and> last r = CHR '')'' \<and> list_all js_dot (butlast r))"

definition isPlaceholderSectionContent :: "string \<Rightarrow> bool" where
  "isPlaceholderSectionContent content =
     (placeholder_with ''generated'' (trim content) \<or> placeholder_with ''drafted'' (trim content))"

definition placeholder :: "string \<Rightarrow> string" where
  "placeholder sectionName = ''(no content generated for '' @ sectionName @ '')''"

text \<open>What the adapter answers, a section's name with its content.\<close>

record documentation_output =
  do_documentId :: string
  do_sections :: "(string \<times> string) list"
  do_requiresRevision :: bool

text \<open>\<open>new Map(xs.map(...)).get(key)\<close>: the last entry of a key counts.\<close>

definition js_map_get :: "('k \<times> 'v) list \<Rightarrow> 'k \<Rightarrow> 'v option" where
  "js_map_get xs k = map_of (rev xs) k"

definition section_missing :: "string option \<Rightarrow> bool" where
  "section_missing content = (case content of None \<Rightarrow> True | Some c \<Rightarrow> trim c = [])"

definition normalizeDocumentationOutput :: "documentation_output \<Rightarrow> documentation_output" where
  "normalizeDocumentationOutput out =
     (let bySectionName = js_map_get (do_sections out);
          missing = list_ex (\<lambda>n. section_missing (bySectionName n)) DESIGN_DOCUMENT_SECTION_NAMES in
      \<lparr>do_documentId = do_documentId out,
       do_sections = map (\<lambda>n. (n, if section_missing (bySectionName n) then placeholder n
                                   else the (bySectionName n))) DESIGN_DOCUMENT_SECTION_NAMES,
       do_requiresRevision = (do_requiresRevision out \<or> missing)\<rparr>)"

section \<open>Evidence\<close>

record design_document_evidence =
  ev_project :: project_row
  ev_features :: "feature_request_row list"
  ev_mergedPullRequests :: "pull_request_row list"
  ev_designDecisions :: "design_decision_row list"
  ev_glossaryTerms :: "glossary_term_row list"
  ev_tableCount :: int
  ev_adapterCount :: int

definition find_project :: "string \<Rightarrow> store \<Rightarrow> project_row option" where
  "find_project projectId s = first_row (filter (\<lambda>p. pj_id p = projectId) (projects (planning s)))"

definition project_requests :: "string \<Rightarrow> store \<Rightarrow> feature_request_row list" where
  "project_requests projectId s = filter (\<lambda>q. req_project_id q = projectId) (feature_requests s)"

definition design_decisions_of :: "string \<Rightarrow> store \<Rightarrow> design_decision_row list" where
  "design_decisions_of projectId s =
     order_by (\<lambda>a b. dn_created_at a < dn_created_at b)
       (filter (\<lambda>d. dn_project_id d = projectId) (design_decisions (planning s)))"

definition glossary_of :: "string \<Rightarrow> store \<Rightarrow> glossary_term_row list" where
  "glossary_of projectId s =
     order_by (\<lambda>a b. gt_term a < gt_term b)
       (filter (\<lambda>g. gt_project_id g = Some projectId \<or> gt_project_id g = None) (glossary_terms (planning s)))"

text \<open>A pull request of a run of a request of the project.\<close>

definition merged_pull_requests :: "string \<Rightarrow> store \<Rightarrow> pull_request_row list" where
  "merged_pull_requests projectId s =
     order_by (\<lambda>a b. pr_number a < pr_number b)
       (filter (\<lambda>p. pr_state p = ''merged''
                  \<and> list_ex (\<lambda>r. run_id r = pr_feature_run_id p \<and> run_in_project projectId s r) (feature_runs s))
          (pull_requests s))"

definition collectDesignDocumentEvidence :: "string \<Rightarrow> design_document_evidence db_action" where
  "collectDesignDocumentEvidence projectId =
     bindA (queryA (find_project projectId)) (\<lambda>found.
     case found of
       None \<Rightarrow> throwA (OtherError (''Project '' @ projectId @ '' not found''))
     | Some project \<Rightarrow>
     bindA (queryA (\<lambda>s. order_by (\<lambda>a b. req_priority a < req_priority b
                            \<or> (req_priority a = req_priority b \<and> req_fr_id a < req_fr_id b))
                          (project_requests projectId s))) (\<lambda>features.
     queryA (\<lambda>s.
       \<lparr>ev_project = project, ev_features = features,
        ev_mergedPullRequests = merged_pull_requests projectId s,
        ev_designDecisions = design_decisions_of projectId s,
        ev_glossaryTerms = glossary_of projectId s,
        ev_tableCount = int (length features),
        ev_adapterCount = int (length (agent_adapters (agents s)))\<rparr>)))"

record documentation_input =
  di_projectId :: string
  di_planId :: string
  di_featureCount :: int
  di_correlationId :: string

definition buildDocumentationInput ::
    "design_document_evidence \<Rightarrow> string \<Rightarrow> string \<Rightarrow> documentation_input" where
  "buildDocumentationInput evidence planId corr =
     \<lparr>di_projectId = pj_id (ev_project evidence), di_planId = planId,
      di_featureCount = int (length (ev_features evidence)), di_correlationId = corr\<rparr>"

section \<open>Markdown\<close>

text \<open>\<open>value.replace(/\|/g, '\\|').replace(/\r\n|\r|\n/g, ' ')\<close>.\<close>

fun escape_pipes :: "string \<Rightarrow> string" where
  "escape_pipes [] = []"
| "escape_pipes (c # cs) = (if c = CHR ''|'' then [CHR 0x5C, c] else [c]) @ escape_pipes cs"

fun join_rows :: "string \<Rightarrow> string" where
  "join_rows [] = []"
| "join_rows (c # cs) =
     (if c = CHR 0x0D
      then CHR '' '' # (case cs of [] \<Rightarrow> [] | d # ds \<Rightarrow> if d = CHR 0x0A then join_rows ds else join_rows cs)
      else (if c = CHR 0x0A then CHR '' '' else c) # join_rows cs)"

definition escapeTableCell :: "string \<Rightarrow> string" where
  "escapeTableCell value = join_rows (escape_pipes value)"

definition table_row :: "string list \<Rightarrow> string" where
  "table_row cells = ''| '' @ js_join '' | '' (map escapeTableCell cells) @ '' |''"

definition section_lines ::
    "(string \<times> string option) list \<Rightarrow> design_decision_row list \<Rightarrow> glossary_term_row list \<Rightarrow> string
      \<Rightarrow> string list" where
  "section_lines sections decisions glossary n =
     [''## '' @ n, [],
      (case js_map_get sections n of Some (Some c) \<Rightarrow> c | _ \<Rightarrow> ''(no content)''), []]
     @ (if n = ''Design Decisions'' \<and> decisions \<noteq> []
        then [''| Title | Status | Decision |'', ''| --- | --- | --- |'']
             @ map (\<lambda>d. table_row [dn_title d, dn_status d, dn_decision d]) decisions @ [[]]
        else [])
     @ (if n = ''Glossary'' \<and> glossary \<noteq> []
        then [''| Term | Definition |'', ''| --- | --- |'']
             @ map (\<lambda>g. table_row [gt_term g, gt_definition g]) glossary @ [[]]
        else [])"

definition renderDesignDocumentMarkdown ::
    "string \<Rightarrow> (string \<times> string option) list \<Rightarrow> design_decision_row list \<Rightarrow> glossary_term_row list \<Rightarrow> string" where
  "renderDesignDocumentMarkdown projectName sections decisions glossary =
     join_lines ([''# Final Design Document: '' @ projectName, []]
       @ concat (map (section_lines sections decisions glossary) DESIGN_DOCUMENT_SECTION_NAMES))"

section \<open>The sections' table\<close>

text \<open>
  The upsert on \<open>(design_document_id, section_name)\<close>: that key is looked up before the primary key,
  whose violation by another row is an error. Each statement is a transaction of its own when the
  caller has none.
\<close>

definition upsert_section :: "string \<Rightarrow> int \<Rightarrow> int \<Rightarrow> string \<times> string \<Rightarrow> unit tx" where
  "upsert_section docId now index section =
     (let matches = (\<lambda>d. ds_design_document_id d = docId \<and> ds_section_name d = fst section) in
      bindT (queryT (\<lambda>s. list_ex matches (design_document_sections (planning s)))) (\<lambda>present.
      if present
      then bindT (updateP design_document_sections design_document_sections_update matches
                    (\<lambda>d. d\<lparr>ds_content := Some (snd section), ds_order_index := index,
                           ds_version := ds_version d + 1, ds_updated_at := now\<rparr>)) (\<lambda>_. returnT ())
      else insertP ''design_document_sections'' design_document_sections design_document_sections_update ds_id
             \<lparr>ds_id = ''design-doc-section:'' @ docId @ '':'' @ show_int index,
              ds_design_document_id = docId, ds_section_name = fst section,
              ds_content = Some (snd section), ds_order_index = index, ds_version = 1, ds_updated_at = now\<rparr>))"

fun write_sections :: "string \<Rightarrow> int \<Rightarrow> int \<Rightarrow> (string \<times> string) list \<Rightarrow> unit db_action" where
  "write_sections docId now index [] = returnA ()"
| "write_sections docId now index (x # xs) =
     bindA (transaction (upsert_section docId now index x)) (\<lambda>_. write_sections docId now (index + 1) xs)"

definition writeDesignDocumentSections :: "string \<Rightarrow> (string \<times> string) list \<Rightarrow> unit db_action" where
  "writeDesignDocumentSections docId sections =
     bindA (queryA clock) (\<lambda>now. write_sections docId now 0 sections)"

definition document_sections :: "string \<Rightarrow> store \<Rightarrow> design_document_section_row list" where
  "document_sections docId s =
     order_by (\<lambda>a b. ds_order_index a < ds_order_index b)
       (filter (\<lambda>d. ds_design_document_id d = docId) (design_document_sections (planning s)))"

text \<open>Which required sections an export still misses, \<open>missingOrBlank\<close>.\<close>

definition section_incomplete :: "design_document_section_row list \<Rightarrow> string \<Rightarrow> bool" where
  "section_incomplete rows n =
     (case first_row (filter (\<lambda>d. ds_section_name d = n) rows) of
        None \<Rightarrow> True
      | Some d \<Rightarrow> (case ds_content d of
                     None \<Rightarrow> True
                   | Some c \<Rightarrow> c = [] \<or> trim c = [] \<or> isPlaceholderSectionContent c))"

definition incomplete_sections :: "string \<Rightarrow> store \<Rightarrow> string list" where
  "incomplete_sections docId s = filter (section_incomplete (document_sections docId s)) DESIGN_DOCUMENT_SECTION_NAMES"

end
