(* ===== verification/Project.thy ===== *)
theory Project
  imports BacklogCommands DesignDoc
begin

text \<open>
  The project lifecycle, \<open>packages/core/src/commands/handlers/project\<close> and \<open>project/acceptance.ts\<close>:
  from \<open>active\<close> over the accepted implementation and the reviewed design document to
  \<open>project_complete\<close>.
\<close>

section \<open>The project row\<close>

definition PJ_assertValid :: "ProjectState \<Rightarrow> ProjectState \<Rightarrow> unit tx" where
  "PJ_assertValid = assertValidT PROJECT_LIFECYCLE_MATRIX project_state_str ''project-lifecycle''"

text \<open>\<open>UPDATE projects SET state = ?, version = ?, updated_at = ? WHERE id = ? AND version = ?\<close>.\<close>

definition cas_project :: "string \<Rightarrow> int \<Rightarrow> ProjectState \<Rightarrow> int \<Rightarrow> int \<Rightarrow> int tx" where
  "cas_project projectId expectedVersion to_s newVersion now =
     updateP projects projects_update (\<lambda>p. pj_id p = projectId \<and> pj_version p = expectedVersion)
       (\<lambda>p. p\<lparr>pj_state := to_s, pj_version := newVersion, pj_updated_at := now\<rparr>)"

definition project_not_found :: "string \<Rightarrow> error" where
  "project_not_found projectId =
     commandError ''not-found'' ''Project not found'' 404 (''Project '' @ projectId @ '' not found'') None"

text \<open>How seven of the handlers open: the row, its version, the transition.\<close>

definition project_for :: "string \<Rightarrow> int \<Rightarrow> ProjectState \<Rightarrow> project_row tx" where
  "project_for projectId expectedVersion to_s =
     bindT (queryT (find_project projectId)) (\<lambda>found.
     case found of
       None \<Rightarrow> throwT (project_not_found projectId)
     | Some _ \<Rightarrow>
     bindT (assertVersion ''projects'' projectId pj_version found expectedVersion) (\<lambda>project.
     bindT (PJ_assertValid (pj_state project) to_s) (\<lambda>_.
     returnT project)))"

definition move_project :: "string \<Rightarrow> int \<Rightarrow> ProjectState \<Rightarrow> project_row \<Rightarrow> int \<Rightarrow> unit tx" where
  "move_project projectId expectedVersion to_s project now =
     bindT (cas_project projectId expectedVersion to_s (nextVersion (pj_version project)) now) (\<lambda>affected.
     if affected = 0
     then throwT (OptimisticLockError ''projects'' projectId expectedVersion (-1))
     else returnT ())"

text \<open>How they end: the event, the outbox event, the result.\<close>

definition project_moved ::
    "'p envelope \<Rightarrow> string \<Rightarrow> string \<Rightarrow> ProjectState \<Rightarrow> ProjectState \<Rightarrow> (string \<times> json) list
      \<Rightarrow> command_result tx" where
  "project_moved envelope projectId eventType from_s to_s extra =
     bindT (writeWorkflowEvent None (Some projectId) eventType (project_state_str from_s) (project_state_str to_s)
              (actor_id (env_actor envelope)) None) (\<lambda>eventId.
     bindT (writeOutboxEvent eventType ((''projectId'', JStr projectId) # extra)) (\<lambda>_.
     returnT (accepted_result envelope (project_state_str to_s) [eventId])))"

section \<open>Creation\<close>

record create_project_payload =
  cp_id :: string
  cp_name :: string
  cp_description :: "string option"

definition CreateProject_body :: "create_project_payload envelope \<Rightarrow> command_result tx" where
  "CreateProject_body envelope =
     (let i = cp_id (payload envelope) in
      bindT (queryT (find_project i)) (\<lambda>existing.
      if existing \<noteq> None
      then throwT (commandError ''project-already-exists'' ''Project already exists'' 409
             (''A project with id '' @ [CHR 0x27] @ i @ [CHR 0x27] @ '' already exists.'')
             (Some (correlationId envelope)))
      else
      bindT (queryT clock) (\<lambda>now.
      bindT (insertP ''projects'' projects projects_update pj_id
               \<lparr>pj_id = i, pj_name = cp_name (payload envelope),
                pj_description = cp_description (payload envelope), pj_state = PJ_ACTIVE,
                pj_version = 1, pj_updated_at = now\<rparr>) (\<lambda>_.
      bindT generateId (\<lambda>wsId.
      bindT (insertUniqueT ''workflow_states'' workflow_states workflow_states_update ws_id ws_project_id
               \<lparr>ws_id = wsId, ws_project_id = i, ws_active_feature_run_id = None,
                ws_automation_state = AU_RUNNING, ws_version = 1, ws_updated_at = now\<rparr>) (\<lambda>_.
      bindT (writeWorkflowEvent None (Some i) ''project.created'' ''none'' ''active''
               (actor_id (env_actor envelope)) None) (\<lambda>eventId.
      returnT (accepted_result envelope ''active'' [eventId]))))))))"

definition CreateProjectHandler :: "create_project_payload handler" where
  "CreateProjectHandler =
     \<lparr>commandName = ''CreateProjectCommand'', requiredRole = OPERATOR,
      requiredActorKind = Some Human, idempotencyScope = ''create-project'',
      handler_execute = claimed_transaction ''create-project'' CreateProject_body\<rparr>"

section \<open>Project acceptance\<close>

record acceptance_check =
  ck_name :: string
  ck_passed :: bool
  ck_count :: nat

record acceptance_result =
  acc_projectId :: string
  acc_passed :: bool
  acc_checks :: "acceptance_check list"
  acc_externalChecksNotVerified :: "string list"

definition EXTERNAL_CHECKS_NOT_VERIFIED :: "string list" where
  "EXTERNAL_CHECKS_NOT_VERIFIED =
     [''full test suite (unit + integration + system scenarios)'',
      ''migration validation (cross-dialect apply/rollback)'',
      ''build (typecheck across the ordered package chain)'',
      ''lint'',
      ''security scan (pnpm audit/OSV + gitleaks + semgrep)'']"

definition terminal_execution :: "FeatureExecutionState \<Rightarrow> bool" where
  "terminal_execution st = (st = FE_MERGED \<or> st = FE_SKIPPED)"

text \<open>The runs of a request: those of the LEFT JOIN, which has one row without a run when there is none.\<close>

definition runs_of :: "string \<Rightarrow> store \<Rightarrow> feature_run_row list" where
  "runs_of requestId s = filter (\<lambda>r. run_feature_request_id r = requestId) (feature_runs s)"

definition non_terminal_features :: "string \<Rightarrow> store \<Rightarrow> (string \<times> feature_run_row option) list" where
  "non_terminal_features projectId s =
     concat (map (\<lambda>q. let rs = runs_of (req_id q) s in
                if rs = [] then [(req_id q, None)]
                else map (\<lambda>r. (req_id q, Some r)) (filter (\<lambda>r. \<not> terminal_execution (run_state r)) rs))
       (filter (\<lambda>q. req_kind q = FEATURE) (project_requests projectId s)))"

text \<open>Runs joined with their requests.\<close>

definition project_runs :: "string \<Rightarrow> store \<Rightarrow> feature_run_row list" where
  "project_runs projectId s = filter (run_in_project projectId s) (feature_runs s)"

definition open_escalations :: "string \<Rightarrow> store \<Rightarrow> feature_run_row list" where
  "open_escalations projectId s =
     filter (\<lambda>r. run_state r = FE_HUMAN_REQUIRED \<or> run_state r = FE_BLOCKED) (project_runs projectId s)"

definition unresolved_blocking_findings :: "string \<Rightarrow> store \<Rightarrow> review_finding_row list" where
  "unresolved_blocking_findings projectId s =
     filter (\<lambda>f. rf_severity f = SEV_BLOCKING \<and> \<not> rf_resolved f
               \<and> list_ex (\<lambda>r. run_id r = rf_feature_run_id f) (project_runs projectId s))
       (review_findings s)"

definition stuck :: "'z queue_row_scheme \<Rightarrow> bool" where
  "stuck q = ((q_status q = EV_PENDING \<or> q_status q = EV_PROCESSING) \<and> 5 \<le> q_attempts q)"

definition failed_exports :: "string \<Rightarrow> store \<Rightarrow> artifact_export_row list" where
  "failed_exports projectId s =
     filter (\<lambda>a. ae_project_id a = projectId \<and> ae_state a = AE_FAILED) (artifact_exports (planning s))"

definition check :: "string \<Rightarrow> nat \<Rightarrow> acceptance_check" where
  "check name n = \<lparr>ck_name = name, ck_passed = (n = 0), ck_count = n\<rparr>"

definition evaluateProjectAcceptance :: "string \<Rightarrow> store \<Rightarrow> acceptance_result" where
  "evaluateProjectAcceptance projectId s =
     (let checks =
        [check ''all_features_terminal'' (length (non_terminal_features projectId s)),
         check ''no_open_human_required_or_blocked'' (length (open_escalations projectId s)),
         check ''no_unresolved_blocking_findings'' (length (unresolved_blocking_findings projectId s)),
         check ''no_stuck_outbox_inbox''
           (length (filter stuck (outbox_events s)) + length (filter stuck (inbox_events s))),
         check ''no_failed_artifact_exports'' (length (failed_exports projectId s))] in
      \<lparr>acc_projectId = projectId, acc_passed = list_all ck_passed checks, acc_checks = checks,
       acc_externalChecksNotVerified = EXTERNAL_CHECKS_NOT_VERIFIED\<rparr>)"

definition failed_checks :: "acceptance_result \<Rightarrow> string" where
  "failed_checks a = js_join '', '' (map ck_name (filter (\<lambda>c. \<not> ck_passed c) (acc_checks a)))"

text \<open>The same predicate as the NOT EXISTS guards of the UPDATE.\<close>

definition acceptance_guard :: "string \<Rightarrow> store \<Rightarrow> bool" where
  "acceptance_guard projectId s =
     (\<not> list_ex (\<lambda>q. req_project_id q = projectId \<and> req_kind q = FEATURE
          \<and> (\<not> list_ex (\<lambda>r. run_feature_request_id r = req_id q) (feature_runs s)
             \<or> list_ex (\<lambda>r. run_feature_request_id r = req_id q \<and> \<not> terminal_execution (run_state r))
                  (feature_runs s)))
        (feature_requests s)
      \<and> \<not> list_ex (\<lambda>r. run_in_project projectId s r
             \<and> (run_state r = FE_HUMAN_REQUIRED \<or> run_state r = FE_BLOCKED)) (feature_runs s)
      \<and> \<not> list_ex (\<lambda>f. rf_severity f = SEV_BLOCKING \<and> \<not> rf_resolved f
             \<and> list_ex (\<lambda>r. run_id r = rf_feature_run_id f \<and> run_in_project projectId s r) (feature_runs s))
           (review_findings s)
      \<and> \<not> list_ex stuck (outbox_events s)
      \<and> \<not> list_ex stuck (inbox_events s)
      \<and> \<not> list_ex (\<lambda>a. ae_project_id a = projectId \<and> ae_state a = AE_FAILED) (artifact_exports (planning s)))"

section \<open>Implementation complete\<close>

record mark_complete_payload =
  mk_projectId :: string
  mk_expectedVersion :: int
  mk_externalChecksEvidence :: string

definition acceptance_failed :: "string \<Rightarrow> error" where
  "acceptance_failed detail =
     commandError ''project-acceptance-failed'' ''Project Acceptance Validation failed'' 409 detail None"

definition cas_project_accepted :: "string \<Rightarrow> int \<Rightarrow> ProjectState \<Rightarrow> int \<Rightarrow> int \<Rightarrow> int tx" where
  "cas_project_accepted projectId expectedVersion to_s newVersion now =
     bindT (queryT (acceptance_guard projectId)) (\<lambda>guard.
     if guard then cas_project projectId expectedVersion to_s newVersion now else returnT 0)"

definition MarkImplementationComplete_body :: "mark_complete_payload envelope \<Rightarrow> command_result tx" where
  "MarkImplementationComplete_body envelope =
     (let projectId = mk_projectId (payload envelope);
          expectedVersion = mk_expectedVersion (payload envelope) in
      bindT (queryT (evaluateProjectAcceptance projectId)) (\<lambda>acceptance.
      if \<not> acc_passed acceptance
      then throwT (acceptance_failed (''Project '' @ projectId @ '' does not pass Project Acceptance Validation: ''
             @ failed_checks acceptance))
      else
      bindT (project_for projectId expectedVersion PJ_IMPLEMENTATION_COMPLETE) (\<lambda>project.
      bindT (queryT clock) (\<lambda>now.
      bindT (cas_project_accepted projectId expectedVersion PJ_IMPLEMENTATION_COMPLETE
               (nextVersion (pj_version project)) now) (\<lambda>affected.
      if affected = 0
      then
        bindT (queryT (find_project projectId)) (\<lambda>refreshed.
        if (case refreshed of None \<Rightarrow> True | Some p \<Rightarrow> pj_version p \<noteq> expectedVersion)
        then throwT (OptimisticLockError ''projects'' projectId expectedVersion
               (case refreshed of None \<Rightarrow> -1 | Some p \<Rightarrow> pj_version p))
        else
        bindT (queryT (evaluateProjectAcceptance projectId)) (\<lambda>recheck.
        throwT (acceptance_failed (''Project '' @ projectId
          @ '' no longer passes Project Acceptance Validation (changed concurrently): '' @ failed_checks recheck))))
      else
      bindT (insertHumanApproval projectId None None ''project_acceptance_external_checks'' None DEC_APPROVED
               (env_actor envelope) (Some (mk_externalChecksEvidence (payload envelope)))) (\<lambda>_.
      project_moved envelope projectId ''project.implementation_complete'' PJ_ACTIVE PJ_IMPLEMENTATION_COMPLETE []))))))"

text \<open>
  A transaction at SERIALIZABLE isolation fails at COMMIT when the database finds a conflict with a
  concurrent one; whether it does in an attempt is \<open>conflict\<close>'s to say. The loop starts at attempt 1
  and has \<open>n\<close> rounds.
\<close>

definition MAX_SERIALIZATION_RETRIES :: nat where
  "MAX_SERIALIZATION_RETRIES = 3"

definition serializable_transaction :: "bool \<Rightarrow> 'a tx \<Rightarrow> 'a db_action" where
  "serializable_transaction conflict m = (if conflict then throwA SerializationFailureError else transaction m)"

fun serializable_attempts :: "(nat \<Rightarrow> bool) \<Rightarrow> 'a tx \<Rightarrow> nat \<Rightarrow> nat \<Rightarrow> 'a db_action" where
  "serializable_attempts conflict m attempt 0 = throwA (OtherError ''unreachable'')"
| "serializable_attempts conflict m attempt (Suc n) =
     catchA (serializable_transaction (conflict attempt) m) (\<lambda>err.
       if err = SerializationFailureError \<and> attempt < MAX_SERIALIZATION_RETRIES
       then serializable_attempts conflict m (attempt + 1) n
       else throwA err)"

definition MarkImplementationCompleteHandler :: "(nat \<Rightarrow> bool) \<Rightarrow> mark_complete_payload handler" where
  "MarkImplementationCompleteHandler conflict =
     \<lparr>commandName = ''MarkImplementationCompleteCommand'', requiredRole = ADMIN,
      requiredActorKind = Some SystemKind, idempotencyScope = ''mark-implementation-complete'',
      handler_execute = (\<lambda>envelope.
        if trim (mk_externalChecksEvidence (payload envelope)) = []
        then throwA (commandError ''external-checks-evidence-required''
               ''External Project Acceptance evidence required'' 400
               (''externalChecksEvidence must attest that the CI-only checks (full test suite, ''
                 @ ''migration validation, build, lint/typecheck, security scan) have already passed ''
                 @ ''out-of-band - e.g. a CI run URL or an operator sign-off note.'') None)
        else serializable_attempts conflict
               (with_claim_ttl DAY_TTL_MS (idempotencyKey envelope) ''mark-implementation-complete''
                  (MarkImplementationComplete_body envelope))
               1 MAX_SERIALIZATION_RETRIES)\<rparr>"

section \<open>The design document's rounds\<close>

record project_step_payload =
  pv_projectId :: string
  pv_expectedVersion :: int

text \<open>What \<open>GenerateDesignDocument\<close> and \<open>RegenerateDesignDocument\<close> share: all but the names of the events.\<close>

definition begin_design_document ::
    "string \<Rightarrow> ProjectState \<Rightarrow> project_step_payload envelope \<Rightarrow> command_result tx" where
  "begin_design_document eventType from_s envelope =
     (let projectId = pv_projectId (payload envelope);
          expectedVersion = pv_expectedVersion (payload envelope) in
      bindT (project_for projectId expectedVersion PJ_DESIGN_DOCUMENT_GENERATING) (\<lambda>project.
      bindT (queryT clock) (\<lambda>now.
      bindT (move_project projectId expectedVersion PJ_DESIGN_DOCUMENT_GENERATING project now) (\<lambda>_.
      bindT generateId (\<lambda>designDocumentId.
      bindT (insertP ''design_documents'' design_documents design_documents_update dd_id
               \<lparr>dd_id = designDocumentId, dd_project_id = projectId, dd_state = ''draft'', dd_version = 1,
                dd_created_at = now, dd_updated_at = now\<rparr>) (\<lambda>_.
      bindT generateId (\<lambda>artifactExportId.
      bindT (insertP ''artifact_exports'' artifact_exports artifact_exports_update ae_id
               \<lparr>ae_id = artifactExportId, ae_project_id = projectId, ae_artifact_type = ''design_document'',
                ae_state = AE_PENDING, ae_content = None, ae_format = ''markdown'',
                ae_design_document_id = Some designDocumentId, ae_exported_at = None, ae_version = 1,
                ae_created_at = now, ae_updated_at = now\<rparr>) (\<lambda>_.
      project_moved envelope projectId eventType from_s PJ_DESIGN_DOCUMENT_GENERATING
        [(''designDocumentId'', JStr designDocumentId), (''artifactExportId'', JStr artifactExportId)]))))))))"

definition GenerateDesignDocument_body :: "project_step_payload envelope \<Rightarrow> command_result tx" where
  "GenerateDesignDocument_body =
     begin_design_document ''project.design_document_generating'' PJ_IMPLEMENTATION_COMPLETE"

definition GenerateDesignDocumentHandler :: "project_step_payload handler" where
  "GenerateDesignDocumentHandler =
     \<lparr>commandName = ''GenerateDesignDocumentCommand'', requiredRole = OPERATOR,
      requiredActorKind = Some Human, idempotencyScope = ''generate-design-document'',
      handler_execute = claimed_transaction_ttl DAY_TTL_MS ''generate-design-document''
        GenerateDesignDocument_body\<rparr>"

definition RegenerateDesignDocument_body :: "project_step_payload envelope \<Rightarrow> command_result tx" where
  "RegenerateDesignDocument_body =
     begin_design_document ''project.design_document_regenerating'' PJ_DESIGN_DOCUMENT_REVISION_REQUESTED"

definition RegenerateDesignDocumentHandler :: "project_step_payload handler" where
  "RegenerateDesignDocumentHandler =
     \<lparr>commandName = ''RegenerateDesignDocumentCommand'', requiredRole = OPERATOR,
      requiredActorKind = Some Human, idempotencyScope = ''regenerate-design-document'',
      handler_execute = claimed_transaction_ttl DAY_TTL_MS ''regenerate-design-document''
        RegenerateDesignDocument_body\<rparr>"

section \<open>Exporting the document\<close>

record export_document_payload =
  xd_projectId :: string
  xd_designDocumentId :: string
  xd_artifactExportId :: string

definition find_document_artifact :: "string \<Rightarrow> string \<Rightarrow> store \<Rightarrow> artifact_export_row option" where
  "find_document_artifact artifactExportId projectId s =
     first_row (filter (\<lambda>a. ae_id a = artifactExportId \<and> ae_project_id a = projectId
                          \<and> ae_artifact_type a = ''design_document'') (artifact_exports (planning s)))"

definition find_document :: "string \<Rightarrow> string \<Rightarrow> store \<Rightarrow> design_document_row option" where
  "find_document designDocumentId projectId s =
     first_row (filter (\<lambda>d. dd_id d = designDocumentId \<and> dd_project_id d = projectId) (design_documents (planning s)))"

definition document_mismatch :: "string \<Rightarrow> artifact_export_row \<Rightarrow> string \<Rightarrow> error" where
  "document_mismatch artifactExportId artifact designDocumentId =
     commandError ''design-document-mismatch'' ''Design document does not match the artifact export'' 409
       (''artifact_exports '' @ artifactExportId @ '' is bound to design_documents ''
          @ (case ae_design_document_id artifact of None \<Rightarrow> ''NULL'' | Some d \<Rightarrow> d)
          @ '', not '' @ designDocumentId) None"

definition document_not_found :: "string \<Rightarrow> string \<Rightarrow> error" where
  "document_not_found designDocumentId projectId =
     commandError ''not-found'' ''Design document not found'' 404
       (''design_documents '' @ designDocumentId @ '' not found for project '' @ projectId) None"

definition update_artifact ::
    "(artifact_export_row \<Rightarrow> bool) \<Rightarrow> (artifact_export_row \<Rightarrow> artifact_export_row) \<Rightarrow> int tx" where
  "update_artifact p f = updateP artifact_exports artifact_exports_update p f"

text \<open>The part after the checks: the Markdown, and the row's way to \<open>exported\<close>.\<close>

definition export_document ::
    "export_document_payload envelope \<Rightarrow> artifact_export_row \<Rightarrow> command_result tx" where
  "export_document envelope artifact =
     (let projectId = xd_projectId (payload envelope);
          designDocumentId = xd_designDocumentId (payload envelope);
          artifactExportId = xd_artifactExportId (payload envelope) in
      bindT (queryT (document_sections designDocumentId)) (\<lambda>sectionRows.
      bindT (queryT (find_project projectId)) (\<lambda>project.
      bindT (queryT (design_decisions_of projectId)) (\<lambda>decisionRows.
      bindT (queryT (glossary_of projectId)) (\<lambda>glossaryRows.
      bindT (queryT clock) (\<lambda>now.
      bindT (if ae_state artifact = AE_PENDING
             then bindT (ae_assertValid AE_PENDING AE_GENERATING) (\<lambda>_.
                  bindT (update_artifact (\<lambda>a. ae_id a = artifactExportId)
                           (\<lambda>a. a\<lparr>ae_state := AE_GENERATING, ae_updated_at := now\<rparr>)) (\<lambda>_. returnT ()))
             else returnT ()) (\<lambda>_.
      (let markdown = renderDesignDocumentMarkdown
             (case project of None \<Rightarrow> projectId | Some p \<Rightarrow> pj_name p)
             (map (\<lambda>d. (ds_section_name d, ds_content d)) sectionRows) decisionRows glossaryRows in
      bindT (ae_assertValid AE_GENERATING AE_EXPORTED) (\<lambda>_.
      bindT (queryT clock) (\<lambda>exportedAt.
      bindT (update_artifact (\<lambda>a. ae_id a = artifactExportId \<and> ae_state a = AE_GENERATING)
               (\<lambda>a. a\<lparr>ae_state := AE_EXPORTED, ae_content := Some markdown,
                      ae_exported_at := Some exportedAt, ae_updated_at := exportedAt\<rparr>)) (\<lambda>exportAffected.
      if exportAffected = 0
      then throwT (commandError ''artifact-export-not-generating''
             ''Design document artifact export is no longer in the generating state'' 409
             (''artifact_exports '' @ artifactExportId @ '' was not in '' @ [CHR 0x27] @ ''generating''
                @ [CHR 0x27] @ '' state at update time'') None)
      else
      bindT (writeWorkflowEvent None (Some projectId) ''artifact_export.exported''
               (artifact_state_str AE_PENDING) (artifact_state_str AE_EXPORTED)
               (actor_id (env_actor envelope)) None) (\<lambda>eventId.
      bindT (writeOutboxEvent ''artifact_export.exported''
               [(''projectId'', JStr projectId), (''designDocumentId'', JStr designDocumentId),
                (''artifactExportId'', JStr artifactExportId), (''artifactType'', JStr ''design_document'')]) (\<lambda>_.
      returnT (accepted_result envelope (artifact_state_str AE_EXPORTED) [eventId]))))))))))))))"

definition ExportDesignDocument_body :: "export_document_payload envelope \<Rightarrow> command_result tx" where
  "ExportDesignDocument_body envelope =
     (let projectId = xd_projectId (payload envelope);
          designDocumentId = xd_designDocumentId (payload envelope);
          artifactExportId = xd_artifactExportId (payload envelope) in
      bindT (queryT (find_document_artifact artifactExportId projectId)) (\<lambda>foundArtifact.
      case foundArtifact of
        None \<Rightarrow> throwT (commandError ''not-found'' ''Design document artifact export not found'' 404
                  (''artifact_exports '' @ artifactExportId @ '' not found for project '' @ projectId) None)
      | Some artifact \<Rightarrow>
      if ae_design_document_id artifact \<noteq> Some designDocumentId
      then throwT (document_mismatch artifactExportId artifact designDocumentId)
      else
      bindT (queryT (find_document designDocumentId projectId)) (\<lambda>doc.
      if doc = None
      then throwT (document_not_found designDocumentId projectId)
      else
      bindT (queryT (incomplete_sections designDocumentId)) (\<lambda>missingOrBlank.
      if missingOrBlank \<noteq> []
      then throwT (commandError ''incomplete-sections'' ''Design document sections are incomplete'' 409
             (''design_documents '' @ designDocumentId
                @ '' is missing, blank, or still placeholder content for: '' @ js_join '', '' missingOrBlank) None)
      else if ae_state artifact = AE_EXPORTED
      then returnT (accepted_result envelope (artifact_state_str AE_EXPORTED) [])
      else if ae_state artifact = AE_FAILED
      then throwT (commandError ''artifact-export-failed'' ''Design document artifact export previously failed'' 409
             (''artifact_exports '' @ artifactExportId @ '' is in '' @ [CHR 0x27] @ ''failed'' @ [CHR 0x27]
                @ '' state and cannot be re-exported by this command'') None)
      else export_document envelope artifact))))"

definition ExportDesignDocumentHandler :: "export_document_payload handler" where
  "ExportDesignDocumentHandler =
     \<lparr>commandName = ''ExportDesignDocumentCommand'', requiredRole = ADMIN,
      requiredActorKind = Some SystemKind, idempotencyScope = ''export-design-document'',
      handler_execute = claimed_transaction_ttl DAY_TTL_MS ''export-design-document'' ExportDesignDocument_body\<rparr>"

section \<open>Review\<close>

text \<open>\<open>UPDATE design_documents SET state = ?, version = version + 1 ... WHERE id AND project_id AND state\<close>.\<close>

definition cas_document :: "string \<Rightarrow> string \<Rightarrow> string \<Rightarrow> string \<Rightarrow> int \<Rightarrow> int tx" where
  "cas_document designDocumentId projectId from_s to_s now =
     updateP design_documents design_documents_update
       (\<lambda>d. dd_id d = designDocumentId \<and> dd_project_id d = projectId \<and> dd_state d = from_s)
       (\<lambda>d. d\<lparr>dd_state := to_s, dd_version := dd_version d + 1, dd_updated_at := now\<rparr>)"

definition document_state_error :: "string \<Rightarrow> string \<Rightarrow> string \<Rightarrow> error" where
  "document_state_error ty title detail = commandError ty title 409 detail None"

definition document_at :: "string \<Rightarrow> string \<Rightarrow> string \<Rightarrow> string" where
  "document_at designDocumentId st expected =
     ''design_documents '' @ designDocumentId @ '' is at state '' @ [CHR 0x27] @ st @ [CHR 0x27]
       @ '', not '' @ [CHR 0x27] @ expected @ [CHR 0x27]"

definition document_was_not :: "string \<Rightarrow> string \<Rightarrow> string" where
  "document_was_not designDocumentId expected =
     ''design_documents '' @ designDocumentId @ '' was not in '' @ [CHR 0x27] @ expected @ [CHR 0x27]
       @ '' state at update time''"

text \<open>
  The document must be in \<open>from_s\<close>, the project moves, then the document moves; the three review
  handlers do this alike.
\<close>

definition move_document ::
    "string \<Rightarrow> string \<Rightarrow> string \<Rightarrow> string \<Rightarrow> string \<Rightarrow> string \<Rightarrow> int \<Rightarrow> ProjectState \<Rightarrow> project_row
      \<Rightarrow> unit tx" where
  "move_document ty title designDocumentId projectId from_s to_s expectedVersion pj_to project =
     bindT (queryT (find_document designDocumentId projectId)) (\<lambda>found.
     case found of
       None \<Rightarrow> throwT (document_not_found designDocumentId projectId)
     | Some doc \<Rightarrow>
     if dd_state doc \<noteq> from_s
     then throwT (document_state_error ty title (document_at designDocumentId (dd_state doc) from_s))
     else
     bindT (queryT clock) (\<lambda>now.
     bindT (move_project projectId expectedVersion pj_to project now) (\<lambda>_.
     bindT (cas_document designDocumentId projectId from_s to_s now) (\<lambda>docAffected.
     if docAffected = 0
     then throwT (document_state_error ty title (document_was_not designDocumentId from_s))
     else returnT ()))))"

record document_ready_payload =
  dr_projectId :: string
  dr_expectedVersion :: int
  dr_designDocumentId :: string
  dr_artifactExportId :: string

definition RecordDesignDocumentReady_body :: "document_ready_payload envelope \<Rightarrow> command_result tx" where
  "RecordDesignDocumentReady_body envelope =
     (let projectId = dr_projectId (payload envelope);
          expectedVersion = dr_expectedVersion (payload envelope);
          designDocumentId = dr_designDocumentId (payload envelope);
          artifactExportId = dr_artifactExportId (payload envelope) in
      bindT (project_for projectId expectedVersion PJ_DESIGN_DOCUMENT_READY_FOR_REVIEW) (\<lambda>project.
      bindT (queryT (find_document_artifact artifactExportId projectId)) (\<lambda>foundArtifact.
      case foundArtifact of
        None \<Rightarrow> throwT (commandError ''artifact-not-exported'' ''Design document artifact not yet exported'' 409
                  (''artifact_exports '' @ artifactExportId @ '' is not in '' @ [CHR 0x27] @ ''exported''
                     @ [CHR 0x27] @ '' state'') None)
      | Some artifact \<Rightarrow>
      if ae_state artifact \<noteq> AE_EXPORTED
      then throwT (commandError ''artifact-not-exported'' ''Design document artifact not yet exported'' 409
             (''artifact_exports '' @ artifactExportId @ '' is not in '' @ [CHR 0x27] @ ''exported''
                @ [CHR 0x27] @ '' state'') None)
      else if ae_design_document_id artifact \<noteq> Some designDocumentId
      then throwT (document_mismatch artifactExportId artifact designDocumentId)
      else
      bindT (move_document ''design-document-not-generating'' ''Design document is not in the generating state''
               designDocumentId projectId ''draft'' ''ready_for_review'' expectedVersion
               PJ_DESIGN_DOCUMENT_READY_FOR_REVIEW project) (\<lambda>_.
      project_moved envelope projectId ''project.design_document_ready'' PJ_DESIGN_DOCUMENT_GENERATING
        PJ_DESIGN_DOCUMENT_READY_FOR_REVIEW
        [(''designDocumentId'', JStr designDocumentId), (''artifactExportId'', JStr artifactExportId)]))))"

definition RecordDesignDocumentReadyHandler :: "document_ready_payload handler" where
  "RecordDesignDocumentReadyHandler =
     \<lparr>commandName = ''RecordDesignDocumentReadyCommand'', requiredRole = ADMIN,
      requiredActorKind = Some SystemKind, idempotencyScope = ''record-design-document-ready'',
      handler_execute = claimed_transaction_ttl DAY_TTL_MS ''record-design-document-ready''
        RecordDesignDocumentReady_body\<rparr>"

record review_document_payload =
  rd_projectId :: string
  rd_expectedVersion :: int
  rd_designDocumentId :: string
  rd_notes :: "string option"

definition review_document ::
    "string \<Rightarrow> ProjectState \<Rightarrow> string \<Rightarrow> approval_decision \<Rightarrow> review_document_payload envelope
      \<Rightarrow> command_result tx" where
  "review_document eventType pj_to dd_to decision envelope =
     (let projectId = rd_projectId (payload envelope);
          expectedVersion = rd_expectedVersion (payload envelope);
          designDocumentId = rd_designDocumentId (payload envelope) in
      bindT (project_for projectId expectedVersion pj_to) (\<lambda>project.
      bindT (move_document ''design-document-not-ready'' ''Design document is not ready for review''
               designDocumentId projectId ''ready_for_review'' dd_to expectedVersion pj_to project) (\<lambda>_.
      bindT (insertHumanApproval projectId None None ''design_document'' (Some designDocumentId) decision
               (env_actor envelope) (rd_notes (payload envelope))) (\<lambda>_.
      project_moved envelope projectId eventType PJ_DESIGN_DOCUMENT_READY_FOR_REVIEW pj_to
        [(''designDocumentId'', JStr designDocumentId)]))))"

definition RequestDesignDocumentRevision_body :: "review_document_payload envelope \<Rightarrow> command_result tx" where
  "RequestDesignDocumentRevision_body =
     review_document ''project.design_document_revision_requested'' PJ_DESIGN_DOCUMENT_REVISION_REQUESTED
       ''revision_requested'' DEC_REJECTED"

definition RequestDesignDocumentRevisionHandler :: "review_document_payload handler" where
  "RequestDesignDocumentRevisionHandler =
     \<lparr>commandName = ''RequestDesignDocumentRevisionCommand'', requiredRole = APPROVER,
      requiredActorKind = Some Human, idempotencyScope = ''request-design-document-revision'',
      handler_execute = claimed_transaction ''request-design-document-revision''
        RequestDesignDocumentRevision_body\<rparr>"

definition ApproveDesignDocument_body :: "review_document_payload envelope \<Rightarrow> command_result tx" where
  "ApproveDesignDocument_body =
     review_document ''project.design_document_approved'' PJ_DESIGN_DOCUMENT_APPROVED ''approved'' DEC_APPROVED"

definition ApproveDesignDocumentHandler :: "review_document_payload handler" where
  "ApproveDesignDocumentHandler =
     \<lparr>commandName = ''ApproveDesignDocumentCommand'', requiredRole = APPROVER,
      requiredActorKind = Some Human, idempotencyScope = ''approve-design-document'',
      handler_execute = claimed_transaction ''approve-design-document'' ApproveDesignDocument_body\<rparr>"

definition CompleteProject_body :: "project_step_payload envelope \<Rightarrow> command_result tx" where
  "CompleteProject_body envelope =
     (let projectId = pv_projectId (payload envelope);
          expectedVersion = pv_expectedVersion (payload envelope) in
      bindT (project_for projectId expectedVersion PJ_PROJECT_COMPLETE) (\<lambda>project.
      bindT (queryT clock) (\<lambda>now.
      bindT (move_project projectId expectedVersion PJ_PROJECT_COMPLETE project now) (\<lambda>_.
      project_moved envelope projectId ''project.complete'' PJ_DESIGN_DOCUMENT_APPROVED PJ_PROJECT_COMPLETE []))))"

definition CompleteProjectHandler :: "project_step_payload handler" where
  "CompleteProjectHandler =
     \<lparr>commandName = ''CompleteProjectCommand'', requiredRole = ADMIN,
      requiredActorKind = Some SystemKind, idempotencyScope = ''complete-project'',
      handler_execute = claimed_transaction_ttl DAY_TTL_MS ''complete-project'' CompleteProject_body\<rparr>"

section \<open>What the commands guarantee\<close>

lemma project_statements:
  "planb.keeps (PJ_assertValid a b)" "planb.keeps (ae_assertValid x y)" "planb.keeps (cas_project i v st n now)"
  "planb.keeps (update_artifact p f)" "planb.keeps (cas_document did prj fs ts now)"
  by (simp_all add: PJ_assertValid_def ae_assertValid_def cas_project_def update_artifact_def cas_document_def)
    (intro plan_rules)+

lemmas project_rules0 = plan_rules project_statements

lemma planb_project_for: "planb.keeps (project_for i v st)"
  unfolding project_for_def by (intro project_rules0)

lemma planb_move_project: "planb.keeps (move_project i v st p now)"
  unfolding move_project_def by (intro project_rules0)

lemma planb_project_moved: "planb.keeps (project_moved e i ty a b extra)"
  unfolding project_moved_def by (intro project_rules0)

lemma planb_cas_accepted: "planb.keeps (cas_project_accepted i v st n now)"
  unfolding cas_project_accepted_def by (intro project_rules0)

lemmas project_rules =
  project_rules0 planb_project_for planb_move_project planb_project_moved planb_cas_accepted

lemma planb_move_document: "planb.keeps (move_document ty ti d p a b v st pr)"
  unfolding move_document_def by (intro project_rules)

lemma planb_export_document: "planb.keeps (export_document e a)"
  unfolding export_document_def by (intro project_rules)

lemma planb_workflow_row:
  assumes "fresh_workflow w"
  shows "planb.keeps (insertUniqueT n workflow_states workflow_states_update ws_id ws_project_id w)"
  by (rule planb.keepsI) (simp add: wp_simps plan_guarantee_defs rows_begin_append assms)

lemma project_evolves:
  "planb.keeps (CreateProject_body e1)" "planb.keeps (MarkImplementationComplete_body e2)"
  "planb.keeps (GenerateDesignDocument_body e3)" "planb.keeps (RegenerateDesignDocument_body e4)"
  "planb.keeps (ExportDesignDocument_body e5)" "planb.keeps (RecordDesignDocumentReady_body e6)"
  "planb.keeps (RequestDesignDocumentRevision_body e7)" "planb.keeps (ApproveDesignDocument_body e7)"
  "planb.keeps (CompleteProject_body e8)"
  unfolding CreateProject_body_def MarkImplementationComplete_body_def GenerateDesignDocument_body_def
    RegenerateDesignDocument_body_def begin_design_document_def ExportDesignDocument_body_def
    RecordDesignDocumentReady_body_def RequestDesignDocumentRevision_body_def ApproveDesignDocument_body_def
    review_document_def CompleteProject_body_def
  by (intro project_rules planb_move_document planb_export_document planb_workflow_row; simp add: fresh_workflow_def)+

lemma serializable_keeps:
  assumes "planb.keeps m"
  shows "plan.keepsA (serializable_attempts conflict (with_claim_ttl ttl key scope m) k n)"
    "slots.keepsA (serializable_attempts conflict (with_claim_ttl ttl key scope m) k n)"
proof -
  let ?w = "with_claim_ttl ttl key scope m"
  have "plan.keepsA (serializable_transaction c ?w)" "slots.keepsA (serializable_transaction c ?w)" for c
    unfolding serializable_transaction_def
    by (intro plan.keepsA_if plan.keepsA_throwA plan.keeps_transaction plan.keeps_with_claim plan_keeps_body
        slots.keepsA_if slots.keepsA_throwA slots.keeps_transaction with_claim_slots frame_keeps_plan assms)+
  then show "plan.keepsA (serializable_attempts conflict ?w k n)" "slots.keepsA (serializable_attempts conflict ?w k n)"
    by (induction n arbitrary: k)
      (simp_all add: plan.keepsA_throwA slots.keepsA_throwA plan.keepsA_catchA slots.keepsA_catchA)
qed

end
