(* ===== verification/PlanningSystem.thy ===== *)
theory PlanningSystem
  imports Clarification Project
begin

text \<open>
  The planning phase and the project lifecycle as one request type: its twenty-six commands through the executor, and what each
  of them guarantees.
\<close>

section \<open>The commands of the planning phase\<close>

text \<open>
  As the registry dispatches them. \<open>planner\<close> stands for the recorder's call of the planning adapter, \<open>conflict\<close> for the serialization
  conflicts the database reports.
\<close>

datatype planning_request =
    IngestSpecification "ingest_payload envelope"
  | AssessPlanningReadiness "assess_payload envelope"
  | ResolvePlanningGap "resolve_gap_payload envelope"
  | StartClarification "session_payload envelope"
  | RecordClarificationAnswer "answer_payload envelope"
  | CompleteClarification "session_payload envelope"
  | RequestAnotherRound "session_payload envelope"
  | BlockClarification "block_clarification_payload envelope"
  | GenerateImplementationPlan "generate_plan_payload envelope"
  | GenerateFeatureBacklog "generate_backlog_payload envelope"
  | ImportBacklog "import_payload envelope"
  | ValidateBacklog "validate_payload envelope"
  | ExportBacklog "export_payload envelope"
  | ExportPlan "export_payload envelope"
  | SubmitPlanForApproval "plan_payload envelope"
  | ApprovePlan "plan_payload envelope"
  | ActivatePlan "plan_payload envelope"
  | CreateProject "create_project_payload envelope"
  | MarkImplementationComplete "nat \<Rightarrow> bool" "mark_complete_payload envelope"
  | GenerateDesignDocument "project_step_payload envelope"
  | RegenerateDesignDocument "project_step_payload envelope"
  | ExportDesignDocument "export_document_payload envelope"
  | RecordDesignDocumentReady "document_ready_payload envelope"
  | RequestDesignDocumentRevision "review_document_payload envelope"
  | ApproveDesignDocument "review_document_payload envelope"
  | CompleteProject "project_step_payload envelope"

fun run_planning ::
    "(assess_payload envelope \<Rightarrow> planner_output db_action) \<Rightarrow> planning_request \<Rightarrow> command_result db_action" where
  "run_planning planner (IngestSpecification e) = execute IngestSpecificationHandler e"
| "run_planning planner (AssessPlanningReadiness e) = execute (AssessPlanningReadinessHandler planner) e"
| "run_planning planner (ResolvePlanningGap e) = execute ResolvePlanningGapHandler e"
| "run_planning planner (StartClarification e) = execute StartClarificationHandler e"
| "run_planning planner (RecordClarificationAnswer e) = execute RecordClarificationAnswerHandler e"
| "run_planning planner (CompleteClarification e) = execute CompleteClarificationHandler e"
| "run_planning planner (RequestAnotherRound e) = execute RequestAnotherRoundHandler e"
| "run_planning planner (BlockClarification e) = execute BlockClarificationHandler e"
| "run_planning planner (GenerateImplementationPlan e) = execute GenerateImplementationPlanHandler e"
| "run_planning planner (GenerateFeatureBacklog e) = execute GenerateFeatureBacklogHandler e"
| "run_planning planner (ImportBacklog e) = execute ImportBacklogHandler e"
| "run_planning planner (ValidateBacklog e) = execute ValidateBacklogHandler e"
| "run_planning planner (ExportBacklog e) = execute ExportBacklogHandler e"
| "run_planning planner (ExportPlan e) = execute ExportPlanHandler e"
| "run_planning planner (SubmitPlanForApproval e) = execute SubmitPlanForApprovalHandler e"
| "run_planning planner (ApprovePlan e) = execute ApprovePlanHandler e"
| "run_planning planner (ActivatePlan e) = execute ActivatePlanHandler e"
| "run_planning planner (CreateProject e) = execute CreateProjectHandler e"
| "run_planning planner (MarkImplementationComplete conflict e) =
     execute (MarkImplementationCompleteHandler conflict) e"
| "run_planning planner (GenerateDesignDocument e) = execute GenerateDesignDocumentHandler e"
| "run_planning planner (RegenerateDesignDocument e) = execute RegenerateDesignDocumentHandler e"
| "run_planning planner (ExportDesignDocument e) = execute ExportDesignDocumentHandler e"
| "run_planning planner (RecordDesignDocumentReady e) = execute RecordDesignDocumentReadyHandler e"
| "run_planning planner (RequestDesignDocumentRevision e) = execute RequestDesignDocumentRevisionHandler e"
| "run_planning planner (ApproveDesignDocument e) = execute ApproveDesignDocumentHandler e"
| "run_planning planner (CompleteProject e) = execute CompleteProjectHandler e"

lemmas planning_handler_defs =
  IngestSpecificationHandler_def AssessPlanningReadinessHandler_def ResolvePlanningGapHandler_def
  StartClarificationHandler_def RecordClarificationAnswerHandler_def CompleteClarificationHandler_def
  RequestAnotherRoundHandler_def BlockClarificationHandler_def GenerateImplementationPlanHandler_def
  GenerateFeatureBacklogHandler_def ImportBacklogHandler_def ValidateBacklogHandler_def
  ExportBacklogHandler_def ExportPlanHandler_def SubmitPlanForApprovalHandler_def
  ApprovePlanHandler_def ActivatePlanHandler_def CreateProjectHandler_def GenerateDesignDocumentHandler_def
  RegenerateDesignDocumentHandler_def ExportDesignDocumentHandler_def RecordDesignDocumentReadyHandler_def
  RequestDesignDocumentRevisionHandler_def ApproveDesignDocumentHandler_def CompleteProjectHandler_def

lemmas planning_bodies_evolve = clarification_evolves planning_evolves backlog_evolves project_evolves

text \<open>The four handlers that do something around their transaction keep what it keeps.\<close>

lemma assess_keeps:
  assumes "plan.keepsA (planner e)"
  shows "plan.keepsA (handler_execute (AssessPlanningReadinessHandler planner) e)"
  using assms
  by (simp add: AssessPlanningReadinessHandler_def plan.keepsA_bindA planned_transaction planning_evolves)

lemma import_keeps: "plan.keepsA (handler_execute ImportBacklogHandler e)" "slots.keepsA (handler_execute ImportBacklogHandler e)"
  by (auto simp: ImportBacklogHandler_def planned_transaction backlog_evolves
      intro!: plan.keepsA_bindA plan.keepsA_queryA plan.keepsA_throwA plan.keepsA_returnA
        slots.keepsA_bindA slots.keepsA_queryA slots.keepsA_throwA slots.keepsA_returnA split: option.split)

lemma validate_keeps:
  "plan.keepsA (handler_execute ValidateBacklogHandler e)" "slots.keepsA (handler_execute ValidateBacklogHandler e)"
  by (auto simp: ValidateBacklogHandler_def ValidateBacklog_transaction
      intro!: plan.keepsA_bindA plan.keepsA_throwA plan.keepsA_returnA
        slots.keepsA_bindA slots.keepsA_throwA slots.keepsA_returnA)

lemma mark_complete_keeps:
  "plan.keepsA (handler_execute (MarkImplementationCompleteHandler conflict) e)"
  "slots.keepsA (handler_execute (MarkImplementationCompleteHandler conflict) e)"
  by (simp_all add: MarkImplementationCompleteHandler_def plan.keepsA_throwA slots.keepsA_throwA
      serializable_keeps project_evolves)

lemma planning_request_evolves:
  assumes "\<And>e. plan.keepsA (planner e)"
  shows "plan.keepsA (run_planning planner q)"
  using assms
  by (cases q)
    (simp_all add: plan.keepsA_execute assess_keeps import_keeps validate_keeps mark_complete_keeps,
     simp_all add: plan.keepsA_execute planning_handler_defs planned_transaction planning_bodies_evolve)

lemma planning_request_slots:
  assumes "\<And>e. slots.keepsA (planner e)"
  shows "slots.keepsA (run_planning planner q)"
proof -
  have "slots.keepsA (handler_execute (AssessPlanningReadinessHandler planner) e)" for e
    using assms
    by (simp add: AssessPlanningReadinessHandler_def slots.keepsA_bindA planned_transaction planning_evolves)
  then show ?thesis
    by (cases q)
      (simp_all add: slots.keepsA_execute import_keeps validate_keeps mark_complete_keeps,
       simp_all add: slots.keepsA_execute planning_handler_defs planned_transaction planning_bodies_evolve)
qed

end
