(* ===== verification/System.thy ===== *)
theory System
  imports Delivery Locks PlanningSystem
begin

text \<open>
  The whole system as a step relation on the store: any command through the executor, any lock
  operation, the sweeper, a poll of the outbox or the inbox whose handlers are themselves made of
  steps, the clock, and what the parts of the program outside the model do to the tables. The
  guarantee \<open>history\<close> collects what no sequence of steps can undo.
\<close>

section \<open>Requests\<close>

datatype request =
    SelectFeature "run_payload envelope"
  | StartCoding "run_payload envelope"
  | StartFixing "run_payload envelope"
  | RecordCodePushed "code_pushed_payload envelope"
  | EscalateToHuman "escalate_payload envelope"
  | ResumeFeatureExecution "resume_payload envelope"
  | ResolveDisagreement "resolve_payload envelope"
  | RetryFeature "notes_payload envelope"
  | SkipFeature "notes_payload envelope"
  | BlockFeature "notes_payload envelope"
  | UnblockFeature "run_payload envelope"
  | HumanUnblockFeature "notes_payload envelope"
  | RecordPrOpened "pr_opened_payload envelope"
  | RecordCiRunning "check_payload envelope"
  | RecordCiPassed "check_payload envelope"
  | RecordCiFailed "ci_failed_payload envelope"
  | RecordChangesRequested "changes_payload envelope"
  | RequestChangesAfterCiFail "run_payload envelope"
  | RecordApprovedByPolicy "run_payload envelope"
  | MergeIfReady "run_payload envelope"
  | RecordMerged "merged_payload envelope"
  | RecordMergeFailed "merge_failed_payload envelope"
  | ReconcileMergeFailed "run_payload envelope"
  | PauseAutomation "project_payload envelope"
  | ResumeAutomation "project_payload envelope"
  | RecordBudgetExceeded "budget_exceeded_payload envelope"
  | RecordBudgetApprovalWaiting "budget_waiting_payload envelope"
  | ApproveBudgetOverride "budget_override_payload envelope"

fun run_request :: "request \<Rightarrow> command_result db_action" where
  "run_request (SelectFeature e) = execute SelectFeatureHandler e"
| "run_request (StartCoding e) = execute StartCodingHandler e"
| "run_request (StartFixing e) = execute StartFixingHandler e"
| "run_request (RecordCodePushed e) = execute RecordCodePushedHandler e"
| "run_request (EscalateToHuman e) = execute EscalateToHumanHandler e"
| "run_request (ResumeFeatureExecution e) = execute ResumeFeatureExecutionHandler e"
| "run_request (ResolveDisagreement e) = execute ResolveDisagreementHandler e"
| "run_request (RetryFeature e) = execute RetryFeatureHandler e"
| "run_request (SkipFeature e) = execute SkipFeatureHandler e"
| "run_request (BlockFeature e) = execute BlockFeatureHandler e"
| "run_request (UnblockFeature e) = execute UnblockFeatureHandler e"
| "run_request (HumanUnblockFeature e) = execute HumanUnblockFeatureHandler e"
| "run_request (RecordPrOpened e) = execute RecordPrOpenedHandler e"
| "run_request (RecordCiRunning e) = execute RecordCiRunningHandler e"
| "run_request (RecordCiPassed e) = execute RecordCiPassedHandler e"
| "run_request (RecordCiFailed e) = execute RecordCiFailedHandler e"
| "run_request (RecordChangesRequested e) = execute RecordChangesRequestedHandler e"
| "run_request (RequestChangesAfterCiFail e) = execute RequestChangesAfterCiFailHandler e"
| "run_request (RecordApprovedByPolicy e) = execute RecordApprovedByPolicyHandler e"
| "run_request (MergeIfReady e) = execute MergeIfReadyHandler e"
| "run_request (RecordMerged e) = execute RecordMergedHandler e"
| "run_request (RecordMergeFailed e) = execute RecordMergeFailedHandler e"
| "run_request (ReconcileMergeFailed e) = execute ReconcileMergeFailedHandler e"
| "run_request (PauseAutomation e) = execute PauseAutomationHandler e"
| "run_request (ResumeAutomation e) = execute ResumeAutomationHandler e"
| "run_request (RecordBudgetExceeded e) = execute RecordBudgetExceededHandler e"
| "run_request (RecordBudgetApprovalWaiting e) = execute RecordBudgetApprovalWaitingHandler e"
| "run_request (ApproveBudgetOverride e) = execute ApproveBudgetOverrideHandler e"

text \<open>The commands the program's registry dispatches by name, and the role and actor each asks for.\<close>

lemmas handler_defs =
  SelectFeatureHandler_def StartCodingHandler_def StartFixingHandler_def RecordCodePushedHandler_def
  EscalateToHumanHandler_def ResumeFeatureExecutionHandler_def ResolveDisagreementHandler_def
  RetryFeatureHandler_def SkipFeatureHandler_def BlockFeatureHandler_def UnblockFeatureHandler_def
  HumanUnblockFeatureHandler_def RecordPrOpenedHandler_def RecordCiRunningHandler_def
  RecordCiPassedHandler_def RecordCiFailedHandler_def RecordChangesRequestedHandler_def
  RequestChangesAfterCiFailHandler_def RecordApprovedByPolicyHandler_def MergeIfReadyHandler_def
  RecordMergedHandler_def RecordMergeFailedHandler_def ReconcileMergeFailedHandler_def
  PauseAutomationHandler_def ResumeAutomationHandler_def RecordBudgetExceededHandler_def
  RecordBudgetApprovalWaitingHandler_def ApproveBudgetOverrideHandler_def

lemmas bodies_evolve =
  SelectFeature_evolves StartCoding_evolves StartFixing_evolves RecordCodePushed_evolves
  EscalateToHuman_evolves ResumeFeatureExecution_evolves ResolveDisagreement_evolves
  RetryFeature_evolves SkipFeature_evolves BlockFeature_evolves UnblockFeature_evolves
  HumanUnblockFeature_evolves RecordPrOpened_evolves RecordCiRunning_evolves RecordCiPassed_evolves
  RecordCiFailed_evolves RecordChangesRequested_evolves RequestChangesAfterCiFail_evolves
  RecordMerged_evolves RecordMergeFailed_evolves ReconcileMergeFailed_evolves
  PauseAutomation_evolves ResumeAutomation_evolves RecordBudgetExceeded_evolves
  RecordBudgetApprovalWaiting_evolves ApproveBudgetOverride_evolves

lemma slots_keep_body:
  assumes "body.keeps m"
  shows "slots.keeps m"
proof (rule slots.keepsI)
  fix s
  have "slots_kept s t" if "body_evolves s t" for t
    using that by (auto simp: guarantee_defs slots_kept_def wf_slots_def)
  then show "wp m (\<lambda>_ t. slots_kept s t) (\<lambda>_. True) s"
    by (intro wp_mono [OF body.keepsD [OF assms]]) auto
qed

lemma gated_execute_slots: "slots.keepsA (gated_execute to_s ty scope e)"
  unfolding gated_execute_def
proof (rule slots.keepsA_bindA)
  show "slots.keepsA (transaction (gate_phase e))"
    by (intro slots.keeps_transaction slots_keep_body gate_phase_evolves)
  fix ev
  show "slots.keepsA (if mr_decision ev \<noteq> ''approved''
      then throwA (mergeGateBlocked (mr_reasons ev) (p_featureRunId (payload e)) (Some (correlationId e)))
      else claimed_transaction scope (gated_transition to_s ty (mr_evaluationId ev)) e)"
    by (simp add: slots.keepsA_throwA claimed_transaction_slots frame_keeps_body gated_transition_evolves)
qed

lemma request_evolves: "evo.keepsA (run_request q)"
  by (cases q)
    (simp_all add: evo.keepsA_execute handler_defs claimed_transaction_evolves bodies_evolve gated_execute_evolves)

lemma request_slots: "slots.keepsA (run_request q)"
  by (cases q)
    (simp_all add: slots.keepsA_execute handler_defs claimed_transaction_slots frame_keeps_body bodies_evolve gated_execute_slots)

section \<open>Steps\<close>

text \<open>
  Three writers outside the commands touch tables the commands also write, and have their own
  steps. \<open>disposition\<close> is \<open>resolveReviewFinding\<close> of \<open>api/src/read-models/review-finding-resolution.ts\<close>:
  an approval row, the finding marked as resolved if the human dismisses it and it is open, and an
  event. \<open>log_event\<close> is the event that \<open>api/src/read-models/design-doc-repair.ts\<close> and
  \<open>cli/src/commands/repo.ts\<close> append; what these two change besides is in \<open>outside\<close>. The rows are
  arbitrary.
\<close>

inductive system_step :: "int \<Rightarrow> store \<Rightarrow> store \<Rightarrow> bool" for bound where
  command: "system_step bound s (snd (run_request q s))"
| plan: "\<forall>e u. (system_step bound)\<^sup>*\<^sup>* u (snd (planner e u)) \<Longrightarrow>
     system_step bound s (snd (run_planning planner q s))"
| acquire: "system_step bound s (snd (acquire p k opts s))"
| release: "system_step bound s (snd (release lock s))"
| heartbeat: "system_step bound s (snd (heartbeat lock ttl s))"
| sweep: "system_step bound s (snd (sweep s))"
| review: "system_step bound s (snd (transaction (recordCleanReview i h a c fs) s))"
| dispatch: "handlers_keep (system_step bound)\<^sup>*\<^sup>* handlers \<Longrightarrow> maxAttempts options \<le> bound \<Longrightarrow>
     system_step bound s (snd (pollAndDispatch options handlers s))"
| process: "handlers_keep (system_step bound)\<^sup>*\<^sup>* handlers \<Longrightarrow> maxAttempts options \<le> bound \<Longrightarrow>
     system_step bound s (snd (pollAndProcess options handlers s))"
| tick: "0 \<le> ms \<Longrightarrow> system_step bound s (s\<lparr>clock := clock s + ms\<rparr>)"
| arrive: "q_id row \<notin> q_id ` set (inbox_events s) \<Longrightarrow> q_attempts row = 0 \<Longrightarrow>
     system_step bound s (s\<lparr>inbox_events := inbox_events s @ [row]\<rparr>)"
| log_event: "system_step bound s (s\<lparr>workflow_events := workflow_events s @ [ev]\<rparr>)"
| disposition: "system_step bound s
     (s\<lparr>human_approvals := human_approvals s @ [approval],
        review_findings := update_where (\<lambda>f. dismiss \<and> rf_id f = i \<and> \<not> rf_resolved f)
          (\<lambda>f. f\<lparr>rf_resolved := True, rf_version := rf_version f + 1, rf_updated_at := clock s\<rparr>) (review_findings s),
        workflow_events := workflow_events s @ [ev]\<rparr>)"
| outside: "system_step bound s
     (s\<lparr>entropy := en, draws := dr, env_vars := vs, repositories := repos, budget_policies := pols,
        cost_records := costs, pull_requests := prs, disagreement_records := diss,
        review_occurrence_markers := marks, agents := ags,
        planning := (planning s)\<lparr>artifact_exports := exports, design_document_sections := sections,
                       design_decisions := decisions, glossary_terms := terms\<rparr>\<rparr>)"

text \<open>Some of what \<open>outside\<close> may do: what the recorder of agent runs and the mirror of pull requests do.\<close>

lemma outside_part:
  "system_step bound s (s\<lparr>draws := d, cost_records := costs, pull_requests := prs, agents := ags\<rparr>)"
proof -
  have "system_step bound s
     (s\<lparr>entropy := entropy s, draws := d, env_vars := env_vars s, repositories := repositories s,
        budget_policies := budget_policies s, cost_records := costs, pull_requests := prs,
        disagreement_records := disagreement_records s,
        review_occurrence_markers := review_occurrence_markers s, agents := ags,
        planning := (planning s)\<lparr>artifact_exports := artifact_exports (planning s),
          design_document_sections := design_document_sections (planning s),
          design_decisions := design_decisions (planning s), glossary_terms := glossary_terms (planning s)\<rparr>\<rparr>)"
    by (rule system_step.outside)
  then show ?thesis by simp
qed

section \<open>What no step undoes\<close>

definition audit_grows :: "store \<Rightarrow> store \<Rightarrow> bool" where
  "audit_grows s t =
     (prefix (workflow_events s) (workflow_events t) \<and> prefix (human_approvals s) (human_approvals t)
      \<and> prefix (policy_decisions s) (policy_decisions t)
      \<and> prefix (merge_gate_evaluations s) (merge_gate_evaluations t)
      \<and> prefix (coder_responses s) (coder_responses t))"

definition fix_attempts_bounded :: "store \<Rightarrow> bool" where
  "fix_attempts_bounded s = (\<forall>r \<in> set (feature_runs s). run_fix_attempt_count r \<le> FIX_ATTEMPT_THRESHOLD)"

definition runs_advance :: "store \<Rightarrow> store \<Rightarrow> bool" where
  "runs_advance s t =
     (wf_store s \<longrightarrow> wf_store t
        \<and> (\<forall>r \<in> set (feature_runs s). \<exists>r' \<in> set (feature_runs t). run_moves r r')
        \<and> (\<forall>w \<in> set (workflow_states s). \<exists>w' \<in> set (workflow_states t). ws_moves w w')
        \<and> (fix_attempts_bounded s \<longrightarrow> fix_attempts_bounded t))"

definition outbox_clean :: "store \<Rightarrow> bool" where
  "outbox_clean s = (\<forall>q \<in> set (outbox_events s). \<not> leaks (q_payload q))"

text \<open>The part that neither poller's own table is involved in.\<close>

definition core_history :: "store \<Rightarrow> store \<Rightarrow> bool" where
  "core_history s t =
     (audit_grows s t \<and> runs_advance s t \<and> slots_kept s t \<and> locks_advance s t
      \<and> (outbox_clean s \<longrightarrow> outbox_clean t))"

definition history :: "int \<Rightarrow> store \<Rightarrow> store \<Rightarrow> bool" where
  "history bound s t =
     (core_history s t \<and> queue_advances outbox_table bound s t \<and> queue_advances inbox_table bound s t)"

lemma runs_advance_trans: "runs_advance s t \<Longrightarrow> runs_advance t u \<Longrightarrow> runs_advance s u"
  unfolding runs_advance_def by (meson run_moves_trans ws_moves_trans)

lemma runs_advance_refl: "runs_advance s s"
  using run_moves_refl ws_moves_refl unfolding runs_advance_def by blast

lemma runs_advance_extend:
  assumes "set (feature_runs s) \<subseteq> set (feature_runs t)" "set (workflow_states s) \<subseteq> set (workflow_states t)"
    "wf_store s \<Longrightarrow> wf_store t" "fix_attempts_bounded s \<Longrightarrow> fix_attempts_bounded t"
  shows "runs_advance s t"
  using assms run_moves_refl ws_moves_refl unfolding runs_advance_def by (meson subsetD)

interpretation core: store_guarantee core_history
proof
  show "core_history s s" for s
    by (simp add: core_history_def audit_grows_def runs_advance_refl slots.R_refl locks.R_refl)
  show "core_history s u" if "core_history s t" "core_history t u" for s t u
    using that unfolding core_history_def audit_grows_def
    by (auto intro: runs_advance_trans slots.R_trans locks.R_trans prefix_order.trans)
qed

interpretation hist: store_guarantee "history bound" for bound
proof
  show "history bound s s" for s
    by (simp add: history_def core.R_refl outbox_queue.advances_refl inbox_queue.advances_refl)
  show "history bound s u" if "history bound s t" "history bound t u" for s t u
    using that unfolding history_def
    by (auto intro: core.R_trans outbox_queue.advances_trans inbox_queue.advances_trans)
qed

text \<open>Steps that touch neither runs nor the outbox.\<close>

lemma history_frame:
  assumes "feature_runs t = feature_runs s" "workflow_states t = workflow_states s"
    "audit_grows s t" "slots_kept s t" "locks_advance s t" "outbox_events t = outbox_events s"
    "queue_advances inbox_table bound s t"
  shows "history bound s t"
  using assms runs_advance_refl [of s]
  by (auto simp: history_def core_history_def runs_advance_def wf_store_def fix_attempts_bounded_def
      outbox_clean_def outbox_table_def intro!: queue_frame)

lemma evolves_runs_advance:
  assumes "evolves s t"
  shows "runs_advance s t"
proof -
  have "fix_attempts_bounded t" if "wf_store s" "fix_attempts_bounded s"
    unfolding fix_attempts_bounded_def
  proof
    fix r' assume "r' \<in> set (feature_runs t)"
    moreover have "list_all2 run_moves (feature_runs s) (feature_runs t)"
      using assms that(1) by (simp add: evolves_def rows_move_def)
    ultimately obtain r where "r \<in> set (feature_runs s)" "run_moves r r'"
      by (metis list_all2_conv_all_nth in_set_conv_nth)
    with that(2) show "run_fix_attempt_count r' \<le> FIX_ATTEMPT_THRESHOLD"
      by (auto simp: fix_attempts_bounded_def intro: run_moves_fix_bound)
  qed
  then show ?thesis
    using assms unfolding runs_advance_def evolves_def rows_move_def
    by (metis list_all2_conv_all_nth in_set_conv_nth)
qed

lemma evolves_history:
  assumes "evolves s t" "slots_kept s t" "0 \<le> bound"
  shows "history bound s t"
proof -
  have "outbox_clean t" if "outbox_clean s"
    using assms(1) that
    by (auto simp: guarantee_defs outbox_grows_def outbox_clean_def fresh_event_def list_all_iff)
  moreover have "queue_advances inbox_table bound s t"
    using assms(1) by (intro queue_frame) (simp add: inbox_table_def guarantee_defs)
  moreover have "audit_grows s t" using assms(1) by (simp add: guarantee_defs audit_grows_def)
  ultimately show ?thesis
    using assms by (simp add: history_def core_history_def evolves_runs_advance evolves_locks evolves_outbox)
qed

text \<open>A planning command begins runs where the others move them.\<close>

lemma plan_evolves_runs_advance:
  assumes "plan_evolves s t"
  shows "runs_advance s t"
proof (rule runs_advance_extend)
  obtain new where t: "feature_runs t = feature_runs s @ new" "list_all first_attempt new"
      "distinct (map run_id (feature_runs s)) \<longrightarrow> distinct (map run_id (feature_runs t))"
    using assms by (auto simp: plan_evolves_def rows_begin_def)
  obtain ws where "workflow_states t = workflow_states s @ ws"
      "distinct (map ws_id (workflow_states s)) \<longrightarrow> distinct (map ws_id (workflow_states t))"
    using assms by (auto simp: plan_evolves_def rows_begin_def)
  with t show "set (feature_runs s) \<subseteq> set (feature_runs t)" "set (workflow_states s) \<subseteq> set (workflow_states t)"
    "wf_store s \<Longrightarrow> wf_store t" "fix_attempts_bounded s \<Longrightarrow> fix_attempts_bounded t"
    by (auto simp: wf_store_def fix_attempts_bounded_def first_attempt_def list_all_iff FIX_ATTEMPT_THRESHOLD_def)
qed

lemma plan_evolves_history:
  assumes "plan_evolves s t" "slots_kept s t" "0 \<le> bound"
  shows "history bound s t"
proof -
  have "outbox_clean t" if "outbox_clean s"
    using assms(1) that
    by (auto simp: plan_guarantee_defs outbox_grows_def outbox_clean_def fresh_event_def list_all_iff)
  moreover have "queue_advances inbox_table bound s t"
    using assms(1) by (intro queue_frame) (simp add: inbox_table_def plan_guarantee_defs)
  moreover have "queue_advances outbox_table bound s t"
    using assms by (intro outbox_grows_advances) (simp_all add: plan_guarantee_defs)
  moreover have "audit_grows s t" using assms(1) by (simp add: plan_guarantee_defs audit_grows_def)
  moreover have "locks_advance s t" using assms(1) by (intro locks_frame) (simp_all add: plan_guarantee_defs)
  ultimately show ?thesis
    using assms by (simp add: history_def core_history_def plan_evolves_runs_advance)
qed

lemma planning_history:
  assumes "\<And>e. hist.keepsA bound (planner e)" "0 \<le> bound"
  shows "hist.keepsA bound (run_planning planner q)"
proof -
  have ev: "hist.keepsA bound m" if "plan.keepsA m" "slots.keepsA m" for m :: "command_result db_action"
    using that assms(2) by (auto simp: hist.keepsA_def plan.keepsA_def slots.keepsA_def intro: plan_evolves_history)
  show ?thesis
  proof (cases "\<exists>e. q = AssessPlanningReadiness e")
    case True
    then obtain e where q: "q = AssessPlanningReadiness e" by blast
    have "hist.keepsA bound (handler_execute (AssessPlanningReadinessHandler planner) e)"
      by (simp add: AssessPlanningReadinessHandler_def hist.keepsA_bindA assms(1) ev planned_transaction
          planning_evolves)
    then show ?thesis by (simp add: q hist.keepsA_execute)
  next
    case False
    let ?none = "\<lambda>_. throwA (OtherError [])"
    have "run_planning planner q = run_planning ?none q" using False by (cases q) auto
    moreover have "plan.keepsA (run_planning ?none q)" "slots.keepsA (run_planning ?none q)"
      by (intro planning_request_evolves planning_request_slots plan.keepsA_throwA slots.keepsA_throwA)+
    ultimately show ?thesis by (simp add: ev)
  qed
qed

text \<open>Lock operations and the sweeper touch one table each.\<close>

definition locks_only :: "store \<Rightarrow> store \<Rightarrow> bool" where
  "locks_only s t = (t = s\<lparr>workflow_locks := workflow_locks t, draws := draws t\<rparr>)"

interpretation lock_frame: store_guarantee locks_only
proof
  show "locks_only s s" for s by (simp add: locks_only_def)
  show "locks_only s u" if "locks_only s t" "locks_only t u" for s t u
  proof -
    have "u = t\<lparr>workflow_locks := workflow_locks u, draws := draws u\<rparr>" using that(2) by (simp add: locks_only_def)
    also have "\<dots> = (s\<lparr>workflow_locks := workflow_locks t, draws := draws t\<rparr>)
        \<lparr>workflow_locks := workflow_locks u, draws := draws u\<rparr>"
      using that(1) unfolding locks_only_def by metis
    finally show ?thesis by (simp add: locks_only_def)
  qed
qed

lemma acquire_locks_only: "lock_frame.keepsA (acquire p k opts)"
proof -
  have "lock_frame.keeps lock_generateId"
    by (rule lock_frame.keepsI) (simp add: lock_generateId_def wp_simps locks_only_def)
  moreover have "lock_frame.keeps (executeAffectedT c (workflow_locks_update f))" for c f
    by (rule lock_frame.keepsI) (simp add: wp_simps locks_only_def)
  moreover have "lock_frame.keeps (insertOnConflictT n workflow_locks workflow_locks_update key uniq row)"
    for n row and key :: "workflow_lock_row \<Rightarrow> string" and uniq :: "workflow_lock_row \<Rightarrow> string \<times> string"
    by (rule lock_frame.keepsI) (simp add: wp_simps locks_only_def)
  ultimately show ?thesis
    unfolding acquire_def acquire_body_def Let_def
    by (intro lock_frame.keepsA_bindA lock_frame.keeps_transaction lock_frame.keeps_bindT
        lock_frame.keeps_queryT lock_frame.keeps_if lock_frame.keeps_throwT lock_frame.keeps_returnT
        lock_frame.keeps_option)
qed

lemma release_locks_only: "lock_frame.keepsA (release lock)"
  unfolding release_def
  by (intro lock_frame.keeps_transaction lock_frame.keepsI) (simp add: wp_simps locks_only_def)

lemma heartbeat_locks_only: "lock_frame.keepsA (heartbeat lock ttl)"
  unfolding heartbeat_def
  by (intro lock_frame.keeps_transaction lock_frame.keepsI) (simp add: wp_simps locks_only_def)

lemma lock_step_history:
  assumes "lock_frame.keepsA m" "locks.keepsA m"
  shows "history bound s (snd (m s))"
proof -
  let ?t = "snd (m s)"
  have eq: "?t = s\<lparr>workflow_locks := workflow_locks ?t, draws := draws ?t\<rparr>"
    using assms(1) by (simp add: lock_frame.keepsA_def locks_only_def)
  have "feature_runs ?t = feature_runs s" "workflow_states ?t = workflow_states s" "audit_grows s ?t"
    "slots_kept s ?t" "outbox_events ?t = outbox_events s" "inbox_events ?t = inbox_events s"
    by (subst eq; simp add: audit_grows_def slots_kept_def wf_slots_def)+
  then show ?thesis
    using assms(2) by (intro history_frame) (simp_all add: locks.keepsA_def queue_frame inbox_table_def)
qed

lemma sweep_history: "history bound s (snd (sweep s))"
proof (rule history_frame)
  have eq: "snd (sweep s) = idempotency_keys_update (delete_where (\<lambda>r. ik_expires_at r \<le> clock s)) s"
    by (simp add: sweep_def transaction_def bindT_def queryT_def executeAffectedT_def)
  show "feature_runs (snd (sweep s)) = feature_runs s" "workflow_states (snd (sweep s)) = workflow_states s"
    "audit_grows s (snd (sweep s))" "outbox_events (snd (sweep s)) = outbox_events s"
    "queue_advances inbox_table bound s (snd (sweep s))"
    by (simp_all add: eq audit_grows_def inbox_table_def queue_frame)
  show "slots_kept s (snd (sweep s))" using sweep_slots_kept by (simp add: slots.keepsA_def)
  show "locks_advance s (snd (sweep s))" using sweep_locks by (simp add: locks.keepsA_def)
qed

text \<open>A poller's own statements keep the rest of the history.\<close>

lemma outbox_statement_core:
  "same_event f \<Longrightarrow> core_history s (snd (update_rows outbox_table p f s))"
  using runs_advance_refl [of s]
  by (auto simp: core_history_def update_rows_def outbox_table_def audit_grows_def
      slots_kept_def wf_slots_def outbox_clean_def set_update_where same_event_def runs_advance_def
      wf_store_def fix_attempts_bounded_def intro!: locks_frame)

lemma inbox_statement_core:
  "core_history s (snd (update_rows inbox_table p f s))"
  using runs_advance_refl [of s]
  by (auto simp: core_history_def update_rows_def inbox_table_def audit_grows_def
      slots_kept_def wf_slots_def outbox_clean_def runs_advance_def
      wf_store_def fix_attempts_bounded_def intro!: locks_frame)

lemma other_table_advances:
  "queue_advances inbox_table bound s (snd (update_rows outbox_table p f s))"
  "queue_advances outbox_table bound s (snd (update_rows inbox_table p' f' s))"
  by (auto simp: update_rows_def outbox_table_def inbox_table_def intro!: queue_frame)

lemma poll_history:
  assumes "handlers_keep (history bound) handlers" "maxAttempts options \<le> bound"
  shows "history bound s (snd (pollAndDispatch options handlers s))"
    "history bound s (snd (pollAndProcess options handlers s))"
proof -
  have core: "handlers_keep core_history handlers"
    and out: "handlers_keep (queue_advances outbox_table bound) handlers"
    and inb: "handlers_keep (queue_advances inbox_table bound) handlers"
    using assms(1) by (fastforce simp: handlers_keep_def history_def)+
  show "history bound s (snd (pollAndDispatch options handlers s))"
    unfolding history_def pollAndDispatch_def
    by (intro conjI core.keeps_poll [OF core] outbox_statement_core outbox_queue.poll_advances
        inbox_queue.advances.keeps_poll [OF inb] other_table_advances)
      (simp_all add: handlers_advance_def out assms(2))
  show "history bound s (snd (pollAndProcess options handlers s))"
    unfolding history_def pollAndProcess_def
    by (intro conjI core.keeps_poll [OF core] inbox_statement_core inbox_queue.poll_advances
        outbox_queue.advances.keeps_poll [OF out] other_table_advances)
      (simp_all add: handlers_advance_def inb assms(2))
qed

section \<open>Every step keeps the history\<close>

context store_guarantee
begin

lemma R_rtranclp:
  assumes "(\<lambda>a b. Q a b \<and> R a b)\<^sup>*\<^sup>* s t"
  shows "R s t"
  using assms by (induction rule: rtranclp_induct) (auto intro: R_refl R_trans)

lemma handlers_keep_R:
  assumes "handlers_keep (\<lambda>a b. Q a b \<and> R a b)\<^sup>*\<^sup>* handlers"
  shows "handlers_keep R handlers"
proof -
  have "(\<lambda>a b. Q a b \<and> R a b)\<^sup>*\<^sup>* \<le> R"
    using R_rtranclp [of Q] by (intro predicate2I)
  from handlers_keep_mono [OF this, of handlers] assms show ?thesis by (simp add: le_bool_def)
qed

end

lemma body_transaction:
  assumes "body.keeps m"
  shows "evolves s (snd (transaction m s))" "slots_kept s (snd (transaction m s))"
  using body.keeps_transaction [OF assms]
  by (auto simp: body.keepsA_def body_evolves_def slots_kept_def wf_slots_def guarantee_defs)

lemma step_history:
  assumes "system_step bound s t" "0 \<le> bound"
  shows "history bound s t"
  using assms(1)
proof (induction rule: system_step.induct)
  case (command s q)
  then show ?case
    using request_evolves [of q] request_slots [of q] assms(2)
    by (intro evolves_history) (simp_all add: evo.keepsA_def slots.keepsA_def)
next
  case (plan planner s q)
  then have "hist.keepsA bound (planner e)" for e
    unfolding hist.keepsA_def by (blast intro: hist.R_rtranclp)
  then show ?case
    using planning_history [OF _ assms(2), of planner q] by (simp add: hist.keepsA_def)
next
  case (review s i h a c fs)
  then show ?case using body_transaction [OF body_clean_review] assms(2) by (intro evolves_history) simp_all
next
  case (dispatch handlers options s)
  then show ?case by (intro poll_history(1) hist.handlers_keep_R)
next
  case (process handlers options s)
  then show ?case by (intro poll_history(2) hist.handlers_keep_R)
next
  case (tick ms s)
  then show ?case
    by (intro history_frame)
      (auto simp: audit_grows_def slots_kept_def wf_slots_def locks_advance_def wf_locks_def
        inbox_table_def intro!: queue_frame intro: lock_later_refl)
next
  case (arrive row s)
  then show ?case
    using assms(2)
    by (intro history_frame)
      (auto simp: audit_grows_def slots_kept_def wf_slots_def inbox_table_def queue_advances_def wf_queue_def
        intro: locks_frame event_later_refl)
next
  case log_event
  then show ?case
    by (intro history_frame)
      (auto simp: audit_grows_def slots_kept_def wf_slots_def inbox_table_def intro: locks_frame queue_frame)
next
  case disposition
  then show ?case
    by (intro history_frame)
      (auto simp: audit_grows_def slots_kept_def wf_slots_def inbox_table_def intro: locks_frame queue_frame)
next
  case outside
  then show ?case
    by (intro history_frame)
      (auto simp: audit_grows_def slots_kept_def wf_slots_def inbox_table_def intro: locks_frame queue_frame)
qed (auto intro: lock_step_history acquire_locks_only release_locks_only heartbeat_locks_only
    acquire_advances release_advances heartbeat_advances sweep_history)

lemma steps_history:
  assumes "(system_step bound)\<^sup>*\<^sup>* s t" "0 \<le> bound"
  shows "history bound s t"
  using assms(1)
  by (induction rule: rtranclp_induct) (auto intro: hist.R_refl hist.R_trans step_history assms(2))

end
