(* ===== verification/Samples.thy ===== *)
theory Samples
  imports System
begin

text \<open>
  A small concrete project, on which the theorems of the development are applied: one workflow
  row, three requests of which the third waits for the first, one run each, and an execution
  lane held by a worker. Runs, pointer and automation state are parameters.
\<close>

definition sample_run :: "string \<Rightarrow> string \<Rightarrow> FeatureExecutionState \<Rightarrow> int \<Rightarrow> int \<Rightarrow> feature_run_row" where
  "sample_run i q st fixes v =
     \<lparr>run_id = i, run_feature_request_id = q, run_attempt_no = 1, run_state = st, run_fix_attempt_count = fixes,
      run_version = v, run_updated_at = 0\<rparr>"

definition sample_ws :: "string option \<Rightarrow> AutomationState \<Rightarrow> workflow_state_row" where
  "sample_ws active au =
     \<lparr>ws_id = ''w1'', ws_project_id = ''p1'', ws_active_feature_run_id = active,
      ws_automation_state = au, ws_version = 1, ws_updated_at = 0\<rparr>"

definition sample_lane :: workflow_lock_row where
  "sample_lane =
     \<lparr>wl_id = ''l1'', wl_project_id = ''p1'', wl_resource_key = ''execution-lane:p1'',
      wl_holder_id = ''worker'', wl_fence = 3, wl_expires_at = Some 5000, wl_version = 3,
      wl_updated_at = 0\<rparr>"

definition sample_request :: "string \<Rightarrow> string \<Rightarrow> int \<Rightarrow> feature_request_row" where
  "sample_request i fr created =
     \<lparr>req_id = i, req_plan_id = ''pl1'', req_project_id = ''p1'', req_fr_id = fr, req_title = ''t'',
      req_description = ''d'', req_kind = FEATURE, req_executable = True,
      req_state = FE_APPROVED_PENDING_EXECUTION, req_priority = 0, req_created_at = created\<rparr>"

definition no_planning :: planning_tables where
  "no_planning =
     \<lparr>projects = [], specification_inputs = [], planning_readiness_assessments = [], planning_gaps = [],
      planning_questions = [], planning_assumptions = [], clarification_sessions = [],
      clarification_questions = [], clarification_answers = [], clarification_decisions = [],
      implementation_plans = [], plan_sections = [], acceptance_criteria = [], test_expectations = [],
      artifact_exports = [], design_documents = [], design_document_sections = [], design_decisions = [],
      glossary_terms = []\<rparr>"

definition no_agents :: agent_tables where
  "no_agents =
     \<lparr>agent_adapters = [], agent_capabilities = [], agent_configurations = [], adapter_revisions = [],
      agent_runs = [], agent_context_packs = [], agent_errors = [], agent_tool_operations = []\<rparr>"

definition sample_store :: "feature_run_row list \<Rightarrow> workflow_state_row \<Rightarrow> store" where
  "sample_store runs ws =
     \<lparr>clock = 1000, entropy = (\<lambda>n. show_int n), draws = 0, env_vars = (\<lambda>n. None),
      feature_runs = runs,
      feature_requests =
        [sample_request ''q1'' ''FR-1'' 1, sample_request ''q2'' ''FR-2'' 2, sample_request ''q3'' ''FR-3'' 3],
      feature_dependencies = [\<lparr>dep_id = ''d1'', dep_source_fr_id = ''q3'', dep_target_fr_id = ''q1''\<rparr>],
      workflow_states = [ws], workflow_events = [], outbox_events = [], inbox_events = [],
      idempotency_keys = [], workflow_locks = [sample_lane], human_approvals = [],
      policy_decisions = [], review_findings = [], coder_responses = [],
      review_occurrence_markers = [], disagreement_records = [], pull_requests = [],
      repositories = [], budget_policies = [], cost_records = [], merge_gate_evaluations = [],
      planning = no_planning, agents = no_agents\<rparr>"

definition sample_lock_context :: lock_context where
  "sample_lock_context =
     \<lparr>lc_lockId = ''l1'', lc_fence = 3, lc_holderId = ''worker'', lc_projectId = None,
      lc_resourceKey = None\<rparr>"

definition sample_envelope :: "UserRole \<Rightarrow> actor_kind \<Rightarrow> string \<Rightarrow> 'p \<Rightarrow> 'p envelope" where
  "sample_envelope role kind key pay =
     \<lparr>commandId = ''c1'', idempotencyKey = key, payload = pay,
      env_actor = \<lparr>actor_id = ''a1'', actor_role = role, actorKind = kind, actor_correlationId = ''x'',
                   displayName = None\<rparr>,
      correlationId = ''x'', lockContext = Some sample_lock_context\<rparr>"

definition sample_payload :: "string \<Rightarrow> int \<Rightarrow> run_payload" where
  "sample_payload i v = \<lparr>p_featureRunId = i, p_projectId = ''p1'', p_expectedVersion = v\<rparr>"

text \<open>The suffixes of the first identifiers a command draws.\<close>

lemma show_digits:
  "show_int 0 = ''0''" "show_int 1 = ''1''" "show_int 2 = ''2''" "show_int 3 = ''3''" "show_int 4 = ''4''"
  "show_int 5 = ''5''" "show_int 6 = ''6''" "show_int 7 = ''7''" "show_int 8 = ''8''" "show_int 9 = ''9''"
  by (simp_all add: show_int_def show_nonneg.simps [of 0] show_nonneg.simps [of 1]
      show_nonneg.simps [of "numeral n" for n] digit_char_def)

text \<open>What running a command on a concrete store rewrites with.\<close>

named_theorems run_simps "concrete execution"

declare execute_def [run_simps] assertRole_def [run_simps] meetsRole_def [run_simps]
  bindA_def [run_simps] queryA_def [run_simps] returnA_def [run_simps] throwA_def [run_simps]
  checkIdempotencyKey_def [run_simps] claimed_transaction_ttl_def [run_simps] transaction_def [run_simps]
  with_claim_ttl_def [run_simps] claimIdempotencyKey_def [run_simps] fulfillIdempotencyKey_def [run_simps]
  bindT_def [run_simps] queryT_def [run_simps] executeT_def [run_simps]
  executeAffectedT_def [run_simps] returnT_def [run_simps] throwT_def [run_simps]
  insertT_def [run_simps] insertOnConflictT_def [run_simps] generateId_def [run_simps]
  delete_where_def [run_simps] count_where_def [run_simps] update_where_def [run_simps]
  find_run_def [run_simps] run_in_project_def [run_simps] assertVersion_def [run_simps]
  nextVersion_def [run_simps] fe_assertValid_eq [run_simps] au_assertValid_eq [run_simps]
  cas_run_def [run_simps] cas_run_if_running_def [run_simps] cas_run_fix_attempt_def [run_simps]
  at_version_def [run_simps] set_run_state_def [run_simps] activate_run_def [run_simps]
  clear_active_run_def [run_simps] unmet_dependencies_def [run_simps]
  writeWorkflowEvent_def [run_simps] writeOutboxEvent_def [run_simps]
  insertHumanApproval_def [run_simps] insertPolicyDecision_def [run_simps]
  accepted_result_def [run_simps] fe_valid_iff [run_simps] fe_edges_eq [run_simps]
  au_valid_iff [run_simps] au_edges_eq [run_simps] automation_running_def [run_simps]
  workflow_state_of_def [run_simps] active_run_of_def [run_simps] requireExecutionLane_def [run_simps]
  assertLockFence_def [run_simps] lock_by_id_def [run_simps] Let_def [run_simps]
  sample_store_def [run_simps] sample_run_def [run_simps] sample_ws_def [run_simps]
  sample_request_def [run_simps] no_planning_def [run_simps] no_agents_def [run_simps]
  sample_lane_def [run_simps] sample_envelope_def [run_simps] sample_payload_def [run_simps]
  sample_lock_context_def [run_simps]

end
