(* ===== verification/FeatureFacts.thy ===== *)
theory FeatureFacts
  imports Samples
begin

text \<open>
  What a command that ran (rather than replayed a stored result) guarantees about the store it
  leaves: the selection, the coding steps, the fix-attempt limit, the human dispositions and the
  merge, each with a concrete run of the command.
\<close>

section \<open>Reading the tables of a fresh execution\<close>

definition fresh_key :: "'p handler \<Rightarrow> 'p envelope \<Rightarrow> store \<Rightarrow> bool" where
  "fresh_key h e s = (idempotency_slot (idempotencyKey e) (idempotencyScope h) s = None)"

lemma fresh_key_uncached:
  assumes "fresh_key h e s"
  shows "checkIdempotencyKey (idempotencyKey e) (idempotencyScope h) s = None"
  using assms
  by (auto simp: fresh_key_def checkIdempotencyKey_def idempotency_slot_def filter_empty_conv
      split: option.splits dest!: first_row_in)

lemma same_tables_columns:
  assumes "same_tables s t"
  shows "clock t = clock s" "feature_runs t = feature_runs s" "feature_requests t = feature_requests s"
    "feature_dependencies t = feature_dependencies s" "workflow_states t = workflow_states s"
    "workflow_locks t = workflow_locks s" "pull_requests t = pull_requests s"
    "human_approvals t = human_approvals s" "review_findings t = review_findings s"
    "disagreement_records t = disagreement_records s" "workflow_events t = workflow_events s"
    "outbox_events t = outbox_events s" "inbox_events t = inbox_events s" "planning t = planning s"
    "agents t = agents s" "cost_records t = cost_records s"
proof -
  obtain d ks where "t = s\<lparr>draws := d, idempotency_keys := ks\<rparr>"
    using assms unfolding same_tables_def by blast
  then show "clock t = clock s" "feature_runs t = feature_runs s" "feature_requests t = feature_requests s"
    "feature_dependencies t = feature_dependencies s" "workflow_states t = workflow_states s"
    "workflow_locks t = workflow_locks s" "pull_requests t = pull_requests s"
    "human_approvals t = human_approvals s" "review_findings t = review_findings s"
    "disagreement_records t = disagreement_records s" "workflow_events t = workflow_events s"
    "outbox_events t = outbox_events s" "inbox_events t = inbox_events s" "planning t = planning s"
    "agents t = agents s" "cost_records t = cost_records s"
    by simp_all
qed

lemma same_tables_reads:
  assumes "same_tables s t"
  shows "find_run i p t = find_run i p s" "workflow_state_of p t = workflow_state_of p s"
    "unmet_dependencies q t = unmet_dependencies q s" "automation_running p t = automation_running p s"
    "lane_held e p t = lane_held e p s" "pending_dependents q t = pending_dependents q s"
    "active_run_of p t = active_run_of p s"
  using same_tables_columns [OF assms]
  by (simp_all add: find_run_def run_in_project_def workflow_state_of_def unmet_dependencies_def
      automation_running_def lane_held_def fence_held_def lock_by_id_def pending_dependents_def
      active_run_of_def split: option.split)

lemmas same_tables_simps = same_tables_columns same_tables_reads

lemma fresh_success:
  assumes "execute h e s = (Inr res, t)" "fresh_key h e s"
    "handler_execute h = claimed_transaction_ttl ttl (idempotencyScope h) body"
    "\<And>s1. same_tables s s1 \<Longrightarrow> wp (body e) (\<lambda>a t1. \<forall>u. same_tables t1 u \<longrightarrow> Q a u) (\<lambda>_. True) s1"
  shows "Q res t"
  using assms(1,3) assms(2) [unfolded fresh_key_def] fresh_key_uncached [OF assms(2)] assms(4)
  by (rule fresh_success_body)

text \<open>Which statements leave a run's row alone, and what the compare-and-set makes of it.\<close>

lemma find_run_frames [simp]:
  "find_run i p (workflow_states_update f s) = find_run i p s"
  "find_run i p (workflow_events_update f2 s) = find_run i p s"
  "find_run i p (outbox_events_update f3 s) = find_run i p s"
  "find_run i p (human_approvals_update f4 s) = find_run i p s"
  "find_run i p (pull_requests_update f5 s) = find_run i p s"
  "find_run i p (review_findings_update f6 s) = find_run i p s"
  "find_run i p (draws_update f7 s) = find_run i p s"
  "find_run i p (policy_decisions_update f8 s) = find_run i p s"
  by (simp_all add: find_run_def run_in_project_def)

lemma find_run_cas:
  assumes "find_run i p s = Some r" "wf_store s" "run_version r = v"
    "\<And>x. run_id (f x) = run_id x \<and> run_feature_request_id (f x) = run_feature_request_id x"
  shows "find_run i p (feature_runs_update (update_where (at_version i v) f) s) = Some (f r)"
proof -
  let ?t = "feature_runs_update (update_where (at_version i v) f) s"
  let ?P = "\<lambda>x. run_id x = i \<and> run_in_project p ?t x"
  have r: "r \<in> set (feature_runs s)" "run_id r = i" "run_in_project p s r"
    using find_run_Some [OF assms(1)] by auto
  have "map run_id (feature_runs ?t) = map run_id (feature_runs s)"
    using assms(4) by (simp add: map_update_where)
  then have d: "distinct (map run_id (feature_runs ?t))" using assms(2) by (simp add: wf_store_def)
  have m: "f r \<in> set (feature_runs ?t)"
    using r assms(3) by (auto simp: set_update_where at_version_def)
  have fr: "?P (f r)" using r assms(4) [of r] by (simp add: run_in_project_def)
  have "first_row (filter ?P (feature_runs ?t)) = Some (f r)"
  proof (rule first_row_unique)
    show "f r \<in> set (filter ?P (feature_runs ?t))" using m fr by simp
    fix y assume "y \<in> set (filter ?P (feature_runs ?t))"
    then have "y \<in> set (feature_runs ?t)" "run_id y = run_id (f r)"
      using r(2) assms(4) [of r] by simp_all
    with m show "y = f r" by (intro distinct_map_unique [OF d])
  qed
  then show ?thesis by (simp add: find_run_def)
qed

section \<open>Symbolic execution of a whole body\<close>

lemma wp_requireExecutionLane:
  "wp (requireExecutionLane name e p) Q (\<lambda>_. True) s = (lane_held e p s \<longrightarrow> Q () s)"
  by (auto simp: requireExecutionLane_def lane_held_def wp_simps wp_assertLockFence split: option.splits)

lemmas wp_run = wp_simps wp_requireExecutionLane Let_def nextVersion_def fe_assertValid_eq au_assertValid_eq
  cas_run_def cas_run_if_running_def cas_run_fix_attempt_def activate_run_def clear_active_run_def
  writeWorkflowEvent_def writeOutboxEvent_def insertHumanApproval_def insertPolicyDecision_def
  explain_not_running_def accepted_result_def set_update_where bex_Un

lemma same_tables_wf: "same_tables s s1 \<Longrightarrow> wf_store s \<Longrightarrow> wf_store s1"
  by (simp add: wf_store_def same_tables_simps)

lemma claimed_error_unchanged:
  assumes "handler_execute h = claimed_transaction scope body" "execute h e s = (Inl err, t)"
  shows "t = s"
  using assms(2)
  by (cases rule: execute_cases) (auto simp: assms(1) claimed_transaction_ttl_def dest: transaction_rollback)

section \<open>Selection\<close>

text \<open>
  C10. A \<open>SelectFeatureCommand\<close> that runs and succeeds found the run in its project at the expected
  version, in a state with an edge to \<open>selected\<close>, with every dependency merged, while the
  project's automation was running with no active run; it leaves the run selected at the next
  version and the project's pointer on it.
\<close>

theorem select_feature_success:
  assumes "execute SelectFeatureHandler e s = (Inr res, t)" "fresh_key SelectFeatureHandler e s" "wf_store s"
  shows "\<exists>r. find_run (p_featureRunId (payload e)) (p_projectId (payload e)) s = Some r
     \<and> run_version r = p_expectedVersion (payload e)
     \<and> fe_valid (run_state r) FE_SELECTED
     \<and> unmet_dependencies (run_feature_request_id r) s = []
     \<and> (\<exists>w \<in> set (workflow_states s). ws_project_id w = p_projectId (payload e)
          \<and> ws_automation_state w = AU_RUNNING \<and> ws_active_feature_run_id w = None)
     \<and> find_run (p_featureRunId (payload e)) (p_projectId (payload e)) t =
         Some (set_run_state FE_SELECTED (run_version r + 1) (clock s) r)
     \<and> (\<exists>w \<in> set (workflow_states t). ws_project_id w = p_projectId (payload e)
          \<and> ws_active_feature_run_id w = Some (p_featureRunId (payload e)))
     \<and> res_resultingState res = ''selected''" (is "?Q res t")
proof (rule fresh_success [OF assms(1,2), where Q = ?Q and body = SelectFeature_body])
  fix s1 assume s1: "same_tables s s1"
  with assms(3) have "wf_store s1" by (rule same_tables_wf [rotated])
  with s1 show "wp (SelectFeature_body e) (\<lambda>a t1. \<forall>u. same_tables t1 u \<longrightarrow> ?Q a u) (\<lambda>_. True) s1"
    by (auto simp: SelectFeature_body_def wp_run same_tables_simps find_run_cas set_run_state_def
        split: option.splits)
qed (simp add: SelectFeatureHandler_def)

theorem select_feature_success_witness:
  "\<exists>res t. execute SelectFeatureHandler
     (sample_envelope OPERATOR Human ''k'' (sample_payload ''r2'' 1))
     (sample_store [sample_run ''r1'' ''q1'' FE_MERGED 0 9, sample_run ''r2'' ''q3'' FE_APPROVED_PENDING_EXECUTION 0 1]
        (sample_ws None AU_RUNNING)) = (Inr res, t)
   \<and> find_run ''r2'' ''p1'' t = Some (sample_run ''r2'' ''q3'' FE_SELECTED 0 2 \<lparr>run_updated_at := 1000\<rparr>)"
proof -
  let ?e = "sample_envelope OPERATOR Human ''k'' (sample_payload ''r2'' 1)"
  let ?s = "sample_store [sample_run ''r1'' ''q1'' FE_MERGED 0 9,
      sample_run ''r2'' ''q3'' FE_APPROVED_PENDING_EXECUTION 0 1] (sample_ws None AU_RUNNING)"
  have "\<exists>res t. execute SelectFeatureHandler ?e ?s = (Inr res, t)"
    by (simp add: run_simps SelectFeatureHandler_def SelectFeature_body_def)
  then obtain res t where run: "execute SelectFeatureHandler ?e ?s = (Inr res, t)" by blast
  have "fresh_key SelectFeatureHandler ?e ?s" "wf_store ?s"
    by (simp_all add: fresh_key_def idempotency_slot_def wf_store_def run_simps)
  from select_feature_success [OF run this] run show ?thesis
    by (intro exI [of _ res] exI [of _ t]) (auto simp: run_simps)
qed

section \<open>Coding and fixing\<close>

text \<open>
  A \<open>StartCodingCommand\<close> that runs and succeeds was fenced by the project's execution lane
  (an unexpired lock at the caller's fence, held by the caller), for the project's active run, in
  state \<open>selected\<close>, while automation was running; it leaves the run coding at the next version.
\<close>

theorem start_coding_success:
  assumes "execute StartCodingHandler e s = (Inr res, t)" "fresh_key StartCodingHandler e s" "wf_store s"
  shows "lane_held e (p_projectId (payload e)) s
     \<and> automation_running (p_projectId (payload e)) s
     \<and> active_run_of (p_projectId (payload e)) s = Some (p_featureRunId (payload e))
     \<and> (\<exists>r. find_run (p_featureRunId (payload e)) (p_projectId (payload e)) s = Some r
          \<and> run_state r = FE_SELECTED \<and> run_version r = p_expectedVersion (payload e)
          \<and> find_run (p_featureRunId (payload e)) (p_projectId (payload e)) t =
              Some (set_run_state FE_CODING (run_version r + 1) (clock s) r))" (is "?Q res t")
proof (rule fresh_success [OF assms(1,2), where Q = "\<lambda>a u. ?Q a u" and body = StartCoding_body])
  fix s1 assume s1: "same_tables s s1"
  with assms(3) have "wf_store s1" by (rule same_tables_wf [rotated])
  with s1 show "wp (StartCoding_body e) (\<lambda>a t1. \<forall>u. same_tables t1 u \<longrightarrow> ?Q a u) (\<lambda>_. True) s1"
    by (auto simp: StartCoding_body_def wp_run same_tables_simps find_run_cas set_run_state_def fe_valid_iff into_coding
        split: option.splits)
qed (simp add: StartCodingHandler_def)

theorem start_coding_success_witness:
  "\<exists>res t. execute StartCodingHandler
     (sample_envelope ADMIN SystemKind ''k'' (sample_payload ''r1'' 1))
     (sample_store [sample_run ''r1'' ''q1'' FE_SELECTED 0 1] (sample_ws (Some ''r1'') AU_RUNNING)) = (Inr res, t)
   \<and> find_run ''r1'' ''p1'' t = Some (sample_run ''r1'' ''q1'' FE_CODING 0 2 \<lparr>run_updated_at := 1000\<rparr>)"
proof -
  let ?e = "sample_envelope ADMIN SystemKind ''k'' (sample_payload ''r1'' 1)"
  let ?s = "sample_store [sample_run ''r1'' ''q1'' FE_SELECTED 0 1] (sample_ws (Some ''r1'') AU_RUNNING)"
  have "\<exists>res t. execute StartCodingHandler ?e ?s = (Inr res, t)"
    by (simp add: run_simps StartCodingHandler_def StartCoding_body_def)
  then obtain res t where run: "execute StartCodingHandler ?e ?s = (Inr res, t)" by blast
  have "fresh_key StartCodingHandler ?e ?s" "wf_store ?s"
    by (simp_all add: fresh_key_def idempotency_slot_def wf_store_def run_simps)
  from start_coding_success [OF run this] run show ?thesis
    by (intro exI [of _ res] exI [of _ t]) (auto simp: run_simps)
qed

lemma start_requires_running:
  assumes "execute h e s = (Inr res, t)" "fresh_key h e s"
    "(h, body) \<in> {(SelectFeatureHandler, SelectFeature_body), (StartCodingHandler, StartCoding_body),
        (StartFixingHandler, StartFixing_body)}"
  shows "automation_running (p_projectId (payload e)) s"
proof (rule fresh_success [OF assms(1,2), where Q = "\<lambda>_ _. automation_running (p_projectId (payload e)) s" and body = body])
  fix s1 assume s1: "same_tables s s1"
  have "wp (SelectFeature_body e) (\<lambda>a t1. \<forall>u. same_tables t1 u \<longrightarrow> automation_running (p_projectId (payload e)) s) (\<lambda>_. True) s1"
    using s1
    by (auto simp: SelectFeature_body_def wp_run same_tables_simps automation_running_def list_ex_iff split: option.splits)
  moreover have "wp (StartCoding_body e) (\<lambda>a t1. \<forall>u. same_tables t1 u \<longrightarrow> automation_running (p_projectId (payload e)) s) (\<lambda>_. True) s1"
    using s1 by (auto simp: StartCoding_body_def wp_run same_tables_simps split: option.splits)
  moreover have "wp (StartFixing_body e) (\<lambda>a t1. \<forall>u. same_tables t1 u \<longrightarrow> automation_running (p_projectId (payload e)) s) (\<lambda>_. True) s1"
    using s1 by (auto simp: StartFixing_body_def wp_run same_tables_simps split: option.splits)
  ultimately show "wp (body e) (\<lambda>a t1. \<forall>u. same_tables t1 u \<longrightarrow> automation_running (p_projectId (payload e)) s) (\<lambda>_. True) s1"
    using assms(3) by auto
qed (use assms(3) in \<open>auto simp: SelectFeatureHandler_def StartCodingHandler_def StartFixingHandler_def\<close>)

text \<open>
  C24. Pausing holds: while a project's automation is not running (paused by the operator, by a
  budget, or waiting for approval), no selection, coding or fixing command with a new key
  succeeds, and the failure leaves the store as it was.
\<close>

theorem paused_automation_starts_nothing:
  assumes "\<not> automation_running (p_projectId (payload e)) s"
    "h \<in> {SelectFeatureHandler, StartCodingHandler, StartFixingHandler}" "fresh_key h e s"
  shows "\<exists>err. execute h e s = (Inl err, s)"
proof -
  obtain r t where rt: "execute h e s = (r, t)" by fastforce
  show ?thesis
  proof (cases r)
    case (Inl err)
    then have "t = s"
      using rt assms(2) claimed_error_unchanged [of h _ _ e s err t]
      by (auto simp: SelectFeatureHandler_def StartCodingHandler_def StartFixingHandler_def)
    with rt Inl show ?thesis by blast
  next
    case (Inr res)
    with rt assms show ?thesis
      using start_requires_running [of h e s res t] by blast
  qed
qed

theorem paused_automation_starts_nothing_witness:
  "\<exists>err. execute SelectFeatureHandler
     (sample_envelope OPERATOR Human ''k'' (sample_payload ''r1'' 1))
     (sample_store [sample_run ''r1'' ''q1'' FE_APPROVED_PENDING_EXECUTION 0 1]
        (sample_ws None AU_PAUSED_BY_OPERATOR)) =
    (Inl err, sample_store [sample_run ''r1'' ''q1'' FE_APPROVED_PENDING_EXECUTION 0 1]
        (sample_ws None AU_PAUSED_BY_OPERATOR))"
  by (rule paused_automation_starts_nothing) (simp_all add: run_simps fresh_key_def idempotency_slot_def)

section \<open>The fix-attempt limit\<close>

text \<open>
  At the threshold a run gets no further fix attempt: \<open>RequestChangesAfterCiFailCommand\<close>
  answers with the fix-attempt error and changes nothing.
\<close>

theorem fix_limit_enforced:
  assumes "find_run (p_featureRunId (payload e)) (p_projectId (payload e)) s = Some r"
    "run_version r = p_expectedVersion (payload e)" "fe_valid (run_state r) FE_CHANGES_REQUESTED"
    "FIX_ATTEMPT_THRESHOLD \<le> run_fix_attempt_count r"
    "actor_role (env_actor e) = ADMIN" "actorKind (env_actor e) = SystemKind"
    "fresh_key RequestChangesAfterCiFailHandler e s"
    "claim_id s \<notin> ik_id ` set (idempotency_keys s)"
  shows "execute RequestChangesAfterCiFailHandler e s =
           (Inl (fix_limit_exceeded e (p_featureRunId (payload e))), s)"
proof -
  let ?h = RequestChangesAfterCiFailHandler
  let ?s1 = "claim_insert (idempotencyKey e) ''request-changes-after-ci-fail'' IDEMPOTENCY_TTL_MS s"
  have slot: "idempotency_slot (idempotencyKey e) ''request-changes-after-ci-fail'' s = None"
    using assms(7) by (simp add: fresh_key_def RequestChangesAfterCiFailHandler_def)
  have "claim_id s \<notin> set (map ik_id (idempotency_keys (claim_sweep (idempotencyKey e) ''request-changes-after-ci-fail'' s)))"
    using assms(8) by (auto simp: claim_sweep_def)
  then have claim: "claimIdempotencyKey (idempotencyKey e) ''request-changes-after-ci-fail'' IDEMPOTENCY_TTL_MS s =
      Inr (Owned (claim_id s), ?s1)"
    by (simp add: claim_eq slot)
  have "wp (RequestChangesAfterCiFail_body e) (\<lambda>_ _. False)
      (\<lambda>err. err = fix_limit_exceeded e (p_featureRunId (payload e))) ?s1"
    using assms(1-4) same_tables_reads [OF same_tables_claim_insert]
    by (simp add: RequestChangesAfterCiFail_body_def wp_run)
  then have "RequestChangesAfterCiFail_body e ?s1 = Inl (fix_limit_exceeded e (p_featureRunId (payload e)))"
    by (auto simp: wp_def split: sum.splits)
  with claim have "handler_execute ?h e s = (Inl (fix_limit_exceeded e (p_featureRunId (payload e))), s)"
    by (simp add: RequestChangesAfterCiFailHandler_def claimed_transaction_ttl_def transaction_def with_claim_ttl_def bindT_def)
  then show ?thesis
    using assms(5,6) fresh_key_uncached [OF assms(7)]
    by (simp add: execute_def assertRole_def meetsRole_def bindA_def queryA_def RequestChangesAfterCiFailHandler_def)
qed

theorem fix_limit_enforced_witness:
  "execute RequestChangesAfterCiFailHandler
     (sample_envelope ADMIN SystemKind ''k'' (sample_payload ''r1'' 7))
     (sample_store [sample_run ''r1'' ''q1'' FE_CI_FAILED 5 7] (sample_ws (Some ''r1'') AU_RUNNING)) =
   (Inl (fix_limit_exceeded (sample_envelope ADMIN SystemKind ''k'' (sample_payload ''r1'' 7)) ''r1''),
    sample_store [sample_run ''r1'' ''q1'' FE_CI_FAILED 5 7] (sample_ws (Some ''r1'') AU_RUNNING))"
  using fix_limit_enforced [of "sample_envelope ADMIN SystemKind ''k'' (sample_payload ''r1'' 7)"
      "sample_store [sample_run ''r1'' ''q1'' FE_CI_FAILED 5 7] (sample_ws (Some ''r1'') AU_RUNNING)"
      "sample_run ''r1'' ''q1'' FE_CI_FAILED 5 7"]
  by (simp add: run_simps fresh_key_def idempotency_slot_def FIX_ATTEMPT_THRESHOLD_def)

section \<open>Skipping, merging, resolving\<close>

lemma wf_store_frames [simp]:
  "wf_store (outbox_events_update f1 x) = wf_store x" "wf_store (workflow_events_update f2 x) = wf_store x"
  "wf_store (human_approvals_update f3 x) = wf_store x" "wf_store (draws_update f4 x) = wf_store x"
  by (simp_all add: wf_store_def)

lemma wf_store_cas [simp]:
  "wf_store (feature_runs_update (update_where P (set_run_state to_s v now)) x) = wf_store x"
  by (simp add: wf_store_def map_update_where set_run_state_def)

lemma wf_store_clear [simp]:
  "wf_store (workflow_states_update (update_where P (\<lambda>w. w\<lparr>ws_active_feature_run_id := a,
     ws_version := ws_version w + 1, ws_updated_at := now\<rparr>)) x) = wf_store x"
  by (simp add: wf_store_def map_update_where)

lemma wp_unit: "wp (returnT ()) Q E = Q ()"
  by (rule ext) (simp add: wp_returnT)

lemma wp_cascade:
  assumes "wf_store x" "\<And>t. no_pending_dependent q t \<Longrightarrow> Q () t"
  shows "wp (forEachT (cascade_block e f p) (pending_dependents q x)) Q (\<lambda>_. True) x"
proof -
  have "wp (forEachT (cascade_block e f p) (pending_dependents q x))
      (\<lambda>_ t. body_evolves x t \<and> (wf_store x \<longrightarrow> no_pending_dependent q t)) (\<lambda>_. True) x"
    using cascade_wp [of q e f p "()" x] by (simp add: wp_bindT wp_queryT wp_unit)
  then show ?thesis by (rule wp_mono) (use assms in auto)
qed

text \<open>
  C23. Skipping a run in state \<open>human_required\<close> leaves no run of a request that directly depends on
  it pending: each has been blocked in the same transaction.
\<close>

theorem skip_feature_success:
  assumes "execute SkipFeatureHandler e s = (Inr res, t)" "fresh_key SkipFeatureHandler e s" "wf_store s"
  shows "\<exists>r. find_run (p_featureRunId (payload e)) (p_projectId (payload e)) s = Some r
     \<and> run_state r = FE_HUMAN_REQUIRED \<and> run_version r = p_expectedVersion (payload e)
     \<and> no_pending_dependent (run_feature_request_id r) t
     \<and> res_resultingState res = ''skipped''" (is "?Q res t")
proof (rule fresh_success [OF assms(1,2), where Q = "\<lambda>a u. ?Q a u" and body = SkipFeature_body])
  fix s1 assume s1: "same_tables s s1"
  with assms(3) have wf: "wf_store s1" by (rule same_tables_wf [rotated])
  have frame: "same_tables t1 u \<Longrightarrow> no_pending_dependent q t1 \<Longrightarrow> no_pending_dependent q u" for t1 u q
    by (simp add: no_pending_dependent_def same_tables_simps)
  show "wp (SkipFeature_body e) (\<lambda>a t1. \<forall>u. same_tables t1 u \<longrightarrow> ?Q a u) (\<lambda>_. True) s1"
    using s1 wf frame
    by (auto simp: SkipFeature_body_def wp_run same_tables_simps fe_valid_iff into_skipped
        split: option.splits intro!: wp_cascade)
qed (simp add: SkipFeatureHandler_def)

theorem skip_feature_success_witness:
  "\<exists>res t. execute SkipFeatureHandler
     (sample_envelope APPROVER Human ''k''
        \<lparr>p_featureRunId = ''r1'', p_projectId = ''p1'', p_expectedVersion = 4, np_notes = ''n''\<rparr>)
     (sample_store [sample_run ''r1'' ''q1'' FE_HUMAN_REQUIRED 0 4,
                    sample_run ''r2'' ''q3'' FE_APPROVED_PENDING_EXECUTION 0 1]
        (sample_ws (Some ''r1'') AU_RUNNING)) = (Inr res, t)
   \<and> no_pending_dependent ''q1'' t"
proof -
  let ?e = "sample_envelope APPROVER Human ''k''
      \<lparr>p_featureRunId = ''r1'', p_projectId = ''p1'', p_expectedVersion = 4, np_notes = ''n''\<rparr>"
  let ?s = "sample_store [sample_run ''r1'' ''q1'' FE_HUMAN_REQUIRED 0 4,
      sample_run ''r2'' ''q3'' FE_APPROVED_PENDING_EXECUTION 0 1] (sample_ws (Some ''r1'') AU_RUNNING)"
  have "\<exists>res t. execute SkipFeatureHandler ?e ?s = (Inr res, t)"
    by (simp add: run_simps SkipFeatureHandler_def SkipFeature_body_def pending_dependents_def
        cascade_block_def MAX_CASCADE_RETRIES_def numeral_3_eq_3 show_digits)
  then obtain res t where run: "execute SkipFeatureHandler ?e ?s = (Inr res, t)" by blast
  have "fresh_key SkipFeatureHandler ?e ?s" "wf_store ?s"
    by (simp_all add: fresh_key_def idempotency_slot_def wf_store_def run_simps)
  from skip_feature_success [OF run this] run show ?thesis
    by (intro exI [of _ res] exI [of _ t]) (auto simp: run_simps)
qed

end
