(* ===== verification/RunFacts.thy ===== *)
theory RunFacts
  imports FeatureFacts
begin

text \<open>
  The picker of the next run against the command that selects it, the merge, and the resolution of
  a disagreement. \<open>fresh_outcome\<close> gives both ways a new command can end.
\<close>

section \<open>Both outcomes of a fresh execution\<close>

lemma fresh_outcome:
  assumes "assertRole (env_actor e) (requiredRole h) (commandName h) (requiredActorKind h) = Inr ()"
    "fresh_key h e s" "handler_execute h = claimed_transaction (idempotencyScope h) body"
    "\<And>s1. same_tables s s1 \<Longrightarrow> wp (body e) (\<lambda>a t1. \<forall>u. same_tables t1 u \<longrightarrow> Q a u) E s1"
    "E (ConstraintViolation ''idempotency_keys'')"
  shows "(\<exists>err. execute h e s = (Inl err, s) \<and> E err) \<or> (\<exists>res t. execute h e s = (Inr res, t) \<and> Q res t)"
proof -
  let ?k = "idempotencyKey e" and ?sc = "idempotencyScope h"
  let ?s1 = "claim_insert ?k ?sc IDEMPOTENCY_TTL_MS s"
  have run: "execute h e s = transaction (with_claim ?k ?sc (body e)) s"
    using assms(1) fresh_key_uncached [OF assms(2)]
    by (simp add: execute_def bindA_def queryA_def assms(3) claimed_transaction_ttl_def)
  have slot: "idempotency_slot ?k ?sc s = None" using assms(2) by (simp add: fresh_key_def)
  note body = assms(4) [OF same_tables_claim_insert [of s ?k ?sc IDEMPOTENCY_TTL_MS]]
  show ?thesis
  proof (cases "claim_id s \<in> set (map ik_id (idempotency_keys (claim_sweep ?k ?sc s)))")
    case True
    with assms(5) slot show ?thesis
      by (simp add: run transaction_def with_claim_ttl_def bindT_def claim_eq)
  next
    case False
    have "with_claim ?k ?sc (body e) s =
        (case body e ?s1 of Inl err \<Rightarrow> Inl err | Inr (a, t1) \<Rightarrow> Inr (a, fulfilled (claim_id s) a t1))"
      using False slot
      by (simp add: with_claim_ttl_def bindT_def claim_eq fulfill_eq returnT_def split: sum.split)
    then show ?thesis
      using body same_tables_fulfilled
      by (auto simp: run transaction_def wp_def split: sum.splits)
  qed
qed

section \<open>The next eligible run\<close>

lemma request_before_order:
  "request_before a b \<Longrightarrow> \<not> request_before b a"
  "request_before a c \<Longrightarrow> \<not> request_before b c \<Longrightarrow> request_before a b"
  by (auto simp: request_before_def)

lemma eligible_iff:
  "(r, q) \<in> set (eligible_runs p s) \<longleftrightarrow>
     r \<in> set (feature_runs s) \<and> q \<in> set (feature_requests s) \<and> run_feature_request_id r = req_id q
     \<and> req_project_id q = p \<and> run_state r = FE_APPROVED_PENDING_EXECUTION \<and> unmet_dependencies (req_id q) s = []"
  by (auto simp: eligible_runs_def)

lemma find_run_unique:
  assumes "wf_store s" "r \<in> set (feature_runs s)" "run_in_project p s r"
  shows "find_run (run_id r) p s = Some r"
  unfolding find_run_def
  using assms by (intro first_row_unique) (auto simp: wf_store_def intro: distinct_map_unique)

lemma next_eligible_run:
  assumes "findNextEligibleFeatureRun p s = Some (i, v)" "wf_store s"
  obtains r q where "find_run i p s = Some r" "run_version r = v" "(r, q) \<in> set (eligible_runs p s)"
    "\<And>r' q'. (r', q') \<in> set (eligible_runs p s) \<Longrightarrow> \<not> request_before q' q"
proof -
  obtain r q where rq: "first_row (order_by (\<lambda>a b. request_before (snd a) (snd b)) (eligible_runs p s)) = Some (r, q)"
      "i = run_id r" "v = run_version r"
    using assms(1) by (auto simp: findNextEligibleFeatureRun_def split: option.splits)
  then have el: "(r, q) \<in> set (eligible_runs p s)"
    using first_row_in set_order_by by fastforce
  then have "run_in_project p s r" "r \<in> set (feature_runs s)"
    by (auto simp: eligible_iff run_in_project_def list_ex_iff)
  then have "find_run i p s = Some r" using find_run_unique [OF assms(2)] rq(2) by simp
  moreover have "\<not> request_before q' q" if "(r', q') \<in> set (eligible_runs p s)" for r' q'
  proof -
    have "\<not> request_before (snd (r', q')) (snd (r, q))"
      by (rule order_by_first [OF rq(1) _ _ that]) (rule request_before_order; assumption)+
    then show ?thesis by simp
  qed
  ultimately show thesis using rq(3) el that by blast
qed

text \<open>
  C22. The run the picker answers with is one \<open>SelectFeatureCommand\<close> accepts: with automation running
  and no active run, an authorised new command for it at the answered version succeeds, unless
  a generated identifier collides; and no eligible run of an earlier request was passed over.
\<close>

theorem next_eligible_selectable:
  assumes "findNextEligibleFeatureRun p s = Some (i, v)" "wf_store s"
    "w \<in> set (workflow_states s)" "ws_project_id w = p" "ws_automation_state w = AU_RUNNING"
    "ws_active_feature_run_id w = None"
    "payload e = \<lparr>p_featureRunId = i, p_projectId = p, p_expectedVersion = v\<rparr>"
    "OPERATOR \<le> actor_role (env_actor e)" "actorKind (env_actor e) = Human"
    "fresh_key SelectFeatureHandler e s"
  shows "((\<exists>table. execute SelectFeatureHandler e s = (Inl (ConstraintViolation table), s))
      \<or> (\<exists>res t. execute SelectFeatureHandler e s = (Inr res, t)))
     \<and> (\<exists>r q. find_run i p s = Some r \<and> (r, q) \<in> set (eligible_runs p s)
          \<and> (\<forall>(r', q') \<in> set (eligible_runs p s). req_created_at q \<le> req_created_at q'))"
proof -
  obtain r q where rq: "find_run i p s = Some r" "run_version r = v" "(r, q) \<in> set (eligible_runs p s)"
      "\<And>r' q'. (r', q') \<in> set (eligible_runs p s) \<Longrightarrow> \<not> request_before q' q"
    using next_eligible_run [OF assms(1,2)] by blast
  have el: "r \<in> set (feature_runs s)" "run_id r = i" "run_state r = FE_APPROVED_PENDING_EXECUTION"
    "unmet_dependencies (run_feature_request_id r) s = []"
    using rq(3) find_run_Some [OF rq(1)] by (auto simp: eligible_iff)
  have body: "wp (SelectFeature_body e) (\<lambda>a t1. \<forall>u. same_tables t1 u \<longrightarrow> True)
      (\<lambda>err. \<exists>table. err = ConstraintViolation table) s1" if "same_tables s s1" for s1
    using that rq(1,2) el assms(3-7)
    by (auto simp: SelectFeature_body_def wp_run same_tables_simps fe_valid_iff fe_edges_eq at_version_def)
  have "(\<exists>err. execute SelectFeatureHandler e s = (Inl err, s) \<and> (\<exists>table. err = ConstraintViolation table))
      \<or> (\<exists>res t. execute SelectFeatureHandler e s = (Inr res, t) \<and> True)"
    by (rule fresh_outcome [where Q = "\<lambda>_ _. True" and body = SelectFeature_body
          and E = "\<lambda>err. \<exists>table. err = ConstraintViolation table"])
      (use assms(8-10) body in \<open>simp_all add: SelectFeatureHandler_def assertRole_ok\<close>)
  moreover have "req_created_at q \<le> req_created_at q'" if "(r', q') \<in> set (eligible_runs p s)" for r' q'
    using rq(4) [OF that] by (auto simp: request_before_def)
  ultimately show ?thesis using rq(1,3) by auto
qed

theorem next_eligible_selectable_witness:
  "let s = sample_store [sample_run ''r3'' ''q3'' FE_APPROVED_PENDING_EXECUTION 0 1,
         sample_run ''r2'' ''q2'' FE_APPROVED_PENDING_EXECUTION 0 4] (sample_ws None AU_RUNNING);
       e = sample_envelope OPERATOR Human ''k'' (sample_payload ''r2'' 4)
   in findNextEligibleFeatureRun ''p1'' s = Some (''r2'', 4)
    \<and> (\<exists>res t. execute SelectFeatureHandler e s = (Inr res, t))
    \<and> (\<exists>r q. find_run ''r2'' ''p1'' s = Some r \<and> (r, q) \<in> set (eligible_runs ''p1'' s))"
proof -
  let ?s = "sample_store [sample_run ''r3'' ''q3'' FE_APPROVED_PENDING_EXECUTION 0 1,
         sample_run ''r2'' ''q2'' FE_APPROVED_PENDING_EXECUTION 0 4] (sample_ws None AU_RUNNING)"
  let ?e = "sample_envelope OPERATOR Human ''k'' (sample_payload ''r2'' 4)"
  have pick: "findNextEligibleFeatureRun ''p1'' ?s = Some (''r2'', 4)"
    by (simp add: findNextEligibleFeatureRun_def eligible_runs_def order_by_def request_before_def run_simps)
  have "wf_store ?s" "sample_ws None AU_RUNNING \<in> set (workflow_states ?s)"
    "ws_project_id (sample_ws None AU_RUNNING) = ''p1''" "ws_automation_state (sample_ws None AU_RUNNING) = AU_RUNNING"
    "ws_active_feature_run_id (sample_ws None AU_RUNNING) = None"
    "payload ?e = \<lparr>p_featureRunId = ''r2'', p_projectId = ''p1'', p_expectedVersion = 4\<rparr>"
    "OPERATOR \<le> actor_role (env_actor ?e)" "actorKind (env_actor ?e) = Human" "fresh_key SelectFeatureHandler ?e ?s"
    by (simp_all add: wf_store_def fresh_key_def idempotency_slot_def run_simps)
  note sel = next_eligible_selectable [OF pick this]
  have "\<exists>res t. execute SelectFeatureHandler ?e ?s = (Inr res, t)"
    by (simp add: run_simps SelectFeatureHandler_def SelectFeature_body_def)
  with sel pick show ?thesis unfolding Let_def by blast
qed

section \<open>Merging\<close>

text \<open>
  C21. A \<open>RecordMergedCommand\<close> that runs and succeeds was for a run in state \<open>merge_ready\<close> at the
  expected version; it leaves the run merged, every pull request row of the run merged with
  the given commit, the run no longer any workflow row's active run in its project, and logs
  the transition as the last entry.
\<close>

theorem record_merged_success:
  assumes "execute RecordMergedHandler e s = (Inr res, t)" "fresh_key RecordMergedHandler e s" "wf_store s"
  shows "(\<exists>r. find_run (p_featureRunId (payload e)) (p_projectId (payload e)) s = Some r
       \<and> run_state r = FE_MERGE_READY \<and> run_version r = p_expectedVersion (payload e)
       \<and> find_run (p_featureRunId (payload e)) (p_projectId (payload e)) t =
           Some (set_run_state FE_MERGED (run_version r + 1) (clock s) r))
     \<and> (\<forall>pr \<in> set (pull_requests t). pr_feature_run_id pr = p_featureRunId (payload e) \<longrightarrow>
          pr_state pr = ''merged'' \<and> pr_merge_sha pr = Some (me_mergeSha (payload e)))
     \<and> (\<forall>w \<in> set (workflow_states t). ws_project_id w = p_projectId (payload e) \<longrightarrow>
          ws_active_feature_run_id w \<noteq> Some (p_featureRunId (payload e)))
     \<and> we_event_type (last (workflow_events t)) = ''feature.merged''
     \<and> we_to_state (last (workflow_events t)) = ''merged''" (is "?Q res t")
proof (rule fresh_success [OF assms(1,2), where Q = "\<lambda>a u. ?Q a u" and body = RecordMerged_body])
  fix s1 assume s1: "same_tables s s1"
  with assms(3) have "wf_store s1" by (rule same_tables_wf [rotated])
  with s1 show "wp (RecordMerged_body e) (\<lambda>a t1. \<forall>u. same_tables t1 u \<longrightarrow> ?Q a u) (\<lambda>_. True) s1"
    by (auto simp: RecordMerged_body_def wp_run same_tables_simps find_run_cas set_run_state_def fe_valid_iff into_merged
        split: option.splits)
qed (simp add: RecordMergedHandler_def)

theorem record_merged_success_witness:
  "\<exists>res t. execute RecordMergedHandler
     (sample_envelope ADMIN SystemKind ''k''
        \<lparr>p_featureRunId = ''r1'', p_projectId = ''p1'', p_expectedVersion = 9, me_mergeSha = ''abc''\<rparr>)
     (sample_store [sample_run ''r1'' ''q1'' FE_MERGE_READY 0 9] (sample_ws (Some ''r1'') AU_RUNNING)) = (Inr res, t)
   \<and> find_run ''r1'' ''p1'' t = Some (sample_run ''r1'' ''q1'' FE_MERGED 0 10 \<lparr>run_updated_at := 1000\<rparr>)"
proof -
  let ?e = "sample_envelope ADMIN SystemKind ''k''
      \<lparr>p_featureRunId = ''r1'', p_projectId = ''p1'', p_expectedVersion = 9, me_mergeSha = ''abc''\<rparr>"
  let ?s = "sample_store [sample_run ''r1'' ''q1'' FE_MERGE_READY 0 9] (sample_ws (Some ''r1'') AU_RUNNING)"
  have "\<exists>res t. execute RecordMergedHandler ?e ?s = (Inr res, t)"
    by (simp add: run_simps RecordMergedHandler_def RecordMerged_body_def)
  then obtain res t where run: "execute RecordMergedHandler ?e ?s = (Inr res, t)" by blast
  have "fresh_key RecordMergedHandler ?e ?s" "wf_store ?s"
    by (simp_all add: fresh_key_def idempotency_slot_def wf_store_def run_simps)
  from record_merged_success [OF run this] run show ?thesis
    by (intro exI [of _ res] exI [of _ t]) (auto simp: run_simps)
qed

section \<open>Resolving a disagreement\<close>

lemma find_run_disagreements [simp]: "find_run i p (disagreement_records_update f s) = find_run i p s"
  by (simp add: find_run_def run_in_project_def)

lemma wf_store_disagreements [simp]: "wf_store (disagreement_records_update f s) = wf_store s"
  by (simp add: wf_store_def)

lemma filter_update_where:
  "(\<And>x. p x \<Longrightarrow> \<not> q x \<and> \<not> q (f x)) \<Longrightarrow> filter q (update_where p f xs) = filter q xs"
  by (induction xs) auto

lemma found_disagreement:
  "findDisagreementForFeatureRun i d s = Some x \<Longrightarrow> x \<in> set (disagreement_records s) \<and> unresolved_for i x"
  by (auto simp: findDisagreementForFeatureRun_def findOpenDisagreement_def split: if_splits dest!: first_row_in)

lemma filter_others_unresolved:
  "filter (\<lambda>d. dr_feature_run_id d \<noteq> i) (update_where (\<lambda>d. dr_id d = j \<and> unresolved_for i d)
       (\<lambda>d. d\<lparr>dr_state := st, dr_resolution := x, dr_resolved_at := y, dr_version := dr_version d + 1,
              dr_updated_at := z\<rparr>) rows) = filter (\<lambda>d. dr_feature_run_id d \<noteq> i) rows"
  by (rule filter_update_where) (simp add: unresolved_for_def)

lemma disagreements_same_tables:
  "same_tables s t \<Longrightarrow> findDisagreementForFeatureRun i d t = findDisagreementForFeatureRun i d s"
  by (simp add: findDisagreementForFeatureRun_def findOpenDisagreement_def same_tables_simps)

definition sample_disagreement :: "string \<Rightarrow> string \<Rightarrow> disagreement_row" where
  "sample_disagreement i r =
     \<lparr>dr_id = i, dr_feature_run_id = r, dr_finding_id = None, dr_review_cycle = 1, dr_state = DIS_ESCALATED,
      dr_arbiter_run_id = None, dr_resolution = None, dr_resolved_at = None, dr_version = 1, dr_updated_at = 0\<rparr>"

text \<open>
  A \<open>ResolveDisagreementCommand\<close> that runs and succeeds resolved a disagreement of that very
  run that was open or escalated, records the human's resolution on it and on no other run's
  disagreement, and sends the run back to \<open>changes_requested\<close> at the next version.
\<close>

theorem resolve_disagreement_success:
  assumes "execute ResolveDisagreementHandler e s = (Inr res, t)" "fresh_key ResolveDisagreementHandler e s"
    "wf_store s"
  shows "(\<exists>d \<in> set (disagreement_records s). unresolved_for (p_featureRunId (payload e)) d
       \<and> (\<exists>d' \<in> set (disagreement_records t). dr_id d' = dr_id d \<and> dr_state d' = DIS_RESOLVED
            \<and> dr_resolution d' = Some (rd_resolution (payload e))))
     \<and> filter (\<lambda>d. dr_feature_run_id d \<noteq> p_featureRunId (payload e)) (disagreement_records t) =
         filter (\<lambda>d. dr_feature_run_id d \<noteq> p_featureRunId (payload e)) (disagreement_records s)
     \<and> (\<exists>r. find_run (p_featureRunId (payload e)) (p_projectId (payload e)) s = Some r
          \<and> find_run (p_featureRunId (payload e)) (p_projectId (payload e)) t =
              Some (set_run_state FE_CHANGES_REQUESTED (run_version r + 1) (clock s) r))" (is "?Q res t")
proof (rule fresh_success [OF assms(1,2), where Q = "\<lambda>a u. ?Q a u" and body = ResolveDisagreement_body])
  fix s1 assume s1: "same_tables s s1"
  with assms(3) have wf: "wf_store s1" by (rule same_tables_wf [rotated])
  show "wp (ResolveDisagreement_body e) (\<lambda>a t1. \<forall>u. same_tables t1 u \<longrightarrow> ?Q a u) (\<lambda>_. True) s1"
    using s1 wf disagreements_same_tables [OF s1] found_disagreement
    by (auto simp: ResolveDisagreement_body_def wp_run same_tables_simps find_run_cas set_run_state_def
        resolveDisagreementByHuman_def filter_others_unresolved
        split: option.splits)
qed (simp add: ResolveDisagreementHandler_def)

theorem resolve_disagreement_success_witness:
  "\<exists>res t. execute ResolveDisagreementHandler
     (sample_envelope APPROVER Human ''k''
        \<lparr>p_featureRunId = ''r1'', p_projectId = ''p1'', p_expectedVersion = 4, rd_resolution = ''keep'',
         rd_disagreementId = Some ''d1''\<rparr>)
     ((sample_store [sample_run ''r1'' ''q1'' FE_HUMAN_REQUIRED 0 4] (sample_ws (Some ''r1'') AU_RUNNING))
        \<lparr>disagreement_records := [sample_disagreement ''d1'' ''r1'', sample_disagreement ''d2'' ''r2'']\<rparr>) = (Inr res, t)
   \<and> find_run ''r1'' ''p1'' t = Some (sample_run ''r1'' ''q1'' FE_CHANGES_REQUESTED 0 5 \<lparr>run_updated_at := 1000\<rparr>)"
proof -
  let ?e = "sample_envelope APPROVER Human ''k''
      \<lparr>p_featureRunId = ''r1'', p_projectId = ''p1'', p_expectedVersion = 4, rd_resolution = ''keep'',
       rd_disagreementId = Some ''d1''\<rparr>"
  let ?s = "(sample_store [sample_run ''r1'' ''q1'' FE_HUMAN_REQUIRED 0 4] (sample_ws (Some ''r1'') AU_RUNNING))
        \<lparr>disagreement_records := [sample_disagreement ''d1'' ''r1'', sample_disagreement ''d2'' ''r2'']\<rparr>"
  have "\<exists>res t. execute ResolveDisagreementHandler ?e ?s = (Inr res, t)"
    by (simp add: run_simps ResolveDisagreementHandler_def ResolveDisagreement_body_def sample_disagreement_def
        findDisagreementForFeatureRun_def resolveDisagreementByHuman_def unresolved_for_def truthy_def)
  then obtain res t where run: "execute ResolveDisagreementHandler ?e ?s = (Inr res, t)" by blast
  have "fresh_key ResolveDisagreementHandler ?e ?s" "wf_store ?s"
    by (simp_all add: fresh_key_def idempotency_slot_def wf_store_def run_simps)
  from resolve_disagreement_success [OF run this] run show ?thesis
    by (intro exI [of _ res] exI [of _ t]) (auto simp: run_simps)
qed

end
