(* ===== verification/GateFacts.thy ===== *)
theory GateFacts
  imports RunFacts
begin

text \<open>
  The merge gate: what its reasons amount to, that only a run without reasons gets through, and that
  a rejection leaves nothing but its evidence row. Then the budget that feeds it and the
  automation state it moves.
\<close>

section \<open>The verdict\<close>

lemma order_by_empty [simp]: "order_by before xs = [] \<longleftrightarrow> xs = []"
  by (metis length_0_conv length_order_by)

lemma no_outstanding_approval:
  "outstanding_approval i s = None \<longleftrightarrow>
     (\<forall>a \<in> set (human_approvals s). ha_feature_run_id a = Some i \<longrightarrow> ha_decision a \<in> {None, Some DEC_APPROVED})"
proof -
  have "d \<in> {None, Some DEC_APPROVED} \<longleftrightarrow> d \<noteq> Some DEC_REJECTED \<and> d \<noteq> Some DEC_DEFERRED" for d
    by (cases d; cases "the d") simp_all
  then show ?thesis by (auto simp: outstanding_approval_def filter_empty_conv)
qed

lemma gate_open:
  "gate_reasons i p q s = [] \<longleftrightarrow>
     active_run_of p s = Some i
     \<and> (\<exists>pr. getPullRequestByFeatureRun i s = Some pr \<and> pr_state pr = ''open''
          \<and> default_branch_of p s = Some (pr_base_branch pr) \<and> pr_ci_status pr = ''passed''
          \<and> pr_review_state pr \<noteq> ''changes_requested'' \<and> pr_mergeable pr = Some True
          \<and> (\<forall>label \<in> set (resolveBlockingLabelsPolicy s). label \<notin> to_lower ` set (pr_blocking_labels pr)))
     \<and> (\<forall>f \<in> set (review_findings s). rf_feature_run_id f = i \<and> \<not> rf_resolved f \<longrightarrow>
          rf_severity f \<noteq> SEV_BLOCKING \<and> rf_severity f \<noteq> SEV_REQUIRES_HUMAN_DECISION)
     \<and> gate_budget_status p q s = BUDGET_OK
     \<and> (\<forall>a \<in> set (human_approvals s). ha_feature_run_id a = Some i \<longrightarrow> ha_decision a \<in> {None, Some DEC_APPROVED})"
proof -
  have count: "unresolved_blocking i s > 0 \<longleftrightarrow> unresolved_blocking i s \<noteq> 0"
    unfolding unresolved_blocking_def by (simp add: count_where_def)
  show ?thesis
    unfolding gate_reasons_def Let_def no_outstanding_approval [symmetric]
    using count
    by (auto simp: pull_request_reasons_def matched_labels_def unresolved_blocking_def filter_empty_conv
        split: option.splits if_splits)
qed

text \<open>
  C8. The gate has no reason to reject exactly when the run is its project's active run, its pull
  request is open, mergeable, on the repository's default branch, with CI passed and no
  changes requested, no finding blocks it, no blocking label is on it, the feature's budget is
  kept, and no approval of the run was rejected or deferred.
\<close>

theorem gate_reasons_empty_iff:
  "gate_reasons i p q s = [] \<longleftrightarrow>
     active_run_of p s = Some i
     \<and> (\<exists>pr. getPullRequestByFeatureRun i s = Some pr \<and> pr_state pr = ''open''
          \<and> default_branch_of p s = Some (pr_base_branch pr) \<and> pr_ci_status pr = ''passed''
          \<and> pr_review_state pr \<noteq> ''changes_requested'' \<and> pr_mergeable pr = Some True
          \<and> (\<forall>label \<in> set (resolveBlockingLabelsPolicy s). label \<notin> to_lower ` set (pr_blocking_labels pr)))
     \<and> (\<forall>f \<in> set (review_findings s). rf_feature_run_id f = i \<and> \<not> rf_resolved f \<longrightarrow>
          rf_severity f \<noteq> SEV_BLOCKING \<and> rf_severity f \<noteq> SEV_REQUIRES_HUMAN_DECISION)
     \<and> gate_budget_status p q s = BUDGET_OK
     \<and> (\<forall>a \<in> set (human_approvals s). ha_feature_run_id a = Some i \<longrightarrow> ha_decision a \<in> {None, Some DEC_APPROVED})"
  by (rule gate_open)

section \<open>The two gated commands\<close>

definition gate_evidence :: "string \<Rightarrow> string \<Rightarrow> string \<Rightarrow> store \<Rightarrow> merge_gate_row" where
  "gate_evidence i p q s =
     \<lparr>mg_id = claim_id s, mg_feature_run_id = i,
      mg_ci_status = map_option pr_ci_status (getPullRequestByFeatureRun i s),
      mg_review_status = map_option pr_review_state (getPullRequestByFeatureRun i s),
      mg_unresolved_blocking_findings = unresolved_blocking i s,
      mg_budget_status = budget_status_str (gate_budget_status p q s),
      mg_human_approval_required = (outstanding_approval i s \<noteq> None),
      mg_human_approval_id = map_option ha_id (outstanding_approval i s),
      mg_branch_protection_ok =
        (case getPullRequestByFeatureRun i s of None \<Rightarrow> False | Some pr \<Rightarrow> pr_mergeable pr = Some True),
      mg_final_decision = (if gate_reasons i p q s = [] then ''approved'' else ''rejected''),
      mg_evaluated_at = clock s\<rparr>"

definition gate_recorded :: "string \<Rightarrow> string \<Rightarrow> string \<Rightarrow> store \<Rightarrow> store" where
  "gate_recorded i p q s =
     merge_gate_evaluations_update (\<lambda>rows. rows @ [gate_evidence i p q s]) (s\<lparr>draws := draws s + 1\<rparr>)"

lemma gate_phase_run:
  assumes "find_run (p_featureRunId (payload e)) (p_projectId (payload e)) s = Some r"
    "claim_id s \<notin> mg_id ` set (merge_gate_evaluations s)"
  shows "\<exists>ev. transaction (gate_phase e) s =
        (Inr ev, gate_recorded (p_featureRunId (payload e)) (p_projectId (payload e)) (run_feature_request_id r) s)
      \<and> mr_decision ev = mg_final_decision (gate_evidence (p_featureRunId (payload e))
           (p_projectId (payload e)) (run_feature_request_id r) s)
      \<and> mr_reasons ev = gate_reasons (p_featureRunId (payload e)) (p_projectId (payload e))
           (run_feature_request_id r) s
      \<and> mr_evaluationId ev = claim_id s"
  using assms
  by (simp add: gate_phase_def transaction_def bindT_def queryT_def evaluateMergeGate_def Let_def generateId_def
      insertT_def returnT_def gate_recorded_def gate_evidence_def claim_id_def image_iff)

lemma gate_phase_fails:
  assumes "transaction (gate_phase e) s = (Inr ev, t)"
  obtains r where "find_run (p_featureRunId (payload e)) (p_projectId (payload e)) s = Some r"
    "claim_id s \<notin> mg_id ` set (merge_gate_evaluations s)"
  using assms
  by (auto simp: gate_phase_def transaction_def bindT_def queryT_def evaluateMergeGate_def Let_def generateId_def
      insertT_def throwT_def claim_id_def split: sum.splits option.splits if_splits)

lemma gated_handlers:
  assumes "h \<in> {MergeIfReadyHandler, RecordApprovedByPolicyHandler}"
  obtains to_s ty where "handler_execute h = gated_execute to_s ty (idempotencyScope h)"
    "to_s \<in> {FE_MERGE_READY, FE_APPROVED_BY_POLICY}"
  using assms by (auto simp: MergeIfReadyHandler_def RecordApprovedByPolicyHandler_def)

text \<open>
  A rejection is answered with every reason and changes nothing but the evidence: the store the
  failed command leaves is the one it found with one more evaluation row, whose decision is
  \<open>rejected\<close>.
\<close>

theorem gate_rejection:
  assumes "h \<in> {MergeIfReadyHandler, RecordApprovedByPolicyHandler}"
    "assertRole (env_actor e) (requiredRole h) (commandName h) (requiredActorKind h) = Inr ()"
    "fresh_key h e s"
    "find_run (p_featureRunId (payload e)) (p_projectId (payload e)) s = Some r"
    "claim_id s \<notin> mg_id ` set (merge_gate_evaluations s)"
    "gate_reasons (p_featureRunId (payload e)) (p_projectId (payload e)) (run_feature_request_id r) s = reasons"
    "reasons \<noteq> []"
  shows "execute h e s =
       (Inl (mergeGateBlocked reasons (p_featureRunId (payload e)) (Some (correlationId e))),
        s\<lparr>draws := draws s + 1, merge_gate_evaluations := merge_gate_evaluations s
            @ [gate_evidence (p_featureRunId (payload e)) (p_projectId (payload e)) (run_feature_request_id r) s]\<rparr>)
     \<and> mg_final_decision (gate_evidence (p_featureRunId (payload e)) (p_projectId (payload e))
          (run_feature_request_id r) s) = ''rejected''"
proof -
  obtain to_s ty where h: "handler_execute h = gated_execute to_s ty (idempotencyScope h)"
    using assms(1) by (rule gated_handlers)
  have "execute h e s = handler_execute h e s"
    using assms(2) fresh_key_uncached [OF assms(3)] by (simp add: execute_def bindA_def queryA_def)
  then show ?thesis
    using gate_phase_run [OF assms(4,5)] assms(6,7)
    by (auto simp: h gated_execute_def bindA_def throwA_def gate_evidence_def gate_recorded_def)
qed

theorem gate_rejection_witness:
  "\<exists>reasons t. execute MergeIfReadyHandler (sample_envelope APPROVER Human ''k'' (sample_payload ''r1'' 4))
       (sample_store [sample_run ''r1'' ''q1'' FE_APPROVED_BY_POLICY 0 4] (sample_ws (Some ''r1'') AU_RUNNING)) =
     (Inl (mergeGateBlocked reasons ''r1'' (Some ''x'')), t)
   \<and> feature_runs t = [sample_run ''r1'' ''q1'' FE_APPROVED_BY_POLICY 0 4]
   \<and> length (merge_gate_evaluations t) = 1"
proof -
  let ?e = "sample_envelope APPROVER Human ''k'' (sample_payload ''r1'' 4)"
  let ?r = "sample_run ''r1'' ''q1'' FE_APPROVED_BY_POLICY 0 4"
  let ?s = "sample_store [?r] (sample_ws (Some ''r1'') AU_RUNNING)"
  have pr: "getPullRequestByFeatureRun ''r1'' ?s = None"
    by (simp add: getPullRequestByFeatureRun_def run_simps)
  have "MergeIfReadyHandler \<in> {MergeIfReadyHandler, RecordApprovedByPolicyHandler}"
    "assertRole (env_actor ?e) (requiredRole MergeIfReadyHandler) (commandName MergeIfReadyHandler)
       (requiredActorKind MergeIfReadyHandler) = Inr ()"
    "fresh_key MergeIfReadyHandler ?e ?s"
    "find_run (p_featureRunId (payload ?e)) (p_projectId (payload ?e)) ?s = Some ?r"
    "claim_id ?s \<notin> mg_id ` set (merge_gate_evaluations ?s)"
    by (simp_all add: run_simps fresh_key_def idempotency_slot_def MergeIfReadyHandler_def)
  moreover have "gate_reasons (p_featureRunId (payload ?e)) (p_projectId (payload ?e))
      (run_feature_request_id ?r) ?s \<noteq> []"
    using pr by (auto simp: gate_open sample_envelope_def sample_payload_def)
  ultimately have "execute MergeIfReadyHandler ?e ?s = (Inl (mergeGateBlocked (gate_reasons ''r1'' ''p1'' ''q1'' ?s) ''r1'' (Some ''x'')),
      ?s\<lparr>draws := draws ?s + 1, merge_gate_evaluations := merge_gate_evaluations ?s @ [gate_evidence ''r1'' ''p1'' ''q1'' ?s]\<rparr>)"
    using gate_rejection [of MergeIfReadyHandler ?e ?s ?r, OF _ _ _ _ _ refl]
    by (simp add: sample_envelope_def sample_payload_def sample_run_def)
  then show ?thesis by (auto simp: sample_store_def)
qed

lemma claimed_success:
  assumes "claimed_transaction scope body e s = (Inr res, t)"
    "idempotency_slot (idempotencyKey e) scope s = None"
    "\<And>s1. same_tables s s1 \<Longrightarrow> wp (body e) (\<lambda>a t1. \<forall>u. same_tables t1 u \<longrightarrow> Q a u) (\<lambda>_. True) s1"
  shows "Q res t"
proof -
  have "with_claim (idempotencyKey e) scope (body e) s = Inr (res, t)"
    using assms(1) by (simp add: claimed_transaction_ttl_def transaction_Inr)
  then show ?thesis
  proof (cases rule: with_claim_cases)
    case (fresh t1)
    then show ?thesis
      using assms(3) [OF same_tables_claim_insert [of s "idempotencyKey e" scope IDEMPOTENCY_TTL_MS]]
        same_tables_fulfilled [of t1]
      by (auto simp: wp_def)
  qed (use assms(2) in simp)
qed

lemma find_run_gates [simp]: "find_run i p (merge_gate_evaluations_update f s) = find_run i p s"
  by (simp add: find_run_def run_in_project_def)

lemma wf_store_gates [simp]: "wf_store (merge_gate_evaluations_update f s) = wf_store s"
  by (simp add: wf_store_def)

lemma same_tables_gates: "same_tables s t \<Longrightarrow> merge_gate_evaluations t = merge_gate_evaluations s"
proof -
  assume "same_tables s t"
  then obtain d ks where "t = s\<lparr>draws := d, idempotency_keys := ks\<rparr>" unfolding same_tables_def by blast
  then show ?thesis by simp
qed

lemma gated_transition_wp:
  assumes "same_tables s s1" "wf_store s" "find_run (p_featureRunId (payload e)) (p_projectId (payload e)) s = Some r"
  shows "wp (gated_transition to_s ty i e) (\<lambda>a t1. \<forall>u. same_tables t1 u \<longrightarrow>
      fe_valid (run_state r) to_s \<and> run_version r = p_expectedVersion (payload e)
      \<and> merge_gate_evaluations u = merge_gate_evaluations s
      \<and> find_run (p_featureRunId (payload e)) (p_projectId (payload e)) u =
          Some (set_run_state to_s (run_version r + 1) (clock s) r)) (\<lambda>_. True) s1"
  using assms(1,3) same_tables_wf [OF assms(1,2)]
  by (auto simp: gated_transition_def wp_run same_tables_simps same_tables_gates find_run_cas set_run_state_def
      split: option.splits)

lemma gate_recorded_frames:
  "find_run i p (gate_recorded a b c s) = find_run i p s" "wf_store (gate_recorded a b c s) = wf_store s"
  "clock (gate_recorded a b c s) = clock s"
  "idempotency_slot k sc (gate_recorded a b c s) = idempotency_slot k sc s"
  by (simp_all add: gate_recorded_def idempotency_slot_def)

lemma gated_success:
  assumes "execute h e s = (Inr res, t)" "h \<in> {MergeIfReadyHandler, RecordApprovedByPolicyHandler}"
    "fresh_key h e s" "wf_store s"
  shows "\<exists>r. find_run (p_featureRunId (payload e)) (p_projectId (payload e)) s = Some r
     \<and> gate_reasons (p_featureRunId (payload e)) (p_projectId (payload e)) (run_feature_request_id r) s = []
     \<and> run_version r = p_expectedVersion (payload e)
     \<and> run_state r = (if h = MergeIfReadyHandler then FE_APPROVED_BY_POLICY else FE_UNDER_REVIEW)
     \<and> merge_gate_evaluations t = merge_gate_evaluations s
         @ [gate_evidence (p_featureRunId (payload e)) (p_projectId (payload e)) (run_feature_request_id r) s]
     \<and> find_run (p_featureRunId (payload e)) (p_projectId (payload e)) t =
         Some (set_run_state (if h = MergeIfReadyHandler then FE_MERGE_READY else FE_APPROVED_BY_POLICY)
           (run_version r + 1) (clock s) r)"
proof -
  let ?i = "p_featureRunId (payload e)" and ?p = "p_projectId (payload e)"
  obtain to_s ty where h: "handler_execute h = gated_execute to_s ty (idempotencyScope h)"
      "to_s = (if h = MergeIfReadyHandler then FE_MERGE_READY else FE_APPROVED_BY_POLICY)"
    using assms(2) by (auto simp: MergeIfReadyHandler_def RecordApprovedByPolicyHandler_def)
  have ex: "gated_execute to_s ty (idempotencyScope h) e s = (Inr res, t)"
    using assms(1) fresh_key_uncached [OF assms(3)] h(1) by (cases rule: execute_cases) auto
  then obtain ev t0 where g0: "transaction (gate_phase e) s = (Inr ev, t0)"
    by (auto simp: gated_execute_def bindA_def split: sum.splits prod.splits)
  then obtain r where r: "find_run ?i ?p s = Some r" "claim_id s \<notin> mg_id ` set (merge_gate_evaluations s)"
    by (rule gate_phase_fails)
  let ?g = "gate_recorded ?i ?p (run_feature_request_id r) s"
  obtain ev where ev: "transaction (gate_phase e) s = (Inr ev, ?g)"
      "mr_decision ev = mg_final_decision (gate_evidence ?i ?p (run_feature_request_id r) s)"
    using gate_phase_run [OF r] by blast
  have pass: "gate_reasons ?i ?p (run_feature_request_id r) s = []"
    and tr: "claimed_transaction (idempotencyScope h) (gated_transition to_s ty (mr_evaluationId ev)) e ?g = (Inr res, t)"
    using ex ev by (auto simp: gated_execute_def bindA_def throwA_def gate_evidence_def split: if_splits)
  have "fe_valid (run_state r) to_s \<and> run_version r = p_expectedVersion (payload e)
      \<and> merge_gate_evaluations t = merge_gate_evaluations ?g
      \<and> find_run ?i ?p t = Some (set_run_state to_s (run_version r + 1) (clock ?g) r)"
    using assms(3,4) r(1)
    by (intro claimed_success [OF tr, where Q = "\<lambda>_ t. fe_valid (run_state r) to_s
          \<and> run_version r = p_expectedVersion (payload e) \<and> merge_gate_evaluations t = merge_gate_evaluations ?g
          \<and> find_run ?i ?p t = Some (set_run_state to_s (run_version r + 1) (clock ?g) r)"] gated_transition_wp)
      (simp_all add: gate_recorded_frames fresh_key_def)
  then show ?thesis
    using r(1) pass h(2)
    by (auto simp: gate_recorded_frames gate_recorded_def fe_valid_iff into_merge_ready into_approved)
qed

text \<open>
  C1. No run gets past the gate with a reason against it: a \<open>MergeIfReadyCommand\<close> or
  \<open>RecordApprovedByPolicyCommand\<close> that runs and succeeds found no reason, left the approving
  evaluation on record, and moved the run from the only state that
  leads to the gated one, at the expected version.
\<close>

theorem gate_passed:
  assumes "execute h e s = (Inr res, t)" "h \<in> {MergeIfReadyHandler, RecordApprovedByPolicyHandler}"
    "fresh_key h e s" "wf_store s"
  shows "\<exists>r. find_run (p_featureRunId (payload e)) (p_projectId (payload e)) s = Some r
     \<and> gate_reasons (p_featureRunId (payload e)) (p_projectId (payload e)) (run_feature_request_id r) s = []
     \<and> run_version r = p_expectedVersion (payload e)
     \<and> run_state r = (if h = MergeIfReadyHandler then FE_APPROVED_BY_POLICY else FE_UNDER_REVIEW)
     \<and> merge_gate_evaluations t = merge_gate_evaluations s
         @ [gate_evidence (p_featureRunId (payload e)) (p_projectId (payload e)) (run_feature_request_id r) s]
     \<and> find_run (p_featureRunId (payload e)) (p_projectId (payload e)) t =
         Some (set_run_state (if h = MergeIfReadyHandler then FE_MERGE_READY else FE_APPROVED_BY_POLICY)
           (run_version r + 1) (clock s) r)"
  using assms by (rule gated_success)

definition sample_pull_request :: pull_request_row where
  "sample_pull_request =
     \<lparr>pr_id = ''pr1'', pr_feature_run_id = ''r1'', pr_number = 7, pr_branch_name = ''minicoder/FR-1'',
      pr_base_branch = ''main'', pr_head_sha = None, pr_state = ''open'', pr_review_state = ''approved'',
      pr_ci_status = ''passed'', pr_mergeable = Some True, pr_blocking_labels = [],
      pr_conversations_resolved = True, pr_merged_at = None, pr_merge_sha = None, pr_closed_at = None,
      pr_version = 1, pr_updated_at = 0\<rparr>"

definition open_gate_store :: "FeatureExecutionState \<Rightarrow> store" where
  "open_gate_store st =
     (sample_store [sample_run ''r1'' ''q1'' st 0 4] (sample_ws (Some ''r1'') AU_RUNNING))
        \<lparr>pull_requests := [sample_pull_request],
         repositories := [\<lparr>repo_id = ''repo1'', repo_project_id = ''p1'', repo_owner = ''acme'',
           repo_name = ''app'', repo_full_name = ''acme/app'', repo_default_branch = ''main'',
           repo_provider = ''github'', repo_base_url = None\<rparr>]\<rparr>"

lemma open_gate: "gate_reasons ''r1'' ''p1'' ''q1'' (open_gate_store st) = []"
  by (simp add: gate_open open_gate_store_def sample_pull_request_def run_simps getPullRequestByFeatureRun_def
      default_branch_of_def gate_budget_status_def evaluateBudget_def active_policy_def order_by_def)

theorem gate_reasons_empty_iff_witness:
  "gate_reasons ''r1'' ''p1'' ''q1'' (open_gate_store FE_UNDER_REVIEW) = []
   \<and> active_run_of ''p1'' (open_gate_store FE_UNDER_REVIEW) = Some ''r1''
   \<and> getPullRequestByFeatureRun ''r1'' (open_gate_store FE_UNDER_REVIEW) \<noteq> None
   \<and> gate_budget_status ''p1'' ''q1'' (open_gate_store FE_UNDER_REVIEW) = BUDGET_OK
   \<and> gate_reasons ''r2'' ''p1'' ''q1'' (open_gate_store FE_UNDER_REVIEW) \<noteq> []"
  using gate_reasons_empty_iff [of "''r1''" "''p1''" "''q1''" "open_gate_store FE_UNDER_REVIEW"]
    gate_reasons_empty_iff [of "''r2''" "''p1''" "''q1''" "open_gate_store FE_UNDER_REVIEW"]
    open_gate [of FE_UNDER_REVIEW]
  by auto

theorem gate_passed_witness:
  "\<exists>res t. execute MergeIfReadyHandler (sample_envelope APPROVER Human ''k'' (sample_payload ''r1'' 4))
       (open_gate_store FE_APPROVED_BY_POLICY) = (Inr res, t)
   \<and> gate_reasons ''r1'' ''p1'' ''q1'' (open_gate_store FE_APPROVED_BY_POLICY) = []
   \<and> find_run ''r1'' ''p1'' t = Some (sample_run ''r1'' ''q1'' FE_MERGE_READY 0 5 \<lparr>run_updated_at := 1000\<rparr>)"
proof -
  let ?e = "sample_envelope APPROVER Human ''k'' (sample_payload ''r1'' 4)"
  let ?s = "open_gate_store FE_APPROVED_BY_POLICY" and ?r = "sample_run ''r1'' ''q1'' FE_APPROVED_BY_POLICY 0 4"
  have found: "find_run (p_featureRunId (payload ?e)) (p_projectId (payload ?e)) ?s = Some ?r"
    "claim_id ?s \<notin> mg_id ` set (merge_gate_evaluations ?s)"
    by (simp_all add: open_gate_store_def run_simps)
  have fresh: "fresh_key MergeIfReadyHandler ?e ?s" "wf_store ?s"
    by (simp_all add: open_gate_store_def fresh_key_def idempotency_slot_def wf_store_def run_simps)
  obtain ev where ev: "transaction (gate_phase ?e) ?s = (Inr ev, gate_recorded ''r1'' ''p1'' ''q1'' ?s)"
      "mr_decision ev = ''approved''" "mr_evaluationId ev = claim_id ?s"
    using gate_phase_run [OF found] open_gate
    by (auto simp: gate_evidence_def sample_envelope_def sample_payload_def sample_run_def)
  have "\<exists>res t. claimed_transaction ''merge-if-ready''
      (gated_transition FE_MERGE_READY ''feature.merge_ready'' (claim_id ?s)) ?e (gate_recorded ''r1'' ''p1'' ''q1'' ?s) = (Inr res, t)"
    by (simp add: gate_recorded_def open_gate_store_def gated_transition_def run_simps)
  then obtain res t where "execute MergeIfReadyHandler ?e ?s = (Inr res, t)"
    using fresh_key_uncached [OF fresh(1)] ev
    by (auto simp: execute_def MergeIfReadyHandler_def gated_execute_def bindA_def queryA_def assertRole_def
        meetsRole_def sample_envelope_def)
  from gate_passed [OF this _ fresh] this open_gate found(1) show ?thesis
    by (intro exI [of _ res] exI [of _ t])
      (auto simp: sample_envelope_def sample_payload_def sample_run_def set_run_state_def open_gate_store_def sample_store_def)
qed

section \<open>Blocking by a human\<close>

lemma into_blocked:
  "(a, FE_BLOCKED) \<in> fe_edges \<longleftrightarrow> a = FE_HUMAN_REQUIRED \<or> a = FE_APPROVED_PENDING_EXECUTION"
  by (auto simp: fe_edges_eq)

lemma block_success:
  assumes "execute BlockFeatureHandler e s = (Inr res, t)" "fresh_key BlockFeatureHandler e s" "wf_store s"
  shows "(\<exists>r. find_run (p_featureRunId (payload e)) (p_projectId (payload e)) s = Some r
       \<and> run_state r \<in> {FE_HUMAN_REQUIRED, FE_APPROVED_PENDING_EXECUTION}
       \<and> find_run (p_featureRunId (payload e)) (p_projectId (payload e)) t =
           Some (set_run_state FE_BLOCKED (run_version r + 1) (clock s) r))
     \<and> (\<forall>w \<in> set (workflow_states t). ws_project_id w = p_projectId (payload e) \<longrightarrow>
          ws_active_feature_run_id w \<noteq> Some (p_featureRunId (payload e)))
     \<and> (\<exists>a \<in> set (human_approvals t). ha_feature_run_id a = Some (p_featureRunId (payload e))
          \<and> ha_decision a = Some DEC_DEFERRED)
     \<and> we_from_state (last (workflow_events t)) = ''human_required''
     \<and> we_to_state (last (workflow_events t)) = ''blocked''" (is "?Q res t")
proof (rule fresh_success [OF assms(1,2), where Q = "\<lambda>a u. ?Q a u" and body = BlockFeature_body])
  fix s1 assume s1: "same_tables s s1"
  with assms(3) have "wf_store s1" by (rule same_tables_wf [rotated])
  with s1 show "wp (BlockFeature_body e) (\<lambda>a t1. \<forall>u. same_tables t1 u \<longrightarrow> ?Q a u) (\<lambda>_. True) s1"
    by (auto simp: BlockFeature_body_def wp_run same_tables_simps find_run_cas set_run_state_def fe_valid_iff into_blocked
        split: option.splits)
qed (simp add: BlockFeatureHandler_def)

text \<open>
  A \<open>BlockFeatureCommand\<close> that runs and succeeds found the run in \<open>human_required\<close> or in
  \<open>approved_pending_execution\<close>, blocks it, releases the project's pointer, and records a deferred
  approval against the run; it logs the transition as coming from \<open>human_required\<close> in either case.
\<close>

theorem block_feature_success:
  assumes "execute BlockFeatureHandler e s = (Inr res, t)" "fresh_key BlockFeatureHandler e s" "wf_store s"
  shows "(\<exists>r. find_run (p_featureRunId (payload e)) (p_projectId (payload e)) s = Some r
       \<and> run_state r \<in> {FE_HUMAN_REQUIRED, FE_APPROVED_PENDING_EXECUTION}
       \<and> find_run (p_featureRunId (payload e)) (p_projectId (payload e)) t =
           Some (set_run_state FE_BLOCKED (run_version r + 1) (clock s) r))
     \<and> (\<forall>w \<in> set (workflow_states t). ws_project_id w = p_projectId (payload e) \<longrightarrow>
          ws_active_feature_run_id w \<noteq> Some (p_featureRunId (payload e)))
     \<and> (\<exists>a \<in> set (human_approvals t). ha_feature_run_id a = Some (p_featureRunId (payload e))
          \<and> ha_decision a = Some DEC_DEFERRED)
     \<and> we_from_state (last (workflow_events t)) = ''human_required''
     \<and> we_to_state (last (workflow_events t)) = ''blocked''"
  using assms by (rule block_success)

theorem block_feature_success_witness:
  "\<exists>res t. execute BlockFeatureHandler
     (sample_envelope APPROVER Human ''k''
        \<lparr>p_featureRunId = ''r1'', p_projectId = ''p1'', p_expectedVersion = 4, np_notes = ''n''\<rparr>)
     (sample_store [sample_run ''r1'' ''q1'' FE_APPROVED_PENDING_EXECUTION 0 4] (sample_ws None AU_RUNNING)) = (Inr res, t)
   \<and> we_from_state (last (workflow_events t)) = ''human_required''"
proof -
  let ?e = "sample_envelope APPROVER Human ''k''
      \<lparr>p_featureRunId = ''r1'', p_projectId = ''p1'', p_expectedVersion = 4, np_notes = ''n''\<rparr>"
  let ?s = "sample_store [sample_run ''r1'' ''q1'' FE_APPROVED_PENDING_EXECUTION 0 4] (sample_ws None AU_RUNNING)"
  have "\<exists>res t. execute BlockFeatureHandler ?e ?s = (Inr res, t)"
    by (simp add: run_simps BlockFeatureHandler_def BlockFeature_body_def)
  then obtain res t where run: "execute BlockFeatureHandler ?e ?s = (Inr res, t)" by blast
  have "fresh_key BlockFeatureHandler ?e ?s" "wf_store ?s"
    by (simp_all add: fresh_key_def idempotency_slot_def wf_store_def run_simps)
  from block_feature_success [OF run this] run show ?thesis
    by (intro exI [of _ res] exI [of _ t]) simp
qed

end
