(* ===== verification/AutomationFacts.thy ===== *)
theory AutomationFacts
  imports RunFacts
begin

text \<open>
  Budgets and automation: the forecast against the evaluation, the command a breach turns into, and
  which pauses which role can end.
\<close>

section \<open>Budgets\<close>

text \<open>
  The forecast is the evaluation shifted by the estimate: with no estimate both report the same
  policy, spend and status.
\<close>

lemma forecast_of_nothing:
  "map_option (\<lambda>f. (fc_status f, fc_policy f, fc_currentSpend f, fc_projectedSpend f))
       (forecastBudget p q scope 0 s) =
   map_option (\<lambda>v. (ev_status v, ev_policy v, ev_totalSpend v, ev_totalSpend v)) (evaluateBudget p q scope s)"
  by (simp add: forecastBudget_def evaluateBudget_def Let_def split: option.split)

text \<open>
  A larger estimate never forecasts a milder status, and the forecast against a non-negative
  estimate is never milder than the evaluation.
\<close>

theorem forecast_monotone:
  assumes "forecastBudget p q scope a s = Some f" "forecastBudget p q scope b s = Some g" "a \<le> b"
  shows "fc_status f \<le> fc_status g
     \<and> (0 \<le> a \<longrightarrow> (\<exists>v. evaluateBudget p q scope s = Some v \<and> ev_status v \<le> fc_status f))"
  using assms breach_status_mono
  by (auto simp: forecastBudget_def evaluateBudget_def Let_def split: option.splits)

definition sample_policy :: budget_policy_row where
  "sample_policy =
     \<lparr>bp_id = ''b1'', bp_project_id = ''p1'', bp_scope = SCOPE_PROJECT, bp_feature_request_id = None,
      bp_soft_limit = Some 50, bp_hard_limit = Some 100, bp_window_days = None, bp_is_active = True,
      bp_updated_at = 0\<rparr>"

definition budget_store :: "AutomationState \<Rightarrow> store" where
  "budget_store au =
     (sample_store [] (sample_ws None au))
        \<lparr>budget_policies := [sample_policy],
         cost_records := [\<lparr>co_id = ''c1'', co_project_id = ''p1'', co_feature_request_id = None,
            co_feature_run_id = None, co_agent_run_id = None, co_scope = SCOPE_PROJECT, co_amount = 120,
            co_provider = None, co_model = None, co_input_tokens = None, co_output_tokens = None,
            co_recorded_at = 900\<rparr>]\<rparr>"

lemmas budget_simps =
  forecastBudget_def evaluateBudget_def budget_store_def sample_policy_def active_policy_def order_by_def
  live_spend_def breach_status_def sample_store_def Let_def

theorem forecast_monotone_witness:
  "\<exists>f g. forecastBudget ''p1'' None SCOPE_PROJECT 0 (budget_store AU_RUNNING) = Some f
     \<and> forecastBudget ''p1'' None SCOPE_PROJECT 10 (budget_store AU_RUNNING) = Some g
     \<and> fc_status f \<le> fc_status g"
proof -
  have "\<exists>f. forecastBudget ''p1'' None SCOPE_PROJECT 0 (budget_store AU_RUNNING) = Some f"
    "\<exists>g. forecastBudget ''p1'' None SCOPE_PROJECT 10 (budget_store AU_RUNNING) = Some g"
    by (simp_all add: budget_simps)
  then show ?thesis using forecast_monotone [of "''p1''" None SCOPE_PROJECT 0 "budget_store AU_RUNNING" _ 10] by auto
qed

section \<open>Automation states\<close>

lemma workflow_state_update:
  assumes "workflow_state_of p s = Some w" "P w" "\<And>x. ws_project_id (f x) = ws_project_id x"
  shows "workflow_state_of p (workflow_states_update (update_where P f) s) = Some (f w)"
proof -
  have "filter (\<lambda>x. ws_project_id x = p) (update_where P f xs) =
      map (\<lambda>x. if P x then f x else x) (filter (\<lambda>x. ws_project_id x = p) xs)" for xs
    using assms(3) by (induction xs) auto
  then show ?thesis
    using assms(1,2) by (auto simp: workflow_state_of_def first_row_def split: list.splits)
qed

lemma workflow_state_frames [simp]:
  "workflow_state_of p (workflow_events_update f1 s) = workflow_state_of p s"
  "workflow_state_of p (outbox_events_update f2 s) = workflow_state_of p s"
  "workflow_state_of p (policy_decisions_update f3 s) = workflow_state_of p s"
  "workflow_state_of p (draws_update f4 s) = workflow_state_of p s"
  by (simp_all add: workflow_state_of_def)

lemma workflow_state_member: "workflow_state_of p s = Some w \<Longrightarrow> w \<in> set (workflow_states s)"
  by (auto simp: workflow_state_of_def dest: first_row_in)

text \<open>
  The four commands that move the automation state end in one of two ways when nothing else is
  wrong: the move, or a collision of generated identifiers.
\<close>

definition moves_automation :: "string \<Rightarrow> workflow_state_row \<Rightarrow> AutomationState \<Rightarrow> store \<Rightarrow> bool" where
  "moves_automation p w to_s t =
     (\<exists>w'. workflow_state_of p t = Some w' \<and> ws_id w' = ws_id w \<and> ws_automation_state w' = to_s
        \<and> ws_version w' = ws_version w + 1 \<and> ws_active_feature_run_id w' = ws_active_feature_run_id w)"

lemma cas_automation_row:
  assumes "workflow_state_of p s = Some w" "same_tables s s1"
  shows "workflow_state_of p (workflow_states_update (update_where (ws_at_version (ws_id w) (ws_version w))
           (\<lambda>x. x\<lparr>ws_automation_state := to_s, ws_version := v, ws_updated_at := now\<rparr>)) s1) =
         Some (w\<lparr>ws_automation_state := to_s, ws_version := v, ws_updated_at := now\<rparr>)"
  using assms by (intro workflow_state_update) (simp_all add: ws_at_version_def same_tables_simps)

lemmas wp_automation = wp_run cas_automation_def same_tables_simps moves_automation_def au_valid_iff au_edges_eq

lemma budget_exceeded_moves:
  assumes "same_tables s s1" "workflow_state_of (pp_projectId (payload e)) s = Some w"
    "ws_version w = pp_expectedVersion (payload e)" "ws_automation_state w = AU_RUNNING"
  shows "wp (RecordBudgetExceeded_body e)
      (\<lambda>a t1. \<forall>u. same_tables t1 u \<longrightarrow> moves_automation (pp_projectId (payload e)) w AU_PAUSED_BUDGET_EXCEEDED u)
      (\<lambda>err. \<exists>table. err = ConstraintViolation table) s1"
  using assms cas_automation_row [OF assms(2,1)] workflow_state_member [OF assms(2)]
  by (auto simp: RecordBudgetExceeded_body_def wp_automation ws_at_version_def)

lemma budget_waiting_moves:
  assumes "same_tables s s1" "workflow_state_of (pp_projectId (payload e)) s = Some w"
    "ws_version w = pp_expectedVersion (payload e)" "ws_automation_state w = AU_RUNNING"
  shows "wp (RecordBudgetApprovalWaiting_body e)
      (\<lambda>a t1. \<forall>u. same_tables t1 u \<longrightarrow> moves_automation (pp_projectId (payload e)) w AU_WAITING_FOR_BUDGET_APPROVAL u)
      (\<lambda>err. \<exists>table. err = ConstraintViolation table) s1"
  using assms cas_automation_row [OF assms(2,1)] workflow_state_member [OF assms(2)]
  by (auto simp: RecordBudgetApprovalWaiting_body_def wp_automation ws_at_version_def)

lemma resume_moves:
  assumes "same_tables s s1" "workflow_state_of (pp_projectId (payload e)) s = Some w"
    "ws_version w = pp_expectedVersion (payload e)" "ws_automation_state w \<noteq> AU_RUNNING"
  shows "wp (ResumeAutomation_body e)
      (\<lambda>a t1. \<forall>u. same_tables t1 u \<longrightarrow> moves_automation (pp_projectId (payload e)) w AU_RUNNING u)
      (\<lambda>err. \<exists>table. err = ConstraintViolation table) s1"
  using assms cas_automation_row [OF assms(2,1)] workflow_state_member [OF assms(2)]
  by (cases "ws_automation_state w") (auto simp: ResumeAutomation_body_def wp_automation ws_at_version_def)

definition breach_key :: "budget_evaluation \<Rightarrow> string \<Rightarrow> int \<Rightarrow> string" where
  "breach_key ev p v =
     (if ev_status ev = HARD_BREACH then ''budget-exceeded:'' else ''budget-approval-waiting:'')
       @ p @ '':'' @ bp_id (ev_policy ev) @ '':'' @ show_int v"

definition breach_scope :: "budget_evaluation \<Rightarrow> string" where
  "breach_scope ev =
     (if ev_status ev = HARD_BREACH then ''record-budget-exceeded'' else ''record-budget-approval-waiting'')"

definition breach_pause :: "budget_evaluation \<Rightarrow> AutomationState" where
  "breach_pause ev =
     (if ev_status ev = HARD_BREACH then AU_PAUSED_BUDGET_EXCEEDED else AU_WAITING_FOR_BUDGET_APPROVAL)"

text \<open>
  A breach stops the project: applied to a running project, the decision on an evaluation that
  reports a breach moves its automation to the pause of that breach, one version later and with
  the active run kept, or fails on a collision of generated identifiers.
\<close>

theorem breach_pauses_automation:
  assumes "evaluateBudget p q scope s = Some ev" "ev_status ev \<noteq> BUDGET_OK"
    "workflow_state_of p s = Some w" "ws_automation_state w = AU_RUNNING"
    "actor_role act = ADMIN" "actorKind act = SystemKind"
    "idempotency_slot (breach_key ev p (ws_version w)) (breach_scope ev) s = None"
  shows "(\<exists>table t. applyBudgetDecision ev p (ws_version w) act corr fr s = (Inl (ConstraintViolation table), t))
     \<or> (\<exists>t. applyBudgetDecision ev p (ws_version w) act corr fr s = (Inr (Applied (ev_status ev)), t)
          \<and> moves_automation p w (breach_pause ev) t)"
proof -
  let ?s = "s\<lparr>draws := draws s + 1\<rparr>"
  have id: "transaction generateId s = (Inr (claim_id s), ?s)"
    by (simp add: transaction_def generateId_def claim_id_def)
  have w: "workflow_state_of p ?s = Some w" using assms(3) by simp
  have key: "idempotency_slot k sc ?s = idempotency_slot k sc s" for k sc by (simp add: idempotency_slot_def)
  show ?thesis
  proof (cases "ev_status ev")
    case BUDGET_OK
    with assms(2) show ?thesis by simp
  next
    case HARD_BREACH
    let ?e = "\<lparr>commandId = claim_id s, idempotencyKey = breach_key ev p (ws_version w),
        payload = \<lparr>pp_projectId = p, pp_expectedVersion = ws_version w, be_breachedPolicyId = bp_id (ev_policy ev),
          be_currentSpend = ev_totalSpend ev,
          be_hardLimit = (case bp_hard_limit (ev_policy ev) of None \<Rightarrow> 0 | Some l \<Rightarrow> l), be_featureRunId = fr\<rparr>,
        env_actor = act, correlationId = corr, lockContext = None\<rparr>"
    have "(\<exists>err. execute RecordBudgetExceededHandler ?e ?s = (Inl err, ?s) \<and> (\<exists>table. err = ConstraintViolation table))
        \<or> (\<exists>res t. execute RecordBudgetExceededHandler ?e ?s = (Inr res, t)
             \<and> moves_automation p w AU_PAUSED_BUDGET_EXCEEDED t)"
      by (rule fresh_outcome [where Q = "\<lambda>_. moves_automation p w AU_PAUSED_BUDGET_EXCEEDED" and body = RecordBudgetExceeded_body
            and E = "\<lambda>err. \<exists>table. err = ConstraintViolation table"])
        (use assms(4-7) w HARD_BREACH key budget_exceeded_moves [of ?s _ ?e w] in
          \<open>simp_all add: RecordBudgetExceededHandler_def assertRole_ok fresh_key_def breach_scope_def\<close>)
    with HARD_BREACH show ?thesis
      by (auto simp: applyBudgetDecision_def bindA_def id returnA_def breach_key_def breach_pause_def)
  next
    case SOFT_BREACH
    let ?e = "\<lparr>commandId = claim_id s, idempotencyKey = breach_key ev p (ws_version w),
        payload = \<lparr>pp_projectId = p, pp_expectedVersion = ws_version w, bw_breachedPolicyId = bp_id (ev_policy ev),
          bw_currentSpend = ev_totalSpend ev,
          bw_softLimit = (case bp_soft_limit (ev_policy ev) of None \<Rightarrow> 0 | Some l \<Rightarrow> l)\<rparr>,
        env_actor = act, correlationId = corr, lockContext = None\<rparr>"
    have "(\<exists>err. execute RecordBudgetApprovalWaitingHandler ?e ?s = (Inl err, ?s) \<and> (\<exists>table. err = ConstraintViolation table))
        \<or> (\<exists>res t. execute RecordBudgetApprovalWaitingHandler ?e ?s = (Inr res, t)
             \<and> moves_automation p w AU_WAITING_FOR_BUDGET_APPROVAL t)"
      by (rule fresh_outcome [where Q = "\<lambda>_. moves_automation p w AU_WAITING_FOR_BUDGET_APPROVAL"
            and body = RecordBudgetApprovalWaiting_body and E = "\<lambda>err. \<exists>table. err = ConstraintViolation table"])
        (use assms(4-7) w SOFT_BREACH key budget_waiting_moves [of ?s _ ?e w] in
          \<open>simp_all add: RecordBudgetApprovalWaitingHandler_def assertRole_ok fresh_key_def breach_scope_def\<close>)
    with SOFT_BREACH show ?thesis
      by (auto simp: applyBudgetDecision_def bindA_def id returnA_def breach_key_def breach_pause_def)
  qed
qed

definition sample_system :: actor_identity where
  "sample_system =
     \<lparr>actor_id = ''sys'', actor_role = ADMIN, actorKind = SystemKind, actor_correlationId = ''x'', displayName = None\<rparr>"

theorem breach_pauses_automation_witness:
  "\<exists>ev t. evaluateBudget ''p1'' None SCOPE_PROJECT (budget_store AU_RUNNING) = Some ev \<and> ev_status ev = HARD_BREACH
     \<and> applyBudgetDecision ev ''p1'' 1 sample_system ''x'' None (budget_store AU_RUNNING) = (Inr (Applied HARD_BREACH), t)
     \<and> moves_automation ''p1'' (sample_ws None AU_RUNNING) AU_PAUSED_BUDGET_EXCEEDED t"
proof -
  obtain ev where ev: "evaluateBudget ''p1'' None SCOPE_PROJECT (budget_store AU_RUNNING) = Some ev"
      "ev_status ev = HARD_BREACH"
    by (auto simp: budget_simps)
  have "workflow_state_of ''p1'' (budget_store AU_RUNNING) = Some (sample_ws None AU_RUNNING)"
    "idempotency_slot k sc (budget_store AU_RUNNING) = None" for k sc
    by (simp_all add: budget_store_def run_simps idempotency_slot_def)
  note run = breach_pauses_automation [OF ev(1) _ this(1) _ _ _ this(2), of sample_system "''x''" None]
  have "\<exists>r t. applyBudgetDecision ev ''p1'' 1 sample_system ''x'' None (budget_store AU_RUNNING) = (Inr r, t)"
    using ev(2)
    by (simp add: applyBudgetDecision_def RecordBudgetExceededHandler_def RecordBudgetExceeded_body_def
        sample_system_def budget_store_def cas_automation_def ws_at_version_def run_simps)
  with run ev show ?thesis
    by (intro exI [of _ ev]) (auto simp: breach_pause_def sample_ws_def sample_system_def)
qed

text \<open>
  Resuming does not look at why the automation was paused: a human operator's
  \<open>ResumeAutomationCommand\<close> at the current version ends any pause, a budget's included, although
  the matrix gives those edges to \<open>ApproveBudgetOverrideCommand\<close> and the role of an approver.
\<close>

theorem operator_resumes_any_pause:
  assumes "workflow_state_of (pp_projectId (payload e)) s = Some w"
    "ws_version w = pp_expectedVersion (payload e)" "ws_automation_state w \<noteq> AU_RUNNING"
    "OPERATOR \<le> actor_role (env_actor e)" "actorKind (env_actor e) = Human"
    "fresh_key ResumeAutomationHandler e s"
  shows "((\<exists>table. execute ResumeAutomationHandler e s = (Inl (ConstraintViolation table), s))
     \<or> (\<exists>res t. execute ResumeAutomationHandler e s = (Inr res, t)
          \<and> moves_automation (pp_projectId (payload e)) w AU_RUNNING t))
     \<and> (ws_automation_state w \<noteq> AU_PAUSED_BY_OPERATOR \<longrightarrow>
          (\<exists>row \<in> set AUTOMATION_CONTROL_MATRIX. fromState row = ws_automation_state w \<and> toState row = AU_RUNNING
             \<and> triggeringCommand row = ''ApproveBudgetOverrideCommand'' \<and> actor row = Role APPROVER))"
proof -
  have "(\<exists>err. execute ResumeAutomationHandler e s = (Inl err, s) \<and> (\<exists>table. err = ConstraintViolation table))
      \<or> (\<exists>res t. execute ResumeAutomationHandler e s = (Inr res, t)
          \<and> moves_automation (pp_projectId (payload e)) w AU_RUNNING t)"
    by (rule fresh_outcome [where Q = "\<lambda>_. moves_automation (pp_projectId (payload e)) w AU_RUNNING"
          and body = ResumeAutomation_body and E = "\<lambda>err. \<exists>table. err = ConstraintViolation table"])
      (use assms resume_moves [OF _ assms(1-3)] in \<open>simp_all add: ResumeAutomationHandler_def assertRole_ok\<close>)
  then show ?thesis
    using assms(3) by (cases "ws_automation_state w") (auto simp: matrix_defs)
qed

theorem operator_resumes_any_pause_witness:
  "\<exists>res t. execute ResumeAutomationHandler
       (sample_envelope OPERATOR Human ''k'' \<lparr>pp_projectId = ''p1'', pp_expectedVersion = 1\<rparr>)
       (budget_store AU_PAUSED_BUDGET_EXCEEDED) = (Inr res, t)
     \<and> moves_automation ''p1'' (sample_ws None AU_PAUSED_BUDGET_EXCEEDED) AU_RUNNING t"
proof -
  let ?e = "sample_envelope OPERATOR Human ''k'' \<lparr>pp_projectId = ''p1'', pp_expectedVersion = 1\<rparr>"
  let ?s = "budget_store AU_PAUSED_BUDGET_EXCEEDED" and ?w = "sample_ws None AU_PAUSED_BUDGET_EXCEEDED"
  have "workflow_state_of (pp_projectId (payload ?e)) ?s = Some ?w"
    "ws_version ?w = pp_expectedVersion (payload ?e)" "ws_automation_state ?w \<noteq> AU_RUNNING"
    "OPERATOR \<le> actor_role (env_actor ?e)" "actorKind (env_actor ?e) = Human"
    "fresh_key ResumeAutomationHandler ?e ?s"
    by (simp_all add: budget_store_def run_simps fresh_key_def idempotency_slot_def)
  note run = operator_resumes_any_pause [OF this]
  have "\<exists>res t. execute ResumeAutomationHandler ?e ?s = (Inr res, t)"
    by (simp add: ResumeAutomationHandler_def ResumeAutomation_body_def budget_store_def cas_automation_def
        ws_at_version_def run_simps)
  with run show ?thesis by (auto simp: sample_envelope_def)
qed

end
