(* ===== verification/RedactionFacts.thy ===== *)
theory RedactionFacts
  imports Redaction
begin

text \<open>
  What the redactor leaves in a text. Three of the default rules describe a token by its shape (a
  GitHub token, an \<open>sk-\<close> key, a GitLab token); this theory shows that no text of such a
  shape is left: a rule leaves none of its own shape behind, and neither it nor the bearer rule
  creates one of another shape. The argument is local: whether a token pattern matches depends on
  the run of token characters at the position and on the kind of the character before it.
\<close>

section \<open>The matcher\<close>

lemma first_some_SomeD: "first_some f xs = Some y \<Longrightarrow> \<exists>x\<in>set xs. f x = Some y"
  by (induction xs) (auto split: option.splits)

lemma first_some_None: "first_some f xs = None \<longleftrightarrow> (\<forall>x\<in>set xs. f x = None)"
  by (induction xs) (auto split: option.splits)

lemma rmatch_ConsD:
  assumes "rmatch (r # rs) prev s = Some lens"
  shows "\<exists>n lens'. lens = n # lens' \<and> n \<in> set (candidates r prev s)
    \<and> rmatch rs (char_before prev s n) (drop n s) = Some lens'"
  using assms by (auto dest!: first_some_SomeD)

lemma rmatch_Cons_iff:
  "rmatch (r # rs) prev s \<noteq> None
   \<longleftrightarrow> (\<exists>n\<in>set (candidates r prev s). rmatch rs (char_before prev s n) (drop n s) \<noteq> None)"
  by (auto simp: first_some_None)

lemma candidates_bound: "n \<in> set (candidates r prev s) \<Longrightarrow> n \<le> length s"
proof (cases r)
  case (Many p m)
  then show "n \<in> set (candidates r prev s) \<Longrightarrow> n \<le> length s"
    using length_takeWhile_le [of p s] by auto
next
  case (Words ws)
  have "length w \<le> length s" if "to_lower (take (length w) s) = to_lower w" for w
    using arg_cong [OF that, of length] by (simp add: to_lower_def)
  then show "n \<in> set (candidates r prev s) \<Longrightarrow> n \<le> length s" using Words by auto
qed (auto split: list.splits if_splits)

lemma char_before_add:
  "n \<le> length s \<Longrightarrow> char_before (char_before prev s n) (drop n s) m = char_before prev s (n + m)"
  by (auto simp: char_before_def)

lemma rmatch_ends_at_boundary:
  "rmatch (rs @ [Boundary]) prev s = Some lens
   \<Longrightarrow> at_boundary (char_before prev s (sum_list lens)) (drop (sum_list lens) s)"
proof (induction rs arbitrary: prev s lens)
  case Nil
  then show ?case by (auto simp: char_before_def split: if_splits)
next
  case (Cons r rs)
  have "rmatch (r # (rs @ [Boundary])) prev s = Some lens"
    using Cons.prems by (simp only: append_Cons)
  then obtain n lens' where split: "lens = n # lens'" "n \<in> set (candidates r prev s)"
      "rmatch (rs @ [Boundary]) (char_before prev s n) (drop n s) = Some lens'"
    by (blast dest: rmatch_ConsD)
  show ?case
    using Cons.IH [OF split(3)] split(1) candidates_bound [OF split(2)]
    by (simp add: char_before_add add.commute)
qed

text \<open>The character before a position counts only as a word character or not.\<close>

definition wordy :: "char option \<Rightarrow> bool" where
  "wordy prev = (case prev of None \<Rightarrow> False | Some c \<Rightarrow> is_word c)"

lemma at_boundary_wordy: "at_boundary prev s = (wordy prev \<noteq> (s \<noteq> [] \<and> is_word (hd s)))"
  by (cases s) (simp_all add: at_boundary_def wordy_def)

lemma rmatch_wordy: "wordy prev = wordy prev' \<Longrightarrow> rmatch rs prev s = rmatch rs prev' s"
proof (induction rs arbitrary: prev prev' s)
  case (Cons r rs)
  have "candidates r prev s = candidates r prev' s"
    using Cons.prems by (cases r) (simp_all add: at_boundary_wordy)
  moreover have "rmatch rs (char_before prev s n) t = rmatch rs (char_before prev' s n) t" for n t
    using Cons.prems by (intro Cons.IH) (simp add: char_before_def)
  ultimately show ?case by simp
qed simp

lemma length_takeWhile_take: "length (takeWhile p (take j s)) \<le> length (takeWhile p s)"
  by (induction s arbitrary: j) (auto simp: take_Cons split: nat.splits)

text \<open>
  A match within the first \<open>j\<close> characters, with no word character right before position
  \<open>j\<close>, is a match in the whole text.
\<close>

fun plain_re :: "re \<Rightarrow> bool" where
  "plain_re (Words ws) = False"
| "plain_re _ = True"

lemma rmatch_take:
  "list_all plain_re rs \<Longrightarrow> j \<le> length s \<Longrightarrow> \<not> wordy (char_before prev s j)
   \<Longrightarrow> rmatch rs prev (take j s) \<noteq> None \<Longrightarrow> rmatch rs prev s \<noteq> None"
proof (induction rs arbitrary: prev s j)
  case (Cons r rs)
  obtain n where n: "n \<in> set (candidates r prev (take j s))"
      "rmatch rs (char_before prev (take j s) n) (drop n (take j s)) \<noteq> None"
    using Cons.prems(4) unfolding rmatch_Cons_iff by blast
  have le: "n \<le> j" using candidates_bound [OF n(1)] by simp
  have cand: "n \<in> set (candidates r prev s)"
  proof (cases r)
    case (One p)
    then show ?thesis using n(1) by (cases s; cases j) auto
  next
    case (Many p m)
    then show ?thesis using n(1) length_takeWhile_take [of p j s] by auto
  next
    case (Words ws)
    then show ?thesis using Cons.prems(1) by simp
  next
    case Boundary
    have "j \<noteq> 0"
    proof
      assume "j = 0"
      then show False using n(1) Cons.prems(3) Boundary by (simp add: char_before_def at_boundary_wordy split: if_splits)
    qed
    then show ?thesis
      using n(1) Boundary by (cases s; cases j) (simp_all add: at_boundary_wordy split: if_splits)
  qed
  have before: "char_before prev (take j s) n = char_before prev s n"
    using le by (simp add: char_before_def)
  have "rmatch rs (char_before prev s n) (drop n s) \<noteq> None"
  proof (rule Cons.IH)
    show "rmatch rs (char_before prev s n) (take (j - n) (drop n s)) \<noteq> None"
      using n(2) by (simp add: before drop_take)
    show "\<not> wordy (char_before (char_before prev s n) (drop n s) (j - n))"
      using Cons.prems(2,3) le by (simp add: char_before_add)
  qed (use Cons.prems(1,2) le in auto)
  then show ?case using cand unfolding rmatch_Cons_iff by blast
qed simp

section \<open>Token characters\<close>

definition token_char :: "char \<Rightarrow> bool" where
  "token_char c = (is_word c \<or> c = CHR ''-'')"

abbreviation token_run :: "string \<Rightarrow> string" where
  "token_run s \<equiv> takeWhile token_char s"

definition token_re :: "re \<Rightarrow> bool" where
  "token_re r =
     (case r of One p \<Rightarrow> (\<forall>c. p c \<longrightarrow> token_char c) | Many p n \<Rightarrow> (\<forall>c. p c \<longrightarrow> token_char c)
              | Boundary \<Rightarrow> True | Words ws \<Rightarrow> False)"

lemma token_re_plain: "list_all token_re rs \<Longrightarrow> list_all plain_re rs"
  by (induction rs) (auto simp: token_re_def split: re.splits)

lemma run_separator: "\<not> token_char z \<Longrightarrow> token_run (u @ z # s) = token_run u"
  by (rule takeWhile_tail)

lemma run_drop: "n \<le> length (token_run s) \<Longrightarrow> drop n (token_run s) = token_run (drop n s)"
proof (induction n arbitrary: s)
  case (Suc n)
  then show ?case by (cases s) (auto split: if_splits)
qed simp

lemma rmatch_run: "list_all token_re rs \<Longrightarrow> rmatch rs prev (token_run s) = rmatch rs prev s"
proof (induction rs arbitrary: prev s)
  case (Cons r rs)
  have r: "token_re r" using Cons.prems by simp
  have many: "takeWhile p (token_run s) = takeWhile p s" if "\<forall>c. p c \<longrightarrow> token_char c" for p
    using that by (induction s) auto
  have cand: "candidates r prev (token_run s) = candidates r prev s"
  proof (cases r)
    case (One p)
    then show ?thesis using r by (cases s) (auto simp: token_re_def)
  next
    case (Many p n)
    then have "takeWhile p (token_run s) = takeWhile p s" using r many by (simp add: token_re_def)
    then show ?thesis using Many by simp
  next
    case (Words ws)
    then show ?thesis using r by (simp add: token_re_def)
  next
    case Boundary
    have "at_boundary prev (token_run s) = at_boundary prev s"
    proof (cases s)
      case (Cons c cs)
      then show ?thesis by (cases "token_char c") (auto simp: at_boundary_def token_char_def)
    qed simp
    then show ?thesis using Boundary by simp
  qed
  have "rmatch rs (char_before prev (token_run s) n) (drop n (token_run s)) = rmatch rs (char_before prev s n) (drop n s)"
    if "n \<in> set (candidates r prev s)" for n
  proof -
    have le: "n \<le> length (token_run s)" using candidates_bound [of n r prev "token_run s"] that cand by simp
    then have "char_before prev (token_run s) n = char_before prev s n"
      by (simp add: char_before_def takeWhile_nth)
    then show ?thesis using Cons.IH Cons.prems le by (simp add: run_drop)
  qed
  then show ?case by (simp add: cand cong: first_some_cong)
qed simp

section \<open>The rules for tokens and the bearer rule\<close>

definition TOKEN_RULES :: "redaction_rule list" where
  "TOKEN_RULES = take 3 (drop 1 DEFAULT_RULES)"

definition BEARER_RULE :: redaction_rule where
  "BEARER_RULE = DEFAULT_RULES ! 4"

abbreviation rule_pattern :: "redaction_rule \<Rightarrow> re list" where
  "rule_pattern rule \<equiv> keep rule @ drop_part rule"

definition starts_token :: "string \<Rightarrow> bool" where
  "starts_token s = (s \<noteq> [] \<and> (hd s = CHR ''g'' \<or> hd s = CHR ''s''))"

lemma token_chars: "is_alnum c \<Longrightarrow> token_char c" "is_word c \<Longrightarrow> token_char c" "token_char CHR ''-''"
  "token_char CHR ''_''"
  by (simp_all add: token_char_def is_word_def)

lemma letters_are_words: "is_word CHR ''g''" "is_word CHR ''h''" "is_word CHR ''p''" "is_word CHR ''s''"
  "is_word CHR ''k''" "is_word CHR ''l''" "is_word CHR ''a''" "is_word CHR ''t''"
  by (simp_all add: is_word_def is_alnum_def Let_def)

lemma token_rule_shape:
  assumes "rule \<in> set TOKEN_RULES"
  shows "keep rule = []" and "replacement rule = DEFAULT_REPLACEMENT" and "list_all token_re (drop_part rule)"
    and "\<exists>p mid. drop_part rule = (Boundary # One p # mid) @ [Boundary]
           \<and> (\<forall>c. p c \<longrightarrow> c = CHR ''g'' \<or> c = CHR ''s'')"
  using assms
  by (auto simp: TOKEN_RULES_def DEFAULT_RULES_def token_re_def token_chars letters_are_words)

lemma token_match_start:
  assumes "rule \<in> set TOKEN_RULES" "rmatch (rule_pattern rule) prev s = Some lens"
  shows "starts_token s" and "\<not> wordy prev" and "0 < sum_list lens"
    and "at_boundary (char_before prev s (sum_list lens)) (drop (sum_list lens) s)"
proof -
  obtain p mid where shape: "rule_pattern rule = (Boundary # One p # mid) @ [Boundary]"
      "\<forall>c. p c \<longrightarrow> c = CHR ''g'' \<or> c = CHR ''s''"
    using token_rule_shape(1,4) [OF assms(1)] by auto
  have match: "rmatch (Boundary # One p # (mid @ [Boundary])) prev s = Some lens"
    using assms(2) shape(1) by (simp only: append_Cons)
  obtain n lens1 where first: "lens = n # lens1" "n \<in> set (candidates Boundary prev s)"
      "rmatch (One p # (mid @ [Boundary])) (char_before prev s n) (drop n s) = Some lens1"
    using rmatch_ConsD [OF match] by blast
  obtain m lens2 where second: "lens1 = m # lens2" "m \<in> set (candidates (One p) (char_before prev s n) (drop n s))"
    using rmatch_ConsD [OF first(3)] by blast
  have n: "n = 0" "at_boundary prev s" using first(2) by (simp_all split: if_splits)
  then show start: "starts_token s"
    using second(2) shape(2) by (auto simp: starts_token_def split: list.splits if_splits)
  then show "\<not> wordy prev"
    using n(2) letters_are_words by (auto simp: at_boundary_wordy starts_token_def)
  have "m = 1" using second(2) by (auto split: list.splits if_splits)
  then show "0 < sum_list lens" using first(1) second(1) by simp
  show "at_boundary (char_before prev s (sum_list lens)) (drop (sum_list lens) s)"
    by (rule rmatch_ends_at_boundary [of "Boundary # One p # mid"]) (use assms(2) shape(1) in simp)
qed

lemma bearer_shape:
  "keep BEARER_RULE = [Words [''Authorization:''], Many is_space 0, Words [''Bearer''], Many is_space 1]"
  "drop_part BEARER_RULE = [Many (\<lambda>c. \<not> is_space c) 1]" "replacement BEARER_RULE = DEFAULT_REPLACEMENT"
  by (simp_all add: BEARER_RULE_def DEFAULT_RULES_def)

lemma space_not_token: "is_space z \<Longrightarrow> \<not> token_char z"
  by (auto simp: is_space_def token_char_def is_word_def is_alnum_def Let_def)

lemma space_no_token_start: "is_space (hd s) \<Longrightarrow> \<not> starts_token s"
  by (auto simp: starts_token_def is_space_def)

lemma bearer_no_match: "s = [] \<or> is_space (hd s) \<Longrightarrow> rmatch (rule_pattern BEARER_RULE) prev s = None"
proof (rule ccontr)
  assume s: "s = [] \<or> is_space (hd s)" and "rmatch (rule_pattern BEARER_RULE) prev s \<noteq> None"
  then obtain lens where "rmatch (rule_pattern BEARER_RULE) prev s = Some lens" by blast
  then have "rmatch (Words [''Authorization:''] # (Many is_space 0 # Words [''Bearer''] # Many is_space 1 # drop_part BEARER_RULE)) prev s
      = Some lens"
    by (simp only: bearer_shape append_Cons append_Nil)
  then obtain n where "n \<in> set (candidates (Words [''Authorization:'']) prev s)" by (blast dest: rmatch_ConsD)
  then have eq: "to_lower (take (length ''Authorization:'') s) = to_lower ''Authorization:''"
    by (auto simp del: list.size split: if_splits)
  moreover have "lower_char CHR ''A'' = CHR ''a''" by code_simp
  ultimately obtain c cs where c: "s = c # cs" "lower_char c = CHR ''a''"
    by (cases s) (simp_all add: to_lower_def)
  then have "is_space c" using s by simp
  then have "lower_char c = c" by (auto simp: lower_char_def is_space_def Let_def)
  then have "is_space CHR ''a''" using c(2) \<open>is_space c\<close> by simp
  then show False by (simp add: is_space_def Let_def)
qed

text \<open>A bearer match keeps a part that ends with a space and drops all up to the next space.\<close>

lemma bearer_match:
  assumes "rmatch (rule_pattern BEARER_RULE) prev s = Some lens"
  shows "\<exists>u z. take (sum_list (take (length (keep BEARER_RULE)) lens)) s = u @ [z] \<and> is_space z
           \<and> s = u @ z # drop (sum_list (take (length (keep BEARER_RULE)) lens)) s
           \<and> sum_list (take (length (keep BEARER_RULE)) lens) < sum_list lens
           \<and> (drop (sum_list lens) s = [] \<or> is_space (hd (drop (sum_list lens) s)))"
proof -
  let ?last = "Many (\<lambda>c. \<not> is_space c) 1"
  have match: "rmatch (Words [''Authorization:''] # Many is_space 0 # Words [''Bearer''] # Many is_space 1 # [?last]) prev s
      = Some lens"
    using assms by (simp only: bearer_shape append_Cons append_Nil)
  obtain a l1 where a: "lens = a # l1"
      "rmatch (Many is_space 0 # Words [''Bearer''] # Many is_space 1 # [?last]) (char_before prev s a) (drop a s) = Some l1"
    using rmatch_ConsD [OF match] by blast
  obtain p1 s1 where s1: "p1 = char_before prev s a" "s1 = drop a s" by simp
  obtain b l2 where b: "l1 = b # l2"
      "rmatch (Words [''Bearer''] # Many is_space 1 # [?last]) (char_before p1 s1 b) (drop b s1) = Some l2"
    using rmatch_ConsD [OF a(2) [folded s1]] by blast
  obtain p2 s2 where s2: "p2 = char_before p1 s1 b" "s2 = drop b s1" by simp
  obtain c l3 where c: "l2 = c # l3"
      "rmatch (Many is_space 1 # [?last]) (char_before p2 s2 c) (drop c s2) = Some l3"
    using rmatch_ConsD [OF b(2) [folded s2]] by blast
  obtain p3 s3 where s3: "p3 = char_before p2 s2 c" "s3 = drop c s2" by simp
  obtain d l4 where d: "l3 = d # l4" "d \<in> set (candidates (Many is_space 1) p3 s3)"
      "rmatch [?last] (char_before p3 s3 d) (drop d s3) = Some l4"
    using rmatch_ConsD [OF c(2) [folded s3]] by blast
  obtain e where e: "l4 = [e]" "e = length (takeWhile (\<lambda>c. \<not> is_space c) (drop d s3))" "1 \<le> e"
    using d(3) by (auto split: if_splits option.splits)
  obtain k where k: "k = a + b + c + d" by simp
  have d_le: "1 \<le> d" "d \<le> length (takeWhile is_space s3)" using d(2) by auto
  have s3_eq: "s3 = drop (a + b + c) s" by (simp add: s1 s2 s3 add.commute add.left_commute)
  have space: "is_space (s3 ! (d - 1))"
    using d_le by (metis Suc_diff_1 Suc_le_lessD diff_Suc_less le_less_trans less_le_trans nth_mem
        set_takeWhileD takeWhile_nth One_nat_def)
  have long: "d \<le> length s3" using d_le(2) length_takeWhile_le [of is_space s3] by linarith
  have pre: "take d s3 = take (d - 1) s3 @ [s3 ! (d - 1)]"
    using d_le(1) long take_Suc_conv_app_nth [of "d - 1" s3] by simp
  have kept: "take k s = (take (a + b + c) s @ take (d - 1) s3) @ [s3 ! (d - 1)]"
    using pre by (simp add: k s3_eq take_add)
  have rest: "drop (k + e) s = dropWhile (\<lambda>c. \<not> is_space c) (drop k s)"
    using e(2) by (simp add: dropWhile_eq_drop k s3_eq add.commute add.left_commute)
  have sums: "sum_list (take (length (keep BEARER_RULE)) lens) = k" "sum_list lens = k + e"
    by (simp_all add: bearer_shape a(1) b(1) c(1) d(1) e(1) k)
  have "drop (k + e) s = [] \<or> is_space (hd (drop (k + e) s))"
    using rest hd_dropWhile [of "\<lambda>c. \<not> is_space c" "drop k s"] by fastforce
  moreover have "s = (take (a + b + c) s @ take (d - 1) s3) @ s3 ! (d - 1) # drop k s"
    using kept append_take_drop_id [of k s] by simp
  ultimately show ?thesis using kept space sums e(3) by (simp del: append_assoc)
qed

section \<open>Where a token rule matches\<close>

lemma token_match_run:
  "rule \<in> set TOKEN_RULES \<Longrightarrow> token_run s = token_run t \<Longrightarrow> rmatch (rule_pattern rule) prev s = rmatch (rule_pattern rule) prev t"
  using rmatch_run [OF token_rule_shape(3), of rule prev s] rmatch_run [OF token_rule_shape(3), of rule prev t]
  by (simp add: token_rule_shape(1))

lemma token_no_match: "rule \<in> set TOKEN_RULES \<Longrightarrow> \<not> starts_token s \<Longrightarrow> rmatch (rule_pattern rule) prev s = None"
  using token_match_start(1) by fastforce

lemma hits_quiet:
  assumes "rule \<in> set TOKEN_RULES" "\<forall>c\<in>set s. \<not> starts_token [c]"
  shows "\<not> rule_hits rule prev s"
  using assms(2)
proof (induction s arbitrary: prev)
  case Nil
  then show ?case using token_no_match [OF assms(1), of "[]"] by (simp add: starts_token_def)
next
  case (Cons c s)
  then show ?case using token_no_match [OF assms(1), of "c # s"] by (simp add: starts_token_def)
qed

lemma hits_at_separator:
  assumes "rule \<in> set TOKEN_RULES" "\<not> token_char z"
  shows "rule_hits rule prev (u @ z # s) = (rule_hits rule prev u \<or> rule_hits rule (Some z) s)"
proof (induction u arbitrary: prev)
  case Nil
  have "\<not> starts_token (z # s)"
    using assms(2) token_chars(2) letters_are_words by (auto simp: starts_token_def)
  moreover have "\<not> starts_token []" by (simp add: starts_token_def)
  ultimately show ?case using token_no_match [OF assms(1)] by simp
next
  case (Cons c u)
  have "token_run (c # u @ z # s) = token_run (c # u)"
    using run_separator [OF assms(2), of "c # u" s] by simp
  then have "rmatch (rule_pattern rule) prev (c # u @ z # s) = rmatch (rule_pattern rule) prev (c # u)"
    by (rule token_match_run [OF assms(1)])
  then show ?case using Cons.IH [of "Some c"] by simp
qed

lemma hits_suffix: "rule_hits rule (char_before prev s n) (drop n s) \<Longrightarrow> n < length s \<Longrightarrow> rule_hits rule prev s"
proof (induction n arbitrary: prev s)
  case 0
  then show ?case by (simp add: char_before_def)
next
  case (Suc n)
  then obtain c cs where s: "s = c # cs" by (cases s) auto
  have "char_before prev s (Suc n) = char_before (Some c) cs n" by (simp add: char_before_def s)
  then show ?case using Suc s by simp
qed

lemma hits_before:
  assumes "rule \<in> set TOKEN_RULES" "wordy prev = wordy prev' \<or> \<not> starts_token s"
  shows "rule_hits rule prev s = rule_hits rule prev' s"
proof -
  have "(rmatch (rule_pattern rule) prev s = None) = (rmatch (rule_pattern rule) prev' s = None)"
    using assms token_no_match [OF assms(1)] rmatch_wordy [of prev prev'] by metis
  then show ?thesis by (cases s) simp_all
qed

section \<open>Replacing creates no token\<close>

lemma replace_all_match:
  "rmatch (rule_pattern rule) prev (c # cs) = Some lens \<Longrightarrow> 0 < sum_list lens
   \<Longrightarrow> replace_all rule prev (c # cs)
     = take (sum_list (take (length (keep rule)) lens)) (c # cs) @ replacement rule
       @ replace_all rule (char_before prev (c # cs) (sum_list lens)) (drop (sum_list lens) (c # cs))"
  by (simp add: Let_def del: sum_list_eq_0_iff)

text \<open>
  The run of token characters at the front of a text is kept, or cut where a token was replaced,
  which is never after a word character.
\<close>

lemma run_replace_all:
  assumes "rule \<in> set TOKEN_RULES \<or> rule = BEARER_RULE"
  shows "\<exists>j\<le>length (token_run s). token_run (replace_all rule prev s) = take j (token_run s)
    \<and> (j = length (token_run s) \<or> \<not> wordy (char_before prev s j))"
proof (induction s arbitrary: prev)
  case (Cons c cs)
  show ?case
  proof (cases "rmatch (rule_pattern rule) prev (c # cs)")
    case None
    obtain j where j: "j \<le> length (token_run cs)" "token_run (replace_all rule (Some c) cs) = take j (token_run cs)"
        "j = length (token_run cs) \<or> \<not> wordy (char_before (Some c) cs j)"
      using Cons.IH [of "Some c"] by blast
    have "char_before (Some c) cs j = char_before prev (c # cs) (Suc j)" by (simp add: char_before_def)
    then show ?thesis
      using j None by (cases "token_char c") (auto intro!: exI [of _ "Suc j"])
  next
    case (Some lens)
    show ?thesis
    proof (cases "rule = BEARER_RULE")
      case True
      obtain k where k: "k = sum_list (take (length (keep rule)) lens)" by simp
      obtain u z where uz: "take k (c # cs) = u @ [z]" "is_space z" "c # cs = u @ z # drop k (c # cs)" "k < sum_list lens"
        using bearer_match Some unfolding True k by blast
      obtain rest where "replace_all rule prev (c # cs) = take k (c # cs) @ rest"
        using replace_all_match [OF Some] uz(4) k by (metis neq0_conv not_less_zero)
      then have "replace_all rule prev (c # cs) = u @ z # rest" using uz(1) by simp
      then have "token_run (replace_all rule prev (c # cs)) = token_run u"
        using run_separator [OF space_not_token [OF uz(2)], of u rest] by simp
      moreover have "token_run (c # cs) = token_run u"
        using run_separator [OF space_not_token [OF uz(2)], of u "drop k (c # cs)"] uz(3) by simp
      ultimately show ?thesis by auto
    next
      case False
      then have token: "rule \<in> set TOKEN_RULES" using assms by simp
      have "hd (replace_all rule prev (c # cs)) = CHR ''[''"  "replace_all rule prev (c # cs) \<noteq> []"
        using replace_all_match [OF Some token_match_start(3) [OF token Some]]
        by (simp_all add: token_rule_shape(1,2) [OF token] DEFAULT_REPLACEMENT_def del: replace_all.simps)
      then have "token_run (replace_all rule prev (c # cs)) = []"
        by (cases "replace_all rule prev (c # cs)") (simp_all add: token_char_def is_word_def is_alnum_def Let_def)
      then show ?thesis
        using token_match_start(2) [OF token Some] by (intro exI [of _ 0]) (simp add: char_before_def)
    qed
  qed
qed simp

lemma match_after_replace:
  assumes "R \<in> set TOKEN_RULES" "rule \<in> set TOKEN_RULES \<or> rule = BEARER_RULE"
    "rmatch (rule_pattern R) prev (replace_all rule prev s) \<noteq> None"
  shows "rmatch (rule_pattern R) prev s \<noteq> None"
proof -
  obtain j where j: "j \<le> length (token_run s)" "token_run (replace_all rule prev s) = take j (token_run s)"
      "j = length (token_run s) \<or> \<not> wordy (char_before prev s j)"
    using run_replace_all [OF assms(2)] by blast
  have tokens: "list_all token_re (rule_pattern R)" using token_rule_shape(1,3) [OF assms(1)] by simp
  have cut: "rmatch (rule_pattern R) prev (take j (token_run s)) \<noteq> None"
    using assms(3) rmatch_run [OF tokens, of prev "replace_all rule prev s"] j(2) by simp
  have same: "char_before prev (token_run s) j = char_before prev s j"
    using j(1) by (simp add: char_before_def takeWhile_nth)
  have "rmatch (rule_pattern R) prev (token_run s) \<noteq> None"
  proof (cases "j = length (token_run s)")
    case False
    then show ?thesis using rmatch_take [OF token_re_plain [OF tokens] j(1) _ cut] j(3) same by simp
  qed (use cut in simp)
  then show ?thesis using rmatch_run [OF tokens] by simp
qed

lemma head_after_replace:
  assumes "rmatch (rule_pattern rule) prev s = None"
  shows "starts_token (replace_all rule prev s) = starts_token s"
  using assms by (cases s) (simp_all add: starts_token_def)

text \<open>
  Whatever rule is applied, a token pattern matches in the result only where the text already had
  a match, and the rule leaves none of its own.
\<close>

lemma hits_after_replace:
  assumes "R \<in> set TOKEN_RULES" "rule \<in> set TOKEN_RULES \<or> rule = BEARER_RULE"
    "rule_hits R prev (replace_all rule prev s)"
  shows "rule_hits R prev s \<and> rule \<noteq> R"
  using assms(3)
proof (induction "length s" arbitrary: prev s rule: less_induct)
  case less
  note quiet = hits_quiet [OF assms(1)]
  note sep = hits_at_separator [OF assms(1)]
  show ?case
  proof (cases s)
    case Nil
    then show ?thesis using less.prems quiet [of "[]"] by simp
  next
    case (Cons c cs)
    show ?thesis
    proof (cases "rmatch (rule_pattern rule) prev (c # cs)")
      case None
      then have "rmatch (rule_pattern R) prev (c # replace_all rule (Some c) cs) \<noteq> None \<or> rule_hits R (Some c) (replace_all rule (Some c) cs)"
        using less.prems Cons by simp
      then show ?thesis
      proof
        assume "rmatch (rule_pattern R) prev (c # replace_all rule (Some c) cs) \<noteq> None"
        then have "rmatch (rule_pattern R) prev (c # cs) \<noteq> None"
          using match_after_replace [OF assms(1,2), of prev "c # cs"] None by simp
        then show ?thesis using None Cons by auto
      next
        assume "rule_hits R (Some c) (replace_all rule (Some c) cs)"
        then show ?thesis using less.hyps [of cs "Some c"] Cons by simp
      qed
    next
      case (Some lens)
      obtain n where n: "n = sum_list lens" by simp
      obtain p where p: "p = char_before prev s n" by simp
      obtain Y where Y: "Y = replace_all rule p (drop n s)" by simp
      have finish: "rule_hits R prev s \<and> rule \<noteq> R" if "rule_hits R p Y" "0 < n"
      proof -
        have hit: "rule_hits R p (drop n s) \<and> rule \<noteq> R"
          using less.hyps [of "drop n s" p] that Y Cons by simp
        have "n < length s"
        proof (rule ccontr)
          assume "\<not> n < length s"
          then have "rule_hits R p []" using hit by simp
          then show False using quiet [of "[]"] by simp
        qed
        then show ?thesis using hit hits_suffix [of R prev s n] p by simp
      qed
      show ?thesis
      proof (cases "rule = BEARER_RULE")
        case True
        obtain k where k: "k = sum_list (take (length (keep rule)) lens)" by simp
        obtain u z where uz: "take k s = u @ [z]" "is_space z" "s = u @ z # drop k s" "k < n"
            "drop n s = [] \<or> is_space (hd (drop n s))"
          using bearer_match [of prev s lens] Some Cons unfolding True k n by blast
        have "\<not> starts_token (drop n s)"
          using uz(5) space_no_token_start [of "drop n s"] by (metis starts_token_def)
        then have calm: "\<not> starts_token Y"
          using head_after_replace [OF bearer_no_match [OF uz(5)], of p] Y True by simp
        have "replace_all rule prev s = u @ z # ''[REDACTED'' @ CHR '']'' # Y"
          using replace_all_match [OF Some] uz(1,4) k n p Y Cons bearer_shape(3) True by (simp add: DEFAULT_REPLACEMENT_def)
        then have "rule_hits R prev u \<or> rule_hits R (Some z) ''[REDACTED'' \<or> rule_hits R (Some CHR '']'') Y"
          using less.prems sep [OF space_not_token [OF uz(2)], of prev u] sep [of "CHR '']''" "Some z" "''[REDACTED''" Y]
          by (simp add: token_char_def is_word_def is_alnum_def Let_def)
        moreover have "\<not> rule_hits R (Some z) ''[REDACTED''"
          by (rule quiet) (simp add: starts_token_def)
        moreover have "rule_hits R prev s" if "rule_hits R prev u"
          using that sep [OF space_not_token [OF uz(2)], of prev u "drop k s"] uz(3) by simp
        moreover have "rule \<noteq> R"
          using assms(1) token_rule_shape(1) [of R] True bearer_shape(1) by auto
        ultimately show ?thesis
          using finish uz(4) hits_before [OF assms(1), of "Some CHR '']''" p Y] calm by auto
      next
        case False
        then have token: "rule \<in> set TOKEN_RULES" using assms(2) by simp
        have ends: "0 < n" "at_boundary p (drop n s)"
          using token_match_start(3,4) [OF token Some] Cons n p by simp_all
        have "wordy p = wordy (Some CHR '']'') \<or> \<not> starts_token Y"
        proof (cases "wordy p")
          case True
          then have "\<not> starts_token (drop n s)"
            using ends(2) letters_are_words by (auto simp: at_boundary_wordy starts_token_def)
          then show ?thesis using head_after_replace [OF token_no_match [OF token], of "drop n s" p] Y by simp
        qed (simp add: wordy_def is_word_def is_alnum_def Let_def)
        moreover have "replace_all rule prev s = ''[REDACTED'' @ CHR '']'' # Y"
          using replace_all_match [OF Some] ends(1) n p Y Cons token_rule_shape(1,2) [OF token]
          by (simp add: DEFAULT_REPLACEMENT_def)
        then have "rule_hits R prev ''[REDACTED'' \<or> rule_hits R (Some CHR '']'') Y"
          using less.prems sep [of "CHR '']''" prev "''[REDACTED''" Y]
          by (simp add: token_char_def is_word_def is_alnum_def Let_def)
        moreover have "\<not> rule_hits R prev ''[REDACTED''"
          by (rule quiet) (simp add: starts_token_def)
        ultimately show ?thesis using finish ends(1) hits_before [OF assms(1), of p "Some CHR '']''" Y] by auto
      qed
    qed
  qed
qed

lemma redact_stages:
  "\<exists>t. redact s = replace_all BEARER_RULE None (foldl (\<lambda>u rule. replace_all rule None u) t TOKEN_RULES)"
  by (rule exI [of _ "replace_all (DEFAULT_RULES ! 0) None s"])
    (simp add: redact_def TOKEN_RULES_def BEARER_RULE_def DEFAULT_RULES_def del: replace_all.simps)

lemma fold_leaves_no_hits:
  assumes "R \<in> set TOKEN_RULES" "set rules \<subseteq> set TOKEN_RULES"
    "rule_hits R None (foldl (\<lambda>u rule. replace_all rule None u) t rules)"
  shows "R \<notin> set rules"
  using assms(2,3)
proof (induction rules rule: rev_induct)
  case (snoc rule rules)
  have "rule_hits R None (foldl (\<lambda>u rule. replace_all rule None u) t rules) \<and> rule \<noteq> R"
    using snoc.prems by (intro hits_after_replace [OF assms(1)]) auto
  then show ?case using snoc by auto
qed simp

text \<open>No text of the shape of a token is left in a redacted text.\<close>

lemma redacted_has_no_token:
  assumes "R \<in> set TOKEN_RULES"
  shows "\<not> rule_hits R None (redact s)"
proof
  assume hit: "rule_hits R None (redact s)"
  obtain t where "redact s = replace_all BEARER_RULE None (foldl (\<lambda>u rule. replace_all rule None u) t TOKEN_RULES)"
    using redact_stages by blast
  then have "rule_hits R None (foldl (\<lambda>u rule. replace_all rule None u) t TOKEN_RULES)"
    using hits_after_replace [OF assms, of BEARER_RULE] hit by auto
  then show False using fold_leaves_no_hits [OF assms subset_refl] assms by blast
qed

lemma redacted_scan: "set (scanForSecrets (redact s)) \<subseteq> {0, 4}"
proof -
  have rules: "DEFAULT_RULES = [DEFAULT_RULES ! 0, TOKEN_RULES ! 0, TOKEN_RULES ! 1, TOKEN_RULES ! 2, DEFAULT_RULES ! 4]"
    and three: "length TOKEN_RULES = 3"
    by (simp_all add: TOKEN_RULES_def DEFAULT_RULES_def)
  have "\<not> rule_hits (TOKEN_RULES ! i) None (redact s)" if "i < 3" for i
    using that three by (intro redacted_has_no_token) simp
  then show ?thesis
    unfolding scanForSecrets_def by (subst rules) (auto simp: numeral_eq_Suc)
qed

section \<open>Secrets written as JSON text\<close>

abbreviation key_text :: "string \<Rightarrow> string" where
  "key_text w \<equiv> quoted w @ '':''"

lemma SECRET_FIELD_NAMES_lower: "SECRET_FIELD_NAMES = map to_lower SECRET_KEY_WORDS"
  by code_simp

lemma distinct_field_names: "distinct SECRET_FIELD_NAMES"
  by (simp add: SECRET_FIELD_NAMES_def)

lemma secret_words_plain:
  "\<forall>w\<in>set SECRET_KEY_WORDS. length w < 20 \<and> (\<forall>c\<in>set w. is_word c)"
  by (simp add: SECRET_KEY_WORDS_def is_word_def is_alnum_def Let_def)

lemma quote_char_kind: "\<not> token_char quote_char" "\<not> is_space quote_char" "lower_char quote_char = quote_char"
  by code_simp+

lemma key_text_shape:
  assumes "w \<in> set SECRET_KEY_WORDS"
  shows "takeWhile (\<lambda>c. c \<noteq> quote_char) (tl (to_lower (key_text w))) = to_lower w"
    and "hd (to_lower (key_text w)) = quote_char"
proof -
  have "lower_char c \<noteq> quote_char" if "is_word c" for c
  proof -
    have "of_char (lower_char c) \<noteq> (34 :: nat)"
      using that by (auto simp: lower_char_def is_word_def is_alnum_def Let_def)
    then show ?thesis by (auto simp: quote_char_def)
  qed
  then have "\<forall>c\<in>set (to_lower w). c \<noteq> quote_char"
    using assms secret_words_plain by (auto simp: to_lower_def)
  then show "takeWhile (\<lambda>c. c \<noteq> quote_char) (tl (to_lower (key_text w))) = to_lower w"
    using takeWhile_tail [of "\<lambda>c. c \<noteq> quote_char" quote_char "to_lower w" "[lower_char CHR '':'']"]
    by (simp add: quoted_def to_lower_def quote_char_kind(3) takeWhile_eq_all_conv)
  show "hd (to_lower (key_text w)) = quote_char"
    by (simp add: quoted_def to_lower_def quote_char_kind(3))
qed

lemma key_texts_prefix_free:
  assumes "w \<in> set SECRET_KEY_WORDS" "v \<in> set SECRET_KEY_WORDS"
    "prefix (to_lower (key_text v)) (to_lower (key_text w))"
  shows "v = w"
proof -
  obtain s where "to_lower (key_text w) = to_lower (key_text v) @ s" using assms(3) by (auto elim: prefixE)
  then have "quote_char # to_lower w @ to_lower [quote_char, CHR '':''] = quote_char # to_lower v @ quote_char # to_lower [CHR '':''] @ s"
    by (simp add: quoted_def to_lower_def quote_char_kind(3))
  then have "takeWhile (\<lambda>c. c \<noteq> quote_char) (tl (to_lower (key_text w))) = takeWhile (\<lambda>c. c \<noteq> quote_char) (to_lower v @ quote_char # to_lower [CHR '':''] @ s)"
    by (simp add: quoted_def to_lower_def quote_char_kind(3))
  also have "\<dots> = takeWhile (\<lambda>c. c \<noteq> quote_char) (to_lower v)" by (rule takeWhile_tail) simp
  also have "\<dots> = to_lower v"
    using key_text_shape(1) [OF assms(2)] by (metis takeWhile_idem)
  finally have "to_lower w = to_lower v" using key_text_shape(1) [OF assms(1)] by simp
  moreover have "inj_on to_lower (set SECRET_KEY_WORDS)"
    using distinct_field_names by (simp add: SECRET_FIELD_NAMES_lower distinct_map)
  ultimately show ?thesis using assms(1,2) by (auto dest: inj_onD)
qed

lemma prefix_to_lower:
  assumes "to_lower (take (length k) (j @ s)) = to_lower k"
  shows "prefix (to_lower k) (to_lower j) \<or> prefix (to_lower j) (to_lower k)"
proof -
  have "to_lower (j @ s) = to_lower (take (length k) (j @ s)) @ to_lower (drop (length k) (j @ s))"
    by (metis append_take_drop_id map_append to_lower_def)
  then have "prefix (to_lower k) (to_lower j @ to_lower s)"
    using assms by (metis map_append prefixI to_lower_def)
  then show ?thesis using prefix_same_cases [of "to_lower k" "to_lower j @ to_lower s" "to_lower j"] by simp
qed

lemma filter_single: "distinct xs \<Longrightarrow> x \<in> set xs \<Longrightarrow> (\<And>y. y \<in> set xs \<Longrightarrow> P y \<longleftrightarrow> y = x) \<Longrightarrow> filter P xs = [x]"
proof (induction xs)
  case (Cons z zs)
  have rest: "filter P zs = []" if "z = x" using Cons.prems that by (auto simp: filter_empty_conv)
  show ?case
  proof (cases "z = x")
    case False
    then show ?thesis using Cons by simp
  qed (use Cons.prems rest in simp)
qed simp

lemma key_candidates:
  assumes "w \<in> set SECRET_KEY_WORDS"
  shows "candidates (Words (map key_text SECRET_KEY_WORDS)) prev (key_text w @ s) = [length (key_text w)]"
proof -
  have "filter (\<lambda>k. to_lower (take (length k) (key_text w @ s)) = to_lower k) (map key_text SECRET_KEY_WORDS) = [key_text w]"
  proof (rule filter_single)
    show "distinct (map key_text SECRET_KEY_WORDS)"
      using distinct_field_names by (auto simp: SECRET_FIELD_NAMES_lower distinct_map inj_on_def quoted_def)
    fix k assume "k \<in> set (map key_text SECRET_KEY_WORDS)"
    then obtain v where v: "k = key_text v" "v \<in> set SECRET_KEY_WORDS" by auto
    show "(to_lower (take (length k) (key_text w @ s)) = to_lower k) \<longleftrightarrow> k = key_text w"
    proof
      assume "to_lower (take (length k) (key_text w @ s)) = to_lower k"
      from prefix_to_lower [OF this] show "k = key_text w"
        using key_texts_prefix_free assms v by blast
    qed simp
  qed (use assms in auto)
  then show ?thesis by simp
qed

lemma rmatch_single:
  "candidates r prev s = [n] \<Longrightarrow> rmatch rs (char_before prev s n) (drop n s) = Some lens \<Longrightarrow> rmatch (r # rs) prev s = Some (n # lens)"
  by simp

lemma quoted_secret_match:
  assumes "w \<in> set SECRET_KEY_WORDS" "quote_char \<notin> set body"
  shows "rmatch (rule_pattern (DEFAULT_RULES ! 0)) None (key_text w @ quoted body) = Some [length (key_text w), 0, 1, length body, 1]"
proof -
  have stop: "takeWhile (\<lambda>c. c \<noteq> quote_char) (body @ [quote_char]) = body"
    using assms(2) by (subst takeWhile_append2) auto
  have "rmatch (Many is_space 0 # drop_part (DEFAULT_RULES ! 0)) p (quoted body) = Some [0, 1, length body, 1]" for p
    using stop quote_char_kind(2) by (simp add: DEFAULT_RULES_def quoted_def)
  then have "rmatch (Words (map key_text SECRET_KEY_WORDS) # Many is_space 0 # drop_part (DEFAULT_RULES ! 0)) None (key_text w @ quoted body)
      = Some [length (key_text w), 0, 1, length body, 1]"
    using rmatch_single [OF key_candidates [OF assms(1)], of "Many is_space 0 # drop_part (DEFAULT_RULES ! 0)" None "quoted body"]
    by (metis append_eq_conv_conj)
  then show ?thesis by (simp only: DEFAULT_RULES_def nth_Cons_0 redaction_rule.simps append_Cons append_Nil)
qed

lemma match_length: "rmatch (rs @ [Many q m, Boundary]) prev s = Some lens \<Longrightarrow> m \<le> length s"
proof (induction rs arbitrary: prev s lens)
  case Nil
  then have "rmatch (Many q m # [Boundary]) prev s = Some lens" by simp
  then obtain n where "n \<in> set (candidates (Many q m) prev s)" by (blast dest: rmatch_ConsD)
  then have "m \<le> n" "n \<le> length s" using candidates_bound [of n "Many q m" prev s] by auto
  then show ?case by simp
next
  case (Cons r rs)
  have "rmatch (r # (rs @ [Many q m, Boundary])) prev s = Some lens"
    using Cons.prems by (simp only: append_Cons)
  then obtain n lens' where "rmatch (rs @ [Many q m, Boundary]) (char_before prev s n) (drop n s) = Some lens'"
    by (blast dest: rmatch_ConsD)
  then show ?case using Cons.IH [of "char_before prev s n" "drop n s" lens'] by simp
qed

lemma token_match_long:
  assumes "rule \<in> set TOKEN_RULES" "rmatch (rule_pattern rule) prev s = Some lens"
  shows "20 \<le> length s"
proof -
  have "\<exists>q m. drop_part rule = butlast (butlast (drop_part rule)) @ [Many q m, Boundary] \<and> 20 \<le> m"
    using assms(1) by (auto simp: TOKEN_RULES_def DEFAULT_RULES_def)
  then obtain q m where shape: "drop_part rule = butlast (butlast (drop_part rule)) @ [Many q m, Boundary]" "20 \<le> m"
    by blast
  have "rmatch (butlast (butlast (drop_part rule)) @ [Many q m, Boundary]) prev s = Some lens"
    using assms(2) shape(1) token_rule_shape(1) [OF assms(1)] by simp
  then show ?thesis using match_length shape(2) by fastforce
qed

lemma hits_short: "rule \<in> set TOKEN_RULES \<Longrightarrow> length s < 20 \<Longrightarrow> \<not> rule_hits rule prev s"
proof (induction s arbitrary: prev)
  case Nil
  then show ?case using token_no_match [of rule "[]"] by (simp add: starts_token_def)
next
  case (Cons c s)
  then show ?case using token_match_long [OF Cons.prems(1), of prev "c # s"] by fastforce
qed

lemma bearer_hits_space: "rule_hits BEARER_RULE prev s \<Longrightarrow> \<exists>z\<in>set s. is_space z"
proof (induction s arbitrary: prev)
  case Nil
  then show ?case using bearer_no_match [of "[]"] by simp
next
  case (Cons c s)
  then show ?case
  proof (cases "rmatch (rule_pattern BEARER_RULE) prev (c # s)")
    case (Some lens)
    obtain u z t where "is_space z" "c # s = u @ z # t" using bearer_match [OF Some] by blast
    then show ?thesis by (metis in_set_conv_decomp)
  next
    case None
    then have "rule_hits BEARER_RULE (Some c) s" using Cons.prems by simp
    then show ?thesis using Cons.IH by auto
  qed
qed

lemma masked_text_stays:
  assumes "w \<in> set SECRET_KEY_WORDS" "rule \<in> set (tl DEFAULT_RULES)"
  shows "\<not> rule_hits rule None (key_text w @ quoted DEFAULT_REPLACEMENT)"
proof -
  have "rule \<in> set TOKEN_RULES \<or> rule = BEARER_RULE"
    using assms(2) by (simp add: TOKEN_RULES_def BEARER_RULE_def DEFAULT_RULES_def)
  then show ?thesis
  proof
    assume token: "rule \<in> set TOKEN_RULES"
    note sep = hits_at_separator [OF token] hits_short [OF token]
    have parts: "key_text w @ quoted DEFAULT_REPLACEMENT
        = [] @ quote_char # (w @ quote_char # ([CHR '':''] @ quote_char # (DEFAULT_REPLACEMENT @ quote_char # [])))"
      by (simp add: quoted_def)
    show ?thesis
      unfolding parts using assms(1) secret_words_plain
      by (simp only: sep quote_char_kind simp_thms) (simp add: hits_short [OF token] DEFAULT_REPLACEMENT_def del: rule_hits.simps)
  next
    assume bearer: "rule = BEARER_RULE"
    have "\<forall>c\<in>set w. \<not> is_space c"
      using assms(1) secret_words_plain space_not_token token_chars(2) by blast
    moreover have "\<forall>c\<in>set ('':'' @ DEFAULT_REPLACEMENT). \<not> is_space c" by code_simp
    ultimately have "\<forall>c\<in>set (key_text w @ quoted DEFAULT_REPLACEMENT). \<not> is_space c"
      using quote_char_kind(2) by (simp add: quoted_def ball_Un)
    then show ?thesis using bearer_hits_space bearer by blast
  qed
qed

lemma fold_no_hits:
  "(\<And>rule. rule \<in> set rules \<Longrightarrow> \<not> rule_hits rule None s) \<Longrightarrow> foldl (\<lambda>u rule. replace_all rule None u) s rules = s"
  by (induction rules) (simp_all add: replace_all_no_hit)

lemma redact_quoted_secret:
  assumes "w \<in> set SECRET_KEY_WORDS" "quote_char \<notin> set body"
  shows "redact (key_text w @ quoted body) = key_text w @ quoted DEFAULT_REPLACEMENT"
proof -
  obtain c cs where cons: "key_text w @ quoted body = c # cs" by (simp add: quoted_def)
  obtain rule where rule: "rule = DEFAULT_RULES ! 0" by simp
  obtain k where k: "k = length (key_text w)" by simp
  have match: "rmatch (rule_pattern rule) None (c # cs) = Some [k, 0, 1, length body, 1]"
    using quoted_secret_match [OF assms] unfolding rule cons k .
  have sums: "sum_list [k, 0, 1, length body, 1] = length (c # cs)" "sum_list (take 2 [k, 0, 1, length body, 1]) = k"
    unfolding cons [symmetric] by (simp_all add: k quoted_def)
  have parts: "length (keep rule) = 2" "replacement rule = quoted DEFAULT_REPLACEMENT"
    by (simp_all add: rule DEFAULT_RULES_def)
  have "replace_all rule None (c # cs) = take k (c # cs) @ quoted DEFAULT_REPLACEMENT
      @ replace_all rule (char_before None (c # cs) (length (c # cs))) (drop (length (c # cs)) (c # cs))"
    using replace_all_match [OF match, unfolded sums parts] by simp
  moreover have "replace_all rule p (drop (length (c # cs)) (c # cs)) = []" for p by simp
  moreover have "take k (c # cs) = key_text w" unfolding cons [symmetric] k by simp
  ultimately have "replace_all rule None (c # cs) = key_text w @ quoted DEFAULT_REPLACEMENT" by (simp only: append_Nil2)
  then have "replace_all (DEFAULT_RULES ! 0) None (key_text w @ quoted body) = key_text w @ quoted DEFAULT_REPLACEMENT"
    unfolding rule cons .
  moreover have "redact t = foldl (\<lambda>u rule. replace_all rule None u) (replace_all (DEFAULT_RULES ! 0) None t) (tl DEFAULT_RULES)" for t
    by (simp add: redact_def DEFAULT_RULES_def del: replace_all.simps)
  ultimately show ?thesis using fold_no_hits [OF masked_text_stays [OF assms(1)]] by simp
qed

section \<open>Bearer tokens\<close>

abbreviation bearer_text :: string where
  "bearer_text \<equiv> ''Authorization: Bearer ''"

lemma rmatch_at:
  assumes "candidates r prev (u @ s) = length u # ns" "\<And>p. rmatch rs p s = Some lens"
  shows "rmatch (r # rs) prev (u @ s) = Some (length u # lens)"
  using assms by simp

lemma bearer_text_match:
  assumes "body \<noteq> []" "\<forall>c\<in>set body. \<not> is_space c"
  shows "rmatch (rule_pattern BEARER_RULE) prev (bearer_text @ body) = Some [14, 1, 6, 1, length body]"
proof -
  let ?last = "Many (\<lambda>c. \<not> is_space c) 1"
  have rest: "takeWhile (\<lambda>c. \<not> is_space c) body = body" using assms(2) by (simp add: takeWhile_eq_all_conv)
  have space: "is_space CHR '' ''" "\<not> is_space CHR ''B''" by code_simp+
  obtain c cs where body: "body = c # cs" using assms(1) by (cases body) auto
  then have run: "takeWhile is_space body = []" using assms(2) by simp
  have s1: "rmatch [?last] p body = Some [length body]" for p
    using rest body by simp
  have "\<exists>ns. candidates (Many is_space 1) p ('' '' @ body) = length '' '' # ns" for p
    using space(1) run by simp
  then have s2: "rmatch [Many is_space 1, ?last] p ('' '' @ body) = Some (length '' '' # [length body])" for p
    using rmatch_at s1 by meson
  have "candidates (Words [''Bearer'']) p (''Bearer'' @ s) = length ''Bearer'' # []" for p s
    by simp
  from rmatch_at [OF this s2]
  have s3: "rmatch [Words [''Bearer''], Many is_space 1, ?last] p (''Bearer'' @ '' '' @ body)
      = Some (length ''Bearer'' # length '' '' # [length body])" for p .
  have "\<exists>ns. candidates (Many is_space 0) p ('' '' @ ''Bearer'' @ s) = length '' '' # ns" for p s
    using space by simp
  then have s4: "rmatch [Many is_space 0, Words [''Bearer''], Many is_space 1, ?last] p ('' '' @ ''Bearer'' @ '' '' @ body)
      = Some (length '' '' # length ''Bearer'' # length '' '' # [length body])" for p
    using rmatch_at s3 by meson
  have "candidates (Words [''Authorization:'']) p (''Authorization:'' @ s) = length ''Authorization:'' # []" for p s
    by simp
  from rmatch_at [OF this s4, of prev]
  have "rmatch (rule_pattern BEARER_RULE) prev (''Authorization:'' @ '' '' @ ''Bearer'' @ '' '' @ body)
      = Some (length ''Authorization:'' # length '' '' # length ''Bearer'' # length '' '' # [length body])"
    by (simp only: bearer_shape append_Cons append_Nil)
  then show ?thesis by (simp del: rmatch.simps)
qed

lemma replace_all_through:
  "(\<And>c p s. c \<in> set u \<Longrightarrow> rmatch (rule_pattern rule) p (c # s) = None)
   \<Longrightarrow> \<exists>p. replace_all rule prev (u @ s) = u @ replace_all rule p s"
proof (induction u arbitrary: prev)
  case (Cons c u)
  have "replace_all rule prev ((c # u) @ s) = c # replace_all rule (Some c) (u @ s)"
    using Cons.prems [of c prev "u @ s"] by simp
  then show ?case using Cons.IH [of "Some c"] Cons.prems by auto
qed auto

lemma replace_all_set: "set (replace_all rule prev s) \<subseteq> set s \<union> set (replacement rule)"
proof (induction "length s" arbitrary: prev s rule: less_induct)
  case less
  show ?case
  proof (cases s)
    case (Cons c cs)
    have rest: "set (replace_all rule (Some c) cs) \<subseteq> set s \<union> set (replacement rule)"
      using less.hyps [of cs "Some c"] Cons by auto
    show ?thesis
    proof (cases "rmatch (rule_pattern rule) prev (c # cs)")
      case None
      then show ?thesis using rest Cons by simp
    next
      case (Some lens)
      show ?thesis
      proof (cases "sum_list lens = 0")
        case True
        then have "replace_all rule prev s = c # replace_all rule (Some c) cs" using Some Cons by simp
        then show ?thesis using rest Cons by simp
      next
        case False
        have "set (replace_all rule p (drop (sum_list lens) s)) \<subseteq> set s \<union> set (replacement rule)" for p
          using less.hyps [of "drop (sum_list lens) s" p] False Cons set_drop_subset [of "sum_list lens" s] by fastforce
        then show ?thesis
          using replace_all_match [OF Some] False Cons set_take_subset [of _ s] by (simp del: replace_all.simps) blast
      qed
    qed
  qed simp
qed

lemma replace_all_nonempty: "s \<noteq> [] \<Longrightarrow> replacement rule \<noteq> [] \<Longrightarrow> replace_all rule prev s \<noteq> []"
  by (cases s) (auto simp: Let_def split: option.splits)

lemma replace_bearer_text:
  assumes "rule \<in> set (butlast DEFAULT_RULES)" "body \<noteq> []" "\<forall>c\<in>set body. \<not> is_space c"
  shows "\<exists>body'. replace_all rule None (bearer_text @ body) = bearer_text @ body' \<and> body' \<noteq> [] \<and> (\<forall>c\<in>set body'. \<not> is_space c)"
proof -
  have kinds: "rule \<in> set TOKEN_RULES \<or> rule = DEFAULT_RULES ! 0"
    using assms(1) by (auto simp: TOKEN_RULES_def DEFAULT_RULES_def)
  have no_match: "rmatch (rule_pattern rule) p (c # s) = None" if "c \<in> set bearer_text" for c p s
    using kinds
  proof
    assume "rule \<in> set TOKEN_RULES"
    moreover have "\<not> starts_token (c # s)" using that by (auto simp: starts_token_def)
    ultimately show ?thesis by (rule token_no_match)
  next
    assume rule: "rule = DEFAULT_RULES ! 0"
    have "\<forall>c\<in>set bearer_text. lower_char c \<noteq> quote_char" by code_simp
    then have "lower_char c \<noteq> quote_char" using that by blast
    then have "candidates (Words (map key_text SECRET_KEY_WORDS)) p (c # s) = []"
      by (simp add: quoted_def to_lower_def quote_char_kind(3) filter_empty_conv)
    then have "rmatch (Words (map key_text SECRET_KEY_WORDS) # Many is_space 0 # drop_part rule) p (c # s) = None"
      by (simp del: candidates.simps)
    then show ?thesis unfolding rule
      by (simp only: DEFAULT_RULES_def nth_Cons_0 redaction_rule.simps append_Cons append_Nil)
  qed
  have "\<forall>c\<in>set DEFAULT_REPLACEMENT. \<not> is_space c" by code_simp
  then have repl: "replacement rule \<noteq> []" "\<forall>c\<in>set (replacement rule). \<not> is_space c"
    using kinds token_rule_shape(2) [of rule] quote_char_kind(2)
    by (auto simp: DEFAULT_RULES_def quoted_def DEFAULT_REPLACEMENT_def)
  obtain p where "replace_all rule None (bearer_text @ body) = bearer_text @ replace_all rule p body"
    using replace_all_through [of bearer_text rule None body] no_match by blast
  moreover have "\<forall>c\<in>set (replace_all rule p body). \<not> is_space c"
    using replace_all_set [of rule p body] repl(2) assms(3) by blast
  ultimately show ?thesis using replace_all_nonempty [OF assms(2) repl(1), of p] by blast
qed

lemma fold_bearer_text:
  assumes "set rules \<subseteq> set (butlast DEFAULT_RULES)" "body \<noteq> []" "\<forall>c\<in>set body. \<not> is_space c"
  shows "\<exists>body'. foldl (\<lambda>u rule. replace_all rule None u) (bearer_text @ body) rules = bearer_text @ body' \<and> body' \<noteq> [] \<and> (\<forall>c\<in>set body'. \<not> is_space c)"
  using assms
proof (induction rules arbitrary: body)
  case (Cons rule rules)
  obtain body' where "replace_all rule None (bearer_text @ body) = bearer_text @ body'" "body' \<noteq> []" "\<forall>c\<in>set body'. \<not> is_space c"
    using replace_bearer_text [of rule body] Cons.prems by auto
  then show ?case using Cons.IH [of body'] Cons.prems(1) by (simp del: append_Cons)
qed auto

lemma redact_bearer_text:
  assumes "body \<noteq> []" "\<forall>c\<in>set body. \<not> is_space c"
  shows "redact (bearer_text @ body) = bearer_text @ DEFAULT_REPLACEMENT"
proof -
  obtain body' where body': "foldl (\<lambda>u rule. replace_all rule None u) (bearer_text @ body) (butlast DEFAULT_RULES) = bearer_text @ body'"
      "body' \<noteq> []" "\<forall>c\<in>set body'. \<not> is_space c"
    using fold_bearer_text [OF subset_refl assms] by blast
  obtain rule where rule: "rule = BEARER_RULE" by simp
  obtain init where init: "init = butlast DEFAULT_RULES" by simp
  have split: "DEFAULT_RULES = init @ [rule]" by (simp add: rule init BEARER_RULE_def DEFAULT_RULES_def)
  have "redact t = replace_all rule None (foldl (\<lambda>u rule. replace_all rule None u) t init)" for t
    unfolding redact_def split foldl_append foldl_Cons foldl_Nil by (rule refl)
  then have "redact (bearer_text @ body) = replace_all rule None (bearer_text @ body')"
    unfolding body'(1) [folded init, symmetric] .
  moreover obtain c cs where cons: "bearer_text @ body' = c # cs" by simp
  moreover have match: "rmatch (rule_pattern rule) None (c # cs) = Some [14, 1, 6, 1, length body']"
    using bearer_text_match [OF body'(2,3)] unfolding rule cons .
  have parts: "length (keep rule) = 4" "replacement rule = DEFAULT_REPLACEMENT" by (simp_all add: rule bearer_shape)
  have sums: "sum_list [14, 1, 6, 1, length body'] = length (c # cs)" "sum_list (take 4 [14, 1, 6, 1, length body']) = 22"
    unfolding cons [symmetric] by simp_all
  have "replace_all rule None (c # cs) = take 22 (c # cs) @ DEFAULT_REPLACEMENT
      @ replace_all rule (char_before None (c # cs) (length (c # cs))) (drop (length (c # cs)) (c # cs))"
    using replace_all_match [OF match, unfolded sums parts] by simp
  moreover have "replace_all rule p (drop (length (c # cs)) (c # cs)) = []" for p by simp
  moreover have "take 22 (c # cs) = bearer_text" unfolding cons [symmetric] by simp
  ultimately show ?thesis by (simp only: append_Nil2)
qed

section \<open>Redacted values\<close>

text \<open>
  The part of a value a path of indices leads to, with the name of the object entry that holds it
  (\<open>None\<close> at the top and inside an array).
\<close>

fun entry_at :: "string option \<Rightarrow> json \<Rightarrow> nat list \<Rightarrow> (string option \<times> json) option" where
  "entry_at name v [] = Some (name, v)"
| "entry_at name (JArr xs) (i # path) = (if i < length xs then entry_at None (xs ! i) path else None)"
| "entry_at name (JObj es) (i # path) =
     (if i < length es then entry_at (Some (fst (es ! i))) (snd (es ! i)) path else None)"
| "entry_at name _ (i # path) = None"

definition secret_name :: "string option \<Rightarrow> bool" where
  "secret_name name = (case name of None \<Rightarrow> False | Some key \<Rightarrow> to_lower key \<in> set SECRET_FIELD_NAMES)"

definition redact_named :: "string option \<Rightarrow> json \<Rightarrow> json" where
  "redact_named name v =
     (case v of JStr s \<Rightarrow> JStr (if secret_name name then DEFAULT_REPLACEMENT else redact s) | _ \<Rightarrow> redactObject v)"

lemma redactItems_map: "redactItems xs = map (redact_named None) xs"
  by (induction xs) (auto simp: redactItems.simps redact_named_def secret_name_def redactObject.simps split: json.splits)

lemma redactEntries_map: "redactEntries es = map (\<lambda>(key, v). (key, redact_named (Some key) v)) es"
  by (induction es) (auto simp: redactEntries.simps redact_named_def secret_name_def redactObject.simps split: json.splits)

lemma redactObject_named: "redactObject v = redact_named None v"
  by (cases v) (simp_all add: redact_named_def secret_name_def redactObject.simps)

lemma entry_at_redacted:
  "entry_at name (redact_named name v) path = map_option (\<lambda>(n, w). (n, redact_named n w)) (entry_at name v path)"
proof (induction path arbitrary: name v)
  case (Cons i path)
  show ?case
  proof (cases v)
    case (JArr xs)
    then show ?thesis using Cons.IH [of None] by (simp add: redact_named_def [of name] redactObject.simps redactItems_map)
  next
    case (JObj es)
    then show ?thesis
      using Cons.IH by (simp add: redact_named_def [of name] redactObject.simps redactEntries_map case_prod_beta)
  qed (simp_all add: redact_named_def redactObject.simps)
qed simp

end
