(* ===== verification/EdgeFacts.thy ===== *)
theory EdgeFacts
  imports FeatureFacts RedactionFacts
begin

text \<open>
  The foundations seen from outside: what the transition matrices allow, what the redactor leaves,
  and which emitted events the inbox would accept.
\<close>

section \<open>Matrices\<close>

text \<open>
  The validator accepts exactly the edges of the feature matrix, answering with the one row that
  has the edge, and refuses any other pair with the two states' names; the listed successors are
  the edges' targets, each once, never the state itself.
\<close>

theorem feature_validator_exact:
  "(assertValid FEATURE_EXECUTION_MATRIX fe_str name a b = Inr row
      \<longleftrightarrow> row \<in> set FEATURE_EXECUTION_MATRIX \<and> edge_of row = (a, b))
   \<and> (assertValid FEATURE_EXECUTION_MATRIX fe_str name a b = Inl err
      \<longleftrightarrow> err = (fe_str a, fe_str b, name) \<and> (a, b) \<notin> edges FEATURE_EXECUTION_MATRIX)
   \<and> set (validNextStates FEATURE_EXECUTION_MATRIX a) = {b. (a, b) \<in> edges FEATURE_EXECUTION_MATRIX}
   \<and> distinct (validNextStates FEATURE_EXECUTION_MATRIX a) \<and> a \<notin> set (validNextStates FEATURE_EXECUTION_MATRIX a)"
proof -
  have "assertValid FEATURE_EXECUTION_MATRIX fe_str name a b = Inl err
      \<longleftrightarrow> err = (fe_str a, fe_str b, name) \<and> (a, b) \<notin> edges FEATURE_EXECUTION_MATRIX"
    using isValid_iff_edge [of FEATURE_EXECUTION_MATRIX a b]
    by (auto simp: assertValid_def isValid_def split: option.splits)
  then show ?thesis
    by (simp add: feature_execution.assertValid_exact set_validNextStates
        feature_execution.distinct_validNextStates feature_execution.no_self_edge)
qed

lemma terminal_star: "(\<And>b. (a, b) \<notin> R) \<Longrightarrow> (a, c) \<in> R\<^sup>* \<longleftrightarrow> a = c"
  by (auto elim: converse_rtranclE)

lemma initial_star: "(\<And>a. (a, c) \<notin> R) \<Longrightarrow> (a, c) \<in> R\<^sup>* \<longleftrightarrow> a = c"
  by (auto elim: rtranclE)

text \<open>
  The life of a run: only merged and skipped runs are stuck, every run that is not skipped can
  still be merged, and the two failure states cannot be entered from any other.
\<close>

theorem feature_lifecycle:
  "((\<forall>b. (a, b) \<notin> edges FEATURE_EXECUTION_MATRIX) \<longleftrightarrow> a = FE_MERGED \<or> a = FE_SKIPPED)
   \<and> ((a, FE_MERGED) \<in> (edges FEATURE_EXECUTION_MATRIX)\<^sup>* \<longleftrightarrow> a \<noteq> FE_SKIPPED)
   \<and> ((a, FE_FAILED) \<in> (edges FEATURE_EXECUTION_MATRIX)\<^sup>* \<longleftrightarrow> a = FE_FAILED)
   \<and> ((a, FE_SYSTEM_FAILED) \<in> (edges FEATURE_EXECUTION_MATRIX)\<^sup>* \<longleftrightarrow> a = FE_SYSTEM_FAILED)"
proof -
  have "a = FE_MERGED \<or> a = FE_SKIPPED \<or> (\<exists>b. (a, b) \<in> fe_edges)"
    by (cases a) (simp_all add: fe_edges_eq, blast+)
  then show ?thesis
    using can_reach_merged [of a] terminal_star [OF skipped_terminal, of FE_MERGED]
      initial_star [OF failure_states_unreachable(1), of a] initial_star [OF failure_states_unreachable(2), of a]
      merged_terminal skipped_terminal
    by (auto simp: fe_edges_def [symmetric])
qed

section \<open>Redaction\<close>

lemma redact_clean_text: "scanForSecrets input = [] \<Longrightarrow> redact input = input"
proof -
  assume "scanForSecrets input = []"
  then have quiet: "\<not> rule_hits rule None input" if "(i, rule) \<in> set (enumerate 0 DEFAULT_RULES)" for i rule
    using that by (force simp: scanForSecrets_def filter_empty_conv)
  have "\<not> rule_hits rule None input" if "rule \<in> set DEFAULT_RULES" for rule
  proof -
    have "rule \<in> snd ` set (enumerate 0 DEFAULT_RULES)"
      using that by (metis map_snd_enumerate set_map)
    then show ?thesis using quiet by auto
  qed
  then show ?thesis unfolding redact_def by (intro fold_no_hits)
qed

text \<open>
  C26. Redaction at every depth, by the path to a part of the value: the redacted value has a
  part exactly where the value has one, under the same name; a string under a secret name is the
  replacement text there, any other string is its redacted text, an array keeps its length, an
  object its keys in their order, and every other scalar its value. No string is left under a
  secret name. A text the scanner finds nothing in is unchanged; in a redacted text the scanner
  finds no GitHub token, \<open>sk-\<close> key or GitLab token (at most the two rules that keep a
  label, 0 and 4, match again); and behind those two labels, a quoted secret word with its colon
  and \<open>Authorization: Bearer\<close>, the secret is masked whatever it is.
\<close>

theorem redaction_safe:
  "\<not> leaks (redactObject v)
   \<and> (case entry_at None v path of
        None \<Rightarrow> entry_at None (redactObject v) path = None
      | Some (name, JStr s) \<Rightarrow>
          entry_at None (redactObject v) path
          = Some (name, JStr (if secret_name name then DEFAULT_REPLACEMENT else redact s))
      | Some (name, JArr xs) \<Rightarrow>
          (\<exists>ys. entry_at None (redactObject v) path = Some (name, JArr ys) \<and> length ys = length xs)
      | Some (name, JObj es) \<Rightarrow>
          (\<exists>fs. entry_at None (redactObject v) path = Some (name, JObj fs) \<and> map fst fs = map fst es)
      | Some (name, scalar) \<Rightarrow> entry_at None (redactObject v) path = Some (name, scalar))
   \<and> (scanForSecrets s = [] \<longrightarrow> redact s = s)
   \<and> set (scanForSecrets (redact s)) \<subseteq> {0, 4}
   \<and> (key \<in> set SECRET_KEY_WORDS \<and> quote_char \<notin> set body
        \<longrightarrow> redact (Redaction.quoted key @ '':'' @ Redaction.quoted body) = Redaction.quoted key @ '':'' @ Redaction.quoted DEFAULT_REPLACEMENT)
   \<and> (body \<noteq> [] \<and> (\<forall>c\<in>set body. \<not> is_space c)
        \<longrightarrow> redact (''Authorization: Bearer '' @ body) = ''Authorization: Bearer '' @ DEFAULT_REPLACEMENT)"
proof -
  have "entry_at None (redactObject v) path
      = (case entry_at None v path of None \<Rightarrow> None | Some (name, w) \<Rightarrow> Some (name, redact_named name w))"
    using entry_at_redacted [of None v path] by (simp add: redactObject_named split: option.splits)
  moreover have "redact_named name (JArr xs) = JArr (redactItems xs)" "redact_named name (JObj es) = JObj (redactEntries es)"
      "redact_named name (JStr t) = JStr (if secret_name name then DEFAULT_REPLACEMENT else redact t)"
      "redact_named name JNull = JNull" "redact_named name (JBool b) = JBool b" "redact_named name (JNum n) = JNum n"
    for name xs es t b n
    by (simp_all add: redact_named_def redactObject.simps)
  ultimately show ?thesis
    using no_leaks_after_redaction(1) [of v] redact_clean_text [of s] redacted_scan [of s] redact_quoted_secret [of key body]
      redact_bearer_text [of body]
    by (simp add: length_redactItems map_fst_redactEntries split: option.splits json.splits)
qed

theorem redaction_safe_witness:
  "(let v = JObj [(''id'', JNum 7), (''auth'', JArr [JNull, JObj [(''apiKey'', JStr ''x''), (''note'', JStr ''y'')]])]
    in entry_at None (redactObject v) [0] = Some (Some ''id'', JNum 7)
       \<and> entry_at None (redactObject v) [1, 1, 0] = Some (Some ''apiKey'', JStr ''[REDACTED]'')
       \<and> entry_at None (redactObject v) [1, 1, 1] = Some (Some ''note'', JStr ''y''))
   \<and> redact (Redaction.quoted ''apiKey'' @ '':'' @ Redaction.quoted ''x'') = Redaction.quoted ''apiKey'' @ '':'' @ Redaction.quoted ''[REDACTED]''
   \<and> redact ''Authorization: Bearer abc'' = ''Authorization: Bearer [REDACTED]''"
proof -
  obtain v where v: "v = JObj [(''id'', JNum 7), (''auth'', JArr [JNull, JObj [(''apiKey'', JStr ''x''), (''note'', JStr ''y'')]])]" by simp
  have clean: "scanForSecrets ''y'' = []" by code_simp
  have names: "secret_name (Some ''apiKey'')" "\<not> secret_name (Some ''note'')" by code_simp+
  have paths: "entry_at None v [0] = Some (Some ''id'', JNum 7)"
      "entry_at None v [1, 1, 0] = Some (Some ''apiKey'', JStr ''x'')"
      "entry_at None v [1, 1, 1] = Some (Some ''note'', JStr ''y'')"
    by (simp_all add: v)
  have word: "''apiKey'' \<in> set SECRET_KEY_WORDS" "quote_char \<notin> set ''x''"
      "\<forall>c\<in>set ''abc''. \<not> is_space c" by code_simp+
  show ?thesis
    using redaction_safe [of v "[0]"] redaction_safe [of v "[1, 1, 0]"] redaction_safe [of v "[1, 1, 1]" "''y''" "''apiKey''" "''x''"]
      redaction_safe [of v _ _ _ "''abc''"] word
    unfolding v [symmetric] Let_def paths by (simp add: names clean DEFAULT_REPLACEMENT_def)
qed

section \<open>Events\<close>

lemma schema_needs_fields:
  assumes "schema_admits schema (JObj es)" "(name, kind) \<in> set schema"
  shows "name \<in> fst ` set es"
proof -
  obtain v where "map_of es name = Some v"
    using assms by (fastforce simp: schema_admits_def list_all_iff split: option.splits)
  then show ?thesis by (force dest: map_of_SomeD)
qed

text \<open>
  The event of a budget breach is not one the inbox accepts: whenever \<open>RecordBudgetExceededCommand\<close>
  runs and succeeds, the event it publishes fails its own schema, which demands a \<open>reason\<close>.
\<close>

theorem budget_event_rejected:
  assumes "execute RecordBudgetExceededHandler e s = (Inr res, t)" "fresh_key RecordBudgetExceededHandler e s"
  shows "q_event_type (last (outbox_events t)) = ''automation.budget_exceeded''
     \<and> length (outbox_events t) = length (outbox_events s) + 1
     \<and> \<not> validateEventPayload ''automation.budget_exceeded'' (q_payload (last (outbox_events t)))" (is "?Q t")
proof -
  have bad: "\<not> validateEventPayload ''automation.budget_exceeded''
      (redactObject (JObj [(''projectId'', JStr a), (''breachedPolicyId'', JStr b), (''currentSpend'', JNum c), (''hardLimit'', JNum d)]))" for a b c d
  proof
    let ?es = "[(''projectId'', JStr a), (''breachedPolicyId'', JStr b), (''currentSpend'', JNum c), (''hardLimit'', JNum d)]"
    assume "validateEventPayload ''automation.budget_exceeded'' (redactObject (JObj ?es))"
    then have "schema_admits AutomationPausedPayloadSchema (JObj (redactEntries ?es))"
      by (simp add: validateEventPayload_def EVENT_SCHEMAS_def redactObject.simps)
    then have "''reason'' \<in> fst ` set (redactEntries ?es)"
      by (rule schema_needs_fields) (simp add: AutomationPausedPayloadSchema_def)
    moreover have "fst ` set (redactEntries ?es) = set (map fst ?es)"
      by (metis map_fst_redactEntries set_map)
    ultimately show False by simp
  qed
  show ?thesis
  proof (rule fresh_success [OF assms, where Q = "\<lambda>_. ?Q" and body = RecordBudgetExceeded_body])
    fix s1 assume "same_tables s s1"
    then show "wp (RecordBudgetExceeded_body e) (\<lambda>a t1. \<forall>u. same_tables t1 u \<longrightarrow> ?Q u) (\<lambda>_. True) s1"
      using bad by (auto simp: RecordBudgetExceeded_body_def wp_run same_tables_simps cas_automation_def split: option.splits)
  qed (simp add: RecordBudgetExceededHandler_def)
qed

theorem budget_event_rejected_witness:
  "\<exists>res t. execute RecordBudgetExceededHandler
       (sample_envelope ADMIN SystemKind ''k'' \<lparr>pp_projectId = ''p1'', pp_expectedVersion = 1, be_breachedPolicyId = ''b1'',
          be_currentSpend = 120, be_hardLimit = 100, be_featureRunId = None\<rparr>)
       (sample_store [] (sample_ws None AU_RUNNING)) = (Inr res, t)
     \<and> \<not> validateEventPayload ''automation.budget_exceeded'' (q_payload (last (outbox_events t)))"
proof -
  let ?e = "sample_envelope ADMIN SystemKind ''k'' \<lparr>pp_projectId = ''p1'', pp_expectedVersion = 1, be_breachedPolicyId = ''b1'',
          be_currentSpend = 120, be_hardLimit = 100, be_featureRunId = None\<rparr>"
  let ?s = "sample_store [] (sample_ws None AU_RUNNING)"
  have "\<exists>res t. execute RecordBudgetExceededHandler ?e ?s = (Inr res, t)"
    by (simp add: run_simps RecordBudgetExceededHandler_def RecordBudgetExceeded_body_def cas_automation_def ws_at_version_def)
  then obtain res t where run: "execute RecordBudgetExceededHandler ?e ?s = (Inr res, t)" by blast
  have "fresh_key RecordBudgetExceededHandler ?e ?s"
    by (simp add: fresh_key_def idempotency_slot_def run_simps)
  from budget_event_rejected [OF run this] run show ?thesis by blast
qed

section \<open>The execution lane\<close>

text \<open>Every command that works on a run's branch asks for the lane.\<close>

lemma wp_trivial: "wp m (\<lambda>_ _. True) (\<lambda>_. True) s"
  by (simp add: wp_def split: sum.splits)

lemma lane_required:
  assumes "execute h e s = (Inr res, t)" "fresh_key h e s"
    "(h, body) \<in> {(StartCodingHandler, StartCoding_body), (StartFixingHandler, StartFixing_body)}"
  shows "lane_held e (p_projectId (payload e)) s"
proof (rule fresh_success [OF assms(1,2), where Q = "\<lambda>_ _. lane_held e (p_projectId (payload e)) s" and body = body])
  fix s1 assume s1: "same_tables s s1"
  have "wp (StartCoding_body e) (\<lambda>a t1. \<forall>u. same_tables t1 u \<longrightarrow> lane_held e (p_projectId (payload e)) s) (\<lambda>_. True) s1"
    "wp (StartFixing_body e) (\<lambda>a t1. \<forall>u. same_tables t1 u \<longrightarrow> lane_held e (p_projectId (payload e)) s) (\<lambda>_. True) s1"
    using s1 by (auto simp: StartCoding_body_def StartFixing_body_def wp_run same_tables_simps split: option.splits)
  then show "wp (body e) (\<lambda>a t1. \<forall>u. same_tables t1 u \<longrightarrow> lane_held e (p_projectId (payload e)) s) (\<lambda>_. True) s1"
    using assms(3) by auto
qed (use assms(3) in \<open>auto simp: StartCodingHandler_def StartFixingHandler_def\<close>)

lemma push_needs_lane:
  assumes "execute RecordCodePushedHandler e s = (Inr res, t)" "fresh_key RecordCodePushedHandler e s"
  shows "lane_held e (p_projectId (payload e)) s"
proof (rule fresh_success [OF assms, where Q = "\<lambda>_ _. lane_held e (p_projectId (payload e)) s" and body = RecordCodePushed_body])
  fix s1 assume "same_tables s s1"
  then show "wp (RecordCodePushed_body e) (\<lambda>a t1. \<forall>u. same_tables t1 u \<longrightarrow> lane_held e (p_projectId (payload e)) s) (\<lambda>_. True) s1"
    unfolding RecordCodePushed_body_def Let_def bind_requireExecutionLane
    by (simp add: same_tables_simps wp_trivial)
qed (simp add: RecordCodePushedHandler_def)

end
