(* ===== verification/QueueFacts.thy ===== *)
theory QueueFacts
  imports Samples
begin

text \<open>
  Locks and pollers: who gets a lock and whose fence still holds, what the sweeper removes, how the
  pollers retry, choose and settle events, and that a lost claim has no effect.
\<close>

section \<open>Locks\<close>

lemma acquire_run:
  "acquire p k opts s = transaction (acquire_body p k opts (''lock-'' @ claim_id s)) (s\<lparr>draws := draws s + 1\<rparr>)"
  by (simp add: acquire_def bindA_def lock_generateId_eq)

text \<open>
  A lock that another holder has and that has not expired is refused: the caller gets a
  conflict that names the caller (the error's parameter is the current holder), and no lock row changes.
\<close>

theorem acquire_conflict:
  assumes "wf_locks s" "l \<in> set (workflow_locks s)" "wl_project_id l = p" "wl_resource_key l = k"
    "wl_holder_id l \<noteq> lo_holderId opts" "\<forall>e. wl_expires_at l = Some e \<longrightarrow> clock s < e"
  shows "acquire p k opts s = (Inl (LockConflictError k (lo_holderId opts)), s\<lparr>draws := draws s + 1\<rparr>)"
proof -
  let ?s = "s\<lparr>draws := draws s + 1\<rparr>"
  have "\<not> claimable p k (lo_holderId opts) (clock s) l'" if "l' \<in> set (workflow_locks s)" for l'
  proof
    assume c: "claimable p k (lo_holderId opts) (clock s) l'"
    then have "l' = l" using lock_for_unique [OF assms(1,2) that, of p k] assms(3,4)
      by (simp add: claimable_def lock_for_def)
    with c assms(5,6) show False by (fastforce simp: claimable_def split: option.splits)
  qed
  then have none: "count_where (claimable p k (lo_holderId opts) (clock s)) (workflow_locks s) = 0" by simp
  have taken: "(p, k) \<in> (\<lambda>l. (wl_project_id l, wl_resource_key l)) ` set (workflow_locks s)"
    using assms(2-4) by force
  show ?thesis
    using none taken count_where_zero_update [OF none]
    by (simp add: acquire_run transaction_def acquire_body_unfold Let_def insertOnConflictT_def new_lock_def)
qed

theorem acquire_conflict_witness:
  "acquire ''p1'' ''execution-lane:p1'' \<lparr>lo_ttlMs = 500, lo_holderId = ''other''\<rparr> (sample_store [] (sample_ws None AU_RUNNING)) =
     (Inl (LockConflictError ''execution-lane:p1'' ''other''), (sample_store [] (sample_ws None AU_RUNNING))\<lparr>draws := 1\<rparr>)"
  using acquire_conflict [of "sample_store [] (sample_ws None AU_RUNNING)" sample_lane "''p1''" "''execution-lane:p1''"
      "\<lparr>lo_ttlMs = 500, lo_holderId = ''other''\<rparr>"]
  by (simp add: sample_store_def sample_lane_def wf_locks_def)

lemma acquire_success:
  assumes "acquire p k opts s = (Inr lock, t)" "wf_locks s"
  obtains l where "l \<in> set (workflow_locks t)" "lock_for p k l" "wl_id l = al_lockId lock" "wl_fence l = al_fence lock"
    "wl_holder_id l = lo_holderId opts" "wl_expires_at l = Some (clock s + lo_ttlMs opts)" "al_holderId lock = lo_holderId opts"
    "wf_locks t" "\<And>l0. l0 \<in> set (workflow_locks s) \<Longrightarrow> lock_for p k l0 \<Longrightarrow> wl_id l0 = al_lockId lock \<and> wl_fence l0 < al_fence lock"
proof -
  let ?s = "s\<lparr>draws := draws s + 1\<rparr>"
  have wf: "wf_locks ?s" using assms(2) by (simp add: wf_locks_def)
  have body: "acquire_body p k opts (''lock-'' @ claim_id s) ?s = Inr (lock, t)"
    using assms(1) by (simp add: acquire_run transaction_Inr)
  have "locks_advance ?s t"
    using locks.keepsD [OF acquire_body_advances, of p k opts "''lock-'' @ claim_id s" ?s] body by (simp add: wp_def)
  then have t: "wf_locks t" using wf by (simp add: locks_advance_def)
  from body wf show thesis
  proof (cases rule: acquire_body_cases)
    case (takeover l)
    let ?g = "grant (lo_holderId opts) (clock s + lo_ttlMs opts) (clock s) l"
    have g: "?g \<in> set (workflow_locks t)" using takeover(1,3,4) by (auto simp: set_update_where)
    have old: "l0 = l" if "l0 \<in> set (workflow_locks s)" "lock_for p k l0" for l0
      using lock_for_unique [OF wf takeover(1) _ takeover(2) that(2)] that(1) by simp
    show thesis
    proof (rule that [OF g])
      show "wl_id l0 = al_lockId lock \<and> wl_fence l0 < al_fence lock"
        if "l0 \<in> set (workflow_locks s)" "lock_for p k l0" for l0
        using old [OF that] takeover(5) by simp
    qed (use takeover(2,5) t in \<open>simp_all add: grant_def lock_for_def\<close>)
  next
    case create
    with t show thesis
      by (intro that [of "new_lock (''lock-'' @ claim_id s) p k (lo_holderId opts) (clock s + lo_ttlMs opts) (clock s)"])
        (auto simp: new_lock_def lock_for_def)
  qed
qed

lemma later_lock:
  assumes "locks_advance s t" "wf_locks s" "l \<in> set (workflow_locks s)" "lock_for p k l"
  obtains l' where "l' \<in> set (workflow_locks t)" "lock_for p k l'" "wl_id l' = wl_id l" "wl_fence l \<le> wl_fence l'"
    "lock_by_id (wl_id l) t = Some l'"
proof -
  obtain l' where l': "l' \<in> set (workflow_locks t)" "lock_later l l'"
    using assms(1-3) by (auto simp: locks_advance_def)
  have d: "distinct (map wl_id (workflow_locks t))" using assms(1,2) by (simp add: locks_advance_def wf_locks_def)
  have "lock_by_id (wl_id l) t = Some l'"
    unfolding lock_by_id_def
    using l' d by (intro first_row_unique) (auto simp: lock_later_def intro: distinct_map_unique)
  with l' assms(4) show thesis by (intro that [of l']) (auto simp: lock_later_def lock_for_def)
qed

lemma fence_taken_over:
  assumes "wf_locks s" "acquire p k o1 s = (Inr l1, s1)" "locks_advance s1 s2"
    "acquire p k o2 s2 = (Inr l2, s3)" "locks_advance s3 t"
  shows "al_lockId l2 = al_lockId l1" "al_fence l1 < al_fence l2"
    "\<exists>err. assertFence l1 t = Inl err" "lc_lockId ctx = al_lockId l1 \<Longrightarrow> lc_fence ctx = al_fence l1 \<Longrightarrow> \<not> fence_held ctx t"
proof -
  obtain r1 where r1: "r1 \<in> set (workflow_locks s1)" "lock_for p k r1" "wl_id r1 = al_lockId l1"
      "wl_fence r1 = al_fence l1" "wf_locks s1"
    using acquire_success [OF assms(2,1)] by metis
  obtain r2 where r2: "r2 \<in> set (workflow_locks s2)" "lock_for p k r2" "wl_id r2 = wl_id r1" "wl_fence r1 \<le> wl_fence r2"
    using later_lock [OF assms(3) r1(5,1,2)] by metis
  have wf2: "wf_locks s2" using assms(3) r1(5) by (simp add: locks_advance_def)
  obtain r3 where r3: "r3 \<in> set (workflow_locks s3)" "lock_for p k r3" "wl_id r3 = al_lockId l2"
      "wl_fence r3 = al_fence l2" "wf_locks s3" "wl_id r2 = al_lockId l2 \<and> wl_fence r2 < al_fence l2"
    using acquire_success [OF assms(4) wf2] r2(1,2) by metis
  then show "al_lockId l2 = al_lockId l1" "al_fence l1 < al_fence l2" using r1 r2 by simp_all
  obtain r4 where r4: "wl_fence r3 \<le> wl_fence r4" "lock_by_id (al_lockId l1) t = Some r4"
    using later_lock [OF assms(5) r3(5,1,2)] r3(3,6) r2(3) r1(3) by metis
  have "al_fence l1 < wl_fence r4" using r4 r3 r2 r1 by simp
  with r4(2) show "\<exists>err. assertFence l1 t = Inl err" "lc_lockId ctx = al_lockId l1 \<Longrightarrow> lc_fence ctx = al_fence l1 \<Longrightarrow> \<not> fence_held ctx t"
    by (auto simp: assertFence_def bindT_def queryT_def throwT_def fence_held_def split: option.splits)
qed

text \<open>
  The sweeper removes exactly the idempotency keys that have expired, and reports how many.
\<close>

theorem sweep_exact:
  "sweep s =
     (Inr (int (length (idempotency_keys s)) - int (length (filter (\<lambda>r. clock s < ik_expires_at r) (idempotency_keys s)))),
      s\<lparr>idempotency_keys := filter (\<lambda>r. clock s < ik_expires_at r) (idempotency_keys s)\<rparr>)"
proof -
  have "length (filter (\<lambda>r. ik_expires_at r \<le> clock s) rows) + length (filter (\<lambda>r. clock s < ik_expires_at r) rows) = length rows" for rows
    by (induction rows) auto
  from this [of "idempotency_keys s"] show ?thesis
    by (simp add: sweep_def transaction_def bindT_def queryT_def executeAffectedT_def count_where_def
        delete_where_def [abs_def] not_le)
qed

section \<open>Retries and batches\<close>

lemma backoff_power:
  "1 \<le> n \<Longrightarrow> deterministicBackoff n b m = min (b * 2 ^ nat (n - 1)) m"
  by (simp add: deterministicBackoff_def)

text \<open>
  The backoff stays between nothing and its maximum, never shrinks from one attempt to the
  next, and doubles until the maximum cuts it off.
\<close>

theorem backoff_bounds:
  assumes "0 \<le> baseMs" "0 \<le> maxMs"
  shows "0 \<le> deterministicBackoff n baseMs maxMs \<and> deterministicBackoff n baseMs maxMs \<le> maxMs
     \<and> deterministicBackoff n baseMs maxMs \<le> deterministicBackoff (n + 1) baseMs maxMs
     \<and> (1 \<le> n \<longrightarrow> deterministicBackoff (n + 1) baseMs maxMs = min (2 * deterministicBackoff n baseMs maxMs) maxMs)"
proof (cases "1 \<le> n")
  case True
  let ?x = "baseMs * 2 ^ nat (n - 1)"
  have "nat n = Suc (nat (n - 1))" using True by simp
  then have step: "deterministicBackoff (n + 1) baseMs maxMs = min (2 * ?x) maxMs"
    using True by (simp add: backoff_power)
  have "0 \<le> ?x" using assms(1) by simp
  with assms(2) show ?thesis unfolding step backoff_power [OF True] by (simp add: min_def)
next
  case False
  then show ?thesis using assms by (simp add: deterministicBackoff_def)
qed

theorem backoff_bounds_witness:
  "deterministicBackoff 3 1000 60000 = 4000 \<and> deterministicBackoff 3 1000 60000 \<le> 60000"
  using backoff_bounds [of 1000 60000 3] by (simp add: deterministicBackoff_def numeral_2_eq_2)

lemma length_select_due: "0 \<le> n \<Longrightarrow> int (length (select_due options now wanted n rows)) \<le> n"
  by (simp add: select_due_def limited_def)

lemma select_due_all:
  assumes "int (length (select_due options now wanted n rows)) < n" "r \<in> set rows" "due options now r" "wanted r"
  shows "r \<in> set (select_due options now wanted n rows)"
proof -
  let ?o = "order_by created_before (filter (\<lambda>r. due options now r \<and> wanted r) rows)"
  have "0 \<le> n" using assms(1) by linarith
  with assms(1) have "select_due options now wanted n rows = ?o"
    by (simp add: select_due_def limited_def min_def split: if_splits)
  with assms(2-4) show ?thesis by simp
qed

text \<open>
  A batch respects its size, holds only events that are due, each at most once, and never holds
  an event without a handler while a due event that has one is left out: backlogged unknown
  types cannot starve the known ones.
\<close>

theorem batch_fair:
  assumes "distinct (map q_id rows)" "0 \<le> batchSize options" "known \<noteq> []"
  shows "int (length (select_batch options now known rows)) \<le> batchSize options
     \<and> set (select_batch options now known rows) \<subseteq> {r \<in> set rows. due options now r}
     \<and> distinct (map q_id (select_batch options now known rows))
     \<and> ((\<exists>u \<in> set (select_batch options now known rows). q_event_type u \<notin> set known) \<longrightarrow>
          (\<forall>r \<in> set rows. due options now r \<and> q_event_type r \<in> set known \<longrightarrow>
             r \<in> set (select_batch options now known rows)))"
proof -
  let ?k = "select_due options now (\<lambda>r. q_event_type r \<in> set known) (batchSize options) rows"
  have b: "select_batch options now known rows =
      ?k @ (if batchSize options - int (length ?k) > 0
            then select_due options now (\<lambda>r. q_event_type r \<notin> set known) (batchSize options - int (length ?k)) rows else [])"
    using assms(3) by (simp add: select_batch_def Let_def)
  have "int (length (select_batch options now known rows)) \<le> batchSize options"
    using length_select_due [OF assms(2), of options now "\<lambda>r. q_event_type r \<in> set known" rows]
      length_select_due [of "batchSize options - int (length ?k)" options now "\<lambda>r. q_event_type r \<notin> set known" rows]
    unfolding b by simp
  moreover have "r \<in> set (select_batch options now known rows)"
    if "u \<in> set (select_batch options now known rows)" "q_event_type u \<notin> set known"
      "r \<in> set rows" "due options now r" "q_event_type r \<in> set known" for u r
  proof -
    have "int (length ?k) < batchSize options"
      using that(1,2) select_due_member(3) [of u options now "\<lambda>r. q_event_type r \<in> set known"]
      unfolding b by (auto split: if_splits)
    from select_due_all [OF this that(3,4)] that(5) show ?thesis unfolding b by simp
  qed
  ultimately show ?thesis
    using select_batch_due distinct_select_batch [OF assms(1)] by blast
qed

definition sample_event :: "string \<Rightarrow> string \<Rightarrow> int \<Rightarrow> queue_row" where
  "sample_event i ty created =
     \<lparr>q_id = i, q_event_type = ty, q_payload = JObj [], q_payload_schema_version = ''1.0.0'', q_status = EV_PENDING,
      q_attempts = 0, q_next_retry_at = None, q_version = 1, q_created_at = created, q_updated_at = created\<rparr>"

theorem batch_fair_witness:
  "let rows = [sample_event ''e1'' ''old'' 1, sample_event ''e2'' ''old'' 2, sample_event ''e3'' ''feature.merged'' 3]
   in map q_id (select_batch (DEFAULT_OPTIONS\<lparr>batchSize := 2\<rparr>) 10 [''feature.merged''] rows) = [''e3'', ''e1'']
    \<and> length (select_batch (DEFAULT_OPTIONS\<lparr>batchSize := 2\<rparr>) 10 [''feature.merged''] rows) \<le> 2"
  using batch_fair [of "[sample_event ''e1'' ''old'' 1, sample_event ''e2'' ''old'' 2, sample_event ''e3'' ''feature.merged'' 3]"
      "DEFAULT_OPTIONS\<lparr>batchSize := 2\<rparr>" "[''feature.merged'']" 10]
  by (simp add: select_batch_def select_due_def sample_event_def DEFAULT_OPTIONS_def due_def open_event_def order_by_def
      created_before_def limited_def)

section \<open>Polling\<close>

lemma outbox_finals [simp]: "event_final EV_DELIVERED" "event_final EV_PROCESSED"
  by (simp_all add: event_final_def)

text \<open>
  A dispatch whose handlers leave the outbox alone and all succeed (or all throw) settles every
  event it selected and touches no other: an event with a handler is delivered (or marked failed
  with one more attempt), one without a handler is put back, its attempts unchanged; the counts
  it reports are the numbers of each.
\<close>

theorem dispatch_settles:
  assumes "quiet_handlers outbox_table throws handlers" "distinct (map q_id (outbox_events s))"
  shows "\<exists>res t. pollAndDispatch options handlers s = (res, t)
     \<and> (let ready = recover_stale outbox_table options s;
            chosen = selected_rows outbox_table options handlers ready;
            handled = count_where (\<lambda>row. map_of handlers (q_event_type row) \<noteq> None) chosen
        in done_count res = (if throws then 0 else handled) \<and> failed_count res = (if throws then handled else 0)
         \<and> (\<forall>row \<in> set chosen. \<exists>r \<in> set (outbox_events t). q_id r = q_id row \<and> q_version r = q_version row + 2
              \<and> (case map_of handlers (q_event_type row) of
                    None \<Rightarrow> q_status r = EV_PENDING \<and> q_attempts r = q_attempts row
                  | Some _ \<Rightarrow> if throws then q_status r = EV_FAILED \<and> q_attempts r = q_attempts row + 1
                               else q_status r = EV_DELIVERED \<and> q_attempts r = q_attempts row))
         \<and> (\<forall>r. q_id r \<notin> q_id ` set chosen \<longrightarrow>
              (r \<in> set (outbox_events t) \<longleftrightarrow> r \<in> set (outbox_events ready))))"
proof -
  let ?adm = "\<lambda>eventType pay schemaVersion. True"
  let ?out = "outcome EV_DELIVERED ?adm handlers throws :: queue_row \<Rightarrow> EventStatus"
  let ?ready = "recover_stale outbox_table options s"
  let ?chosen = "selected_rows outbox_table options handlers ?ready"
  obtain res t where rt: "pollAndDispatch options handlers s = (res, t)"
      "done_count res = count_where (\<lambda>row. ?out row = EV_DELIVERED) ?chosen"
      "failed_count res = count_where (\<lambda>row. ?out row = EV_FAILED) ?chosen"
      "\<And>row. row \<in> set ?chosen \<Longrightarrow> \<exists>r \<in> set (fst outbox_table t). settled (?out row) row r"
      "\<And>r. q_id r \<notin> q_id ` set ?chosen \<Longrightarrow> r \<in> set (fst outbox_table t) \<longleftrightarrow> r \<in> set (fst outbox_table ?ready)"
    using outbox_queue.poll_quiet [of throws handlers EV_DELIVERED s ?adm options thesis] assms
    by (auto simp: pollAndDispatch_def outbox_table_def)
  have counts: "count_where (\<lambda>row. ?out row = EV_DELIVERED) ?chosen =
      (if throws then 0 else count_where (\<lambda>row. map_of handlers (q_event_type row) \<noteq> None) ?chosen)"
    "count_where (\<lambda>row. ?out row = EV_FAILED) ?chosen =
      (if throws then count_where (\<lambda>row. map_of handlers (q_event_type row) \<noteq> None) ?chosen else 0)"
    by (auto simp: outcome_def count_where_def)
  have frame: "r \<in> set (outbox_events t) \<longleftrightarrow> r \<in> set (outbox_events ?ready)" if "q_id r \<notin> q_id ` set ?chosen" for r
    using rt(5) [OF that] by (simp add: outbox_table_def)
  have ends: "\<exists>r \<in> set (outbox_events t). q_id r = q_id row \<and> q_version r = q_version row + 2
      \<and> (case map_of handlers (q_event_type row) of
            None \<Rightarrow> q_status r = EV_PENDING \<and> q_attempts r = q_attempts row
          | Some _ \<Rightarrow> if throws then q_status r = EV_FAILED \<and> q_attempts r = q_attempts row + 1
                       else q_status r = EV_DELIVERED \<and> q_attempts r = q_attempts row)"
    if sel: "row \<in> set ?chosen" for row
  proof -
    obtain r where "r \<in> set (outbox_events t)" "settled (?out row) row r"
      using rt(4) [OF sel] by (auto simp: outbox_table_def)
    then show ?thesis
      by (intro bexI [of _ r]) (auto simp: settled_def outcome_def split: option.splits)
  qed
  show ?thesis
    unfolding Let_def using ends frame
    by (intro exI [of _ res] exI [of _ t] conjI ballI allI impI) (simp_all add: rt(1-3) counts)
qed

definition done_handler :: event_handler where
  "done_handler pay ver s = \<lparr>hr_intervals = [(\<lambda>s. s\<lparr>clock := clock s + 100\<rparr>, True)], hr_rest = (\<lambda>s. s), hr_throws = False\<rparr>"

definition outbox_store :: "queue_row list \<Rightarrow> store" where
  "outbox_store rows = (sample_store [] (sample_ws None AU_RUNNING))\<lparr>outbox_events := rows\<rparr>"

theorem dispatch_settles_witness:
  "\<exists>res t. pollAndDispatch DEFAULT_OPTIONS [(''feature.merged'', done_handler)]
       (outbox_store [sample_event ''e1'' ''old'' 1, sample_event ''e2'' ''feature.merged'' 2]) = (res, t)
     \<and> done_count res = 1 \<and> failed_count res = 0
     \<and> (\<exists>r \<in> set (outbox_events t). q_id r = ''e2'' \<and> q_status r = EV_DELIVERED)"
proof -
  let ?s = "outbox_store [sample_event ''e1'' ''old'' 1, sample_event ''e2'' ''feature.merged'' 2]"
  let ?h = "[(''feature.merged'', done_handler)]"
  have ready: "recover_stale outbox_table DEFAULT_OPTIONS ?s = ?s"
    by (simp add: recover_stale_def update_rows_def outbox_table_def stale_def sample_event_def outbox_store_def)
  have chosen: "selected_rows outbox_table DEFAULT_OPTIONS ?h ?s =
      [sample_event ''e2'' ''feature.merged'' 2, sample_event ''e1'' ''old'' 1]"
    by (simp add: selected_rows_def select_batch_def select_due_def sample_event_def DEFAULT_OPTIONS_def due_def
        open_event_def order_by_def created_before_def limited_def outbox_table_def outbox_store_def sample_store_def)
  have "quiet_handlers outbox_table False ?h" "distinct (map q_id (outbox_events ?s))"
    by (simp_all add: quiet_handlers_def quiet_run_def done_handler_def outbox_table_def sample_event_def outbox_store_def)
  from dispatch_settles [OF this, of DEFAULT_OPTIONS, unfolded Let_def ready chosen]
  obtain res t where rt: "pollAndDispatch DEFAULT_OPTIONS ?h ?s = (res, t)" "done_count res = 1" "failed_count res = 0"
      "\<exists>r \<in> set (outbox_events t). q_id r = ''e2'' \<and> q_status r = EV_DELIVERED"
    by (auto simp: count_where_def sample_event_def)
  then show ?thesis by blast
qed

section \<open>Claims\<close>

text \<open>
  A claim is exclusive: once some poller has claimed an event again, no statement of the first
  claim finds the row, whatever happened before and after, so the first poller can neither renew
  its claim nor record a delivery or a failure.
\<close>

theorem lost_claim_is_powerless:
  assumes "wf_queue bound (outbox_events s)"
    "update_rows outbox_table (claimable_event i v) (claim_event now) s = (n, s1)" "n \<noteq> 0"
    "queue_advances outbox_table bound s1 s2"
    "update_rows outbox_table (claimable_event i w) (claim_event now') s2 = (m, s3)" "m \<noteq> 0"
    "queue_advances outbox_table bound s3 t"
  shows "update_rows outbox_table (renewable i (v + 1)) (renew_claim x) t = (0, t)
     \<and> update_rows outbox_table (event_at i (v + 1)) (mark_done EV_DELIVERED x) t = (0, t)
     \<and> update_rows outbox_table (event_at i (v + 1)) (mark_failed a y x) t = (0, t)"
proof -
  have wf: "wf_queue bound (fst outbox_table s)" using assms(1) by (simp add: outbox_table_def)
  have none: "update_rows outbox_table p f t = (0, t)" if "fst (update_rows outbox_table p f t) = 0" for p f
    using that by (simp add: update_rows_def outbox_table_def update_where_none)
  show ?thesis
    using outbox_queue.lost_claim [OF wf assms(2-7)] by (intro conjI none)
qed

theorem lost_claim_is_powerless_witness:
  "\<exists>s1 s3. update_rows outbox_table (claimable_event ''e1'' 1) (claim_event 5) (outbox_store [sample_event ''e1'' ''old'' 1]) = (1, s1)
     \<and> update_rows outbox_table (claimable_event ''e1'' 3) (claim_event 900) (snd (update_rows outbox_table (stale 500) (reset_claim 600) s1)) = (1, s3)
     \<and> update_rows outbox_table (event_at ''e1'' 2) (mark_done EV_DELIVERED 950) s3 = (0, s3)"
proof -
  let ?s = "outbox_store [sample_event ''e1'' ''old'' 1]"
  let ?s1 = "snd (update_rows outbox_table (claimable_event ''e1'' 1) (claim_event 5) ?s)"
  let ?s2 = "snd (update_rows outbox_table (stale 500) (reset_claim 600) ?s1)"
  let ?s3 = "snd (update_rows outbox_table (claimable_event ''e1'' 3) (claim_event 900) ?s2)"
  have one: "update_rows outbox_table (claimable_event ''e1'' 1) (claim_event 5) ?s = (1, ?s1)"
    "update_rows outbox_table (claimable_event ''e1'' 3) (claim_event 900) ?s2 = (1, ?s3)"
    by (simp_all add: update_rows_def outbox_table_def outbox_store_def sample_event_def claimable_event_def open_event_def
        claim_event_def stale_def reset_claim_def count_where_def)
  have "wf_queue 5 (outbox_events ?s)" by (simp add: wf_queue_def outbox_store_def sample_event_def)
  moreover have "queue_advances outbox_table 5 ?s1 ?s2"
    by (rule outbox_queue.update_advances)
      (auto simp: stale_def reset_claim_def event_later_def event_final_def wf_queue_def)
  ultimately have "update_rows outbox_table (event_at ''e1'' (1 + 1)) (mark_done EV_DELIVERED 950) ?s3 = (0, ?s3)"
    using lost_claim_is_powerless [OF _ one(1) _ _ one(2) _ outbox_queue.advances_refl, where bound = 5 and x = 950] by simp
  then show ?thesis using one by (intro exI [of _ ?s1] exI [of _ ?s3]) simp
qed

end
