(* ===== verification/SystemFacts.thy ===== *)
theory SystemFacts
  imports GateFacts AutomationFacts EdgeFacts QueueFacts
begin

text \<open>
  What the system-wide properties of the root theory rest on: who asks for a request and under
  which key, replay of a finished request, and what a failed one leaves.
\<close>

section \<open>Who asks, and under which key\<close>

record request_meta =
  rq_actor :: actor_identity
  rq_key :: string
  rq_scope :: string
  rq_role :: UserRole
  rq_kind :: "actor_kind option"

definition meta :: "'p handler \<Rightarrow> 'p envelope \<Rightarrow> request_meta" where
  "meta h e =
     \<lparr>rq_actor = env_actor e, rq_key = idempotencyKey e, rq_scope = idempotencyScope h, rq_role = requiredRole h,
      rq_kind = requiredActorKind h\<rparr>"

fun request_meta_of :: "request \<Rightarrow> request_meta" where
  "request_meta_of (SelectFeature e) = meta SelectFeatureHandler e"
| "request_meta_of (StartCoding e) = meta StartCodingHandler e"
| "request_meta_of (StartFixing e) = meta StartFixingHandler e"
| "request_meta_of (RecordCodePushed e) = meta RecordCodePushedHandler e"
| "request_meta_of (EscalateToHuman e) = meta EscalateToHumanHandler e"
| "request_meta_of (ResumeFeatureExecution e) = meta ResumeFeatureExecutionHandler e"
| "request_meta_of (ResolveDisagreement e) = meta ResolveDisagreementHandler e"
| "request_meta_of (RetryFeature e) = meta RetryFeatureHandler e"
| "request_meta_of (SkipFeature e) = meta SkipFeatureHandler e"
| "request_meta_of (BlockFeature e) = meta BlockFeatureHandler e"
| "request_meta_of (UnblockFeature e) = meta UnblockFeatureHandler e"
| "request_meta_of (HumanUnblockFeature e) = meta HumanUnblockFeatureHandler e"
| "request_meta_of (RecordPrOpened e) = meta RecordPrOpenedHandler e"
| "request_meta_of (RecordCiRunning e) = meta RecordCiRunningHandler e"
| "request_meta_of (RecordCiPassed e) = meta RecordCiPassedHandler e"
| "request_meta_of (RecordCiFailed e) = meta RecordCiFailedHandler e"
| "request_meta_of (RecordChangesRequested e) = meta RecordChangesRequestedHandler e"
| "request_meta_of (RequestChangesAfterCiFail e) = meta RequestChangesAfterCiFailHandler e"
| "request_meta_of (RecordApprovedByPolicy e) = meta RecordApprovedByPolicyHandler e"
| "request_meta_of (MergeIfReady e) = meta MergeIfReadyHandler e"
| "request_meta_of (RecordMerged e) = meta RecordMergedHandler e"
| "request_meta_of (RecordMergeFailed e) = meta RecordMergeFailedHandler e"
| "request_meta_of (ReconcileMergeFailed e) = meta ReconcileMergeFailedHandler e"
| "request_meta_of (PauseAutomation e) = meta PauseAutomationHandler e"
| "request_meta_of (ResumeAutomation e) = meta ResumeAutomationHandler e"
| "request_meta_of (RecordBudgetExceeded e) = meta RecordBudgetExceededHandler e"
| "request_meta_of (RecordBudgetApprovalWaiting e) = meta RecordBudgetApprovalWaitingHandler e"
| "request_meta_of (ApproveBudgetOverride e) = meta ApproveBudgetOverrideHandler e"

lemma execute_authorised:
  assumes "execute h e s = (Inr res, t)"
  shows "requiredRole h \<le> actor_role (env_actor e)" "\<forall>k. requiredActorKind h = Some k \<longrightarrow> actorKind (env_actor e) = k"
proof -
  have "assertRole (env_actor e) (requiredRole h) (commandName h) (requiredActorKind h) = Inr ()"
    using assms by (cases rule: execute_cases) auto
  then show "requiredRole h \<le> actor_role (env_actor e)" "\<forall>k. requiredActorKind h = Some k \<longrightarrow> actorKind (env_actor e) = k"
    by (auto simp: assertRole_ok)
qed

lemma request_authorised:
  assumes "run_request q s = (Inr res, t)"
  shows "rq_role (request_meta_of q) \<le> actor_role (rq_actor (request_meta_of q))"
    "\<forall>k. rq_kind (request_meta_of q) = Some k \<longrightarrow> actorKind (rq_actor (request_meta_of q)) = k"
  using assms by (cases q; auto simp: meta_def dest: execute_authorised)+

lemma request_roles:
  "OPERATOR \<le> rq_role (request_meta_of q)" "rq_kind (request_meta_of q) \<noteq> None"
  by (cases q; simp add: meta_def handler_defs less_eq_UserRole_def)+

section \<open>Replay\<close>

lemma claimed_handlers:
  "handler_execute SelectFeatureHandler = claimed_transaction (idempotencyScope SelectFeatureHandler) SelectFeature_body"
  "handler_execute StartCodingHandler = claimed_transaction (idempotencyScope StartCodingHandler) StartCoding_body"
  "handler_execute StartFixingHandler = claimed_transaction (idempotencyScope StartFixingHandler) StartFixing_body"
  "handler_execute RecordCodePushedHandler = claimed_transaction (idempotencyScope RecordCodePushedHandler) RecordCodePushed_body"
  "handler_execute EscalateToHumanHandler = claimed_transaction (idempotencyScope EscalateToHumanHandler) EscalateToHuman_body"
  "handler_execute ResumeFeatureExecutionHandler = claimed_transaction (idempotencyScope ResumeFeatureExecutionHandler) ResumeFeatureExecution_body"
  "handler_execute ResolveDisagreementHandler = claimed_transaction (idempotencyScope ResolveDisagreementHandler) ResolveDisagreement_body"
  "handler_execute RetryFeatureHandler = claimed_transaction (idempotencyScope RetryFeatureHandler) RetryFeature_body"
  "handler_execute SkipFeatureHandler = claimed_transaction (idempotencyScope SkipFeatureHandler) SkipFeature_body"
  "handler_execute BlockFeatureHandler = claimed_transaction (idempotencyScope BlockFeatureHandler) BlockFeature_body"
  "handler_execute UnblockFeatureHandler = claimed_transaction (idempotencyScope UnblockFeatureHandler) UnblockFeature_body"
  "handler_execute HumanUnblockFeatureHandler = claimed_transaction (idempotencyScope HumanUnblockFeatureHandler) HumanUnblockFeature_body"
  "handler_execute RecordPrOpenedHandler = claimed_transaction (idempotencyScope RecordPrOpenedHandler) RecordPrOpened_body"
  "handler_execute RecordCiRunningHandler = claimed_transaction (idempotencyScope RecordCiRunningHandler) RecordCiRunning_body"
  "handler_execute RecordCiPassedHandler = claimed_transaction (idempotencyScope RecordCiPassedHandler) RecordCiPassed_body"
  "handler_execute RecordCiFailedHandler = claimed_transaction (idempotencyScope RecordCiFailedHandler) RecordCiFailed_body"
  "handler_execute RecordChangesRequestedHandler = claimed_transaction (idempotencyScope RecordChangesRequestedHandler) RecordChangesRequested_body"
  "handler_execute RequestChangesAfterCiFailHandler = claimed_transaction (idempotencyScope RequestChangesAfterCiFailHandler) RequestChangesAfterCiFail_body"
  "handler_execute RecordMergedHandler = claimed_transaction (idempotencyScope RecordMergedHandler) RecordMerged_body"
  "handler_execute RecordMergeFailedHandler = claimed_transaction (idempotencyScope RecordMergeFailedHandler) RecordMergeFailed_body"
  "handler_execute ReconcileMergeFailedHandler = claimed_transaction (idempotencyScope ReconcileMergeFailedHandler) ReconcileMergeFailed_body"
  "handler_execute PauseAutomationHandler = claimed_transaction (idempotencyScope PauseAutomationHandler) PauseAutomation_body"
  "handler_execute ResumeAutomationHandler = claimed_transaction (idempotencyScope ResumeAutomationHandler) ResumeAutomation_body"
  "handler_execute RecordBudgetExceededHandler = claimed_transaction (idempotencyScope RecordBudgetExceededHandler) RecordBudgetExceeded_body"
  "handler_execute RecordBudgetApprovalWaitingHandler = claimed_transaction (idempotencyScope RecordBudgetApprovalWaitingHandler) RecordBudgetApprovalWaiting_body"
  "handler_execute ApproveBudgetOverrideHandler = claimed_transaction (idempotencyScope ApproveBudgetOverrideHandler) ApproveBudgetOverride_body"
  by (simp_all add: handler_defs)

lemma gated_handler_execute:
  "handler_execute RecordApprovedByPolicyHandler =
     gated_execute FE_APPROVED_BY_POLICY ''feature.approved_by_policy'' (idempotencyScope RecordApprovedByPolicyHandler)"
  "handler_execute MergeIfReadyHandler =
     gated_execute FE_MERGE_READY ''feature.merge_ready'' (idempotencyScope MergeIfReadyHandler)"
  by (simp_all add: handler_defs)

lemma request_replays:
  assumes "checkIdempotencyKey (rq_key (request_meta_of q)) (rq_scope (request_meta_of q)) s = Some res"
    "rq_role (request_meta_of q) \<le> actor_role (rq_actor (request_meta_of q))"
    "rq_kind (request_meta_of q) = Some (actorKind (rq_actor (request_meta_of q)))"
  shows "run_request q s = (Inr res, s)"
  using assms by (cases q) (simp_all add: meta_def execute_replays assertRole_ok)

lemma gated_success_slot:
  assumes "handler_execute h = gated_execute to_s ty (idempotencyScope h)" "wf_slots s"
    "checkIdempotencyKey (idempotencyKey e) (idempotencyScope h) s = None" "execute h e s = (Inr res, t)"
  shows "\<exists>r \<in> set (idempotency_keys t). ik_key r = idempotencyKey e \<and> ik_scope r = idempotencyScope h
           \<and> ik_result r = Some res \<and> ik_expires_at r = clock s + IDEMPOTENCY_TTL_MS"
proof -
  have "gated_execute to_s ty (idempotencyScope h) e s = (Inr res, t)"
    using assms(4,3,1) by (cases rule: execute_cases) auto
  then obtain ev t0 where ev: "transaction (gate_phase e) s = (Inr ev, t0)"
      "claimed_transaction (idempotencyScope h) (gated_transition to_s ty (mr_evaluationId ev)) e t0 = (Inr res, t)"
    by (auto simp: gated_execute_def bindA_def throwA_def split: sum.splits prod.splits if_splits)
  from ev(1) obtain r0 where "find_run (p_featureRunId (payload e)) (p_projectId (payload e)) s = Some r0"
      "claim_id s \<notin> mg_id ` set (merge_gate_evaluations s)"
    by (rule gate_phase_fails)
  from gate_phase_run [OF this] ev(1) have t0: "clock t0 = clock s" "idempotency_keys t0 = idempotency_keys s"
    by (auto simp: gate_recorded_def)
  define h' :: "run_payload handler" where
    "h' = h\<lparr>handler_execute := claimed_transaction (idempotencyScope h) (gated_transition to_s ty (mr_evaluationId ev))\<rparr>"
  have "execute h' e t0 = (Inr res, t)"
    using ev(2) assms(3,4) t0
    by (auto simp: h'_def execute_def checkIdempotencyKey_def bindA_def queryA_def throwA_def split: sum.splits option.splits)
  then show ?thesis
    using fresh_success_slot [of h' IDEMPOTENCY_TTL_MS "gated_transition to_s ty (mr_evaluationId ev)" t0 e res t] assms(2,3) t0
    by (simp add: h'_def frame_keeps_body gated_transition_evolves wf_slots_def checkIdempotencyKey_def)
qed

lemmas success_slots = claimed_handlers [THEN fresh_success_slot] gated_handler_execute [THEN gated_success_slot]

lemma request_slot:
  assumes "run_request q s = (Inr res, t)" "wf_slots s"
    "checkIdempotencyKey (rq_key (request_meta_of q)) (rq_scope (request_meta_of q)) s = None"
  shows "\<exists>r \<in> set (idempotency_keys t). ik_key r = rq_key (request_meta_of q) \<and> ik_scope r = rq_scope (request_meta_of q)
           \<and> ik_result r = Some res \<and> ik_expires_at r = clock s + IDEMPOTENCY_TTL_MS"
  using assms by (cases q) (simp_all add: meta_def success_slots frame_keeps_body bodies_evolve)

lemma request_replayed_later:
  assumes "run_request q s = (Inr res, t)" "wf_slots s"
    "checkIdempotencyKey (rq_key (request_meta_of q)) (rq_scope (request_meta_of q)) s = None"
    "slots_kept t u" "clock u < clock s + IDEMPOTENCY_TTL_MS"
  shows "checkIdempotencyKey (rq_key (request_meta_of q)) (rq_scope (request_meta_of q)) u = Some res"
proof -
  obtain r where r: "r \<in> set (idempotency_keys t)" "ik_key r = rq_key (request_meta_of q)"
      "ik_scope r = rq_scope (request_meta_of q)" "ik_result r = Some res"
      "ik_expires_at r = clock s + IDEMPOTENCY_TTL_MS"
    using request_slot [OF assms(1-3)] by blast
  have "wf_slots t"
    using request_slots [of q] assms(1,2) by (fastforce simp: slots.keepsA_def slots_kept_def)
  then have "wf_slots u" "r \<in> set (idempotency_keys u)"
    using assms(4,5) r(1,5) by (auto simp: slots_kept_def)
  from unique_slot [OF this] r assms(5) show ?thesis by simp
qed

section \<open>What a failed request leaves\<close>

lemma claimed_failure:
  assumes "execute h e s = (Inl err, t)" "handler_execute h = claimed_transaction (idempotencyScope h) body"
  shows "t = s"
  using assms(2,1) by (rule claimed_error_unchanged)

lemmas claimed_failures = claimed_handlers [THEN [2] claimed_failure]

lemma gated_failure:
  assumes "execute h e s = (Inl err, t)" "handler_execute h = gated_execute to_s ty (idempotencyScope h)"
  shows "t = s \<or> (\<exists>d row. t = s\<lparr>draws := d, merge_gate_evaluations := merge_gate_evaluations s @ [row]\<rparr>)"
  using assms(1)
proof (cases rule: execute_cases)
  case run
  obtain r0 t0 where ph: "transaction (gate_phase e) s = (r0, t0)" by fastforce
  show ?thesis
  proof (cases r0)
    case (Inl err')
    with ph run assms(2) show ?thesis by (auto simp: gated_execute_def bindA_def dest: transaction_rollback)
  next
    case (Inr ev)
    with ph have ev: "transaction (gate_phase e) s = (Inr ev, t0)" by simp
    from ev obtain r where "find_run (p_featureRunId (payload e)) (p_projectId (payload e)) s = Some r"
        "claim_id s \<notin> mg_id ` set (merge_gate_evaluations s)"
      by (rule gate_phase_fails)
    from gate_phase_run [OF this] ev
    have "t0 = gate_recorded (p_featureRunId (payload e)) (p_projectId (payload e)) (run_feature_request_id r) s"
      by auto
    moreover have "t = t0"
      using run(3) ev assms(2)
      by (auto simp: gated_execute_def bindA_def throwA_def claimed_transaction_ttl_def
          split: if_splits dest: transaction_rollback)
    ultimately show ?thesis by (cases s) (auto simp: gate_recorded_def)
  qed
qed auto

lemmas gated_failures = gated_handler_execute [THEN [2] gated_failure]

lemma request_failure:
  assumes "run_request q s = (Inl err, t)"
  shows "t = s \<or> (\<exists>d row. t = s\<lparr>draws := d, merge_gate_evaluations := merge_gate_evaluations s @ [row]\<rparr>
     \<and> (\<exists>e. q = MergeIfReady e \<or> q = RecordApprovedByPolicy e))"
  using assms by (cases q) (auto dest: claimed_failures gated_failures)

end
