(* ===== verification/Reconcile.thy ===== *)
theory Reconcile
  imports SystemFacts
begin

text \<open>
  \<open>packages/core/src/scm/reconcile.ts\<close>: what a webhook or the scheduled task does with a pull
  request it has fetched. One call mirrors the observed state, then takes up to
  \<open>MAX_RECONCILE_STEPS\<close> actions, each one command chosen by the run's state and the observation,
  then mirrors again. The observation is an argument; every command is the model's.

  The code casts between the state type and the strings the tables hold, so the current state of
  the loop is a string here.
\<close>

section \<open>Actions and arguments\<close>

datatype ReconciliationAction =
    RA_NONE | RA_PR_OPENED | RA_CI_RUNNING | RA_CI_PASSED | RA_CI_FAILED | RA_CHANGES_REQUESTED
  | RA_CHANGES_REQUESTED_AFTER_CI_FAIL | RA_FIXING_STARTED | RA_ESCALATED | RA_LOCK_REQUIRED

definition MAX_RECONCILE_STEPS :: nat where
  "MAX_RECONCILE_STEPS = 5"

record reconcile_options =
  ro_featureRunId :: string
  ro_projectId :: string
  ro_observed :: observed_pr
  ro_correlationId :: string
  ro_lockContext :: "lock_context option"

record reconcile_result =
  rr_action :: ReconciliationAction
  rr_actions :: "ReconciliationAction list"
  rr_resultingState :: "string option"

definition systemActor :: "string \<Rightarrow> actor_identity" where
  "systemActor correlation =
     \<lparr>actor_id = ''github-reconciliation'', actor_role = ADMIN, actorKind = SystemKind,
      actor_correlationId = correlation, displayName = None\<rparr>"

definition requiresExecutionLock :: "string \<Rightarrow> bool" where
  "requiresExecutionLock currentState =
     (currentState = fe_str FE_CODE_PUSHED \<or> currentState = fe_str FE_PR_OPENED
      \<or> currentState = fe_str FE_CHANGES_REQUESTED)"

text \<open>
  The envelopes of one pass: \<open>commandId: generateId()\<close>, a key, a payload, the system actor, and
  the lock context for the commands that need the lane. \<open>dispatch\<close> runs the command and names
  the action.
\<close>

definition ro_envelope :: "reconcile_options \<Rightarrow> string \<Rightarrow> string \<Rightarrow> lock_context option \<Rightarrow> 'p \<Rightarrow> 'p envelope" where
  "ro_envelope opts i key lock pay =
     \<lparr>commandId = i, idempotencyKey = key, payload = pay, env_actor = systemActor (ro_correlationId opts),
      correlationId = ro_correlationId opts, lockContext = lock\<rparr>"

type_synonym step_result = "(ReconciliationAction \<times> string option) option"

definition dispatch_command ::
    "reconcile_options \<Rightarrow> ReconciliationAction \<Rightarrow> 'p handler \<Rightarrow> string \<Rightarrow> lock_context option \<Rightarrow> 'p
      \<Rightarrow> step_result db_action" where
  "dispatch_command opts act h key lock pay =
     bindA (transaction generateId) (\<lambda>i.
     bindA (execute h (ro_envelope opts i key lock pay)) (\<lambda>result.
     returnA (Some (act, Some (res_resultingState result)))))"

text \<open>\<open>`${prefix}:${featureRunId}:${observed.prNumber}:${observed.headSha ?? 'nosha'}`\<close>.\<close>

definition occurrence_key :: "string \<Rightarrow> reconcile_options \<Rightarrow> string" where
  "occurrence_key pre opts =
     pre @ '':'' @ ro_featureRunId opts @ '':'' @ show_int (ob_prNumber (ro_observed opts)) @ '':''
       @ (case ob_headSha (ro_observed opts) of None \<Rightarrow> ''nosha'' | Some sha \<Rightarrow> sha)"

definition run_payload_of :: "reconcile_options \<Rightarrow> int \<Rightarrow> run_payload" where
  "run_payload_of opts expectedVersion =
     \<lparr>p_featureRunId = ro_featureRunId opts, p_projectId = ro_projectId opts, p_expectedVersion = expectedVersion\<rparr>"

definition check_payload_of :: "reconcile_options \<Rightarrow> int \<Rightarrow> check_payload" where
  "check_payload_of opts expectedVersion =
     \<lparr>p_featureRunId = ro_featureRunId opts, p_projectId = ro_projectId opts, p_expectedVersion = expectedVersion,
      ck_checkRunId = ''pr-'' @ show_int (ob_prNumber (ro_observed opts))\<rparr>"

section \<open>One step\<close>

definition escalate :: "reconcile_options \<Rightarrow> int \<Rightarrow> string \<Rightarrow> string \<Rightarrow> step_result db_action" where
  "escalate opts expectedVersion reason key =
     dispatch_command opts RA_ESCALATED EscalateToHumanHandler key None
       \<lparr>p_featureRunId = ro_featureRunId opts, p_projectId = ro_projectId opts, p_expectedVersion = expectedVersion,
        es_reason = reason, es_reviewerRunId = None, es_reviewCycle = None, es_findings = None\<rparr>"

definition fixAttemptCount :: "string \<Rightarrow> store \<Rightarrow> int" where
  "fixAttemptCount featureRunId s =
     (case first_row (filter (\<lambda>r. run_id r = featureRunId) (feature_runs s)) of
        None \<Rightarrow> 0
      | Some r \<Rightarrow> run_fix_attempt_count r)"

definition terminalStates :: "string list" where
  "terminalStates = map fe_str [FE_MERGED, FE_HUMAN_REQUIRED, FE_BLOCKED, FE_FAILED]"

definition irreconcilablyClosed :: "reconcile_options \<Rightarrow> string \<Rightarrow> bool" where
  "irreconcilablyClosed opts currentState =
     (ob_state (ro_observed opts) = ''closed'' \<and> ob_mergedAt (ro_observed opts) = None
      \<and> currentState \<notin> set terminalStates)"

definition record_pr_opened :: "reconcile_options \<Rightarrow> int \<Rightarrow> step_result db_action" where
  "record_pr_opened opts expectedVersion =
     (let observed = ro_observed opts in
      if ro_lockContext opts = None then returnA (Some (RA_LOCK_REQUIRED, None))
      else
        dispatch_command opts RA_PR_OPENED RecordPrOpenedHandler (occurrence_key ''record-pr-opened'' opts)
          (ro_lockContext opts)
          \<lparr>p_featureRunId = ro_featureRunId opts, p_projectId = ro_projectId opts, p_expectedVersion = expectedVersion,
           po_prNumber = ob_prNumber observed, po_branchName = ob_branchName observed,
           po_baseBranch = ob_baseBranch observed, po_headSha = ob_headSha observed\<rparr>)"

definition record_ci_running :: "reconcile_options \<Rightarrow> int \<Rightarrow> step_result db_action" where
  "record_ci_running opts expectedVersion =
     (if ro_lockContext opts = None then returnA (Some (RA_LOCK_REQUIRED, None))
      else
        dispatch_command opts RA_CI_RUNNING RecordCiRunningHandler (occurrence_key ''record-ci-running'' opts)
          (ro_lockContext opts) (check_payload_of opts expectedVersion))"

definition after_ci_failure :: "reconcile_options \<Rightarrow> int \<Rightarrow> step_result db_action" where
  "after_ci_failure opts expectedVersion =
     bindA (queryA (fixAttemptCount (ro_featureRunId opts))) (\<lambda>count.
     if count \<ge> FIX_ATTEMPT_THRESHOLD
     then
       escalate opts expectedVersion
         (''Fix-attempt threshold ('' @ show_int FIX_ATTEMPT_THRESHOLD @ '') reached after repeated CI failures'')
         (''escalate-human-ci-limit:'' @ ro_featureRunId opts)
     else
       dispatch_command opts RA_CHANGES_REQUESTED_AFTER_CI_FAIL RequestChangesAfterCiFailHandler
         (''changes-requested-after-ci:'' @ ro_featureRunId opts @ '':'' @ show_int expectedVersion) None
         (run_payload_of opts expectedVersion))"

definition after_review :: "reconcile_options \<Rightarrow> int \<Rightarrow> step_result db_action" where
  "after_review opts expectedVersion =
     bindA (queryA (fixAttemptCount (ro_featureRunId opts))) (\<lambda>count.
     if count \<ge> FIX_ATTEMPT_THRESHOLD
     then
       escalate opts expectedVersion
         (''Fix-attempt threshold ('' @ show_int FIX_ATTEMPT_THRESHOLD @ '') reached after repeated review cycles'')
         (''escalate-human-review:'' @ ro_featureRunId opts)
     else
       dispatch_command opts RA_CHANGES_REQUESTED RecordChangesRequestedHandler
         (occurrence_key ''changes-requested'' opts) None
         \<lparr>p_featureRunId = ro_featureRunId opts, p_projectId = ro_projectId opts, p_expectedVersion = expectedVersion,
          ch_reviewId = ''pr-'' @ show_int (ob_prNumber (ro_observed opts)) @ ''-review'',
          ch_reviewer = None, ch_reviewerRunId = None, ch_reviewCycle = None, ch_findings = None\<rparr>)"

definition runStep :: "reconcile_options \<Rightarrow> string \<Rightarrow> int \<Rightarrow> step_result db_action" where
  "runStep opts currentState expectedVersion =
     (let observed = ro_observed opts in
      if irreconcilablyClosed opts currentState
      then
        escalate opts expectedVersion
          (''The linked repository's PR #'' @ show_int (ob_prNumber observed)
             @ '' closed without merging while feature run was in state '' @ quoted currentState)
          (''escalate-human-github:'' @ ro_featureRunId opts)
      else if currentState = fe_str FE_CODE_PUSHED then record_pr_opened opts expectedVersion
      else if currentState = fe_str FE_PR_OPENED \<and> ob_ciStatus observed = ''running''
      then record_ci_running opts expectedVersion
      else if currentState = fe_str FE_PR_OPENED
        \<and> (ob_ciStatus observed = ''passed'' \<or> ob_ciStatus observed = ''failed'')
      then record_ci_running opts expectedVersion
      else if currentState = fe_str FE_CI_RUNNING \<and> ob_ciStatus observed = ''passed''
      then
        dispatch_command opts RA_CI_PASSED RecordCiPassedHandler (occurrence_key ''record-ci-passed'' opts) None
          (check_payload_of opts expectedVersion)
      else if currentState = fe_str FE_CI_RUNNING \<and> ob_ciStatus observed = ''failed''
      then
        dispatch_command opts RA_CI_FAILED RecordCiFailedHandler (occurrence_key ''record-ci-failed'' opts) None
          \<lparr>p_featureRunId = ro_featureRunId opts, p_projectId = ro_projectId opts, p_expectedVersion = expectedVersion,
           ck_checkRunId = ''pr-'' @ show_int (ob_prNumber observed), cf_reason = None\<rparr>
      else if currentState = fe_str FE_CI_FAILED then after_ci_failure opts expectedVersion
      else if currentState = fe_str FE_CHANGES_REQUESTED
      then
        (if ro_lockContext opts = None then returnA (Some (RA_LOCK_REQUIRED, None))
         else
           dispatch_command opts RA_FIXING_STARTED StartFixingHandler
             (''start-fixing:'' @ ro_featureRunId opts @ '':'' @ show_int expectedVersion) (ro_lockContext opts)
             (run_payload_of opts expectedVersion))
      else if currentState = fe_str FE_UNDER_REVIEW \<and> ob_reviewState observed = ''changes_requested''
      then after_review opts expectedVersion
      else returnA None)"

section \<open>The bounded loop and the whole call\<close>

fun reconcile_loop ::
    "nat \<Rightarrow> reconcile_options \<Rightarrow> string \<Rightarrow> int \<Rightarrow> ReconciliationAction list \<Rightarrow> string option
      \<Rightarrow> (ReconciliationAction list \<times> string option) db_action" where
  "reconcile_loop 0 opts currentState expectedVersion actions resulting = returnA (actions, resulting)"
| "reconcile_loop (Suc n) opts currentState expectedVersion actions resulting =
     bindA (runStep opts currentState expectedVersion) (\<lambda>stepResult.
     case stepResult of
       None \<Rightarrow> returnA (actions, resulting)
     | Some (act, state) \<Rightarrow>
         if act = RA_LOCK_REQUIRED then returnA (actions @ [act], resulting)
         else
           reconcile_loop n opts (case state of None \<Rightarrow> currentState | Some st \<Rightarrow> st)
             (nextVersion expectedVersion) (actions @ [act]) state)"

definition reconcileGithubState :: "reconcile_options \<Rightarrow> reconcile_result db_action" where
  "reconcileGithubState opts =
     bindA (queryA (find_run (ro_featureRunId opts) (ro_projectId opts))) (\<lambda>found.
     case found of
       None \<Rightarrow> throwA (OtherError (''reconcileGithubState: feature run '' @ ro_featureRunId opts
                  @ '' not found in project '' @ ro_projectId opts))
     | Some run \<Rightarrow>
         bindA (transaction (syncPullRequestObservedState (ro_featureRunId opts) (ro_observed opts))) (\<lambda>_.
         bindA (reconcile_loop MAX_RECONCILE_STEPS opts (fe_str (run_state run)) (run_version run) [] None)
           (\<lambda>(actions, resulting).
         bindA (transaction (syncPullRequestObservedState (ro_featureRunId opts) (ro_observed opts))) (\<lambda>_.
         returnA \<lparr>rr_action = (if actions \<noteq> [] then last actions else RA_NONE), rr_actions = actions,
                  rr_resultingState = resulting\<rparr>))))"

section \<open>A pass is a sequence of steps\<close>

definition stepwise :: "int \<Rightarrow> 'a db_action \<Rightarrow> bool" where
  "stepwise bound m = (\<forall>s. (system_step bound)\<^sup>*\<^sup>* s (snd (m s)))"

lemma stepwise_bind:
  assumes "stepwise bound m" "\<And>a. stepwise bound (k a)"
  shows "stepwise bound (bindA m k)"
  unfolding stepwise_def
proof
  fix s
  obtain r t where m: "m s = (r, t)" by fastforce
  with assms(1) have st: "(system_step bound)\<^sup>*\<^sup>* s t" by (metis snd_conv stepwise_def)
  have "(system_step bound)\<^sup>*\<^sup>* t (snd (k a t))" for a using assms(2) by (simp add: stepwise_def)
  with st m show "(system_step bound)\<^sup>*\<^sup>* s (snd (bindA m k s))"
    by (cases r) (auto simp: bindA_def intro: rtranclp_trans)
qed

lemma stepwise_leaf: "stepwise bound (returnA a)" "stepwise bound (throwA e)" "stepwise bound (queryA f)"
  by (simp_all add: stepwise_def returnA_def throwA_def queryA_def)

lemma stepwise_request: "stepwise bound (run_request q)"
  by (simp add: stepwise_def r_into_rtranclp system_step.command)

lemma stepwise_handlers:
  "stepwise bound (execute RecordPrOpenedHandler e1)" "stepwise bound (execute RecordCiRunningHandler e2)"
  "stepwise bound (execute RecordCiPassedHandler e3)" "stepwise bound (execute RecordCiFailedHandler e4)"
  "stepwise bound (execute RecordChangesRequestedHandler e5)"
  "stepwise bound (execute RequestChangesAfterCiFailHandler e6)"
  "stepwise bound (execute EscalateToHumanHandler e7)" "stepwise bound (execute StartFixingHandler e8)"
  using stepwise_request [of bound "RecordPrOpened e1"] stepwise_request [of bound "RecordCiRunning e2"]
    stepwise_request [of bound "RecordCiPassed e3"] stepwise_request [of bound "RecordCiFailed e4"]
    stepwise_request [of bound "RecordChangesRequested e5"] stepwise_request [of bound "RequestChangesAfterCiFail e6"]
    stepwise_request [of bound "EscalateToHuman e7"] stepwise_request [of bound "StartFixing e8"]
  by simp_all

lemma outside_draws_prs:
  "(system_step bound)\<^sup>*\<^sup>* s (s\<lparr>draws := d, pull_requests := prs\<rparr>)"
  using outside_part [where s = s and d = d and costs = "cost_records s" and prs = prs and ags = "agents s"] by (intro r_into_rtranclp) simp

lemma outside_draws: "(system_step bound)\<^sup>*\<^sup>* s (s\<lparr>draws := d\<rparr>)"
  using outside_draws_prs [where s = s and d = d and prs = "pull_requests s"] by simp

lemma outside_prs: "(system_step bound)\<^sup>*\<^sup>* s (pull_requests_update f s)"
  using outside_draws_prs [where s = s and d = "draws s" and prs = "f (pull_requests s)"] by (cases s) simp

lemma stepwise_generateId: "stepwise bound (transaction generateId)"
  using outside_draws by (simp add: stepwise_def transaction_def generateId_def)

lemma stepwise_sync: "stepwise bound (transaction (syncPullRequestObservedState i ob))"
  using outside_prs
  by (auto simp: stepwise_def transaction_def syncPullRequestObservedState_def bindT_def queryT_def executeT_def
      returnT_def split: option.split)

lemma stepwise_dispatch:
  assumes "\<And>e. stepwise bound (execute h e)"
  shows "stepwise bound (dispatch_command opts act h key lock pay)"
  unfolding dispatch_command_def by (intro stepwise_bind stepwise_generateId assms stepwise_leaf)

lemma stepwise_runStep: "stepwise bound (runStep opts st v)"
  unfolding runStep_def escalate_def record_pr_opened_def record_ci_running_def after_ci_failure_def
    after_review_def Let_def
  by (simp add: stepwise_dispatch stepwise_handlers stepwise_leaf stepwise_bind)

lemma stepwise_loop: "stepwise bound (reconcile_loop n opts st v actions res)"
  by (induction n arbitrary: st v actions res)
    (auto intro!: stepwise_bind stepwise_runStep stepwise_leaf split: option.split)

lemma stepwise_reconcile: "stepwise bound (reconcileGithubState opts)"
  unfolding reconcileGithubState_def
  by (auto intro!: stepwise_bind stepwise_sync stepwise_loop stepwise_leaf split: option.split)

end
