(* ===== verification/ReconcileFacts.thy ===== *)
theory ReconcileFacts
  imports Reconcile
begin

text \<open>
  What a reconciliation pass achieves: it never leaves the system's steps, it catches a run up with
  a pull request whose intermediate webhooks were missed, and where the keys it uses make it
  report an action that changed nothing.
\<close>

section \<open>A pass stays within the system\<close>

lemma dispatch_names_action:
  "dispatch_command opts act h key lock pay s = (Inr (Some (act', st)), t) \<Longrightarrow> act' = act"
  by (auto simp: dispatch_command_def bindA_Inr returnA_def)

lemma runStep_locked:
  assumes "runStep opts st v s = (Inr (Some (RA_LOCK_REQUIRED, st')), t)"
  shows "ro_lockContext opts = None"
  using assms
  by (auto simp: runStep_def Let_def escalate_def record_pr_opened_def record_ci_running_def after_ci_failure_def
      after_review_def bindA_Inr returnA_def queryA_def split: if_splits dest!: dispatch_names_action)

lemma loop_actions:
  assumes "reconcile_loop n opts st v actions res s = (Inr (actions', res'), t)"
  shows "length actions' \<le> length actions + n
     \<and> (ro_lockContext opts \<noteq> None \<longrightarrow> RA_LOCK_REQUIRED \<notin> set actions \<longrightarrow> RA_LOCK_REQUIRED \<notin> set actions')"
  using assms
proof (induction n arbitrary: st v actions res s)
  case 0
  then show ?case by (simp add: returnA_def)
next
  case (Suc n)
  then obtain step s1 where step: "runStep opts st v s = (Inr step, s1)"
      "(case step of None \<Rightarrow> returnA (actions, res)
        | Some (act, state) \<Rightarrow>
            if act = RA_LOCK_REQUIRED then returnA (actions @ [act], res)
            else reconcile_loop n opts (case state of None \<Rightarrow> st | Some st \<Rightarrow> st) (nextVersion v) (actions @ [act]) state) s1
        = (Inr (actions', res'), t)"
    by (auto simp: bindA_Inr)
  show ?case
  proof (cases step)
    case None
    with step(2) show ?thesis by (simp add: returnA_def)
  next
    case (Some p)
    then obtain act state where p: "step = Some (act, state)" by (cases p) auto
    show ?thesis
    proof (cases "act = RA_LOCK_REQUIRED")
      case True
      with step p runStep_locked show ?thesis by (auto simp: returnA_def)
    next
      case False
      with step(2) p have "reconcile_loop n opts (case state of None \<Rightarrow> st | Some st \<Rightarrow> st) (nextVersion v)
          (actions @ [act]) state s1 = (Inr (actions', res'), t)" by simp
      from Suc.IH [OF this] False show ?thesis by auto
    qed
  qed
qed

text \<open>
  C9. Reconciliation can do nothing the commands cannot: a pass, failed or not, is a sequence of the
  system's steps, so everything the steps keep it keeps; it takes at most five actions, and asks
  for a lock only when it was given none.
\<close>

theorem reconcile_is_steps:
  assumes "reconcileGithubState opts s = (r, t)"
  shows "(system_step bound)\<^sup>*\<^sup>* s t
     \<and> (\<forall>res. r = Inr res \<longrightarrow> length (rr_actions res) \<le> 5
          \<and> (ro_lockContext opts \<noteq> None \<longrightarrow> RA_LOCK_REQUIRED \<notin> set (rr_actions res)))"
proof -
  have "(system_step bound)\<^sup>*\<^sup>* s t"
    using stepwise_reconcile [of bound opts] assms by (metis stepwise_def snd_conv)
  moreover have "length (rr_actions res) \<le> 5 \<and> (ro_lockContext opts \<noteq> None \<longrightarrow> RA_LOCK_REQUIRED \<notin> set (rr_actions res))"
    if r: "r = Inr res" for res
  proof -
    obtain st v acts rs u w where "reconcile_loop MAX_RECONCILE_STEPS opts st v [] None u = (Inr (acts, rs), w)"
        "rr_actions res = acts"
      using assms unfolding r
      by (auto simp: reconcileGithubState_def bindA_Inr queryA_def returnA_def throwA_def split: option.splits)
    with loop_actions [OF this(1)] show ?thesis by (simp add: MAX_RECONCILE_STEPS_def)
  qed
  ultimately show ?thesis by blast
qed

section \<open>One dispatched command\<close>

text \<open>A command leaves the slots of every other scope as they are.\<close>

lemma other_scope_slots:
  assumes "execute h e s = (Inr res, t)" "handler_execute h = claimed_transaction (idempotencyScope h) body"
    "\<And>e. body.keeps (body e)" "sc \<noteq> idempotencyScope h"
  shows "idempotency_slot k sc t = idempotency_slot k sc s"
  using assms(1)
proof (cases rule: execute_cases)
  case run
  then have "with_claim (idempotencyKey e) (idempotencyScope h) (body e) s = Inr (res, t)"
    by (simp add: assms(2) claimed_transaction_ttl_def transaction_Inr)
  then show ?thesis
  proof (cases rule: with_claim_cases)
    case (replayed r)
    then show ?thesis
      using assms(4) by (auto simp: idempotency_slot_def claim_sweep_def delete_where_def intro!: arg_cong [where f = first_row] filter_cong)
  next
    case (fresh t1)
    have ev: "slot_frame (claim_insert (idempotencyKey e) (idempotencyScope h) IDEMPOTENCY_TTL_MS s) t1"
      using frame_keeps_body [OF assms(3)] fresh(3) by (rule keeps_slot_frame)
    have "idempotency_keys t = idempotency_keys (claim_sweep (idempotencyKey e) (idempotencyScope h) s)
        @ [done_row (idempotencyKey e) (idempotencyScope h) IDEMPOTENCY_TTL_MS res s]" "clock t = clock s"
      using fresh_slots [OF fresh(2) ev, of res] fresh(4) by simp_all
    then show ?thesis
      using assms(4)
      by (auto simp: idempotency_slot_def claim_sweep_def delete_where_def done_row_def fulfil_row_def claim_row_def
          intro!: arg_cong [where f = first_row] filter_cong)
  qed
qed auto

lemma wp_lane_ok: "lane_held e p s \<Longrightarrow> wp (requireExecutionLane name e p) Q E s = Q () s"
  by (auto simp: requireExecutionLane_def lane_held_def wp_simps wp_assertLockFence split: option.splits)

definition constraint_error :: "error \<Rightarrow> bool" where
  "constraint_error err = (\<exists>table. err = ConstraintViolation table)"

text \<open>
  What a pass may rely on from one action to the next: the run, its lane, and the slots of the other
  scopes.
\<close>

definition at_state :: "reconcile_options \<Rightarrow> FeatureExecutionState \<Rightarrow> int \<Rightarrow> store \<Rightarrow> bool" where
  "at_state opts st v s =
     (wf_store s
      \<and> (\<exists>r. find_run (ro_featureRunId opts) (ro_projectId opts) s = Some r \<and> run_state r = st \<and> run_version r = v))"

definition lane_open :: "reconcile_options \<Rightarrow> store \<Rightarrow> bool" where
  "lane_open opts s =
     (\<exists>ctx. ro_lockContext opts = Some ctx
        \<and> fence_held (ctx\<lparr>lc_projectId := Some (ro_projectId opts),
             lc_resourceKey := Some (''execution-lane:'' @ ro_projectId opts)\<rparr>) s)"

lemma at_state_draws [simp]: "at_state opts st v (s\<lparr>draws := d\<rparr>) = at_state opts st v s"
  by (simp add: at_state_def wf_store_def)

lemma envelope_fields [simp]:
  "payload (ro_envelope opts i key lock pay) = pay" "idempotencyKey (ro_envelope opts i key lock pay) = key"
  "env_actor (ro_envelope opts i key lock pay) = systemActor (ro_correlationId opts)"
  "lockContext (ro_envelope opts i key lock pay) = lock" "commandId (ro_envelope opts i key lock pay) = i"
  by (simp_all add: ro_envelope_def)

lemma wp_lane_envelope:
  assumes "lane_open opts s"
  shows "wp (requireExecutionLane name (ro_envelope opts i key (ro_lockContext opts) pay) (ro_projectId opts)) Q E s = Q () s"
  using assms by (intro wp_lane_ok) (auto simp: lane_open_def lane_held_def)

lemma lane_open_cong:
  "clock t = clock s \<Longrightarrow> workflow_locks t = workflow_locks s \<Longrightarrow> lane_open opts t = lane_open opts s"
  unfolding lane_open_def fence_held_def lock_by_id_def by (auto split: option.splits)

lemma lane_open_same_tables: "same_tables s t \<Longrightarrow> lane_open opts t = lane_open opts s"
  by (intro lane_open_cong) (simp_all add: same_tables_columns)

lemma lane_open_evolves: "evolves s t \<Longrightarrow> lane_open opts t = lane_open opts s"
  by (intro lane_open_cong) (simp_all add: evolves_def same_surroundings_def)

lemma draws_evolves: "evolves s (s\<lparr>draws := d\<rparr>)"
  by (auto simp: guarantee_defs wf_store_def rows_move_def list_all2_refl outbox_grows_def list_all_iff)

lemma dispatch_outcome:
  assumes "handler_execute h = claimed_transaction (idempotencyScope h) body" "\<And>e. body.keeps (body e)"
    "requiredActorKind h = Some SystemKind"
    "idempotency_slot key (idempotencyScope h) s = None"
    "\<And>i s1. same_tables s s1 \<Longrightarrow> wp (body (ro_envelope opts i key lock pay))
        (\<lambda>a t1. \<forall>u. same_tables t1 u \<longrightarrow> Q a u) constraint_error s1"
  shows "(\<exists>err t. dispatch_command opts act h key lock pay s = (Inl err, t) \<and> constraint_error err)
     \<or> (\<exists>res t. dispatch_command opts act h key lock pay s = (Inr (Some (act, Some (res_resultingState res))), t)
          \<and> Q res t \<and> evolves s t
          \<and> (\<forall>k sc. sc \<noteq> idempotencyScope h \<longrightarrow> idempotency_slot k sc t = idempotency_slot k sc s))"
proof -
  let ?s = "s\<lparr>draws := draws s + 1\<rparr>" and ?e = "ro_envelope opts (claim_id s) key lock pay"
  have id: "transaction generateId s = (Inr (claim_id s), ?s)"
    by (simp add: transaction_def generateId_def claim_id_def)
  have slot: "idempotency_slot k sc ?s = idempotency_slot k sc s" for k sc by (simp add: idempotency_slot_def)
  have role: "assertRole (env_actor ?e) (requiredRole h) (commandName h) (requiredActorKind h) = Inr ()"
    using assms(3) by (cases "requiredRole h") (simp_all add: assertRole_ok ro_envelope_def systemActor_def less_eq_UserRole_def)
  have fresh: "fresh_key h ?e ?s" using assms(4) by (simp add: fresh_key_def ro_envelope_def slot)
  have tables: "same_tables s s1" if "same_tables ?s s1" for s1
    using that unfolding same_tables_def by (metis store.surjective store.update_convs(3) store.ext_inject)
  have "(\<exists>err. execute h ?e ?s = (Inl err, ?s) \<and> constraint_error err) \<or> (\<exists>res t. execute h ?e ?s = (Inr res, t) \<and> Q res t)"
  proof (rule fresh_outcome [OF role fresh assms(1)])
    show "wp (body ?e) (\<lambda>a t1. \<forall>u. same_tables t1 u \<longrightarrow> Q a u) constraint_error s1" if "same_tables ?s s1" for s1
      using assms(5) [OF tables [OF that]] .
  qed (simp add: constraint_error_def)
  moreover have "evolves s t \<and> (\<forall>k sc. sc \<noteq> idempotencyScope h \<longrightarrow> idempotency_slot k sc t = idempotency_slot k sc s)"
    if ex: "execute h ?e ?s = (Inr res, t)" for res t
  proof -
    have "evolves ?s t"
    proof -
      have "evo.keepsA (execute h ?e)"
        by (rule evo.keepsA_execute) (simp add: assms(1) claimed_transaction_evolves assms(2))
      then show ?thesis using ex by (metis evo.keepsA_def snd_conv)
    qed
    moreover have "evolves s ?s" by (rule draws_evolves)
    ultimately show ?thesis
      using other_scope_slots [OF ex assms(1,2)] slot by (auto intro: evolves_trans)
  qed
  ultimately show ?thesis by (auto simp: dispatch_command_def bindA_def id returnA_def)
qed

section \<open>The three actions of a catch-up\<close>

lemmas wp_reconcile = wp_simps wp_lane_envelope Let_def nextVersion_def fe_assertValid_eq cas_run_def
  writeWorkflowEvent_def writeOutboxEvent_def accepted_result_def set_update_where bex_Un insertPullRequestRow_def
  constraint_error_def fe_valid_iff fe_edges_eq find_run_cas at_version_def

lemma at_state_run:
  assumes "at_state opts st v s"
  obtains r where "find_run (ro_featureRunId opts) (ro_projectId opts) s = Some r" "run_state r = st" "run_version r = v"
    "wf_store s" "r \<in> set (feature_runs s)" "run_id r = ro_featureRunId opts"
  using assms find_run_Some by (fastforce simp: at_state_def)

lemma at_state_moved:
  assumes "at_state opts st v s1" "same_tables t1 u" "wf_store t1 = wf_store s1"
    "find_run (ro_featureRunId opts) (ro_projectId opts) t1 =
       map_option (set_run_state to_s (v + 1) now) (find_run (ro_featureRunId opts) (ro_projectId opts) s1)"
  shows "at_state opts to_s (v + 1) u"
  using assms by (auto simp: at_state_def same_tables_simps set_run_state_def same_tables_wf)

lemma at_state_same_tables: "same_tables s t \<Longrightarrow> at_state opts st v t = at_state opts st v s"
  by (simp add: at_state_def wf_store_def same_tables_simps)

lemma wf_store_pull_requests [simp]: "wf_store (pull_requests_update f s) = wf_store s"
  by (simp add: wf_store_def)

lemma pr_opened_wp:
  assumes "at_state opts FE_CODE_PUSHED v s" "lane_open opts s"
  shows "wp (RecordPrOpened_body (ro_envelope opts i key (ro_lockContext opts)
      \<lparr>p_featureRunId = ro_featureRunId opts, p_projectId = ro_projectId opts, p_expectedVersion = v,
       po_prNumber = n, po_branchName = b, po_baseBranch = d, po_headSha = h\<rparr>))
     (\<lambda>a t1. at_state opts FE_PR_OPENED (v + 1) t1 \<and> res_resultingState a = fe_str FE_PR_OPENED) constraint_error s"
proof -
  obtain r where r: "find_run (ro_featureRunId opts) (ro_projectId opts) s = Some r" "run_state r = FE_CODE_PUSHED"
      "run_version r = v" "wf_store s" "r \<in> set (feature_runs s)" "run_id r = ro_featureRunId opts"
    using assms(1) by (rule at_state_run)
  show ?thesis
    using r assms(2)
    by (auto simp: RecordPrOpened_body_def wp_reconcile at_state_def set_run_state_def)
qed

lemma ci_running_wp:
  assumes "at_state opts FE_PR_OPENED v s" "lane_open opts s"
  shows "wp (RecordCiRunning_body (ro_envelope opts i key (ro_lockContext opts) (check_payload_of opts v)))
     (\<lambda>a t1. at_state opts FE_CI_RUNNING (v + 1) t1 \<and> res_resultingState a = fe_str FE_CI_RUNNING) constraint_error s"
proof -
  obtain r where r: "find_run (ro_featureRunId opts) (ro_projectId opts) s = Some r" "run_state r = FE_PR_OPENED"
      "run_version r = v" "wf_store s" "r \<in> set (feature_runs s)" "run_id r = ro_featureRunId opts"
    using assms(1) by (rule at_state_run)
  show ?thesis
    using r assms(2)
    by (auto simp: RecordCiRunning_body_def wp_reconcile at_state_def set_run_state_def check_payload_of_def)
qed

lemma ci_passed_wp:
  assumes "at_state opts FE_CI_RUNNING v s"
  shows "wp (RecordCiPassed_body (ro_envelope opts i key lock (check_payload_of opts v)))
     (\<lambda>a t1. at_state opts FE_UNDER_REVIEW (v + 1) t1 \<and> res_resultingState a = fe_str FE_UNDER_REVIEW) constraint_error s"
proof -
  obtain r where r: "find_run (ro_featureRunId opts) (ro_projectId opts) s = Some r" "run_state r = FE_CI_RUNNING"
      "run_version r = v" "wf_store s" "r \<in> set (feature_runs s)" "run_id r = ro_featureRunId opts"
    using assms(1) by (rule at_state_run)
  show ?thesis
    using r by (auto simp: RecordCiPassed_body_def wp_reconcile at_state_def set_run_state_def check_payload_of_def)
qed

text \<open>Each as a dispatched command, with what the next action needs.\<close>

lemma dispatch_moves:
  assumes "handler_execute h = claimed_transaction (idempotencyScope h) body" "\<And>e. body.keeps (body e)"
    "requiredActorKind h = Some SystemKind" "idempotency_slot key (idempotencyScope h) s = None"
    "at_state opts st v s" "lane_open opts s"
    "\<And>i s1. at_state opts st v s1 \<Longrightarrow> lane_open opts s1 \<Longrightarrow> wp (body (ro_envelope opts i key lock pay))
        (\<lambda>a t1. at_state opts st' (v + 1) t1 \<and> res_resultingState a = fe_str st') constraint_error s1"
  shows "(\<exists>err t. dispatch_command opts act h key lock pay s = (Inl err, t) \<and> constraint_error err)
     \<or> (\<exists>t. dispatch_command opts act h key lock pay s = (Inr (Some (act, Some (fe_str st'))), t)
          \<and> at_state opts st' (v + 1) t \<and> lane_open opts t
          \<and> (\<forall>k sc. sc \<noteq> idempotencyScope h \<longrightarrow> idempotency_slot k sc t = idempotency_slot k sc s))"
proof -
  have "wp (body (ro_envelope opts i key lock pay))
      (\<lambda>a t1. \<forall>u. same_tables t1 u \<longrightarrow> at_state opts st' (v + 1) u \<and> res_resultingState a = fe_str st')
      constraint_error s1" if "same_tables s s1" for i s1
    using assms(5,6) that
    by (intro wp_mono [OF assms(7)]) (auto simp: at_state_same_tables lane_open_same_tables)
  from dispatch_outcome [OF assms(1-4) this, of act] show ?thesis
    using assms(6) lane_open_evolves by fastforce
qed

lemma sync_run: "\<exists>f. transaction (syncPullRequestObservedState i ob) s = (Inr (), pull_requests_update f s)"
proof -
  have "\<exists>f. s = pull_requests_update f s" by (rule exI [of _ "\<lambda>x. x"]) simp
  then show ?thesis
    by (auto simp: transaction_def syncPullRequestObservedState_def bindT_def queryT_def executeT_def returnT_def
        split: option.split)
qed

lemma sync_frames [simp]:
  "at_state opts st v (pull_requests_update f s) = at_state opts st v s"
  "lane_open opts (pull_requests_update f s) = lane_open opts s"
  "idempotency_slot k sc (pull_requests_update f s) = idempotency_slot k sc s"
  by (simp add: at_state_def, rule lane_open_cong) (simp_all add: idempotency_slot_def)

definition catch_up_actions :: "ReconciliationAction list" where
  "catch_up_actions = [RA_PR_OPENED, RA_CI_RUNNING, RA_CI_PASSED]"

text \<open>The observation of an open pull request whose checks have passed, and the keys it needs.\<close>

definition ready_for_review :: "reconcile_options \<Rightarrow> bool" where
  "ready_for_review opts =
     (ob_state (ro_observed opts) \<noteq> ''closed'' \<and> ob_ciStatus (ro_observed opts) = ''passed''
      \<and> ob_reviewState (ro_observed opts) \<noteq> ''changes_requested'')"

definition step_moves ::
    "reconcile_options \<Rightarrow> FeatureExecutionState \<Rightarrow> int \<Rightarrow> ReconciliationAction \<Rightarrow> FeatureExecutionState
      \<Rightarrow> string \<Rightarrow> store \<Rightarrow> bool" where
  "step_moves opts st v act st' scope s =
     ((\<exists>err t. runStep opts (fe_str st) v s = (Inl err, t) \<and> constraint_error err)
      \<or> (\<exists>t. runStep opts (fe_str st) v s = (Inr (Some (act, Some (fe_str st'))), t)
           \<and> at_state opts st' (v + 1) t \<and> lane_open opts t
           \<and> (\<forall>k sc. sc \<noteq> scope \<longrightarrow> idempotency_slot k sc t = idempotency_slot k sc s)))"

lemma catch_up_steps:
  assumes "ready_for_review opts" "lane_open opts s"
  shows "at_state opts FE_CODE_PUSHED v s \<Longrightarrow>
      idempotency_slot (occurrence_key ''record-pr-opened'' opts) ''record-pr-opened'' s = None \<Longrightarrow>
      step_moves opts FE_CODE_PUSHED v RA_PR_OPENED FE_PR_OPENED ''record-pr-opened'' s"
    "at_state opts FE_PR_OPENED v s \<Longrightarrow>
      idempotency_slot (occurrence_key ''record-ci-running'' opts) ''record-ci-running'' s = None \<Longrightarrow>
      step_moves opts FE_PR_OPENED v RA_CI_RUNNING FE_CI_RUNNING ''record-ci-running'' s"
    "at_state opts FE_CI_RUNNING v s \<Longrightarrow>
      idempotency_slot (occurrence_key ''record-ci-passed'' opts) ''record-ci-passed'' s = None \<Longrightarrow>
      step_moves opts FE_CI_RUNNING v RA_CI_PASSED FE_UNDER_REVIEW ''record-ci-passed'' s"
    "runStep opts (fe_str FE_UNDER_REVIEW) v = returnA None"
proof -
  have lock: "ro_lockContext opts \<noteq> None" using assms(2) by (auto simp: lane_open_def)
  have still_open: "\<not> irreconcilablyClosed opts st" for st
    using assms(1) by (simp add: irreconcilablyClosed_def ready_for_review_def)
  note unfold_step = runStep_def record_pr_opened_def record_ci_running_def Let_def still_open lock
    assms(1) [unfolded ready_for_review_def]
  show "runStep opts (fe_str FE_UNDER_REVIEW) v = returnA None"
    by (simp add: unfold_step)
  show "step_moves opts FE_CODE_PUSHED v RA_PR_OPENED FE_PR_OPENED ''record-pr-opened'' s"
    if "at_state opts FE_CODE_PUSHED v s" "idempotency_slot (occurrence_key ''record-pr-opened'' opts) ''record-pr-opened'' s = None"
    using dispatch_moves [OF claimed_handlers(13) RecordPrOpened_evolves _ _ that(1) assms(2) pr_opened_wp,
        of "occurrence_key ''record-pr-opened'' opts"] that(2)
    by (simp add: step_moves_def unfold_step RecordPrOpenedHandler_def)
  show "step_moves opts FE_PR_OPENED v RA_CI_RUNNING FE_CI_RUNNING ''record-ci-running'' s"
    if "at_state opts FE_PR_OPENED v s" "idempotency_slot (occurrence_key ''record-ci-running'' opts) ''record-ci-running'' s = None"
    using dispatch_moves [OF claimed_handlers(14) RecordCiRunning_evolves _ _ that(1) assms(2) ci_running_wp,
        of "occurrence_key ''record-ci-running'' opts"] that(2)
    by (simp add: step_moves_def unfold_step RecordCiRunningHandler_def)
  show "step_moves opts FE_CI_RUNNING v RA_CI_PASSED FE_UNDER_REVIEW ''record-ci-passed'' s"
    if "at_state opts FE_CI_RUNNING v s" "idempotency_slot (occurrence_key ''record-ci-passed'' opts) ''record-ci-passed'' s = None"
    using dispatch_moves [OF claimed_handlers(15) RecordCiPassed_evolves _ _ that(1) assms(2) ci_passed_wp,
        of "occurrence_key ''record-ci-passed'' opts"] that(2)
    by (simp add: step_moves_def unfold_step RecordCiPassedHandler_def)
qed

lemma loop_step:
  assumes "step_moves opts st v act st' scope s" "act \<noteq> RA_LOCK_REQUIRED"
  shows "(\<exists>err t. reconcile_loop (Suc n) opts (fe_str st) v actions res s = (Inl err, t) \<and> constraint_error err)
     \<or> (\<exists>t. reconcile_loop (Suc n) opts (fe_str st) v actions res s =
              reconcile_loop n opts (fe_str st') (v + 1) (actions @ [act]) (Some (fe_str st')) t
           \<and> at_state opts st' (v + 1) t \<and> lane_open opts t
           \<and> (\<forall>k sc. sc \<noteq> scope \<longrightarrow> idempotency_slot k sc t = idempotency_slot k sc s))"
  using assms by (auto simp: step_moves_def bindA_def nextVersion_def)

lemma catch_up_loop:
  assumes "at_state opts FE_CODE_PUSHED v s" "lane_open opts s" "ready_for_review opts"
    "idempotency_slot (occurrence_key ''record-pr-opened'' opts) ''record-pr-opened'' s = None"
    "idempotency_slot (occurrence_key ''record-ci-running'' opts) ''record-ci-running'' s = None"
    "idempotency_slot (occurrence_key ''record-ci-passed'' opts) ''record-ci-passed'' s = None"
  shows "(\<exists>err t. reconcile_loop MAX_RECONCILE_STEPS opts (fe_str FE_CODE_PUSHED) v [] None s = (Inl err, t) \<and> constraint_error err)
     \<or> (\<exists>t. reconcile_loop MAX_RECONCILE_STEPS opts (fe_str FE_CODE_PUSHED) v [] None s =
            (Inr (catch_up_actions, Some (fe_str FE_UNDER_REVIEW)), t) \<and> at_state opts FE_UNDER_REVIEW (v + 3) t)"
    (is "?err \<or> ?ok")
proof (rule disjCI)
  let ?loop = "\<lambda>n st v. reconcile_loop n opts (fe_str st) v"
  assume no_ok: "\<not> ?ok"
  have five: "MAX_RECONCILE_STEPS = Suc (Suc (Suc (Suc (Suc 0))))" by (simp add: MAX_RECONCILE_STEPS_def)
  show ?err
  proof (rule ccontr)
    assume no_err: "\<not> ?err"
    obtain t1 where t1: "?loop MAX_RECONCILE_STEPS FE_CODE_PUSHED v [] None s =
        ?loop (Suc (Suc (Suc (Suc 0)))) FE_PR_OPENED (v + 1) ([] @ [RA_PR_OPENED]) (Some (fe_str FE_PR_OPENED)) t1"
        "at_state opts FE_PR_OPENED (v + 1) t1" "lane_open opts t1"
        "\<forall>k sc. sc \<noteq> ''record-pr-opened'' \<longrightarrow> idempotency_slot k sc t1 = idempotency_slot k sc s"
      using loop_step [OF catch_up_steps(1) [OF assms(3,2,1,4)]] no_err unfolding five by blast
    have slot1: "idempotency_slot (occurrence_key ''record-ci-running'' opts) ''record-ci-running'' t1 = None"
      using t1(4) assms(5) by simp
    obtain t2 where t2: "?loop MAX_RECONCILE_STEPS FE_CODE_PUSHED v [] None s =
        ?loop (Suc (Suc (Suc 0))) FE_CI_RUNNING (v + 1 + 1) (([] @ [RA_PR_OPENED]) @ [RA_CI_RUNNING]) (Some (fe_str FE_CI_RUNNING)) t2"
        "at_state opts FE_CI_RUNNING (v + 1 + 1) t2" "lane_open opts t2"
        "\<forall>k sc. sc \<noteq> ''record-ci-running'' \<longrightarrow> idempotency_slot k sc t2 = idempotency_slot k sc t1"
      using loop_step [OF catch_up_steps(2) [OF assms(3) t1(3,2) slot1]] no_err unfolding t1(1) by blast
    have slot2: "idempotency_slot (occurrence_key ''record-ci-passed'' opts) ''record-ci-passed'' t2 = None"
      using t1(4) t2(4) assms(6) by simp
    obtain t3 where t3: "?loop MAX_RECONCILE_STEPS FE_CODE_PUSHED v [] None s =
        ?loop (Suc (Suc 0)) FE_UNDER_REVIEW (v + 1 + 1 + 1) ((([] @ [RA_PR_OPENED]) @ [RA_CI_RUNNING]) @ [RA_CI_PASSED])
          (Some (fe_str FE_UNDER_REVIEW)) t3"
        "at_state opts FE_UNDER_REVIEW (v + 1 + 1 + 1) t3"
      using loop_step [OF catch_up_steps(3) [OF assms(3) t2(3,2) slot2]] no_err unfolding t2(1) by blast
    have three: "v + 1 + 1 + 1 = v + 3" by simp
    show False
      using no_ok t3(1) t3(2) [unfolded three] catch_up_steps(4) [OF assms(3,2)]
      by (simp add: bindA_def returnA_def catch_up_actions_def)
  qed
qed

text \<open>
  C19. A missed webhook strands no run: one pass over a run whose code is pushed, with the lane held
  and a pull request that is open with its checks passed, opens the pull request, starts and
  passes its checks in that order, and leaves the run under review three versions later, or fails
  on a collision of generated identifiers.
\<close>

theorem reconcile_catches_up:
  assumes "at_state opts FE_CODE_PUSHED v s" "lane_open opts s" "ready_for_review opts"
    "idempotency_slot (occurrence_key ''record-pr-opened'' opts) ''record-pr-opened'' s = None"
    "idempotency_slot (occurrence_key ''record-ci-running'' opts) ''record-ci-running'' s = None"
    "idempotency_slot (occurrence_key ''record-ci-passed'' opts) ''record-ci-passed'' s = None"
  shows "(\<exists>table t. reconcileGithubState opts s = (Inl (ConstraintViolation table), t))
     \<or> (\<exists>t. reconcileGithubState opts s =
            (Inr \<lparr>rr_action = RA_CI_PASSED, rr_actions = [RA_PR_OPENED, RA_CI_RUNNING, RA_CI_PASSED],
                  rr_resultingState = Some ''under_review''\<rparr>, t)
          \<and> at_state opts FE_UNDER_REVIEW (v + 3) t)"
proof -
  let ?sync = "transaction (syncPullRequestObservedState (ro_featureRunId opts) (ro_observed opts))"
  obtain r where r: "find_run (ro_featureRunId opts) (ro_projectId opts) s = Some r" "run_state r = FE_CODE_PUSHED" "run_version r = v"
    using assms(1) by (rule at_state_run)
  obtain f where f: "?sync s = (Inr (), pull_requests_update f s)" using sync_run by blast
  let ?s = "pull_requests_update f s"
  consider (err) err t where "reconcile_loop MAX_RECONCILE_STEPS opts (fe_str FE_CODE_PUSHED) v [] None ?s = (Inl err, t)" "constraint_error err"
    | (ok) t where "reconcile_loop MAX_RECONCILE_STEPS opts (fe_str FE_CODE_PUSHED) v [] None ?s =
            (Inr (catch_up_actions, Some (fe_str FE_UNDER_REVIEW)), t)" "at_state opts FE_UNDER_REVIEW (v + 3) t"
    using catch_up_loop [of opts v ?s] assms by auto
  then show ?thesis
  proof cases
    case err
    then show ?thesis
      using r by (auto simp: reconcileGithubState_def bindA_def queryA_def f constraint_error_def)
  next
    case (ok t)
    obtain g where "?sync t = (Inr (), pull_requests_update g t)" using sync_run by blast
    with ok r show ?thesis
      by (auto simp: reconcileGithubState_def bindA_def queryA_def returnA_def f catch_up_actions_def)
  qed
qed

definition sample_observation :: "string \<Rightarrow> string \<Rightarrow> observed_pr" where
  "sample_observation state ci =
     \<lparr>ob_prNumber = 7, ob_branchName = ''minicoder/FR-2'', ob_baseBranch = ''main'', ob_headSha = Some ''abc'',
      ob_state = state, ob_reviewState = ''none'', ob_ciStatus = ci, ob_mergeable = Some True, ob_blockingLabels = [],
      ob_conversationsResolved = True, ob_mergedAt = None, ob_mergeSha = None, ob_closedAt = None\<rparr>"

definition sample_reconcile :: "string \<Rightarrow> string \<Rightarrow> reconcile_options" where
  "sample_reconcile state ci =
     \<lparr>ro_featureRunId = ''r2'', ro_projectId = ''p1'', ro_observed = sample_observation state ci,
      ro_correlationId = ''x'', ro_lockContext = Some sample_lock_context\<rparr>"

definition pushed_store :: "FeatureExecutionState \<Rightarrow> store" where
  "pushed_store st = sample_store [sample_run ''r2'' ''q2'' st 0 5] (sample_ws (Some ''r2'') AU_RUNNING)"

lemma pushed:
  "wf_store (pushed_store st)" "idempotency_keys (pushed_store st) = []"
  "find_run ''r2'' ''p1'' (pushed_store st) = Some (sample_run ''r2'' ''q2'' st 0 5)"
  "at_state (sample_reconcile a b) st 5 (pushed_store st)" "lane_open (sample_reconcile a b) (pushed_store st)"
proof -
  show "wf_store (pushed_store st)" "idempotency_keys (pushed_store st) = []"
    "find_run ''r2'' ''p1'' (pushed_store st) = Some (sample_run ''r2'' ''q2'' st 0 5)"
    by (simp_all add: pushed_store_def wf_store_def run_simps)
  then show "at_state (sample_reconcile a b) st 5 (pushed_store st)"
    by (simp add: at_state_def sample_reconcile_def sample_run_def)
  show "lane_open (sample_reconcile a b) (pushed_store st)"
    by (simp add: lane_open_def fence_held_def sample_reconcile_def pushed_store_def run_simps)
qed

theorem reconcile_is_steps_witness:
  "\<exists>r t. reconcileGithubState (sample_reconcile ''open'' ''passed'') (pushed_store FE_CODE_PUSHED) = (r, t)
     \<and> (system_step 5)\<^sup>*\<^sup>* (pushed_store FE_CODE_PUSHED) t"
proof -
  obtain r t where run: "reconcileGithubState (sample_reconcile ''open'' ''passed'') (pushed_store FE_CODE_PUSHED) = (r, t)"
    by fastforce
  from reconcile_is_steps [OF this, of 5] run show ?thesis by blast
qed

theorem reconcile_catches_up_witness:
  "(\<exists>table t. reconcileGithubState (sample_reconcile ''open'' ''passed'') (pushed_store FE_CODE_PUSHED) = (Inl (ConstraintViolation table), t))
     \<or> (\<exists>res t. reconcileGithubState (sample_reconcile ''open'' ''passed'') (pushed_store FE_CODE_PUSHED) = (Inr res, t)
          \<and> rr_actions res = [RA_PR_OPENED, RA_CI_RUNNING, RA_CI_PASSED]
          \<and> at_state (sample_reconcile ''open'' ''passed'') FE_UNDER_REVIEW 8 t)"
proof -
  have "ready_for_review (sample_reconcile ''open'' ''passed'')"
    by (simp add: ready_for_review_def sample_reconcile_def sample_observation_def)
  from reconcile_catches_up [OF pushed(4,5) this] show ?thesis
    by (auto simp: idempotency_slot_def pushed(2))
qed

section \<open>Reports without effect\<close>

text \<open>
  C20. An escalation is not repeated within a week: the key of the escalation of a closed pull request
  names only the run, so while the first escalation's slot lives, a pass over the same run, back
  in any state the closing should end, reports that it escalated and leaves the run, its log and
  the outbox as they were.
\<close>

theorem escalation_replayed:
  assumes "find_run (ro_featureRunId opts) (ro_projectId opts) s = Some r"
    "irreconcilablyClosed opts (fe_str (run_state r))"
    "checkIdempotencyKey (''escalate-human-github:'' @ ro_featureRunId opts) ''escalate-to-human'' s = Some old"
    "res_resultingState old = ''human_required''"
  shows "\<exists>t. reconcileGithubState opts s =
       (Inr \<lparr>rr_action = RA_ESCALATED, rr_actions = [RA_ESCALATED], rr_resultingState = Some ''human_required''\<rparr>, t)
     \<and> feature_runs t = feature_runs s \<and> workflow_events t = workflow_events s \<and> outbox_events t = outbox_events s"
proof -
  let ?sync = "transaction (syncPullRequestObservedState (ro_featureRunId opts) (ro_observed opts))"
  obtain f where f: "?sync s = (Inr (), pull_requests_update f s)" using sync_run by blast
  let ?s = "(pull_requests_update f s)\<lparr>draws := draws s + 1\<rparr>"
  have id: "transaction generateId (pull_requests_update f s) = (Inr (claim_id (pull_requests_update f s)), ?s)"
    by (simp add: transaction_def generateId_def claim_id_def)
  have cached: "checkIdempotencyKey k sc ?s = checkIdempotencyKey k sc s" for k sc by (simp add: checkIdempotencyKey_def)
  have role: "assertRole (systemActor c) (requiredRole EscalateToHumanHandler) (commandName EscalateToHumanHandler)
      (requiredActorKind EscalateToHumanHandler) = Inr ()" for c
    by (simp add: assertRole_ok systemActor_def EscalateToHumanHandler_def less_eq_UserRole_def)
  have scope: "idempotencyScope EscalateToHumanHandler = ''escalate-to-human''" by (simp add: EscalateToHumanHandler_def)
  have step: "runStep opts (fe_str (run_state r)) (run_version r) (pull_requests_update f s) =
      (Inr (Some (RA_ESCALATED, Some ''human_required'')), ?s)"
    using assms(2-4)
    by (simp add: runStep_def escalate_def dispatch_command_def bindA_def id returnA_def execute_replays role scope cached)
  have stop: "runStep opts ''human_required'' v ?s = (Inr None, ?s)" for v
    by (simp add: runStep_def irreconcilablyClosed_def terminalStates_def returnA_def)
  have loop: "reconcile_loop MAX_RECONCILE_STEPS opts (fe_str (run_state r)) (run_version r) [] None (pull_requests_update f s) =
      (Inr ([RA_ESCALATED], Some ''human_required''), ?s)"
    by (simp add: MAX_RECONCILE_STEPS_def eval_nat_numeral bindA_def step stop returnA_def)
  obtain g where "?sync ?s = (Inr (), pull_requests_update g ?s)" using sync_run by blast
  then show ?thesis
    using assms(1) by (simp add: reconcileGithubState_def bindA_def queryA_def returnA_def f loop)
qed

theorem escalation_replayed_witness:
  "\<exists>s t. feature_runs s = [sample_run ''r2'' ''q2'' FE_CI_RUNNING 0 5]
     \<and> reconcileGithubState (sample_reconcile ''closed'' ''passed'') s =
       (Inr \<lparr>rr_action = RA_ESCALATED, rr_actions = [RA_ESCALATED], rr_resultingState = Some ''human_required''\<rparr>, t)
     \<and> feature_runs t = feature_runs s"
proof -
  let ?old = "\<lparr>res_commandId = ''c0'', res_accepted = True, res_resultingState = ''human_required'', res_emittedEventIds = []\<rparr>"
  let ?s = "(pushed_store FE_CI_RUNNING)\<lparr>idempotency_keys :=
      [\<lparr>ik_id = ''i0'', ik_key = ''escalate-human-github:r2'', ik_scope = ''escalate-to-human'', ik_result = Some ?old, ik_response = None,
        ik_expires_at = 2000, ik_version = 2, ik_updated_at = 0\<rparr>]\<rparr>"
  let ?o = "sample_reconcile ''closed'' ''passed''"
  have "find_run (ro_featureRunId ?o) (ro_projectId ?o) ?s = Some (sample_run ''r2'' ''q2'' FE_CI_RUNNING 0 5)"
    "irreconcilablyClosed ?o (fe_str (run_state (sample_run ''r2'' ''q2'' FE_CI_RUNNING 0 5)))"
    "checkIdempotencyKey (''escalate-human-github:'' @ ro_featureRunId ?o) ''escalate-to-human'' ?s = Some ?old"
    "res_resultingState ?old = ''human_required''"
    by (simp_all add: sample_reconcile_def pushed_store_def run_simps irreconcilablyClosed_def sample_observation_def
        terminalStates_def)
  from escalation_replayed [OF this] obtain t where "reconcileGithubState ?o ?s =
       (Inr \<lparr>rr_action = RA_ESCALATED, rr_actions = [RA_ESCALATED], rr_resultingState = Some ''human_required''\<rparr>, t)"
      "feature_runs t = feature_runs ?s" by blast
  moreover have "feature_runs ?s = [sample_run ''r2'' ''q2'' FE_CI_RUNNING 0 5]"
    by (simp add: pushed_store_def sample_store_def)
  ultimately show ?thesis by blast
qed

text \<open>
  A skipped run is not among the states a closed pull request leaves alone: closing the pull
  request of a skipped run makes every new pass fail, on the transition the matrix refuses (or a
  collision of generated identifiers), with the run as it was.
\<close>

theorem skipped_run_fails_reconciliation:
  assumes "find_run (ro_featureRunId opts) (ro_projectId opts) s = Some r" "run_state r = FE_SKIPPED"
    "ob_state (ro_observed opts) = ''closed''" "ob_mergedAt (ro_observed opts) = None"
    "idempotency_slot (''escalate-human-github:'' @ ro_featureRunId opts) ''escalate-to-human'' s = None"
  shows "\<exists>err t. reconcileGithubState opts s = (Inl err, t) \<and> feature_runs t = feature_runs s
     \<and> err \<in> {TransitionError ''skipped'' ''human_required'' ''feature-execution'', ConstraintViolation ''idempotency_keys''}"
proof -
  let ?sync = "transaction (syncPullRequestObservedState (ro_featureRunId opts) (ro_observed opts))"
  let ?bad = "{TransitionError ''skipped'' ''human_required'' ''feature-execution'', ConstraintViolation ''idempotency_keys''}"
  obtain f where f: "?sync s = (Inr (), pull_requests_update f s)" using sync_run by blast
  let ?s = "(pull_requests_update f s)\<lparr>draws := draws s + 1\<rparr>"
  have id: "transaction generateId (pull_requests_update f s) = (Inr (claim_id (pull_requests_update f s)), ?s)"
    by (simp add: transaction_def generateId_def claim_id_def)
  let ?key = "''escalate-human-github:'' @ ro_featureRunId opts"
  let ?pay = "\<lambda>reason. \<lparr>p_featureRunId = ro_featureRunId opts, p_projectId = ro_projectId opts,
      p_expectedVersion = run_version r, es_reason = reason, es_reviewerRunId = None, es_reviewCycle = None, es_findings = None\<rparr>"
  have fails: "\<exists>err. execute EscalateToHumanHandler (ro_envelope opts i ?key None (?pay reason)) ?s = (Inl err, ?s) \<and> err \<in> ?bad" for i reason
  proof -
    let ?e = "ro_envelope opts i ?key None (?pay reason)"
    have run: "find_run (ro_featureRunId opts) (ro_projectId opts) ?s = Some r" using assms(1) by simp
    have "(\<exists>err. execute EscalateToHumanHandler ?e ?s = (Inl err, ?s) \<and> err \<in> ?bad)
        \<or> (\<exists>res t. execute EscalateToHumanHandler ?e ?s = (Inr res, t) \<and> False)"
    proof (rule fresh_outcome [where body = EscalateToHuman_body and Q = "\<lambda>_ _. False" and E = "\<lambda>err. err \<in> ?bad"])
      show "fresh_key EscalateToHumanHandler ?e ?s"
        using assms(5) by (simp add: fresh_key_def EscalateToHumanHandler_def idempotency_slot_def)
      show "wp (EscalateToHuman_body ?e) (\<lambda>a t1. \<forall>u. same_tables t1 u \<longrightarrow> False) (\<lambda>err. err \<in> ?bad) s1"
        if s1: "same_tables ?s s1" for s1
      proof -
        have "find_run (ro_featureRunId opts) (ro_projectId opts) s1 = Some r"
          using same_tables_reads(1) [OF s1] run by simp
        then show ?thesis
          by (simp add: EscalateToHuman_body_def wp_simps Let_def fe_assertValid_eq fe_valid_iff fe_edges_eq assms(2))
      qed
    qed (simp_all add: EscalateToHumanHandler_def assertRole_ok systemActor_def less_eq_UserRole_def)
    then show ?thesis by simp
  qed
  have closed: "irreconcilablyClosed opts ''skipped''"
    using assms(3,4) by (simp add: irreconcilablyClosed_def terminalStates_def)
  have "\<exists>reason. runStep opts ''skipped'' (run_version r) = escalate opts (run_version r) reason ?key"
    by (rule exI) (simp add: runStep_def Let_def closed)
  then obtain reason where step: "runStep opts ''skipped'' (run_version r) = escalate opts (run_version r) reason ?key"
    by blast
  obtain err where "runStep opts ''skipped'' (run_version r) (pull_requests_update f s) = (Inl err, ?s)" "err \<in> ?bad"
    using fails [of "claim_id (pull_requests_update f s)" reason]
    unfolding step escalate_def dispatch_command_def bindA_def id by auto
  then show ?thesis
    using assms(1,2)
    by (auto simp: reconcileGithubState_def bindA_def queryA_def f MAX_RECONCILE_STEPS_def eval_nat_numeral)
qed

theorem skipped_run_fails_reconciliation_witness:
  "\<exists>err t. reconcileGithubState (sample_reconcile ''closed'' ''passed'') (pushed_store FE_SKIPPED) = (Inl err, t)
     \<and> feature_runs t = feature_runs (pushed_store FE_SKIPPED)"
proof -
  let ?o = "sample_reconcile ''closed'' ''passed''" and ?s = "pushed_store FE_SKIPPED"
  have "find_run (ro_featureRunId ?o) (ro_projectId ?o) ?s = Some (sample_run ''r2'' ''q2'' FE_SKIPPED 0 5)"
    "run_state (sample_run ''r2'' ''q2'' FE_SKIPPED 0 5) = FE_SKIPPED"
    "ob_state (ro_observed ?o) = ''closed''" "ob_mergedAt (ro_observed ?o) = None"
    "idempotency_slot (''escalate-human-github:'' @ ro_featureRunId ?o) ''escalate-to-human'' ?s = None"
    by (simp_all add: sample_reconcile_def pushed sample_observation_def idempotency_slot_def, simp add: sample_run_def)
  from skipped_run_fails_reconciliation [OF this] show ?thesis by blast
qed

end
