(* ===== verification/Lifecycle.thy ===== *)
theory Lifecycle
  imports System
begin

text \<open>
  What no step of the system does to the planning tables: a plan, a clarification session and a
  project move only along the edges of their machines, one version at a time, a session within its
  rounds; feature requests and dependencies are only added; and no request gets a second run.
\<close>

section \<open>Rows that move\<close>

definition table_moves :: "('r \<Rightarrow> string) \<Rightarrow> ('r \<Rightarrow> 'r \<Rightarrow> bool) \<Rightarrow> 'r list \<Rightarrow> 'r list \<Rightarrow> bool" where
  "table_moves key step rs rs' =
     (distinct (map key rs) \<longrightarrow> distinct (map key rs') \<and> (\<forall>r \<in> set rs. \<exists>r' \<in> set rs'. step\<^sup>*\<^sup>* r r'))"

text \<open>A table whose rows take steps that keep their key.\<close>

locale moving_table =
  fixes key :: "'r \<Rightarrow> string" and step :: "'r \<Rightarrow> 'r \<Rightarrow> bool"
  assumes step_key: "step r r' \<Longrightarrow> key r' = key r"
begin

lemma steps_key: "step\<^sup>*\<^sup>* r r' \<Longrightarrow> key r' = key r"
  by (induction rule: rtranclp_induct) (auto dest: step_key)

lemma moves_refl: "table_moves key step rs rs"
  unfolding table_moves_def by blast

lemma moves_trans: "table_moves key step a b \<Longrightarrow> table_moves key step b c \<Longrightarrow> table_moves key step a c"
  unfolding table_moves_def by (meson rtranclp_trans)

lemma moves_append: "key r \<notin> key ` set rs \<Longrightarrow> table_moves key step rs (rs @ [r])"
  by (auto simp: table_moves_def)

lemma moves_update:
  assumes "\<And>r. distinct (map key rs) \<Longrightarrow> r \<in> set rs \<Longrightarrow> p r \<Longrightarrow> step r (f r)"
  shows "table_moves key step rs (update_where p f rs)"
  unfolding table_moves_def
proof
  assume d: "distinct (map key rs)"
  have "map key (update_where p f rs) = map key rs"
    using assms [OF d] step_key by (intro map_update_where_on) blast
  moreover have "\<exists>r' \<in> set (update_where p f rs). step\<^sup>*\<^sup>* r r'" if "r \<in> set rs" for r
    using that assms [OF d that] by (intro bexI [of _ "if p r then f r else r"]) (auto simp: update_where_def)
  ultimately show "distinct (map key (update_where p f rs))
      \<and> (\<forall>r \<in> set rs. \<exists>r' \<in> set (update_where p f rs). step\<^sup>*\<^sup>* r r')"
    using d by simp
qed

text \<open>The compare-and-set on the row a SELECT found.\<close>

lemma moves_cas:
  assumes "r \<in> set rs" "key r = i" "step r (f r)" "\<And>r'. p r' \<Longrightarrow> key r' = i"
  shows "table_moves key step rs (update_where p f rs)"
proof (rule moves_update)
  fix r' assume "distinct (map key rs)" "r' \<in> set rs" "p r'"
  with assms have "r' = r" by (metis distinct_map_unique)
  with assms(3) show "step r' (f r')" by simp
qed

end

inductive plan_step :: "plan_row \<Rightarrow> plan_row \<Rightarrow> bool" where
  move: "isValid PLAN_LIFECYCLE_MATRIX (pl_state p) b \<Longrightarrow> v = pl_version p + 1 \<Longrightarrow>
     plan_step p (p\<lparr>pl_state := b, pl_version := v, pl_updated_at := now\<rparr>)"
| validate: "plan_step p (p\<lparr>pl_backlog_validated_at := Some now, pl_backlog_validated_state := Some st,
       pl_backlog_validated_version := Some (pl_backlog_version p), pl_updated_at := now\<rparr>)"
| invalidate: "plan_step p (p\<lparr>pl_backlog_version := pl_backlog_version p + 1, pl_backlog_validated_at := None,
       pl_backlog_validated_state := None, pl_backlog_validated_version := None, pl_updated_at := now\<rparr>)"

inductive session_step :: "clarification_session_row \<Rightarrow> clarification_session_row \<Rightarrow> bool" where
  start: "isValid CLARIFICATION_MATRIX (cs_status c) CL_IN_PROGRESS \<Longrightarrow> cs_round c < cs_max_rounds c \<Longrightarrow>
     n = cs_round c + 1 \<Longrightarrow> v = cs_version c + 1 \<Longrightarrow>
     session_step c (c\<lparr>cs_status := CL_IN_PROGRESS, cs_round := n, cs_version := v, cs_updated_at := now\<rparr>)"
| move: "isValid CLARIFICATION_MATRIX (cs_status c) b \<Longrightarrow> b \<noteq> CL_IN_PROGRESS \<Longrightarrow> v = cs_version c + 1 \<Longrightarrow>
     session_step c (c\<lparr>cs_status := b, cs_version := v, cs_updated_at := now\<rparr>)"

inductive project_step :: "project_row \<Rightarrow> project_row \<Rightarrow> bool" where
  move: "isValid PROJECT_LIFECYCLE_MATRIX (pj_state p) b \<Longrightarrow> v = pj_version p + 1 \<Longrightarrow>
     project_step p (p\<lparr>pj_state := b, pj_version := v, pj_updated_at := now\<rparr>)"

interpretation plans: moving_table pl_id plan_step
  by unfold_locales (auto elim: plan_step.cases)

interpretation sessions: moving_table cs_id session_step
  by unfold_locales (auto elim: session_step.cases)

interpretation pjs: moving_table pj_id project_step
  by unfold_locales (auto elim: project_step.cases)

text \<open>What many steps add up to.\<close>

lemma nat_step: "(a :: int) \<le> b \<Longrightarrow> nat (b + 1 - a) = Suc (nat (b - a))"
  by arith

lemma plan_steps:
  assumes "plan_step\<^sup>*\<^sup>* p q"
  shows "pl_project_id q = pl_project_id p \<and> pl_assessment_id q = pl_assessment_id p \<and> pl_title q = pl_title p
    \<and> pl_summary q = pl_summary p \<and> pl_version p \<le> pl_version q \<and> pl_backlog_version p \<le> pl_backlog_version q
    \<and> (pl_state p, pl_state q) \<in> (edges PLAN_LIFECYCLE_MATRIX) ^^ nat (pl_version q - pl_version p)"
  using assms
proof (induction rule: rtranclp_induct)
  case (step y z)
  from step(2) show ?case
  proof cases
    case (move b v now)
    then have "nat (pl_version z - pl_version p) = Suc (nat (pl_version y - pl_version p))"
      using step.IH by (simp add: nat_step)
    moreover have "(pl_state y, pl_state z) \<in> edges PLAN_LIFECYCLE_MATRIX"
      using move by (simp add: isValid_iff_edge)
    ultimately show ?thesis using step.IH move by (auto intro: relcompI)
  qed (use step.IH in auto)
qed simp

lemma session_steps:
  assumes "session_step\<^sup>*\<^sup>* c d"
  shows "cs_project_id d = cs_project_id c \<and> cs_assessment_id d = cs_assessment_id c
    \<and> cs_max_rounds d = cs_max_rounds c \<and> cs_round c \<le> cs_round d \<and> cs_version c \<le> cs_version d
    \<and> (cs_round c \<le> cs_max_rounds c \<longrightarrow> cs_round d \<le> cs_max_rounds d)
    \<and> (cs_status c, cs_status d) \<in> (edges CLARIFICATION_MATRIX) ^^ nat (cs_version d - cs_version c)"
  using assms
proof (induction rule: rtranclp_induct)
  case (step y z)
  have "(cs_status y, cs_status z) \<in> edges CLARIFICATION_MATRIX \<and> cs_version z = cs_version y + 1"
    using step(2) by cases (auto simp: isValid_iff_edge)
  moreover from this step.IH have "nat (cs_version z - cs_version c) = Suc (nat (cs_version y - cs_version c))"
    by (simp add: nat_step)
  moreover have "cs_project_id z = cs_project_id y \<and> cs_assessment_id z = cs_assessment_id y
      \<and> cs_max_rounds z = cs_max_rounds y \<and> cs_round y \<le> cs_round z
      \<and> (cs_round y \<le> cs_max_rounds y \<longrightarrow> cs_round z \<le> cs_max_rounds z)"
    using step(2) by cases auto
  ultimately show ?case using step.IH by (auto intro: relcompI)
qed simp

lemma project_steps:
  assumes "project_step\<^sup>*\<^sup>* p q"
  shows "pj_name q = pj_name p \<and> pj_version p \<le> pj_version q
    \<and> (pj_state p, pj_state q) \<in> (edges PROJECT_LIFECYCLE_MATRIX) ^^ nat (pj_version q - pj_version p)"
  using assms
proof (induction rule: rtranclp_induct)
  case (step y z)
  have z: "(pj_state y, pj_state z) \<in> edges PROJECT_LIFECYCLE_MATRIX \<and> pj_version z = pj_version y + 1
      \<and> pj_name z = pj_name y"
    using step(2) by cases (auto simp: isValid_iff_edge)
  with step.IH have "nat (pj_version z - pj_version p) = Suc (nat (pj_version y - pj_version p))" by (simp add: nat_step)
  with z step.IH show ?case by (auto intro: relcompI)
qed simp

section \<open>The guarantee\<close>

text \<open>One run per request, a first attempt.\<close>

definition single_runs :: "store \<Rightarrow> bool" where
  "single_runs s =
     (wf_store s \<and> distinct (map run_feature_request_id (feature_runs s))
      \<and> (\<forall>r \<in> set (feature_runs s). run_attempt_no r = 1))"

definition lifecycle :: "store \<Rightarrow> store \<Rightarrow> bool" where
  "lifecycle s t =
     (table_moves pl_id plan_step (implementation_plans (planning s)) (implementation_plans (planning t))
      \<and> table_moves cs_id session_step (clarification_sessions (planning s)) (clarification_sessions (planning t))
      \<and> table_moves pj_id project_step (projects (planning s)) (projects (planning t))
      \<and> prefix (feature_requests s) (feature_requests t)
      \<and> prefix (feature_dependencies s) (feature_dependencies t)
      \<and> (single_runs s \<longrightarrow> single_runs t))"

lemma lifecycle_frame:
  assumes "implementation_plans (planning t) = implementation_plans (planning s)"
    "clarification_sessions (planning t) = clarification_sessions (planning s)"
    "projects (planning t) = projects (planning s)"
    "feature_requests t = feature_requests s" "feature_dependencies t = feature_dependencies s"
    "feature_runs t = feature_runs s" "workflow_states t = workflow_states s"
  shows "lifecycle s t"
  using assms plans.moves_refl sessions.moves_refl pjs.moves_refl
  by (auto simp: lifecycle_def single_runs_def wf_store_def)

interpretation lc: claim_guarantee lifecycle
proof
  show "lifecycle s s" "lifecycle s (idempotency_keys_update f s)" "lifecycle s (s\<lparr>draws := d\<rparr>)" for s f d
    by (simp_all add: lifecycle_frame)
  show "lifecycle s u" if "lifecycle s t" "lifecycle t u" for s t u
    using that unfolding lifecycle_def
    by (auto intro: plans.moves_trans sessions.moves_trans pjs.moves_trans prefix_order.trans)
qed

section \<open>Statements\<close>

lemma lc_other_planning:
  assumes "\<And>f p. implementation_plans (upd f p) = implementation_plans p"
    "\<And>f p. clarification_sessions (upd f p) = clarification_sessions p" "\<And>f p. projects (upd f p) = projects p"
  shows "lc.keeps (insertP table get upd key row)" "lc.keeps (updateP get upd q g)"
    "lc.keeps (insertUniqueT table get' (\<lambda>f. planning_update (upd f)) key uniq row)"
  by (rule lc.keepsI, simp add: wp_simps lifecycle_frame assms)+

lemma lc_inserts:
  "lc.keeps (insertP n specification_inputs specification_inputs_update si_id r1)"
  "lc.keeps (insertP n planning_readiness_assessments planning_readiness_assessments_update as_id r2)"
  "lc.keeps (insertP n planning_gaps planning_gaps_update pg_id r3)"
  "lc.keeps (insertP n planning_questions planning_questions_update pq_id r4)"
  "lc.keeps (insertP n planning_assumptions planning_assumptions_update pa_id r5)"
  "lc.keeps (insertP n clarification_questions clarification_questions_update cq_id r6)"
  "lc.keeps (insertP n clarification_decisions clarification_decisions_update cd_id r7)"
  "lc.keeps (insertP n plan_sections plan_sections_update ps_id r8)"
  "lc.keeps (insertP n acceptance_criteria acceptance_criteria_update ac_id r9)"
  "lc.keeps (insertP n test_expectations test_expectations_update te_id r10)"
  "lc.keeps (insertP n artifact_exports artifact_exports_update ae_id r11)"
  "lc.keeps (insertP n design_documents design_documents_update dd_id r12)"
  "lc.keeps (insertUniqueT n (\<lambda>s. clarification_answers (planning s))
     (\<lambda>f. planning_update (clarification_answers_update f)) ca_id ca_question_id r13)"
  by (rule lc_other_planning; simp)+

lemma lc_updates:
  "lc.keeps (updateP planning_gaps planning_gaps_update q f1)"
  "lc.keeps (updateP clarification_questions clarification_questions_update q2 f2)"
  "lc.keeps (updateP artifact_exports artifact_exports_update q3 f3)"
  "lc.keeps (updateP design_documents design_documents_update q4 f4)"
  by (rule lc_other_planning; simp)+

lemma lc_workflow_event: "lc.keeps (writeWorkflowEvent a b c d e f g)"
  by (rule lc.keepsI) (simp add: writeWorkflowEvent_def wp_simps lifecycle_frame)

lemma lc_outbox_event: "lc.keeps (writeOutboxEvent a b)"
  by (rule lc.keepsI) (simp add: writeOutboxEvent_def wp_simps lifecycle_frame Let_def)

lemma lc_human_approval: "lc.keeps (insertHumanApproval a b c d e f g h)"
  by (rule lc.keepsI) (simp add: insertHumanApproval_def wp_simps lifecycle_frame)

lemma lc_human_approval_row: "lc.keeps (insertT n human_approvals human_approvals_update ha_id row)"
  by (rule lc.keepsI) (simp add: wp_simps lifecycle_frame)

lemma lc_assertValid: "lc.keeps (assertValidT matrix str machine a b)"
  by (auto simp: assertValidT_eq)

lemma lc_assertVersion: "lc.keeps (assertVersion table i v row expected)"
  unfolding assertVersion_def by (intro lc.keeps_option lc.keeps_if lc.keeps_throwT lc.keeps_returnT)

lemma lc_Let: "(\<And>x. lc.keeps (m x)) \<Longrightarrow> lc.keeps (Let a m)"
  by simp

lemma lc_forIndexT: "(\<And>i x. lc.keeps (f i x)) \<Longrightarrow> lc.keeps (forIndexT i f xs)"
  by (induction xs arbitrary: i) auto

text \<open>The moving tables: new rows, and updates that are steps.\<close>

lemma lifecycle_part:
  assumes "lifecycle s (planning_update f s)"
  shows "table_moves pl_id plan_step (implementation_plans (planning s)) (implementation_plans (f (planning s)))"
  using assms by (simp add: lifecycle_def)

lemma lifecycle_tables:
  assumes "table_moves pl_id plan_step (implementation_plans (planning s)) (implementation_plans (f (planning s)))"
    "table_moves cs_id session_step (clarification_sessions (planning s)) (clarification_sessions (f (planning s)))"
    "table_moves pj_id project_step (projects (planning s)) (projects (f (planning s)))"
  shows "lifecycle s (planning_update f s)"
  using assms by (simp add: lifecycle_def single_runs_def wf_store_def)

lemma lc_insert_rows:
  "lc.keeps (insertP n implementation_plans implementation_plans_update pl_id p)"
  "lc.keeps (insertP n projects projects_update pj_id j)"
  "lc.keeps (insertP n clarification_sessions clarification_sessions_update cs_id c)"
  by (rule lc.keepsI, auto simp: wp_simps intro!: lifecycle_tables plans.moves_refl sessions.moves_refl
      pjs.moves_refl plans.moves_append sessions.moves_append pjs.moves_append)+

lemma lc_update_plans:
  assumes "\<And>p. plan_step p (f p)"
  shows "lc.keeps (updateP implementation_plans implementation_plans_update q f)"
  by (rule lc.keepsI)
    (auto simp: wp_simps assms intro!: lifecycle_tables plans.moves_update sessions.moves_refl pjs.moves_refl)

lemma lc_invalidate: "lc.keeps (invalidate_backlog planId now)"
  unfolding invalidate_backlog_def by (rule lc_update_plans) (rule plan_step.invalidate)

lemma lc_validated:
  "lc.keeps (updateP implementation_plans implementation_plans_update q
     (\<lambda>p. p\<lparr>pl_backlog_validated_at := Some now, pl_backlog_validated_state := Some st,
            pl_backlog_validated_version := Some (pl_backlog_version p), pl_updated_at := now\<rparr>))"
  by (rule lc_update_plans) (rule plan_step.validate)

text \<open>A new session that the assessment completes at once.\<close>

lemma lc_session_complete:
  "lc.keeps (bindT (insert_session i p sp a CL_NOT_REQUIRED now) (\<lambda>_.
     bindT (cl_assertValid CL_NOT_REQUIRED CL_COMPLETE) (\<lambda>_.
     bindT (updateP clarification_sessions clarification_sessions_update (\<lambda>c. cs_id c = i)
              (\<lambda>c. c\<lparr>cs_status := CL_COMPLETE, cs_version := 2, cs_updated_at := now\<rparr>)) (\<lambda>_.
     returnT CL_COMPLETE))))"
proof -
  have "update_where (\<lambda>c. cs_id c = i) f (rows @ [c]) = rows @ [f c]"
    if "i \<notin> cs_id ` set rows" "cs_id c = i" for f and rows :: "clarification_session_row list" and c
  proof -
    have "update_where (\<lambda>c. cs_id c = i) f rows = rows" by (intro update_where_none) (use that(1) imageI in metis)
    then show ?thesis using that by (simp add: update_where_def)
  qed
  then show ?thesis
    by (intro lc.keepsI)
      (auto simp: insert_session_def cl_assertValid_def wp_simps
        intro!: lifecycle_tables plans.moves_refl sessions.moves_append pjs.moves_refl)
qed

lemma lc_requests:
  "lc.keeps (insert_request pl p now i f)" "lc.keeps (insert_dependency a b)"
  by (rule lc.keepsI,
      auto simp: insert_request_def insert_dependency_def wp_simps lifecycle_def single_runs_def wf_store_def
        intro: plans.moves_refl sessions.moves_refl pjs.moves_refl)+

lemma lc_workflow_row: "lc.keeps (insertUniqueT n workflow_states workflow_states_update ws_id ws_project_id w)"
  by (rule lc.keepsI)
    (auto simp: wp_simps lifecycle_def single_runs_def wf_store_def
      intro: plans.moves_refl sessions.moves_refl pjs.moves_refl)

text \<open>A run for a request without a first attempt.\<close>

lemma lc_fresh_run:
  assumes "\<not> has_first_attempt f s" "i \<notin> run_id ` set (feature_runs s)"
  shows "lifecycle s (feature_runs_update (\<lambda>rows. rows @ [fresh_run i f now]) s)"
proof -
  have "f \<notin> run_feature_request_id ` set (feature_runs s)" if "single_runs s"
    using assms(1) that by (auto simp: has_first_attempt_def single_runs_def list_ex_iff)
  then show ?thesis
    using assms(2) plans.moves_refl sessions.moves_refl pjs.moves_refl
    by (auto simp: lifecycle_def single_runs_def wf_store_def fresh_run_def)
qed

lemma lc_activate: "lc.keeps (activate_features now n fs)"
proof (induction fs arbitrary: n)
  case (Cons f fs)
  show ?case
  proof (rule lc.keepsI)
    fix s
    have step: "lifecycle s (s\<lparr>draws := d\<rparr>)" for d by (rule lc.R_draws)
    have run: "wp (activate_features now (n + 1) fs) (\<lambda>_ u. lifecycle s u) (\<lambda>_. True)
        (feature_runs_update (\<lambda>rows. rows @ [fresh_run i f now]) (s\<lparr>draws := d\<rparr>))"
      if "\<not> has_first_attempt f s" "i \<notin> run_id ` set (feature_runs s)" for i d
    proof -
      have "lifecycle (s\<lparr>draws := d\<rparr>) (feature_runs_update (\<lambda>rows. rows @ [fresh_run i f now]) (s\<lparr>draws := d\<rparr>))"
        using that by (intro lc_fresh_run) (simp_all add: has_first_attempt_def)
      with step have "lifecycle s (feature_runs_update (\<lambda>rows. rows @ [fresh_run i f now]) (s\<lparr>draws := d\<rparr>))"
        by (rule lc.R_trans)
      then show ?thesis
        by (intro wp_mono [OF lc.keepsD [OF Cons.IH]]) (auto intro: lc.R_trans)
    qed
    show "wp (activate_features now n (f # fs)) (\<lambda>_ u. lifecycle s u) (\<lambda>_. True) s"
      using lc.keepsD [OF Cons.IH] run by (simp add: wp_simps fresh_run_def)
  qed
qed auto

end
