(* ===== verification/LifecycleSteps.thy ===== *)
theory LifecycleSteps
  imports Lifecycle
begin

text \<open>Every planning command, and every step of the system, keeps \<open>lifecycle\<close>.\<close>

section \<open>The compare-and-set on a row that was found\<close>

lemma bind_planning_assertValid [bind_simps]:
  "wp (bindT (assertValidT matrix str machine a b) k) Q E s =
     (if isValid matrix a b then wp (k ()) Q E s else E (TransitionError (str a) (str b) machine))"
  by (simp add: wp_simps)

lemma bind_ifT [bind_simps]: "bindT (if b then m else n) k = (if b then bindT m k else bindT n k)"
  by simp

lemma bind_optionT [bind_simps]:
  "bindT (case x of None \<Rightarrow> m | Some y \<Rightarrow> n y) k = (case x of None \<Rightarrow> bindT m k | Some y \<Rightarrow> bindT (n y) k)"
  by (cases x) simp_all

lemma lc_chain:
  assumes "lifecycle s t" "lc.keeps k"
  shows "wp k (\<lambda>_ u. lifecycle s u) (\<lambda>_. True) t"
  by (intro wp_mono [OF lc.keepsD [OF assms(2)]]) (use assms(1) in \<open>auto intro: lc.R_trans\<close>)

lemma lc_cas_plan:
  assumes "find_plan i p s = Some r" "isValid PLAN_LIFECYCLE_MATRIX (pl_state r) to_s"
    "nv = pl_version r + 1" "v = pl_version r" "\<And>a. lc.keeps (k a)"
  shows "wp (bindT (cas_plan i v to_s nv now) k) (\<lambda>_ u. lifecycle s u) (\<lambda>_. True) s"
proof -
  have "r \<in> set (implementation_plans (planning s))" "pl_id r = i"
    using assms(1) by (auto simp: find_plan_def dest: first_row_in)
  then have "table_moves pl_id plan_step (implementation_plans (planning s))
      (update_where (\<lambda>p. pl_id p = i \<and> pl_version p = v)
        (\<lambda>p. p\<lparr>pl_state := to_s, pl_version := nv, pl_updated_at := now\<rparr>) (implementation_plans (planning s)))"
    using assms(2-4) by (intro plans.moves_cas plan_step.move) auto
  then show ?thesis
    unfolding cas_plan_def wp_bindT wp_updateP
    by (intro lc_chain assms(5) lifecycle_tables) (simp_all add: sessions.moves_refl pjs.moves_refl)
qed

lemma find_session_Some:
  assumes "find_session i p s = Some r"
  shows "r \<in> set (clarification_sessions (planning s))" "cs_id r = i"
  using assms by (auto simp: find_session_def dest: first_row_in)

lemma lc_cas_session:
  assumes "find_session i p s = Some r" "session_step r (f r)" "\<And>a. lc.keeps (k a)"
  shows "wp (bindT (cas_session i v f) k) (\<lambda>_ u. lifecycle s u) (\<lambda>_. True) s"
proof -
  have "table_moves cs_id session_step (clarification_sessions (planning s))
      (update_where (\<lambda>c. cs_id c = i \<and> cs_version c = v) f (clarification_sessions (planning s)))"
    using find_session_Some [OF assms(1)] assms(2) by (rule sessions.moves_cas) simp
  then show ?thesis
    unfolding cas_session_def wp_bindT wp_updateP
    by (intro lc_chain assms(3) lifecycle_tables) (simp_all add: plans.moves_refl pjs.moves_refl)
qed

lemma lc_cas_project:
  assumes "find_project i s = Some r" "isValid PROJECT_LIFECYCLE_MATRIX (pj_state r) to_s"
    "nv = pj_version r + 1" "v = pj_version r" "\<And>a. lc.keeps (k a)"
  shows "wp (bindT (cas_project i v to_s nv now) k) (\<lambda>_ u. lifecycle s u) (\<lambda>_. True) s"
proof -
  have "r \<in> set (projects (planning s))" "pj_id r = i"
    using assms(1) by (auto simp: find_project_def dest: first_row_in)
  then have "table_moves pj_id project_step (projects (planning s))
      (update_where (\<lambda>p. pj_id p = i \<and> pj_version p = v)
        (\<lambda>p. p\<lparr>pj_state := to_s, pj_version := nv, pj_updated_at := now\<rparr>) (projects (planning s)))"
    using assms(2-4) by (intro pjs.moves_cas project_step.move) auto
  then show ?thesis
    unfolding cas_project_def wp_bindT wp_updateP
    by (intro lc_chain assms(5) lifecycle_tables) (simp_all add: sessions.moves_refl plans.moves_refl)
qed

section \<open>The bodies\<close>

lemmas lc_rules0 =
  lc.keeps_bindT lc.keeps_queryT lc.keeps_option lc.keeps_if lc.keeps_throwT lc.keeps_returnT
  lc.keeps_forEachT lc_Let lc_forIndexT lc.keeps_generateId lc_inserts lc_updates lc_insert_rows lc_workflow_event
  lc_outbox_event lc_human_approval lc_human_approval_row lc_assertValid lc_assertVersion lc_invalidate
  lc_validated lc_session_complete lc_requests lc_workflow_row lc_activate

lemma lc_parts:
  "lc.keeps (cl_assertValid a b)" "lc.keeps (pl_assertValid c d)" "lc.keeps (PJ_assertValid e f)"
  "lc.keeps (ae_assertValid x y)" "lc.keeps (ask_question i n now k q)" "lc.keeps (insert_decision i ty act no now)"
  "lc.keeps (insert_gap i now g)" "lc.keeps (insert_question i now qu)" "lc.keeps (insert_assumption i now z)"
  "lc.keeps (insert_session i p sp ass st now)" "lc.keeps (insert_section i k sec)"
  "lc.keeps (insert_criterion i k cr)" "lc.keeps (insert_expectation i k te)"
  "lc.keeps (warn_blocking_gaps envelope p ty st' pl i)" "lc.keeps (update_artifact h1 h2)"
  "lc.keeps (cas_document did prj fs ts now)" "lc.keeps (project_moved envelope i ty e f extra)"
  by (simp_all add: cl_assertValid_def pl_assertValid_def PJ_assertValid_def ae_assertValid_def ask_question_def
      insert_decision_def insert_gap_def insert_question_def insert_assumption_def insert_session_def
      insert_section_def insert_criterion_def insert_expectation_def warn_blocking_gaps_def update_artifact_def
      cas_document_def project_moved_def)
    (intro lc_rules0)+

lemmas lc_rules = lc_rules0 lc_parts

lemma lc_loops:
  "lc.keeps (generate_requests pl p now m fs)" "lc.keeps (generate_dependencies envelope m f)"
  "lc.keeps (import_requests pl p now m gs)" "lc.keeps (import_dependencies m g)"
  "lc.keeps (export_artifact e p ty md pay)" "lc.keeps (export_document e' a)"
proof -
  show "lc.keeps (generate_requests pl p now m fs)"
    by (induction fs arbitrary: m) (auto intro!: lc_rules)
  show "lc.keeps (import_requests pl p now m gs)"
    by (induction gs arbitrary: m) (auto intro!: lc_rules)
  show "lc.keeps (generate_dependencies envelope m f)" "lc.keeps (import_dependencies m g)"
    "lc.keeps (export_artifact e p ty md pay)" "lc.keeps (export_document e' a)"
    unfolding generate_dependencies_def import_dependencies_def export_artifact_def export_document_def
    by (intro lc_rules)+
qed

lemma lc_plain_bodies:
  "lc.keeps (IngestSpecification_body e1)" "lc.keeps (AssessPlanningReadiness_body out e2)"
  "lc.keeps (ResolvePlanningGap_body e3)" "lc.keeps (GenerateImplementationPlan_body e4)"
  "lc.keeps (GenerateFeatureBacklog_body e5)" "lc.keeps (RecordClarificationAnswer_body e6)"
  "lc.keeps (ImportBacklog_body e7)" "lc.keeps (ValidateBacklog_body e8)" "lc.keeps (ExportBacklog_body e9)"
  "lc.keeps (ExportPlan_body e10)" "lc.keeps (CreateProject_body e11)" "lc.keeps (ExportDesignDocument_body e12)"
  unfolding IngestSpecification_body_def AssessPlanningReadiness_body_def ResolvePlanningGap_body_def
    GenerateImplementationPlan_body_def GenerateFeatureBacklog_body_def RecordClarificationAnswer_body_def
    ImportBacklog_body_def ValidateBacklog_body_def ExportBacklog_body_def ExportPlan_body_def
    CreateProject_body_def ExportDesignDocument_body_def
  by (intro lc_rules lc_loops)+

lemma lc_plan_bodies:
  "lc.keeps (SubmitPlanForApproval_body e)" "lc.keeps (ApprovePlan_body e)" "lc.keeps (ActivatePlan_body e)"
  by (rule lc.keepsI,
      (auto simp: SubmitPlanForApproval_body_def ApprovePlan_body_def ActivatePlan_body_def pl_assertValid_def bind_simps
        split: option.splits intro!: lc_cas_plan lc_rules) [1])+

lemma lc_session_bodies:
  "lc.keeps (StartClarification_body e)" "lc.keeps (CompleteClarification_body e)"
  "lc.keeps (RequestAnotherRound_body e)" "lc.keeps (BlockClarification_body e')"
  by (rule lc.keepsI,
      (auto simp: StartClarification_body_def CompleteClarification_body_def RequestAnotherRound_body_def
        BlockClarification_body_def cl_assertValid_def bind_simps
        split: option.splits intro!: lc_cas_session session_step.intros lc_rules) [1])+

lemma lc_project_bodies:
  "lc.keeps (MarkImplementationComplete_body e1)" "lc.keeps (GenerateDesignDocument_body e2)"
  "lc.keeps (RegenerateDesignDocument_body e2)" "lc.keeps (RecordDesignDocumentReady_body e3)"
  "lc.keeps (RequestDesignDocumentRevision_body e4)" "lc.keeps (ApproveDesignDocument_body e4)"
  "lc.keeps (CompleteProject_body e2)"
  by (rule lc.keepsI,
      (auto simp: MarkImplementationComplete_body_def GenerateDesignDocument_body_def
        RegenerateDesignDocument_body_def begin_design_document_def RecordDesignDocumentReady_body_def
        RequestDesignDocumentRevision_body_def ApproveDesignDocument_body_def review_document_def
        CompleteProject_body_def project_for_def move_project_def move_document_def cas_project_accepted_def
        PJ_assertValid_def bind_simps
        split: option.splits intro!: lc_cas_project lc_rules) [1])+

lemmas lc_bodies = lc_plain_bodies lc_plan_bodies lc_session_bodies lc_project_bodies

section \<open>The commands\<close>

lemma lc_transaction: "lc.keeps m \<Longrightarrow> lc.keepsA (transaction (with_claim_ttl ttl key scope m))"
  by (intro lc.keeps_transaction lc.keeps_with_claim)

lemma lc_claimed: "(\<And>e. lc.keeps (body e)) \<Longrightarrow> lc.keepsA (claimed_transaction_ttl ttl scope body e)"
  unfolding claimed_transaction_ttl_def by (rule lc_transaction)

lemma lc_handlers:
  "lc.keepsA (handler_execute ImportBacklogHandler e1)" "lc.keepsA (handler_execute ValidateBacklogHandler e2)"
  "lc.keepsA (handler_execute (MarkImplementationCompleteHandler conflict) e3)"
proof -
  show "lc.keepsA (handler_execute ImportBacklogHandler e1)"
    by (auto simp: ImportBacklogHandler_def lc_claimed lc_bodies
        intro!: lc.keepsA_bindA lc.keepsA_queryA lc.keepsA_throwA lc.keepsA_returnA split: option.split)
  have "lc.keeps (ValidateBacklog_tx e2)"
    unfolding ValidateBacklog_tx_def
  proof (rule lc.keeps_bindT [OF lc.keeps_claim])
    fix c
    show "lc.keeps (case c of NotOwned result \<Rightarrow> returnT (result, [])
      | Owned claimId \<Rightarrow> bindT (ValidateBacklog_body e2) (\<lambda>(result, problems).
          bindT (fulfillIdempotencyKey claimId result) (\<lambda>_. returnT (result, problems))))"
      by (cases c) (auto intro!: lc.keeps_bindT lc_bodies lc.keeps_fulfill split: prod.split)
  qed
  then show "lc.keepsA (handler_execute ValidateBacklogHandler e2)"
    by (auto simp: ValidateBacklogHandler_def lc.keeps_transaction
        intro!: lc.keepsA_bindA lc.keepsA_throwA lc.keepsA_returnA)
  have "lc.keepsA (serializable_attempts conflict (with_claim_ttl ttl key scope (MarkImplementationComplete_body e3)) k n)"
    for ttl key scope k n
    by (induction n arbitrary: k)
      (auto simp: serializable_transaction_def
        intro!: lc.keepsA_throwA lc.keepsA_catchA lc_transaction lc_bodies)
  then show "lc.keepsA (handler_execute (MarkImplementationCompleteHandler conflict) e3)"
    by (simp add: MarkImplementationCompleteHandler_def lc.keepsA_throwA)
qed

lemma planning_lifecycle:
  assumes "\<And>e. lc.keepsA (planner e)"
  shows "lc.keepsA (run_planning planner q)"
proof -
  have "lc.keepsA (handler_execute (AssessPlanningReadinessHandler planner) e)" for e
    using assms by (simp add: AssessPlanningReadinessHandler_def lc.keepsA_bindA lc_claimed lc_bodies)
  then show ?thesis
    by (cases q)
      (simp_all add: lc.keepsA_execute lc_handlers,
       simp_all add: lc.keepsA_execute planning_handler_defs lc_claimed lc_bodies)
qed

section \<open>The system\<close>

lemma run_step_attempt: "run_step r r' \<Longrightarrow> run_attempt_no r' = run_attempt_no r"
  by (induction rule: run_step.induct) (simp_all add: set_run_state_def)

lemma run_moves_attempt: "run_moves r r' \<Longrightarrow> run_attempt_no r' = run_attempt_no r"
  unfolding run_moves_def by (induction rule: rtranclp_induct) (auto dest: run_step_attempt)

lemma evolves_lifecycle:
  assumes "evolves s t"
  shows "lifecycle s t"
proof -
  have "single_runs t" if "single_runs s"
  proof -
    from that assms have t: "wf_store t" "list_all2 run_moves (feature_runs s) (feature_runs t)"
      by (auto simp: single_runs_def evolves_def rows_move_def)
    from t(2) have maps: "map run_feature_request_id (feature_runs t) = map run_feature_request_id (feature_runs s)"
      "map run_attempt_no (feature_runs t) = map run_attempt_no (feature_runs s)"
      by (induction rule: list_all2_induct) (auto dest: run_moves_frame run_moves_attempt)
    have "\<forall>n \<in> set (map run_attempt_no (feature_runs t)). n = 1"
      using that by (subst maps(2)) (auto simp: single_runs_def)
    with t(1) maps(1) that show ?thesis by (simp add: single_runs_def)
  qed
  then show ?thesis
    using assms plans.moves_refl sessions.moves_refl pjs.moves_refl
    by (auto simp: lifecycle_def evolves_def same_surroundings_def)
qed

lemma queue_statement_lifecycle:
  "lifecycle s (snd (update_rows outbox_table p f s))" "lifecycle s (snd (update_rows inbox_table p' f' s))"
  by (auto simp: update_rows_def outbox_table_def inbox_table_def intro!: lifecycle_frame)

lemma locks_only_lifecycle: "lock_frame.keepsA m \<Longrightarrow> lifecycle s (snd (m s))"
proof -
  assume "lock_frame.keepsA m"
  then have eq: "snd (m s) = s\<lparr>workflow_locks := workflow_locks (snd (m s)), draws := draws (snd (m s))\<rparr>"
    by (simp add: lock_frame.keepsA_def locks_only_def)
  show ?thesis by (subst eq) (simp add: lifecycle_frame)
qed

lemma step_lifecycle:
  assumes "system_step bound s t"
  shows "lifecycle s t"
  using assms
proof (induction rule: system_step.induct)
  case (command s q)
  then show ?case using request_evolves [of q] by (intro evolves_lifecycle) (simp add: evo.keepsA_def)
next
  case (plan planner s q)
  then have "lc.keepsA (planner e)" for e
    unfolding lc.keepsA_def by (blast intro: lc.R_rtranclp)
  then show ?case using planning_lifecycle [of planner q] by (simp add: lc.keepsA_def)
next
  case (review s i h a c fs)
  then show ?case by (intro evolves_lifecycle body_transaction body_clean_review)
next
  case (dispatch handlers options s)
  then show ?case
    unfolding pollAndDispatch_def by (intro lc.keeps_poll lc.handlers_keep_R queue_statement_lifecycle)
next
  case (process handlers options s)
  then show ?case
    unfolding pollAndProcess_def by (intro lc.keeps_poll lc.handlers_keep_R queue_statement_lifecycle)
next
  case (sweep s)
  have "snd (sweep s) = idempotency_keys_update (delete_where (\<lambda>r. ik_expires_at r \<le> clock s)) s"
    by (simp add: sweep_def transaction_def bindT_def queryT_def executeAffectedT_def)
  then show ?case by (simp add: lifecycle_frame)
next
  case tick
  then show ?case by (simp add: lifecycle_frame)
next
  case arrive
  then show ?case by (simp add: lifecycle_frame)
next
  case log_event
  then show ?case by (simp add: lifecycle_frame)
next
  case disposition
  then show ?case by (simp add: lifecycle_frame)
next
  case outside
  then show ?case by (simp add: lifecycle_frame)
qed (auto intro: locks_only_lifecycle acquire_locks_only release_locks_only heartbeat_locks_only)

lemma steps_lifecycle:
  assumes "(system_step bound)\<^sup>*\<^sup>* s t"
  shows "lifecycle s t"
  using assms by (induction rule: rtranclp_induct) (auto intro: lc.R_refl lc.R_trans step_lifecycle)

end
