(* ===== verification/BacklogRoundtrip.thy ===== *)
theory BacklogRoundtrip
  imports BacklogFacts
begin

text \<open>
  What \<open>render_backlog\<close> writes is read back by \<open>parseBacklogMarkdown\<close>, and what the parser accepts
  is in the form the import relies on.
\<close>

section \<open>Headings\<close>

lemma strip_prefix_append [simp]: "strip_prefix p (p @ s) = Some s"
  by (simp add: strip_prefix_def)

lemma strip_prefix_Some: "strip_prefix p s = Some r \<longleftrightarrow> s = p @ r"
  by (auto simp: strip_prefix_def dest: sym) (metis append_take_drop_id)

definition frid_ok :: "string \<Rightarrow> bool" where
  "frid_ok s = (case strip_prefix ''FR-'' s of None \<Rightarrow> False | Some ds \<Rightarrow> ds \<noteq> [] \<and> list_all is_digit ds)"

lemma frid_ok_iff: "frid_ok s \<longleftrightarrow> (\<exists>ds. s = ''FR-'' @ ds \<and> ds \<noteq> [] \<and> list_all is_digit ds)"
  unfolding frid_ok_def strip_prefix_Some [symmetric] by (auto split: option.split)

lemma feature_heading_render:
  assumes "frid_ok fr" "lazy_title t = Some t"
  shows "feature_heading (''## '' @ fr @ '': '' @ t) = Some (fr, t)"
proof -
  obtain ds where ds: "fr = ''FR-'' @ ds" "ds \<noteq> []" "list_all is_digit ds"
    using assms(1) by (auto simp: frid_ok_iff)
  have "\<not> is_digit CHR '':''" by (simp add: is_digit_def)
  then have "takeWhile is_digit (ds @ '': '' @ t) = ds" "dropWhile is_digit (ds @ '': '' @ t) = '': '' @ t"
    using ds(3) by (simp_all add: list_all_iff takeWhile_append dropWhile_append)
  moreover have "''## '' @ fr @ '': '' @ t = ''## FR-'' @ (ds @ '': '' @ t)" by (simp add: ds(1))
  moreover have "strip_prefix '': '' ('': '' @ t) = Some t" by (rule strip_prefix_append)
  ultimately show ?thesis
    using assms(2) ds(1,2) unfolding feature_heading_def by (simp only: strip_prefix_append option.case if_False)
qed

lemma feature_heading_Some:
  assumes "feature_heading l = Some (fr, t)"
  shows "frid_ok fr" "lazy_title t = Some t" "t \<noteq> []" "list_all js_dot t"
proof -
  obtain r rest where r: "l = ''## FR-'' @ r" "takeWhile is_digit r \<noteq> []" "lazy_title rest = Some t"
    "fr = ''FR-'' @ takeWhile is_digit r"
    using assms by (auto simp: feature_heading_def strip_prefix_Some split: option.splits if_splits)
  show "frid_ok fr"
    unfolding frid_ok_iff r(4) using r(2) by (auto simp: list_all_iff dest: set_takeWhileD)
  have t: "rest \<noteq> []" "t = (if rtrim rest = [] then take 1 rest else rtrim rest)" "list_all js_dot t"
    using r(3) by (auto simp: lazy_title_def Let_def split: if_splits)
  then show "t \<noteq> []" "list_all js_dot t" by auto
  have "rtrim (take 1 rest) = []" if "rtrim rest = []"
  proof -
    have "list_all js_space rest" using that by (auto simp: rtrim_def list_all_iff)
    then show ?thesis by (cases rest) (auto simp: rtrim_def)
  qed
  then show "lazy_title t = Some t"
    using t by (auto simp: lazy_title_def Let_def)
qed

lemma kind_line_render: "kind_line (''Kind: '' @ kind_str k) = Some k"
  by (cases k) (simp_all add: kind_line_def strip_prefix_def)

lemma no_heading_simps [simp]: "feature_heading [] = None" "feature_heading (''Kind: '' @ x) = None"
  by (simp_all add: feature_heading_def strip_prefix_def)

section \<open>Reading back\<close>

text \<open>
  A row the export writes in a way the parser reads: an identifier of the accepted form, a title
  without line breaks or trailing white space, a trimmed description without a line that looks like
  the heading of a feature.
\<close>

definition exportable :: "feature_entry \<Rightarrow> bool" where
  "exportable f =
     (frid_ok (fe_fr_id f) \<and> lazy_title (fe_title f) = Some (fe_title f)
      \<and> fe_description f \<noteq> [] \<and> trim (fe_description f) = fe_description f
      \<and> CR \<notin> set (fe_description f)
      \<and> (\<forall>l \<in> set (split_lines (fe_description f)). feature_heading l = None))"

fun parsed_entries :: "int \<Rightarrow> feature_entry list \<Rightarrow> parsed_feature list" where
  "parsed_entries i [] = []"
| "parsed_entries i (f # fs) =
     \<lparr>pf_frId = fe_fr_id f, pf_title = fe_title f, pf_description = fe_description f, pf_kind = fe_kind f,
      pf_priority = i, pf_dependsOnFrIds = []\<rparr> # parsed_entries (i + 1) fs"

definition body_lines :: "feature_entry \<Rightarrow> string list" where
  "body_lines f = [[], ''Kind: '' @ kind_str (fe_kind f), []] @ split_lines (fe_description f) @ [[]]"

fun entry_sections :: "int \<Rightarrow> feature_entry list \<Rightarrow> raw_section list" where
  "entry_sections i [] = []"
| "entry_sections i (f # fs) =
     \<lparr>rs_frId = fe_fr_id f, rs_title = fe_title f, rs_headingLine = i + 1, rs_bodyLines = body_lines f,
      rs_bodyStartLine = i + 2\<rparr> # entry_sections (i + 1 + int (length (body_lines f))) fs"

definition heading_line :: "feature_entry \<Rightarrow> string" where
  "heading_line f = ''## '' @ fe_fr_id f @ '': '' @ fe_title f"

lemma collect_body:
  assumes "\<forall>l \<in> set body. feature_heading l = None"
  shows "collect_sections i (body @ ls) (Some c) =
    collect_sections (i + int (length body)) ls (Some (c\<lparr>rs_bodyLines := rs_bodyLines c @ body\<rparr>))"
  using assms
proof (induction body arbitrary: i c)
  case (Cons l body)
  then show ?case by (simp add: add.assoc)
qed simp

lemma body_no_heading:
  assumes "exportable f"
  shows "\<forall>l \<in> set (body_lines f). feature_heading l = None"
proof -
  have "feature_heading (''Kind: '' @ kind_str (fe_kind f)) = None" by (rule no_heading_simps)
  then show ?thesis using assms unfolding exportable_def body_lines_def by (auto simp del: append.simps)
qed

lemma collect_rendered:
  assumes "\<forall>f \<in> set fs. exportable f"
  shows "collect_sections i
      (concat (map (\<lambda>f. heading_line f # body_lines f) fs)) cur =
    (case cur of None \<Rightarrow> [] | Some c \<Rightarrow> [c]) @ entry_sections i fs"
  using assms
proof (induction fs arbitrary: i cur)
  case (Cons f fs)
  have h: "feature_heading (heading_line f) = Some (fe_fr_id f, fe_title f)"
    unfolding heading_line_def using Cons.prems by (intro feature_heading_render) (auto simp: exportable_def)
  have f: "exportable f" using Cons.prems by simp
  show ?case
    using Cons h collect_body [OF body_no_heading [OF f]] by (simp add: add.commute add.left_commute)
qed (simp split: option.split)

lemma find_kind_body: "find_kind_line (body_lines f) = Some 1"
proof -
  have "trim (''Kind: '' @ kind_str (fe_kind f)) = ''Kind: '' @ kind_str (fe_kind f)"
    by (intro trim_id) (cases "fe_kind f"; simp add: js_space_def is_space_def)
  then show ?thesis
    by (simp add: body_lines_def trim_def rtrim_def strip_prefix_def)
qed

lemma kind_of_body: "kind_line (trim (body_lines f ! 1)) = Some (fe_kind f)"
proof -
  have "trim (''Kind: '' @ kind_str (fe_kind f)) = ''Kind: '' @ kind_str (fe_kind f)"
    by (intro trim_id) (cases "fe_kind f"; simp add: js_space_def is_space_def)
  then show ?thesis using kind_line_render by (simp add: body_lines_def)
qed

lemma join_snoc_blank: "ls \<noteq> [] \<Longrightarrow> join_lines (ls @ [[]]) = join_lines ls @ [LF]"
  by (induction ls rule: join_lines.induct) simp_all

lemma description_of_body:
  assumes "exportable f"
  shows "trim (join_lines (drop 2 (body_lines f))) = fe_description f"
proof -
  have "join_lines (drop 2 (body_lines f)) = [LF] @ fe_description f @ [LF]"
  proof -
    have "join_lines (split_lines (fe_description f) @ [[]]) = fe_description f @ [LF]"
      using assms by (simp add: join_snoc_blank join_split_lines exportable_def)
    then show ?thesis
      by (cases "split_lines (fe_description f)") (simp_all add: body_lines_def)
  qed
  moreover have "list_all js_space [LF]" by (simp add: js_space_def is_space_def)
  ultimately have "trim (join_lines (drop 2 (body_lines f))) = trim (fe_description f)"
    by (simp only: trim_pad)
  then show ?thesis using assms by (simp add: exportable_def)
qed

lemma parse_rendered:
  assumes "\<forall>f \<in> set fs. exportable f" "distinct (map fe_fr_id fs)" "set (map fe_fr_id fs) \<inter> set seen = {}"
  shows "parse_sections seen k (entry_sections i fs) = Inr (parsed_entries k fs)"
  using assms
proof (induction fs arbitrary: seen k i)
  case (Cons f fs)
  have f: "exportable f" using Cons.prems by simp
  have "parse_sections (fe_fr_id f # seen) (k + 1) (entry_sections j fs) = Inr (parsed_entries (k + 1) fs)" for j
    using Cons.prems by (intro Cons.IH) auto
  moreover have "fe_description f \<noteq> []" using f by (simp add: exportable_def)
  ultimately show ?case
    using Cons.prems find_kind_body [of f] kind_of_body [of f] description_of_body [OF f]
    by (simp add: Let_def numeral_2_eq_2)
qed simp

lemma render_lines:
  assumes "\<forall>f \<in> set fs. exportable f"
  shows "split_lines (render_backlog fs) =
    ''# Feature Backlog'' # [] # concat (map (\<lambda>f. heading_line f # body_lines f) fs)"
proof -
  have dot: "LF \<notin> set t \<and> CR \<notin> set t" if "lazy_title t = Some t" for t
    using that by (auto simp: lazy_title_def Let_def list_all_iff js_dot_def split: if_splits)
  have dig: "LF \<notin> set t \<and> CR \<notin> set t" if "frid_ok t" for t
  proof -
    have "\<not> is_digit LF" "\<not> is_digit CR" by (simp_all add: is_digit_def)
    with that show ?thesis by (auto simp: frid_ok_iff list_all_iff)
  qed
  have kind: "LF \<notin> set (kind_str k) \<and> CR \<notin> set (kind_str k)" for k
    by (cases k) simp_all
  have entry: "concat (map split_lines (entry_lines f)) = heading_line f # body_lines f"
    "\<forall>l \<in> set (entry_lines f). CR \<notin> set l" if "exportable f" for f
  proof -
    have "LF \<notin> set (heading_line f)" "LF \<notin> set (''Kind: '' @ kind_str (fe_kind f))"
      "CR \<notin> set (heading_line f)" "CR \<notin> set (''Kind: '' @ kind_str (fe_kind f))"
      "CR \<notin> set (fe_description f)"
      using that dot [of "fe_title f"] dig [of "fe_fr_id f"] kind [of "fe_kind f"] by (auto simp: exportable_def heading_line_def)
    moreover define k where "k = ''Kind: '' @ kind_str (fe_kind f)"
    ultimately show "concat (map split_lines (entry_lines f)) = heading_line f # body_lines f"
      "\<forall>l \<in> set (entry_lines f). CR \<notin> set l"
      unfolding entry_lines_def body_lines_def heading_line_def [symmetric] k_def [symmetric]
      by (simp_all add: split_lines_plain)
  qed
  have "split_lines (render_backlog fs) =
      concat (map split_lines ([''# Feature Backlog'', []] @ concat (map entry_lines fs)))"
    unfolding render_backlog_def
  proof (rule split_lines_join)
    fix l assume "l \<in> set ([''# Feature Backlog'', []] @ concat (map entry_lines fs))"
    then have "CR \<notin> set l" using assms entry(2) by auto
    then show "l = [] \<or> last l \<noteq> CR" using last_in_set by fastforce
  qed simp
  moreover have "concat (map split_lines (concat (map entry_lines fs))) =
      concat (map (\<lambda>f. heading_line f # body_lines f) fs)"
    using assms by (induction fs) (simp_all add: entry(1) del: append.simps)
  ultimately show ?thesis by (simp add: split_lines_plain)
qed

text \<open>
  C35. Exported and parsed again, a backlog comes back: the same identifiers, titles, descriptions
  and kinds in the same order, the position as priority, and no dependencies, which the document
  does not carry. This holds for rows of the form \<open>exportable\<close>; a description with a line that looks
  like a heading does not survive (\<open>heading_splits_feature\<close>).
\<close>

theorem backlog_roundtrip:
  assumes "fs \<noteq> []" "\<forall>f \<in> set fs. exportable f" "distinct (map fe_fr_id fs)"
  shows "parseBacklogMarkdown (render_backlog fs) = Inr (parsed_entries 0 fs)"
proof -
  have "trim ''# Feature Backlog'' \<noteq> []"
    by (subst trim_id) (simp_all add: js_space_def is_space_def)
  moreover have "title_heading ''# Feature Backlog''"
    by (simp add: title_heading_def strip_prefix_def)
  moreover have "entry_sections 2 fs \<noteq> []" using assms(1) by (cases fs) simp_all
  moreover have "collect_sections 1 ([] # concat (map (\<lambda>f. heading_line f # body_lines f) fs)) None
      = entry_sections 2 fs"
    using collect_rendered [OF assms(2), of 2 None] by simp
  ultimately show ?thesis
    using parse_rendered [OF assms(2,3), of "[]" 0 2] unfolding parseBacklogMarkdown_def
    by (simp add: render_lines [OF assms(2)] Let_def)
qed


theorem backlog_roundtrip_witness:
  "parseBacklogMarkdown (render_backlog
     [\<lparr>fe_fr_id = ''FR-1'', fe_title = ''A'', fe_description = ''x'', fe_kind = FEATURE\<rparr>,
      \<lparr>fe_fr_id = ''FR-20'', fe_title = ''B'', fe_description = ''y'', fe_kind = DISCOVERY\<rparr>]) =
   Inr (parsed_entries 0
     [\<lparr>fe_fr_id = ''FR-1'', fe_title = ''A'', fe_description = ''x'', fe_kind = FEATURE\<rparr>,
      \<lparr>fe_fr_id = ''FR-20'', fe_title = ''B'', fe_description = ''y'', fe_kind = DISCOVERY\<rparr>])"
proof (rule backlog_roundtrip)
  have "exportable \<lparr>fe_fr_id = ''FR-1'', fe_title = ''A'', fe_description = ''x'', fe_kind = FEATURE\<rparr>"
    "exportable \<lparr>fe_fr_id = ''FR-20'', fe_title = ''B'', fe_description = ''y'', fe_kind = DISCOVERY\<rparr>"
    by code_simp+
  then show "\<forall>f \<in> set
     [\<lparr>fe_fr_id = ''FR-1'', fe_title = ''A'', fe_description = ''x'', fe_kind = FEATURE\<rparr>,
      \<lparr>fe_fr_id = ''FR-20'', fe_title = ''B'', fe_description = ''y'', fe_kind = DISCOVERY\<rparr>]. exportable f"
    by simp
qed simp_all

section \<open>What the parser accepts\<close>

lemma collect_headings:
  "c \<in> set (collect_sections i ls cur) \<Longrightarrow>
   (\<And>d. cur = Some d \<Longrightarrow> \<exists>l. feature_heading l = Some (rs_frId d, rs_title d)) \<Longrightarrow>
   \<exists>l. feature_heading l = Some (rs_frId c, rs_title c)"
proof (induction i ls cur rule: collect_sections.induct)
  case (1 i cur)
  then show ?case by (auto split: option.splits)
next
  case (2 i l ls cur)
  show ?case
  proof (cases "feature_heading l")
    case None
    with 2(1) [OF None] 2(3,4) show ?thesis by (cases cur) auto
  next
    case (Some h)
    obtain fr t where h: "h = (fr, t)" by fastforce
    with Some 2(2) [OF Some h [symmetric]] 2(3,4) show ?thesis
      by (cases cur) (auto split: option.splits)
  qed
qed

lemma parse_sections_ok:
  assumes "parse_sections seen k cs = Inr fs"
    "\<forall>c \<in> set cs. frid_ok (rs_frId c) \<and> rs_title c \<noteq> [] \<and> list_all js_dot (rs_title c)"
  shows "distinct (map pf_frId fs) \<and> set (map pf_frId fs) \<inter> set seen = {}
    \<and> map pf_priority fs = map (\<lambda>i. k + int i) [0..<length fs] \<and> length fs = length cs
    \<and> (\<forall>f \<in> set fs. frid_ok (pf_frId f) \<and> pf_title f \<noteq> [] \<and> list_all js_dot (pf_title f)
          \<and> pf_description f \<noteq> [] \<and> trim (pf_description f) = pf_description f \<and> pf_dependsOnFrIds f = [])"
  using assms
proof (induction cs arbitrary: seen k fs)
  case (Cons c cs)
  obtain d kind gs where step: "rs_frId c \<notin> set seen" "trim d \<noteq> []"
    "parse_sections (rs_frId c # seen) (k + 1) cs = Inr gs"
    "fs = \<lparr>pf_frId = rs_frId c, pf_title = rs_title c, pf_description = trim d, pf_kind = kind,
           pf_priority = k, pf_dependsOnFrIds = []\<rparr> # gs"
    using Cons.prems(1) by (auto simp: Let_def split: if_splits option.splits sum.splits)
  have "map (\<lambda>i. k + int i) [0..<length fs] = k # map (\<lambda>i. k + 1 + int i) [0..<length gs]"
    by (simp add: step(4) upt_conv_Cons del: upt_Suc) (simp add: map_Suc_upt [symmetric] del: upt_Suc map_Suc_upt)
  then show ?case
    using Cons.IH [OF step(3)] Cons.prems(2) step(1,2,4) by auto
qed simp

lemma parsed_shape:
  assumes "parseBacklogMarkdown markdown = Inr fs"
  shows "fs \<noteq> [] \<and> distinct (map pf_frId fs) \<and> map pf_priority fs = map int [0..<length fs]
    \<and> (\<forall>f \<in> set fs. frid_ok (pf_frId f) \<and> pf_title f \<noteq> [] \<and> list_all js_dot (pf_title f)
          \<and> pf_description f \<noteq> [] \<and> trim (pf_description f) = pf_description f \<and> pf_dependsOnFrIds f = [])"
proof -
  obtain i body where sections: "collect_sections i body None \<noteq> []"
    "parse_sections [] 0 (collect_sections i body None) = Inr fs"
    using assms unfolding parseBacklogMarkdown_def
    by (auto simp: Let_def split: list.splits if_splits)
  have "\<forall>c \<in> set (collect_sections i body None).
      frid_ok (rs_frId c) \<and> rs_title c \<noteq> [] \<and> list_all js_dot (rs_title c)"
    using collect_headings [of _ i body None] feature_heading_Some by blast
  from parse_sections_ok [OF sections(2) this] sections(1) show ?thesis by auto
qed

lemma heading_splits_feature:
  "parseBacklogMarkdown (render_backlog
     [\<lparr>fe_fr_id = ''FR-1'', fe_title = ''A'',
       fe_description = ''see'' @ [LF] @ ''## FR-2: B'' @ [LF] @ ''Kind: feature'' @ [LF] @ ''not a feature'',
       fe_kind = FEATURE\<rparr>]) =
   Inr [\<lparr>pf_frId = ''FR-1'', pf_title = ''A'', pf_description = ''see'', pf_kind = FEATURE, pf_priority = 0,
         pf_dependsOnFrIds = []\<rparr>,
        \<lparr>pf_frId = ''FR-2'', pf_title = ''B'', pf_description = ''not a feature'', pf_kind = FEATURE,
         pf_priority = 1, pf_dependsOnFrIds = []\<rparr>]"
  by code_simp

end
