(* ===== verification/PlanningFacts.thy ===== *)
theory PlanningFacts
  imports LifecycleSteps SystemFacts BacklogRoundtrip
begin

text \<open>
  What the planning phase guarantees: the three machines it drives keep to their tables over any
  steps of the system, a plan is submitted only with a valid backlog, activation starts exactly the
  executable requests, and the two checks of a backlog are exact.
\<close>

section \<open>The machines of planning over time\<close>

lemma plan_edges: "edges PLAN_LIFECYCLE_MATRIX =
    {(PL_DRAFT, PL_PENDING_APPROVAL), (PL_PENDING_APPROVAL, PL_APPROVED), (PL_APPROVED, PL_ACTIVATED_FOR_EXECUTION)}"
  by (simp add: edges_def PLAN_LIFECYCLE_MATRIX_def edge_of_def)

lemma clarification_edges: "edges CLARIFICATION_MATRIX =
    {(CL_NOT_REQUIRED, CL_COMPLETE), (CL_REQUIRED, CL_IN_PROGRESS), (CL_IN_PROGRESS, CL_COMPLETE),
     (CL_IN_PROGRESS, CL_REQUIRED), (CL_IN_PROGRESS, CL_BLOCKED), (CL_REQUIRED, CL_BLOCKED)}"
  by (auto simp: edges_def CLARIFICATION_MATRIX_def edge_of_def)

lemma project_edges: "edges PROJECT_LIFECYCLE_MATRIX =
    {(PJ_ACTIVE, PJ_IMPLEMENTATION_COMPLETE), (PJ_IMPLEMENTATION_COMPLETE, PJ_DESIGN_DOCUMENT_GENERATING),
     (PJ_DESIGN_DOCUMENT_GENERATING, PJ_DESIGN_DOCUMENT_READY_FOR_REVIEW),
     (PJ_DESIGN_DOCUMENT_READY_FOR_REVIEW, PJ_DESIGN_DOCUMENT_REVISION_REQUESTED),
     (PJ_DESIGN_DOCUMENT_REVISION_REQUESTED, PJ_DESIGN_DOCUMENT_GENERATING),
     (PJ_DESIGN_DOCUMENT_READY_FOR_REVIEW, PJ_DESIGN_DOCUMENT_APPROVED),
     (PJ_DESIGN_DOCUMENT_APPROVED, PJ_PROJECT_COMPLETE)}"
  by (auto simp: edges_def PROJECT_LIFECYCLE_MATRIX_def edge_of_def)

lemmas planning_edges = isValid_iff_edge plan_edges clarification_edges project_edges

text \<open>The position of a state on the plan's straight way.\<close>

fun plan_rank :: "PlanState \<Rightarrow> nat" where
  "plan_rank PL_DRAFT = 0"
| "plan_rank PL_PENDING_APPROVAL = 1"
| "plan_rank PL_APPROVED = 2"
| "plan_rank PL_ACTIVATED_FOR_EXECUTION = 3"

lemma plan_edge_rank: "(a, b) \<in> edges PLAN_LIFECYCLE_MATRIX \<Longrightarrow> plan_rank b = Suc (plan_rank a)"
  by (auto simp: plan_edges)

lemma plan_path_rank: "(a, b) \<in> edges PLAN_LIFECYCLE_MATRIX ^^ n \<Longrightarrow> plan_rank b = plan_rank a + n"
  by (induction n arbitrary: b) (auto dest: plan_edge_rank)

text \<open>A sample: one project with a plan and a clarification.\<close>

definition sample_plan :: "PlanState \<Rightarrow> int \<Rightarrow> string option \<Rightarrow> plan_row" where
  "sample_plan st v validated =
     \<lparr>pl_id = ''pl1'', pl_project_id = ''p1'', pl_assessment_id = Some ''as1'', pl_state = st, pl_title = ''t'',
      pl_summary = None, pl_backlog_version = 2, pl_backlog_validated_at = None,
      pl_backlog_validated_state = validated, pl_backlog_validated_version = Some 2, pl_version = v,
      pl_created_at = 0, pl_updated_at = 0\<rparr>"

definition sample_session :: "ClarificationStatus \<Rightarrow> int \<Rightarrow> int \<Rightarrow> clarification_session_row" where
  "sample_session st r v =
     \<lparr>cs_id = ''cs1'', cs_project_id = ''p1'', cs_specification_input_id = None, cs_assessment_id = Some ''as1'',
      cs_status = st, cs_round = r, cs_max_rounds = 3, cs_round_timeout_at = None, cs_version = v,
      cs_created_at = 0, cs_updated_at = 0\<rparr>"

definition sample_project :: "ProjectState \<Rightarrow> int \<Rightarrow> project_row" where
  "sample_project st v =
     \<lparr>pj_id = ''p1'', pj_name = ''P'', pj_description = None, pj_state = st, pj_version = v, pj_updated_at = 0\<rparr>"

definition planned_store :: "feature_run_row list \<Rightarrow> plan_row \<Rightarrow> clarification_session_row \<Rightarrow> project_row \<Rightarrow> store" where
  "planned_store runs p c j =
     sample_store runs (sample_ws None AU_RUNNING)
       \<lparr>planning := no_planning\<lparr>implementation_plans := [p], clarification_sessions := [c], projects := [j]\<rparr>\<rparr>"

definition no_planner :: "assess_payload envelope \<Rightarrow> planner_output db_action" where
  "no_planner e = throwA (OtherError ''no planner'')"

lemma planning_steps: "(system_step bound)\<^sup>*\<^sup>* s (snd (run_planning no_planner q s))"
  by (intro r_into_rtranclp system_step.plan) (simp add: no_planner_def throwA_def)

definition plan_envelope :: "UserRole \<Rightarrow> int \<Rightarrow> plan_payload envelope" where
  "plan_envelope role v =
     sample_envelope role Human ''k'' \<lparr>py_planId = ''pl1'', py_projectId = ''p1'', py_expectedVersion = v\<rparr>"

text \<open>What running a planning command on a sample rewrites with.\<close>

lemmas plan_run =
  run_simps planned_store_def sample_plan_def sample_session_def sample_project_def plan_envelope_def
  find_plan_def cas_plan_def updateP_def insertP_def assertValidT_eq pl_assertValid_def planning_edges

definition draft_store :: store where
  "draft_store =
     planned_store [] (sample_plan PL_DRAFT 1 (Some ''valid'')) (sample_session CL_REQUIRED 1 4) (sample_project PJ_ACTIVE 1)"

definition submit_request :: planning_request where
  "submit_request = SubmitPlanForApproval (plan_envelope OPERATOR 1)"

lemma submitted:
  "\<exists>res t. run_planning no_planner submit_request draft_store = (Inr res, t)
     \<and> implementation_plans (planning t) = [sample_plan PL_PENDING_APPROVAL 2 (Some ''valid'')\<lparr>pl_updated_at := 1000\<rparr>]"
  by (simp add: submit_request_def draft_store_def plan_run SubmitPlanForApprovalHandler_def
      SubmitPlanForApproval_body_def unresolved_blocking_gaps_def)

lemma drafted:
  "implementation_plans (planning draft_store) = [sample_plan PL_DRAFT 1 (Some ''valid'')]"
  "clarification_sessions (planning draft_store) = [sample_session CL_REQUIRED 1 4]"
  "projects (planning draft_store) = [sample_project PJ_ACTIVE 1]"
  by (simp_all add: draft_store_def planned_store_def)

text \<open>
  C37. Whatever the system does, a plan keeps its row, project, assessment and texts; each version it
  gains is one step on the way from \<open>draft\<close> over \<open>pending_approval\<close> and \<open>approved\<close> to
  \<open>activated_for_execution\<close>, so it gains at most three; and its backlog version never falls.
\<close>

theorem plans_follow_lifecycle:
  assumes "(system_step bound)\<^sup>*\<^sup>* s t" "distinct (map pl_id (implementation_plans (planning s)))"
    "p \<in> set (implementation_plans (planning s))"
  shows "\<exists>q \<in> set (implementation_plans (planning t)).
      pl_id q = pl_id p \<and> pl_project_id q = pl_project_id p \<and> pl_assessment_id q = pl_assessment_id p
      \<and> pl_backlog_version p \<le> pl_backlog_version q
      \<and> (\<exists>n. (pl_state p, pl_state q) \<in> edges PLAN_LIFECYCLE_MATRIX ^^ n
             \<and> pl_version q = pl_version p + int n \<and> n \<le> 3 - plan_rank (pl_state p))"
proof -
  obtain q where q: "q \<in> set (implementation_plans (planning t))" "plan_step\<^sup>*\<^sup>* p q"
    using steps_lifecycle [OF assms(1)] assms(2,3) by (auto simp: lifecycle_def table_moves_def)
  have rank: "plan_rank (pl_state q) \<le> 3" by (cases "pl_state q") simp_all
  note steps = plan_steps [OF q(2)]
  then have "nat (pl_version q - pl_version p) \<le> 3 - plan_rank (pl_state p)"
    using plan_path_rank [of "pl_state p" "pl_state q"] rank by fastforce
  with steps have "\<exists>n. (pl_state p, pl_state q) \<in> edges PLAN_LIFECYCLE_MATRIX ^^ n
      \<and> pl_version q = pl_version p + int n \<and> n \<le> 3 - plan_rank (pl_state p)"
    by (intro exI [of _ "nat (pl_version q - pl_version p)"]) simp
  with q(1) steps plans.steps_key [OF q(2)] show ?thesis by blast
qed

theorem plans_follow_lifecycle_witness:
  "\<exists>res t. run_planning no_planner submit_request draft_store = (Inr res, t)
     \<and> (\<exists>q \<in> set (implementation_plans (planning t)). pl_id q = ''pl1'' \<and> pl_backlog_version q \<ge> 2
          \<and> (\<exists>n. (PL_DRAFT, pl_state q) \<in> edges PLAN_LIFECYCLE_MATRIX ^^ n \<and> pl_version q = 1 + int n \<and> n \<le> 3))"
proof -
  obtain res t where run: "run_planning no_planner submit_request draft_store = (Inr res, t)" using submitted by blast
  then have "(system_step 5)\<^sup>*\<^sup>* draft_store t" using planning_steps [of 5 draft_store submit_request] by simp
  from plans_follow_lifecycle [OF this, of "sample_plan PL_DRAFT 1 (Some ''valid'')"] run show ?thesis
    by (simp add: drafted) (simp add: sample_plan_def, blast)
qed

text \<open>How many moves a clarification has left.\<close>

definition moves_left :: "clarification_session_row \<Rightarrow> int" where
  "moves_left c = 2 * (cs_max_rounds c - cs_round c)
     + (case cs_status c of CL_NOT_REQUIRED \<Rightarrow> 1 | CL_REQUIRED \<Rightarrow> 1 | CL_IN_PROGRESS \<Rightarrow> 2
        | CL_COMPLETE \<Rightarrow> 0 | CL_BLOCKED \<Rightarrow> 0)"

lemma session_step_measure:
  "session_step c d \<Longrightarrow> moves_left d < moves_left c \<and> cs_version d = cs_version c + 1"
  by (erule session_step.cases) (auto simp: moves_left_def planning_edges split: ClarificationStatus.splits)

lemma session_moves_measure:
  "session_step\<^sup>*\<^sup>* c d \<Longrightarrow> cs_version d - cs_version c \<le> moves_left c - moves_left d"
  by (induction rule: rtranclp_induct) (auto dest!: session_step_measure)

text \<open>
  C38. Clarification ends: a session stays within its rounds, moves only along its machine, and the
  number of moves it ever makes is bounded by what is left of its rounds, two for each and two more.
\<close>

theorem clarification_ends:
  assumes "(system_step bound)\<^sup>*\<^sup>* s t" "distinct (map cs_id (clarification_sessions (planning s)))"
    "c \<in> set (clarification_sessions (planning s))" "cs_round c \<le> cs_max_rounds c"
  shows "\<exists>d \<in> set (clarification_sessions (planning t)).
      cs_id d = cs_id c \<and> cs_max_rounds d = cs_max_rounds c \<and> cs_round c \<le> cs_round d \<and> cs_round d \<le> cs_max_rounds d
      \<and> (\<exists>n. (cs_status c, cs_status d) \<in> edges CLARIFICATION_MATRIX ^^ n
             \<and> cs_version d = cs_version c + int n \<and> int n \<le> 2 * (cs_max_rounds c - cs_round c) + 2)"
proof -
  obtain d where d: "d \<in> set (clarification_sessions (planning t))" "session_step\<^sup>*\<^sup>* c d"
    using steps_lifecycle [OF assms(1)] assms(2,3) by (auto simp: lifecycle_def table_moves_def)
  note steps = session_steps [OF d(2)]
  have "0 \<le> moves_left d" "moves_left c \<le> 2 * (cs_max_rounds c - cs_round c) + 2"
    using steps assms(4) by (auto simp: moves_left_def split: ClarificationStatus.split)
  then have "\<exists>n. (cs_status c, cs_status d) \<in> edges CLARIFICATION_MATRIX ^^ n
      \<and> cs_version d = cs_version c + int n \<and> int n \<le> 2 * (cs_max_rounds c - cs_round c) + 2"
    using steps session_moves_measure [OF d(2)] by (intro exI [of _ "nat (cs_version d - cs_version c)"]) simp
  with d(1) steps assms(4) sessions.steps_key [OF d(2)] show ?thesis by auto
qed

definition start_request :: planning_request where
  "start_request = StartClarification (sample_envelope OPERATOR Human ''k''
     \<lparr>sp_clarificationSessionId = ''cs1'', sp_projectId = ''p1'', sp_expectedVersion = 4\<rparr>)"

lemma started: "\<exists>res t. run_planning no_planner start_request draft_store = (Inr res, t)"
  by (simp add: start_request_def draft_store_def plan_run StartClarificationHandler_def StartClarification_body_def
      find_session_def cas_session_def cl_assertValid_def open_questions_def order_by_def)

theorem clarification_ends_witness:
  "\<exists>res t. run_planning no_planner start_request draft_store = (Inr res, t)
     \<and> (\<exists>d \<in> set (clarification_sessions (planning t)). cs_id d = ''cs1'' \<and> cs_round d \<le> 3
          \<and> (\<exists>n. (CL_REQUIRED, cs_status d) \<in> edges CLARIFICATION_MATRIX ^^ n
                 \<and> cs_version d = 4 + int n \<and> n \<le> 6))"
proof -
  obtain res t where run: "run_planning no_planner start_request draft_store = (Inr res, t)" using started by blast
  then have "(system_step 5)\<^sup>*\<^sup>* draft_store t" using planning_steps [of 5 draft_store start_request] by simp
  moreover have "cs_round (sample_session CL_REQUIRED 1 4) \<le> cs_max_rounds (sample_session CL_REQUIRED 1 4)"
    by (simp add: sample_session_def)
  ultimately have "\<exists>d \<in> set (clarification_sessions (planning t)).
      cs_id d = ''cs1'' \<and> cs_round d \<le> 3
      \<and> (\<exists>n. (CL_REQUIRED, cs_status d) \<in> edges CLARIFICATION_MATRIX ^^ n \<and> cs_version d = 4 + int n \<and> int n \<le> 6)"
    using clarification_ends [of 5 draft_store t "sample_session CL_REQUIRED 1 4"]
    by (simp add: drafted) (simp add: sample_session_def, force)
  then show ?thesis using run by force
qed

text \<open>
  C39. A project moves only along its machine, one version per edge, and keeps its name; feature
  requests and their dependencies are only ever added; and no feature request gets a second run.
\<close>

theorem projects_and_requests_advance:
  assumes "(system_step bound)\<^sup>*\<^sup>* s t" "distinct (map pj_id (projects (planning s)))" "single_runs s"
  shows "prefix (feature_requests s) (feature_requests t) \<and> prefix (feature_dependencies s) (feature_dependencies t)
     \<and> distinct (map run_feature_request_id (feature_runs t))
     \<and> (\<forall>p \<in> set (projects (planning s)). \<exists>q \<in> set (projects (planning t)). pj_id q = pj_id p \<and> pj_name q = pj_name p
          \<and> (\<exists>n. (pj_state p, pj_state q) \<in> edges PROJECT_LIFECYCLE_MATRIX ^^ n \<and> pj_version q = pj_version p + int n))"
proof -
  note lc = steps_lifecycle [OF assms(1)]
  have "\<exists>q \<in> set (projects (planning t)). pj_id q = pj_id p \<and> pj_name q = pj_name p
      \<and> (\<exists>n. (pj_state p, pj_state q) \<in> edges PROJECT_LIFECYCLE_MATRIX ^^ n \<and> pj_version q = pj_version p + int n)"
    if p: "p \<in> set (projects (planning s))" for p
  proof -
    obtain q where q: "q \<in> set (projects (planning t))" "project_step\<^sup>*\<^sup>* p q"
      using lc assms(2) p by (auto simp: lifecycle_def table_moves_def)
    note steps = project_steps [OF q(2)]
    then have "\<exists>n. (pj_state p, pj_state q) \<in> edges PROJECT_LIFECYCLE_MATRIX ^^ n \<and> pj_version q = pj_version p + int n"
      by (intro exI [of _ "nat (pj_version q - pj_version p)"]) simp
    with q(1) steps pjs.steps_key [OF q(2)] show ?thesis by blast
  qed
  with lc assms(3) show ?thesis by (simp add: lifecycle_def single_runs_def)
qed

theorem projects_and_requests_advance_witness:
  "\<exists>res t. run_planning no_planner submit_request draft_store = (Inr res, t)
     \<and> distinct (map run_feature_request_id (feature_runs t))
     \<and> (\<exists>q \<in> set (projects (planning t)). pj_id q = ''p1'' \<and> pj_name q = ''P'')"
proof -
  obtain res t where run: "run_planning no_planner submit_request draft_store = (Inr res, t)" using submitted by blast
  then have "(system_step 5)\<^sup>*\<^sup>* draft_store t" using planning_steps [of 5 draft_store submit_request] by simp
  moreover have "single_runs draft_store"
    by (simp add: single_runs_def wf_store_def draft_store_def planned_store_def sample_store_def)
  ultimately show ?thesis
    using projects_and_requests_advance [of 5 draft_store t] run
    by (simp add: drafted) (simp add: sample_project_def, blast)
qed

section \<open>Submission\<close>

lemma same_tables_planning:
  assumes "same_tables s t"
  shows "find_plan i p t = find_plan i p s" "unresolved_blocking_gaps a t = unresolved_blocking_gaps a s"
    "executable_requests i t = executable_requests i s" "has_first_attempt q t = has_first_attempt q s"
    "find_project j t = find_project j s" "evaluateProjectAcceptance j t = evaluateProjectAcceptance j s"
    "acceptance_guard j t = acceptance_guard j s"
proof -
  note columns = same_tables_columns [OF assms]
  have "run_in_project j t = run_in_project j s" by (rule ext) (simp add: run_in_project_def columns)
  then show "find_plan i p t = find_plan i p s" "unresolved_blocking_gaps a t = unresolved_blocking_gaps a s"
    "executable_requests i t = executable_requests i s" "has_first_attempt q t = has_first_attempt q s"
    "find_project j t = find_project j s" "evaluateProjectAcceptance j t = evaluateProjectAcceptance j s"
    "acceptance_guard j t = acceptance_guard j s"
    by (simp_all add: columns find_plan_def unresolved_blocking_gaps_def executable_requests_def has_first_attempt_def
      find_project_def evaluateProjectAcceptance_def non_terminal_features_def runs_of_def project_requests_def
        open_escalations_def project_runs_def unresolved_blocking_findings_def failed_exports_def acceptance_guard_def)
qed

lemma find_plan_frames [simp]:
  "find_plan i p (workflow_events_update f1 s) = find_plan i p s"
  "find_plan i p (outbox_events_update f2 s) = find_plan i p s"
  "find_plan i p (human_approvals_update f3 s) = find_plan i p s"
  "find_plan i p (draws_update f4 s) = find_plan i p s"
  "find_plan i p (feature_runs_update f5 s) = find_plan i p s"
  by (simp_all add: find_plan_def)

lemma find_plan_Some:
  assumes "find_plan i p s = Some r"
  shows "r \<in> set (implementation_plans (planning s))" "pl_id r = i" "pl_project_id r = p"
  using assms by (auto simp: find_plan_def dest!: first_row_in)

text \<open>What the compare-and-set makes of the row that was found, plan identifiers being unique.\<close>

lemma find_plan_cas:
  assumes "find_plan i p s = Some r" "distinct (map pl_id (implementation_plans (planning s)))" "pl_version r = v"
    "\<And>x. pl_id (f x) = pl_id x \<and> pl_project_id (f x) = pl_project_id x"
  shows "find_plan i p (planning_update (implementation_plans_update
           (update_where (\<lambda>x. pl_id x = i \<and> pl_version x = v) f)) s) = Some (f r)"
proof -
  let ?rows = "update_where (\<lambda>x. pl_id x = i \<and> pl_version x = v) f (implementation_plans (planning s))"
  note r = find_plan_Some [OF assms(1)]
  have d: "distinct (map pl_id ?rows)" using assms(2,4) by (simp add: map_update_where)
  have m: "f r \<in> set ?rows" using r assms(3) by (auto simp: set_update_where)
  have "first_row (filter (\<lambda>x. pl_id x = i \<and> pl_project_id x = p) ?rows) = Some (f r)"
  proof (rule first_row_unique)
    show "f r \<in> set (filter (\<lambda>x. pl_id x = i \<and> pl_project_id x = p) ?rows)" using m r assms(4) [of r] by simp
    fix y assume "y \<in> set (filter (\<lambda>x. pl_id x = i \<and> pl_project_id x = p) ?rows)"
    then have "y \<in> set ?rows" "pl_id y = pl_id (f r)" using r assms(4) [of r] by simp_all
    with m show "y = f r" by (intro distinct_map_unique [OF d])
  qed
  then show ?thesis by (simp add: find_plan_def)
qed

lemmas wp_plan = wp_simps Let_def nextVersion_def accepted_result_def writeWorkflowEvent_def writeOutboxEvent_def
  pl_assertValid_def cas_plan_def planning_edges

text \<open>
  C33. A plan that is submitted was a draft at the expected version, its last validation was of the
  current backlog and found it valid, and every blocking gap of its assessment is resolved; it is
  then pending at the next version, and otherwise as it was.
\<close>

theorem submit_plan_success:
  assumes "execute SubmitPlanForApprovalHandler e s = (Inr res, t)" "fresh_key SubmitPlanForApprovalHandler e s"
    "distinct (map pl_id (implementation_plans (planning s)))"
  shows "\<exists>p. find_plan (py_planId (payload e)) (py_projectId (payload e)) s = Some p
     \<and> pl_version p = py_expectedVersion (payload e) \<and> pl_state p = PL_DRAFT
     \<and> pl_backlog_validated_state p = Some ''valid''
     \<and> pl_backlog_validated_version p = Some (pl_backlog_version p)
     \<and> \<not> (\<exists>g \<in> set (planning_gaps (planning s)). pl_assessment_id p = Some (pg_assessment_id g)
            \<and> pg_assessment_id g \<noteq> [] \<and> pg_severity g = GAP_BLOCKING \<and> pg_resolved_at g = None)
     \<and> find_plan (py_planId (payload e)) (py_projectId (payload e)) t =
         Some (p\<lparr>pl_state := PL_PENDING_APPROVAL, pl_version := pl_version p + 1, pl_updated_at := clock s\<rparr>)"
    (is "?Q res t")
proof (rule fresh_success [OF assms(1,2), where Q = ?Q and body = SubmitPlanForApproval_body])
  fix s1 assume s1: "same_tables s s1"
  with assms(3) have "distinct (map pl_id (implementation_plans (planning s1)))"
    by (simp add: same_tables_columns)
  with s1 show "wp (SubmitPlanForApproval_body e) (\<lambda>a t1. \<forall>u. same_tables t1 u \<longrightarrow> ?Q a u) (\<lambda>_. True) s1"
    by (auto simp: SubmitPlanForApproval_body_def wp_plan same_tables_planning same_tables_columns find_plan_cas
        unresolved_blocking_gaps_def filter_empty_conv split: option.splits if_splits)
qed (simp add: SubmitPlanForApprovalHandler_def)

theorem submit_plan_success_witness:
  "\<exists>res t. execute SubmitPlanForApprovalHandler (plan_envelope OPERATOR 1) draft_store = (Inr res, t)
     \<and> find_plan ''pl1'' ''p1'' t = Some (sample_plan PL_PENDING_APPROVAL 2 (Some ''valid'')\<lparr>pl_updated_at := 1000\<rparr>)"
proof -
  obtain res t where run: "execute SubmitPlanForApprovalHandler (plan_envelope OPERATOR 1) draft_store = (Inr res, t)"
    using submitted by (auto simp: submit_request_def)
  have "fresh_key SubmitPlanForApprovalHandler (plan_envelope OPERATOR 1) draft_store"
    by (simp add: fresh_key_def idempotency_slot_def draft_store_def planned_store_def sample_store_def)
  from submit_plan_success [OF run this] run show ?thesis
    by (simp add: drafted) (simp add: plan_run draft_store_def)
qed

section \<open>Activation\<close>

text \<open>What the loop over the executable requests leaves: their missing first attempts, in order.\<close>

definition started_by :: "string list \<Rightarrow> store \<Rightarrow> store \<Rightarrow> bool" where
  "started_by qs s t =
     (\<exists>new. feature_runs t = feature_runs s @ new \<and> list_all first_attempt new
        \<and> map run_feature_request_id new = filter (\<lambda>q. \<not> has_first_attempt q s) qs
        \<and> planning t = planning s \<and> clock t = clock s)"

lemma wp_activate_features:
  "distinct qs \<Longrightarrow> (\<And>m u. started_by qs s u \<Longrightarrow> Q m u) \<Longrightarrow> wp (activate_features now n qs) Q (\<lambda>_. True) s"
proof (induction qs arbitrary: n s Q)
  case Nil
  then show ?case by (simp add: wp_simps started_by_def)
next
  case (Cons q qs)
  show ?case
  proof (cases "has_first_attempt q s")
    case True
    with Cons show ?thesis by (simp add: wp_simps started_by_def)
  next
    case False
    have step: "wp (activate_features now (n + 1) qs) Q (\<lambda>_. True)
        (feature_runs_update (\<lambda>rows. rows @ [fresh_run i q now]) (s\<lparr>draws := d\<rparr>))" for i d
    proof (rule Cons.IH)
      let ?s = "feature_runs_update (\<lambda>rows. rows @ [fresh_run i q now]) (s\<lparr>draws := d\<rparr>)"
      fix m u assume u: "started_by qs ?s u"
      have "filter (\<lambda>q. \<not> has_first_attempt q ?s) qs = filter (\<lambda>q. \<not> has_first_attempt q s) qs"
        using Cons.prems(1) by (intro filter_cong) (auto simp: has_first_attempt_def fresh_run_def)
      then have "started_by (q # qs) s u"
        using u False by (auto simp: started_by_def first_attempt_def fresh_run_def intro: exI [of _ "fresh_run i q now # _"])
      then show "Q m u" by (rule Cons.prems(2))
    qed (use Cons.prems in simp)
    then show ?thesis using False by (simp add: wp_simps)
  qed
qed

lemma started_byE:
  assumes "started_by qs s t"
  obtains new where "feature_runs t = feature_runs s @ new" "list_all first_attempt new"
    "map run_feature_request_id new = filter (\<lambda>q. \<not> has_first_attempt q s) qs"
    "find_plan i p t = find_plan i p s"
  using assms by (auto simp: started_by_def find_plan_def)

lemma activation_frames [simp]:
  "executable_requests i (planning_update f s) = executable_requests i s"
  "has_first_attempt q (planning_update f s) = has_first_attempt q s"
  by (simp_all add: executable_requests_def has_first_attempt_def)

text \<open>
  C34. Activating a plan takes it from \<open>approved\<close> to \<open>activated_for_execution\<close> and appends one run for each
  of its requests of kind \<open>feature\<close> that has no first attempt, in order, all of them first attempts
  waiting to be selected; no other run is touched.
\<close>

theorem activate_plan_success:
  assumes "execute ActivatePlanHandler e s = (Inr res, t)" "fresh_key ActivatePlanHandler e s"
    "distinct (map pl_id (implementation_plans (planning s)))" "distinct (map req_id (feature_requests s))"
  shows "\<exists>p new. find_plan (py_planId (payload e)) (py_projectId (payload e)) s = Some p
     \<and> pl_version p = py_expectedVersion (payload e) \<and> pl_state p = PL_APPROVED
     \<and> find_plan (py_planId (payload e)) (py_projectId (payload e)) t =
         Some (p\<lparr>pl_state := PL_ACTIVATED_FOR_EXECUTION, pl_version := pl_version p + 1, pl_updated_at := clock s\<rparr>)
     \<and> feature_runs t = feature_runs s @ new \<and> list_all first_attempt new
     \<and> map run_feature_request_id new =
         map req_id (filter (\<lambda>q. req_plan_id q = py_planId (payload e) \<and> req_kind q = FEATURE
           \<and> \<not> (\<exists>r \<in> set (feature_runs s). run_feature_request_id r = req_id q \<and> run_attempt_no r = 1))
           (feature_requests s))"
    (is "?Q res t")
proof (rule fresh_success [OF assms(1,2), where Q = ?Q and body = ActivatePlan_body])
  fix s1 assume s1: "same_tables s s1"
  let ?i = "py_planId (payload e)" and ?v = "py_expectedVersion (payload e)"
  have d: "distinct (map pl_id (implementation_plans (planning s1)))" "distinct (executable_requests ?i s1)"
    using s1 assms(3,4) by (simp_all add: same_tables_columns executable_requests_def distinct_map_filter)
  have new: "filter (\<lambda>q. \<not> has_first_attempt q s1) (executable_requests ?i s1) =
      map req_id (filter (\<lambda>q. req_plan_id q = ?i \<and> req_kind q = FEATURE
        \<and> \<not> (\<exists>r \<in> set (feature_runs s). run_feature_request_id r = req_id q \<and> run_attempt_no r = 1))
        (feature_requests s))"
    using s1 by (auto simp: executable_requests_def has_first_attempt_def list_ex_iff filter_map comp_def
        same_tables_columns intro!: arg_cong [of _ _ "map req_id"] filter_cong)
  show "wp (ActivatePlan_body e) (\<lambda>a t1. \<forall>u. same_tables t1 u \<longrightarrow> ?Q a u) (\<lambda>_. True) s1"
    using s1 d new
    by (auto simp: ActivatePlan_body_def wp_plan same_tables_planning same_tables_columns find_plan_cas
        split: option.splits if_splits intro!: wp_activate_features elim!: started_byE [where i = ?i and p = "py_projectId (payload e)"])
qed (simp add: ActivatePlanHandler_def)

theorem activate_plan_success_witness:
  "\<exists>res t new. execute ActivatePlanHandler (plan_envelope APPROVER 3)
       (planned_store [sample_run ''r2'' ''q2'' FE_CODING 0 4] (sample_plan PL_APPROVED 3 None)
          (sample_session CL_COMPLETE 1 4) (sample_project PJ_ACTIVE 1)) = (Inr res, t)
     \<and> feature_runs t = sample_run ''r2'' ''q2'' FE_CODING 0 4 # new
     \<and> map run_feature_request_id new = [''q1'', ''q3'']"
proof -
  let ?s = "planned_store [sample_run ''r2'' ''q2'' FE_CODING 0 4] (sample_plan PL_APPROVED 3 None)
          (sample_session CL_COMPLETE 1 4) (sample_project PJ_ACTIVE 1)"
  have "\<exists>res t. execute ActivatePlanHandler (plan_envelope APPROVER 3) ?s = (Inr res, t)"
    by (simp add: plan_run ActivatePlanHandler_def ActivatePlan_body_def executable_requests_def
        has_first_attempt_def fresh_run_def show_digits)
  then obtain res t where run: "execute ActivatePlanHandler (plan_envelope APPROVER 3) ?s = (Inr res, t)" by blast
  have s: "fresh_key ActivatePlanHandler (plan_envelope APPROVER 3) ?s"
    "distinct (map pl_id (implementation_plans (planning ?s)))" "distinct (map req_id (feature_requests ?s))"
    "feature_runs ?s = [sample_run ''r2'' ''q2'' FE_CODING 0 4]"
    "feature_requests ?s = [sample_request ''q1'' ''FR-1'' 1, sample_request ''q2'' ''FR-2'' 2, sample_request ''q3'' ''FR-3'' 3]"
    by (simp_all add: fresh_key_def idempotency_slot_def planned_store_def sample_store_def sample_request_def)
  from activate_plan_success [OF run s(1-3)] obtain new where new: "feature_runs t = feature_runs ?s @ new"
    "map run_feature_request_id new = map req_id (filter (\<lambda>q. req_plan_id q = py_planId (payload (plan_envelope APPROVER 3))
       \<and> req_kind q = FEATURE
       \<and> \<not> (\<exists>r \<in> set (feature_runs ?s). run_feature_request_id r = req_id q \<and> run_attempt_no r = 1))
       (feature_requests ?s))"
    by (elim exE conjE) (rule that, assumption+)
  have "map run_feature_request_id new = [''q1'', ''q3'']"
    unfolding new(2) s(4,5) by (simp add: sample_request_def sample_run_def plan_envelope_def sample_envelope_def)
  moreover have "feature_runs t = sample_run ''r2'' ''q2'' FE_CODING 0 4 # new" by (simp only: new(1) s(4) append.simps)
  ultimately show ?thesis by (intro exI conjI) (rule run)
qed

text \<open>
  Activation does not look at the backlog's validation: an approved plan whose backlog was never
  found valid, or was changed after it was, is activated all the same.
\<close>

lemma unvalidated_backlog_activated:
  "\<exists>res t. execute ActivatePlanHandler (plan_envelope APPROVER 3)
       (planned_store [] (sample_plan PL_APPROVED 3 None) (sample_session CL_COMPLETE 1 4) (sample_project PJ_ACTIVE 1)) =
     (Inr res, t) \<and> length (feature_runs t) = 3"
  by (simp add: plan_run ActivatePlanHandler_def ActivatePlan_body_def executable_requests_def
      has_first_attempt_def fresh_run_def show_digits)

section \<open>The checks of a backlog\<close>

text \<open>
  C36. Validation finds no problem with a plan's backlog exactly when the dependencies of its requests
  have no cycle at all and each request of kind \<open>feature\<close> has an acceptance criterion and a test
  expectation; the depth-first search, which ends on every graph, is exact.
\<close>

theorem validation_exact:
  assumes "\<forall>q \<in> set (feature_requests s). req_plan_id q = planId \<longrightarrow> req_project_id q = projectId"
  shows "backlog_problems (plan_features planId projectId s) (plan_dependencies planId s) s = [] \<longleftrightarrow>
    acyclic (set (plan_dependencies planId s))
    \<and> (\<forall>q \<in> set (plan_features planId projectId s). req_kind q = FEATURE \<longrightarrow>
        (\<exists>c \<in> set (acceptance_criteria (planning s)). ac_feature_request_id c = req_id q)
        \<and> (\<exists>x \<in> set (test_expectations (planning s)). te_feature_request_id x = req_id q))"
proof -
  have "fst ` set (plan_dependencies planId s) \<subseteq> set (map req_id (plan_features planId projectId s))"
    using assms by (auto simp: plan_dependencies_def plan_features_def list_ex_iff intro!: rev_image_eqI)
  note cycle = hasCycle_acyclic [OF this]
  have none: "concat (map f xs) = [] \<longleftrightarrow> (\<forall>x \<in> set xs. f x = [])" for f :: "'x \<Rightarrow> 'y list" and xs by auto
  show ?thesis
    unfolding backlog_problems_def cycle append_is_Nil_conv none by (auto simp: list_ex_iff)
qed

lemma sample_dependencies:
  "plan_dependencies ''pl1'' draft_store = [(''q3'', ''q1'')]"
  "map req_id (plan_features ''pl1'' ''p1'' draft_store) = [''q1'', ''q2'', ''q3'']"
  by (simp_all add: plan_dependencies_def plan_features_def draft_store_def planned_store_def sample_store_def
      sample_request_def)

theorem validation_exact_witness:
  "backlog_problems (plan_features ''pl1'' ''p1'' draft_store) (plan_dependencies ''pl1'' draft_store) draft_store \<noteq> []
     \<and> acyclic (set (plan_dependencies ''pl1'' draft_store))"
proof -
  have own: "\<forall>q \<in> set (feature_requests draft_store). req_plan_id q = ''pl1'' \<longrightarrow> req_project_id q = ''p1''"
    by (simp add: draft_store_def planned_store_def sample_store_def sample_request_def)
  have "sample_request ''q1'' ''FR-1'' 1 \<in> set (plan_features ''pl1'' ''p1'' draft_store)"
    "acceptance_criteria (planning draft_store) = []" "req_kind (sample_request ''q1'' ''FR-1'' 1) = FEATURE"
    by (simp_all add: plan_features_def draft_store_def planned_store_def sample_store_def sample_request_def
        no_planning_def)
  with validation_exact [OF own]
  have "backlog_problems (plan_features ''pl1'' ''p1'' draft_store) (plan_dependencies ''pl1'' draft_store) draft_store \<noteq> []"
    by force
  moreover have "acyclic (set (plan_dependencies ''pl1'' draft_store))"
    by (simp add: sample_dependencies acyclic_insert acyclic_def [of "{}"])
  ultimately show ?thesis by blast
qed

text \<open>
  C40. Whatever text the parser accepts, its features have distinct identifiers of the form \<open>FR-n\<close>,
  titles on one line, trimmed non-empty descriptions, their positions as priorities and no
  dependencies; and an import of them fails its check only when the plan does not exist.
\<close>

theorem parsed_importable:
  assumes "parseBacklogMarkdown markdown = Inr fs" "ib_features (payload e) = fs"
  shows "fs \<noteq> [] \<and> distinct (map pf_frId fs) \<and> map pf_priority fs = map int [0..<length fs]
    \<and> (\<forall>f \<in> set fs. frid_ok (pf_frId f) \<and> pf_title f \<noteq> [] \<and> list_all js_dot (pf_title f)
          \<and> pf_description f \<noteq> [] \<and> trim (pf_description f) = pf_description f \<and> pf_dependsOnFrIds f = [])
    \<and> (import_check e s = None \<longleftrightarrow> find_plan (ib_planId (payload e)) (ib_projectId (payload e)) s \<noteq> None)"
proof -
  note shape = parsed_shape [OF assms(1)]
  have "later_occurrences seen xs = []" if "distinct xs" "set xs \<inter> set seen = {}" for seen xs :: "string list"
    using that by (induction xs arbitrary: seen) auto
  then have "later_occurrences [] (map pf_frId fs) = []" using shape by simp
  moreover have "unknown_dependency fs = None"
    using shape by (auto simp: unknown_dependency_def filter_empty_conv)
  ultimately show ?thesis
    using shape assms(2) by (simp add: import_check_def)
qed

theorem parsed_importable_witness:
  "\<exists>fs. parseBacklogMarkdown (''# Feature Backlog'' @ [LF] @ ''## FR-7: A'' @ [LF] @ ''Kind: feature'' @ [LF] @ '' x'') = Inr fs
     \<and> map pf_priority fs = map int [0..<length fs]
     \<and> import_check (sample_envelope APPROVER Human ''k''
           \<lparr>ib_projectId = ''p1'', ib_planId = ''pl1'', ib_features = fs, ib_dryRun = False\<rparr>) draft_store = None"
proof -
  have parsed: "parseBacklogMarkdown (''# Feature Backlog'' @ [LF] @ ''## FR-7: A'' @ [LF] @ ''Kind: feature'' @ [LF] @ '' x'')
      = Inr [\<lparr>pf_frId = ''FR-7'', pf_title = ''A'', pf_description = ''x'', pf_kind = FEATURE,
          pf_priority = 0, pf_dependsOnFrIds = []\<rparr>]"
    by code_simp
  have "find_plan ''pl1'' ''p1'' draft_store \<noteq> None"
    by (simp add: find_plan_def drafted) (simp add: sample_plan_def)
  then show ?thesis
    using parsed parsed_importable [OF parsed, of "sample_envelope APPROVER Human ''k''
        \<lparr>ib_projectId = ''p1'', ib_planId = ''pl1'', ib_features = _, ib_dryRun = False\<rparr>" draft_store]
    by (simp add: sample_envelope_def)
qed

end
