(* ===== verification/Adapters.thy ===== *)
theory Adapters
  imports PlanningStore
begin

text \<open>
  \<open>packages/core/src/adapters\<close>: the capability tokens, the registry of the agents' adapters and the
  recorder that wraps an adapter's call. The adapters themselves are parameters: a call is any
  action. The recorder's statements are transactions of their own, so a failure in the middle leaves
  what came before it.
\<close>

section \<open>Capabilities\<close>

definition AgentCapabilitySchema :: "string list" where
  "AgentCapabilitySchema =
     [''can_generate_plan'',
      ''can_generate_clarification_questions'',
      ''can_modify_files'',
      ''can_run_tests'',
      ''can_commit'',
      ''can_push_branch'',
      ''can_open_pull_request'',
      ''can_review_pull_request'',
      ''can_return_structured_findings'',
      ''can_resolve_disagreement'',
      ''can_generate_design_document'',
      ''can_report_token_usage'',
      ''can_report_cost'',
      ''can_run_asynchronously'',
      ''can_report_run_status'']"

text \<open>\<open>CANONICAL_ORDER.get(token)\<close>: the token's position in the schema.\<close>

definition CANONICAL_ORDER :: "string \<Rightarrow> nat" where
  "CANONICAL_ORDER token = length (takeWhile (\<lambda>t. t \<noteq> token) AgentCapabilitySchema)"

definition parseCapabilities :: "string list \<Rightarrow> string \<Rightarrow> error + string list" where
  "parseCapabilities capabilities source =
     (let invalid = filter (\<lambda>c. c \<notin> set AgentCapabilitySchema) capabilities in
      if invalid \<noteq> [] then Inl (InvalidCapabilityError source invalid)
      else Inr (order_by (\<lambda>a b. CANONICAL_ORDER a < CANONICAL_ORDER b) (first_occurrences [] capabilities)))"

definition validateCapabilities :: "string \<Rightarrow> string list \<Rightarrow> string list \<Rightarrow> error + unit" where
  "validateCapabilities adapterId declared required =
     (let missing = filter (\<lambda>c. c \<notin> set declared) required in
      if missing \<noteq> [] then Inl (CapabilityError adapterId missing) else Inr ())"

section \<open>Statements on the agent tables\<close>

definition insertG ::
    "string \<Rightarrow> (agent_tables \<Rightarrow> 'r list) \<Rightarrow> (('r list \<Rightarrow> 'r list) \<Rightarrow> agent_tables \<Rightarrow> agent_tables)
      \<Rightarrow> ('r \<Rightarrow> string) \<Rightarrow> 'r \<Rightarrow> unit tx" where
  "insertG table get upd key row = insertT table (\<lambda>s. get (agents s)) (\<lambda>f. agents_update (upd f)) key row"

definition executeG :: "(agent_tables \<Rightarrow> agent_tables) \<Rightarrow> unit tx" where
  "executeG f = executeT (agents_update f)"

definition liftE :: "error + 'a \<Rightarrow> 'a tx" where
  "liftE r = (case r of Inl e \<Rightarrow> throwT e | Inr a \<Rightarrow> returnT a)"

definition liftA :: "error + 'a \<Rightarrow> 'a db_action" where
  "liftA r = (case r of Inl e \<Rightarrow> throwA e | Inr a \<Rightarrow> returnA a)"

lemma wp_insertG [wp_simps]:
  "wp (insertG table get upd key row) Q E s =
     (if key row \<in> set (map key (get (agents s))) then E (ConstraintViolation table)
      else Q () (agents_update (upd (\<lambda>rows. rows @ [row])) s))"
  by (simp add: insertG_def wp_simps)

lemma wp_executeG [wp_simps]: "wp (executeG f) Q E s = Q () (agents_update f s)"
  by (simp add: executeG_def wp_simps)

section \<open>The registry\<close>

record adapter_record =
  ad_id :: string
  ad_role :: string
  ad_name :: string
  ad_implementation :: string
  ad_isActive :: bool
  ad_version :: int
  ad_capabilities :: "string list"

record register_input =
  ri_role :: string
  ri_name :: string
  ri_implementation :: string
  ri_capabilities :: "string list"
  ri_isActive :: "bool option"

definition ri_active :: "register_input \<Rightarrow> bool" where
  "ri_active input = (case ri_isActive input of None \<Rightarrow> True | Some b \<Rightarrow> b)"

definition adapters_named :: "string \<Rightarrow> string \<Rightarrow> store \<Rightarrow> agent_adapter_row list" where
  "adapters_named role name s =
     filter (\<lambda>a. aa_role a = role \<and> aa_name a = name) (agent_adapters (agents s))"

definition adapters_with_id :: "string \<Rightarrow> store \<Rightarrow> agent_adapter_row list" where
  "adapters_with_id i s = filter (\<lambda>a. aa_id a = i) (agent_adapters (agents s))"

definition insert_capability :: "string \<Rightarrow> string \<Rightarrow> unit tx" where
  "insert_capability adapterId capability =
     bindT generateId (\<lambda>i.
     insertG ''agent_capabilities'' agent_capabilities agent_capabilities_update ay_id
       \<lparr>ay_id = i, ay_adapter_id = adapterId, ay_capability = capability\<rparr>)"

definition register_tx :: "register_input \<Rightarrow> string list \<Rightarrow> string tx" where
  "register_tx input capabilities =
     bindT (queryT clock) (\<lambda>now.
     bindT generateId (\<lambda>newId.
     bindT (insertOnConflictT ''agent_adapters'' (\<lambda>s. agent_adapters (agents s))
              (\<lambda>f. agents_update (agent_adapters_update f)) aa_id (\<lambda>a. (aa_role a, aa_name a))
              \<lparr>aa_id = newId, aa_role = ri_role input, aa_name = ri_name input,
               aa_implementation = ri_implementation input, aa_is_active = ri_active input,
               aa_version = 1, aa_updated_at = now\<rparr>) (\<lambda>_.
     bindT (queryT (\<lambda>s. first_row (adapters_named (ri_role input) (ri_name input) s))) (\<lambda>row.
     case row of
       None \<Rightarrow> throwT (OtherError (''adapter insert produced no row for '' @ ri_role input @ ''/'' @ ri_name input))
     | Some a \<Rightarrow>
     (let adapterId = aa_id a in
     bindT (if adapterId \<noteq> newId
            then
              bindT (executeG (agent_adapters_update (update_where (\<lambda>a. aa_id a = adapterId)
                       (\<lambda>a. a\<lparr>aa_implementation := ri_implementation input, aa_is_active := ri_active input,
                              aa_version := aa_version a + 1, aa_updated_at := now\<rparr>)))) (\<lambda>_.
              executeG (agent_capabilities_update (delete_where (\<lambda>c. ay_adapter_id c = adapterId))))
            else returnT ()) (\<lambda>_.
     bindT (forEachT (insert_capability adapterId) capabilities) (\<lambda>_.
     bindT (queryT (\<lambda>s. case first_row (adapters_with_id adapterId s) of None \<Rightarrow> 1 | Some a \<Rightarrow> aa_version a)) (\<lambda>currentVersion.
     bindT generateId (\<lambda>i.
     bindT (insertG ''adapter_revisions'' adapter_revisions adapter_revisions_update av_id
              \<lparr>av_id = i, av_adapter_id = adapterId, av_role = ri_role input, av_name = ri_name input,
               av_implementation = ri_implementation input, av_version = currentVersion,
               av_capabilities = capabilities, av_is_active = ri_active input, av_created_at = now\<rparr>) (\<lambda>_.
     returnT adapterId))))))))))"

definition register_adapter :: "register_input \<Rightarrow> string db_action" where
  "register_adapter input =
     bindA (liftA (parseCapabilities (ri_capabilities input)
              (''register('' @ ri_role input @ ''/'' @ ri_name input @ '').capabilities''))) (\<lambda>capabilities.
     transaction (register_tx input capabilities))"

definition getRevisionId :: "string \<Rightarrow> int \<Rightarrow> store \<Rightarrow> string option" where
  "getRevisionId adapterId version s =
     map_option av_id (first_row (order_by
       (\<lambda>a b. av_created_at a > av_created_at b \<or> (av_created_at a = av_created_at b \<and> av_id a > av_id b))
       (filter (\<lambda>r. av_adapter_id r = adapterId \<and> av_version r = version) (adapter_revisions (agents s)))))"

definition toRecord :: "agent_adapter_row \<Rightarrow> store \<Rightarrow> error + adapter_record" where
  "toRecord row s =
     (case parseCapabilities
             (map ay_capability (filter (\<lambda>c. ay_adapter_id c = aa_id row) (agent_capabilities (agents s))))
             (''agent_capabilities row(s) for adapter '' @ aa_id row) of
        Inl e \<Rightarrow> Inl e
      | Inr capabilities \<Rightarrow>
          Inr \<lparr>ad_id = aa_id row, ad_role = aa_role row, ad_name = aa_name row,
               ad_implementation = aa_implementation row, ad_isActive = aa_is_active row,
               ad_version = aa_version row, ad_capabilities = capabilities\<rparr>)"

definition resolve_adapter :: "string \<Rightarrow> string \<Rightarrow> store \<Rightarrow> error + adapter_record" where
  "resolve_adapter role name s =
     (case first_row (filter aa_is_active (adapters_named role name s)) of
        None \<Rightarrow> Inl (UnknownAdapterError role name)
      | Some row \<Rightarrow> toRecord row s)"

definition getById :: "string \<Rightarrow> store \<Rightarrow> error + adapter_record" where
  "getById adapterId s =
     (case first_row (filter aa_is_active (adapters_with_id adapterId s)) of
        None \<Rightarrow> Inl (UnknownAdapterError ''unknown'' adapterId)
      | Some row \<Rightarrow> toRecord row s)"

definition getByIdIncludingInactive :: "string \<Rightarrow> store \<Rightarrow> error + adapter_record" where
  "getByIdIncludingInactive adapterId s =
     (case first_row (adapters_with_id adapterId s) of
        None \<Rightarrow> Inl (UnknownAdapterError ''unknown'' adapterId)
      | Some row \<Rightarrow> toRecord row s)"

definition assertCapabilities :: "string \<Rightarrow> string list \<Rightarrow> store \<Rightarrow> error + unit" where
  "assertCapabilities adapterId required s =
     (case getById adapterId s of
        Inl e \<Rightarrow> Inl e
      | Inr r \<Rightarrow> validateCapabilities adapterId (ad_capabilities r) required)"

text \<open>A NULL project matches no row but the default ones.\<close>

definition getConfiguration :: "string \<Rightarrow> string option \<Rightarrow> store \<Rightarrow> json option" where
  "getConfiguration adapterId projectId s =
     map_option aq_config (first_row (order_by
       (\<lambda>a b. (aq_project_id a \<noteq> None \<and> aq_project_id b = None)
            \<or> ((aq_project_id a = None) = (aq_project_id b = None)
                \<and> (aq_version a > aq_version b
                   \<or> (aq_version a = aq_version b \<and> aq_updated_at a > aq_updated_at b))))
       (filter (\<lambda>c. aq_adapter_id c = adapterId
                  \<and> (aq_project_id c = None \<or> (projectId \<noteq> None \<and> aq_project_id c = projectId)))
          (agent_configurations (agents s)))))"

section \<open>The recorder\<close>

datatype 'o run_outcome = Finished 'o | Failed error

record cost_usage =
  us_inputTokens :: "int option"
  us_outputTokens :: "int option"
  us_costUsd :: "rat option"
  us_provider :: "string option"
  us_model :: "string option"

record tool_operation =
  to_toolName :: string
  to_inputSummary :: "string option"
  to_outputSummary :: "string option"
  to_status :: "string option"
  to_durationMs :: "int option"

text \<open>
  The extractors are the caller's functions and may throw; one that is not given is one that
  answers null. \<open>ro_json\<close> is the output as the JSON that is stored, \<open>ro_message\<close> the \<open>message\<close> of an
  error (for a database error, the driver's).
\<close>

record 'o run_options =
  ro_adapterId :: string
  ro_role :: string
  ro_projectId :: "string option"
  ro_featureRunId :: "string option"
  ro_featureRequestId :: "string option"
  ro_promptTemplateVersion :: "string option"
  ro_input :: json
  ro_capabilitiesUsed :: "string list"
  ro_contextPack :: "(json \<times> string option) option"
  ro_costExtractor :: "'o run_outcome \<Rightarrow> error + cost_usage option"
  ro_toolOperationsExtractor :: "'o run_outcome \<Rightarrow> error + tool_operation list"
  ro_json :: "'o \<Rightarrow> json"
  ro_message :: "error \<Rightarrow> string"

definition totalTokens :: "cost_usage option \<Rightarrow> int option" where
  "totalTokens usage =
     (case usage of
        None \<Rightarrow> None
      | Some u \<Rightarrow>
          if us_inputTokens u = None \<and> us_outputTokens u = None then None
          else Some ((case us_inputTokens u of None \<Rightarrow> 0 | Some n \<Rightarrow> n)
                     + (case us_outputTokens u of None \<Rightarrow> 0 | Some n \<Rightarrow> n)))"

definition coalesce :: "'a option \<Rightarrow> 'a option \<Rightarrow> 'a option" where
  "coalesce a b = (case a of None \<Rightarrow> b | Some _ \<Rightarrow> a)"

fun agent_run_state_str :: "AgentRunState \<Rightarrow> string" where
  "agent_run_state_str AR_QUEUED = ''queued''"
| "agent_run_state_str AR_RUNNING = ''running''"
| "agent_run_state_str AR_SUCCEEDED = ''succeeded''"
| "agent_run_state_str AR_FAILED = ''failed''"
| "agent_run_state_str AR_CANCELLED = ''cancelled''"

definition AR_assertValid :: "AgentRunState \<Rightarrow> AgentRunState \<Rightarrow> unit db_action" where
  "AR_assertValid from_s to_s = transaction (assertValidT AGENT_RUN_MATRIX agent_run_state_str ''agent-run'' from_s to_s)"

text \<open>The two final UPDATEs of a run differ in the state and in what they write beside the usage.\<close>

definition apply_usage ::
    "AgentRunState \<Rightarrow> cost_usage option \<Rightarrow> int \<Rightarrow> (agent_run_row \<Rightarrow> agent_run_row) \<Rightarrow> agent_run_row
      \<Rightarrow> agent_run_row" where
  "apply_usage to_s usage endedAt f r =
     (f r)\<lparr>ar_state := to_s, ar_ended_at := Some endedAt,
           ar_tokens_used := coalesce (totalTokens usage) (ar_tokens_used r),
           ar_cost_usd := coalesce (Option.bind usage us_costUsd) (ar_cost_usd r),
           ar_provider := coalesce (Option.bind usage us_provider) (ar_provider r),
           ar_model := coalesce (Option.bind usage us_model) (ar_model r),
           ar_version := ar_version r + 1, ar_updated_at := endedAt\<rparr>"

definition update_agent_run :: "string \<Rightarrow> (agent_run_row \<Rightarrow> agent_run_row) \<Rightarrow> unit db_action" where
  "update_agent_run agentRunId f =
     transaction (executeG (agent_runs_update (update_where (\<lambda>r. ar_id r = agentRunId) f)))"

definition insertCostRecord :: "string \<Rightarrow> 'o run_options \<Rightarrow> cost_usage \<Rightarrow> int \<Rightarrow> unit db_action" where
  "insertCostRecord agentRunId opts usage recordedAt =
     (case us_costUsd usage of
        None \<Rightarrow> returnA ()
      | Some costUsd \<Rightarrow>
          (case ro_projectId opts of
             None \<Rightarrow> throwA (OtherError (''AgentRunRecorder.record: costExtractor reported costUsd but no ''
               @ ''projectId was supplied - cost_records.project_id is NOT NULL and cannot be attributed.''))
           | Some projectId \<Rightarrow>
               if projectId = []
               then throwA (OtherError (''AgentRunRecorder.record: costExtractor reported costUsd but no ''
                 @ ''projectId was supplied - cost_records.project_id is NOT NULL and cannot be attributed.''))
               else transaction (
                 bindT generateId (\<lambda>i.
                 insertT ''cost_records'' cost_records cost_records_update co_id
                   \<lparr>co_id = i, co_project_id = projectId, co_feature_request_id = ro_featureRequestId opts,
                    co_feature_run_id = ro_featureRunId opts, co_agent_run_id = Some agentRunId,
                    co_scope = (if ro_featureRequestId opts = None \<or> ro_featureRequestId opts = Some []
                                then SCOPE_PROJECT else SCOPE_FEATURE),
                    co_amount = costUsd, co_provider = us_provider usage, co_model = us_model usage,
                    co_input_tokens = us_inputTokens usage, co_output_tokens = us_outputTokens usage,
                    co_recorded_at = recordedAt\<rparr>))))"

definition insert_operation :: "string \<Rightarrow> tool_operation \<Rightarrow> unit tx" where
  "insert_operation agentRunId op =
     bindT (queryT clock) (\<lambda>occurredAt.
     bindT generateId (\<lambda>i.
     insertG ''agent_tool_operations'' agent_tool_operations agent_tool_operations_update ao_id
       \<lparr>ao_id = i, ao_agent_run_id = agentRunId, ao_tool_name = to_toolName op,
        ao_input_summary = to_inputSummary op, ao_output_summary = to_outputSummary op,
        ao_status = (case to_status op of None \<Rightarrow> ''success'' | Some x \<Rightarrow> x),
        ao_duration_ms = to_durationMs op, ao_occurred_at = occurredAt\<rparr>))"

fun insertToolOperations :: "string \<Rightarrow> tool_operation list \<Rightarrow> unit db_action" where
  "insertToolOperations agentRunId [] = returnA ()"
| "insertToolOperations agentRunId (op # ops) =
     bindA (transaction (insert_operation agentRunId op)) (\<lambda>_. insertToolOperations agentRunId ops)"

text \<open>What both branches do after they have set the state.\<close>

definition record_usage :: "string \<Rightarrow> 'o run_options \<Rightarrow> 'o run_outcome \<Rightarrow> cost_usage option \<Rightarrow> int \<Rightarrow> unit db_action" where
  "record_usage agentRunId opts outcome usage endedAt =
     bindA (case usage of None \<Rightarrow> returnA () | Some u \<Rightarrow> insertCostRecord agentRunId opts u endedAt) (\<lambda>_.
     bindA (liftA (ro_toolOperationsExtractor opts outcome)) (\<lambda>ops.
     insertToolOperations agentRunId ops))"

definition record_success :: "string \<Rightarrow> 'o run_options \<Rightarrow> 'o db_action \<Rightarrow> (string \<times> 'o) db_action" where
  "record_success agentRunId opts fn =
     bindA fn (\<lambda>out.
     bindA (AR_assertValid AR_RUNNING AR_SUCCEEDED) (\<lambda>_.
     bindA (queryA clock) (\<lambda>endedAt.
     bindA (liftA (ro_costExtractor opts (Finished out))) (\<lambda>usage.
     bindA (update_agent_run agentRunId (apply_usage AR_SUCCEEDED usage endedAt
              (\<lambda>r. r\<lparr>ar_output_summary := Some (redactObject (ro_json opts out))\<rparr>))) (\<lambda>_.
     bindA (record_usage agentRunId opts (Finished out) usage endedAt) (\<lambda>_.
     returnA (agentRunId, out)))))))"

definition error_type :: "error \<Rightarrow> agent_error_type" where
  "error_type err = (case err of AdapterRunError ty _ \<Rightarrow> ty | _ \<Rightarrow> ERR_PROVIDER_UNAVAILABLE)"

definition record_failure :: "string \<Rightarrow> 'o run_options \<Rightarrow> error \<Rightarrow> (string \<times> 'o) db_action" where
  "record_failure agentRunId opts err =
     (let message = redact (ro_message opts err) in
      bindA (AR_assertValid AR_RUNNING AR_FAILED) (\<lambda>_.
      bindA (queryA clock) (\<lambda>endedAt.
      bindA (liftA (ro_costExtractor opts (Failed err))) (\<lambda>usage.
      bindA (update_agent_run agentRunId (apply_usage AR_FAILED usage endedAt
               (\<lambda>r. r\<lparr>ar_error := Some message\<rparr>))) (\<lambda>_.
      bindA (record_usage agentRunId opts (Failed err) usage endedAt) (\<lambda>_.
      bindA (transaction (bindT generateId (\<lambda>i.
               insertG ''agent_errors'' agent_errors agent_errors_update ax_id
                 \<lparr>ax_id = i, ax_agent_run_id = agentRunId, ax_error_type = error_type err,
                  ax_message = message, ax_occurred_at = endedAt\<rparr>))) (\<lambda>_.
      throwA err)))))))"

definition insert_agent_run ::
    "string \<Rightarrow> 'o run_options \<Rightarrow> adapter_record \<Rightarrow> string option \<Rightarrow> int \<Rightarrow> unit db_action" where
  "insert_agent_run agentRunId opts adapter revisionId queuedAt =
     transaction (insertG ''agent_runs'' agent_runs agent_runs_update ar_id
       \<lparr>ar_id = agentRunId, ar_adapter_id = ro_adapterId opts, ar_adapter_revision_id = revisionId,
        ar_project_id = ro_projectId opts, ar_feature_run_id = ro_featureRunId opts,
        ar_role = ad_role adapter, ar_state = AR_QUEUED, ar_input_summary = redactObject (ro_input opts),
        ar_output_summary = None, ar_error = None, ar_started_at = None, ar_ended_at = None,
        ar_tokens_used = None, ar_cost_usd = None, ar_provider = None, ar_model = None,
        ar_adapter_name = ad_name adapter, ar_adapter_implementation = ad_implementation adapter,
        ar_adapter_version = ad_version adapter, ar_capabilities_used = ro_capabilitiesUsed opts,
        ar_prompt_template_version = ro_promptTemplateVersion opts, ar_version = 1,
        ar_updated_at = queuedAt\<rparr>)"

definition insert_context_pack :: "string \<Rightarrow> 'o run_options \<Rightarrow> unit db_action" where
  "insert_context_pack agentRunId opts =
     (case ro_contextPack opts of
        None \<Rightarrow> returnA ()
      | Some (content, schemaVersion) \<Rightarrow>
          transaction (bindT generateId (\<lambda>i.
            insertG ''agent_context_packs'' agent_context_packs agent_context_packs_update ak_id
              \<lparr>ak_id = i, ak_agent_run_id = agentRunId, ak_content = redactObject content,
               ak_content_schema_version = (case schemaVersion of None \<Rightarrow> ''1.0.0'' | Some v \<Rightarrow> v)\<rparr>)))"

definition record_run :: "'o run_options \<Rightarrow> 'o db_action \<Rightarrow> (string \<times> 'o) db_action" where
  "record_run opts fn =
     bindA (transaction generateId) (\<lambda>agentRunId.
     bindA (queryA clock) (\<lambda>queuedAt.
     bindA (\<lambda>s. liftA (getById (ro_adapterId opts) s) s) (\<lambda>adapter.
     if ro_role opts \<noteq> ad_role adapter
     then throwA (RunRoleMismatchError (ro_adapterId opts) (ro_role opts) (ad_role adapter))
     else
     (let undeclared = filter (\<lambda>c. c \<notin> set (ad_capabilities adapter)) (ro_capabilitiesUsed opts) in
     if undeclared \<noteq> []
     then throwA (UndeclaredCapabilityError (ro_adapterId opts) undeclared)
     else
     bindA (queryA (getRevisionId (ro_adapterId opts) (ad_version adapter))) (\<lambda>revisionId.
     bindA (insert_agent_run agentRunId opts adapter revisionId queuedAt) (\<lambda>_.
     bindA (insert_context_pack agentRunId opts) (\<lambda>_.
     bindA (AR_assertValid AR_QUEUED AR_RUNNING) (\<lambda>_.
     bindA (queryA clock) (\<lambda>startedAt.
     bindA (update_agent_run agentRunId
              (\<lambda>r. r\<lparr>ar_state := AR_RUNNING, ar_started_at := Some startedAt,
                     ar_version := ar_version r + 1, ar_updated_at := startedAt\<rparr>)) (\<lambda>_.
     catchA (record_success agentRunId opts fn) (record_failure agentRunId opts)))))))))))"

end
