(* ===== verification/Forge.thy ===== *)
theory Forge
  imports GithubHandlers Locks "HOL-Library.AList"
begin

text \<open>
  What the clients of the three forges (\<open>packages/github\<close>, \<open>packages/gitea\<close>, \<open>packages/gitlab\<close>)
  make of the answers of the forge's API: one observed state of a pull request, out of its reviews,
  checks and discussions, and one classification of a refused merge. The HTTP calls are outside
  the model: their answers are arguments.
\<close>

section \<open>Check conclusions\<close>

datatype check_classification = CC_PASSED | CC_FAILED | CC_UNKNOWN

definition FAILURE_CONCLUSIONS :: "string list" where
  "FAILURE_CONCLUSIONS = [''failure'', ''timed_out'', ''cancelled'', ''action_required'', ''startup_failure'']"

definition NON_BLOCKING_CONCLUSIONS :: "string list" where
  "NON_BLOCKING_CONCLUSIONS = [''neutral'', ''skipped'', ''stale'']"

definition classifyCheckConclusion :: "string option \<Rightarrow> check_classification" where
  "classifyCheckConclusion conclusion =
     (case conclusion of
        None \<Rightarrow> CC_UNKNOWN
      | Some c \<Rightarrow>
          if c \<in> set FAILURE_CONCLUSIONS then CC_FAILED
          else if c = ''success'' \<or> c \<in> set NON_BLOCKING_CONCLUSIONS then CC_PASSED
          else CC_UNKNOWN)"

section \<open>CI status\<close>

record check_run =
  cr_status :: string
  cr_conclusion :: "string option"

record combined_status =
  cs_state :: string
  cs_total_count :: "int option"

definition checkFailed :: "check_run \<Rightarrow> bool" where
  "checkFailed c = (cr_status c = ''completed'' \<and> classifyCheckConclusion (cr_conclusion c) = CC_FAILED)"

definition checkPassed :: "check_run \<Rightarrow> bool" where
  "checkPassed c = (cr_status c = ''completed'' \<and> classifyCheckConclusion (cr_conclusion c) = CC_PASSED)"

definition github_deriveCiStatus :: "check_run list \<Rightarrow> combined_status \<Rightarrow> string" where
  "github_deriveCiStatus checkRuns combined =
     (let hasCheckRuns = checkRuns \<noteq> [];
          hasCommitStatuses = (case cs_total_count combined of None \<Rightarrow> 0 | Some n \<Rightarrow> n) > 0;
          anyCheckFailed = list_ex checkFailed checkRuns;
          statusFailed = (hasCommitStatuses \<and> (cs_state combined = ''failure'' \<or> cs_state combined = ''error''));
          checkRunning = list_ex (\<lambda>c. cr_status c \<noteq> ''completed'') checkRuns;
          statusPending = (hasCommitStatuses \<and> cs_state combined = ''pending'');
          checkRunsPassed = list_all checkPassed checkRuns;
          statusPassed = (\<not> hasCommitStatuses \<or> cs_state combined = ''success'') in
      if \<not> hasCheckRuns \<and> \<not> hasCommitStatuses then ''pending''
      else if anyCheckFailed \<or> statusFailed then ''failed''
      else if checkRunning \<or> statusPending then ''running''
      else if checkRunsPassed \<and> statusPassed then ''passed''
      else ''pending'')"

definition gitea_deriveCiStatus :: "string \<Rightarrow> string" where
  "gitea_deriveCiStatus state =
     (if state = ''success'' then ''passed''
      else if state = ''failure'' \<or> state = ''error'' then ''failed''
      else ''pending'')"

definition gitlab_deriveCiStatus :: "string list \<Rightarrow> string" where
  "gitlab_deriveCiStatus pipelines =
     (case first_row pipelines of
        None \<Rightarrow> ''pending''
      | Some status \<Rightarrow>
          if status = ''success'' then ''passed''
          else if status = ''failed'' then ''failed''
          else if status = ''running'' then ''running''
          else ''pending'')"

section \<open>Review state\<close>

text \<open>A review's time is in milliseconds since 1970: \<open>new Date(submitted_at ?? 0).getTime()\<close>.\<close>

record pr_review =
  rv_state :: string
  rv_submitted_at :: "int option"
  rv_login :: "string option"

definition review_time :: "pr_review \<Rightarrow> int" where
  "review_time r = (case rv_submitted_at r of None \<Rightarrow> 0 | Some t \<Rightarrow> t)"

definition by_time :: "pr_review list \<Rightarrow> pr_review list" where
  "by_time reviews = order_by (\<lambda>a b. review_time a < review_time b) reviews"

definition reviewer_key :: "nat \<Rightarrow> pr_review \<Rightarrow> string" where
  "reviewer_key index review =
     (case rv_login review of Some login \<Rightarrow> login | None \<Rightarrow> ''__unknown_'' @ show_int (int index))"

text \<open>
  The walk over the sorted reviews: each reviewer's latest review, and whether that reviewer is
  still blocking. Both maps keep the order of first insertion, as a JavaScript Map does.
\<close>

type_synonym review_maps = "(string \<times> pr_review) list \<times> (string \<times> bool) list"

definition walk_review :: "string \<Rightarrow> nat \<times> pr_review \<Rightarrow> review_maps \<Rightarrow> review_maps" where
  "walk_review requested entry maps =
     (case entry of (index, review) \<Rightarrow> case maps of (latest, blocking) \<Rightarrow>
      let key = reviewer_key index review in
      (AList.update key review latest,
       if rv_state review = requested then AList.update key True blocking
       else if rv_state review = ''APPROVED'' \<or> rv_state review = ''DISMISSED''
       then AList.update key False blocking
       else blocking))"

definition sticky_review_state :: "string \<Rightarrow> string \<Rightarrow> pr_review list \<Rightarrow> string" where
  "sticky_review_state requested commented reviews =
     (if reviews = [] then ''none''
      else
        let sorted = by_time reviews;
            (latest, blocking) = fold (walk_review requested) (enumerate 0 sorted) ([], []);
            latestReviews = map snd latest in
        if list_ex snd blocking \<or> list_ex (\<lambda>r. rv_state r = requested) latestReviews then ''changes_requested''
        else if list_ex (\<lambda>r. rv_state r = ''APPROVED'') latestReviews then ''approved''
        else if rv_state (last sorted) = commented then ''commented''
        else if rv_state (last sorted) = ''DISMISSED'' then ''dismissed''
        else ''pending'')"

text \<open>The GitHub and the Gitea client have the same function over two vocabularies.\<close>

definition github_deriveReviewState :: "pr_review list \<Rightarrow> string" where
  "github_deriveReviewState = sticky_review_state ''CHANGES_REQUESTED'' ''COMMENTED''"

definition gitea_deriveReviewState :: "pr_review list \<Rightarrow> string" where
  "gitea_deriveReviewState = sticky_review_state ''REQUEST_CHANGES'' ''COMMENT''"

text \<open>GitLab: approvals and discussions; a note is its pair of flags (resolvable, resolved).\<close>

record gitlab_approvals =
  ga_required :: "int option"
  ga_left :: "int option"

definition hasUnresolvedDiscussion :: "(bool \<times> bool) list list \<Rightarrow> bool" where
  "hasUnresolvedDiscussion discussions =
     list_ex (\<lambda>notes. list_ex (\<lambda>(resolvable, resolved). resolvable \<and> \<not> resolved) notes) discussions"

definition deriveConversationsResolved :: "(bool \<times> bool) list list \<Rightarrow> bool" where
  "deriveConversationsResolved discussions = (\<not> hasUnresolvedDiscussion discussions)"

definition gitlab_deriveReviewState :: "gitlab_approvals \<Rightarrow> (bool \<times> bool) list list \<Rightarrow> string" where
  "gitlab_deriveReviewState approvals discussions =
     (if hasUnresolvedDiscussion discussions then ''changes_requested''
      else
        let approvalsLeft = (case ga_left approvals of None \<Rightarrow> 0 | Some n \<Rightarrow> n);
            approvalsRequired = (case ga_required approvals of None \<Rightarrow> 0 | Some n \<Rightarrow> n) in
        if approvalsRequired = 0 \<and> approvalsLeft = 0 \<and> discussions = [] then ''none''
        else if approvalsLeft = 0 then ''approved''
        else ''pending'')"

section \<open>One observed pull request\<close>

text \<open>
  A request either fails, with the HTTP status it failed with if there was a response, or answers.
\<close>

record scm_failure =
  sf_status :: "int option"
  sf_message :: string

type_synonym 'a scm_answer = "scm_failure + 'a"

record github_pull =
  gp_number :: int
  gp_head_ref :: string
  gp_head_sha :: string
  gp_base_ref :: string
  gp_state :: string
  gp_merged :: bool
  gp_mergeable :: "bool option"
  gp_labels :: "string option list"
  gp_merged_at :: "int option"
  gp_merge_commit_sha :: "string option"
  gp_closed_at :: "int option"

text \<open>
  The pages of review threads: the flags \<open>isResolved\<close> of a page and whether there is a next one; no
  threads at all when the repository or the pull request is missing. A request that fails, or that
  is never answered, is the end of the list.
\<close>

fun conversations_resolved :: "((bool list \<times> bool) option) list \<Rightarrow> bool" where
  "conversations_resolved [] = False"
| "conversations_resolved (None # pages) = True"
| "conversations_resolved (Some (nodes, hasNextPage) # pages) =
     (if list_ex (\<lambda>isResolved. \<not> isResolved) nodes then False
      else if hasNextPage then conversations_resolved pages
      else True)"

definition github_observed ::
    "github_pull \<Rightarrow> pr_review list \<Rightarrow> check_run list \<Rightarrow> combined_status \<Rightarrow> (bool list \<times> bool) option list
      \<Rightarrow> observed_pr" where
  "github_observed pr reviews checkRuns combined threads =
     \<lparr>ob_prNumber = gp_number pr, ob_branchName = gp_head_ref pr, ob_baseBranch = gp_base_ref pr,
      ob_headSha = Some (gp_head_sha pr), ob_state = (if gp_merged pr then ''merged'' else gp_state pr),
      ob_reviewState = github_deriveReviewState reviews, ob_ciStatus = github_deriveCiStatus checkRuns combined,
      ob_mergeable = gp_mergeable pr,
      ob_blockingLabels = map (\<lambda>l. case l of None \<Rightarrow> '''' | Some n \<Rightarrow> n) (gp_labels pr),
      ob_conversationsResolved = conversations_resolved threads, ob_mergedAt = gp_merged_at pr,
      ob_mergeSha = gp_merge_commit_sha pr, ob_closedAt = gp_closed_at pr\<rparr>"

definition gitea_observed :: "github_pull \<Rightarrow> pr_review list \<Rightarrow> string option \<Rightarrow> observed_pr" where
  "gitea_observed pr reviews combined =
     \<lparr>ob_prNumber = gp_number pr, ob_branchName = gp_head_ref pr, ob_baseBranch = gp_base_ref pr,
      ob_headSha = Some (gp_head_sha pr), ob_state = (if gp_merged pr then ''merged'' else gp_state pr),
      ob_reviewState = gitea_deriveReviewState reviews,
      ob_ciStatus = gitea_deriveCiStatus (case combined of None \<Rightarrow> ''pending'' | Some st \<Rightarrow> st),
      ob_mergeable = gp_mergeable pr,
      ob_blockingLabels = map (\<lambda>l. case l of None \<Rightarrow> '''' | Some n \<Rightarrow> n) (gp_labels pr),
      ob_conversationsResolved = False, ob_mergedAt = gp_merged_at pr,
      ob_mergeSha = gp_merge_commit_sha pr, ob_closedAt = gp_closed_at pr\<rparr>"

record gitlab_merge_request =
  mq_iid :: int
  mq_source_branch :: string
  mq_target_branch :: string
  mq_sha :: "string option"
  mq_state :: string
  mq_merge_status :: "string option"
  mq_labels :: "string list"
  mq_merged_at :: "int option"
  mq_merge_commit_sha :: "string option"
  mq_closed_at :: "int option"
  mq_rebase_in_progress :: bool

definition mapGitlabState :: "string \<Rightarrow> string" where
  "mapGitlabState state =
     (if state = ''merged'' then ''merged'' else if state = ''closed'' then ''closed'' else ''open'')"

text \<open>\<open>mr.merge_status ? mr.merge_status === 'can_be_merged' : null\<close>: the empty string is null too.\<close>

definition gitlab_observed ::
    "gitlab_merge_request \<Rightarrow> gitlab_approvals \<Rightarrow> (bool \<times> bool) list list \<Rightarrow> string list \<Rightarrow> observed_pr" where
  "gitlab_observed mr approvals discussions pipelines =
     \<lparr>ob_prNumber = mq_iid mr, ob_branchName = mq_source_branch mr, ob_baseBranch = mq_target_branch mr,
      ob_headSha = mq_sha mr, ob_state = mapGitlabState (mq_state mr),
      ob_reviewState = gitlab_deriveReviewState approvals discussions,
      ob_ciStatus = gitlab_deriveCiStatus pipelines,
      ob_mergeable =
        (case mq_merge_status mr of
           None \<Rightarrow> None | Some st \<Rightarrow> if st = '''' then None else Some (st = ''can_be_merged'')),
      ob_blockingLabels = mq_labels mr, ob_conversationsResolved = deriveConversationsResolved discussions,
      ob_mergedAt = mq_merged_at mr, ob_mergeSha = mq_merge_commit_sha mr, ob_closedAt = mq_closed_at mr\<rparr>"

text \<open>\<open>getPullRequest\<close> of each client: a 404 is null, any other failure is thrown.\<close>

definition null_on_404 :: "'p scm_answer \<Rightarrow> ('p \<Rightarrow> 'a) \<Rightarrow> 'a option scm_answer" where
  "null_on_404 answer f =
     (case answer of
        Inl e \<Rightarrow> if sf_status e = Some 404 then Inr None else Inl e
      | Inr pr \<Rightarrow> Inr (Some (f pr)))"

text \<open>
  The bounded pagination of the Gitea and GitLab clients: at most \<open>MAX_PAGES\<close> pages of \<open>PAGE_SIZE\<close>,
  until a page that is not full. \<open>page n\<close> is the answer for page n.
\<close>

definition MAX_PAGES :: nat where
  "MAX_PAGES = 20"

definition PAGE_SIZE :: nat where
  "PAGE_SIZE = 50"

fun paginate_from :: "nat \<Rightarrow> nat \<Rightarrow> (nat \<Rightarrow> 'a list) \<Rightarrow> 'a list \<Rightarrow> 'a list" where
  "paginate_from 0 n page acc = acc"
| "paginate_from (Suc left) n page acc =
     (let batch = page n in
      if length batch < PAGE_SIZE then acc @ batch
      else paginate_from left (Suc n) page (acc @ batch))"

definition paginate :: "(nat \<Rightarrow> 'a list) \<Rightarrow> 'a list" where
  "paginate page = paginate_from MAX_PAGES 1 page []"

section \<open>A refused merge\<close>

record merge_options =
  mo_owner :: string
  mo_repo :: string
  mo_prNumber :: int
  mo_mergeMethod :: string
  mo_expectedHeadSha :: "string option"

datatype merge_error =
    ScmMergeRejectedError string string bool
  | MergeCallFailed scm_failure

definition github_merge_error :: "merge_options \<Rightarrow> scm_failure \<Rightarrow> merge_error" where
  "github_merge_error opts e =
     (let pr = ''PR #'' @ show_int (mo_prNumber opts) in
      if sf_status e = Some 409
      then ScmMergeRejectedError (pr @ '' head moved since the merge gate was evaluated: '' @ sf_message e)
             ''sha_mismatch'' True
      else if sf_status e = Some 405
      then ScmMergeRejectedError (pr @ '' is not mergeable (branch protection or conflict): '' @ sf_message e)
             ''not_mergeable'' False
      else MergeCallFailed e)"

definition gitea_merge_error :: "merge_options \<Rightarrow> scm_failure \<Rightarrow> merge_error" where
  "gitea_merge_error opts e =
     (if sf_status e \<in> {Some 404, Some 405, Some 409, Some 422}
      then ScmMergeRejectedError
             (''PR #'' @ show_int (mo_prNumber opts) @ '' is not mergeable: '' @ sf_message e) ''not_mergeable'' False
      else MergeCallFailed e)"

definition gitlab_merge_error :: "merge_options \<Rightarrow> scm_failure \<Rightarrow> merge_error" where
  "gitlab_merge_error opts e =
     (let mr = ''MR !'' @ show_int (mo_prNumber opts) in
      if sf_status e = Some 406
      then ScmMergeRejectedError (mr @ '' head moved since the merge gate was evaluated: '' @ sf_message e)
             ''sha_mismatch'' True
      else if sf_status e = Some 405 \<or> sf_status e = Some 422
      then ScmMergeRejectedError (mr @ '' is not mergeable: '' @ sf_message e) ''not_mergeable'' False
      else MergeCallFailed e)"

text \<open>
  \<open>mergePullRequest\<close>: the merge call's answer is the merge commit; Gitea's is empty and the commit is
  read back with a second request, whose failure is thrown as it is.
\<close>

definition github_mergePullRequest :: "merge_options \<Rightarrow> string scm_answer \<Rightarrow> merge_error + string" where
  "github_mergePullRequest opts answer =
     (case answer of Inl e \<Rightarrow> Inl (github_merge_error opts e) | Inr mergeSha \<Rightarrow> Inr mergeSha)"

definition gitea_mergePullRequest ::
    "merge_options \<Rightarrow> unit scm_answer \<Rightarrow> string option scm_answer \<Rightarrow> merge_error + string" where
  "gitea_mergePullRequest opts answer readBack =
     (case answer of
        Inl e \<Rightarrow> Inl (gitea_merge_error opts e)
      | Inr _ \<Rightarrow>
          (case readBack of
             Inl e \<Rightarrow> Inl (MergeCallFailed e)
           | Inr sha \<Rightarrow> Inr (case sha of None \<Rightarrow> '''' | Some x \<Rightarrow> x)))"

definition gitlab_mergePullRequest :: "merge_options \<Rightarrow> string option scm_answer \<Rightarrow> merge_error + string" where
  "gitlab_mergePullRequest opts answer =
     (case answer of
        Inl e \<Rightarrow> Inl (gitlab_merge_error opts e)
      | Inr sha \<Rightarrow> Inr (case sha of None \<Rightarrow> '''' | Some x \<Rightarrow> x))"

section \<open>The client, and what its callers share\<close>

text \<open>
  The client of a forge: what its requests answer, which may differ from one moment to the next, so
  the store, with its clock, is an argument.
\<close>

record scm_client =
  scm_getPullRequest :: "string \<Rightarrow> string \<Rightarrow> int \<Rightarrow> store \<Rightarrow> observed_pr option scm_answer"
  scm_listPullRequestsForBranch :: "string \<Rightarrow> string \<Rightarrow> string \<Rightarrow> store \<Rightarrow> (int \<times> string) list scm_answer"
  scm_createPullRequest :: "string \<Rightarrow> string \<Rightarrow> string \<Rightarrow> string \<Rightarrow> string \<Rightarrow> store \<Rightarrow> int scm_answer"
  scm_mergePullRequest :: "merge_options \<Rightarrow> store \<Rightarrow> merge_error + string"

definition scm_error :: "scm_failure \<Rightarrow> error" where
  "scm_error e = OtherError (sf_message e)"

definition askA :: "(store \<Rightarrow> 'a scm_answer) \<Rightarrow> 'a db_action" where
  "askA request = (\<lambda>s. (case request s of Inl e \<Rightarrow> Inl (scm_error e) | Inr a \<Rightarrow> Inr a, s))"

text \<open>\<open>SELECT ... FROM repositories WHERE project_id = ? LIMIT 1\<close>.\<close>

definition resolveRepository :: "string \<Rightarrow> store \<Rightarrow> repository_row option" where
  "resolveRepository projectId s = first_row (filter (\<lambda>r. repo_project_id r = projectId) (repositories s))"

text \<open>The branch of a run (\<open>packages/adapters-coder/src/workspace.ts\<close>).\<close>

definition branchNameFor :: "string \<Rightarrow> string" where
  "branchNameFor featureRunId = ''minicoder/'' @ featureRunId"

text \<open>\<open>try { ... } finally { ... }\<close>: an error of the finaliser replaces the outcome.\<close>

definition finallyA :: "'a db_action \<Rightarrow> unit db_action \<Rightarrow> 'a db_action" where
  "finallyA m final =
     (\<lambda>s. case m s of (res, t) \<Rightarrow> (case final t of (Inl e, u) \<Rightarrow> (Inl e, u) | (Inr _, u) \<Rightarrow> (res, u)))"

definition lock_context_of :: "string \<Rightarrow> acquired_lock \<Rightarrow> lock_context" where
  "lock_context_of projectId al =
     \<lparr>lc_lockId = al_lockId al, lc_fence = al_fence al, lc_holderId = al_holderId al,
      lc_projectId = Some projectId, lc_resourceKey = Some (executionLaneKey projectId)\<rparr>"

end
