(* ===== verification/ForgeFacts.thy ===== *)
theory ForgeFacts
  imports Forge
begin

text \<open>
  What the clients make of the answers of a forge: when a pull request counts as blocked by its
  reviews, and when its checks count as passed.
\<close>

section \<open>The walk over the reviews\<close>

definition clears :: "pr_review \<Rightarrow> bool" where
  "clears r = (rv_state r = ''APPROVED'' \<or> rv_state r = ''DISMISSED'')"

definition same_reviewer :: "pr_review list \<Rightarrow> nat \<Rightarrow> nat \<Rightarrow> bool" where
  "same_reviewer rs i j = (reviewer_key i (rs ! i) = reviewer_key j (rs ! j))"

definition walked :: "string \<Rightarrow> pr_review list \<Rightarrow> review_maps" where
  "walked requested rs = fold (walk_review requested) (enumerate 0 rs) ([], [])"

text \<open>The review at place i is its reviewer's request for changes, and nothing later clears it.\<close>

definition outstanding :: "string \<Rightarrow> pr_review list \<Rightarrow> nat \<Rightarrow> bool" where
  "outstanding requested rs i =
     (i < length rs \<and> rv_state (rs ! i) = requested
      \<and> (\<forall>j. i < j \<and> j < length rs \<and> same_reviewer rs i j \<longrightarrow> \<not> clears (rs ! j)))"

definition latest_of :: "pr_review list \<Rightarrow> nat \<Rightarrow> bool" where
  "latest_of rs i = (i < length rs \<and> (\<forall>j. i < j \<and> j < length rs \<longrightarrow> \<not> same_reviewer rs i j))"

lemma walked_Nil [simp]: "walked requested [] = ([], [])"
  by (simp add: walked_def)

lemma walked_snoc: "walked requested (rs @ [r]) = walk_review requested (length rs, r) (walked requested rs)"
  by (simp add: walked_def enumerate_append_eq)

lemma walked_distinct:
  "distinct (map fst (fst (walked requested rs)))" "distinct (map fst (snd (walked requested rs)))"
  by (induction rs rule: rev_induct)
    (auto simp: walked_snoc walk_review_def Let_def distinct_update split: prod.splits)

lemma outstanding_snoc:
  assumes "requested \<noteq> ''APPROVED''" "requested \<noteq> ''DISMISSED''"
  shows "(\<exists>i. outstanding requested (rs @ [r]) i \<and> reviewer_key i ((rs @ [r]) ! i) = k) \<longleftrightarrow>
     (if reviewer_key (length rs) r = k
      then rv_state r = requested \<or> (\<not> clears r \<and> (\<exists>i. outstanding requested rs i \<and> reviewer_key i (rs ! i) = k))
      else (\<exists>i. outstanding requested rs i \<and> reviewer_key i (rs ! i) = k))" (is "?l = ?r")
proof
  assume ?l
  then obtain i where i: "outstanding requested (rs @ [r]) i" "reviewer_key i ((rs @ [r]) ! i) = k" by blast
  show ?r
  proof (cases "i = length rs")
    case True
    with i show ?thesis by (auto simp: outstanding_def)
  next
    case False
    with i(1) have lt: "i < length rs" by (simp add: outstanding_def)
    have "outstanding requested rs i"
      unfolding outstanding_def
    proof (intro conjI allI impI)
      show "rv_state (rs ! i) = requested" using i lt by (simp add: outstanding_def nth_append)
      fix j assume "i < j \<and> j < length rs \<and> same_reviewer rs i j"
      with i(1) lt show "\<not> clears (rs ! j)"
        by (auto simp: outstanding_def same_reviewer_def nth_append dest: spec [of _ j])
    qed (rule lt)
    moreover have "reviewer_key (length rs) r = k \<Longrightarrow> \<not> clears r"
      using i lt by (auto simp: outstanding_def same_reviewer_def nth_append dest: spec [of _ "length rs"])
    ultimately show ?thesis using i(2) lt by (auto simp: nth_append)
  qed
next
  assume r: ?r
  show ?l
  proof (cases "reviewer_key (length rs) r = k \<and> rv_state r = requested")
    case True
    then have "outstanding requested (rs @ [r]) (length rs)" by (auto simp: outstanding_def less_Suc_eq)
    with True show ?thesis by (auto intro!: exI [of _ "length rs"])
  next
    case False
    with r obtain i where i: "outstanding requested rs i" "reviewer_key i (rs ! i) = k"
      "reviewer_key (length rs) r = k \<Longrightarrow> \<not> clears r" by (auto split: if_splits)
    then have "outstanding requested (rs @ [r]) i"
      by (auto simp: outstanding_def same_reviewer_def nth_append less_Suc_eq)
    moreover have "i < length rs" using i(1) by (simp add: outstanding_def)
    ultimately show ?thesis using i(2) by (auto simp: nth_append intro!: exI [of _ i])
  qed
qed

lemma walked_blocking:
  assumes "requested \<noteq> ''APPROVED''" "requested \<noteq> ''DISMISSED''"
  shows "map_of (snd (walked requested rs)) k = Some True \<longleftrightarrow>
     (\<exists>i. outstanding requested rs i \<and> reviewer_key i (rs ! i) = k)"
proof (induction rs rule: rev_induct)
  case (snoc r rs)
  obtain latest blocking where w: "walked requested rs = (latest, blocking)" by fastforce
  show ?case
    unfolding outstanding_snoc [OF assms] snoc [symmetric] walked_snoc w walk_review_def clears_def Let_def prod.case
      fst_conv snd_conv
    using assms by (simp add: update_conv')
qed (simp add: outstanding_def)

lemma latest_snoc:
  "latest_of (rs @ [r]) i \<longleftrightarrow>
     (i = length rs \<or> latest_of rs i \<and> reviewer_key i (rs ! i) \<noteq> reviewer_key (length rs) r)"
  by (auto simp: latest_of_def same_reviewer_def nth_append less_Suc_eq)

lemma walked_latest:
  "map_of (fst (walked requested rs)) k = Some x \<longleftrightarrow>
     (\<exists>i. latest_of rs i \<and> rs ! i = x \<and> reviewer_key i x = k)"
proof (induction rs arbitrary: k x rule: rev_induct)
  case (snoc r rs)
  have *: "(\<exists>i. latest_of (rs @ [r]) i \<and> (rs @ [r]) ! i = x \<and> reviewer_key i x = k) \<longleftrightarrow>
     (if reviewer_key (length rs) r = k then x = r
      else (\<exists>i. latest_of rs i \<and> rs ! i = x \<and> reviewer_key i x = k))"
  proof -
    have lt: "i < length rs" if "latest_of rs i" for i using that by (simp add: latest_of_def)
    show ?thesis
      unfolding latest_snoc using lt by (auto simp: nth_append)
  qed
  obtain latest blocking where w: "walked requested rs = (latest, blocking)" by fastforce
  show ?case
    unfolding * snoc [symmetric] walked_snoc w walk_review_def Let_def prod.case fst_conv snd_conv
    by (auto simp: update_conv')
qed (simp add: latest_of_def)

lemma latest_requested_outstanding:
  "latest_of rs i \<Longrightarrow> rv_state (rs ! i) = requested \<Longrightarrow> outstanding requested rs i"
  by (auto simp: latest_of_def outstanding_def)

lemma some_value: "distinct (map fst m) \<Longrightarrow> list_ex (\<lambda>v. P (snd v)) m \<longleftrightarrow> (\<exists>k v. map_of m k = Some v \<and> P v)"
  by (auto simp: list_ex_iff) (metis map_of_SomeD snd_conv)+

lemma sticky_blocked:
  assumes "requested \<noteq> ''APPROVED''" "requested \<noteq> ''DISMISSED''" "requested \<noteq> ''''"
  shows "sticky_review_state requested commented reviews = ''changes_requested''
     \<longleftrightarrow> (\<exists>i. outstanding requested (by_time reviews) i)"
proof -
  let ?rs = "by_time reviews"
  obtain latest blocking where w: "walked requested ?rs = (latest, blocking)" by fastforce
  have b: "list_ex snd blocking \<longleftrightarrow> (\<exists>i. outstanding requested ?rs i)"
    using some_value [OF walked_distinct(2), of "\<lambda>v. v" requested ?rs] walked_blocking [OF assms(1,2), of ?rs]
    by (auto simp: w)
  have l: "list_ex (\<lambda>r. rv_state r = requested) (map snd latest) \<Longrightarrow> \<exists>i. outstanding requested ?rs i"
    using some_value [OF walked_distinct(1), of "\<lambda>r. rv_state r = requested" requested ?rs]
      walked_latest [of requested ?rs] latest_requested_outstanding [of ?rs _ requested]
    by (fastforce simp: w list_ex_iff)
  have none: "reviews = [] \<Longrightarrow> \<not> outstanding requested ?rs i" for i
    by (auto simp: outstanding_def by_time_def)
  show ?thesis
    using b l none w unfolding sticky_review_state_def walked_def
    by (auto simp: Let_def)
qed

lemma ordered_insert:
  "sorted (map f xs) \<Longrightarrow> sorted (map f (insert_ordered (\<lambda>a b. f a < f b) x xs))" for f :: "'a \<Rightarrow> int"
  by (induction xs) (auto simp: set_insert_ordered)

lemma by_time_sorted: "sorted (map review_time (by_time reviews))"
  unfolding by_time_def order_by_def by (induction reviews) (simp_all add: ordered_insert)

section \<open>Checks\<close>

lemma check_passed_exact:
  "checkPassed c \<longleftrightarrow> cr_status c = ''completed''
     \<and> cr_conclusion c \<in> {Some ''success'', Some ''neutral'', Some ''skipped'', Some ''stale''}"
  by (cases "cr_conclusion c")
    (auto simp: checkPassed_def classifyCheckConclusion_def FAILURE_CONCLUSIONS_def NON_BLOCKING_CONCLUSIONS_def)

definition counted_statuses :: "combined_status \<Rightarrow> int" where
  "counted_statuses combined = (case cs_total_count combined of None \<Rightarrow> 0 | Some n \<Rightarrow> n)"

lemma ci_passed_exact:
  "github_deriveCiStatus runs combined = ''passed'' \<longleftrightarrow>
     (runs \<noteq> [] \<or> counted_statuses combined > 0) \<and> list_all checkPassed runs
     \<and> (counted_statuses combined \<le> 0 \<or> cs_state combined = ''success'')"
proof -
  have "list_all checkPassed runs \<Longrightarrow> \<not> list_ex checkFailed runs"
    "list_all checkPassed runs \<Longrightarrow> \<not> list_ex (\<lambda>c. cr_status c \<noteq> ''completed'') runs"
    by (auto simp: list_all_iff list_ex_iff checkFailed_def checkPassed_def)
  then show ?thesis
    unfolding github_deriveCiStatus_def counted_statuses_def [symmetric] by (auto simp: Let_def)
qed

text \<open>
  C29. The pull request as the GitHub client reports it: its reviews request changes exactly when some
  reviewer requested changes and that reviewer has neither approved nor been dismissed since, in
  order of time, whatever anyone else said; its checks have passed exactly when there is a check or
  a status, every check is complete and successful or not blocking, and the statuses, if any,
  succeeded. Gitea's client applies the same rule to its reviews.
\<close>

theorem observation_exact:
  "(ob_reviewState (github_observed pr reviews runs combined threads) = ''changes_requested'') =
     (\<exists>i. outstanding ''CHANGES_REQUESTED'' (by_time reviews) i)
   \<and> (ob_reviewState (gitea_observed pr reviews status) = ''changes_requested'') =
     (\<exists>i. outstanding ''REQUEST_CHANGES'' (by_time reviews) i)
   \<and> set (by_time reviews) = set reviews \<and> sorted (map review_time (by_time reviews))
   \<and> (ob_ciStatus (github_observed pr reviews runs combined threads) = ''passed'') =
     ((runs \<noteq> [] \<or> counted_statuses combined > 0)
      \<and> list_all (\<lambda>c. cr_status c = ''completed''
           \<and> cr_conclusion c \<in> {Some ''success'', Some ''neutral'', Some ''skipped'', Some ''stale''}) runs
      \<and> (counted_statuses combined \<le> 0 \<or> cs_state combined = ''success''))"
  using sticky_blocked [of "''CHANGES_REQUESTED''" "''COMMENTED''" reviews]
    sticky_blocked [of "''REQUEST_CHANGES''" "''COMMENT''" reviews] ci_passed_exact [of runs combined]
  by (simp add: github_observed_def gitea_observed_def github_deriveReviewState_def gitea_deriveReviewState_def
      by_time_sorted check_passed_exact [abs_def]) (simp add: by_time_def)

text \<open>Alice asks for changes, comments, and approves; Bob asks for changes, and later comments.\<close>

definition sample_reviews :: "pr_review list" where
  "sample_reviews =
     [\<lparr>rv_state = ''CHANGES_REQUESTED'', rv_submitted_at = Some 2, rv_login = Some ''bob''\<rparr>,
      \<lparr>rv_state = ''CHANGES_REQUESTED'', rv_submitted_at = Some 1, rv_login = Some ''alice''\<rparr>,
      \<lparr>rv_state = ''APPROVED'', rv_submitted_at = Some 4, rv_login = Some ''alice''\<rparr>,
      \<lparr>rv_state = ''COMMENTED'', rv_submitted_at = Some 3, rv_login = Some ''bob''\<rparr>]"

theorem observation_exact_witness:
  "\<forall>pr threads. ob_reviewState (github_observed pr sample_reviews [\<lparr>cr_status = ''completed'', cr_conclusion = Some ''skipped''\<rparr>]
        \<lparr>cs_state = ''pending'', cs_total_count = None\<rparr> threads) = ''changes_requested''
     \<and> ob_ciStatus (github_observed pr sample_reviews [\<lparr>cr_status = ''completed'', cr_conclusion = Some ''skipped''\<rparr>]
        \<lparr>cs_state = ''pending'', cs_total_count = None\<rparr> threads) = ''passed''"
proof (intro allI)
  fix pr threads
  have "outstanding ''CHANGES_REQUESTED'' (by_time sample_reviews) 1"
    by (auto simp: outstanding_def by_time_def order_by_def sample_reviews_def review_time_def same_reviewer_def clears_def
        reviewer_key_def less_Suc_eq numeral_nat)
  then show "ob_reviewState (github_observed pr sample_reviews [\<lparr>cr_status = ''completed'', cr_conclusion = Some ''skipped''\<rparr>]
        \<lparr>cs_state = ''pending'', cs_total_count = None\<rparr> threads) = ''changes_requested''
     \<and> ob_ciStatus (github_observed pr sample_reviews [\<lparr>cr_status = ''completed'', cr_conclusion = Some ''skipped''\<rparr>]
        \<lparr>cs_state = ''pending'', cs_total_count = None\<rparr> threads) = ''passed''"
    using observation_exact [of pr sample_reviews "[\<lparr>cr_status = ''completed'', cr_conclusion = Some ''skipped''\<rparr>]"
        "\<lparr>cs_state = ''pending'', cs_total_count = None\<rparr>" threads]
    by (auto simp: counted_statuses_def)
qed

end
