(* ===== verification/Webhooks.thy ===== *)
theory Webhooks
  imports Forge Reconcile
begin

text \<open>
  The webhook receivers of the three forges and what becomes of a delivery: \<open>webhook-signature.ts\<close>,
  \<open>normalize.ts\<close> and \<open>webhook-app.ts\<close> of \<open>packages/github\<close>, \<open>packages/gitea\<close> and
  \<open>packages/gitlab\<close> put a row into the inbox, and \<open>inbox-handlers.ts\<close> of the same packages resolve
  the run a row is about and reconcile it with the pull request.

  A raw delivery is a JSON value, read the way the code reads it: a missing property is
  \<open>undefined\<close> (\<open>None\<close>), and so is every property of a value that has none.
\<close>

section \<open>Reading JSON\<close>

text \<open>\<open>x?.k\<close> and \<open>x?.[0]\<close>; \<open>x ?? null\<close>.\<close>

definition jget :: "string \<Rightarrow> json option \<Rightarrow> json option" where
  "jget k x = (case x of Some (JObj flds) \<Rightarrow> map_of flds k | _ \<Rightarrow> None)"

definition jfirst :: "json option \<Rightarrow> json option" where
  "jfirst x =
     (case x of
        Some (JArr (v # vs)) \<Rightarrow> Some v
      | Some (JStr (c # cs)) \<Rightarrow> Some (JStr [c])
      | Some (JObj flds) \<Rightarrow> map_of flds ''0''
      | _ \<Rightarrow> None)"

definition or_null :: "json option \<Rightarrow> json" where
  "or_null x = (case x of None \<Rightarrow> JNull | Some v \<Rightarrow> v)"

text \<open>An object literal as \<open>JSON.stringify\<close> writes it: a property that is undefined is left out.\<close>

definition jobj :: "(string \<times> json option) list \<Rightarrow> (string \<times> json) list" where
  "jobj flds = concat (map (\<lambda>(k, x). case x of None \<Rightarrow> [] | Some v \<Rightarrow> [(k, v)]) flds)"

definition is_str :: "json option \<Rightarrow> string \<Rightarrow> bool" where
  "is_str x v = (x = Some (JStr v))"

text \<open>A conclusion that is not a string is in neither set and equals no string.\<close>

definition conclusion_of :: "json option \<Rightarrow> string option" where
  "conclusion_of x = (case x of Some (JStr c) \<Rightarrow> Some c | _ \<Rightarrow> None)"

definition typeError :: error where
  "typeError = OtherError ''TypeError''"

section \<open>Normalisation\<close>

record normalized_event =
  ne_eventType :: string
  ne_repoFullName :: json
  ne_prNumber :: json
  ne_payload :: "(string \<times> json) list"

definition event :: "string \<Rightarrow> json \<Rightarrow> json \<Rightarrow> (string \<times> json option) list \<Rightarrow> normalized_event option" where
  "event eventType repo prNumber flds =
     Some \<lparr>ne_eventType = eventType, ne_repoFullName = repo, ne_prNumber = prNumber, ne_payload = jobj flds\<rparr>"

definition repo_full_name_of :: "json option \<Rightarrow> json" where
  "repo_full_name_of raw = (case jget ''full_name'' (jget ''repository'' raw) of None \<Rightarrow> JStr '''' | Some JNull \<Rightarrow> JStr '''' | Some v \<Rightarrow> v)"

text \<open>
  \<open>ref?.startsWith('refs/heads/') ? ref.slice('refs/heads/'.length) : ref\<close>: a ref that is neither
  null nor a string has no \<open>startsWith\<close>.
\<close>

definition branch_of_ref :: "json \<Rightarrow> error + json" where
  "branch_of_ref ref =
     (case ref of
        JNull \<Rightarrow> Inr JNull
      | JStr r \<Rightarrow> Inr (JStr (if prefix ''refs/heads/'' r then drop (length ''refs/heads/'') r else r))
      | _ \<Rightarrow> Inl typeError)"

definition push_event :: "json \<Rightarrow> json option \<Rightarrow> error + normalized_event option" where
  "push_event repo raw =
     (case branch_of_ref (or_null (jget ''ref'' raw)) of
        Inl e \<Rightarrow> Inl e
      | Inr branchName \<Rightarrow>
          Inr (event ''push'' repo JNull
                 [(''branchName'', Some branchName), (''sha'', Some (or_null (jget ''after'' raw)))]))"

text \<open>The \<open>status\<close> event, the same for GitHub and Gitea.\<close>

definition status_event :: "json \<Rightarrow> json option \<Rightarrow> normalized_event option" where
  "status_event repo raw =
     (let state = jget ''state'' raw; flds = [(''sha'', jget ''sha'' raw), (''state'', state)] in
      if is_str state ''success'' then event ''check.passed'' repo JNull flds
      else if is_str state ''failure'' \<or> is_str state ''error'' then event ''check.failed'' repo JNull flds
      else None)"

definition pull_request_event ::
    "string \<Rightarrow> json \<Rightarrow> json \<Rightarrow> json option \<Rightarrow> normalized_event option" where
  "pull_request_event synchronized repo prNumber raw =
     (let pr = jget ''pull_request'' raw; action = jget ''action'' raw;
          headSha = or_null (jget ''sha'' (jget ''head'' pr)) in
      if is_str action ''opened'' \<or> is_str action ''reopened''
      then
        event ''pr.opened'' repo prNumber
          [(''prNumber'', Some prNumber), (''branchName'', Some (or_null (jget ''ref'' (jget ''head'' pr)))),
           (''baseBranch'', Some (or_null (jget ''ref'' (jget ''base'' pr)))), (''headSha'', Some headSha),
           (''action'', action)]
      else if is_str action synchronized
      then
        event ''pr.synchronized'' repo prNumber
          [(''prNumber'', Some prNumber), (''headSha'', Some headSha), (''action'', action)]
      else if is_str action ''closed''
      then
        let merged = (jget ''merged'' pr = Some (JBool True)) in
        event (if merged then ''pr.merged'' else ''pr.closed'') repo prNumber
          [(''prNumber'', Some prNumber), (''action'', action), (''merged'', Some (JBool merged))]
      else None)"

text \<open>GitHub.\<close>

definition github_review_event :: "json \<Rightarrow> json \<Rightarrow> json option \<Rightarrow> normalized_event option" where
  "github_review_event repo prNumber raw =
     (let action = jget ''action'' raw; review = jget ''review'' raw; state = jget ''state'' review;
          reviewer = Some (or_null (jget ''login'' (jget ''user'' review)));
          flds = [(''prNumber'', Some prNumber), (''reviewer'', reviewer), (''state'', state)] in
      if is_str action ''dismissed''
      then event ''review.dismissed'' repo prNumber [(''prNumber'', Some prNumber), (''reviewer'', reviewer)]
      else if is_str action ''submitted'' \<and> is_str state ''approved''
      then event ''review.approved'' repo prNumber flds
      else if is_str action ''submitted'' \<and> is_str state ''changes_requested''
      then event ''review.changes_requested'' repo prNumber flds
      else if is_str action ''submitted'' \<and> is_str state ''commented''
      then event ''review.commented'' repo prNumber flds
      else None)"

definition check_event ::
    "json \<Rightarrow> json \<Rightarrow> json option \<Rightarrow> (string \<times> json option) list \<Rightarrow> normalized_event option" where
  "check_event repo prNumber conclusion extra =
     (let flds = (''prNumber'', Some prNumber) # extra @ [(''conclusion'', Some (or_null conclusion))] in
      case classifyCheckConclusion (conclusion_of conclusion) of
        CC_PASSED \<Rightarrow> event ''check.passed'' repo prNumber flds
      | CC_FAILED \<Rightarrow> event ''check.failed'' repo prNumber flds
      | CC_UNKNOWN \<Rightarrow> None)"

definition normalizeGithubWebhookEvent :: "string \<Rightarrow> json \<Rightarrow> error + normalized_event option" where
  "normalizeGithubWebhookEvent githubEvent body =
     (if body = JNull then Inl typeError
      else
        let raw = Some body; repo = repo_full_name_of raw; action = jget ''action'' raw;
            prNumber = or_null (jget ''number'' (jget ''pull_request'' raw)) in
        if githubEvent = ''pull_request'' then Inr (pull_request_event ''synchronize'' repo prNumber raw)
        else if githubEvent = ''pull_request_review'' then Inr (github_review_event repo prNumber raw)
        else if githubEvent = ''pull_request_review_comment''
        then
          Inr (event ''review.comment'' repo prNumber
                 [(''prNumber'', Some prNumber), (''action'', Some (or_null action))])
        else if githubEvent = ''check_run''
        then
          Inr (if \<not> is_str action ''completed'' then None
               else
                 let run = jget ''check_run'' raw in
                 check_event repo (or_null (jget ''number'' (jfirst (jget ''pull_requests'' run))))
                   (jget ''conclusion'' run) [(''checkRunId'', Some (or_null (jget ''id'' run)))])
        else if githubEvent = ''check_suite''
        then
          Inr (if \<not> is_str action ''completed'' then None
               else
                 let suite = jget ''check_suite'' raw in
                 check_event repo (or_null (jget ''number'' (jfirst (jget ''pull_requests'' suite))))
                   (jget ''conclusion'' suite) [])
        else if githubEvent = ''status'' then Inr (status_event repo raw)
        else if githubEvent = ''push'' then push_event repo raw
        else Inr None)"

text \<open>Gitea.\<close>

definition gitea_pr_number :: "json option \<Rightarrow> json" where
  "gitea_pr_number raw =
     (case jget ''number'' (jget ''pull_request'' raw) of
        None \<Rightarrow> or_null (jget ''number'' raw)
      | Some JNull \<Rightarrow> or_null (jget ''number'' raw)
      | Some n \<Rightarrow> n)"

definition mapGiteaReviewType :: "json option \<Rightarrow> string option" where
  "mapGiteaReviewType reviewType =
     (if is_str reviewType ''pull_request_review_approve'' then Some ''approved''
      else if is_str reviewType ''pull_request_review_reject'' then Some ''changes_requested''
      else if is_str reviewType ''pull_request_review_comment'' then Some ''commented''
      else None)"

definition gitea_review_event :: "json \<Rightarrow> json \<Rightarrow> json option \<Rightarrow> normalized_event option" where
  "gitea_review_event repo prNumber raw =
     (if \<not> is_str (jget ''action'' raw) ''submitted'' then None
      else
        let reviewType = jget ''type'' (jget ''review'' raw) in
        case mapGiteaReviewType reviewType of
          None \<Rightarrow> None
        | Some mapped \<Rightarrow>
            event (if mapped = ''approved'' then ''review.approved''
                   else if mapped = ''changes_requested'' then ''review.changes_requested''
                   else ''review.commented'') repo prNumber
              [(''prNumber'', Some prNumber),
               (''reviewer'', Some (or_null (jget ''login'' (jget ''reviewer'' raw)))),
               (''reviewType'', Some (or_null reviewType))])"

definition normalizeGiteaWebhookEvent :: "string \<Rightarrow> json \<Rightarrow> error + normalized_event option" where
  "normalizeGiteaWebhookEvent giteaEvent body =
     (if body = JNull then Inl typeError
      else
        let raw = Some body; repo = repo_full_name_of raw; prNumber = gitea_pr_number raw in
        if giteaEvent = ''pull_request'' then Inr (pull_request_event ''synchronized'' repo prNumber raw)
        else if giteaEvent = ''pull_request_review'' then Inr (gitea_review_event repo prNumber raw)
        else if giteaEvent = ''pull_request_comment''
        then
          Inr (event ''review.comment'' repo prNumber
                 [(''prNumber'', Some prNumber), (''action'', Some (or_null (jget ''action'' raw)))])
        else if giteaEvent = ''status'' then Inr (status_event repo raw)
        else if giteaEvent = ''push'' then push_event repo raw
        else Inr None)"

text \<open>GitLab: \<open>object_kind\<close> names the event; \<open>oldrev\<close> is tested for truth.\<close>

definition json_truthy :: "json option \<Rightarrow> bool" where
  "json_truthy x =
     (case x of
        None \<Rightarrow> False | Some JNull \<Rightarrow> False | Some (JBool b) \<Rightarrow> b | Some (JNum n) \<Rightarrow> n \<noteq> 0 | Some (JStr s) \<Rightarrow> s \<noteq> ''''
      | Some _ \<Rightarrow> True)"

definition gitlab_project :: "json option \<Rightarrow> json" where
  "gitlab_project raw =
     (case jget ''path_with_namespace'' (jget ''project'' raw) of
        None \<Rightarrow> JStr '''' | Some JNull \<Rightarrow> JStr '''' | Some v \<Rightarrow> v)"

definition gitlab_merge_event :: "json option \<Rightarrow> normalized_event option" where
  "gitlab_merge_event raw =
     (let attrs = jget ''object_attributes'' raw; repo = gitlab_project raw; prNumber = or_null (jget ''iid'' attrs);
          action = jget ''action'' attrs; headSha = or_null (jget ''id'' (jget ''last_commit'' attrs)) in
      if is_str action ''open'' \<or> is_str action ''reopen''
      then
        event ''pr.opened'' repo prNumber
          [(''prNumber'', Some prNumber), (''branchName'', Some (or_null (jget ''source_branch'' attrs))),
           (''baseBranch'', Some (or_null (jget ''target_branch'' attrs))), (''headSha'', Some headSha),
           (''action'', action)]
      else if is_str action ''update'' \<and> json_truthy (jget ''oldrev'' attrs)
      then
        event ''pr.synchronized'' repo prNumber
          [(''prNumber'', Some prNumber), (''headSha'', Some headSha), (''action'', action)]
      else if is_str action ''close''
      then
        event ''pr.closed'' repo prNumber
          [(''prNumber'', Some prNumber), (''action'', action), (''merged'', Some (JBool False))]
      else if is_str action ''merge''
      then
        event ''pr.merged'' repo prNumber
          [(''prNumber'', Some prNumber), (''action'', action), (''merged'', Some (JBool True))]
      else if is_str action ''approved''
      then
        event ''review.approved'' repo prNumber
          [(''prNumber'', Some prNumber), (''reviewer'', Some (or_null (jget ''username'' (jget ''user'' raw))))]
      else None)"

definition gitlab_pipeline_event :: "json option \<Rightarrow> normalized_event option" where
  "gitlab_pipeline_event raw =
     (let attrs = jget ''object_attributes'' raw; status = jget ''status'' attrs;
          flds = [(''sha'', jget ''sha'' attrs), (''status'', status)] in
      if is_str status ''success'' then event ''check.passed'' (gitlab_project raw) JNull flds
      else if is_str status ''failed'' then event ''check.failed'' (gitlab_project raw) JNull flds
      else None)"

definition gitlab_note_event :: "json option \<Rightarrow> normalized_event option" where
  "gitlab_note_event raw =
     (if \<not> is_str (jget ''noteable_type'' (jget ''object_attributes'' raw)) ''MergeRequest'' then None
      else
        let prNumber = or_null (jget ''iid'' (jget ''merge_request'' raw)) in
        event ''review.comment'' (gitlab_project raw) prNumber [(''prNumber'', Some prNumber)])"

definition normalizeGitlabWebhookEvent :: "string \<Rightarrow> json \<Rightarrow> error + normalized_event option" where
  "normalizeGitlabWebhookEvent objectKind body =
     (let raw = Some body in
      if objectKind = ''merge_request'' then Inr (gitlab_merge_event raw)
      else if objectKind = ''pipeline'' then Inr (gitlab_pipeline_event raw)
      else if objectKind = ''note'' then Inr (gitlab_note_event raw)
      else if objectKind = ''push'' then push_event (gitlab_project raw) raw
      else Inr None)"

section \<open>Authenticity\<close>

text \<open>
  GitHub's check is Octokit's \<open>verifyWithFallback\<close>; Gitea's compares an HMAC; GitLab compares a
  token. Octokit's function and the HMAC are parameters.
\<close>

definition verifyWebhookSignature ::
    "(string \<Rightarrow> string \<Rightarrow> string \<Rightarrow> string list \<Rightarrow> bool) \<Rightarrow> string \<Rightarrow> string option \<Rightarrow> string list \<Rightarrow> bool" where
  "verifyWebhookSignature verifyWithFallback body signature secrets =
     (case signature of
        None \<Rightarrow> False
      | Some sig \<Rightarrow>
          if sig = '''' then False
          else
            (case filter (\<lambda>s. s \<noteq> '''') secrets of
               [] \<Rightarrow> False
             | primary # fallback \<Rightarrow> verifyWithFallback primary body sig fallback))"

definition verifyGiteaWebhookSignature ::
    "(string \<Rightarrow> string \<Rightarrow> string) \<Rightarrow> string \<Rightarrow> string option \<Rightarrow> string list \<Rightarrow> bool" where
  "verifyGiteaWebhookSignature computeDigest body signature secrets =
     (case signature of
        None \<Rightarrow> False
      | Some sig \<Rightarrow>
          sig \<noteq> '''' \<and> list_ex (\<lambda>secret. computeDigest body secret = sig) (filter (\<lambda>s. s \<noteq> '''') secrets))"

definition verifyGitlabWebhookToken :: "string option \<Rightarrow> string list \<Rightarrow> bool" where
  "verifyGitlabWebhookToken tok secrets =
     (case tok of
        None \<Rightarrow> False
      | Some t \<Rightarrow> t \<noteq> '''' \<and> list_ex (\<lambda>secret. t = secret) (filter (\<lambda>s. s \<noteq> '''') secrets))"

section \<open>The receivers\<close>

record webhook_reply =
  wr_code :: int
  wr_body :: json

definition reply :: "int \<Rightarrow> (string \<times> json) list \<Rightarrow> webhook_reply db_action" where
  "reply code flds = returnA \<lparr>wr_code = code, wr_body = JObj flds\<rparr>"

text \<open>\<open>WHERE full_name = ? AND provider = ?\<close>; a name that is not a string matches no row.\<close>

definition resolveProjectId :: "string \<Rightarrow> json \<Rightarrow> store \<Rightarrow> string option" where
  "resolveProjectId provider repoFullName s =
     (case repoFullName of
        JStr full \<Rightarrow>
          if full = '''' then None
          else map_option repo_project_id
                 (first_row (filter (\<lambda>r. repo_full_name r = full \<and> repo_provider r = provider) (repositories s)))
      | _ \<Rightarrow> None)"

text \<open>
  INSERT INTO inbox_events, outside a transaction: \<open>id\<close> and \<open>dedup_key\<close> are unique, and the code
  takes an error that mentions ``unique'' for a delivery it already has.
\<close>

definition insert_inbox :: "inbox_row \<Rightarrow> store \<Rightarrow> store" where
  "insert_inbox row s =
     (if q_id row \<in> q_id ` set (inbox_events s) \<or> in_dedup_key row \<in> in_dedup_key ` set (inbox_events s) then s
      else inbox_events_update (\<lambda>rows. rows @ [row]) s)"

definition inbox_row_of ::
    "string \<Rightarrow> string \<Rightarrow> string \<Rightarrow> normalized_event \<Rightarrow> string \<Rightarrow> int \<Rightarrow> inbox_row" where
  "inbox_row_of i dedupKey source e projectId now =
     \<lparr>q_id = i, q_event_type = ne_eventType e, q_payload = JObj (ne_payload e @ [(''projectId'', JStr projectId)]),
      q_payload_schema_version = SCHEMA_VERSION, q_status = EV_PENDING, q_attempts = 0, q_next_retry_at = None,
      q_version = 1, q_created_at = now, q_updated_at = now, in_dedup_key = dedupKey, in_source = source\<rparr>"

definition record_delivery ::
    "string \<Rightarrow> string \<Rightarrow> error + normalized_event option \<Rightarrow> webhook_reply db_action" where
  "record_delivery source dedupKey normalized =
     (case normalized of
        Inl e \<Rightarrow> throwA e
      | Inr None \<Rightarrow> reply 202 [(''status'', JStr ''ignored'')]
      | Inr (Some e) \<Rightarrow>
          bindA (queryA (resolveProjectId source (ne_repoFullName e))) (\<lambda>found.
          case found of
            None \<Rightarrow> reply 202 [(''status'', JStr ''unlinked-repository'')]
          | Some projectId \<Rightarrow>
              if projectId = '''' then reply 202 [(''status'', JStr ''unlinked-repository'')]
              else
                bindA (queryA clock) (\<lambda>now.
                bindA (transaction generateId) (\<lambda>i.
                bindA (transaction (executeT (insert_inbox (inbox_row_of i dedupKey source e projectId now)))) (\<lambda>_.
                reply 200 [(''status'', JStr ''accepted''), (''eventType'', JStr (ne_eventType e))])))))"

definition missing :: "string option \<Rightarrow> bool" where
  "missing header = (header = None \<or> header = Some '''')"

definition bad_request :: "string \<Rightarrow> webhook_reply db_action" where
  "bad_request message = reply 400 [(''error'', JStr message)]"

record delivery =
  dl_rawBody :: string
  dl_body :: json
  dl_signature :: "string option"
  dl_deliveryId :: "string option"
  dl_event :: "string option"

definition header_value :: "string option \<Rightarrow> string" where
  "header_value header = (case header of None \<Rightarrow> '''' | Some v \<Rightarrow> v)"

definition receiveGithubWebhook ::
    "(string \<Rightarrow> string \<Rightarrow> string \<Rightarrow> string list \<Rightarrow> bool) \<Rightarrow> string list \<Rightarrow> delivery \<Rightarrow> webhook_reply db_action" where
  "receiveGithubWebhook verifyWithFallback secrets d =
     (if \<not> verifyWebhookSignature verifyWithFallback (dl_rawBody d) (dl_signature d) secrets
      then reply 401 [(''error'', JStr ''invalid signature'')]
      else if missing (dl_deliveryId d) then bad_request ''missing X-GitHub-Delivery header''
      else if missing (dl_event d) then bad_request ''missing X-GitHub-Event header''
      else
        record_delivery ''github'' (header_value (dl_deliveryId d))
          (normalizeGithubWebhookEvent (header_value (dl_event d)) (dl_body d)))"

definition receiveGiteaWebhook ::
    "(string \<Rightarrow> string \<Rightarrow> string) \<Rightarrow> string list \<Rightarrow> delivery \<Rightarrow> webhook_reply db_action" where
  "receiveGiteaWebhook computeDigest secrets d =
     (if \<not> verifyGiteaWebhookSignature computeDigest (dl_rawBody d) (dl_signature d) secrets
      then reply 401 [(''error'', JStr ''invalid signature'')]
      else if missing (dl_deliveryId d) then bad_request ''missing X-Gitea-Delivery header''
      else if missing (dl_event d) then bad_request ''missing X-Gitea-Event header''
      else
        record_delivery ''gitea'' (header_value (dl_deliveryId d))
          (normalizeGiteaWebhookEvent (header_value (dl_event d)) (dl_body d)))"

text \<open>
  GitLab sends no delivery id: the key is a hash of the body. The event is \<open>object_kind\<close>; one that is
  not a string is no case of the normalisation.
\<close>

definition receiveGitlabWebhook ::
    "(string \<Rightarrow> string) \<Rightarrow> string list \<Rightarrow> delivery \<Rightarrow> webhook_reply db_action" where
  "receiveGitlabWebhook sha256 secrets d =
     (if \<not> verifyGitlabWebhookToken (dl_signature d) secrets
      then reply 401 [(''error'', JStr ''invalid token'')]
      else
        let objectKind = jget ''object_kind'' (Some (dl_body d)) in
        if \<not> json_truthy objectKind then bad_request ''missing object_kind in payload''
        else
          record_delivery ''gitlab'' (sha256 (dl_rawBody d))
            (case objectKind of
               Some (JStr kind) \<Rightarrow> normalizeGitlabWebhookEvent kind (dl_body d)
             | _ \<Rightarrow> Inr None))"

section \<open>The run an event is about\<close>

text \<open>
  \<open>NormalizedInboxPayload\<close>: the handlers cast the row's payload to this type, so a field of another
  type than the declared one reads as absent here.
\<close>

record inbox_payload =
  np_projectId :: string
  np_prNumber :: "int option"
  np_featureRunId :: "string option"
  np_branchName :: "string option"
  np_sha :: "string option"

definition text_field :: "string \<Rightarrow> json \<Rightarrow> string option" where
  "text_field k j = (case jget k (Some j) of Some (JStr v) \<Rightarrow> if v = '''' then None else Some v | _ \<Rightarrow> None)"

definition int_field :: "string \<Rightarrow> json \<Rightarrow> int option" where
  "int_field k j =
     (case jget k (Some j) of Some (JNum n) \<Rightarrow> if of_int (floor n) = n then Some (floor n) else None | _ \<Rightarrow> None)"

definition as_inbox_payload :: "json \<Rightarrow> inbox_payload" where
  "as_inbox_payload j =
     \<lparr>np_projectId = header_value (text_field ''projectId'' j), np_prNumber = int_field ''prNumber'' j,
      np_featureRunId = text_field ''featureRunId'' j, np_branchName = text_field ''branchName'' j,
      np_sha = text_field ''sha'' j\<rparr>"

text \<open>Pull requests joined with their run and its request: those of the project.\<close>

definition project_pull_requests :: "string \<Rightarrow> store \<Rightarrow> pull_request_row list" where
  "project_pull_requests projectId s =
     filter (\<lambda>p. find_run (pr_feature_run_id p) projectId s \<noteq> None) (pull_requests s)"

definition run_of_pull_request :: "(pull_request_row \<Rightarrow> bool) \<Rightarrow> string \<Rightarrow> store \<Rightarrow> (string \<times> int) option" where
  "run_of_pull_request which projectId s =
     map_option (\<lambda>p. (pr_feature_run_id p, pr_number p)) (first_row (filter which (project_pull_requests projectId s)))"

text \<open>The runs of the request with this \<open>fr_id\<close>, the latest attempt first.\<close>

definition latest_run_of_fr :: "string \<Rightarrow> string \<Rightarrow> store \<Rightarrow> feature_run_row option" where
  "latest_run_of_fr projectId frId s =
     first_row (order_by (\<lambda>a b. run_attempt_no a > run_attempt_no b)
       (filter (\<lambda>r. list_ex (\<lambda>q. req_id q = run_feature_request_id r \<and> req_project_id q = projectId \<and> req_fr_id q = frId)
                      (feature_requests s)) (feature_runs s)))"

definition fr_id_of_branch :: "string \<Rightarrow> string option" where
  "fr_id_of_branch branchName =
     (if prefix ''minicoder/'' branchName \<and> branchName \<noteq> ''minicoder/''
      then Some (drop (length ''minicoder/'') branchName) else None)"

definition run_of_branch :: "inbox_payload \<Rightarrow> store \<Rightarrow> (string \<times> int) option" where
  "run_of_branch pay s =
     (case Option.bind (np_branchName pay) fr_id_of_branch of
        None \<Rightarrow> None
      | Some frId \<Rightarrow>
          (case latest_run_of_fr (np_projectId pay) frId s of
             None \<Rightarrow> None
           | Some r \<Rightarrow>
               (case getPullRequestByFeatureRun (run_id r) s of
                  Some p \<Rightarrow> Some (run_id r, pr_number p)
                | None \<Rightarrow> map_option (Pair (run_id r)) (np_prNumber pay))))"

definition resolveFeatureRunId :: "inbox_payload \<Rightarrow> store \<Rightarrow> (string \<times> int) option" where
  "resolveFeatureRunId pay s =
     (case np_featureRunId pay of
        Some featureRunId \<Rightarrow>
          (case np_prNumber pay of
             Some n \<Rightarrow> Some (featureRunId, n)
           | None \<Rightarrow> map_option (\<lambda>p. (featureRunId, pr_number p)) (getPullRequestByFeatureRun featureRunId s))
      | None \<Rightarrow>
          (case Option.bind (np_prNumber pay) (\<lambda>n. run_of_pull_request (\<lambda>p. pr_number p = n) (np_projectId pay) s) of
             Some found \<Rightarrow> Some found
           | None \<Rightarrow>
               (case run_of_branch pay s of
                  Some found \<Rightarrow> Some found
                | None \<Rightarrow>
                    Option.bind (np_sha pay) (\<lambda>sha.
                      run_of_pull_request (\<lambda>p. pr_head_sha p = Some sha) (np_projectId pay) s))))"

section \<open>The inbox handlers\<close>

definition LOCK_TTL_MS :: int where
  "LOCK_TTL_MS = 30000"

definition reconcileWithLock ::
    "string \<Rightarrow> string \<Rightarrow> string \<Rightarrow> observed_pr \<Rightarrow> string \<Rightarrow> reconcile_result db_action" where
  "reconcileWithLock holderId projectId featureRunId observed corr =
     bindA (acquire projectId (executionLaneKey projectId) \<lparr>lo_ttlMs = LOCK_TTL_MS, lo_holderId = holderId\<rparr>) (\<lambda>al.
     finallyA
       (reconcileGithubState
          \<lparr>ro_featureRunId = featureRunId, ro_projectId = projectId, ro_observed = observed,
           ro_correlationId = corr, ro_lockContext = Some (lock_context_of projectId al)\<rparr>)
       (release al))"

text \<open>
  The reconciliation of one run, shared by the handlers and the scheduled task: without the lock
  when the run's state needs none, once more with it when the pass turns out to need it.
\<close>

definition reconcile_run ::
    "string \<Rightarrow> string \<Rightarrow> string \<Rightarrow> observed_pr \<Rightarrow> string \<Rightarrow> bool \<Rightarrow> reconcile_result db_action" where
  "reconcile_run holderId projectId featureRunId observed corr needsLock =
     (if needsLock then reconcileWithLock holderId projectId featureRunId observed corr
      else
        bindA (reconcileGithubState
                 \<lparr>ro_featureRunId = featureRunId, ro_projectId = projectId, ro_observed = observed,
                  ro_correlationId = corr, ro_lockContext = None\<rparr>) (\<lambda>result.
        if rr_action result = RA_LOCK_REQUIRED
        then reconcileWithLock holderId projectId featureRunId observed corr
        else returnA result))"

definition run_needs_lock :: "string \<Rightarrow> store \<Rightarrow> bool" where
  "run_needs_lock featureRunId s =
     (case first_row (filter (\<lambda>r. run_id r = featureRunId) (feature_runs s)) of
        None \<Rightarrow> False
      | Some r \<Rightarrow> requiresExecutionLock (fe_str (run_state r)))"

definition handle_scm_event ::
    "string \<Rightarrow> (error + scm_client) \<Rightarrow> string \<Rightarrow> json \<Rightarrow> unit db_action" where
  "handle_scm_event holderId clientFactory eventType rawPayload =
     (let pay = as_inbox_payload rawPayload in
      bindA (queryA (resolveFeatureRunId pay)) (\<lambda>resolved.
      case resolved of
        None \<Rightarrow> returnA ()
      | Some (featureRunId, prNumber) \<Rightarrow>
          bindA (queryA (resolveRepository (np_projectId pay))) (\<lambda>found.
          case found of
            None \<Rightarrow> returnA ()
          | Some repo \<Rightarrow>
              (case clientFactory of
                 Inl e \<Rightarrow> throwA e
               | Inr client \<Rightarrow>
                   bindA (askA (scm_getPullRequest client (repo_owner repo) (repo_name repo) prNumber)) (\<lambda>observedResult.
                   case observedResult of
                     None \<Rightarrow> returnA ()
                   | Some observed \<Rightarrow>
                       bindA (queryA (run_needs_lock featureRunId)) (\<lambda>needsLock.
                       bindA (reconcile_run holderId (np_projectId pay) featureRunId observed
                                (''inbox-'' @ eventType @ ''-'' @ featureRunId) needsLock) (\<lambda>_.
                       returnA ())))))))"

text \<open>A handler that ends before the first heartbeat, as the poller runs it.\<close>

definition as_event_handler :: "(json \<Rightarrow> unit db_action) \<Rightarrow> event_handler" where
  "as_event_handler h pay ver s =
     \<lparr>hr_intervals = [], hr_rest = (\<lambda>t. snd (h pay t)), hr_throws = (case fst (h pay s) of Inl _ \<Rightarrow> True | Inr _ \<Rightarrow> False)\<rparr>"

definition github_HANDLED_EVENT_TYPES :: "string list" where
  "github_HANDLED_EVENT_TYPES =
     [''pr.opened'', ''pr.synchronized'', ''pr.closed'', ''pr.merged'', ''check.passed'', ''check.failed'',
      ''review.approved'', ''review.changes_requested'', ''review.dismissed'', ''review.commented'',
      ''review.comment'', ''push'']"

definition NOOP_EVENT_TYPES :: "string list" where
  "NOOP_EVENT_TYPES = [''branch.protection_ok'']"

definition gitea_HANDLED_EVENT_TYPES :: "string list" where
  "gitea_HANDLED_EVENT_TYPES =
     [''pr.opened'', ''pr.synchronized'', ''pr.closed'', ''pr.merged'', ''check.passed'', ''check.failed'',
      ''review.approved'', ''review.changes_requested'', ''review.commented'', ''review.comment'', ''push'']"

definition gitlab_HANDLED_EVENT_TYPES :: "string list" where
  "gitlab_HANDLED_EVENT_TYPES =
     [''pr.opened'', ''pr.synchronized'', ''pr.closed'', ''pr.merged'', ''check.passed'', ''check.failed'',
      ''review.approved'', ''review.comment'', ''push'']"

definition scm_handlers :: "string \<Rightarrow> (error + scm_client) \<Rightarrow> string list \<Rightarrow> (string \<times> event_handler) list" where
  "scm_handlers holderId clientFactory eventTypes =
     map (\<lambda>eventType. (eventType, as_event_handler (handle_scm_event holderId clientFactory eventType))) eventTypes"

definition createGithubInboxHandlers :: "(error + scm_client) \<Rightarrow> (string \<times> event_handler) list" where
  "createGithubInboxHandlers githubClientFactory =
     scm_handlers ''github-inbox-handler'' githubClientFactory github_HANDLED_EVENT_TYPES
     @ map (\<lambda>eventType. (eventType, as_event_handler (\<lambda>_. returnA ()))) NOOP_EVENT_TYPES"

definition createGiteaInboxHandlers :: "(error + scm_client) \<Rightarrow> (string \<times> event_handler) list" where
  "createGiteaInboxHandlers giteaClientFactory =
     scm_handlers ''gitea-inbox-handler'' giteaClientFactory gitea_HANDLED_EVENT_TYPES"

definition createGitlabInboxHandlers :: "(error + scm_client) \<Rightarrow> (string \<times> event_handler) list" where
  "createGitlabInboxHandlers gitlabClientFactory =
     scm_handlers ''gitlab-inbox-handler'' gitlabClientFactory gitlab_HANDLED_EVENT_TYPES"

end
