(* ===== verification/Tasks.thy ===== *)
theory Tasks
  imports System Forge Backlog
begin

text \<open>
  The tasks of \<open>packages/triggerdev/src/tasks\<close> that drive the execution of features: they read the
  tables, choose a command and an actor, run the command, and sort its errors into races that a
  later run of the task gets past and failures it passes on. Here: what they share
  (\<open>transient-race.ts\<close>, \<open>actor.ts\<close>, \<open>env.ts\<close>, \<open>scm-client-resolver.ts\<close>), \<open>start-next-feature.ts\<close>,
  \<open>run-merge-gate.ts\<close> and \<open>budget-preflight.ts\<close>.
\<close>

section \<open>Expected races\<close>

definition isTransientRace :: "string list \<Rightarrow> error \<Rightarrow> bool" where
  "isTransientRace expectedCommandErrorTypes err =
     (case err of
        LockConflictError a b \<Rightarrow> True
      | OptimisticLockError a b c d \<Rightarrow> True
      | StaleFenceError a b c \<Rightarrow> True
      | CommandError p \<Rightarrow> prob_type p \<in> set expectedCommandErrorTypes
      | MergeGateBlockedError reasons p \<Rightarrow> prob_type p \<in> set expectedCommandErrorTypes
      | _ \<Rightarrow> False)"

text \<open>\<open>try { ... } catch (err) { if (isTransientRace(err)) ...; throw err }\<close>: \<open>None\<close> is the race.\<close>

definition attempt :: "string list \<Rightarrow> 'a db_action \<Rightarrow> 'a option db_action" where
  "attempt expected m =
     catchA (bindA m (\<lambda>a. returnA (Some a)))
       (\<lambda>err. if isTransientRace expected err then returnA None else throwA err)"

section \<open>Actors\<close>

definition taskSystemActor :: "string \<Rightarrow> actor_identity" where
  "taskSystemActor correlation =
     \<lparr>actor_id = ''workflow-layer'', actor_role = ADMIN, actorKind = SystemKind,
      actor_correlationId = correlation, displayName = None\<rparr>"

definition humanActor :: "string \<Rightarrow> UserRole \<Rightarrow> string \<Rightarrow> actor_identity" where
  "humanActor actorId actorRole correlation =
     \<lparr>actor_id = actorId, actor_role = actorRole, actorKind = Human,
      actor_correlationId = correlation, displayName = None\<rparr>"

definition automationOperatorActor :: "string \<Rightarrow> actor_identity" where
  "automationOperatorActor correlation =
     \<lparr>actor_id = ''automation-operator'', actor_role = OPERATOR, actorKind = Human,
      actor_correlationId = correlation, displayName = None\<rparr>"

section \<open>Credentials and clients\<close>

definition requireNonBlankEnvVar :: "string \<Rightarrow> string \<Rightarrow> store \<Rightarrow> error + string" where
  "requireNonBlankEnvVar envVarName helpText s =
     (case env_vars s envVarName of
        None \<Rightarrow> Inl (OtherError (envVarName @ '' is not configured. '' @ helpText))
      | Some raw \<Rightarrow>
          if trim raw = '''' then Inl (OtherError (envVarName @ '' is not configured. '' @ helpText))
          else Inr (trim raw))"

text \<open>Which client is constructed, and with what: a client of GitHub needs no base URL.\<close>

datatype client_choice =
    OctokitClient string
  | GiteaClient string string
  | GitlabClient string string

definition self_hosted_client ::
    "string \<Rightarrow> string \<Rightarrow> string \<Rightarrow> (string \<Rightarrow> string \<Rightarrow> client_choice) \<Rightarrow> string \<Rightarrow> string option \<Rightarrow> store
      \<Rightarrow> error + client_choice" where
  "self_hosted_client taskName label helpText build envVarName baseUrl s =
     (case requireNonBlankEnvVar envVarName helpText s of
        Inl e \<Rightarrow> Inl e
      | Inr tok \<Rightarrow>
          (case baseUrl of
             None \<Rightarrow> Inl (OtherError (taskName @ '': a '' @ label @ ''-provider repository has no base_url recorded; ''
                       @ ''cannot resolve which '' @ label @ '' instance to query.''))
           | Some url \<Rightarrow>
               if url = ''''
               then Inl (OtherError (taskName @ '': a '' @ label @ ''-provider repository has no base_url recorded; ''
                       @ ''cannot resolve which '' @ label @ '' instance to query.''))
               else Inr (build url tok)))"

text \<open>The help texts of the messages are an argument.\<close>

definition resolveDefaultScmClient ::
    "(string \<Rightarrow> string) \<Rightarrow> string \<Rightarrow> string \<Rightarrow> string option \<Rightarrow> store \<Rightarrow> error + client_choice" where
  "resolveDefaultScmClient helpText taskName provider baseUrl s =
     (if provider = ''github'' then
        (case requireNonBlankEnvVar ''GITHUB_TOKEN'' (helpText provider) s of
           Inl e \<Rightarrow> Inl e | Inr tok \<Rightarrow> Inr (OctokitClient tok))
      else if provider = ''gitea'' then
        self_hosted_client taskName ''Gitea'' (helpText provider) GiteaClient ''GITEA_TOKEN'' baseUrl s
      else if provider = ''gitlab'' then
        self_hosted_client taskName ''GitLab'' (helpText provider) GitlabClient ''GITLAB_TOKEN'' baseUrl s
      else Inl (OtherError (taskName @ '': unknown SCM provider '' @ Redaction.quoted provider)))"

section \<open>start-next-feature\<close>

record start_next_payload =
  sn_projectId :: string
  sn_correlationId :: string
  sn_featureRunId :: "string option"

record start_next_result =
  sx_projectId :: string
  sx_featureRunId :: "string option"
  sx_started :: bool

definition start_next_expected :: "string list" where
  "start_next_expected =
     [''feature-already-active'', ''automation-paused'', ''unmet-dependencies'', ''not-found'', ''concurrent-command'']"

text \<open>
  The run to start, and whether its selection is skipped: the project's active run when it is
  still \<open>selected\<close> and no other was named, the run that was named, or the next eligible one.
\<close>

definition stranded_run :: "start_next_payload \<Rightarrow> store \<Rightarrow> string option" where
  "stranded_run p s =
     (case active_run_of (sn_projectId p) s of
        None \<Rightarrow> None
      | Some active \<Rightarrow>
          if active \<noteq> '''' \<and> (sn_featureRunId p = None \<or> sn_featureRunId p = Some active)
             \<and> map_option run_state (run_by_id active s) = Some FE_SELECTED
          then Some active else None)"

definition choose_run :: "start_next_payload \<Rightarrow> store \<Rightarrow> (string \<times> bool) option" where
  "choose_run p s =
     (case stranded_run p s of
        Some active \<Rightarrow> Some (active, True)
      | None \<Rightarrow>
          if sn_featureRunId p = None \<or> sn_featureRunId p = Some ''''
          then map_option (\<lambda>c. (fst c, False)) (findNextEligibleFeatureRun (sn_projectId p) s)
          else Some (the (sn_featureRunId p), False))"

definition select_run :: "start_next_payload \<Rightarrow> string \<Rightarrow> int \<Rightarrow> command_result db_action" where
  "select_run p featureRunId currentVersion =
     bindA (transaction generateId) (\<lambda>i.
     execute SelectFeatureHandler
       \<lparr>commandId = i, idempotencyKey = ''select-feature:'' @ featureRunId,
        payload = \<lparr>p_featureRunId = featureRunId, p_projectId = sn_projectId p, p_expectedVersion = currentVersion\<rparr>,
        env_actor = automationOperatorActor (sn_correlationId p), correlationId = sn_correlationId p,
        lockContext = None\<rparr>)"

text \<open>\<open>selectedRows[0]?.version ?? currentVersion + 1\<close>.\<close>

definition code_run :: "start_next_payload \<Rightarrow> string \<Rightarrow> int \<Rightarrow> acquired_lock \<Rightarrow> command_result db_action" where
  "code_run p featureRunId currentVersion lock =
     bindA (queryA (run_by_id featureRunId)) (\<lambda>selected.
     bindA (transaction generateId) (\<lambda>i.
     execute StartCodingHandler
       \<lparr>commandId = i, idempotencyKey = ''start-coding:'' @ featureRunId,
        payload = \<lparr>p_featureRunId = featureRunId, p_projectId = sn_projectId p,
                   p_expectedVersion = (case selected of None \<Rightarrow> currentVersion + 1 | Some r \<Rightarrow> run_version r)\<rparr>,
        env_actor = taskSystemActor (sn_correlationId p), correlationId = sn_correlationId p,
        lockContext = Some (lock_context_of (sn_projectId p) lock)\<rparr>))"

definition EXECUTION_LANE_TTL_MS :: int where
  "EXECUTION_LANE_TTL_MS = 30000"

definition startNextFeature :: "start_next_payload \<Rightarrow> start_next_result db_action" where
  "startNextFeature p =
     (let finish = (\<lambda>i started. returnA \<lparr>sx_projectId = sn_projectId p, sx_featureRunId = i, sx_started = started\<rparr>) in
      bindA (queryA (choose_run p)) (\<lambda>chosen.
      case chosen of
        None \<Rightarrow> finish None False
      | Some (featureRunId, skipSelection) \<Rightarrow>
          bindA (queryA (workflow_state_of (sn_projectId p))) (\<lambda>ws.
          if map_option ws_automation_state ws \<noteq> Some AU_RUNNING then finish (Some featureRunId) False
          else
            bindA (queryA (run_by_id featureRunId)) (\<lambda>found.
            case found of
              None \<Rightarrow> finish (Some featureRunId) False
            | Some run \<Rightarrow>
                bindA (if skipSelection then returnA (Some ())
                       else bindA (attempt start_next_expected (select_run p featureRunId (run_version run))) (\<lambda>r.
                            returnA (map_option (\<lambda>_. ()) r))) (\<lambda>selected.
                if selected = None then finish (Some featureRunId) False
                else
                  bindA (attempt start_next_expected
                           (acquireForProject (sn_projectId p) ''start-next-feature-task'' EXECUTION_LANE_TTL_MS)) (\<lambda>acquired.
                  case acquired of
                    None \<Rightarrow> finish (Some featureRunId) False
                  | Some lock \<Rightarrow>
                      finallyA
                        (bindA (attempt start_next_expected (code_run p featureRunId (run_version run) lock)) (\<lambda>coded.
                         finish (Some featureRunId) (coded \<noteq> None)))
                        (releaseForProject lock)))))))"

section \<open>run-merge-gate\<close>

text \<open>\<open>publishMergeGateStatusCheck\<close>: the arguments of the call on the forge.\<close>

record status_check =
  sk_owner :: string
  sk_repo :: string
  sk_sha :: string
  sk_context :: string
  sk_state :: string
  sk_description :: string

definition publishMergeGateStatusCheck ::
    "string \<Rightarrow> string \<Rightarrow> string \<Rightarrow> string \<Rightarrow> string list \<Rightarrow> status_check" where
  "publishMergeGateStatusCheck owner repo sha decision reasons =
     \<lparr>sk_owner = owner, sk_repo = repo, sk_sha = sha, sk_context = ''minicoder/review-gate'',
      sk_state = (if decision = ''approved'' then ''success'' else ''failure''),
      sk_description =
        (if decision = ''approved'' then ''Merge gate passed''
         else take 140 (''Merge gate rejected: '' @ js_join ''; '' reasons))\<rparr>"

record run_merge_gate_payload =
  rg_projectId :: string
  rg_featureRunId :: string
  rg_correlationId :: string

record run_merge_gate_result =
  rt_evaluated :: bool
  rt_approved :: bool
  rt_reasons :: "string list"

definition run_merge_gate_expected :: "string list" where
  "run_merge_gate_expected = [''concurrent-command'', ''not-found'']"

text \<open>
  The status check that is published after an evaluation: on the tracked head of the run, if there is
  one, and the linked repository. A failure to publish it is logged and changes nothing.
\<close>

definition gate_status_check :: "string \<Rightarrow> string \<Rightarrow> string \<Rightarrow> string list \<Rightarrow> store \<Rightarrow> status_check option" where
  "gate_status_check projectId featureRunId decision reasons s =
     (case (Option.bind (getPullRequestByFeatureRun featureRunId s) pr_head_sha,
            resolveRepository projectId s) of
        (Some sha, Some repo) \<Rightarrow>
          if sha = '''' then None
          else Some (publishMergeGateStatusCheck (repo_owner repo) (repo_name repo) sha decision reasons)
      | _ \<Rightarrow> None)"

definition runMergeGate ::
    "run_merge_gate_payload \<Rightarrow> (run_merge_gate_result \<times> status_check option) db_action" where
  "runMergeGate p =
     (let featureRunId = rg_featureRunId p; projectId = rg_projectId p;
          nothing = \<lparr>rt_evaluated = False, rt_approved = False, rt_reasons = []\<rparr>;
          finish = (\<lambda>approved reasons.
            bindA (queryA (gate_status_check projectId featureRunId
                             (if approved then ''approved'' else ''rejected'') reasons)) (\<lambda>published.
            returnA (\<lparr>rt_evaluated = True, rt_approved = approved, rt_reasons = reasons\<rparr>, published))) in
      bindA (queryA (find_run featureRunId projectId)) (\<lambda>found.
      case found of
        None \<Rightarrow> returnA (nothing, None)
      | Some run \<Rightarrow>
          if run_state run \<noteq> FE_UNDER_REVIEW then returnA (nothing, None)
          else
            bindA (transaction generateId) (\<lambda>i.
            bindA (catchA
                     (bindA (execute RecordApprovedByPolicyHandler
                               \<lparr>commandId = i,
                                idempotencyKey = ''approved-by-policy:'' @ featureRunId @ '':'' @ show_int (run_version run),
                                payload = \<lparr>p_featureRunId = featureRunId, p_projectId = projectId,
                                           p_expectedVersion = run_version run\<rparr>,
                                env_actor = taskSystemActor (rg_correlationId p),
                                correlationId = rg_correlationId p, lockContext = None\<rparr>) (\<lambda>_.
                      returnA (Some (True, []))))
                     (\<lambda>err. case err of
                        MergeGateBlockedError reasons _ \<Rightarrow> returnA (Some (False, reasons))
                      | _ \<Rightarrow>
                          if isTransientRace run_merge_gate_expected err then returnA None else throwA err)) (\<lambda>outcome.
            case outcome of
              None \<Rightarrow> returnA (nothing, None)
            | Some (approved, reasons) \<Rightarrow> finish approved reasons))))"

section \<open>The budget check before a run\<close>

record preflight_params =
  bq_projectId :: string
  bq_featureRequestId :: string
  bq_scope :: BudgetScope
  bq_correlationId :: string
  bq_estimatedCostUsd :: "rat option"
  bq_featureRunId :: string

datatype preflight_result = Proceed | HardBreach rat

definition budgetPreflightCheck :: "preflight_params \<Rightarrow> preflight_result db_action" where
  "budgetPreflightCheck p =
     (case bq_estimatedCostUsd p of
        None \<Rightarrow> returnA Proceed
      | Some estimated \<Rightarrow>
          bindA (queryA (forecastBudget (bq_projectId p) (Some (bq_featureRequestId p)) (bq_scope p) estimated)) (\<lambda>forecast.
          case forecast of
            None \<Rightarrow> returnA Proceed
          | Some fc \<Rightarrow>
              if fc_status fc \<noteq> HARD_BREACH then returnA Proceed
              else
                bindA (queryA (workflow_state_of (bq_projectId p))) (\<lambda>ws.
                case ws of
                  None \<Rightarrow> returnA (HardBreach (fc_projectedSpend fc))
                | Some w \<Rightarrow>
                    bindA (applyBudgetDecision
                             \<lparr>ev_status = HARD_BREACH, ev_policy = fc_policy fc, ev_totalSpend = fc_projectedSpend fc\<rparr>
                             (bq_projectId p) (ws_version w) (taskSystemActor (bq_correlationId p))
                             (bq_correlationId p) (Some (bq_featureRunId p))) (\<lambda>_.
                    returnA (HardBreach (fc_projectedSpend fc))))))"

end
