(* ===== verification/ReconcileTask.thy ===== *)
theory ReconcileTask
  imports Webhooks Tasks
begin

text \<open>
  \<open>github-reconciliation.ts\<close>, the scheduled fallback of the webhooks, and the worker of the inbox
  (\<open>packages/cli/src/commands/inbox.ts\<close>). The task first looks for pull requests that no webhook has
  reported, then reconciles every run that has one.
\<close>

section \<open>Arguments and results\<close>

record reconciliation_payload =
  gr_projectId :: string
  gr_correlationId :: string
  gr_featureRunId :: "string option"

record reconciliation_result =
  gx_projectId :: string
  gx_reconciled :: int
  gx_humanRequired :: int
  gx_fetchFailures :: int
  gx_discovered :: int

definition reconciliation_expected :: "string list" where
  "reconciliation_expected = [''concurrent-command'', ''automation-paused'']"

definition EXCLUDED_STATES :: "FeatureExecutionState list" where
  "EXCLUDED_STATES =
     [FE_APPROVED_PENDING_EXECUTION, FE_SELECTED, FE_CODING, FE_MERGED, FE_HUMAN_REQUIRED, FE_BLOCKED, FE_FAILED,
      FE_SYSTEM_FAILED]"

text \<open>An id that is absent or empty names no run.\<close>

definition named :: "string option \<Rightarrow> bool" where
  "named i = (i \<noteq> None \<and> i \<noteq> Some '''')"

text \<open>A failure that would meet every candidate alike: the credential is refused.\<close>

definition credential_failure :: "scm_failure \<Rightarrow> bool" where
  "credential_failure e = (sf_status e = Some 401 \<or> sf_status e = Some 403)"

section \<open>Discovery\<close>

definition undiscovered :: "reconciliation_payload \<Rightarrow> store \<Rightarrow> feature_run_row list" where
  "undiscovered p s =
     filter (\<lambda>r. (\<not> named (gr_featureRunId p) \<or> gr_featureRunId p = Some (run_id r))
               \<and> run_in_project (gr_projectId p) s r \<and> run_state r = FE_CODE_PUSHED
               \<and> getPullRequestByFeatureRun (run_id r) s = None)
       (feature_runs s)"

definition record_discovered ::
    "reconciliation_payload \<Rightarrow> feature_run_row \<Rightarrow> int \<Rightarrow> observed_pr \<Rightarrow> acquired_lock \<Rightarrow> command_result db_action" where
  "record_discovered p r prNumber observed lock =
     bindA (transaction generateId) (\<lambda>i.
     execute RecordPrOpenedHandler
       \<lparr>commandId = i,
        idempotencyKey = ''record-pr-opened-discovery:'' @ run_id r @ '':'' @ show_int prNumber,
        payload = \<lparr>p_featureRunId = run_id r, p_projectId = gr_projectId p, p_expectedVersion = run_version r,
                   po_prNumber = prNumber, po_branchName = branchNameFor (run_id r),
                   po_baseBranch = ob_baseBranch observed, po_headSha = ob_headSha observed\<rparr>,
        env_actor = taskSystemActor (gr_correlationId p), correlationId = gr_correlationId p,
        lockContext = Some (lock_context_of (gr_projectId p) lock)\<rparr>)"

text \<open>One candidate: how many rows it added. The lock is taken outside the \<open>try\<close>.\<close>

definition discover_run ::
    "scm_client \<Rightarrow> repository_row \<Rightarrow> reconciliation_payload \<Rightarrow> feature_run_row \<Rightarrow> int db_action" where
  "discover_run client repo p r =
     bindA (queryA (scm_listPullRequestsForBranch client (repo_owner repo) (repo_name repo) (branchNameFor (run_id r))))
       (\<lambda>matches.
     case matches of
       Inl e \<Rightarrow> if credential_failure e then throwA (scm_error e) else returnA 0
     | Inr prs \<Rightarrow>
         (case first_row prs of
            None \<Rightarrow> returnA 0
          | Some (prNumber, state) \<Rightarrow>
              bindA (askA (scm_getPullRequest client (repo_owner repo) (repo_name repo) prNumber)) (\<lambda>found.
              case found of
                None \<Rightarrow> returnA 0
              | Some observed \<Rightarrow>
                  bindA (acquire (gr_projectId p) (executionLaneKey (gr_projectId p))
                           \<lparr>lo_ttlMs = LOCK_TTL_MS, lo_holderId = ''github-reconciliation-discovery''\<rparr>) (\<lambda>lock.
                  finallyA
                    (bindA (attempt reconciliation_expected (record_discovered p r prNumber observed lock)) (\<lambda>done.
                     returnA (if done = None then 0 else 1)))
                    (release lock)))))"

fun discover_each ::
    "scm_client \<Rightarrow> repository_row \<Rightarrow> reconciliation_payload \<Rightarrow> feature_run_row list \<Rightarrow> int \<Rightarrow> int db_action" where
  "discover_each client repo p [] discovered = returnA discovered"
| "discover_each client repo p (r # rs) discovered =
     bindA (discover_run client repo p r) (\<lambda>n. discover_each client repo p rs (discovered + n))"

definition discoverMissingPullRequests ::
    "scm_client \<Rightarrow> repository_row \<Rightarrow> reconciliation_payload \<Rightarrow> int db_action" where
  "discoverMissingPullRequests client repo p =
     bindA (queryA (undiscovered p)) (\<lambda>candidates. discover_each client repo p candidates 0)"

section \<open>The reconciliation of the candidates\<close>

text \<open>The candidates with their pull request number, as the query joins them.\<close>

definition reconciliation_candidates :: "reconciliation_payload \<Rightarrow> store \<Rightarrow> (feature_run_row \<times> int option) list" where
  "reconciliation_candidates p s =
     map (\<lambda>r. (r, map_option pr_number (getPullRequestByFeatureRun (run_id r) s)))
       (filter (\<lambda>r. run_in_project (gr_projectId p) s r
                  \<and> (if named (gr_featureRunId p) then gr_featureRunId p = Some (run_id r)
                     else run_state r \<notin> set EXCLUDED_STATES))
          (feature_runs s))"

definition count_action :: "reconcile_result option \<Rightarrow> reconciliation_result \<Rightarrow> reconciliation_result" where
  "count_action tried acc =
     (case tried of
        None \<Rightarrow> acc
      | Some res \<Rightarrow>
          acc\<lparr>gx_reconciled := gx_reconciled acc + (if rr_action res \<noteq> RA_NONE then 1 else 0),
              gx_humanRequired := gx_humanRequired acc + (if rr_action res = RA_ESCALATED then 1 else 0)\<rparr>)"

definition reconcile_candidate ::
    "scm_client \<Rightarrow> repository_row \<Rightarrow> reconciliation_payload \<Rightarrow> feature_run_row \<times> int option
      \<Rightarrow> reconciliation_result \<Rightarrow> reconciliation_result db_action" where
  "reconcile_candidate client repo p candidate acc =
     (case candidate of (r, prNumber) \<Rightarrow>
      (case prNumber of
         None \<Rightarrow> returnA acc
       | Some n \<Rightarrow>
           bindA (queryA (scm_getPullRequest client (repo_owner repo) (repo_name repo) n)) (\<lambda>observedResult.
           case observedResult of
             Inl e \<Rightarrow>
               if credential_failure e then throwA (scm_error e)
               else returnA (acc\<lparr>gx_fetchFailures := gx_fetchFailures acc + 1\<rparr>)
           | Inr None \<Rightarrow> returnA acc
           | Inr (Some observed) \<Rightarrow>
               bindA (attempt reconciliation_expected
                        (reconcile_run ''github-reconciliation-task'' (gr_projectId p) (run_id r) observed
                           (gr_correlationId p) (requiresExecutionLock (fe_str (run_state r))))) (\<lambda>tried.
               returnA (count_action tried acc)))))"

fun reconcile_each ::
    "scm_client \<Rightarrow> repository_row \<Rightarrow> reconciliation_payload \<Rightarrow> (feature_run_row \<times> int option) list
      \<Rightarrow> reconciliation_result \<Rightarrow> reconciliation_result db_action" where
  "reconcile_each client repo p [] acc = returnA acc"
| "reconcile_each client repo p (c # cs) acc =
     bindA (reconcile_candidate client repo p c acc) (\<lambda>acc'. reconcile_each client repo p cs acc')"

definition runReconciliation ::
    "(string \<Rightarrow> string option \<Rightarrow> store \<Rightarrow> error + scm_client) \<Rightarrow> reconciliation_payload \<Rightarrow> reconciliation_result db_action" where
  "runReconciliation resolveScmClient p =
     (let start = \<lparr>gx_projectId = gr_projectId p, gx_reconciled = 0, gx_humanRequired = 0, gx_fetchFailures = 0,
                   gx_discovered = 0\<rparr> in
      bindA (queryA (resolveRepository (gr_projectId p))) (\<lambda>found.
      case found of
        None \<Rightarrow> returnA start
      | Some repo \<Rightarrow>
          bindA (queryA (resolveScmClient (repo_provider repo) (repo_base_url repo))) (\<lambda>resolved.
          case resolved of
            Inl e \<Rightarrow> throwA e
          | Inr client \<Rightarrow>
              bindA (discoverMissingPullRequests client repo p) (\<lambda>discovered.
              bindA (queryA (reconciliation_candidates p)) (\<lambda>cs.
              reconcile_each client repo p cs (start\<lparr>gx_discovered := discovered\<rparr>))))))"

section \<open>The inbox worker\<close>

definition SUPPORTED_PROVIDERS :: "string list" where
  "SUPPORTED_PROVIDERS = [''github'', ''gitea'', ''gitlab'']"

record inbox_options =
  io_provider :: "string option"
  io_project :: "string option"
  io_baseUrl :: "string option"

definition trimmed :: "string option \<Rightarrow> string option" where
  "trimmed x = (case x of None \<Rightarrow> None | Some v \<Rightarrow> if trim v = '''' then None else Some (trim v))"

text \<open>The messages of the errors are an argument: they differ only in wording.\<close>

definition resolveProviderAndBaseUrl ::
    "(string \<Rightarrow> error) \<Rightarrow> inbox_options \<Rightarrow> store \<Rightarrow> error + string \<times> string option" where
  "resolveProviderAndBaseUrl message opts s =
     (if named (io_provider opts)
      then
        (let provider = the (io_provider opts) in
         if provider \<notin> set SUPPORTED_PROVIDERS then Inl (message ''unknown provider'')
         else Inr (provider, trimmed (io_baseUrl opts)))
      else if \<not> named (io_project opts) then Inl (message ''provider or project required'')
      else
        (case first_row (filter (\<lambda>r. repo_project_id r = the (io_project opts)) (repositories s)) of
           None \<Rightarrow> Inl (message ''no repository connected'')
         | Some row \<Rightarrow>
             if repo_provider row \<notin> set SUPPORTED_PROVIDERS then Inl (message ''unsupported provider'')
             else Inr (repo_provider row,
                       case trimmed (io_baseUrl opts) of None \<Rightarrow> repo_base_url row | Some url \<Rightarrow> Some url)))"

definition buildHandlers :: "string \<Rightarrow> (error + scm_client) \<Rightarrow> (string \<times> event_handler) list" where
  "buildHandlers provider clientFactory =
     (if provider = ''github'' then createGithubInboxHandlers clientFactory
      else if provider = ''gitea'' then createGiteaInboxHandlers clientFactory
      else createGitlabInboxHandlers clientFactory)"

definition worker_tick :: "queue_options \<Rightarrow> string \<Rightarrow> (error + scm_client) \<Rightarrow> store \<Rightarrow> poll_result \<times> store" where
  "worker_tick options provider clientFactory = pollAndProcess options (buildHandlers provider clientFactory)"

end
