(* ===== verification/MergeRoute.thy ===== *)
theory MergeRoute
  imports Tasks
begin

text \<open>
  The routes around a real merge: \<open>packages/api/src/commands/merge-if-ready-route.ts\<close>,
  \<open>finalize-if-github-merged-route.ts\<close>, \<open>packages/api/src/route-idempotency.ts\<close> and
  \<open>packages/api/src/errors.ts\<close>, and their twins of \<open>packages/cli/src/commands/merge.ts\<close>. The
  forge's merge is a call that cannot be taken back, so a route's result carries the calls it made.
\<close>

section \<open>Errors of the HTTP layer\<close>

datatype api_error =
    CoreError error
  | ForgeError scm_failure
  | ForgeRejection string string
  | NotFoundError string string
  | MissingIdempotencyKeyError
  | RequestValidationError string string
  | UnauthenticatedError string
  | RequestInProgressError string

definition problem_response :: "int \<Rightarrow> string \<Rightarrow> string \<Rightarrow> string \<Rightarrow> string option \<Rightarrow> route_response" where
  "problem_response status typ title detail inst =
     \<lparr>rs_status = status,
      rs_body = JObj ([(''type'', JStr typ), (''title'', JStr title), (''status'', JInt status), (''detail'', JStr detail)]
                 @ (case inst of None \<Rightarrow> [] | Some i \<Rightarrow> [(''instance'', JStr i)]))\<rparr>"

definition core_problem :: "problem \<Rightarrow> string \<Rightarrow> route_response" where
  "core_problem p inst =
     problem_response (prob_status p) (prob_type p) (prob_title p) (prob_detail p)
       (Some (case prob_instance p of None \<Rightarrow> inst | Some i \<Rightarrow> i))"

text \<open>\<open>message\<close> is the \<open>message\<close> property of an error of the core.\<close>

definition internal_error :: "string \<Rightarrow> route_response" where
  "internal_error inst =
     problem_response 500 ''internal-error'' ''Internal server error''
       ''An unexpected error occurred. See server logs for details.'' (Some inst)"

definition core_error_response :: "(error \<Rightarrow> string) \<Rightarrow> error \<Rightarrow> string \<Rightarrow> route_response" where
  "core_error_response message e inst =
     (case e of
        CommandError p \<Rightarrow> core_problem p inst
      | MergeGateBlockedError reasons p \<Rightarrow> core_problem p inst
      | AuthorizationError a b c d \<Rightarrow> problem_response 403 ''authorization-error'' ''Not authorized'' (message e) (Some inst)
      | TransitionError a b c \<Rightarrow>
          problem_response 409 ''invalid-state-transition'' ''Invalid state transition'' (message e) (Some inst)
      | SerializationFailureError \<Rightarrow>
          problem_response 409 ''serialization-failure'' ''Concurrent write conflict''
            (''The request could not complete due to a concurrent write conflict after retrying; retry the request.'')
            (Some inst)
      | _ \<Rightarrow> internal_error inst)"

definition toProblemDetails :: "(error \<Rightarrow> string) \<Rightarrow> api_error \<Rightarrow> string \<Rightarrow> route_response" where
  "toProblemDetails message err inst =
     (case err of
        CoreError e \<Rightarrow> core_error_response message e inst
      | ForgeError f \<Rightarrow> internal_error inst
      | ForgeRejection detail reason \<Rightarrow>
          problem_response (if reason = ''sha_mismatch'' \<or> reason = ''not_mergeable'' then 409 else 502)
            (''github-merge-'' @ reason) ''GitHub merge rejected'' detail (Some inst)
      | UnauthenticatedError detail \<Rightarrow>
          problem_response 401 ''unauthenticated'' ''Authentication required'' detail (Some inst)
      | NotFoundError res i \<Rightarrow>
          problem_response 404 ''not-found'' ''Resource not found'' (res @ '' '' @ i @ '' not found'') (Some inst)
      | MissingIdempotencyKeyError \<Rightarrow>
          problem_response 400 ''missing-idempotency-key'' ''Missing Idempotency-Key header''
            ''Idempotency-Key header is required on mutating requests'' (Some inst)
      | RequestValidationError detail typ \<Rightarrow>
          problem_response 400 typ ''Request validation failed'' detail (Some inst)
      | RequestInProgressError key \<Rightarrow>
          problem_response 409 ''request-in-progress'' ''Request already in progress''
            (''A request with Idempotency-Key '' @ MergeGate.quoted key @ '' is already in progress; retry shortly'')
            (Some inst))"

section \<open>Actions of a route\<close>

type_synonym 'a route = "store \<Rightarrow> (api_error + 'a) \<times> store"

definition returnR :: "'a \<Rightarrow> 'a route" where
  "returnR a = (\<lambda>s. (Inr a, s))"

definition throwR :: "api_error \<Rightarrow> 'a route" where
  "throwR e = (\<lambda>s. (Inl e, s))"

definition bindR :: "'a route \<Rightarrow> ('a \<Rightarrow> 'b route) \<Rightarrow> 'b route" where
  "bindR m k = (\<lambda>s. case m s of (Inl e, t) \<Rightarrow> (Inl e, t) | (Inr a, t) \<Rightarrow> k a t)"

definition coreR :: "'a db_action \<Rightarrow> 'a route" where
  "coreR m = (\<lambda>s. case m s of (Inl e, t) \<Rightarrow> (Inl (CoreError e), t) | (Inr a, t) \<Rightarrow> (Inr a, t))"

definition validationError :: "string \<Rightarrow> api_error" where
  "validationError detail = RequestValidationError detail ''validation-error''"

section \<open>Idempotency of a route\<close>

datatype route_claim = RouteOwned string | RouteFulfilled route_response | RouteInProgress

definition route_row :: "string \<Rightarrow> string \<Rightarrow> string \<Rightarrow> int \<Rightarrow> int \<Rightarrow> idempotency_row" where
  "route_row claimId key scope ttlMs now =
     \<lparr>ik_id = claimId, ik_key = key, ik_scope = scope, ik_result = None, ik_response = None,
      ik_expires_at = now + ttlMs, ik_version = 1, ik_updated_at = now\<rparr>"

definition claimRouteIdempotencyKey :: "string \<Rightarrow> string \<Rightarrow> int \<Rightarrow> route_claim db_action" where
  "claimRouteIdempotencyKey key scope ttlMs =
     bindA (transaction generateId) (\<lambda>claimId.
     bindA (queryA clock) (\<lambda>now.
     bindA (transaction (executeT (idempotency_keys_update
              (delete_where (\<lambda>r. ik_key r = key \<and> ik_scope r = scope \<and> ik_expires_at r \<le> now))))) (\<lambda>_.
     bindA (transaction (insertOnConflictT ''idempotency_keys'' idempotency_keys idempotency_keys_update
              ik_id (\<lambda>r. (ik_key r, ik_scope r)) (route_row claimId key scope ttlMs now))) (\<lambda>inserted.
     if inserted = 1 then returnA (RouteOwned claimId)
     else
       bindA (queryA (idempotency_slot key scope)) (\<lambda>row.
       returnA (case Option.bind row ik_response of
                  Some response \<Rightarrow> RouteFulfilled response
                | None \<Rightarrow> RouteInProgress))))))"

definition fulfil_response :: "route_response \<Rightarrow> int \<Rightarrow> idempotency_row \<Rightarrow> idempotency_row" where
  "fulfil_response response now r =
     r\<lparr>ik_response := Some response, ik_version := ik_version r + 1, ik_updated_at := now\<rparr>"

definition fulfillRouteIdempotencyKey :: "string \<Rightarrow> route_response \<Rightarrow> store \<Rightarrow> store" where
  "fulfillRouteIdempotencyKey claimId response s =
     idempotency_keys_update (update_where (\<lambda>r. ik_id r = claimId) (fulfil_response response (clock s))) s"

definition releaseRouteIdempotencyKey :: "string \<Rightarrow> store \<Rightarrow> store" where
  "releaseRouteIdempotencyKey claimId s = idempotency_keys_update (delete_where (\<lambda>r. ik_id r = claimId)) s"

section \<open>merge-if-ready\<close>

text \<open>The keys of the five commands: derived from the request's key by the API, from the run by the CLI.\<close>

record merge_keys =
  mk_ready :: "int \<Rightarrow> string"
  mk_merged :: "string \<Rightarrow> string"
  mk_failed :: "int \<Rightarrow> string"
  mk_reconcile :: "int \<Rightarrow> string"
  mk_escalate :: "int \<Rightarrow> string"

definition api_keys :: "string \<Rightarrow> merge_keys" where
  "api_keys header =
     \<lparr>mk_ready = (\<lambda>_. header @ '':merge-ready''), mk_merged = (\<lambda>_. header @ '':record-merged''),
      mk_failed = (\<lambda>_. header @ '':record-merge-failed''), mk_reconcile = (\<lambda>_. header @ '':reconcile-merge-failed''),
      mk_escalate = (\<lambda>_. header @ '':escalate-human-merge-failed'')\<rparr>"

definition cli_keys :: "string \<Rightarrow> merge_keys" where
  "cli_keys i =
     \<lparr>mk_ready = (\<lambda>v. ''merge-ready:'' @ i @ '':'' @ show_int v), mk_merged = (\<lambda>sha. ''record-merged:'' @ i @ '':'' @ sha),
      mk_failed = (\<lambda>v. ''record-merge-failed:'' @ i @ '':'' @ show_int v),
      mk_reconcile = (\<lambda>v. ''reconcile-merge-failed:'' @ i @ '':'' @ show_int v),
      mk_escalate = (\<lambda>v. ''escalate-human-merge-failed:'' @ i @ '':'' @ show_int v)\<rparr>"

type_synonym scm_resolver = "string \<Rightarrow> string option \<Rightarrow> store \<Rightarrow> error + scm_client"

definition fetchFeatureRun :: "string \<Rightarrow> string \<Rightarrow> feature_run_row route" where
  "fetchFeatureRun featureRunId projectId =
     bindR (coreR (queryA (find_run featureRunId projectId))) (\<lambda>row.
     case row of None \<Rightarrow> throwR (NotFoundError ''feature-run'' featureRunId) | Some r \<Rightarrow> returnR r)"

definition command_envelope :: "string \<Rightarrow> string \<Rightarrow> 'p \<Rightarrow> actor_identity \<Rightarrow> string \<Rightarrow> 'p envelope" where
  "command_envelope i key pay act corr =
     \<lparr>commandId = i, idempotencyKey = key, payload = pay, env_actor = act, correlationId = corr, lockContext = None\<rparr>"

text \<open>\<open>commandId: generateId()\<close> and the command.\<close>

definition dispatchR :: "'p handler \<Rightarrow> string \<Rightarrow> 'p \<Rightarrow> actor_identity \<Rightarrow> string \<Rightarrow> command_result db_action" where
  "dispatchR h key pay act corr =
     bindA (transaction generateId) (\<lambda>i. execute h (command_envelope i key pay act corr))"

definition run_pay :: "string \<Rightarrow> string \<Rightarrow> int \<Rightarrow> run_payload" where
  "run_pay featureRunId projectId v =
     \<lparr>p_featureRunId = featureRunId, p_projectId = projectId, p_expectedVersion = v\<rparr>"

datatype merge_prepared =
    GateRefused "string list"
  | MergeReady scm_client repository_row pull_request_row feature_run_row

definition refused_reasons :: "command_result db_action \<Rightarrow> string list option route" where
  "refused_reasons m =
     (\<lambda>s. case m s of
        (Inl (MergeGateBlockedError reasons p), t) \<Rightarrow> (Inr (Some reasons), t)
      | (Inl e, t) \<Rightarrow> (Inl (CoreError e), t)
      | (Inr res, t) \<Rightarrow> (Inr None, t))"

definition prepare_merge ::
    "scm_resolver \<Rightarrow> merge_keys \<Rightarrow> actor_identity \<Rightarrow> string \<Rightarrow> string \<Rightarrow> string \<Rightarrow> merge_prepared route" where
  "prepare_merge resolveScmClient keys act corr featureRunId projectId =
     bindR (fetchFeatureRun featureRunId projectId) (\<lambda>run.
     bindR (coreR (queryA (getPullRequestByFeatureRun featureRunId))) (\<lambda>prRow.
     bindR (coreR (queryA (resolveRepository projectId))) (\<lambda>repoRow.
     case (prRow, repoRow) of
       (Some pr, Some repo) \<Rightarrow>
         bindR (coreR (queryA (resolveScmClient (repo_provider repo) (repo_base_url repo)))) (\<lambda>resolved.
         case resolved of
           Inl e \<Rightarrow> throwR (CoreError e)
         | Inr client \<Rightarrow>
             bindR (refused_reasons
                      (dispatchR MergeIfReadyHandler (mk_ready keys (run_version run))
                         (run_pay featureRunId projectId (run_version run)) act corr)) (\<lambda>refused.
             case refused of
               Some reasons \<Rightarrow> returnR (GateRefused reasons)
             | None \<Rightarrow>
                 bindR (fetchFeatureRun featureRunId projectId) (\<lambda>ready.
                 if run_state ready \<noteq> FE_MERGE_READY
                 then throwR (validationError (''Feature run '' @ featureRunId @ '' is not at merge_ready (found ''
                        @ MergeGate.quoted (fe_str (run_state ready)) @ '')''))
                 else returnR (MergeReady client repo pr ready))))
     | _ \<Rightarrow> throwR (NotFoundError ''pull-request-or-repository'' featureRunId))))"

definition record_merge ::
    "merge_keys \<Rightarrow> string \<Rightarrow> string \<Rightarrow> string \<Rightarrow> feature_run_row \<Rightarrow> string \<Rightarrow> command_result route" where
  "record_merge keys corr featureRunId projectId ready mergeSha =
     coreR (dispatchR RecordMergedHandler (mk_merged keys mergeSha)
       \<lparr>p_featureRunId = featureRunId, p_projectId = projectId, p_expectedVersion = run_version ready,
        me_mergeSha = mergeSha\<rparr> (taskSystemActor corr) corr)"

definition record_rejection ::
    "merge_keys \<Rightarrow> string \<Rightarrow> string \<Rightarrow> string \<Rightarrow> feature_run_row \<Rightarrow> string \<Rightarrow> bool \<Rightarrow> string route" where
  "record_rejection keys corr featureRunId projectId ready reason autoClearable =
     (let system = taskSystemActor corr in
      bindR (coreR (dispatchR RecordMergeFailedHandler (mk_failed keys (run_version ready))
               \<lparr>p_featureRunId = featureRunId, p_projectId = projectId, p_expectedVersion = run_version ready,
                mf_reason = reason, mf_autoClearable = autoClearable\<rparr> system corr)) (\<lambda>_.
      bindR (fetchFeatureRun featureRunId projectId) (\<lambda>failed.
      if autoClearable
      then
        bindR (coreR (dispatchR ReconcileMergeFailedHandler (mk_reconcile keys (run_version failed))
                 (run_pay featureRunId projectId (run_version failed)) system corr)) (\<lambda>_.
        returnR ''under_review'')
      else
        bindR (coreR (dispatchR EscalateToHumanHandler (mk_escalate keys (run_version failed))
                 \<lparr>p_featureRunId = featureRunId, p_projectId = projectId, p_expectedVersion = run_version failed,
                  es_reason = reason, es_reviewerRunId = None, es_reviewCycle = None, es_findings = None\<rparr>
                 system corr)) (\<lambda>_.
        returnR ''human_required''))))"

text \<open>
  What came of an attempt: an answer, an error before anything irreversible, an error after the forge
  had merged; with the merge calls made.
\<close>

datatype merge_outcome =
    Refused "string list"
  | Merged string command_result
  | Rejected string bool string
  | FailedBefore api_error
  | FailedAfterMerge api_error

definition merge_call :: "repository_row \<Rightarrow> pull_request_row \<Rightarrow> string \<Rightarrow> merge_options" where
  "merge_call repo pr mergeMethod =
     \<lparr>mo_owner = repo_owner repo, mo_repo = repo_name repo, mo_prNumber = pr_number pr,
      mo_mergeMethod = mergeMethod, mo_expectedHeadSha = pr_head_sha pr\<rparr>"

definition attempt_merge ::
    "scm_resolver \<Rightarrow> merge_keys \<Rightarrow> actor_identity \<Rightarrow> string \<Rightarrow> string \<Rightarrow> string \<Rightarrow> string
      \<Rightarrow> store \<Rightarrow> (merge_outcome \<times> merge_options list) \<times> store" where
  "attempt_merge resolveScmClient keys act corr featureRunId projectId mergeMethod s =
     (case prepare_merge resolveScmClient keys act corr featureRunId projectId s of
        (Inl e, t) \<Rightarrow> ((FailedBefore e, []), t)
      | (Inr (GateRefused reasons), t) \<Rightarrow> ((Refused reasons, []), t)
      | (Inr (MergeReady client repo pr ready), t) \<Rightarrow>
          let call = merge_call repo pr mergeMethod in
          (case scm_mergePullRequest client call t of
             Inr mergeSha \<Rightarrow>
               (case record_merge keys corr featureRunId projectId ready mergeSha t of
                  (Inl e, u) \<Rightarrow> ((FailedAfterMerge e, [call]), u)
                | (Inr res, u) \<Rightarrow> ((Merged mergeSha res, [call]), u))
           | Inl (ScmMergeRejectedError message reason autoClearable) \<Rightarrow>
               (case record_rejection keys corr featureRunId projectId ready message autoClearable t of
                  (Inl e, u) \<Rightarrow> ((FailedBefore e, [call]), u)
                | (Inr resolution, u) \<Rightarrow> ((Rejected message autoClearable resolution, [call]), u))
           | Inl (MergeCallFailed f) \<Rightarrow> ((FailedBefore (ForgeError f), [call]), t)))"

definition toCommandEnvelopeResponse :: "command_result \<Rightarrow> (string \<times> json) list" where
  "toCommandEnvelopeResponse res =
     [(''command_id'', JStr (res_commandId res)), (''accepted'', JBool (res_accepted res)),
      (''resulting_state'', JStr (res_resultingState res)),
      (''emitted_event_ids'', JArr (map JStr (res_emittedEventIds res)))]"

definition merge_response :: "merge_outcome \<Rightarrow> api_error + route_response" where
  "merge_response tried =
     (case tried of
        Refused reasons \<Rightarrow>
          Inr \<lparr>rs_status = 409, rs_body = JObj [(''merged'', JBool False), (''reasons'', JArr (map JStr reasons))]\<rparr>
      | Merged mergeSha res \<Rightarrow>
          Inr \<lparr>rs_status = 200,
               rs_body = JObj (toCommandEnvelopeResponse res @ [(''merged'', JBool True), (''mergeSha'', JStr mergeSha)])\<rparr>
      | Rejected reason autoClearable resolution \<Rightarrow>
          Inr \<lparr>rs_status = 409,
               rs_body = JObj [(''merged'', JBool False), (''reason'', JStr reason),
                          (''autoClearable'', JBool autoClearable), (''resolution'', JStr resolution)]\<rparr>
      | FailedBefore e \<Rightarrow> Inl e
      | FailedAfterMerge e \<Rightarrow> Inl e)"

definition ROUTE_IDEMPOTENCY_SCOPE :: string where
  "ROUTE_IDEMPOTENCY_SCOPE = ''merge-if-ready-route''"

definition ROUTE_IDEMPOTENCY_TTL_MS :: int where
  "ROUTE_IDEMPOTENCY_TTL_MS = 7 * 24 * 60 * 60 * 1000"

record merge_request =
  mb_featureRunId :: "string option"
  mb_projectId :: "string option"
  mb_mergeMethod :: "string option"
  mb_idempotencyKey :: "string option"
  mb_actor :: actor_identity

definition absent :: "string option \<Rightarrow> bool" where
  "absent x = (x = None \<or> x = Some '''')"

definition settle_claim :: "string \<Rightarrow> merge_outcome \<Rightarrow> store \<Rightarrow> store" where
  "settle_claim claimId tried s =
     (case tried of
        FailedBefore e \<Rightarrow> releaseRouteIdempotencyKey claimId s
      | FailedAfterMerge e \<Rightarrow> s
      | _ \<Rightarrow> (case merge_response tried of Inr r \<Rightarrow> fulfillRouteIdempotencyKey claimId r s | Inl e \<Rightarrow> s))"

definition mergeIfReadyRoute ::
    "scm_resolver \<Rightarrow> merge_request \<Rightarrow> store \<Rightarrow> ((api_error + route_response) \<times> merge_options list) \<times> store" where
  "mergeIfReadyRoute resolveScmClient rq s =
     (if absent (mb_featureRunId rq) \<or> absent (mb_projectId rq)
      then ((Inl (validationError ''featureRunId and projectId are required''), []), s)
      else if mb_idempotencyKey rq = None \<or> trim (the (mb_idempotencyKey rq)) = ''''
      then ((Inl MissingIdempotencyKeyError, []), s)
      else
        let header = the (mb_idempotencyKey rq); act = mb_actor rq in
        (case claimRouteIdempotencyKey header ROUTE_IDEMPOTENCY_SCOPE ROUTE_IDEMPOTENCY_TTL_MS s of
           (Inl e, t) \<Rightarrow> ((Inl (CoreError e), []), t)
         | (Inr (RouteFulfilled response), t) \<Rightarrow> ((Inr response, []), t)
         | (Inr RouteInProgress, t) \<Rightarrow> ((Inl (RequestInProgressError header), []), t)
         | (Inr (RouteOwned claimId), t) \<Rightarrow>
             (case attempt_merge resolveScmClient (api_keys header) act (actor_correlationId act)
                     (the (mb_featureRunId rq)) (the (mb_projectId rq))
                     (case mb_mergeMethod rq of None \<Rightarrow> ''squash'' | Some m \<Rightarrow> m) t of
                ((tried, calls), u) \<Rightarrow> ((merge_response tried, calls), settle_claim claimId tried u))))"

text \<open>\<open>minicoder merge merge-if-ready\<close>: the same attempt, without a slot of its own.\<close>

definition mergeIfReadyCli ::
    "scm_resolver \<Rightarrow> string \<Rightarrow> UserRole \<Rightarrow> string \<Rightarrow> string \<Rightarrow> string \<Rightarrow> store
      \<Rightarrow> (merge_outcome \<times> merge_options list) \<times> store" where
  "mergeIfReadyCli resolveScmClient actorId actorRole featureRunId projectId mergeMethod s =
     (case transaction generateId s of
        (Inl e, t) \<Rightarrow> ((FailedBefore (CoreError e), []), t)
      | (Inr corr, t) \<Rightarrow>
          attempt_merge resolveScmClient (cli_keys featureRunId) (humanActor actorId actorRole corr) corr
            featureRunId projectId mergeMethod t)"

section \<open>finalize-if-github-merged\<close>

datatype finalize_result = AlreadyRecorded | Finalized string command_result

definition confirmed_merge :: "observed_pr option \<Rightarrow> int \<Rightarrow> api_error + string" where
  "confirmed_merge observed prNumber =
     (let refuse = Inl (validationError (''GitHub does not confirm PR #'' @ show_int prNumber @ '' as merged (observed state: ''
            @ MergeGate.quoted (case observed of None \<Rightarrow> ''not found'' | Some ob \<Rightarrow> ob_state ob)
            @ ''); refusing to record a merge that did not happen.'')) in
      case observed of
        None \<Rightarrow> refuse
      | Some ob \<Rightarrow>
          if ob_state ob \<noteq> ''merged'' \<or> ob_mergedAt ob = None then refuse
          else
            (case (case ob_mergeSha ob of None \<Rightarrow> ob_headSha ob | Some sha \<Rightarrow> Some sha) of
               None \<Rightarrow> Inl (validationError (''GitHub confirms PR #'' @ show_int prNumber
                         @ '' merged but reported no merge/head SHA; cannot record.''))
             | Some sha \<Rightarrow>
                 if sha = ''''
                 then Inl (validationError (''GitHub confirms PR #'' @ show_int prNumber
                         @ '' merged but reported no merge/head SHA; cannot record.''))
                 else Inr sha))"

definition finalize_merge :: "scm_resolver \<Rightarrow> string \<Rightarrow> string \<Rightarrow> string \<Rightarrow> finalize_result route" where
  "finalize_merge resolveScmClient corr featureRunId projectId =
     bindR (fetchFeatureRun featureRunId projectId) (\<lambda>run.
     if run_state run = FE_MERGED then returnR AlreadyRecorded
     else if run_state run \<noteq> FE_MERGE_READY
     then throwR (validationError (''Feature run '' @ featureRunId @ '' is at '' @ MergeGate.quoted (fe_str (run_state run))
            @ '', not merge_ready or merged - this recovery path only applies to a run stuck at merge_ready after a ''
            @ ''GitHub merge that was never recorded.''))
     else
       bindR (coreR (queryA (getPullRequestByFeatureRun featureRunId))) (\<lambda>prRow.
       bindR (coreR (queryA (resolveRepository projectId))) (\<lambda>repoRow.
       case (prRow, repoRow) of
         (Some pr, Some repo) \<Rightarrow>
           bindR (coreR (queryA (resolveScmClient (repo_provider repo) (repo_base_url repo)))) (\<lambda>resolved.
           case resolved of
             Inl e \<Rightarrow> throwR (CoreError e)
           | Inr client \<Rightarrow>
               bindR (coreR (queryA (scm_getPullRequest client (repo_owner repo) (repo_name repo) (pr_number pr)))) (\<lambda>answer.
               case answer of
                 Inl f \<Rightarrow> throwR (ForgeError f)
               | Inr observed \<Rightarrow>
                   (case confirmed_merge observed (pr_number pr) of
                      Inl e \<Rightarrow> throwR e
                    | Inr mergeSha \<Rightarrow>
                        bindR (coreR (dispatchR RecordMergedHandler (''record-merged:'' @ featureRunId @ '':'' @ mergeSha)
                                 \<lparr>p_featureRunId = featureRunId, p_projectId = projectId,
                                  p_expectedVersion = run_version run, me_mergeSha = mergeSha\<rparr>
                                 (taskSystemActor corr) corr)) (\<lambda>res.
                        returnR (Finalized mergeSha res)))))
       | _ \<Rightarrow> throwR (validationError (''Cannot finalize feature run '' @ featureRunId
                @ '': no tracked pull request or repository'')))))"

text \<open>The route asks for an operator; the CLI's command does not.\<close>

definition finalizeRoute ::
    "scm_resolver \<Rightarrow> actor_identity \<Rightarrow> string option \<Rightarrow> string option \<Rightarrow> finalize_result route" where
  "finalizeRoute resolveScmClient act featureRunId projectId =
     (case assertRole act OPERATOR ''finalize-if-github-merged'' None of
        Inl e \<Rightarrow> throwR (CoreError e)
      | Inr _ \<Rightarrow>
          if absent featureRunId \<or> absent projectId
          then throwR (validationError ''featureRunId and projectId are required'')
          else finalize_merge resolveScmClient (actor_correlationId act) (the featureRunId) (the projectId))"

end
