(* ===== verification/TaskFacts.thy ===== *)
theory TaskFacts
  imports ReconcileTask MergeRoute ReconcileFacts
begin

text \<open>
  What the tasks and the inbox handlers do to the store: nothing the commands and the locks cannot.
\<close>

section \<open>Actions made of steps\<close>

interpretation steps: store_guarantee "(system_step bound)\<^sup>*\<^sup>*" for bound
  by unfold_locales auto

lemma stepwise_keeps: "stepwise bound m = steps.keepsA bound m"
  by (simp add: stepwise_def steps.keepsA_def)

lemma stepwise_catch: "stepwise bound m \<Longrightarrow> (\<And>e. stepwise bound (h e)) \<Longrightarrow> stepwise bound (catchA m h)"
  unfolding stepwise_keeps by (rule steps.keepsA_catchA)

lemma stepwise_askA: "stepwise bound (askA request)"
  by (simp add: stepwise_def askA_def)

lemma stepwise_finally:
  assumes "stepwise bound m" "stepwise bound final"
  shows "stepwise bound (finallyA m final)"
  unfolding stepwise_def
proof
  fix s
  obtain r t where m: "m s = (r, t)" by fastforce
  obtain r' u where f: "final t = (r', u)" by fastforce
  have "(system_step bound)\<^sup>*\<^sup>* s t" "(system_step bound)\<^sup>*\<^sup>* t u"
    using assms m f by (metis snd_conv stepwise_def)+
  then show "(system_step bound)\<^sup>*\<^sup>* s (snd (finallyA m final s))"
    by (auto simp: finallyA_def m f split: sum.splits)
qed

lemma stepwise_attempt: "stepwise bound m \<Longrightarrow> stepwise bound (attempt expected m)"
  unfolding attempt_def by (intro stepwise_catch stepwise_bind) (auto intro: stepwise_leaf)

lemma stepwise_locks:
  "stepwise bound (acquire p k opts)" "stepwise bound (release lock)"
  "stepwise bound (acquireForProject p holder ttl)" "stepwise bound (releaseForProject lock)"
  by (simp_all add: stepwise_def acquireForProject_def releaseForProject_def r_into_rtranclp
      system_step.acquire system_step.release)

lemma stepwise_commands:
  "stepwise bound (execute SelectFeatureHandler e1)" "stepwise bound (execute StartCodingHandler e2)"
  "stepwise bound (execute RecordCodePushedHandler e3)" "stepwise bound (execute RecordApprovedByPolicyHandler e4)"
  "stepwise bound (execute MergeIfReadyHandler e5)" "stepwise bound (execute RecordMergedHandler e6)"
  "stepwise bound (execute RecordMergeFailedHandler e7)" "stepwise bound (execute ReconcileMergeFailedHandler e8)"
  "stepwise bound (execute RecordBudgetExceededHandler e9)" "stepwise bound (execute RecordBudgetApprovalWaitingHandler e10)"
  using stepwise_request [of bound "SelectFeature e1"] stepwise_request [of bound "StartCoding e2"]
    stepwise_request [of bound "RecordCodePushed e3"] stepwise_request [of bound "RecordApprovedByPolicy e4"]
    stepwise_request [of bound "MergeIfReady e5"] stepwise_request [of bound "RecordMerged e6"]
    stepwise_request [of bound "RecordMergeFailed e7"] stepwise_request [of bound "ReconcileMergeFailed e8"]
    stepwise_request [of bound "RecordBudgetExceeded e9"] stepwise_request [of bound "RecordBudgetApprovalWaiting e10"]
  by simp_all

lemmas stepwise_rules =
  stepwise_bind stepwise_leaf stepwise_catch stepwise_askA stepwise_finally stepwise_attempt stepwise_locks
  stepwise_commands stepwise_handlers stepwise_generateId stepwise_reconcile

section \<open>The inbox handlers\<close>

lemma stepwise_reconcile_run: "stepwise bound (reconcile_run holder p i ob corr needsLock)"
  unfolding reconcile_run_def reconcileWithLock_def by (auto intro!: stepwise_rules)

lemma stepwise_handle_scm_event: "stepwise bound (handle_scm_event holder factory ty pay)"
  unfolding handle_scm_event_def Let_def
  by (auto intro!: stepwise_rules stepwise_reconcile_run split: option.split sum.split)

lemma scm_handlers_keep: "handlers_keep (system_step bound)\<^sup>*\<^sup>* (scm_handlers holder factory types)"
  using stepwise_handle_scm_event by (auto simp: handlers_keep_def scm_handlers_def as_event_handler_def stepwise_def)

lemma worker_handlers_keep: "handlers_keep (system_step bound)\<^sup>*\<^sup>* (buildHandlers provider factory)"
proof -
  have "handlers_keep (system_step bound)\<^sup>*\<^sup>* (xs @ ys) \<longleftrightarrow>
      handlers_keep (system_step bound)\<^sup>*\<^sup>* xs \<and> handlers_keep (system_step bound)\<^sup>*\<^sup>* ys" for xs ys
    unfolding handlers_keep_def set_append ball_Un by (rule refl)
  moreover have "handlers_keep (system_step bound)\<^sup>*\<^sup>* (map (\<lambda>ty. (ty, as_event_handler (\<lambda>_. returnA ()))) types)" for types
    by (auto simp: handlers_keep_def as_event_handler_def returnA_def)
  ultimately show ?thesis
    using scm_handlers_keep
    by (simp add: buildHandlers_def createGithubInboxHandlers_def createGiteaInboxHandlers_def createGitlabInboxHandlers_def)
qed

section \<open>The tasks\<close>

lemma stepwise_start_next: "stepwise bound (startNextFeature p)"
  unfolding startNextFeature_def Let_def select_run_def code_run_def
  by (auto intro!: stepwise_rules split: option.split)

lemma stepwise_merge_gate: "stepwise bound (runMergeGate p)"
  unfolding runMergeGate_def Let_def
  by (auto intro!: stepwise_rules split: option.split error.split)

lemma stepwise_budget: "stepwise bound (applyBudgetDecision ev p v act corr r)"
  unfolding applyBudgetDecision_def by (cases "ev_status ev") (auto intro!: stepwise_rules)

lemma stepwise_preflight: "stepwise bound (budgetPreflightCheck p)"
  unfolding budgetPreflightCheck_def
  by (auto intro!: stepwise_rules stepwise_budget split: option.split)

lemma stepwise_discover: "stepwise bound (discover_run client repo p r)"
  unfolding discover_run_def record_discovered_def
  by (auto intro!: stepwise_rules split: option.split sum.split)

lemma stepwise_discover_each: "stepwise bound (discover_each client repo p rs n)"
  by (induction rs arbitrary: n) (auto intro!: stepwise_rules stepwise_discover)

lemma stepwise_candidate: "stepwise bound (reconcile_candidate client repo p c acc)"
  unfolding reconcile_candidate_def
  by (auto intro!: stepwise_rules stepwise_reconcile_run split: option.split sum.split prod.split)

lemma stepwise_candidates: "stepwise bound (reconcile_each client repo p cs acc)"
  by (induction cs arbitrary: acc) (auto intro!: stepwise_rules stepwise_candidate)

lemma stepwise_reconciliation: "stepwise bound (runReconciliation resolver p)"
  unfolding runReconciliation_def discoverMissingPullRequests_def Let_def
  by (auto intro!: stepwise_rules stepwise_discover_each stepwise_candidates split: option.split sum.split)


section \<open>The merge commands\<close>

definition stepwiseR :: "int \<Rightarrow> 'a route \<Rightarrow> bool" where
  "stepwiseR bound m = (\<forall>s. (system_step bound)\<^sup>*\<^sup>* s (snd (m s)))"

lemma stepwiseR_bind:
  assumes "stepwiseR bound m" "\<And>a. stepwiseR bound (k a)"
  shows "stepwiseR bound (bindR m k)"
  unfolding stepwiseR_def
proof
  fix s
  obtain r t where m: "m s = (r, t)" by fastforce
  with assms(1) have st: "(system_step bound)\<^sup>*\<^sup>* s t" by (metis snd_conv stepwiseR_def)
  have "(system_step bound)\<^sup>*\<^sup>* t (snd (k a t))" for a using assms(2) by (simp add: stepwiseR_def)
  with st m show "(system_step bound)\<^sup>*\<^sup>* s (snd (bindR m k s))"
    by (cases r) (auto simp: bindR_def intro: rtranclp_trans)
qed

lemma stepwiseR_core: "stepwise bound m \<Longrightarrow> stepwiseR bound (coreR m)"
  unfolding stepwiseR_def stepwise_def coreR_def by (auto split: prod.split sum.split) (metis snd_conv)+

lemma stepwiseR_leaf: "stepwiseR bound (returnR a)" "stepwiseR bound (throwR e)"
  by (simp_all add: stepwiseR_def returnR_def throwR_def)

lemma stepwiseR_fetch: "stepwiseR bound (fetchFeatureRun i p)"
  unfolding fetchFeatureRun_def
  by (auto intro!: stepwiseR_bind stepwiseR_core stepwise_leaf stepwiseR_leaf split: option.split)

lemma stepwise_dispatchR: "(\<And>e. stepwise bound (execute h e)) \<Longrightarrow> stepwise bound (dispatchR h key pay act corr)"
  unfolding dispatchR_def by (auto intro!: stepwise_rules)

lemma stepwiseR_refused: "stepwise bound m \<Longrightarrow> stepwiseR bound (refused_reasons m)"
  unfolding stepwiseR_def stepwise_def refused_reasons_def
  by (auto split: prod.split sum.split error.split) (metis snd_conv)+

lemmas stepwiseR_rules =
  stepwiseR_bind stepwiseR_core stepwiseR_leaf stepwiseR_fetch stepwiseR_refused stepwise_dispatchR

lemma stepwiseR_prepare: "stepwiseR bound (prepare_merge resolver keys act corr i p)"
  unfolding prepare_merge_def
  by (auto intro!: stepwiseR_rules stepwise_rules split: option.split sum.split)

lemma stepwiseR_record: "stepwiseR bound (record_merge keys corr i p ready sha)"
  unfolding record_merge_def by (auto intro!: stepwiseR_rules stepwise_rules)

lemma stepwiseR_rejection: "stepwiseR bound (record_rejection keys corr i p ready reason auto)"
  unfolding record_rejection_def Let_def by (auto intro!: stepwiseR_rules stepwise_rules)

lemma stepwiseR_finalize: "stepwiseR bound (finalize_merge resolver corr i p)"
  unfolding finalize_merge_def
  by (auto intro!: stepwiseR_rules stepwise_rules split: option.split sum.split)

lemma attempt_merge_steps: "(system_step bound)\<^sup>*\<^sup>* s (snd (attempt_merge resolver keys act corr i p method s))"
proof -
  obtain r t where prep: "prepare_merge resolver keys act corr i p s = (r, t)" by fastforce
  have st: "(system_step bound)\<^sup>*\<^sup>* s t"
    using stepwiseR_prepare [of bound resolver keys act corr i p] prep by (metis snd_conv stepwiseR_def)
  have tu: "(system_step bound)\<^sup>*\<^sup>* t (snd (record_merge keys corr i p ready sha t))"
    "(system_step bound)\<^sup>*\<^sup>* t (snd (record_rejection keys corr i p ready reason auto t))" for ready sha reason auto
    using stepwiseR_record stepwiseR_rejection by (simp_all add: stepwiseR_def)
  have "(system_step bound)\<^sup>*\<^sup>* s (snd (record_merge keys corr i p ready sha t))"
    "(system_step bound)\<^sup>*\<^sup>* s (snd (record_rejection keys corr i p ready reason auto t))" for ready sha reason auto
    using st tu by (auto intro: rtranclp_trans)
  with st show ?thesis
    unfolding attempt_merge_def prep
    by (auto simp: Let_def split: prod.split sum.split merge_prepared.split merge_error.split) (metis snd_conv)+
qed

section \<open>The webhooks\<close>

lemma stepwise_insert_inbox:
  assumes "q_attempts row = 0"
  shows "stepwise bound (transaction (executeT (insert_inbox row)))"
proof -
  have "(system_step bound)\<^sup>*\<^sup>* s (insert_inbox row s)" for s
  proof (cases "q_id row \<in> q_id ` set (inbox_events s) \<or> in_dedup_key row \<in> in_dedup_key ` set (inbox_events s)")
    case False
    have "insert_inbox row s = s\<lparr>inbox_events := inbox_events s @ [row]\<rparr>"
      using False by (cases s) (simp add: insert_inbox_def)
    with False assms system_step.arrive [of row s bound] show ?thesis by (simp add: r_into_rtranclp)
  qed (simp add: insert_inbox_def)
  then show ?thesis by (simp add: stepwise_def transaction_def executeT_def)
qed

lemma stepwise_reply: "stepwise bound (reply code flds)"
  unfolding reply_def by (rule stepwise_leaf)

lemma stepwise_record_delivery: "stepwise bound (record_delivery source key normalized)"
  unfolding record_delivery_def
  by (auto intro!: stepwise_rules stepwise_reply stepwise_insert_inbox simp: inbox_row_of_def split: sum.split option.split)

lemma stepwise_receive:
  "stepwise bound (receiveGithubWebhook vf secrets d)" "stepwise bound (receiveGiteaWebhook dg secrets d)"
  "stepwise bound (receiveGitlabWebhook sha secrets d)"
  unfolding receiveGithubWebhook_def receiveGiteaWebhook_def receiveGitlabWebhook_def bad_request_def Let_def
  by (simp_all add: stepwise_reply stepwise_record_delivery)


section \<open>Everything so far\<close>

text \<open>
  The tasks, the inbox handlers, the merge commands and the webhook receivers can do nothing the
  commands, the locks and arriving events cannot: each, failed or not, with any client of any forge
  and any verification, is a sequence of the system's steps, so everything the steps keep it keeps;
  and the handlers of every provider satisfy the contract under which the poller is a step.
\<close>

lemma tasks_are_steps:
  "(system_step bound)\<^sup>*\<^sup>* s (snd (startNextFeature p1 s))
   \<and> (system_step bound)\<^sup>*\<^sup>* s (snd (runMergeGate p2 s))
   \<and> (system_step bound)\<^sup>*\<^sup>* s (snd (budgetPreflightCheck p3 s))
   \<and> (system_step bound)\<^sup>*\<^sup>* s (snd (runReconciliation resolver p4 s))
   \<and> (system_step bound)\<^sup>*\<^sup>* s (snd (handle_scm_event holder factory ty pay s))
   \<and> handlers_keep (system_step bound)\<^sup>*\<^sup>* (buildHandlers provider factory)
   \<and> (system_step bound)\<^sup>*\<^sup>* s (snd (attempt_merge resolver keys act corr i p method s))
   \<and> (system_step bound)\<^sup>*\<^sup>* s (snd (finalize_merge resolver corr i p s))
   \<and> (system_step bound)\<^sup>*\<^sup>* s (snd (receiveGithubWebhook verify secrets d s))
   \<and> (system_step bound)\<^sup>*\<^sup>* s (snd (receiveGiteaWebhook digest secrets d s))
   \<and> (system_step bound)\<^sup>*\<^sup>* s (snd (receiveGitlabWebhook sha256 secrets d s))"
  using stepwise_start_next [of bound] stepwise_merge_gate [of bound] stepwise_preflight [of bound]
    stepwise_reconciliation [of bound] stepwise_handle_scm_event [of bound] stepwise_receive [of bound]
    stepwiseR_finalize [of bound]
  by (simp add: stepwise_def stepwiseR_def worker_handlers_keep attempt_merge_steps)

end
