(* ===== verification/LockFrame.thy ===== *)
theory LockFrame
  imports Tasks Samples
begin

text \<open>What taking and giving back a lock leaves alone.\<close>

section \<open>The lane\<close>

text \<open>Taking and giving back a lock changes the lock table and the sequence of identifiers only.\<close>

definition lock_frame :: "store \<Rightarrow> store \<Rightarrow> bool" where
  "lock_frame s t = (\<exists>d ls. t = s\<lparr>draws := d, workflow_locks := ls\<rparr>)"

interpretation lockframe: store_guarantee lock_frame
proof
  show "lock_frame s s" for s unfolding lock_frame_def by (rule exI [of _ "draws s"], rule exI [of _ "workflow_locks s"]) simp
  show "lock_frame s u" if "lock_frame s t" "lock_frame t u" for s t u
    using that unfolding lock_frame_def by fastforce
qed

lemma lock_frame_parts:
  assumes "lock_frame s t"
  shows "feature_runs t = feature_runs s" "idempotency_keys t = idempotency_keys s" "clock t = clock s"
    "workflow_states t = workflow_states s" "workflow_events t = workflow_events s" "pull_requests t = pull_requests s"
  using assms by (auto simp: lock_frame_def)

lemma lock_frame_update: "lock_frame s (workflow_locks_update f s)" "lock_frame s (s\<lparr>draws := d\<rparr>)"
  unfolding lock_frame_def
  by (rule exI [of _ "draws s"], rule exI [of _ "f (workflow_locks s)"], simp)
    (rule exI [of _ d], rule exI [of _ "workflow_locks s"], simp)

lemma acquire_frame: "lockframe.keepsA (acquire p k opts)"
proof -
  have "lockframe.keeps (acquire_body p k opts i)" for i
    unfolding acquire_body_def Let_def
    by (intro lockframe.keeps_bindT lockframe.keeps_queryT lockframe.keeps_option lockframe.keeps_if
        lockframe.keeps_throwT lockframe.keeps_returnT lockframe.keepsI)
      (auto simp: wp_simps intro: lock_frame_update)
  moreover have "lockframe.keeps lock_generateId"
    by (rule lockframe.keepsI) (auto simp: lock_generateId_def wp_simps intro: lock_frame_update)
  ultimately show ?thesis
    unfolding acquire_def by (intro lockframe.keepsA_bindA lockframe.keeps_transaction)
qed

lemma release_frame: "release lock s = (Inr (), snd (release lock s))" "lock_frame s (snd (release lock s))"
  by (simp_all add: release_def transaction_def bindT_def queryT_def executeT_def lock_frame_update)

lemma slots_of_frame:
  "lock_frame s t \<Longrightarrow> checkIdempotencyKey key scope t = checkIdempotencyKey key scope s"
  by (simp add: checkIdempotencyKey_def lock_frame_parts)

section \<open>A repository and a used slot\<close>

definition sample_repository :: repository_row where
  "sample_repository =
     \<lparr>repo_id = ''rp1'', repo_project_id = ''p1'', repo_owner = ''o'', repo_name = ''n'', repo_full_name = ''o/n'',
      repo_default_branch = ''main'', repo_provider = ''github'', repo_base_url = None\<rparr>"

definition used_slot :: "string \<Rightarrow> string \<Rightarrow> string \<Rightarrow> idempotency_row" where
  "used_slot i key scope =
     \<lparr>ik_id = i, ik_key = key, ik_scope = scope,
      ik_result = Some \<lparr>res_commandId = ''c0'', res_accepted = True, res_resultingState = ''selected'', res_emittedEventIds = []\<rparr>,
      ik_response = None, ik_expires_at = 600000000, ik_version = 2, ik_updated_at = 0\<rparr>"

end
