(* ===== verification/TaskOutcomes.thy ===== *)
theory TaskOutcomes
  imports TaskFacts QueueFacts LockFrame
begin

text \<open>
  Two ways in which a task reports or stops without the run's state being the reason: a command whose
  key was used before is answered from its slot, and a lock that is held ends a pass whose candidates
  are independent of it.
\<close>

section \<open>A restarted run\<close>

text \<open>
  The keys with which start-next-feature selects a run and starts its coding name only the run. So
  a run that was selected within the last seven days, then blocked and unblocked again, is not
  started: while the two slots live, the task answers that it has started the next eligible run, and
  the run, the pointer to the active run and the log are as they were.
\<close>

theorem restarted_run_replayed:
  assumes "choose_run p s = Some (i, False)" "run_by_id i s = Some run"
    "map_option ws_automation_state (workflow_state_of (sn_projectId p) s) = Some AU_RUNNING"
    "checkIdempotencyKey (''select-feature:'' @ i) ''select-feature'' s = Some res1"
    "checkIdempotencyKey (''start-coding:'' @ i) ''start-coding'' s = Some res2"
    "acquireForProject (sn_projectId p) ''start-next-feature-task'' EXECUTION_LANE_TTL_MS (s\<lparr>draws := draws s + 1\<rparr>) = (Inr lock, u)"
  shows "\<exists>t. startNextFeature p s = (Inr \<lparr>sx_projectId = sn_projectId p, sx_featureRunId = Some i, sx_started = True\<rparr>, t)
     \<and> feature_runs t = feature_runs s \<and> workflow_states t = workflow_states s \<and> workflow_events t = workflow_events s"
proof -
  let ?s1 = "s\<lparr>draws := draws s + 1\<rparr>"
  have f1: "lock_frame s ?s1" by (rule lock_frame_update)
  have f2: "lock_frame ?s1 u"
    using acquire_frame assms(6) unfolding acquireForProject_def by (metis lockframe.keepsA_def snd_conv)
  have f3: "lock_frame u (u\<lparr>draws := draws u + 1\<rparr>)" by (rule lock_frame_update)
  have su: "lock_frame s (u\<lparr>draws := draws u + 1\<rparr>)"
    using f1 f2 f3 by (metis lockframe.R_trans)
  have sel: "select_run p i (run_version run) s = (Inr res1, ?s1)"
    using assms(4) slots_of_frame [OF f1]
    by (simp add: select_run_def bindA_def transaction_def generateId_def execute_def SelectFeatureHandler_def
        automationOperatorActor_def assertRole_def meetsRole_def queryA_def returnA_def)
  have cod: "code_run p i (run_version run) lock u = (Inr res2, u\<lparr>draws := draws u + 1\<rparr>)"
    using assms(5) slots_of_frame [OF su]
    by (simp add: code_run_def bindA_def transaction_def generateId_def execute_def StartCodingHandler_def
        taskSystemActor_def assertRole_def meetsRole_def queryA_def returnA_def)
  obtain t where rel: "release lock (u\<lparr>draws := draws u + 1\<rparr>) = (Inr (), t)" "lock_frame (u\<lparr>draws := draws u + 1\<rparr>) t"
    using release_frame by metis
  have "startNextFeature p s =
      (Inr \<lparr>sx_projectId = sn_projectId p, sx_featureRunId = Some i, sx_started = True\<rparr>, t)"
    using assms(1,2,3,6) sel cod rel(1)
    by (simp add: startNextFeature_def Let_def bindA_def queryA_def attempt_def catchA_def returnA_def finallyA_def
        releaseForProject_def)
  moreover have "lock_frame s t" using su rel(2) by (metis lockframe.R_trans)
  ultimately show ?thesis by (blast intro: lock_frame_parts)
qed

definition restarted_store :: store where
  "restarted_store =
     (sample_store [sample_run ''r2'' ''q2'' FE_APPROVED_PENDING_EXECUTION 0 9, sample_run ''r1'' ''q1'' FE_MERGED 2 9]
        (sample_ws None AU_RUNNING))
     \<lparr>workflow_locks := [],
      idempotency_keys := [used_slot ''k1'' ''select-feature:r2'' ''select-feature'', used_slot ''k2'' ''start-coding:r2'' ''start-coding'']\<rparr>"

definition sample_start :: start_next_payload where
  "sample_start = \<lparr>sn_projectId = ''p1'', sn_correlationId = ''x'', sn_featureRunId = None\<rparr>"

theorem restarted_run_replayed_witness:
  "\<exists>t. startNextFeature sample_start restarted_store =
       (Inr \<lparr>sx_projectId = ''p1'', sx_featureRunId = Some ''r2'', sx_started = True\<rparr>, t)
     \<and> map run_state (feature_runs t) = [FE_APPROVED_PENDING_EXECUTION, FE_MERGED]"
proof -
  let ?s = restarted_store
  have choose: "choose_run sample_start ?s = Some (''r2'', False)"
    by (simp add: choose_run_def stranded_run_def sample_start_def restarted_store_def findNextEligibleFeatureRun_def run_simps
        eligible_runs_def order_by_def)
  have run: "run_by_id ''r2'' ?s = Some (sample_run ''r2'' ''q2'' FE_APPROVED_PENDING_EXECUTION 0 9)"
    by (simp add: run_by_id_def restarted_store_def run_simps)
  have au: "map_option ws_automation_state (workflow_state_of (sn_projectId sample_start) ?s) = Some AU_RUNNING"
    by (simp add: sample_start_def restarted_store_def run_simps)
  obtain lock u where lock: "acquireForProject (sn_projectId sample_start) ''start-next-feature-task'' EXECUTION_LANE_TTL_MS
      (?s\<lparr>draws := draws ?s + 1\<rparr>) = (Inr lock, u)"
    by (simp add: acquireForProject_def acquire_run acquire_body_unfold new_lock_def lock_for_def executionLaneKey_def
        sample_start_def restarted_store_def run_simps)
  obtain res1 res2 where slots: "checkIdempotencyKey (''select-feature:'' @ ''r2'') ''select-feature'' ?s = Some res1"
    "checkIdempotencyKey (''start-coding:'' @ ''r2'') ''start-coding'' ?s = Some res2"
    by (simp add: restarted_store_def used_slot_def run_simps)
  from restarted_run_replayed [OF choose run au slots lock] show ?thesis
    by (auto simp: sample_start_def restarted_store_def run_simps)
qed

section \<open>A held lane during discovery\<close>

text \<open>
  The scheduled reconciliation is meant to pass over a candidate that meets an expected race. But the
  discovery of unreported pull requests takes the lane before its \<open>try\<close>: when the forge reports a
  pull request for the first undiscovered run and the lane cannot be had, the conflict, an expected
  race, ends the whole pass, and no run is reconciled, though most of them need no lane.
\<close>

theorem discovery_conflict_aborts:
  assumes "resolveRepository (gr_projectId p) s = Some repo"
    "resolver (repo_provider repo) (repo_base_url repo) s = Inr client"
    "undiscovered p s = r # rs"
    "scm_listPullRequestsForBranch client (repo_owner repo) (repo_name repo) (branchNameFor (run_id r)) s = Inr ((n, st) # prs)"
    "scm_getPullRequest client (repo_owner repo) (repo_name repo) n s = Inr (Some observed)"
    "acquire (gr_projectId p) (executionLaneKey (gr_projectId p))
       \<lparr>lo_ttlMs = LOCK_TTL_MS, lo_holderId = ''github-reconciliation-discovery''\<rparr> s = (Inl (LockConflictError k h), t)"
  shows "runReconciliation resolver p s = (Inl (LockConflictError k h), t)
     \<and> isTransientRace reconciliation_expected (LockConflictError k h)
     \<and> feature_runs t = feature_runs s \<and> pull_requests t = pull_requests s"
proof -
  have "lock_frame s t" using acquire_frame assms(6) by (metis lockframe.keepsA_def snd_conv)
  moreover have "runReconciliation resolver p s = (Inl (LockConflictError k h), t)"
    using assms
    by (simp add: runReconciliation_def Let_def bindA_def queryA_def discoverMissingPullRequests_def discover_run_def
        askA_def first_row_def)
  ultimately show ?thesis by (simp add: lock_frame_parts isTransientRace_def)
qed

definition quiet_client :: scm_client where
  "quiet_client =
     \<lparr>scm_getPullRequest = (\<lambda>o' n k s. Inr (Some \<lparr>ob_prNumber = k, ob_branchName = ''b'', ob_baseBranch = ''main'', ob_headSha = Some ''h'',
        ob_state = ''open'', ob_reviewState = ''none'', ob_ciStatus = ''passed'', ob_mergeable = None, ob_blockingLabels = [],
        ob_conversationsResolved = True, ob_mergedAt = None, ob_mergeSha = None, ob_closedAt = None\<rparr>)),
      scm_listPullRequestsForBranch = (\<lambda>o' n b s. Inr [(7, ''open'')]),
      scm_createPullRequest = (\<lambda>o' n b base title s. Inr 7), scm_mergePullRequest = (\<lambda>opts s. Inr ''m'')\<rparr>"

definition conflict_store :: store where
  "conflict_store =
     (sample_store [sample_run ''r2'' ''q2'' FE_CODE_PUSHED 0 9, sample_run ''r1'' ''q1'' FE_UNDER_REVIEW 2 9]
        (sample_ws (Some ''r2'') AU_RUNNING))\<lparr>repositories := [sample_repository]\<rparr>"

definition sample_pass :: reconciliation_payload where
  "sample_pass = \<lparr>gr_projectId = ''p1'', gr_correlationId = ''x'', gr_featureRunId = None\<rparr>"

theorem discovery_conflict_aborts_witness:
  "\<exists>k h t. runReconciliation (\<lambda>_ _ _. Inr quiet_client) sample_pass conflict_store = (Inl (LockConflictError k h), t)"
proof -
  obtain k h t where lock: "acquire (gr_projectId sample_pass) (executionLaneKey (gr_projectId sample_pass))
      \<lparr>lo_ttlMs = LOCK_TTL_MS, lo_holderId = ''github-reconciliation-discovery''\<rparr> conflict_store = (Inl (LockConflictError k h), t)"
    by (simp add: acquire_run acquire_body_unfold new_lock_def lock_for_def claimable_def executionLaneKey_def
        sample_pass_def conflict_store_def run_simps)
  have found: "undiscovered sample_pass conflict_store = sample_run ''r2'' ''q2'' FE_CODE_PUSHED 0 9 # []"
    "resolveRepository (gr_projectId sample_pass) conflict_store = Some sample_repository"
    by (simp_all add: undiscovered_def named_def getPullRequestByFeatureRun_def resolveRepository_def sample_repository_def
        sample_pass_def conflict_store_def run_simps)
  have listed: "scm_listPullRequestsForBranch quiet_client a b c conflict_store = Inr ((7, ''open'') # [])" for a b c
    by (simp add: quiet_client_def)
  obtain ob where "\<And>a b. scm_getPullRequest quiet_client a b 7 conflict_store = Inr (Some ob)"
    by (simp add: quiet_client_def)
  from discovery_conflict_aborts [where resolver = "\<lambda>_ _ _. Inr quiet_client", OF found(2) refl found(1) listed this lock]
  show ?thesis by blast
qed

end
