(* ===== verification/WebhookFacts.thy ===== *)
theory WebhookFacts
  imports TaskOutcomes
begin

text \<open>What becomes of a delivery of a webhook: who is refused, and that an accepted one is recorded once.\<close>

section \<open>One delivery\<close>


lemma insert_inbox_cases:
  obtains (kept) "insert_inbox row s = s" "q_id row \<in> q_id ` set (inbox_events s) \<or> in_dedup_key row \<in> in_dedup_key ` set (inbox_events s)"
  | (added) "inbox_events (insert_inbox row s) = inbox_events s @ [row]"
      "q_id row \<notin> q_id ` set (inbox_events s)" "in_dedup_key row \<notin> in_dedup_key ` set (inbox_events s)"
  by (cases "q_id row \<in> q_id ` set (inbox_events s) \<or> in_dedup_key row \<in> in_dedup_key ` set (inbox_events s)")
    (auto simp: insert_inbox_def)




lemma received_body:
  "verifyWebhookSignature verify (dl_rawBody d) (dl_signature d) secrets \<Longrightarrow> \<not> missing (dl_deliveryId d) \<Longrightarrow>
     \<not> missing (dl_event d) \<Longrightarrow>
     receiveGithubWebhook verify secrets d =
       record_delivery ''github'' (header_value (dl_deliveryId d))
         (normalizeGithubWebhookEvent (header_value (dl_event d)) (dl_body d))"
  by (simp add: receiveGithubWebhook_def)








end
