(* ===== verification/MergeFacts.thy ===== *)
theory MergeFacts
  imports TaskOutcomes GateFacts
begin

text \<open>
  Merges cannot be taken back: when the forge is asked for one, and that a request which has been
  answered, or whose merge could not be recorded, never asks again.
\<close>

section \<open>The slot of a route\<close>

lemma claim_route_eq:
  "claimRouteIdempotencyKey key scope ttl s =
     (if (key, scope) \<in> (\<lambda>r. (ik_key r, ik_scope r)) ` set (idempotency_keys (claim_sweep key scope s))
      then (Inr (case Option.bind (idempotency_slot key scope s) ik_response of
                   Some response \<Rightarrow> RouteFulfilled response | None \<Rightarrow> RouteInProgress), claim_sweep key scope s)
      else if claim_id s \<in> set (map ik_id (idempotency_keys (claim_sweep key scope s)))
      then (Inl (ConstraintViolation ''idempotency_keys''), claim_sweep key scope s)
      else (Inr (RouteOwned (claim_id s)), claim_insert key scope ttl s))"
proof -
  have row: "route_row (claim_id s) key scope ttl (clock s) = claim_row key scope ttl s"
    by (simp add: route_row_def claim_row_def)
  have keys: "ik_id (claim_row key scope ttl s) = claim_id s" "ik_key (claim_row key scope ttl s) = key"
    "ik_scope (claim_row key scope ttl s) = scope" by (simp_all add: claim_row_def)
  have gen: "transaction generateId s = (Inr (claim_id s), s\<lparr>draws := draws s + 1\<rparr>)"
    by (simp add: transaction_def generateId_def claim_id_def)
  have executeT_transaction: "transaction (executeT f) t = (Inr (), f t)" for f t
    by (simp add: transaction_def executeT_def)
  have run: "claimRouteIdempotencyKey key scope ttl s =
      (case insertOnConflictT ''idempotency_keys'' idempotency_keys idempotency_keys_update
              ik_id (\<lambda>r. (ik_key r, ik_scope r)) (claim_row key scope ttl s) (claim_sweep key scope s) of
         Inl e \<Rightarrow> (Inl e, claim_sweep key scope s)
       | Inr (n, t) \<Rightarrow>
           if n = 1 then (Inr (RouteOwned (claim_id s)), t)
           else (Inr (case Option.bind (idempotency_slot key scope t) ik_response of
                        Some response \<Rightarrow> RouteFulfilled response | None \<Rightarrow> RouteInProgress), t))"
    by (simp add: claimRouteIdempotencyKey_def bindA_def queryA_def returnA_def gen executeT_transaction
        claim_sweep_def row) (simp add: transaction_def claim_sweep_def returnA_def bindA_def queryA_def split: sum.split)
  show ?thesis
    unfolding run insertOnConflictT_def keys slot_after_sweep [symmetric, of key scope s]
    by (simp add: claim_insert_def)
qed

lemma claim_owned:
  assumes "claimRouteIdempotencyKey key scope ttl s = (Inr (RouteOwned c), t)" "wf_slots s"
  shows "wf_slots t" "route_row c key scope ttl (clock s) \<in> set (idempotency_keys t)" "clock t = clock s" "c = claim_id s"
proof -
  have c: "(key, scope) \<notin> (\<lambda>r. (ik_key r, ik_scope r)) ` set (idempotency_keys (claim_sweep key scope s))"
    "claim_id s \<notin> set (map ik_id (idempotency_keys (claim_sweep key scope s)))" "c = claim_id s"
    "t = claim_insert key scope ttl s"
    using assms(1) by (auto simp: claim_route_eq split: if_splits option.splits)
  then show "c = claim_id s" "clock t = clock s" by (simp_all add: claim_insert_def claim_sweep_def)
  show "wf_slots t" "route_row c key scope ttl (clock s) \<in> set (idempotency_keys t)"
    using c sweep_slots(1,2) [OF assms(2), of key scope]
    by (auto simp: wf_slots_def claim_insert_def claim_row_def route_row_def)
qed

lemma claim_again:
  assumes "wf_slots u" "row \<in> set (idempotency_keys u)" "clock u < ik_expires_at row"
  shows "fst (claimRouteIdempotencyKey (ik_key row) (ik_scope row) ttl u) =
    Inr (case ik_response row of Some response \<Rightarrow> RouteFulfilled response | None \<Rightarrow> RouteInProgress)"
proof -
  let ?key = "ik_key row" and ?scope = "ik_scope row"
  have "row \<in> set (idempotency_keys (claim_sweep ?key ?scope u))"
    using assms(2,3) by (simp add: claim_sweep_def)
  moreover have "idempotency_slot ?key ?scope u = Some row"
    unfolding idempotency_slot_def
  proof (rule first_row_unique)
    show "row \<in> set (filter (\<lambda>r. ik_key r = ?key \<and> ik_scope r = ?scope \<and> ik_expires_at r > clock u) (idempotency_keys u))"
      using assms(2,3) by simp
    show "q = row" if "q \<in> set (filter (\<lambda>r. ik_key r = ?key \<and> ik_scope r = ?scope \<and> ik_expires_at r > clock u) (idempotency_keys u))" for q
      using that assms by (auto simp: wf_slots_def intro: distinct_map_unique)
  qed
  ultimately show ?thesis by (force simp: claim_route_eq)
qed

section \<open>What came of a request\<close>

text \<open>What came of the attempt a request made, if it got to make one.\<close>

definition route_outcome :: "scm_resolver \<Rightarrow> merge_request \<Rightarrow> store \<Rightarrow> merge_outcome option" where
  "route_outcome resolver rq s =
     (if absent (mb_featureRunId rq) \<or> absent (mb_projectId rq) \<or> mb_idempotencyKey rq = None
         \<or> trim (the (mb_idempotencyKey rq)) = '''' then None
      else
        (case claimRouteIdempotencyKey (the (mb_idempotencyKey rq)) ROUTE_IDEMPOTENCY_SCOPE ROUTE_IDEMPOTENCY_TTL_MS s of
           (Inr (RouteOwned c), t) \<Rightarrow>
             Some (fst (fst (attempt_merge resolver (api_keys (the (mb_idempotencyKey rq))) (mb_actor rq)
                (actor_correlationId (mb_actor rq)) (the (mb_featureRunId rq)) (the (mb_projectId rq))
                (case mb_mergeMethod rq of None \<Rightarrow> ''squash'' | Some m \<Rightarrow> m) t)))
         | _ \<Rightarrow> None))"

definition before_merge :: "merge_outcome \<Rightarrow> bool" where
  "before_merge tried = (case tried of FailedBefore e \<Rightarrow> True | _ \<Rightarrow> False)"

lemma settled_slot:
  assumes "row \<in> set (idempotency_keys s)" "wf_slots s" "\<not> before_merge tried"
  shows "\<exists>row'. row' \<in> set (idempotency_keys (settle_claim (ik_id row) tried s)) \<and> ik_key row' = ik_key row \<and> ik_scope row' = ik_scope row
     \<and> ik_expires_at row' = ik_expires_at row
     \<and> ik_response row' = (case merge_response tried of Inr r \<Rightarrow> Some r | Inl e \<Rightarrow> ik_response row)"
    "wf_slots (settle_claim (ik_id row) tried s)" "clock (settle_claim (ik_id row) tried s) = clock s"
proof -
  have ful: "fulfil_response r (clock s) row \<in> set (update_where (\<lambda>q. ik_id q = ik_id row) (fulfil_response r (clock s)) (idempotency_keys s))"
    for r using assms(1) by (auto simp: update_where_def intro!: rev_image_eqI [of row])
  have same: "map g (update_where p (fulfil_response r n) rows) = map g rows"
    if "\<And>q. g (fulfil_response r n q) = g q" for g :: "idempotency_row \<Rightarrow> 'b" and p r n rows
    using that by (induction rows) auto
  have flds: "ik_id (fulfil_response r n q) = ik_id q" "ik_key (fulfil_response r n q) = ik_key q"
    "ik_scope (fulfil_response r n q) = ik_scope q" "ik_expires_at (fulfil_response r n q) = ik_expires_at q"
    "ik_response (fulfil_response r n q) = Some r" for r n q by (simp_all add: fulfil_response_def)
  have wf: "wf_slots (fulfillRouteIdempotencyKey c r s)" for c r
    using assms(2) by (simp add: wf_slots_def fulfillRouteIdempotencyKey_def same flds)
  show "wf_slots (settle_claim (ik_id row) tried s)" "clock (settle_claim (ik_id row) tried s) = clock s"
    using assms(2,3) wf by (simp_all add: settle_claim_def before_merge_def fulfillRouteIdempotencyKey_def
        split: merge_outcome.splits sum.splits)
  show "\<exists>row'. row' \<in> set (idempotency_keys (settle_claim (ik_id row) tried s)) \<and> ik_key row' = ik_key row \<and> ik_scope row' = ik_scope row
     \<and> ik_expires_at row' = ik_expires_at row
     \<and> ik_response row' = (case merge_response tried of Inr r \<Rightarrow> Some r | Inl e \<Rightarrow> ik_response row)"
  proof (cases "merge_response tried")
    case (Inr r)
    then have "settle_claim (ik_id row) tried s = fulfillRouteIdempotencyKey (ik_id row) r s"
      by (cases tried) (simp_all add: settle_claim_def merge_response_def)
    with ful [of r] Inr show ?thesis by (auto simp: fulfillRouteIdempotencyKey_def flds intro!: exI [of _ "fulfil_response r (clock s) row"])
  next
    case (Inl e)
    with assms(3) have "settle_claim (ik_id row) tried s = s"
      by (cases tried) (simp_all add: settle_claim_def merge_response_def before_merge_def)
    with assms(1) Inl show ?thesis by auto
  qed
qed


section \<open>When the forge is asked\<close>

lemma ready_execute_role:
  assumes "execute MergeIfReadyHandler e s = (Inr res, t)"
  shows "actorKind (env_actor e) = Human \<and> meetsRole (actor_role (env_actor e)) APPROVER"
  using assms
  by (auto simp: execute_def assertRole_def MergeIfReadyHandler_def throwA_def split: if_splits)

lemma prepared_for_merge:
  assumes "prepare_merge resolver keys act corr i p s = (Inr (MergeReady client repo pr ready), t)"
  shows "getPullRequestByFeatureRun i s = Some pr" "resolveRepository p s = Some repo" "find_run i p t = Some ready"
    "run_state ready = FE_MERGE_READY" "actorKind act = Human \<and> meetsRole (actor_role act) APPROVER"
    "resolver (repo_provider repo) (repo_base_url repo) s = Inr client"
proof -
  have role: "actorKind act = Human \<and> meetsRole (actor_role act) APPROVER"
    if "dispatchR MergeIfReadyHandler key pay act corr u = (Inr res, v)" for key pay u res v
    using that ready_execute_role
    by (fastforce simp: dispatchR_def bindA_def transaction_def generateId_def command_envelope_def)
  show "getPullRequestByFeatureRun i s = Some pr" "resolveRepository p s = Some repo" "find_run i p t = Some ready"
    "run_state ready = FE_MERGE_READY" "resolver (repo_provider repo) (repo_base_url repo) s = Inr client"
    "actorKind act = Human \<and> meetsRole (actor_role act) APPROVER"
    using assms role
    by (auto simp: prepare_merge_def fetchFeatureRun_def bindR_def coreR_def queryA_def returnR_def throwR_def refused_reasons_def
        split: option.splits sum.splits prod.splits if_splits error.splits)
qed

text \<open>
  C5. A merge is asked for at most once in an attempt, with the head the project last saw, of the tracked
  pull request in the project's repository, by a human who may approve, and only at a moment the
  run has, on record, got to \<open>merge_ready\<close>.
\<close>

theorem merge_call_justified:
  assumes "attempt_merge resolver keys act corr i p method s = ((tried, calls), t)" "calls \<noteq> []"
  shows "\<exists>repo pr run u. calls = [merge_call repo pr method]
     \<and> getPullRequestByFeatureRun i s = Some pr \<and> resolveRepository p s = Some repo
     \<and> actorKind act = Human \<and> meetsRole (actor_role act) APPROVER
     \<and> (system_step bound)\<^sup>*\<^sup>* s u \<and> (system_step bound)\<^sup>*\<^sup>* u t
     \<and> find_run i p u = Some run \<and> run_state run = FE_MERGE_READY"
proof -
  obtain client repo pr ready u where prep: "prepare_merge resolver keys act corr i p s = (Inr (MergeReady client repo pr ready), u)"
    using assms by (auto simp: attempt_merge_def split: prod.splits sum.splits merge_prepared.splits)
  note ready = prepared_for_merge [OF prep]
  have before: "(system_step bound)\<^sup>*\<^sup>* s u"
    using stepwiseR_prepare [of bound resolver keys act corr i p] prep by (metis snd_conv stepwiseR_def)
  have after: "(system_step bound)\<^sup>*\<^sup>* u (snd (record_merge keys corr i p ready sha u))"
    "(system_step bound)\<^sup>*\<^sup>* u (snd (record_rejection keys corr i p ready reason auto u))" for sha reason auto
    using stepwiseR_record stepwiseR_rejection by (simp_all add: stepwiseR_def)
  have "calls = [merge_call repo pr method]" "(system_step bound)\<^sup>*\<^sup>* u t"
    using assms(1) after
    by (auto simp: attempt_merge_def prep Let_def split: sum.splits prod.splits merge_error.splits) (metis snd_conv)+
  with ready before show ?thesis by blast
qed

section \<open>At most once for a key\<close>

text \<open>
  C4. A merge is asked for once. If a request's attempt ended in an answer, or in an error after the
  forge had merged, then within the slot's seven days no request under the same key, for whatever run
  and whatever the system has done since, makes a merge call; and one that is answered gets the first
  answer. Only an attempt that failed before a merge gives its key back.
\<close>

theorem merge_not_repeated:
  assumes "mergeIfReadyRoute resolver rq s = ((first, calls), t)" "route_outcome resolver rq s = Some tried"
    "\<not> before_merge tried" "wf_slots s" "(system_step bound)\<^sup>*\<^sup>* t u" "0 \<le> bound" "clock u < clock s + ROUTE_IDEMPOTENCY_TTL_MS"
    "mb_idempotencyKey rq' = mb_idempotencyKey rq" "mergeIfReadyRoute resolver' rq' u = ((second, calls'), v)"
  shows "calls' = [] \<and> (\<forall>answer. second = Inr answer \<longrightarrow> first = Inr answer)"
proof -
  obtain header where header_def: "header = the (mb_idempotencyKey rq)" by simp
  let ?scope = ROUTE_IDEMPOTENCY_SCOPE and ?ttl = ROUTE_IDEMPOTENCY_TTL_MS
  have valid: "\<not> (absent (mb_featureRunId rq) \<or> absent (mb_projectId rq))"
    "\<not> (mb_idempotencyKey rq = None \<or> trim header = '''')"
    using assms(2) by (auto simp: route_outcome_def header_def split: if_splits)
  obtain c s1 where c: "claimRouteIdempotencyKey header ?scope ?ttl s = (Inr (RouteOwned c), s1)"
    using assms(2) valid by (auto simp: route_outcome_def header_def split: prod.splits sum.splits route_claim.splits)
  obtain way where way_def: "way = (case mb_mergeMethod rq of None \<Rightarrow> ''squash'' | Some m \<Rightarrow> m)" by simp
  obtain calls1 s2 where tried: "attempt_merge resolver (api_keys header) (mb_actor rq) (actor_correlationId (mb_actor rq))
      (the (mb_featureRunId rq)) (the (mb_projectId rq)) way s1 = ((tried, calls1), s2)"
    using assms(2) valid c by (auto simp: route_outcome_def header_def [symmetric] way_def [symmetric]) (metis prod.collapse)
  have first: "first = merge_response tried" "t = settle_claim c tried s2"
    using assms(1) valid c tried
    by (auto simp: mergeIfReadyRoute_def Let_def header_def [symmetric] way_def [symmetric])
  note own = claim_owned [OF c assms(4)]
  obtain row where row_def: "row = route_row c header ?scope ?ttl (clock s)" by simp
  have row: "ik_id row = c" "ik_key row = header" "ik_scope row = ?scope" "ik_expires_at row = clock s + ?ttl" "ik_response row = None"
    by (simp_all add: row_def route_row_def)
  have kept12: "slots_kept s1 s2"
    using steps_history [OF attempt_merge_steps assms(6)] tried by (metis core_history_def history_def snd_conv)
  have kepttu: "slots_kept t u"
    using steps_history [OF assms(5,6)] by (simp add: history_def core_history_def)
  have clk: "clock t = clock s2" using settled_slot(3) first(2) row(1)
    by (cases tried) (simp_all add: settle_claim_def merge_response_def fulfillRouteIdempotencyKey_def releaseRouteIdempotencyKey_def)
  have live: "clock s2 < ik_expires_at row" "clock u < ik_expires_at row"
    using kepttu clk assms(7) by (simp_all add: slots_kept_def row)
  have row2: "row \<in> set (idempotency_keys s2)" "wf_slots s2"
    using kept12 own(1,2) live(1) by (simp_all add: slots_kept_def row_def)
  obtain row' where row': "row' \<in> set (idempotency_keys t)" "ik_key row' = header" "ik_scope row' = ?scope"
      "ik_expires_at row' = clock s + ?ttl"
      "ik_response row' = (case merge_response tried of Inr r \<Rightarrow> Some r | Inl e \<Rightarrow> None)" "wf_slots t"
    using settled_slot(1,2) [OF row2 assms(3), unfolded row, folded first(2)] by blast
  have "row' \<in> set (idempotency_keys u)" "wf_slots u"
    using kepttu row' live(2) by (simp_all add: slots_kept_def row)
  from claim_again [OF this(2,1), of ?ttl] row' live(2) row(4)
  have again: "fst (claimRouteIdempotencyKey header ?scope ?ttl u) =
     Inr (case merge_response tried of Inr r \<Rightarrow> RouteFulfilled r | Inl e \<Rightarrow> RouteInProgress)"
    by (simp split: sum.splits)
  show ?thesis
    using assms(8,9) again first(1)
    by (cases "merge_response tried") (auto simp: mergeIfReadyRoute_def Let_def header_def split: if_splits prod.splits)
qed

definition merge_store :: store where
  "merge_store = open_gate_store FE_MERGE_READY
     \<lparr>idempotency_keys := [used_slot ''i1'' ''k:merge-ready'' ''merge-if-ready'',
       used_slot ''i2'' ''k:record-merged'' ''record-merged'']\<rparr>"

definition sample_merge_request :: merge_request where
  "sample_merge_request =
     \<lparr>mb_featureRunId = Some ''r1'', mb_projectId = Some ''p1'', mb_mergeMethod = None, mb_idempotencyKey = Some ''k'',
      mb_actor = env_actor (sample_envelope APPROVER Human ''k'' ())\<rparr>"

lemma dispatch_replayed:
  assumes "assertRole act (requiredRole h) (commandName h) (requiredActorKind h) = Inr ()"
    "checkIdempotencyKey key (idempotencyScope h) s = Some res"
  shows "dispatchR h key pay act corr s = (Inr res, s\<lparr>draws := draws s + 1\<rparr>)"
proof -
  have "checkIdempotencyKey key (idempotencyScope h) (s\<lparr>draws := n\<rparr>) = Some res" for n
    using assms(2) by (simp add: checkIdempotencyKey_def idempotency_slot_def)
  with assms(1) show ?thesis
    by (simp add: dispatchR_def execute_def command_envelope_def bindA_def queryA_def returnA_def transaction_def generateId_def)
qed

definition replayed_result :: command_result where
  "replayed_result = \<lparr>res_commandId = ''c0'', res_accepted = True, res_resultingState = ''selected'', res_emittedEventIds = []\<rparr>"

lemma sample_attempt:
  assumes "idempotency_keys s = idempotency_keys merge_store @ [row]" "ik_key row = ''k''" "clock s = 1000"
    "feature_runs s = feature_runs merge_store" "feature_requests s = feature_requests merge_store"
    "pull_requests s = pull_requests merge_store" "repositories s = repositories merge_store"
  shows "\<exists>calls. attempt_merge (\<lambda>_ _ _. Inr quiet_client) (api_keys ''k'') (mb_actor sample_merge_request) ''x'' ''r1'' ''p1'' ''squash'' s =
      ((Merged ''m'' replayed_result, calls), s\<lparr>draws := draws s + 2\<rparr>) \<and> length calls = 1"
proof -
  have run: "find_run ''r1'' ''p1'' (s\<lparr>draws := n\<rparr>) = Some (sample_run ''r1'' ''q1'' FE_MERGE_READY 0 4)" for n
    using assms by (simp add: merge_store_def open_gate_store_def run_simps)
  have tracked: "getPullRequestByFeatureRun ''r1'' s = Some sample_pull_request" "\<exists>repo. resolveRepository ''p1'' s = Some repo"
    using assms by (simp_all add: getPullRequestByFeatureRun_def resolveRepository_def merge_store_def open_gate_store_def sample_pull_request_def run_simps)
  then obtain repo where repo: "resolveRepository ''p1'' s = Some repo" by blast
  have replay: "dispatchR MergeIfReadyHandler ''k:merge-ready'' pay (mb_actor sample_merge_request) corr s
        = (Inr replayed_result, s\<lparr>draws := draws s + 1\<rparr>)" for pay corr
    by (rule dispatch_replayed)
      (simp_all add: assms MergeIfReadyHandler_def sample_merge_request_def assertRole_def meetsRole_def sample_envelope_def
        checkIdempotencyKey_def idempotency_slot_def merge_store_def used_slot_def replayed_result_def open_gate_store_def sample_store_def)
  have replay': "dispatchR RecordMergedHandler ''k:record-merged'' pay (taskSystemActor corr) corr (s\<lparr>draws := n\<rparr>)
        = (Inr replayed_result, s\<lparr>draws := n + 1\<rparr>)" for pay corr n
    using dispatch_replayed [of "taskSystemActor corr" RecordMergedHandler "''k:record-merged''" "s\<lparr>draws := n\<rparr>" replayed_result pay corr]
    by (simp add: assms RecordMergedHandler_def taskSystemActor_def assertRole_def meetsRole_def
        checkIdempotencyKey_def idempotency_slot_def merge_store_def used_slot_def replayed_result_def open_gate_store_def sample_store_def)
  show ?thesis
    using run [of "draws s"] run [of "draws s + 1"] tracked(1) repo replay replay'
    by (simp add: attempt_merge_def prepare_merge_def fetchFeatureRun_def bindR_def coreR_def returnR_def throwR_def queryA_def
        refused_reasons_def record_merge_def api_keys_def Let_def quiet_client_def sample_run_def)
qed

lemma sample_merge_run:
  "\<exists>res calls t. mergeIfReadyRoute (\<lambda>_ _ _. Inr quiet_client) sample_merge_request merge_store = ((merge_response (Merged ''m'' res), calls), t)
     \<and> route_outcome (\<lambda>_ _ _. Inr quiet_client) sample_merge_request merge_store = Some (Merged ''m'' res) \<and> length calls = 1
     \<and> clock t = 1000"
proof -
  let ?t = "claim_insert ''k'' ROUTE_IDEMPOTENCY_SCOPE ROUTE_IDEMPOTENCY_TTL_MS merge_store"
  have claim: "claimRouteIdempotencyKey ''k'' ROUTE_IDEMPOTENCY_SCOPE ROUTE_IDEMPOTENCY_TTL_MS merge_store =
      (Inr (RouteOwned (claim_id merge_store)), ?t)"
    by (simp add: claim_route_eq claim_sweep_def delete_where_def merge_store_def used_slot_def claim_id_def open_gate_store_def sample_store_def
        show_digits)
  have "idempotency_keys ?t = idempotency_keys merge_store @ [claim_row ''k'' ROUTE_IDEMPOTENCY_SCOPE ROUTE_IDEMPOTENCY_TTL_MS merge_store]"
    by (simp add: claim_insert_def claim_sweep_def delete_where_def merge_store_def used_slot_def claim_row_def)
  then obtain calls where tried: "attempt_merge (\<lambda>_ _ _. Inr quiet_client) (api_keys ''k'') (mb_actor sample_merge_request) ''x'' ''r1'' ''p1'' ''squash'' ?t =
      ((Merged ''m'' replayed_result, calls), ?t\<lparr>draws := draws ?t + 2\<rparr>)" "length calls = 1"
    using sample_attempt [of ?t "claim_row ''k'' ROUTE_IDEMPOTENCY_SCOPE ROUTE_IDEMPOTENCY_TTL_MS merge_store"]
    by (auto simp: claim_row_def claim_insert_def claim_sweep_def merge_store_def open_gate_store_def sample_store_def)
  have rq: "mb_featureRunId sample_merge_request = Some ''r1''" "mb_projectId sample_merge_request = Some ''p1''"
    "mb_mergeMethod sample_merge_request = None" "mb_idempotencyKey sample_merge_request = Some ''k''"
    "actor_correlationId (mb_actor sample_merge_request) = ''x''"
    by (simp_all add: sample_merge_request_def sample_envelope_def)
  have "trim ''k'' \<noteq> []" by code_simp
  with rq tried claim show ?thesis
    by (simp add: mergeIfReadyRoute_def route_outcome_def absent_def Let_def settle_claim_def merge_response_def fulfillRouteIdempotencyKey_def)
      (simp add: claim_insert_def claim_sweep_def merge_store_def open_gate_store_def sample_store_def)
qed

theorem merge_not_repeated_witness:
  "\<exists>first calls t. mergeIfReadyRoute (\<lambda>_ _ _. Inr quiet_client) sample_merge_request merge_store = ((first, calls), t)
     \<and> length calls = 1 \<and> snd (fst (mergeIfReadyRoute (\<lambda>_ _ _. Inr quiet_client) sample_merge_request t)) = []"
proof -
  obtain res calls t where run: "mergeIfReadyRoute (\<lambda>_ _ _. Inr quiet_client) sample_merge_request merge_store = ((merge_response (Merged ''m'' res), calls), t)"
    "route_outcome (\<lambda>_ _ _. Inr quiet_client) sample_merge_request merge_store = Some (Merged ''m'' res)" "length calls = 1" "clock t = 1000"
    using sample_merge_run by blast
  have "wf_slots merge_store" by (simp add: wf_slots_def merge_store_def used_slot_def open_gate_store_def run_simps)
  moreover obtain second calls' v where again: "mergeIfReadyRoute (\<lambda>_ _ _. Inr quiet_client) sample_merge_request t = ((second, calls'), v)"
    by (metis prod.collapse)
  ultimately have "calls' = []"
    using merge_not_repeated [OF run(1,2) _ _ rtranclp.rtrancl_refl _ _ refl again, of 0] run(4)
    by (simp add: before_merge_def merge_store_def open_gate_store_def sample_store_def ROUTE_IDEMPOTENCY_TTL_MS_def)
  with run again show ?thesis by auto
qed

theorem merge_call_justified_witness:
  "\<exists>tried calls t repo pr. attempt_merge (\<lambda>_ _ _. Inr quiet_client) (api_keys ''k'') (mb_actor sample_merge_request) ''x'' ''r1'' ''p1'' ''squash''
       (merge_store\<lparr>idempotency_keys := idempotency_keys merge_store @ [used_slot ''i3'' ''k'' ''r'']\<rparr>) = ((tried, calls), t)
     \<and> calls = [merge_call repo pr ''squash''] \<and> pr_number pr = 7"
proof -
  let ?s = "merge_store\<lparr>idempotency_keys := idempotency_keys merge_store @ [used_slot ''i3'' ''k'' ''r'']\<rparr>"
  obtain calls where run: "attempt_merge (\<lambda>_ _ _. Inr quiet_client) (api_keys ''k'') (mb_actor sample_merge_request) ''x'' ''r1'' ''p1'' ''squash'' ?s =
      ((Merged ''m'' replayed_result, calls), ?s\<lparr>draws := draws ?s + 2\<rparr>)" "length calls = 1"
    using sample_attempt [of ?s "used_slot ''i3'' ''k'' ''r''"]
    by (auto simp: used_slot_def merge_store_def open_gate_store_def sample_store_def)
  have "calls \<noteq> []" using run(2) by auto
  from merge_call_justified [OF run(1) this, of 0] obtain repo pr where
    "calls = [merge_call repo pr ''squash'']" "getPullRequestByFeatureRun ''r1'' ?s = Some pr" by blast
  moreover have "getPullRequestByFeatureRun ''r1'' ?s = Some sample_pull_request"
    by (simp add: getPullRequestByFeatureRun_def merge_store_def open_gate_store_def sample_pull_request_def)
  ultimately show ?thesis using run(1)
    by (intro exI [of _ "Merged ''m'' replayed_result"] exI [of _ calls] exI [of _ "?s\<lparr>draws := draws ?s + 2\<rparr>"] exI [of _ repo] exI [of _ pr])
      (auto simp: sample_pull_request_def)
qed

end
