(* ===== verification/ProjectFacts.thy ===== *)
theory ProjectFacts
  imports PlanningFacts Samples
begin

text \<open>
  The end of a project: its acceptance, and the guard under which the implementation is marked
  complete.
\<close>

section \<open>Acceptance\<close>

lemma all_exists_filter: "filter P xs = [] \<longleftrightarrow> \<not> list_ex P xs"
  by (auto simp: filter_empty_conv list_ex_iff)

lemma concat_map_empty: "concat (map f xs) = [] \<longleftrightarrow> (\<forall>x \<in> set xs. f x = [])"
  by auto

lemma non_terminal_none:
  "non_terminal_features p s = [] \<longleftrightarrow>
     \<not> list_ex (\<lambda>q. req_project_id q = p \<and> req_kind q = FEATURE
          \<and> (\<not> list_ex (\<lambda>r. run_feature_request_id r = req_id q) (feature_runs s)
             \<or> list_ex (\<lambda>r. run_feature_request_id r = req_id q \<and> \<not> terminal_execution (run_state r))
                  (feature_runs s)))
        (feature_requests s)"
  unfolding non_terminal_features_def concat_map_empty
  by (auto simp: project_requests_def runs_of_def list_ex_iff filter_empty_conv Let_def split: if_splits)

lemma check_passed [simp]: "ck_passed (check n k) = (k = 0)"
  by (simp add: check_def)

text \<open>
  C32. The guard in the UPDATE that marks the implementation complete is the same predicate as the
  evaluation of project acceptance before it, and both say: every feature has a run and all its runs
  are merged or skipped, nothing waits for a human, no blocking finding is open, no event is stuck
  and no export has failed. So, within one transaction, the guard never rejects what the evaluation
  passed.
\<close>

theorem acceptance_exact:
  "acc_passed (evaluateProjectAcceptance p s) = acceptance_guard p s
   \<and> (acceptance_guard p s =
       ((\<forall>q \<in> set (feature_requests s). req_project_id q = p \<and> req_kind q = FEATURE \<longrightarrow>
           (\<exists>r \<in> set (feature_runs s). run_feature_request_id r = req_id q)
           \<and> (\<forall>r \<in> set (feature_runs s). run_feature_request_id r = req_id q \<longrightarrow>
                run_state r = FE_MERGED \<or> run_state r = FE_SKIPPED))
        \<and> (\<forall>r \<in> set (feature_runs s). run_in_project p s r \<longrightarrow>
             run_state r \<noteq> FE_HUMAN_REQUIRED \<and> run_state r \<noteq> FE_BLOCKED)
        \<and> (\<forall>f \<in> set (review_findings s). \<forall>r \<in> set (feature_runs s).
             rf_feature_run_id f = run_id r \<and> run_in_project p s r \<longrightarrow>
             rf_severity f \<noteq> SEV_BLOCKING \<or> rf_resolved f)
        \<and> (\<forall>e \<in> set (outbox_events s). \<not> stuck e) \<and> (\<forall>e \<in> set (inbox_events s). \<not> stuck e)
        \<and> (\<forall>a \<in> set (artifact_exports (planning s)). ae_project_id a = p \<longrightarrow> ae_state a \<noteq> AE_FAILED)))"
proof
  have "open_escalations p s = [] \<longleftrightarrow> \<not> list_ex (\<lambda>r. run_in_project p s r
      \<and> (run_state r = FE_HUMAN_REQUIRED \<or> run_state r = FE_BLOCKED)) (feature_runs s)"
    by (auto simp: open_escalations_def project_runs_def filter_empty_conv list_ex_iff)
  moreover have "unresolved_blocking_findings p s = [] \<longleftrightarrow>
      \<not> list_ex (\<lambda>f. rf_severity f = SEV_BLOCKING \<and> \<not> rf_resolved f
             \<and> list_ex (\<lambda>r. run_id r = rf_feature_run_id f \<and> run_in_project p s r) (feature_runs s))
           (review_findings s)"
    by (auto simp: unresolved_blocking_findings_def project_runs_def filter_empty_conv list_ex_iff)
  moreover have "filter (\<lambda>a. ae_project_id a = p \<and> ae_state a = AE_FAILED) (artifact_exports (planning s)) = []
      \<longleftrightarrow> \<not> list_ex (\<lambda>a. ae_project_id a = p \<and> ae_state a = AE_FAILED) (artifact_exports (planning s))"
    by (rule all_exists_filter)
  ultimately show "acc_passed (evaluateProjectAcceptance p s) = acceptance_guard p s"
    unfolding acceptance_guard_def non_terminal_none [symmetric] all_exists_filter
    by (simp add: evaluateProjectAcceptance_def all_exists_filter failed_exports_def)
  show "acceptance_guard p s =
       ((\<forall>q \<in> set (feature_requests s). req_project_id q = p \<and> req_kind q = FEATURE \<longrightarrow>
           (\<exists>r \<in> set (feature_runs s). run_feature_request_id r = req_id q)
           \<and> (\<forall>r \<in> set (feature_runs s). run_feature_request_id r = req_id q \<longrightarrow>
                run_state r = FE_MERGED \<or> run_state r = FE_SKIPPED))
        \<and> (\<forall>r \<in> set (feature_runs s). run_in_project p s r \<longrightarrow>
             run_state r \<noteq> FE_HUMAN_REQUIRED \<and> run_state r \<noteq> FE_BLOCKED)
        \<and> (\<forall>f \<in> set (review_findings s). \<forall>r \<in> set (feature_runs s).
             rf_feature_run_id f = run_id r \<and> run_in_project p s r \<longrightarrow>
             rf_severity f \<noteq> SEV_BLOCKING \<or> rf_resolved f)
        \<and> (\<forall>e \<in> set (outbox_events s). \<not> stuck e) \<and> (\<forall>e \<in> set (inbox_events s). \<not> stuck e)
        \<and> (\<forall>a \<in> set (artifact_exports (planning s)). ae_project_id a = p \<longrightarrow> ae_state a \<noteq> AE_FAILED))"
    unfolding acceptance_guard_def list_ex_iff terminal_execution_def by fastforce
qed

text \<open>A project whose one feature is merged, and the same project with a run waiting for a human.\<close>

definition finished_store :: "FeatureExecutionState \<Rightarrow> store" where
  "finished_store st =
     (sample_store [sample_run ''r1'' ''q1'' st 0 4] (sample_ws None AU_RUNNING))
        \<lparr>feature_requests := [sample_request ''q1'' ''FR-1'' 1]\<rparr>"

theorem acceptance_exact_witness:
  "acc_passed (evaluateProjectAcceptance ''p1'' (finished_store FE_MERGED))
   \<and> \<not> acc_passed (evaluateProjectAcceptance ''p1'' (finished_store FE_BLOCKED))"
proof -
  have "acceptance_guard ''p1'' (finished_store FE_MERGED)"
    by (simp add: acceptance_guard_def finished_store_def terminal_execution_def run_simps)
  moreover have "\<not> acceptance_guard ''p1'' (finished_store FE_BLOCKED)"
    by (simp add: acceptance_guard_def finished_store_def terminal_execution_def run_simps)
  ultimately show ?thesis
    using acceptance_exact [of "''p1''" "finished_store FE_MERGED"] acceptance_exact [of "''p1''" "finished_store FE_BLOCKED"] by blast
qed

end
