(* ===== verification/Workspace.thy ===== *)
theory Workspace
  imports Adapters Backlog Forge "HOL-Library.Sublist"
begin

text \<open>
  The workspace of the coder adapter (\<open>packages/adapters-coder/src\<close>): \<open>diff-guard.ts\<close>, which decides
  which paths a generated change may touch and how large it may be, \<open>workspace.ts\<close>, the git commands
  of one run, and \<open>codex-coder-adapter.ts\<close>, which puts them in order. Git, the shell and the sandbox
  are a command runner over a state of its own, a parameter; so is the code generation. The
  patterns of the guard are written as predicates.
\<close>

section \<open>Paths\<close>

definition is_sep :: "char \<Rightarrow> bool" where
  "is_sep c = (c = CHR 0x2F \<or> c = CHR 0x5C)"

fun split_at :: "(char \<Rightarrow> bool) \<Rightarrow> string \<Rightarrow> string list" where
  "split_at sep [] = [[]]"
| "split_at sep (c # cs) =
     (if sep c then [] # split_at sep cs
      else (case split_at sep cs of [] \<Rightarrow> [[c]] | l # ls \<Rightarrow> (c # l) # ls))"

text \<open>The segments kept so far, last first; \<open>None\<close> when \<open>..\<close> would leave the root.\<close>

fun normalize_segments :: "string list \<Rightarrow> string list \<Rightarrow> string list option" where
  "normalize_segments acc [] = Some (rev acc)"
| "normalize_segments acc (seg # rest) =
     (if seg = '''' \<or> seg = ''.'' then normalize_segments acc rest
      else if seg = ''..'' then (case acc of [] \<Rightarrow> None | _ # kept \<Rightarrow> normalize_segments kept rest)
      else normalize_segments (seg # acc) rest)"

definition is_letter :: "char \<Rightarrow> bool" where
  "is_letter c = (let n = of_char c :: nat in (65 \<le> n \<and> n \<le> 90) \<or> (97 \<le> n \<and> n \<le> 122))"

definition is_absolute :: "string \<Rightarrow> bool" where
  "is_absolute path =
     (take 1 path = ''/''
      \<or> (case path of c # d # e # _ \<Rightarrow> is_letter c \<and> d = CHR 0x3A \<and> is_sep e | _ \<Rightarrow> False))"

text \<open>What follows the start of the path or a slash: where \<open>(^|\/)\<close> can match.\<close>

fun after_slash :: "string \<Rightarrow> string list" where
  "after_slash [] = []"
| "after_slash (c # cs) = (if c = CHR 0x2F then cs # after_slash cs else after_slash cs)"

definition path_starts :: "string \<Rightarrow> string list" where
  "path_starts path = path # after_slash path"

definition env_file :: "string \<Rightarrow> bool" where
  "env_file path =
     list_ex (\<lambda>p. case strip_prefix ''.env'' p of
                   None \<Rightarrow> False
                 | Some rest \<Rightarrow>
                     rest = '''' \<or> (take 1 rest = ''.'' \<and> drop 1 rest \<noteq> '''' \<and> list_all js_dot (drop 1 rest)))
       (path_starts path)"

definition DEFAULT_DISALLOWED_PATH_GLOBS :: "(string \<Rightarrow> bool) list" where
  "DEFAULT_DISALLOWED_PATH_GLOBS =
     [prefix ''.github/workflows/'', prefix ''.git/'', env_file, \<lambda>path. list_ex (prefix ''secrets/'') (path_starts path)]"

definition validateRelativePath :: "(string \<Rightarrow> bool) list \<Rightarrow> string \<Rightarrow> string option" where
  "validateRelativePath disallowed path =
     (if path = '''' then None
      else if is_absolute path then None
      else if CHR 0x00 \<in> set path then None
      else
        (case normalize_segments [] (split_at is_sep path) of
           None \<Rightarrow> None
         | Some normalized \<Rightarrow>
             if normalized = [] then None
             else
               let normalizedPath = js_join ''/'' normalized in
               if list_ex (\<lambda>pattern. pattern normalizedPath) disallowed then None else Some normalizedPath))"

section \<open>The bounds of a diff\<close>

record changed_file =
  cf_path :: string
  cf_bytesChanged :: int

record diff_guard_options =
  dg_maxFiles :: "int option"
  dg_maxBytes :: "int option"
  dg_disallowed :: "((string \<Rightarrow> bool) list) option"

definition DEFAULT_MAX_FILES :: int where
  "DEFAULT_MAX_FILES = 50"

definition DEFAULT_MAX_BYTES :: int where
  "DEFAULT_MAX_BYTES = 500000"

definition max_files :: "diff_guard_options \<Rightarrow> int" where
  "max_files opts = (case dg_maxFiles opts of None \<Rightarrow> DEFAULT_MAX_FILES | Some n \<Rightarrow> n)"

definition max_bytes :: "diff_guard_options \<Rightarrow> int" where
  "max_bytes opts = (case dg_maxBytes opts of None \<Rightarrow> DEFAULT_MAX_BYTES | Some n \<Rightarrow> n)"

definition guard_patterns :: "diff_guard_options \<Rightarrow> (string \<Rightarrow> bool) list" where
  "guard_patterns opts = (case dg_disallowed opts of None \<Rightarrow> DEFAULT_DISALLOWED_PATH_GLOBS | Some ps \<Rightarrow> ps)"

datatype workspace_error =
    DiffGuardViolationError string
  | CommandFailed string
  | RunnerFailed string

definition assertDiffWithinBounds :: "changed_file list \<Rightarrow> diff_guard_options \<Rightarrow> workspace_error + unit" where
  "assertDiffWithinBounds changedFiles opts =
     (let n = int (length changedFiles); totalBytes = sum_list (map cf_bytesChanged changedFiles) in
      if changedFiles = [] then Inl (DiffGuardViolationError ''coder run produced no file changes'')
      else if n > max_files opts
      then Inl (DiffGuardViolationError (''diff touches '' @ show_int n @ '' files, exceeding the max of ''
                  @ show_int (max_files opts)))
      else if totalBytes > max_bytes opts
      then Inl (DiffGuardViolationError (''diff changes '' @ show_int totalBytes @ '' bytes, exceeding the max of ''
                  @ show_int (max_bytes opts)))
      else
        (case first_row (filter (\<lambda>f. list_ex (\<lambda>pattern. pattern (cf_path f)) (guard_patterns opts)) changedFiles) of
           Some f \<Rightarrow> Inl (DiffGuardViolationError (''diff touches a disallowed path: '' @ cf_path f))
         | None \<Rightarrow> Inr ()))"

section \<open>Commands\<close>

record command_output =
  co_stdout :: string
  co_stderr :: string
  co_exitCode :: int

type_synonym 'w runner = "string \<Rightarrow> string list \<Rightarrow> string \<Rightarrow> 'w \<Rightarrow> (string + command_output) \<times> 'w"

type_synonym ('w, 'a) work = "'w \<Rightarrow> (workspace_error + 'a) \<times> 'w"

definition returnW :: "'a \<Rightarrow> ('w, 'a) work" where
  "returnW a = (\<lambda>w. (Inr a, w))"

definition throwW :: "workspace_error \<Rightarrow> ('w, 'a) work" where
  "throwW e = (\<lambda>w. (Inl e, w))"

definition bindW :: "('w, 'a) work \<Rightarrow> ('a \<Rightarrow> ('w, 'b) work) \<Rightarrow> ('w, 'b) work" where
  "bindW m k = (\<lambda>w. case m w of (Inl e, v) \<Rightarrow> (Inl e, v) | (Inr a, v) \<Rightarrow> k a v)"

text \<open>\<open>text.replace(/:\/\/[^/\s@]+@/g, '://***@')\<close>.\<close>

function redactUrlCredentials :: "string \<Rightarrow> string" where
  "redactUrlCredentials s =
     (case s of
        [] \<Rightarrow> []
      | c # cs \<Rightarrow>
          (case strip_prefix ''://'' s of
             None \<Rightarrow> c # redactUrlCredentials cs
           | Some rest \<Rightarrow>
               let userinfo = takeWhile (\<lambda>d. d \<noteq> CHR 0x2F \<and> d \<noteq> CHR 0x40 \<and> \<not> js_space d) rest;
                   after = drop (length userinfo) rest in
               if userinfo \<noteq> [] \<and> take 1 after = ''@''
               then ''://***@'' @ redactUrlCredentials (drop 1 after)
               else c # redactUrlCredentials cs))"
  by pat_completeness auto
termination
  by (relation "measure length") (auto simp: strip_prefix_def Let_def split: if_splits)

definition runW :: "'w runner \<Rightarrow> string \<Rightarrow> string \<Rightarrow> string list \<Rightarrow> ('w, string) work" where
  "runW runner cwd cmd args =
     (\<lambda>w. case runner cmd args cwd w of
        (Inl e, v) \<Rightarrow> (Inl (RunnerFailed e), v)
      | (Inr out, v) \<Rightarrow>
          if co_exitCode out \<noteq> 0
          then (Inl (CommandFailed (redactUrlCredentials
                  (cmd @ '' '' @ js_join '' '' args @ '' failed (exit '' @ show_int (co_exitCode out) @ ''): ''
                     @ co_stderr out))), v)
          else (Inr (trim (co_stdout out)), v))"

definition git :: "'w runner \<Rightarrow> string \<Rightarrow> string list \<Rightarrow> ('w, string) work" where
  "git runner cwd args = runW runner cwd ''git'' args"

text \<open>The content goes to the shell as base64, a parameter.\<close>

definition write_script :: string where
  "write_script =
     ''set -e; mkdir -p '' @ [CHR 0x22] @ ''$(dirname '' @ [CHR 0x22] @ ''$1'' @ [CHR 0x22] @ '')'' @ [CHR 0x22]
       @ ''; printf %s '' @ [CHR 0x22] @ ''$2'' @ [CHR 0x22] @ '' | base64 -d > '' @ [CHR 0x22] @ ''$1'' @ [CHR 0x22]"

definition writeFile :: "(string \<Rightarrow> string) \<Rightarrow> 'w runner \<Rightarrow> string \<Rightarrow> string \<Rightarrow> string \<Rightarrow> ('w, unit) work" where
  "writeFile base64 runner cwd relativePath content =
     (\<lambda>w. case runner ''sh'' [''-c'', write_script, ''_'', relativePath, base64 content] cwd w of
        (Inl e, v) \<Rightarrow> (Inl (RunnerFailed e), v)
      | (Inr out, v) \<Rightarrow>
          if co_exitCode out \<noteq> 0
          then (Inl (CommandFailed (''writing '' @ relativePath @ '' failed (exit '' @ show_int (co_exitCode out)
                  @ ''): '' @ co_stderr out)), v)
          else (Inr (), v))"

section \<open>The branch of a run\<close>

definition FEATURE_RUN_TRAILER :: string where
  "FEATURE_RUN_TRAILER = ''MiniCoder-Feature-Run''"

definition contains_text :: "string \<Rightarrow> string \<Rightarrow> bool" where
  "contains_text hay needle = list_ex (prefix needle) (suffixes hay)"

text \<open>\<open>remote\<close> is the repository's URL with the credential in it, as \<open>authenticatedRemote\<close> writes it.\<close>

record 'w workspace_options =
  wo_workspaceDir :: string
  wo_remote :: string
  wo_featureRunId :: string
  wo_runner :: "'w runner"
  wo_diffGuard :: diff_guard_options

definition prepareBranch :: "'w workspace_options \<Rightarrow> ('w, string) work" where
  "prepareBranch opts =
     (let runner = wo_runner opts; branch = branchNameFor (wo_featureRunId opts);
          repoDirAbs = wo_workspaceDir opts @ ''/repo'' in
      bindW (git runner (wo_workspaceDir opts)
               [''clone'', ''--depth'', ''1'', ''--no-single-branch'', wo_remote opts, ''repo'']) (\<lambda>_.
      bindW (git runner repoDirAbs [''config'', ''user.name'', ''MiniCoder'']) (\<lambda>_.
      bindW (git runner repoDirAbs [''config'', ''user.email'', ''coder-adapter@minicoder.invalid'']) (\<lambda>_.
      bindW (git runner repoDirAbs [''branch'', ''-r'']) (\<lambda>remoteBranches.
      bindW (if contains_text remoteBranches (''origin/'' @ branch)
             then git runner repoDirAbs [''checkout'', ''-B'', branch, ''origin/'' @ branch]
             else git runner repoDirAbs [''checkout'', ''-b'', branch]) (\<lambda>_.
      returnW repoDirAbs))))))"

definition DEFAULT_MAX_CONTEXT_FILES :: nat where
  "DEFAULT_MAX_CONTEXT_FILES = 200"

definition is_newline :: "char \<Rightarrow> bool" where
  "is_newline c = (c = CHR 0x0A)"

definition listRepoFiles :: "'w runner \<Rightarrow> string \<Rightarrow> ('w, string list) work" where
  "listRepoFiles runner repoDir =
     bindW (git runner repoDir [''ls-files'']) (\<lambda>out.
     returnW (if out = '''' then []
              else take DEFAULT_MAX_CONTEXT_FILES (filter (\<lambda>l. l \<noteq> '''') (split_at is_newline out))))"

text \<open>The first line of the log is the commit; the rest is its message.\<close>

definition findExistingRunCommit :: "'w runner \<Rightarrow> string \<Rightarrow> string \<Rightarrow> ('w, string option) work" where
  "findExistingRunCommit runner repoDir featureRunId =
     bindW (git runner repoDir [''log'', ''-1'', ''--format=%H%n%B'']) (\<lambda>log.
     let sha = takeWhile (\<lambda>c. \<not> is_newline c) log; body = drop (Suc (length sha)) log in
     returnW (if sha \<noteq> '''' \<and> contains_text body (FEATURE_RUN_TRAILER @ '': '' @ featureRunId) then Some sha else None))"

record generated_file =
  gf_path :: string
  gf_content :: string

record push_result =
  ps_commitSha :: string
  ps_branchName :: string
  ps_filesChanged :: int
  ps_reusedExistingCommit :: bool

fun writeFiles ::
    "(string \<Rightarrow> string) \<Rightarrow> 'w workspace_options \<Rightarrow> string \<Rightarrow> generated_file list \<Rightarrow> changed_file list
      \<Rightarrow> ('w, changed_file list) work" where
  "writeFiles base64 opts repoDir [] changed = returnW changed"
| "writeFiles base64 opts repoDir (f # fs) changed =
     (case validateRelativePath (guard_patterns (wo_diffGuard opts)) (gf_path f) of
        None \<Rightarrow> throwW (DiffGuardViolationError (''diff touches a disallowed or unsafe path: '' @ gf_path f))
      | Some safePath \<Rightarrow>
          bindW (writeFile base64 (wo_runner opts) repoDir safePath (gf_content f)) (\<lambda>_.
          writeFiles base64 opts repoDir fs
            (changed @ [\<lparr>cf_path = safePath, cf_bytesChanged = int (length (gf_content f))\<rparr>])))"

definition commitAndPush ::
    "(string \<Rightarrow> string) \<Rightarrow> 'w workspace_options \<Rightarrow> string \<Rightarrow> generated_file list \<Rightarrow> string
      \<Rightarrow> ('w, push_result) work" where
  "commitAndPush base64 opts repoDir files featureTitle =
     (let runner = wo_runner opts; featureRunId = wo_featureRunId opts; branch = branchNameFor featureRunId in
      bindW (findExistingRunCommit runner repoDir featureRunId) (\<lambda>existing.
      case existing of
        Some sha \<Rightarrow>
          returnW \<lparr>ps_commitSha = sha, ps_branchName = branch, ps_filesChanged = int (length files),
                   ps_reusedExistingCommit = True\<rparr>
      | None \<Rightarrow>
          bindW (writeFiles base64 opts repoDir files []) (\<lambda>changedFiles.
          bindW (case assertDiffWithinBounds changedFiles (wo_diffGuard opts) of
                   Inl e \<Rightarrow> throwW e | Inr _ \<Rightarrow> returnW ()) (\<lambda>_.
          bindW (git runner repoDir [''add'', ''-A'']) (\<lambda>_.
          bindW (git runner repoDir
                   [''commit'', ''-m'', featureRunId @ '': '' @ featureTitle @ [CHR 0x0A, CHR 0x0A]
                      @ FEATURE_RUN_TRAILER @ '': '' @ featureRunId]) (\<lambda>_.
          bindW (git runner repoDir [''rev-parse'', ''HEAD'']) (\<lambda>commitSha.
          bindW (git runner repoDir [''push'', ''origin'', ''HEAD:'' @ branch]) (\<lambda>_.
          returnW \<lparr>ps_commitSha = commitSha, ps_branchName = branch, ps_filesChanged = int (length changedFiles),
                   ps_reusedExistingCommit = False\<rparr>))))))))"

section \<open>The adapter\<close>

text \<open>The open findings of a fix cycle are part of the input; the Codex adapter reads them nowhere.\<close>

record coder_input =
  ci_projectId :: string
  ci_featureRunId :: string
  ci_featureTitle :: string
  ci_acceptanceCriteria :: "string list"
  ci_correlationId :: string
  ci_openFindings :: "(string \<times> string) list option"

record generation_result =
  gn_files :: "generated_file list"
  gn_tokensUsed :: "(int \<times> int) option"

record coder_output =
  cu_commitSha :: string
  cu_branchName :: string
  cu_filesChanged :: int
  cu_tokensUsed :: "(int \<times> int) option"

text \<open>
  A run of the adapter: the sandbox is started, the branch prepared, the files listed for the
  provider, the change generated outside the sandbox and committed inside it; the sandbox is removed
  whatever happened, and an error of the removal replaces the outcome. The generator is asked with
  the title, the criteria and the listing, to which the code adds the repository's URL and branch.
\<close>

fun workspace_message :: "workspace_error \<Rightarrow> string" where
  "workspace_message (DiffGuardViolationError m) = m"
| "workspace_message (CommandFailed m) = m"
| "workspace_message (RunnerFailed m) = m"

definition push_error :: "workspace_error \<Rightarrow> error" where
  "push_error e =
     (case e of
        DiffGuardViolationError m \<Rightarrow> AdapterRunError ERR_INVALID_OUTPUT m
      | _ \<Rightarrow> OtherError (workspace_message e))"

record 'w coder_adapter =
  ca_start :: "('w, unit) work"
  ca_remove :: "('w, unit) work"
  ca_generate :: "string \<Rightarrow> string list \<Rightarrow> string list \<Rightarrow> 'w \<Rightarrow> (string + generation_result) \<times> 'w"
  ca_base64 :: "string \<Rightarrow> string"

definition codex_work ::
    "'w coder_adapter \<Rightarrow> 'w workspace_options \<Rightarrow> coder_input \<Rightarrow> 'w \<Rightarrow> (error + coder_output) \<times> 'w" where
  "codex_work adapter opts input w =
     (case prepareBranch opts w of
        (Inl e, w1) \<Rightarrow> (Inl (OtherError (workspace_message e)), w1)
      | (Inr repoDir, w1) \<Rightarrow>
          (case listRepoFiles (wo_runner opts) repoDir w1 of
             (Inl e, w2) \<Rightarrow> (Inl (OtherError (workspace_message e)), w2)
           | (Inr listing, w2) \<Rightarrow>
               (case ca_generate adapter (ci_featureTitle input) (ci_acceptanceCriteria input) listing w2 of
                  (Inl m, w3) \<Rightarrow> (Inl (AdapterRunError ERR_PROVIDER_UNAVAILABLE (''code generation failed: '' @ m)), w3)
                | (Inr generation, w3) \<Rightarrow>
                    (case commitAndPush (ca_base64 adapter) opts repoDir (gn_files generation) (ci_featureTitle input) w3 of
                       (Inl e, w4) \<Rightarrow> (Inl (push_error e), w4)
                     | (Inr push, w4) \<Rightarrow>
                         (Inr \<lparr>cu_commitSha = ps_commitSha push, cu_branchName = ps_branchName push,
                               cu_filesChanged = ps_filesChanged push, cu_tokensUsed = gn_tokensUsed generation\<rparr>, w4)))))"

definition codex_run ::
    "'w coder_adapter \<Rightarrow> 'w workspace_options \<Rightarrow> coder_input \<Rightarrow> 'w \<Rightarrow> (error + coder_output) \<times> 'w" where
  "codex_run adapter opts input w =
     (case ca_start adapter w of
        (Inl e, w1) \<Rightarrow> (Inl (OtherError (workspace_message e)), w1)
      | (Inr _, w1) \<Rightarrow>
          (case codex_work adapter opts input w1 of
             (res, w2) \<Rightarrow>
               (case ca_remove adapter w2 of
                  (Inl e, w3) \<Rightarrow> (Inl (OtherError (workspace_message e)), w3)
                | (Inr _, w3) \<Rightarrow> (res, w3))))"

end
