(* ===== verification/RunCoder.thy ===== *)
theory RunCoder
  imports Tasks Workspace
begin

text \<open>
  \<open>run-coder.ts\<close>: one run of the coder adapter for a feature run at \<open>coding\<close> or \<open>fixing\<close>, recorded
  through \<open>AgentRunRecorder\<close>, the push recorded under the execution lane, and a pull request opened.
  The adapter is a parameter, a function of its input and the moment; so is the reading of a number
  from an environment variable (\<open>Number(text)\<close>, \<open>None\<close> when it is not finite).
\<close>

section \<open>Configuration\<close>

definition buildCoderCloneUrl :: "string \<Rightarrow> string option \<Rightarrow> string \<Rightarrow> string \<Rightarrow> error + string" where
  "buildCoderCloneUrl provider baseUrl owner name =
     (if provider = ''github'' then Inr (''https://github.com/'' @ owner @ ''/'' @ name @ ''.git'')
      else if provider = ''gitlab'' \<or> provider = ''gitea''
      then
        (case baseUrl of
           Some url \<Rightarrow>
             if url \<noteq> ''''
             then Inr (rev (dropWhile (\<lambda>c. c = CHR 0x2F) (rev url)) @ ''/'' @ owner @ ''/'' @ name @ ''.git'')
             else Inl (OtherError (''run-coder: a '' @ provider
                    @ ''-provider repository has no base_url recorded; cannot build a clone URL''))
         | None \<Rightarrow> Inl (OtherError (''run-coder: a '' @ provider
                    @ ''-provider repository has no base_url recorded; cannot build a clone URL'')))
      else Inl (OtherError (''run-coder: unknown SCM provider '' @ Redaction.quoted provider
             @ '' - cannot build a clone URL'')))"

definition git_remote_username :: "string \<Rightarrow> string option" where
  "git_remote_username provider =
     map_of [(''github'', ''x-access-token''), (''gitlab'', ''oauth2''), (''gitea'', ''token'')] provider"

definition git_token_env_var :: "string \<Rightarrow> string option" where
  "git_token_env_var provider =
     map_of [(''github'', ''GITHUB_TOKEN''), (''gitlab'', ''GITLAB_TOKEN''), (''gitea'', ''GITEA_TOKEN'')] provider"

definition resolvePromptTemplateVersion :: "store \<Rightarrow> string" where
  "resolvePromptTemplateVersion s =
     (case env_vars s ''CODER_PROMPT_TEMPLATE_VERSION'' of
        None \<Rightarrow> ''coder-v1''
      | Some raw \<Rightarrow> if trim raw \<noteq> '''' then trim raw else ''coder-v1'')"

definition parsePriceEnvVar :: "(string \<Rightarrow> rat option) \<Rightarrow> string \<Rightarrow> rat \<Rightarrow> store \<Rightarrow> rat" where
  "parsePriceEnvVar to_number envVarName fallback s =
     (case env_vars s envVarName of
        None \<Rightarrow> fallback
      | Some raw \<Rightarrow>
          if trim raw = '''' then fallback
          else (case to_number (trim raw) of
                  None \<Rightarrow> fallback | Some x \<Rightarrow> if x < 0 then fallback else x))"

definition computeCostUsd :: "(string \<Rightarrow> rat option) \<Rightarrow> int \<Rightarrow> int \<Rightarrow> store \<Rightarrow> rat" where
  "computeCostUsd to_number inputTokens outputTokens s =
     of_int inputTokens / 1000 * parsePriceEnvVar to_number ''CODE_GEN_PRICE_PER_1K_INPUT_TOKENS'' (15 / 100000) s
     + of_int outputTokens / 1000 * parsePriceEnvVar to_number ''CODE_GEN_PRICE_PER_1K_OUTPUT_TOKENS'' (6 / 10000) s"

text \<open>\<open>resolveEstimatedCostUsd\<close> of \<open>budget-preflight.ts\<close>: unset, blank or unusable is no estimate.\<close>

definition resolveEstimatedCostUsd :: "(string \<Rightarrow> rat option) \<Rightarrow> string \<Rightarrow> store \<Rightarrow> rat option" where
  "resolveEstimatedCostUsd to_number envVarName s =
     (case env_vars s envVarName of
        None \<Rightarrow> None
      | Some raw \<Rightarrow>
          if trim raw = '''' then None
          else (case to_number (trim raw) of None \<Rightarrow> None | Some x \<Rightarrow> if x < 0 then None else Some x))"

section \<open>The task\<close>

record run_coder_payload =
  rc_projectId :: string
  rc_featureRunId :: string
  rc_correlationId :: string
  rc_coderAdapterName :: string

record run_coder_result =
  rd_pushed :: bool
  rd_prNumber :: "int option"

definition run_coder_expected :: "string list" where
  "run_coder_expected = [''concurrent-command'', ''not-found'']"

definition criteria_of :: "string \<Rightarrow> store \<Rightarrow> string list" where
  "criteria_of requestId s =
     map ac_description (order_by (\<lambda>a b. ac_order_index a < ac_order_index b)
       (filter (\<lambda>a. ac_feature_request_id a = requestId) (acceptance_criteria (planning s))))"

definition request_by_id :: "string \<Rightarrow> store \<Rightarrow> feature_request_row option" where
  "request_by_id i s = first_row (filter (\<lambda>q. req_id q = i) (feature_requests s))"

definition open_findings :: "string \<Rightarrow> store \<Rightarrow> (string \<times> string) list" where
  "open_findings featureRunId s =
     map (\<lambda>f. (rf_id f, rf_description f))
       (filter (\<lambda>f. rf_feature_run_id f = featureRunId \<and> \<not> rf_resolved f) (review_findings s))"

definition coder_input_json :: "coder_input \<Rightarrow> json" where
  "coder_input_json input =
     JObj ([(''projectId'', JStr (ci_projectId input)), (''featureRunId'', JStr (ci_featureRunId input)),
            (''featureTitle'', JStr (ci_featureTitle input)),
            (''acceptanceCriteria'', JArr (map JStr (ci_acceptanceCriteria input))),
            (''correlationId'', JStr (ci_correlationId input))]
           @ (case ci_openFindings input of
                None \<Rightarrow> []
              | Some fs \<Rightarrow>
                  [(''openFindings'', JArr (map (\<lambda>(i, d). JObj [(''id'', JStr i), (''description'', JStr d)]) fs))]))"

definition coder_usage :: "(string \<Rightarrow> rat option) \<Rightarrow> store \<Rightarrow> coder_output run_outcome \<Rightarrow> error + cost_usage option" where
  "coder_usage to_number s tried =
     Inr (case tried of
            Failed e \<Rightarrow> None
          | Finished out \<Rightarrow>
              (case cu_tokensUsed out of
                 None \<Rightarrow> None
               | Some (input, output) \<Rightarrow>
                   Some \<lparr>us_inputTokens = Some input, us_outputTokens = Some output,
                         us_costUsd = Some (computeCostUsd to_number input output s),
                         us_provider = Some (case env_vars s ''CODE_GEN_PROVIDER_NAME'' of
                                               None \<Rightarrow> ''openai-compatible'' | Some n \<Rightarrow> n),
                         us_model = env_vars s ''CODE_GEN_MODEL''\<rparr>))"

text \<open>
  What the recorder is given. The output as stored and its tool operations are the adapter's; the
  \<open>message\<close> of an error is a parameter.
\<close>

record coder_recording =
  rk_to_number :: "string \<Rightarrow> rat option"
  rk_json :: "coder_output \<Rightarrow> json"
  rk_operations :: "coder_output \<Rightarrow> tool_operation list"
  rk_message :: "error \<Rightarrow> string"

definition coder_options ::
    "coder_recording \<Rightarrow> adapter_record \<Rightarrow> coder_input \<Rightarrow> string \<Rightarrow> store \<Rightarrow> coder_output run_options" where
  "coder_options rk adapter input requestId s =
     \<lparr>ro_adapterId = ad_id adapter, ro_role = ''CoderAgentAdapter'', ro_projectId = Some (ci_projectId input),
      ro_featureRunId = Some (ci_featureRunId input), ro_featureRequestId = Some requestId,
      ro_promptTemplateVersion = Some (resolvePromptTemplateVersion s), ro_input = coder_input_json input,
      ro_capabilitiesUsed = [''can_modify_files'', ''can_commit'', ''can_push_branch''],
      ro_contextPack = Some (coder_input_json input, None), ro_costExtractor = coder_usage (rk_to_number rk) s,
      ro_toolOperationsExtractor =
        (\<lambda>tried. Inr (case tried of Failed e \<Rightarrow> [] | Finished out \<Rightarrow> rk_operations rk out)),
      ro_json = rk_json rk, ro_message = rk_message rk\<rparr>"

text \<open>The findings the push answers: those open when a fix cycle began.\<close>

definition pushed_payload ::
    "run_coder_payload \<Rightarrow> int \<Rightarrow> coder_output \<Rightarrow> string \<Rightarrow> (string \<times> string) list \<Rightarrow> code_pushed_payload" where
  "pushed_payload p expectedVersion out agentRunId findings =
     \<lparr>p_featureRunId = rc_featureRunId p, p_projectId = rc_projectId p, p_expectedVersion = expectedVersion,
      cp_commitSha = cu_commitSha out, cp_branchName = cu_branchName out, cp_filesChanged = cu_filesChanged out,
      cp_coderRunId = (if findings \<noteq> [] then Some agentRunId else None),
      cp_resolvedFindingIds = (if findings \<noteq> [] then Some (map fst findings) else None)\<rparr>"

definition push_key :: "run_coder_payload \<Rightarrow> coder_output \<Rightarrow> string" where
  "push_key p out = ''record-code-pushed:'' @ rc_featureRunId p @ '':'' @ cu_commitSha out"

definition record_push ::
    "run_coder_payload \<Rightarrow> int \<Rightarrow> coder_output \<Rightarrow> string \<Rightarrow> (string \<times> string) list \<Rightarrow> acquired_lock
      \<Rightarrow> command_result db_action" where
  "record_push p runVersion out agentRunId findings lock =
     bindA (queryA (run_by_id (rc_featureRunId p))) (\<lambda>found.
     bindA (transaction generateId) (\<lambda>i.
     execute RecordCodePushedHandler
       \<lparr>commandId = i, idempotencyKey = push_key p out,
        payload = pushed_payload p (case found of None \<Rightarrow> runVersion | Some r \<Rightarrow> run_version r) out agentRunId findings,
        env_actor = taskSystemActor (rc_correlationId p), correlationId = rc_correlationId p,
        lockContext = Some (lock_context_of (rc_projectId p) lock)\<rparr>))"

text \<open>The pull request: a failure is logged, and its number is then unknown.\<close>

definition open_pull_request ::
    "(string \<Rightarrow> string option \<Rightarrow> store \<Rightarrow> error + scm_client) \<Rightarrow> repository_row \<Rightarrow> feature_request_row
      \<Rightarrow> coder_output \<Rightarrow> store \<Rightarrow> int option" where
  "open_pull_request resolveScmClient repo feature out s =
     (case resolveScmClient (repo_provider repo) (repo_base_url repo) s of
        Inl e \<Rightarrow> None
      | Inr client \<Rightarrow>
          (case scm_createPullRequest client (repo_owner repo) (repo_name repo) (cu_branchName out)
                  (repo_default_branch repo) (req_fr_id feature @ '': '' @ req_title feature) s of
             Inl e \<Rightarrow> None | Inr n \<Rightarrow> Some n))"

type_synonym coder = "coder_input \<Rightarrow> store \<Rightarrow> error + coder_output"

definition after_adapter ::
    "(string \<Rightarrow> string option \<Rightarrow> store \<Rightarrow> error + scm_client) \<Rightarrow> run_coder_payload \<Rightarrow> feature_run_row \<Rightarrow> repository_row
      \<Rightarrow> feature_request_row \<Rightarrow> (string \<times> string) list \<Rightarrow> string \<Rightarrow> coder_output \<Rightarrow> run_coder_result db_action" where
  "after_adapter resolveScmClient p run repo feature findings agentRunId out =
     bindA (attempt run_coder_expected
              (acquireForProject (rc_projectId p) ''run-coder-task'' EXECUTION_LANE_TTL_MS)) (\<lambda>acquired.
     case acquired of
       None \<Rightarrow> returnA \<lparr>rd_pushed = False, rd_prNumber = None\<rparr>
     | Some lock \<Rightarrow>
         bindA (finallyA (attempt run_coder_expected (record_push p (run_version run) out agentRunId findings lock))
                  (releaseForProject lock)) (\<lambda>recorded.
         if recorded = None then returnA \<lparr>rd_pushed = False, rd_prNumber = None\<rparr>
         else
           bindA (queryA (open_pull_request resolveScmClient repo feature out)) (\<lambda>prNumber.
           returnA \<lparr>rd_pushed = True, rd_prNumber = prNumber\<rparr>)))"

definition runCoder ::
    "coder_recording \<Rightarrow> (string \<Rightarrow> string \<Rightarrow> store \<Rightarrow> error + coder)
      \<Rightarrow> (string \<Rightarrow> string option \<Rightarrow> store \<Rightarrow> error + scm_client) \<Rightarrow> run_coder_payload \<Rightarrow> run_coder_result db_action" where
  "runCoder rk coderAdapterFactory resolveScmClient p =
     (let nothing = returnA \<lparr>rd_pushed = False, rd_prNumber = None\<rparr> in
      bindA (queryA (find_run (rc_featureRunId p) (rc_projectId p))) (\<lambda>found.
      case found of
        None \<Rightarrow> nothing
      | Some run \<Rightarrow>
      if run_state run \<noteq> FE_CODING \<and> run_state run \<noteq> FE_FIXING then nothing
      else
      bindA (queryA (request_by_id (run_feature_request_id run))) (\<lambda>featureRow.
      bindA (queryA (criteria_of (run_feature_request_id run))) (\<lambda>criteria.
      bindA (queryA (resolveRepository (rc_projectId p))) (\<lambda>repoRow.
      case (repoRow, featureRow) of
        (Some repo, Some feature) \<Rightarrow>
          bindA (liftA (buildCoderCloneUrl (repo_provider repo) (repo_base_url repo) (repo_owner repo) (repo_name repo))) (\<lambda>repoUrl.
          bindA (queryA (resolveEstimatedCostUsd (rk_to_number rk) ''CODE_GEN_ESTIMATED_COST_USD'')) (\<lambda>estimated.
          bindA (budgetPreflightCheck
                   \<lparr>bq_projectId = rc_projectId p, bq_featureRequestId = run_feature_request_id run, bq_scope = SCOPE_FEATURE,
                    bq_correlationId = rc_correlationId p, bq_estimatedCostUsd = estimated,
                    bq_featureRunId = rc_featureRunId p\<rparr>) (\<lambda>preflight.
          case preflight of
            HardBreach spend \<Rightarrow> nothing
          | Proceed \<Rightarrow>
              bindA (queryA (\<lambda>s. if run_state run = FE_FIXING then open_findings (rc_featureRunId p) s else [])) (\<lambda>findings.
              bindA (\<lambda>s. liftA (resolve_adapter ''CoderAgentAdapter'' (rc_coderAdapterName p) s) s) (\<lambda>adapterRecord.
              bindA (\<lambda>s. liftA (coderAdapterFactory repoUrl (repo_provider repo) s) s) (\<lambda>adapter.
              let input =
                \<lparr>ci_projectId = rc_projectId p, ci_featureRunId = rc_featureRunId p, ci_featureTitle = req_title feature,
                 ci_acceptanceCriteria = criteria, ci_correlationId = rc_correlationId p,
                 ci_openFindings = (if findings \<noteq> [] then Some findings else None)\<rparr> in
              bindA (\<lambda>s. record_run (coder_options rk adapterRecord input (run_feature_request_id run) s)
                            (\<lambda>t. (adapter input t, t)) s) (\<lambda>(agentRunId, out).
              after_adapter resolveScmClient p run repo feature findings agentRunId out)))))))
      | _ \<Rightarrow> nothing)))))"

end
