(* ===== verification/CoderFacts.thy ===== *)
theory CoderFacts
  imports RunCoder LockFrame QueueFacts
begin

text \<open>
  What a run of the coder can do to a repository: the paths it may write, the commands it runs before a
  push, and the fix cycle that finds its own earlier commit.
\<close>

section \<open>Paths\<close>

definition proper_segment :: "string \<Rightarrow> bool" where
  "proper_segment seg = (\<not> (seg = '''' \<or> seg = ''.'') \<and> seg \<noteq> ''..'')"

lemma split_segments:
  "seg \<in> set (split_at sep s) \<Longrightarrow> (\<forall>c \<in> set seg. \<not> sep c) \<and> set seg \<subseteq> set s"
proof (induction s arbitrary: seg)
  case (Cons c cs)
  show ?case
  proof (cases "sep c")
    case True
    with Cons show ?thesis by auto
  next
    case False
    show ?thesis
    proof (cases "split_at sep cs")
      case Nil
      with Cons.prems False show ?thesis by simp
    next
      case (Cons l ls)
      with Cons.prems False have "seg = c # l \<or> seg \<in> set ls" by simp
      moreover have "\<forall>k \<in> insert l (set ls). (\<forall>d \<in> set k. \<not> sep d) \<and> set k \<subseteq> set cs"
        using Cons.IH Cons by simp
      ultimately show ?thesis using False by (elim disjE) (simp_all add: subset_insertI2)
    qed
  qed
qed simp

lemma normalized_segments:
  assumes "normalize_segments acc segs = Some res" "\<forall>seg \<in> set acc. proper_segment seg"
  shows "\<forall>seg \<in> set res. proper_segment seg \<and> (seg \<in> set acc \<or> seg \<in> set segs)"
  using assms
proof (induction acc segs rule: normalize_segments.induct)
  case (2 acc seg rest)
  show ?case
  proof (cases "seg = '''' \<or> seg = ''.''")
    case True
    with "2.prems" "2.IH"(1) [OF True] show ?thesis by auto
  next
    case skip: False
    show ?thesis
    proof (cases "seg = ''..''")
      case True
      with "2.prems" skip obtain y kept where x: "acc = y # kept" by (cases acc) auto
      have "normalize_segments kept rest = Some res" using "2.prems"(1) skip True x by simp
      moreover have "\<forall>k \<in> set kept. proper_segment k" using "2.prems"(2) x by simp
      ultimately have "\<forall>k \<in> set res. proper_segment k \<and> (k \<in> set kept \<or> k \<in> set rest)"
        by (rule "2.IH"(2) [OF skip True x])
      then show ?thesis using x by auto
    next
      case False
      have "normalize_segments (seg # acc) rest = Some res" using "2.prems"(1) skip False by simp
      moreover have "\<forall>k \<in> set (seg # acc). proper_segment k" using "2.prems"(2) skip False by (simp add: proper_segment_def)
      ultimately have "\<forall>k \<in> set res. proper_segment k \<and> (k \<in> set (seg # acc) \<or> k \<in> set rest)"
        by (rule "2.IH"(3) [OF skip False])
      then show ?thesis by auto
    qed
  qed
qed auto

lemma join_chars: "c \<in> set (js_join sep xs) \<Longrightarrow> c \<in> set sep \<or> (\<exists>x \<in> set xs. c \<in> set x)"
  by (induction sep xs rule: js_join.induct) auto

text \<open>
  C28. A path the guard lets through stays inside the repository and off the protected files: what is
  written is a relative path of one or more proper segments, none of them empty, \<open>.\<close> or \<open>..\<close>, without a
  backslash or a NUL, and no disallowed pattern matches the path that is written, whatever the
  spelling of the path that was given.
\<close>

theorem validated_path_safe:
  assumes "validateRelativePath disallowed path = Some safe"
  shows "(\<exists>segs. segs \<noteq> [] \<and> safe = js_join ''/'' segs
       \<and> (\<forall>seg \<in> set segs. proper_segment seg \<and> (\<forall>c \<in> set seg. \<not> is_sep c) \<and> seg \<in> set (split_at is_sep path)))
     \<and> CHR 0x00 \<notin> set safe \<and> CHR 0x5C \<notin> set safe \<and> take 1 safe \<noteq> ''/'' \<and> (\<forall>pattern \<in> set disallowed. \<not> pattern safe)"
proof -
  obtain segs where segs: "normalize_segments [] (split_at is_sep path) = Some segs" "segs \<noteq> []" "safe = js_join ''/'' segs"
    and ok: "CHR 0x00 \<notin> set path" "\<forall>pattern \<in> set disallowed. \<not> pattern safe"
    using assms by (auto simp: validateRelativePath_def Let_def list_ex_iff split: if_splits option.splits)
  have clean: "\<forall>seg \<in> set segs. proper_segment seg \<and> (\<forall>c \<in> set seg. \<not> is_sep c) \<and> set seg \<subseteq> set path
      \<and> seg \<in> set (split_at is_sep path)"
    using normalized_segments [OF segs(1)] split_segments by fastforce
  have sep: "is_sep (CHR 0x2F)" "is_sep (CHR 0x5C)" by (simp_all add: is_sep_def)
  have "CHR 0x00 \<notin> set safe" "CHR 0x5C \<notin> set safe"
    using clean ok(1) sep join_chars [of _ "''/''" segs] segs(3) by fastforce+
  moreover have "take 1 safe \<noteq> ''/''"
  proof -
    obtain x xs where x: "segs = x # xs" using segs(2) by (cases segs) auto
    then have "x \<noteq> []" "\<forall>c \<in> set x. \<not> is_sep c" using clean by (auto simp: proper_segment_def)
    then obtain c cs where "x = c # cs" "\<not> is_sep c" by (cases x) auto
    then show ?thesis using segs(3) x sep by (cases xs) auto
  qed
  ultimately show ?thesis using segs clean ok by blast
qed

theorem validated_path_safe_witness:
  "validateRelativePath DEFAULT_DISALLOWED_PATH_GLOBS (''a/./b'' @ [CHR 0x5C] @ ''../c.ts'') = Some ''a/c.ts''
   \<and> validateRelativePath DEFAULT_DISALLOWED_PATH_GLOBS ''x/../.git/config'' = None
   \<and> \<not> env_file ''a/c.ts''"
proof -
  have v: "validateRelativePath DEFAULT_DISALLOWED_PATH_GLOBS (''a/./b'' @ [CHR 0x5C] @ ''../c.ts'') = Some ''a/c.ts''"
    "validateRelativePath DEFAULT_DISALLOWED_PATH_GLOBS ''x/../.git/config'' = None"
    by code_simp+
  with validated_path_safe [OF v(1)] show ?thesis by (simp add: DEFAULT_DISALLOWED_PATH_GLOBS_def)
qed

section \<open>The commands of a push\<close>

text \<open>A runner that only keeps the commands, and answers as it likes.\<close>

type_synonym command_log = "(string \<times> string list) list"

definition logged :: "(command_log \<Rightarrow> string \<Rightarrow> string list \<Rightarrow> string + command_output) \<Rightarrow> command_log runner" where
  "logged answer = (\<lambda>cmd args cwd seen. (answer seen cmd args, seen @ [(cmd, args)]))"

definition write_command :: "(string \<Rightarrow> string) \<Rightarrow> generated_file \<Rightarrow> string \<Rightarrow> string \<times> string list" where
  "write_command base64 f path = (''sh'', [''-c'', write_script, ''_'', path, base64 (gf_content f)])"

definition written_file :: "generated_file \<Rightarrow> string \<Rightarrow> changed_file" where
  "written_file f path = \<lparr>cf_path = path, cf_bytesChanged = int (length (gf_content f))\<rparr>"

lemma git_log:
  assumes "git (logged answer) cwd args seen = (r, seen')"
  shows "seen' = seen @ [(''git'', args)]"
  using assms by (auto simp: git_def runW_def logged_def split: sum.splits if_splits)

lemma write_log:
  assumes "writeFile base64 (logged answer) cwd path (gf_content f) seen = (r, seen')"
  shows "seen' = seen @ [write_command base64 f path]"
  using assms by (auto simp: writeFile_def logged_def write_command_def split: sum.splits if_splits)

lemma writeFiles_log:
  assumes "writeFiles base64 opts repoDir files changed seen = (r, seen')" "wo_runner opts = logged answer"
  shows "\<exists>cmds. seen' = seen @ cmds \<and> (\<forall>c \<in> set cmds. fst c = ''sh'')
     \<and> (\<forall>changed'. r = Inr changed' \<longrightarrow>
          (\<exists>paths. map (\<lambda>f. validateRelativePath (guard_patterns (wo_diffGuard opts)) (gf_path f)) files = map Some paths
             \<and> cmds = map2 (write_command base64) files paths \<and> changed' = changed @ map2 written_file files paths))"
  using assms(1)
proof (induction files arbitrary: changed seen)
  case (Cons f fs)
  show ?case
  proof (cases "validateRelativePath (guard_patterns (wo_diffGuard opts)) (gf_path f)")
    case None
    with Cons.prems show ?thesis by (auto simp: throwW_def)
  next
    case (Some path)
    obtain w seen1 where w: "writeFile base64 (wo_runner opts) repoDir path (gf_content f) seen = (w, seen1)" by fastforce
    have seen1: "seen1 = seen @ [write_command base64 f path]" using write_log w assms(2) by metis
    show ?thesis
    proof (cases w)
      case (Inl e)
      with Cons.prems Some w seen1 show ?thesis by (auto simp: bindW_def write_command_def)
    next
      case (Inr u)
      with Cons.prems Some w
      have "writeFiles base64 opts repoDir fs (changed @ [written_file f path]) seen1 = (r, seen')"
        by (auto simp: bindW_def written_file_def)
      from Cons.IH [OF this] obtain cmds where cmds: "seen' = seen1 @ cmds" "\<forall>c \<in> set cmds. fst c = ''sh''"
        "\<forall>changed'. r = Inr changed' \<longrightarrow>
          (\<exists>paths. map (\<lambda>f. validateRelativePath (guard_patterns (wo_diffGuard opts)) (gf_path f)) fs = map Some paths
             \<and> cmds = map2 (write_command base64) fs paths \<and> changed' = (changed @ [written_file f path]) @ map2 written_file fs paths)"
        by blast
      have "\<exists>paths'. map (\<lambda>f. validateRelativePath (guard_patterns (wo_diffGuard opts)) (gf_path f)) (f # fs) = map Some paths'
             \<and> write_command base64 f path # cmds = map2 (write_command base64) (f # fs) paths'
             \<and> changed' = changed @ map2 written_file (f # fs) paths'" if r: "r = Inr changed'" for changed'
      proof -
        obtain paths where "map (\<lambda>f. validateRelativePath (guard_patterns (wo_diffGuard opts)) (gf_path f)) fs = map Some paths"
          "cmds = map2 (write_command base64) fs paths" "changed' = (changed @ [written_file f path]) @ map2 written_file fs paths"
          using cmds(3) r by blast
        with Some show ?thesis by (intro exI [of _ "path # paths"]) simp
      qed
      with cmds seen1 show ?thesis
        by (intro exI [of _ "write_command base64 f path # cmds"]) (auto simp: write_command_def)
    qed
  qed
qed (auto simp: returnW_def)

definition is_push :: "string \<times> string list \<Rightarrow> bool" where
  "is_push c = (fst c = ''git'' \<and> take 1 (snd c) = [''push''])"

definition push_commands :: "string \<Rightarrow> string \<Rightarrow> (string \<times> string list) list" where
  "push_commands featureRunId title =
     [(''git'', [''add'', ''-A'']),
      (''git'', [''commit'', ''-m'', featureRunId @ '': '' @ title @ [CHR 0x0A, CHR 0x0A] @ FEATURE_RUN_TRAILER @ '': '' @ featureRunId]),
      (''git'', [''rev-parse'', ''HEAD'']), (''git'', [''push'', ''origin'', ''HEAD:'' @ branchNameFor featureRunId])]"

lemma bindW_git:
  assumes "bindW (git (logged answer) cwd args) k seen = (r, seen')"
  obtains "seen' = seen @ [(''git'', args)]" | out where "k out (seen @ [(''git'', args)]) = (r, seen')"
proof -
  obtain g seen1 where g: "git (logged answer) cwd args seen = (g, seen1)" by fastforce
  with git_log have "seen1 = seen @ [(''git'', args)]" by metis
  with assms g that show thesis by (cases g) (auto simp: bindW_def)
qed

lemma not_push [simp]:
  "\<not> is_push (''git'', [''add'', x])" "\<not> is_push (''git'', [''commit'', y, x])" "\<not> is_push (''git'', [''rev-parse'', x])"
  "\<not> is_push (''git'', [''log'', y, x])" "is_push (''git'', [''push'', y, x])"
  by (simp_all add: is_push_def)

text \<open>
  C27. Nothing is pushed that the guard has not passed. If, whatever git and the shell answer, a push
  is among the commands of an attempt, then every generated path was let through and is written under its
  normalized name, the change has at least one file and is within both bounds, and the commands are,
  in order: the reading of the last commit, one write per file, add, commit, rev-parse, and one push, without
  force, to the branch of the run.
\<close>

theorem push_is_guarded:
  assumes "commitAndPush base64 opts repoDir files title seen = (r, seen')" "wo_runner opts = logged answer"
    "c \<in> set (drop (length seen) seen')" "is_push c"
  shows "\<exists>paths. map (\<lambda>f. validateRelativePath (guard_patterns (wo_diffGuard opts)) (gf_path f)) files = map Some paths
     \<and> seen' = seen @ [(''git'', [''log'', ''-1'', ''--format=%H%n%B''])] @ map2 (write_command base64) files paths
         @ push_commands (wo_featureRunId opts) title
     \<and> files \<noteq> [] \<and> int (length files) \<le> max_files (wo_diffGuard opts)
     \<and> sum_list (map (\<lambda>f. int (length (gf_content f))) files) \<le> max_bytes (wo_diffGuard opts)"
proof -
  let ?seen1 = "seen @ [(''git'', [''log'', ''-1'', ''--format=%H%n%B''])]"
  have found: "findExistingRunCommit (wo_runner opts) repoDir (wo_featureRunId opts) seen = (x, seen1) \<Longrightarrow> seen1 = ?seen1" for x seen1
    unfolding findExistingRunCommit_def assms(2) by (erule bindW_git) (auto simp: returnW_def Let_def)
  obtain x where x: "findExistingRunCommit (wo_runner opts) repoDir (wo_featureRunId opts) seen = (x, ?seen1)"
    using found by (metis surj_pair)
  obtain w seen2 where w: "writeFiles base64 opts repoDir files [] ?seen1 = (w, seen2)" by fastforce
  from writeFiles_log [OF w assms(2)] obtain cmds where cmds: "seen2 = ?seen1 @ cmds" "\<forall>c \<in> set cmds. fst c = ''sh''"
    "\<forall>changed'. w = Inr changed' \<longrightarrow>
          (\<exists>paths. map (\<lambda>f. validateRelativePath (guard_patterns (wo_diffGuard opts)) (gf_path f)) files = map Some paths
             \<and> cmds = map2 (write_command base64) files paths \<and> changed' = map2 written_file files paths)"
    by auto
  have quiet: "\<not> is_push d" if "d \<in> set cmds" for d using cmds(2) that by (auto simp: is_push_def)
  have c: "c \<notin> set cmds" using quiet assms(4) by blast
  have "x = Inr None"
    using assms(1,3,4) x by (auto simp: commitAndPush_def Let_def bindW_def returnW_def split: sum.splits option.splits)
  moreover obtain changed where changed: "w = Inr changed" "assertDiffWithinBounds changed (wo_diffGuard opts) = Inr ()"
    using assms(1,3,4) x w cmds(1) c \<open>x = Inr None\<close>
    by (auto simp: commitAndPush_def Let_def bindW_def returnW_def throwW_def split: sum.splits)
  moreover have "seen' = seen2 @ push_commands (wo_featureRunId opts) title"
  proof -
    have "bindW (git (logged answer) repoDir [''add'', ''-A'']) (\<lambda>_.
          bindW (git (logged answer) repoDir
                   [''commit'', ''-m'', wo_featureRunId opts @ '': '' @ title @ [CHR 0x0A, CHR 0x0A]
                      @ FEATURE_RUN_TRAILER @ '': '' @ wo_featureRunId opts]) (\<lambda>_.
          bindW (git (logged answer) repoDir [''rev-parse'', ''HEAD'']) (\<lambda>commitSha.
          bindW (git (logged answer) repoDir [''push'', ''origin'', ''HEAD:'' @ branchNameFor (wo_featureRunId opts)]) (\<lambda>_.
          returnW \<lparr>ps_commitSha = commitSha, ps_branchName = branchNameFor (wo_featureRunId opts), ps_filesChanged = int (length changed),
                   ps_reusedExistingCommit = False\<rparr>)))) seen2 = (r, seen')"
      using assms(1) x w changed \<open>x = Inr None\<close>
      by (simp add: commitAndPush_def Let_def bindW_def returnW_def throwW_def assms(2))
    moreover have "c \<in> set (drop (length seen) seen')" "is_push c" using assms(3,4) by simp_all
    ultimately show ?thesis
      using c unfolding cmds(1)
      by (elim bindW_git) (auto simp: push_commands_def returnW_def)
  qed
  moreover obtain paths where paths: "map (\<lambda>f. validateRelativePath (guard_patterns (wo_diffGuard opts)) (gf_path f)) files = map Some paths"
    "cmds = map2 (write_command base64) files paths" "changed = map2 written_file files paths"
    using cmds(3) changed(1) by blast
  moreover have len: "length paths = length files" using paths(1) by (metis length_map)
  have "map cf_bytesChanged changed = map (\<lambda>f. int (length (gf_content f))) files"
    using len unfolding paths(3) by (induction files paths rule: list_induct2') (auto simp: written_file_def)
  ultimately show ?thesis
    using len cmds(1)
    by (intro exI [of _ paths]) (auto simp: assertDiffWithinBounds_def Let_def split: if_splits)
qed

text \<open>A repository without commits of the run, a shell that obeys.\<close>

definition obedient :: "command_log \<Rightarrow> string \<Rightarrow> string list \<Rightarrow> string + command_output" where
  "obedient seen cmd args = Inr \<lparr>co_stdout = ''h'', co_stderr = '''', co_exitCode = 0\<rparr>"

definition sample_workspace :: "command_log workspace_options" where
  "sample_workspace =
     \<lparr>wo_workspaceDir = ''w'', wo_remote = ''u'', wo_featureRunId = ''r1'', wo_runner = logged obedient,
      wo_diffGuard = \<lparr>dg_maxFiles = None, dg_maxBytes = None, dg_disallowed = None\<rparr>\<rparr>"

definition sample_file :: generated_file where
  "sample_file = \<lparr>gf_path = ''./a.ts'', gf_content = ''c''\<rparr>"

lemma sample_push:
  "commitAndPush (\<lambda>x. x) sample_workspace ''w/repo'' [sample_file] ''t'' [] =
     (Inr \<lparr>ps_commitSha = ''h'', ps_branchName = branchNameFor ''r1'', ps_filesChanged = 1, ps_reusedExistingCommit = False\<rparr>,
      (''git'', [''log'', ''-1'', ''--format=%H%n%B'']) # write_command (\<lambda>x. x) sample_file ''a.ts'' # push_commands ''r1'' ''t'')"
proof -
  have ran: "git (logged obedient) cwd args seen = (Inr ''h'', seen @ [(''git'', args)])" for cwd args seen
  proof -
    have "trim ''h'' = ''h''" by code_simp
    then show ?thesis by (simp add: git_def runW_def logged_def obedient_def)
  qed
  have wrote: "writeFile (\<lambda>x. x) (logged obedient) cwd path content seen =
      (Inr (), seen @ [(''sh'', [''-c'', write_script, ''_'', path, content])])" for cwd path content seen
    by (simp add: writeFile_def logged_def obedient_def)
  have path: "validateRelativePath DEFAULT_DISALLOWED_PATH_GLOBS ''./a.ts'' = Some ''a.ts''"
    "list_ex (\<lambda>pattern. pattern ''a.ts'') DEFAULT_DISALLOWED_PATH_GLOBS = False"
    by code_simp+
  have "\<not> contains_text [] (FEATURE_RUN_TRAILER @ '': '' @ i)" for i
    by (simp add: contains_text_def FEATURE_RUN_TRAILER_def)
  then have "findExistingRunCommit (logged obedient) cwd i seen = (Inr None, seen @ [(''git'', [''log'', ''-1'', ''--format=%H%n%B''])])" for cwd i seen
    by (simp add: findExistingRunCommit_def bindW_def ran returnW_def Let_def is_newline_def)
  with ran wrote path show ?thesis
    by (simp add: commitAndPush_def Let_def bindW_def returnW_def sample_workspace_def sample_file_def guard_patterns_def
        assertDiffWithinBounds_def max_files_def max_bytes_def DEFAULT_MAX_FILES_def DEFAULT_MAX_BYTES_def first_row_def
        push_commands_def write_command_def)
qed

theorem push_is_guarded_witness:
  "\<exists>r seen'. commitAndPush (\<lambda>x. x) sample_workspace ''w/repo'' [sample_file] ''t'' [] = (r, seen')
     \<and> length seen' = 6 \<and> int (length [sample_file]) \<le> max_files (wo_diffGuard sample_workspace)"
proof -
  have "wo_runner sample_workspace = logged obedient" by (simp add: sample_workspace_def)
  moreover have "is_push (''git'', [''push'', ''origin'', ''HEAD:'' @ branchNameFor ''r1''])" by simp
  ultimately show ?thesis
    using push_is_guarded [OF sample_push, of obedient "(''git'', [''push'', ''origin'', ''HEAD:'' @ branchNameFor ''r1''])"] sample_push
    by (auto simp: push_commands_def)
qed

section \<open>A fix cycle\<close>

lemma lock_frame_findings: "lock_frame s t \<Longrightarrow> review_findings t = review_findings s"
  by (auto simp: lock_frame_def)

text \<open>
  C31. A fix cycle pushes nothing and says it has. The branch a fix cycle checks out ends in the run's
  own commit, so its generated files are thrown away and that commit's hash is returned; the command
  recording the push has that hash in its key, so within seven days it is answered from its slot: the task
  reports a push, while the run stays where it is and every finding stays open.
\<close>

theorem fix_cycle_replayed:
  assumes "git (wo_runner opts) repoDir [''log'', ''-1'', ''--format=%H%n%B''] w = (Inr (sha @ CHR 0x0A # body), w1)"
    "sha \<noteq> ''''" "CHR 0x0A \<notin> set sha" "contains_text body (FEATURE_RUN_TRAILER @ '': '' @ wo_featureRunId opts)"
    "cu_commitSha out = sha" "checkIdempotencyKey (push_key p out) ''record-code-pushed'' s = Some res"
    "acquireForProject (rc_projectId p) ''run-coder-task'' EXECUTION_LANE_TTL_MS s = (Inr lock, u)"
  shows "commitAndPush base64 opts repoDir files title w =
       (Inr \<lparr>ps_commitSha = sha, ps_branchName = branchNameFor (wo_featureRunId opts), ps_filesChanged = int (length files),
             ps_reusedExistingCommit = True\<rparr>, w1)
     \<and> (\<exists>n t. after_adapter resolver p run repo feature findings agentRunId out s = (Inr \<lparr>rd_pushed = True, rd_prNumber = n\<rparr>, t)
          \<and> feature_runs t = feature_runs s \<and> review_findings t = review_findings s)"
proof
  have line: "takeWhile (\<lambda>c. \<not> is_newline c) (sha @ CHR 0x0A # body) = sha"
  proof -
    have "\<forall>c \<in> set sha. \<not> is_newline c" using assms(3) by (auto simp: is_newline_def)
    then show ?thesis by (simp add: takeWhile_append is_newline_def)
  qed
  have "findExistingRunCommit (wo_runner opts) repoDir (wo_featureRunId opts) w = (Inr (Some sha), w1)"
    using assms(1,2,4) line by (simp add: findExistingRunCommit_def bindW_def returnW_def)
  then show "commitAndPush base64 opts repoDir files title w =
       (Inr \<lparr>ps_commitSha = sha, ps_branchName = branchNameFor (wo_featureRunId opts), ps_filesChanged = int (length files),
             ps_reusedExistingCommit = True\<rparr>, w1)"
    by (simp add: commitAndPush_def Let_def bindW_def returnW_def)
  let ?u = "u\<lparr>draws := draws u + 1\<rparr>"
  have "lock_frame s u"
    using acquire_frame assms(7) unfolding acquireForProject_def by (metis lockframe.keepsA_def snd_conv)
  then have su: "lock_frame s ?u" by (rule lockframe.R_trans) (rule lock_frame_update(2))
  have pushed: "record_push p v out agentRunId findings lock u = (Inr res, ?u)" for v
    using assms(6) slots_of_frame [OF su]
    by (simp add: record_push_def bindA_def queryA_def returnA_def transaction_def generateId_def execute_def
        RecordCodePushedHandler_def taskSystemActor_def assertRole_def meetsRole_def)
  obtain t where rel: "release lock ?u = (Inr (), t)" "lock_frame ?u t" using release_frame by metis
  have st: "lock_frame s t" using su rel(2) by (metis lockframe.R_trans)
  have "after_adapter resolver p run repo feature findings agentRunId out s =
      (Inr \<lparr>rd_pushed = True, rd_prNumber = open_pull_request resolver repo feature out t\<rparr>, t)"
    using assms(7) pushed rel(1)
    by (simp add: after_adapter_def bindA_def queryA_def attempt_def catchA_def returnA_def finallyA_def releaseForProject_def)
  with st show "\<exists>n t. after_adapter resolver p run repo feature findings agentRunId out s = (Inr \<lparr>rd_pushed = True, rd_prNumber = n\<rparr>, t)
          \<and> feature_runs t = feature_runs s \<and> review_findings t = review_findings s"
    by (blast intro: lock_frame_parts lock_frame_findings)
qed

definition fixing_store :: store where
  "fixing_store =
     (sample_store [sample_run ''r1'' ''q1'' FE_FIXING 1 9] (sample_ws (Some ''r1'') AU_RUNNING))
       \<lparr>workflow_locks := [], repositories := [sample_repository],
        idempotency_keys := [used_slot ''k1'' ''record-code-pushed:r1:h'' ''record-code-pushed'']\<rparr>"

definition fixing_payload :: run_coder_payload where
  "fixing_payload = \<lparr>rc_projectId = ''p1'', rc_featureRunId = ''r1'', rc_correlationId = ''x'', rc_coderAdapterName = ''codex''\<rparr>"

text \<open>A branch that ends in the run's commit.\<close>

definition own_commit :: "command_log \<Rightarrow> string \<Rightarrow> string list \<Rightarrow> string + command_output" where
  "own_commit seen cmd args =
     Inr \<lparr>co_stdout = ''h'' @ CHR 0x0A # FEATURE_RUN_TRAILER @ '': r1'', co_stderr = '''', co_exitCode = 0\<rparr>"

theorem fix_cycle_replayed_witness:
  "\<exists>n t. after_adapter (\<lambda>_ _ _. Inl (OtherError ''no forge'')) fixing_payload (sample_run ''r1'' ''q1'' FE_FIXING 1 9) sample_repository
        (sample_request ''q1'' ''FR-1'' 1) [(''f1'', ''broken'')] ''a1''
        \<lparr>cu_commitSha = ''h'', cu_branchName = ''b'', cu_filesChanged = 1, cu_tokensUsed = None\<rparr> fixing_store
      = (Inr \<lparr>rd_pushed = True, rd_prNumber = n\<rparr>, t)
     \<and> map run_state (feature_runs t) = [FE_FIXING]
     \<and> snd (commitAndPush (\<lambda>x. x) (sample_workspace\<lparr>wo_runner := logged own_commit\<rparr>) ''w/repo'' [sample_file] ''t'' []) = [(''git'', [''log'', ''-1'', ''--format=%H%n%B''])]"
proof -
  let ?opts = "sample_workspace\<lparr>wo_runner := logged own_commit\<rparr>"
  let ?out = "\<lparr>cu_commitSha = ''h'', cu_branchName = ''b'', cu_filesChanged = 1, cu_tokensUsed = None\<rparr> :: coder_output"
  have "trim (''h'' @ CHR 0x0A # FEATURE_RUN_TRAILER @ '': r1'') = ''h'' @ CHR 0x0A # FEATURE_RUN_TRAILER @ '': r1''"
    by code_simp
  then have ran: "git (wo_runner ?opts) ''w/repo'' [''log'', ''-1'', ''--format=%H%n%B''] [] =
      (Inr (''h'' @ CHR 0x0A # (FEATURE_RUN_TRAILER @ '': r1'')), [(''git'', [''log'', ''-1'', ''--format=%H%n%B''])])"
    by (simp add: git_def runW_def logged_def own_commit_def sample_workspace_def)
  have "contains_text (FEATURE_RUN_TRAILER @ '': r1'') (FEATURE_RUN_TRAILER @ '': '' @ ''r1'')" by code_simp
  then have body: "contains_text (FEATURE_RUN_TRAILER @ '': r1'') (FEATURE_RUN_TRAILER @ '': '' @ wo_featureRunId ?opts)"
    by (simp add: sample_workspace_def)
  obtain res where slot: "checkIdempotencyKey (push_key fixing_payload ?out) ''record-code-pushed'' fixing_store = Some res"
    by (simp add: push_key_def fixing_payload_def fixing_store_def used_slot_def run_simps)
  obtain lock u where lock: "acquireForProject (rc_projectId fixing_payload) ''run-coder-task'' EXECUTION_LANE_TTL_MS fixing_store = (Inr lock, u)"
    by (simp add: acquireForProject_def acquire_run acquire_body_unfold new_lock_def lock_for_def executionLaneKey_def
        fixing_payload_def fixing_store_def run_simps)
  have sha: "cu_commitSha ?out = ''h''" "''h'' \<noteq> ''''" "CHR 0x0A \<notin> set ''h''" by simp_all
  note both = fix_cycle_replayed [OF ran sha(2,3) body sha(1) slot lock, of "\<lambda>x. x" "[sample_file]" "''t''"
      "\<lambda>_ _ _. Inl (OtherError ''no forge'')" "sample_run ''r1'' ''q1'' FE_FIXING 1 9" sample_repository "sample_request ''q1'' ''FR-1'' 1"
      "[(''f1'', ''broken'')]" "''a1''"]
  have runs: "map run_state (feature_runs fixing_store) = [FE_FIXING]" by (simp add: fixing_store_def run_simps)
  from both obtain n t where
    "after_adapter (\<lambda>_ _ _. Inl (OtherError ''no forge'')) fixing_payload (sample_run ''r1'' ''q1'' FE_FIXING 1 9) sample_repository
        (sample_request ''q1'' ''FR-1'' 1) [(''f1'', ''broken'')] ''a1'' ?out fixing_store = (Inr \<lparr>rd_pushed = True, rd_prNumber = n\<rparr>, t)"
    "feature_runs t = feature_runs fixing_store" by blast
  with both runs show ?thesis by (intro exI [of _ n] exI [of _ t]) simp
qed

end
