(* ===== verification/RunReview.thy ===== *)
theory RunReview
  imports RunCoder
begin

text \<open>
  \<open>run-review.ts\<close>: one run of the reviewer for a feature run at \<open>under_review\<close>, what its findings lead to
  (approval, changes requested and the step to \<open>fixing\<close>, a human), and the arbiter, asked when a
  finding recurs; and \<open>sanitize-prompt-snapshot.ts\<close>, through which a reviewer's prompt passes before it is
  stored. The reviewer and the arbiter are parameters, functions of their input and the moment; so are
  \<open>JSON.parse\<close> (\<open>None\<close> when it throws) and \<open>JSON.stringify\<close>.
\<close>

section \<open>Prompt snapshots\<close>

definition DIFF_PLACEHOLDER :: string where
  "DIFF_PLACEHOLDER = ''[omitted by sanitizePromptSnapshot - see the stored headSha instead]''"

definition DEPTH_PLACEHOLDER :: string where
  "DEPTH_PLACEHOLDER = ''[omitted by sanitizePromptSnapshot - max depth exceeded]''"

definition MAX_DEPTH :: nat where
  "MAX_DEPTH = 8"

definition line_end :: "char \<Rightarrow> bool" where
  "line_end c = (c = CHR 0x0A \<or> c = CHR 0x0D)"

definition diff_line :: "string \<Rightarrow> bool" where
  "diff_line l =
     (prefix ''--- '' l \<or> prefix ''+++ '' l
      \<or> (case strip_prefix ''@@ '' l of None \<Rightarrow> False | Some rest \<Rightarrow> contains_text rest '' @@''))"

definition looksLikeDiff :: "string \<Rightarrow> bool" where
  "looksLikeDiff v = (contains_text v ''diff --git '' \<or> list_ex diff_line (split_at line_end v))"

definition bracketed :: "string \<Rightarrow> bool" where
  "bracketed t =
     ((prefix ''{'' t \<and> suffix ''}'' t) \<or> (prefix ''['' t \<and> suffix '']'' t))"

text \<open>The number is of the levels left: \<open>MAX_DEPTH + 1 - depth\<close>.\<close>

fun sanitizeValue :: "(string \<Rightarrow> json option) \<Rightarrow> (json \<Rightarrow> string) \<Rightarrow> nat \<Rightarrow> json \<Rightarrow> json" where
  "sanitizeValue parse stringify 0 v = JStr DEPTH_PLACEHOLDER"
| "sanitizeValue parse stringify (Suc n) v =
     (case v of
        JStr text \<Rightarrow>
          (case (if bracketed (js_trim text) then parse text else None) of
             Some parsed \<Rightarrow> JStr (stringify (sanitizeValue parse stringify n parsed))
           | None \<Rightarrow> if looksLikeDiff text then JStr DIFF_PLACEHOLDER else JStr text)
      | JArr items \<Rightarrow> JArr (map (sanitizeValue parse stringify n) items)
      | JObj entries \<Rightarrow>
          JObj (map (\<lambda>(key, entry). (key, if to_lower key = ''diff'' then JStr DIFF_PLACEHOLDER
                                         else sanitizeValue parse stringify n entry)) entries)
      | _ \<Rightarrow> v)"

definition sanitizePromptSnapshot :: "(string \<Rightarrow> json option) \<Rightarrow> (json \<Rightarrow> string) \<Rightarrow> json \<Rightarrow> json" where
  "sanitizePromptSnapshot parse stringify v = sanitizeValue parse stringify (MAX_DEPTH + 1) v"

section \<open>Data of the task\<close>

record run_review_payload =
  rw_projectId :: string
  rw_featureRunId :: string
  rw_correlationId :: string
  rw_reviewerAdapterName :: string
  rw_arbiterAdapterName :: "string option"

datatype review_decision = REVIEW_APPROVED | REVIEW_CHANGES_REQUESTED | REVIEW_ESCALATED

record run_review_result =
  rx_reviewed :: bool
  rx_decision :: "review_decision option"

record reviewer_input =
  ri_projectId :: string
  ri_featureRunId :: string
  ri_prNumber :: int
  ri_reviewCycle :: int
  ri_correlationId :: string
  ri_featureTitle :: "string option"
  ri_acceptanceCriteria :: "string list"

record reviewer_output =
  vo_findings :: "raw_finding list"
  vo_tokensUsed :: "(int \<times> int) option"
  vo_promptSnapshot :: "json option"

record arbiter_input =
  bi_projectId :: string
  bi_featureRunId :: string
  bi_findingDescription :: string
  bi_coderPosition :: string
  bi_reviewerPosition :: string
  bi_correlationId :: string

datatype arbiter_resolution = CODER_CORRECT | REVIEWER_CORRECT | COMPROMISE | ESCALATE_TO_HUMAN

record arbiter_output =
  bo_resolution :: arbiter_resolution
  bo_notes :: string
  bo_tokensUsed :: "(int \<times> int) option"

type_synonym reviewer = "reviewer_input \<Rightarrow> store \<Rightarrow> error + reviewer_output"

type_synonym arbiter = "arbiter_input \<Rightarrow> store \<Rightarrow> error + arbiter_output"

text \<open>What the recorder and the snapshot are given; the outputs as they are stored are the adapters'.\<close>

record review_recording =
  vk_to_number :: "string \<Rightarrow> rat option"
  vk_parse :: "string \<Rightarrow> json option"
  vk_stringify :: "json \<Rightarrow> string"
  vk_review_json :: "reviewer_output \<Rightarrow> json"
  vk_arbiter_json :: "arbiter_output \<Rightarrow> json"
  vk_message :: "error \<Rightarrow> string"

definition review_expected :: "string list" where
  "review_expected = [''concurrent-command'', ''not-found'', ''automation-paused'']"

section \<open>Recording\<close>

definition token_usage :: "(string \<Rightarrow> rat option) \<Rightarrow> store \<Rightarrow> (int \<times> int) option \<Rightarrow> cost_usage option" where
  "token_usage to_number s tokens =
     (case tokens of
        None \<Rightarrow> None
      | Some (input, output) \<Rightarrow>
          Some \<lparr>us_inputTokens = Some input, us_outputTokens = Some output,
                us_costUsd = Some (computeCostUsd to_number input output s),
                us_provider = Some (case env_vars s ''CODE_GEN_PROVIDER_NAME'' of
                                      None \<Rightarrow> ''openai-compatible'' | Some n \<Rightarrow> n),
                us_model = env_vars s ''CODE_GEN_MODEL''\<rparr>)"

definition reviewer_input_json :: "reviewer_input \<Rightarrow> json" where
  "reviewer_input_json input =
     JObj ([(''projectId'', JStr (ri_projectId input)), (''featureRunId'', JStr (ri_featureRunId input)),
            (''prNumber'', JInt (ri_prNumber input)), (''reviewCycle'', JInt (ri_reviewCycle input)),
            (''correlationId'', JStr (ri_correlationId input))]
           @ (case ri_featureTitle input of None \<Rightarrow> [] | Some t \<Rightarrow> [(''featureTitle'', JStr t)])
           @ [(''acceptanceCriteria'', JArr (map JStr (ri_acceptanceCriteria input)))])"

definition reviewer_options ::
    "review_recording \<Rightarrow> adapter_record \<Rightarrow> reviewer_input \<Rightarrow> string \<Rightarrow> store \<Rightarrow> reviewer_output run_options" where
  "reviewer_options rk adapter input requestId s =
     \<lparr>ro_adapterId = ad_id adapter, ro_role = ''ReviewerAgentAdapter'', ro_projectId = Some (ri_projectId input),
      ro_featureRunId = Some (ri_featureRunId input), ro_featureRequestId = Some requestId,
      ro_promptTemplateVersion = Some ''reviewer-v1'', ro_input = reviewer_input_json input,
      ro_capabilitiesUsed = [''can_review_pull_request'', ''can_return_structured_findings''],
      ro_contextPack = Some (reviewer_input_json input, None),
      ro_costExtractor = (\<lambda>tried. Inr (case tried of
          Failed e \<Rightarrow> None | Finished out \<Rightarrow> token_usage (vk_to_number rk) s (vo_tokensUsed out))),
      ro_toolOperationsExtractor = (\<lambda>tried. Inr []), ro_json = vk_review_json rk, ro_message = vk_message rk\<rparr>"

definition arbiter_input_json :: "arbiter_input \<Rightarrow> json" where
  "arbiter_input_json input =
     JObj [(''projectId'', JStr (bi_projectId input)), (''featureRunId'', JStr (bi_featureRunId input)),
           (''findingDescription'', JStr (bi_findingDescription input)), (''coderPosition'', JStr (bi_coderPosition input)),
           (''reviewerPosition'', JStr (bi_reviewerPosition input)), (''correlationId'', JStr (bi_correlationId input))]"

definition arbiter_options ::
    "review_recording \<Rightarrow> adapter_record \<Rightarrow> arbiter_input \<Rightarrow> string \<Rightarrow> store \<Rightarrow> arbiter_output run_options" where
  "arbiter_options rk adapter input requestId s =
     \<lparr>ro_adapterId = ad_id adapter, ro_role = ''ArbiterAgentAdapter'', ro_projectId = Some (bi_projectId input),
      ro_featureRunId = Some (bi_featureRunId input), ro_featureRequestId = Some requestId,
      ro_promptTemplateVersion = Some ''arbiter-v1'', ro_input = arbiter_input_json input,
      ro_capabilitiesUsed = [''can_resolve_disagreement''], ro_contextPack = Some (arbiter_input_json input, None),
      ro_costExtractor = (\<lambda>tried. Inr (case tried of
          Failed e \<Rightarrow> None | Finished out \<Rightarrow> token_usage (vk_to_number rk) s (bo_tokensUsed out))),
      ro_toolOperationsExtractor = (\<lambda>tried. Inr []), ro_json = vk_arbiter_json rk, ro_message = vk_message rk\<rparr>"

definition write_snapshot :: "review_recording \<Rightarrow> string \<Rightarrow> string option \<Rightarrow> json option \<Rightarrow> unit db_action" where
  "write_snapshot rk agentRunId headSha snapshot =
     (case snapshot of
        None \<Rightarrow> returnA ()
      | Some snap \<Rightarrow>
          transaction (bindT generateId (\<lambda>i.
            insertG ''agent_context_packs'' agent_context_packs agent_context_packs_update ak_id
              \<lparr>ak_id = i, ak_agent_run_id = agentRunId,
               ak_content = redactObject (JObj
                 [(''promptSnapshot'', sanitizePromptSnapshot (vk_parse rk) (vk_stringify rk) snap),
                  (''headSha'', case headSha of None \<Rightarrow> JNull | Some h \<Rightarrow> JStr h)]),
               ak_content_schema_version = ''reviewer-prompt-snapshot-v1''\<rparr>)))"

section \<open>Commands of the task\<close>

definition start_fixing :: "run_review_payload \<Rightarrow> int \<Rightarrow> acquired_lock \<Rightarrow> command_result db_action" where
  "start_fixing p expectedVersion lock =
     bindA (transaction generateId) (\<lambda>i.
     execute StartFixingHandler
       \<lparr>commandId = i, idempotencyKey = ''start-fixing:'' @ rw_featureRunId p @ '':'' @ show_int expectedVersion,
        payload = \<lparr>p_featureRunId = rw_featureRunId p, p_projectId = rw_projectId p, p_expectedVersion = expectedVersion\<rparr>,
        env_actor = taskSystemActor (rw_correlationId p), correlationId = rw_correlationId p,
        lockContext = Some (lock_context_of (rw_projectId p) lock)\<rparr>)"

definition advanceToFixing :: "run_review_payload \<Rightarrow> int \<Rightarrow> unit db_action" where
  "advanceToFixing p expectedVersion =
     bindA (attempt review_expected
              (acquireForProject (rw_projectId p) ''run-review-task'' EXECUTION_LANE_TTL_MS)) (\<lambda>acquired.
     case acquired of
       None \<Rightarrow> returnA ()
     | Some lock \<Rightarrow>
         bindA (finallyA (attempt review_expected (start_fixing p expectedVersion lock)) (releaseForProject lock)) (\<lambda>_.
         returnA ()))"

definition ESCALATION_REASON :: string where
  "ESCALATION_REASON = ''Reviewer produced a requires_human_decision finding or exceeded the fix-attempt threshold''"

definition dispatchEscalation ::
    "run_review_payload \<Rightarrow> int \<Rightarrow> string \<Rightarrow> int \<Rightarrow> finding_insert list \<Rightarrow> command_result db_action" where
  "dispatchEscalation p expectedVersion reviewerRunId reviewCycle findings =
     bindA (transaction generateId) (\<lambda>i.
     execute EscalateToHumanHandler
       \<lparr>commandId = i, idempotencyKey = ''escalate-human-review:'' @ rw_featureRunId p,
        payload = \<lparr>p_featureRunId = rw_featureRunId p, p_projectId = rw_projectId p, p_expectedVersion = expectedVersion,
                   es_reason = ESCALATION_REASON, es_reviewerRunId = Some reviewerRunId,
                   es_reviewCycle = Some reviewCycle, es_findings = Some findings\<rparr>,
        env_actor = taskSystemActor (rw_correlationId p), correlationId = rw_correlationId p, lockContext = None\<rparr>)"

definition record_changes ::
    "run_review_payload \<Rightarrow> int \<Rightarrow> string \<Rightarrow> int \<Rightarrow> finding_insert list \<Rightarrow> command_result db_action" where
  "record_changes p expectedVersion reviewerRunId reviewCycle findings =
     (let reviewId = ''review-'' @ rw_featureRunId p @ ''-'' @ show_int reviewCycle in
      bindA (transaction generateId) (\<lambda>i.
      execute RecordChangesRequestedHandler
        \<lparr>commandId = i, idempotencyKey = ''changes-requested:'' @ rw_featureRunId p @ '':'' @ reviewId,
         payload = \<lparr>p_featureRunId = rw_featureRunId p, p_projectId = rw_projectId p, p_expectedVersion = expectedVersion,
                    ch_reviewId = reviewId, ch_reviewer = None, ch_reviewerRunId = Some reviewerRunId,
                    ch_reviewCycle = Some reviewCycle, ch_findings = Some findings\<rparr>,
         env_actor = taskSystemActor (rw_correlationId p), correlationId = rw_correlationId p, lockContext = None\<rparr>))"

section \<open>What the findings lead to\<close>

definition reviewed_as :: "review_decision \<Rightarrow> run_review_result" where
  "reviewed_as d = \<lparr>rx_reviewed = True, rx_decision = Some d\<rparr>"

definition not_reviewed :: run_review_result where
  "not_reviewed = \<lparr>rx_reviewed = False, rx_decision = None\<rparr>"

definition needs_human :: "finding_insert \<Rightarrow> bool" where
  "needs_human f = (fi_severity f = SEV_REQUIRES_HUMAN_DECISION)"

definition is_blocking :: "finding_insert \<Rightarrow> bool" where
  "is_blocking f = (fi_severity f = SEV_BLOCKING)"

text \<open>The one transaction that records a clean review; there is no transition to write it with.\<close>

definition approve_commit ::
    "run_review_payload \<Rightarrow> string option \<Rightarrow> string \<Rightarrow> int \<Rightarrow> finding_insert list \<Rightarrow> run_review_result db_action" where
  "approve_commit p headSha agentRunId reviewCycle findings =
     bindA (transaction (recordCleanReview (rw_featureRunId p) headSha agentRunId reviewCycle findings)) (\<lambda>_.
     returnA (reviewed_as REVIEW_APPROVED))"

definition escalate_review ::
    "run_review_payload \<Rightarrow> feature_run_row \<Rightarrow> string \<Rightarrow> int \<Rightarrow> finding_insert list \<Rightarrow> run_review_result db_action" where
  "escalate_review p run agentRunId reviewCycle findings =
     bindA (dispatchEscalation p (run_version run) agentRunId reviewCycle findings) (\<lambda>_.
     returnA (reviewed_as REVIEW_ESCALATED))"

definition request_changes ::
    "run_review_payload \<Rightarrow> feature_run_row \<Rightarrow> string \<Rightarrow> int \<Rightarrow> finding_insert list \<Rightarrow> run_review_result db_action" where
  "request_changes p run agentRunId reviewCycle findings =
     bindA (attempt review_expected
              (bindA (record_changes p (run_version run) agentRunId reviewCycle findings) (\<lambda>_.
               queryA (\<lambda>s. case run_by_id (rw_featureRunId p) s of
                            None \<Rightarrow> run_version run + 1 | Some r \<Rightarrow> run_version r)))) (\<lambda>recorded.
     case recorded of
       None \<Rightarrow> returnA not_reviewed
     | Some version \<Rightarrow>
         bindA (advanceToFixing p version) (\<lambda>_. returnA (reviewed_as REVIEW_CHANGES_REQUESTED)))"

section \<open>The arbiter\<close>

definition summarizeCoderPosition :: "string \<Rightarrow> store \<Rightarrow> string" where
  "summarizeCoderPosition priorFindingId s =
     (case first_row (order_by (\<lambda>a b. cr_created_at a > cr_created_at b)
             (filter (\<lambda>r. cr_finding_id r = priorFindingId) (coder_responses s))) of
        None \<Rightarrow> ''No coder_responses row on file for the prior occurrence of this finding.''
      | Some row \<Rightarrow>
          ''Coder'' @ [CHR 0x27] @ ''s last response to this finding was '' @ [CHR 0x27] @ cr_response_type row @ [CHR 0x27]
            @ (if cr_notes row \<noteq> '''' then '': '' @ cr_notes row else '''') @ ''.'')"

text \<open>A finding the arbiter dismissed is kept, as one that does not block.\<close>

definition dismiss_finding :: "string \<Rightarrow> finding_insert list \<Rightarrow> finding_insert list" where
  "dismiss_finding description findings =
     map (\<lambda>f. if js_trim (fi_description f) = js_trim description \<and> (is_blocking f \<or> needs_human f)
              then f\<lparr>fi_severity := SEV_NON_BLOCKING\<rparr> else f) findings"

text \<open>\<open>None\<close> when the arbiter hands the disagreement to a human.\<close>

definition arbitrate ::
    "review_recording \<Rightarrow> (store \<Rightarrow> error + arbiter) \<Rightarrow> run_review_payload \<Rightarrow> feature_run_row \<Rightarrow> int
      \<Rightarrow> finding_insert list \<Rightarrow> string \<times> int \<times> string \<Rightarrow> finding_insert list option db_action" where
  "arbitrate rk arbiterFactory p run reviewCycle findings repeated =
     (case repeated of (priorFindingId, priorCycle, description) \<Rightarrow>
      if \<not> truthy (rw_arbiterAdapterName p)
      then throwA (OtherError (''run-review detected a repeated unresolved finding (a coder/reviewer disagreement) but no ''
             @ ''arbiterAdapterName was configured on the payload - an ArbiterAgentAdapter must be ''
             @ ''registered (e.g. ClaudeArbiterAdapter, issue #51) and named here before arbitration ''
             @ ''can proceed.''))
      else
        bindA (transaction (insertDisagreementRecord (rw_featureRunId p) (Some priorFindingId) reviewCycle)) (\<lambda>disagreementId.
        bindA (\<lambda>s. liftA (resolve_adapter ''ArbiterAgentAdapter'' (the (rw_arbiterAdapterName p)) s) s) (\<lambda>adapterRecord.
        bindA (\<lambda>s. liftA (arbiterFactory s) s) (\<lambda>adapter.
        bindA (queryA (summarizeCoderPosition priorFindingId)) (\<lambda>coderPosition.
        let input =
          \<lparr>bi_projectId = rw_projectId p, bi_featureRunId = rw_featureRunId p, bi_findingDescription = description,
           bi_coderPosition = coderPosition, bi_reviewerPosition = description, bi_correlationId = rw_correlationId p\<rparr> in
        bindA (\<lambda>s. record_run (arbiter_options rk adapterRecord input (run_feature_request_id run) s)
                      (\<lambda>t. (adapter input t, t)) s) (\<lambda>(arbiterRunId, out).
        if bo_resolution out = ESCALATE_TO_HUMAN
        then
          bindA (transaction (recordArbiterDisposition disagreementId arbiterRunId DIS_ESCALATED (bo_notes out))) (\<lambda>_.
          returnA None)
        else
          bindA (transaction (recordArbiterDisposition disagreementId arbiterRunId DIS_RESOLVED (bo_notes out))) (\<lambda>_.
          returnA (Some (if bo_resolution out = CODER_CORRECT then dismiss_finding description findings else findings)))))))))"

section \<open>The task\<close>

definition after_reviewer ::
    "review_recording \<Rightarrow> (store \<Rightarrow> error + arbiter) \<Rightarrow> run_review_payload \<Rightarrow> feature_run_row \<Rightarrow> string option \<Rightarrow> int
      \<Rightarrow> string \<Rightarrow> reviewer_output \<Rightarrow> run_review_result db_action" where
  "after_reviewer rk arbiterFactory p run headSha reviewCycle agentRunId out =
     bindA (write_snapshot rk agentRunId headSha (vo_promptSnapshot out)) (\<lambda>_.
     bindA (liftA (normalizeReviewerFindings (vo_findings out))) (\<lambda>findings.
     if list_ex needs_human findings then escalate_review p run agentRunId reviewCycle findings
     else if \<not> list_ex is_blocking findings then approve_commit p headSha agentRunId reviewCycle findings
     else if run_fix_attempt_count run \<ge> FIX_ATTEMPT_THRESHOLD then escalate_review p run agentRunId reviewCycle findings
     else
       bindA (queryA (findRepeatedFinding (rw_featureRunId p) reviewCycle findings)) (\<lambda>repeated.
       bindA (case repeated of
                None \<Rightarrow> returnA (Some findings)
              | Some r \<Rightarrow> arbitrate rk arbiterFactory p run reviewCycle findings r) (\<lambda>effective.
       case effective of
         None \<Rightarrow> escalate_review p run agentRunId reviewCycle findings
       | Some fs \<Rightarrow>
           if \<not> list_ex is_blocking fs then approve_commit p headSha agentRunId reviewCycle fs
           else request_changes p run agentRunId reviewCycle fs))))"

definition already_reviewed :: "string \<Rightarrow> pull_request_row \<Rightarrow> store \<Rightarrow> bool" where
  "already_reviewed featureRunId pr s =
     (truthy (pr_head_sha pr) \<and> findReviewOccurrenceMarker featureRunId (the (pr_head_sha pr)) s \<noteq> None)"

definition next_review_cycle :: "string \<Rightarrow> store \<Rightarrow> int" where
  "next_review_cycle featureRunId s =
     (case map rf_review_cycle (filter (\<lambda>f. rf_feature_run_id f = featureRunId) (review_findings s)) of
        [] \<Rightarrow> 1 | c # cs \<Rightarrow> fold max cs c + 1)"

definition runReview ::
    "review_recording \<Rightarrow> (string \<Rightarrow> string \<Rightarrow> scm_client \<Rightarrow> store \<Rightarrow> error + reviewer) \<Rightarrow> (store \<Rightarrow> error + arbiter)
      \<Rightarrow> (string \<Rightarrow> string option \<Rightarrow> store \<Rightarrow> error + scm_client) \<Rightarrow> run_review_payload \<Rightarrow> run_review_result db_action" where
  "runReview rk reviewerAdapterFactory arbiterFactory resolveScmClient p =
     bindA (queryA (find_run (rw_featureRunId p) (rw_projectId p))) (\<lambda>found.
     case found of
       None \<Rightarrow> returnA not_reviewed
     | Some run \<Rightarrow>
     if run_state run = FE_CHANGES_REQUESTED
     then bindA (advanceToFixing p (run_version run)) (\<lambda>_. returnA (reviewed_as REVIEW_CHANGES_REQUESTED))
     else if run_state run \<noteq> FE_UNDER_REVIEW then returnA not_reviewed
     else
     bindA (queryA (resolveRepository (rw_projectId p))) (\<lambda>repoRow.
     bindA (queryA (getPullRequestByFeatureRun (rw_featureRunId p))) (\<lambda>prRow.
     case (repoRow, prRow) of
       (Some repo, Some pr) \<Rightarrow>
         bindA (queryA (already_reviewed (rw_featureRunId p) pr)) (\<lambda>known.
         if known then returnA \<lparr>rx_reviewed = False, rx_decision = Some REVIEW_APPROVED\<rparr>
         else
         bindA (queryA (resolveEstimatedCostUsd (vk_to_number rk) ''REVIEW_ESTIMATED_COST_USD'')) (\<lambda>estimated.
         bindA (budgetPreflightCheck
                  \<lparr>bq_projectId = rw_projectId p, bq_featureRequestId = run_feature_request_id run, bq_scope = SCOPE_FEATURE,
                   bq_correlationId = rw_correlationId p, bq_estimatedCostUsd = estimated,
                   bq_featureRunId = rw_featureRunId p\<rparr>) (\<lambda>preflight.
         case preflight of
           HardBreach spend \<Rightarrow> returnA not_reviewed
         | Proceed \<Rightarrow>
             bindA (queryA (next_review_cycle (rw_featureRunId p))) (\<lambda>reviewCycle.
             bindA (\<lambda>s. liftA (resolveScmClient (repo_provider repo) (repo_base_url repo) s) s) (\<lambda>client.
             bindA (\<lambda>s. liftA (resolve_adapter ''ReviewerAgentAdapter'' (rw_reviewerAdapterName p) s) s) (\<lambda>adapterRecord.
             bindA (\<lambda>s. liftA (reviewerAdapterFactory (repo_owner repo) (repo_name repo) client s) s) (\<lambda>adapter.
             bindA (queryA (request_by_id (run_feature_request_id run))) (\<lambda>featureRow.
             bindA (queryA (criteria_of (run_feature_request_id run))) (\<lambda>criteria.
             let input =
               \<lparr>ri_projectId = rw_projectId p, ri_featureRunId = rw_featureRunId p, ri_prNumber = pr_number pr,
                ri_reviewCycle = reviewCycle, ri_correlationId = rw_correlationId p,
                ri_featureTitle = map_option req_title featureRow, ri_acceptanceCriteria = criteria\<rparr> in
             bindA (\<lambda>s. record_run (reviewer_options rk adapterRecord input (run_feature_request_id run) s)
                           (\<lambda>t. (adapter input t, t)) s) (\<lambda>(agentRunId, out).
             after_reviewer rk arbiterFactory p run (pr_head_sha pr) reviewCycle agentRunId out))))))))))
     | _ \<Rightarrow> returnA not_reviewed)))"

end
