(* ===== verification/ReviewFacts.thy ===== *)
theory ReviewFacts
  imports TaskOutcomes RunReview
begin

text \<open>
  The tasks of the coder and the reviewer as steps of the system; and what a clean review leaves in the
  workflow's own tables: its findings and the mark by which the commit is not reviewed again.
\<close>

section \<open>What the recorder writes\<close>

definition recorder_frame :: "store \<Rightarrow> store \<Rightarrow> bool" where
  "recorder_frame s t = (\<exists>d costs ags. t = s\<lparr>draws := d, cost_records := costs, agents := ags\<rparr>)"

interpretation recorder: store_guarantee recorder_frame
proof
  show "recorder_frame s s" for s
    unfolding recorder_frame_def
    by (rule exI [of _ "draws s"], rule exI [of _ "cost_records s"], rule exI [of _ "agents s"]) simp
  show "recorder_frame s u" if "recorder_frame s t" "recorder_frame t u" for s t u
    using that unfolding recorder_frame_def by fastforce
qed

lemma recorder_updates:
  "recorder_frame s (agents_update f s)" "recorder_frame s (cost_records_update g s)" "recorder_frame s (s\<lparr>draws := d\<rparr>)"
  unfolding recorder_frame_def
  by (rule exI [of _ "draws s"], rule exI [of _ "cost_records s"], rule exI [of _ "f (agents s)"], simp)
    (rule exI [of _ "draws s"], rule exI [of _ "g (cost_records s)"], rule exI [of _ "agents s"], simp,
     rule exI [of _ d], rule exI [of _ "cost_records s"], rule exI [of _ "agents s"], simp)

lemma recorder_statements:
  "recorder.keeps generateId" "recorder.keeps (insertG table get upd key row)" "recorder.keeps (executeG h)"
  "recorder.keeps (insertT table' cost_records cost_records_update key' row')"
  by (rule recorder.keepsI, simp add: wp_def generateId_def insertG_def executeG_def executeT_def insertT_def recorder_updates)+

lemma recorder_lift: "recorder.keepsA (liftA r)" "recorder.keepsA (\<lambda>s. liftA (f s) s)"
  by (auto simp: recorder.keepsA_def liftA_def returnA_def throwA_def recorder.R_refl split: sum.split)

lemmas recorder_rules =
  recorder.keepsA_bindA recorder.keepsA_catchA recorder.keepsA_option recorder.keepsA_if recorder.keepsA_throwA
  recorder.keepsA_returnA recorder.keepsA_queryA recorder.keeps_transaction recorder_statements recorder_lift
  recorder.keeps_bindT recorder.keeps_queryT

lemma recorder_parts:
  "recorder.keepsA (update_agent_run i g)" "recorder.keepsA (insertCostRecord i opts u n)"
  "recorder.keepsA (insert_agent_run i opts adapter revision n)" "recorder.keepsA (insert_context_pack i opts)"
  "recorder.keepsA (AR_assertValid a b)" "recorder.keeps (insert_operation i op)"
  unfolding update_agent_run_def insertCostRecord_def insert_agent_run_def insert_context_pack_def AR_assertValid_def
    insert_operation_def assertValidT_def
  by (auto intro!: recorder_rules recorder.keeps_if recorder.keeps_returnT recorder.keeps_throwT
      split: option.split sum.split prod.split)

lemma recorder_operations: "recorder.keepsA (insertToolOperations i ops)"
  by (induction ops) (auto intro!: recorder_rules recorder_parts)

lemma recorder_record_run: "recorder.keepsA fn \<Longrightarrow> recorder.keepsA (record_run opts fn)"
  unfolding record_run_def record_success_def record_failure_def record_usage_def Let_def
  by (auto intro!: recorder_rules recorder_parts recorder_operations split: option.split)

lemma recorder_pure: "recorder.keepsA (\<lambda>s. record_run (opts s) (\<lambda>t. (f t, t)) s)"
proof -
  have "recorder.keepsA (record_run o' (\<lambda>t. (f t, t)))" for o'
    by (rule recorder_record_run) (simp add: recorder.keepsA_def recorder.R_refl)
  then show ?thesis by (simp add: recorder.keepsA_def)
qed

lemma recorder_snapshot: "recorder.keepsA (write_snapshot rk i h snap)"
  unfolding write_snapshot_def by (auto intro!: recorder_rules split: option.split)

section \<open>The tasks as steps\<close>



lemma disagreement_writes:
  "\<exists>f. snd (transaction (insertDisagreementRecord i x c) s) = disagreement_records_update f s"
  "\<exists>f. snd (transaction (recordArbiterDisposition d a st n) s) = disagreement_records_update f s"
proof -
  have self: "\<exists>f. s = disagreement_records_update f s" by (rule exI [of _ id]) simp
  show "\<exists>f. snd (transaction (insertDisagreementRecord i x c) s) = disagreement_records_update f s"
    using self
    by (auto simp: transaction_def insertDisagreementRecord_def bindT_def queryT_def returnT_def insertOnConflictT_def Let_def)
  show "\<exists>f. snd (transaction (recordArbiterDisposition d a st n) s) = disagreement_records_update f s"
    by (auto simp: transaction_def recordArbiterDisposition_def bindT_def queryT_def executeT_def)
qed










section \<open>A clean review\<close>

definition clean_finding :: "review_finding_row \<Rightarrow> bool" where
  "clean_finding f = (rf_severity f \<noteq> SEV_BLOCKING \<and> rf_severity f \<noteq> SEV_REQUIRES_HUMAN_DECISION)"

definition approval_frame :: "store \<Rightarrow> store \<Rightarrow> bool" where
  "approval_frame s t =
     (feature_runs t = feature_runs s \<and> feature_requests t = feature_requests s \<and> workflow_states t = workflow_states s
      \<and> workflow_events t = workflow_events s \<and> outbox_events t = outbox_events s \<and> repositories t = repositories s
      \<and> pull_requests t = pull_requests s
      \<and> (\<forall>f \<in> set (review_findings t). f \<in> set (review_findings s) \<or> clean_finding f))"

interpretation approval: store_guarantee approval_frame
  by unfold_locales (auto simp: approval_frame_def)

lemma recorder_approval: "recorder.keepsA m \<Longrightarrow> approval.keepsA m"
  unfolding recorder.keepsA_def approval.keepsA_def
proof
  fix s
  assume "\<forall>s. recorder_frame s (snd (m s))"
  then obtain d costs ags where "snd (m s) = s\<lparr>draws := d, cost_records := costs, agents := ags\<rparr>"
    unfolding recorder_frame_def by blast
  then show "approval_frame s (snd (m s))" by (simp add: approval_frame_def)
qed

lemma approval_disagreement:
  "approval.keepsA (transaction (insertDisagreementRecord i x c))"
  "approval.keepsA (transaction (recordArbiterDisposition d a st n))"
proof -
  have "approval_frame s (disagreement_records_update f s)" for f s by (simp add: approval_frame_def)
  then show "approval.keepsA (transaction (insertDisagreementRecord i x c))"
    "approval.keepsA (transaction (recordArbiterDisposition d a st n))"
    using disagreement_writes(1) [of i x c] disagreement_writes(2) [of d a st n] unfolding approval.keepsA_def by metis+
qed

lemma approval_arbitrate: "approval.keepsA (arbitrate rk af p run c fs r)"
  unfolding arbitrate_def Let_def
  by (auto intro!: approval.keepsA_bindA approval.keepsA_if approval.keepsA_throwA approval.keepsA_returnA approval.keepsA_queryA
      approval_disagreement recorder_approval [OF recorder_lift(1)] recorder_approval [OF recorder_lift(2)]
      recorder_approval [OF recorder_pure] split: prod.split)

lemma approval_findings:
  assumes "\<forall>f \<in> set fs. \<not> is_blocking f \<and> \<not> needs_human f"
  shows "approval.keeps (insertReviewFindings i a c fs)"
  unfolding insertReviewFindings_def
proof (intro approval.keeps_bindT approval.keeps_queryT)
  fix now
  have each: "approval.keeps (forEachT g xs)" if "\<And>x. x \<in> set xs \<Longrightarrow> approval.keeps (g x)" for g :: "nat \<times> finding_insert \<Rightarrow> unit tx" and xs
    using that by (induction xs) auto
  show "approval.keeps (forEachT (\<lambda>(index, f).
        bindT (insertOnConflictT ''review_findings'' review_findings review_findings_update
                 rf_id rf_id (finding_row i a c now index f)) (\<lambda>_. returnT ())) (enumerate 0 fs))"
  proof (rule each)
    fix x assume "x \<in> set (enumerate 0 fs)"
    then have "snd x \<in> set (map snd (enumerate 0 fs))" by (simp only: set_map imageI)
    then obtain n f where x: "x = (n, f)" "f \<in> set fs" by (cases x rule: prod.exhaust) simp
    then have "clean_finding (finding_row i a c now n f)"
      using assms by (auto simp: clean_finding_def finding_row_def is_blocking_def needs_human_def)
    then show "approval.keeps (case x of (index, f) \<Rightarrow>
        bindT (insertOnConflictT ''review_findings'' review_findings review_findings_update
                 rf_id rf_id (finding_row i a c now index f)) (\<lambda>_. returnT ()))"
      unfolding x(1) prod.case
      by (intro approval.keeps_bindT approval.keeps_returnT approval.keepsI)
        (auto simp: wp_def insertOnConflictT_def approval_frame_def)
  qed
qed

lemma marker_written:
  assumes "recordReviewOccurrenceMarker i h c verdict s = Inr (u, t)"
  shows "findReviewOccurrenceMarker i h t \<noteq> None" "approval_frame s t"
  using assms
  by (auto simp: recordReviewOccurrenceMarker_def bindT_def queryT_def returnT_def insertOnConflictT_def approval_frame_def
      findReviewOccurrenceMarker_def filter_empty_conv split: if_splits option.splits)

lemma leaf_Inr:
  "queryA f s = (Inr a, t) \<longleftrightarrow> a = f s \<and> t = s" "returnA b s = (Inr a, t) \<longleftrightarrow> a = b \<and> t = s"
  "liftA r s = (Inr a, t) \<longleftrightarrow> r = Inr a \<and> t = s"
  by (auto simp: queryA_def returnA_def liftA_def throwA_def split: sum.split)

lemma approved_commit:
  assumes "approve_commit p h a c fs s = (Inr r, t)" "\<not> list_ex is_blocking fs" "\<not> list_ex needs_human fs"
  shows "approval_frame s t \<and> (truthy h \<longrightarrow> findReviewOccurrenceMarker (rw_featureRunId p) (the h) t \<noteq> None)"
proof -
  have "recordCleanReview (rw_featureRunId p) h a c fs s = Inr ((), t)"
    using assms(1)
    by (auto simp: approve_commit_def bindA_Inr returnA_def transaction_def split: sum.splits prod.splits)
  then obtain u where u: "insertReviewFindings (rw_featureRunId p) (Some a) c fs s = Inr ((), u)"
    "(if truthy h then recordReviewOccurrenceMarker (rw_featureRunId p) (the h) c ''approved'' else returnT ()) u = Inr ((), t)"
    by (auto simp: recordCleanReview_def bindT_def split: sum.splits)
  have "approval.keeps (insertReviewFindings (rw_featureRunId p) (Some a) c fs)"
    using assms(2,3) by (intro approval_findings) (auto simp: list_ex_iff)
  with u(1) have "approval_frame s u" by (force simp: approval.keeps_def wp_def dest: spec [of _ s])
  then show ?thesis
    using u(2) marker_written [of "rw_featureRunId p" "the h" c "''approved''" u "()" t] approval.R_trans
    by (auto simp: returnT_def split: if_splits)
qed

lemma arbitrate_findings:
  assumes "arbitrate rk af p run c fs r s = (Inr (Some gs), t)" "\<not> list_ex needs_human fs"
  shows "\<not> list_ex needs_human gs"
proof -
  have "\<not> list_ex needs_human (dismiss_finding d fs)" for d
    using assms(2) by (auto simp: dismiss_finding_def list_ex_iff needs_human_def)
  moreover have "gs = fs \<or> (\<exists>d. gs = dismiss_finding d fs)"
    using assms(1)
    by (auto simp: arbitrate_def Let_def bindA_Inr returnA_def throwA_def split: prod.splits if_splits)
  ultimately show ?thesis using assms(2) by auto
qed

lemma ends_decide:
  "escalate_review p run a c fs s = (Inr r, t) \<Longrightarrow> r = reviewed_as REVIEW_ESCALATED"
  "request_changes p run a c fs s = (Inr r, t) \<Longrightarrow> r = not_reviewed \<or> r = reviewed_as REVIEW_CHANGES_REQUESTED"
  by (auto simp: escalate_review_def request_changes_def bindA_Inr returnA_def split: option.splits)

lemma not_approved [simp]:
  "reviewed_as REVIEW_APPROVED \<noteq> not_reviewed" "not_reviewed \<noteq> reviewed_as REVIEW_APPROVED"
  "reviewed_as d = reviewed_as d' \<longleftrightarrow> d = d'"
  by (simp_all add: reviewed_as_def not_reviewed_def)

lemma approved_after_reviewer:
  assumes "after_reviewer rk af p run h c a out s = (Inr (reviewed_as REVIEW_APPROVED), t)"
  shows "approval_frame s t \<and> (truthy h \<longrightarrow> findReviewOccurrenceMarker (rw_featureRunId p) (the h) t \<noteq> None)"
proof -
  obtain u findings where u: "write_snapshot rk a h (vo_promptSnapshot out) s = (Inr (), u)"
    and rest: "(if list_ex needs_human findings then escalate_review p run a c findings
     else if \<not> list_ex is_blocking findings then approve_commit p h a c findings
     else if run_fix_attempt_count run \<ge> FIX_ATTEMPT_THRESHOLD then escalate_review p run a c findings
     else
       bindA (queryA (findRepeatedFinding (rw_featureRunId p) c findings)) (\<lambda>repeated.
       bindA (case repeated of
                None \<Rightarrow> returnA (Some findings)
              | Some r \<Rightarrow> arbitrate rk af p run c findings r) (\<lambda>effective.
       case effective of
         None \<Rightarrow> escalate_review p run a c findings
       | Some fs \<Rightarrow>
           if \<not> list_ex is_blocking fs then approve_commit p h a c fs
           else request_changes p run a c fs))) u = (Inr (reviewed_as REVIEW_APPROVED), t)"
    using assms unfolding after_reviewer_def bindA_Inr
    by (auto simp: liftA_def returnA_def throwA_def split: sum.splits)
  have su: "approval_frame s u"
    using recorder_approval [OF recorder_snapshot] u by (metis approval.keepsA_def snd_conv)
  have no: "\<not> list_ex needs_human findings"
  proof
    assume "list_ex needs_human findings"
    with rest have "escalate_review p run a c findings u = (Inr (reviewed_as REVIEW_APPROVED), t)" by simp
    from ends_decide(1) [OF this] show False by simp
  qed
  consider "approve_commit p h a c findings u = (Inr (reviewed_as REVIEW_APPROVED), t)" "\<not> list_ex is_blocking findings"
    | repeated effective v where
      "(case repeated of None \<Rightarrow> returnA (Some findings) | Some r \<Rightarrow> arbitrate rk af p run c findings r) u = (Inr effective, v)"
      "(case effective of
         None \<Rightarrow> escalate_review p run a c findings
       | Some fs \<Rightarrow> if \<not> list_ex is_blocking fs then approve_commit p h a c fs else request_changes p run a c fs) v
        = (Inr (reviewed_as REVIEW_APPROVED), t)"
    using rest no ends_decide(1) [of p run a c findings u "reviewed_as REVIEW_APPROVED" t]
    by (auto simp: bindA_Inr queryA_def split: if_splits)
  then show ?thesis
  proof cases
    case 1
    with approved_commit no su show ?thesis by (meson approval.R_trans)
  next
    case (2 repeated effective v)
    obtain fs where fs: "effective = Some fs" "\<not> list_ex is_blocking fs" "approve_commit p h a c fs v = (Inr (reviewed_as REVIEW_APPROVED), t)"
      using 2(2) ends_decide [of p run a c _ v "reviewed_as REVIEW_APPROVED" t] by (cases effective) (auto split: if_splits)
    have "\<not> list_ex needs_human fs"
      using 2(1) fs(1) no arbitrate_findings by (cases repeated) (auto simp: returnA_def)
    moreover have "approval_frame u v"
      using 2(1) approval_arbitrate
      by (cases repeated) (auto simp: returnA_def approval.R_refl, metis approval.keepsA_def snd_conv)
    ultimately show ?thesis using approved_commit fs su by (meson approval.R_trans)
  qed
qed

lemma preflight_proceeds: "budgetPreflightCheck q s = (Inr Proceed, t) \<Longrightarrow> t = s"
  by (auto simp: budgetPreflightCheck_def bindA_Inr returnA_def queryA_def split: option.splits if_splits)

lemma approved_review:
  assumes "runReview rk rf af resolver p s = (Inr (reviewed_as REVIEW_APPROVED), t)"
  shows "\<exists>pr. getPullRequestByFeatureRun (rw_featureRunId p) s = Some pr \<and> approval_frame s t
     \<and> (truthy (pr_head_sha pr) \<longrightarrow> findReviewOccurrenceMarker (rw_featureRunId p) (the (pr_head_sha pr)) t \<noteq> None)"
proof -
  have skip: "\<lparr>rx_reviewed = False, rx_decision = d\<rparr> \<noteq> reviewed_as e" for d e
    by (simp add: reviewed_as_def)
  obtain run where run: "find_run (rw_featureRunId p) (rw_projectId p) s = Some run" "run_state run = FE_UNDER_REVIEW"
    using assms
    by (cases "find_run (rw_featureRunId p) (rw_projectId p) s")
      (auto simp: runReview_def bindA_Inr queryA_def returnA_def split: if_splits)
  obtain repo pr where rows: "resolveRepository (rw_projectId p) s = Some repo" "getPullRequestByFeatureRun (rw_featureRunId p) s = Some pr"
      "\<not> already_reviewed (rw_featureRunId p) pr s"
    using assms run skip
    by (auto simp: runReview_def bindA_Inr queryA_def returnA_def split: option.splits if_splits)
  obtain options adapter agentRunId out c u where rec:
      "record_run (options s) (\<lambda>w. (adapter w, w)) s = (Inr (agentRunId, out), u)"
      "after_reviewer rk af p run (pr_head_sha pr) c agentRunId out u = (Inr (reviewed_as REVIEW_APPROVED), t)"
    using assms run rows
    by (auto simp: runReview_def bindA_Inr leaf_Inr Let_def dest!: preflight_proceeds
        split: preflight_result.split_asm prod.split_asm) (metis preflight_result.exhaust)
  have "approval_frame s u"
    using recorder_approval [OF recorder_pure, of options adapter] rec(1)
    by (auto simp: approval.keepsA_def dest: spec [of _ s])
  with approved_after_reviewer [OF rec(2)] rows(2) show ?thesis
    by (auto intro: approval.R_trans)
qed

text \<open>
  C30. A commit is approved once. A review that approves moves no run, logs nothing, and adds no finding
  that blocks or asks for a human; and from then on, while the mark it leaves is there, any run of the task for a run under
  review at the same head answers that the commit is approved, whatever reviewer it is given, without asking it
  and without changing anything.
\<close>

theorem commit_approved_once:
  assumes "runReview rk rf af resolver p s = (Inr (reviewed_as REVIEW_APPROVED), t)"
    "getPullRequestByFeatureRun (rw_featureRunId p) s = Some pr" "truthy (pr_head_sha pr)"
    "set (review_occurrence_markers t) \<subseteq> set (review_occurrence_markers u)"
    "find_run (rw_featureRunId p) (rw_projectId p) u = Some run" "run_state run = FE_UNDER_REVIEW"
    "resolveRepository (rw_projectId p) u = Some repo"
    "getPullRequestByFeatureRun (rw_featureRunId p) u = Some pr'" "pr_head_sha pr' = pr_head_sha pr"
  shows "feature_runs t = feature_runs s \<and> workflow_events t = workflow_events s \<and> outbox_events t = outbox_events s
     \<and> (\<forall>f \<in> set (review_findings t) - set (review_findings s).
          rf_severity f \<noteq> SEV_BLOCKING \<and> rf_severity f \<noteq> SEV_REQUIRES_HUMAN_DECISION)
     \<and> runReview rk' rf' af' resolver' p u = (Inr \<lparr>rx_reviewed = False, rx_decision = Some REVIEW_APPROVED\<rparr>, u)"
proof -
  have frame: "approval_frame s t" and mark: "findReviewOccurrenceMarker (rw_featureRunId p) (the (pr_head_sha pr)) t \<noteq> None"
    using approved_review [OF assms(1)] assms(2,3) by auto
  have "findReviewOccurrenceMarker (rw_featureRunId p) (the (pr_head_sha pr)) u \<noteq> None"
    using mark assms(4) by (auto simp: findReviewOccurrenceMarker_def filter_empty_conv dest!: first_row_in split: option.splits) blast
  then have "already_reviewed (rw_featureRunId p) pr' u" using assms(3,9) by (simp add: already_reviewed_def)
  then have "runReview rk' rf' af' resolver' p u = (Inr \<lparr>rx_reviewed = False, rx_decision = Some REVIEW_APPROVED\<rparr>, u)"
    using assms(5-8) by (simp add: runReview_def bindA_def queryA_def returnA_def)
  with frame show ?thesis by (auto simp: approval_frame_def clean_finding_def)
qed

text \<open>A run under review with a tracked head, a registered reviewer, and a reviewer that finds a nit.\<close>

definition reviewer_adapter :: agent_adapter_row where
  "reviewer_adapter =
     \<lparr>aa_id = ''ad1'', aa_role = ''ReviewerAgentAdapter'', aa_name = ''claude'', aa_implementation = ''i'',
      aa_is_active = True, aa_version = 1, aa_updated_at = 0\<rparr>"

definition under_review_store :: store where
  "under_review_store =
     (sample_store [sample_run ''r1'' ''q1'' FE_UNDER_REVIEW 0 4] (sample_ws (Some ''r1'') AU_RUNNING))
        \<lparr>pull_requests :=
           [\<lparr>pr_id = ''pr1'', pr_feature_run_id = ''r1'', pr_number = 7, pr_branch_name = ''b'', pr_base_branch = ''main'',
             pr_head_sha = Some ''h'', pr_state = ''open'', pr_review_state = ''none'', pr_ci_status = ''passed'', pr_mergeable = None,
             pr_blocking_labels = [], pr_conversations_resolved = True, pr_merged_at = None, pr_merge_sha = None, pr_closed_at = None,
             pr_version = 1, pr_updated_at = 0\<rparr>],
         repositories := [sample_repository],
         agents := no_agents\<lparr>agent_adapters := [reviewer_adapter],
           agent_capabilities := [\<lparr>ay_id = ''y1'', ay_adapter_id = ''ad1'', ay_capability = ''can_review_pull_request''\<rparr>,
             \<lparr>ay_id = ''y2'', ay_adapter_id = ''ad1'', ay_capability = ''can_return_structured_findings''\<rparr>]\<rparr>\<rparr>"

definition sample_review :: run_review_payload where
  "sample_review =
     \<lparr>rw_projectId = ''p1'', rw_featureRunId = ''r1'', rw_correlationId = ''x'', rw_reviewerAdapterName = ''claude'',
      rw_arbiterAdapterName = None\<rparr>"

definition nit_output :: reviewer_output where
  "nit_output =
     \<lparr>vo_findings = [\<lparr>raw_severity = ''nit'', raw_category = ''style'', raw_description = ''n'', raw_filePath = None,
        raw_lineStart = None, raw_lineEnd = None\<rparr>], vo_tokensUsed = None, vo_promptSnapshot = None\<rparr>"

definition sample_recording :: review_recording where
  "sample_recording =
     \<lparr>vk_to_number = (\<lambda>_. None), vk_parse = (\<lambda>_. None), vk_stringify = (\<lambda>_. ''''), vk_review_json = (\<lambda>_. JNull),
      vk_arbiter_json = (\<lambda>_. JNull), vk_message = (\<lambda>_. '''')\<rparr>"

definition sample_review_run :: "run_review_payload \<Rightarrow> run_review_result db_action" where
  "sample_review_run =
     runReview sample_recording (\<lambda>_ _ _ _. Inr (\<lambda>_ _. Inr nit_output)) (\<lambda>_. Inl (OtherError ''no arbiter'')) (\<lambda>_ _ _. Inr quiet_client)"

lemma sample_capabilities:
  "parseCapabilities [''can_review_pull_request'', ''can_return_structured_findings''] (''agent_capabilities row(s) for adapter '' @ ''ad1'') =
     Inr [''can_review_pull_request'', ''can_return_structured_findings'']"
  by code_simp

lemma sample_adapter:
  assumes "agent_adapters (agents s) = agent_adapters (agents under_review_store)"
    "agent_capabilities (agents s) = agent_capabilities (agents under_review_store)"
  shows "resolve_adapter ''ReviewerAgentAdapter'' ''claude'' s = Inr \<lparr>ad_id = ''ad1'', ad_role = ''ReviewerAgentAdapter'', ad_name = ''claude'',
       ad_implementation = ''i'', ad_isActive = True, ad_version = 1,
       ad_capabilities = [''can_review_pull_request'', ''can_return_structured_findings'']\<rparr>"
    "getById ''ad1'' s = Inr \<lparr>ad_id = ''ad1'', ad_role = ''ReviewerAgentAdapter'', ad_name = ''claude'',
       ad_implementation = ''i'', ad_isActive = True, ad_version = 1,
       ad_capabilities = [''can_review_pull_request'', ''can_return_structured_findings'']\<rparr>"
  using assms sample_capabilities
  by (simp_all add: resolve_adapter_def getById_def adapters_named_def adapters_with_id_def toRecord_def under_review_store_def
      reviewer_adapter_def)

lemma sample_record:
  assumes "agents s = agents under_review_store" "ro_adapterId opts = ''ad1''" "ro_role opts = ''ReviewerAgentAdapter''"
    "set (ro_capabilitiesUsed opts) \<subseteq> {''can_review_pull_request'', ''can_return_structured_findings''}"
    "ro_costExtractor opts (Finished out) = Inr None" "ro_toolOperationsExtractor opts (Finished out) = Inr []"
  shows "\<exists>i t. record_run opts (\<lambda>u. (Inr out, u)) s = (Inr (i, out), t)"
proof -
  have tables: "agent_runs (agents s) = []" "agent_context_packs (agents s) = []"
    by (simp_all add: assms(1) under_review_store_def no_agents_def)
  have known: "getById ''ad1'' (s\<lparr>draws := d\<rparr>) = Inr \<lparr>ad_id = ''ad1'', ad_role = ''ReviewerAgentAdapter'', ad_name = ''claude'',
       ad_implementation = ''i'', ad_isActive = True, ad_version = 1,
       ad_capabilities = [''can_review_pull_request'', ''can_return_structured_findings'']\<rparr>" for d
    by (rule sample_adapter) (simp_all add: assms(1))
  have used: "filter (\<lambda>c. c \<notin> set [''can_review_pull_request'', ''can_return_structured_findings'']) (ro_capabilitiesUsed opts) = []"
    using assms(4) by (auto simp: filter_empty_conv)
  have ok: "AR_assertValid AR_QUEUED AR_RUNNING u = (Inr (), u)" "AR_assertValid AR_RUNNING AR_SUCCEEDED u = (Inr (), u)" for u
    by (simp_all add: AR_assertValid_def assertValidT_def assertValid_def transaction_def returnT_def AGENT_RUN_MATRIX_def lookup_def edge_of_def)
  show ?thesis
    using known used ok assms(2,3,5,6) tables
    by (cases "ro_contextPack opts")
      (simp_all add: record_run_def record_success_def record_usage_def insert_agent_run_def insert_context_pack_def update_agent_run_def
        insertG_def executeG_def insertT_def executeT_def catchA_def bindA_def bindT_def queryA_def returnA_def liftA_def transaction_def
        generateId_def returnT_def Let_def split: prod.split)
qed

lemma recorder_tables:
  "recorder_frame s t \<Longrightarrow> review_findings t = review_findings s"
  "recorder_frame s t \<Longrightarrow> review_occurrence_markers t = review_occurrence_markers s"
  by (auto simp: recorder_frame_def)

lemma bindA_at: "m s = (Inr a, t) \<Longrightarrow> bindA m k s = k a t"
  by (simp add: bindA_def)

lemma bindA_leaves:
  "bindA (queryA f) k s = k (f s) s" "bindA (returnA a) k' s = k' a s" "g s = Inr b \<Longrightarrow> bindA (\<lambda>s. liftA (g s) s) k'' s = k'' b s"
  "bindA (liftA (Inr c)) l s = l c s"
  by (simp_all add: bindA_def queryA_def returnA_def liftA_def)

lemma sample_review_runs:
  "\<exists>t. sample_review_run sample_review under_review_store = (Inr (reviewed_as REVIEW_APPROVED), t)"
proof -
  let ?s = under_review_store
  let ?run = "sample_run ''r1'' ''q1'' FE_UNDER_REVIEW 0 4"
  have rows: "find_run ''r1'' ''p1'' ?s = Some ?run" "resolveRepository ''p1'' ?s = Some sample_repository"
    "\<exists>pr. getPullRequestByFeatureRun ''r1'' ?s = Some pr \<and> \<not> already_reviewed ''r1'' pr ?s"
    "resolveEstimatedCostUsd (vk_to_number sample_recording) ''REVIEW_ESTIMATED_COST_USD'' ?s = None"
    by (simp_all add: under_review_store_def run_simps resolveRepository_def sample_repository_def getPullRequestByFeatureRun_def
        already_reviewed_def findReviewOccurrenceMarker_def resolveEstimatedCostUsd_def)
  then obtain pr where pr: "getPullRequestByFeatureRun ''r1'' ?s = Some pr" "\<not> already_reviewed ''r1'' pr ?s" by blast
  let ?ad = "\<lparr>ad_id = ''ad1'', ad_role = ''ReviewerAgentAdapter'', ad_name = ''claude'', ad_implementation = ''i'', ad_isActive = True,
      ad_version = 1, ad_capabilities = [''can_review_pull_request'', ''can_return_structured_findings'']\<rparr>"
  have adapter: "resolve_adapter ''ReviewerAgentAdapter'' ''claude'' ?s = Inr ?ad" by (rule sample_adapter(1)) simp_all
  have "\<exists>i t. record_run (reviewer_options sample_recording ?ad input ''q1'' ?s) (\<lambda>t. (Inr nit_output, t)) ?s = (Inr (i, nit_output), t)" for input
    by (rule sample_record) (simp_all add: reviewer_options_def token_usage_def nit_output_def)
  then obtain i t where rec: "\<And>input. record_run (reviewer_options sample_recording ?ad input ''q1'' ?s) (\<lambda>t. (Inr nit_output, t)) ?s
      = (Inr (i input, nit_output), t input)" by metis
  have rec': "bindA (\<lambda>s. record_run (reviewer_options sample_recording ?ad input ''q1'' s) (\<lambda>t. (Inr nit_output, t)) s) k ?s
      = k (i input, nit_output) (t input)" for input and k :: "string \<times> reviewer_output \<Rightarrow> run_review_result db_action"
    by (rule bindA_at) (rule rec)
  have findings: "normalizeReviewerFindings (vo_findings nit_output) =
      Inr [\<lparr>fi_severity = SEV_NIT, fi_category = ''style'', fi_description = ''n'', fi_filePath = None, fi_lineStart = None, fi_lineEnd = None\<rparr>]"
    by (simp add: nit_output_def parseFinding_def parse_severity_def all_severities_def)
  have "recorder.keepsA (\<lambda>s. record_run (reviewer_options sample_recording ?ad input ''q1'' s) (\<lambda>t. (Inr nit_output, t)) s)" for input
    by (rule recorder_pure)
  then have "recorder_frame ?s (t input)" for input
    using rec [of input] unfolding recorder.keepsA_def by (metis snd_conv)
  then have tables: "review_findings (t input) = []" "review_occurrence_markers (t input) = []" for input
    using recorder_tables [of ?s "t input"] by (simp_all add: under_review_store_def sample_store_def)
  let ?tx = "\<lambda>h c input. transaction (recordCleanReview ''r1'' h (i input) c
      [\<lparr>fi_severity = SEV_NIT, fi_category = ''style'', fi_description = ''n'', fi_filePath = None, fi_lineStart = None, fi_lineEnd = None\<rparr>])"
  have fine: "fst (?tx h c input (t input)) = Inr ()" for h c input
    using tables
    by (simp add: transaction_def recordCleanReview_def insertReviewFindings_def recordReviewOccurrenceMarker_def bindT_def queryT_def
        returnT_def insertOnConflictT_def finding_row_def)
  obtain w where w: "w = (\<lambda>h c input. snd (?tx h c input (t input)))" by simp
  have clean: "bindA (?tx h c input) k (t input) = k () (w h c input)" for h c input and k :: "unit \<Rightarrow> run_review_result db_action"
    unfolding w by (rule bindA_at) (metis fine prod.collapse)
  have nit: "vo_promptSnapshot nit_output = None" "run_state ?run = FE_UNDER_REVIEW" "run_feature_request_id ?run = ''q1''"
    by (simp_all add: nit_output_def sample_run_def)
  have after: "after_reviewer sample_recording af sample_review ?run h c (i input) nit_output (t input)
      = (Inr (reviewed_as REVIEW_APPROVED), w h c input)" for af h c input
    by (simp add: after_reviewer_def write_snapshot_def nit findings bindA_leaves approve_commit_def clean
        sample_review_def is_blocking_def needs_human_def) (simp add: returnA_def)
  have "\<exists>h c input. sample_review_run sample_review ?s = (Inr (reviewed_as REVIEW_APPROVED), w h c input)"
    using after
    by (simp add: sample_review_run_def runReview_def sample_review_def bindA_leaves rows pr nit adapter budgetPreflightCheck_def
        rec') blast
  then show ?thesis by blast
qed

theorem commit_approved_once_witness:
  "\<exists>t. sample_review_run sample_review under_review_store = (Inr (reviewed_as REVIEW_APPROVED), t)
     \<and> sample_review_run sample_review t = (Inr \<lparr>rx_reviewed = False, rx_decision = Some REVIEW_APPROVED\<rparr>, t)
     \<and> map run_state (feature_runs t) = [FE_UNDER_REVIEW]"
proof -
  let ?s = under_review_store
  obtain t where run: "sample_review_run sample_review ?s = (Inr (reviewed_as REVIEW_APPROVED), t)" using sample_review_runs by blast
  obtain pr where pr: "getPullRequestByFeatureRun ''r1'' ?s = Some pr" "truthy (pr_head_sha pr)"
    by (simp add: under_review_store_def getPullRequestByFeatureRun_def truthy_def)
  have ids: "rw_featureRunId sample_review = ''r1''" "rw_projectId sample_review = ''p1''" by (simp_all add: sample_review_def)
  have "approval_frame ?s t" using approved_review [OF run [unfolded sample_review_run_def]] by blast
  then have same: "feature_runs t = feature_runs ?s" "feature_requests t = feature_requests ?s" "pull_requests t = pull_requests ?s"
    "repositories t = repositories ?s" by (simp_all add: approval_frame_def)
  have "find_run ''r1'' ''p1'' t = Some (sample_run ''r1'' ''q1'' FE_UNDER_REVIEW 0 4)" "resolveRepository ''p1'' t = Some sample_repository"
    "getPullRequestByFeatureRun ''r1'' t = Some pr"
    using pr(1) by (simp_all add: find_run_def run_in_project_def resolveRepository_def getPullRequestByFeatureRun_def same)
      (simp_all add: under_review_store_def run_simps sample_repository_def)
  note rows = this
  have at: "getPullRequestByFeatureRun (rw_featureRunId sample_review) ?s = Some pr"
    "find_run (rw_featureRunId sample_review) (rw_projectId sample_review) t = Some (sample_run ''r1'' ''q1'' FE_UNDER_REVIEW 0 4)"
    "run_state (sample_run ''r1'' ''q1'' FE_UNDER_REVIEW 0 4) = FE_UNDER_REVIEW"
    "resolveRepository (rw_projectId sample_review) t = Some sample_repository"
    "getPullRequestByFeatureRun (rw_featureRunId sample_review) t = Some pr"
    unfolding ids using pr(1) rows by (simp_all, simp add: sample_run_def)
  note again = commit_approved_once [OF run [unfolded sample_review_run_def] at(1) pr(2) subset_refl at(2-5) refl,
      of sample_recording "\<lambda>_ _ _ _. Inr (\<lambda>_ _. Inr nit_output)" "\<lambda>_. Inl (OtherError ''no arbiter'')" "\<lambda>_ _ _. Inr quiet_client"]
  have "sample_review_run sample_review t = (Inr \<lparr>rx_reviewed = False, rx_decision = Some REVIEW_APPROVED\<rparr>, t)"
    unfolding sample_review_run_def by (rule again [THEN conjunct2, THEN conjunct2, THEN conjunct2, THEN conjunct2])
  moreover have "map run_state (feature_runs t) = [FE_UNDER_REVIEW]"
    by (simp add: same under_review_store_def sample_store_def sample_run_def)
  ultimately show ?thesis using run by (intro exI [of _ t] conjI)
qed

end
