(* ===== verification/Spec2Isabelle.thy ===== *)
theory Spec2Isabelle
  imports ReconcileFacts PlanningFacts Adapters ForgeFacts WebhookFacts MergeFacts ProjectFacts CoderFacts ReviewFacts
begin

text \<open>
  Verification of the workflow core of MiniCoder, the program under \<open>src/packages\<close>: an
  orchestrator that plans a project with its users, takes its features, one at a time, from
  selection over coding, pull request, checks and review to a merge, under budgets, locks and human
  decisions, and ends with a reviewed design document. All of its
  state is in database tables; every change is a command or a statement of a background poller.
  Around this core, tasks choose the next command, forges report by webhook and are read and asked for
  merges, and a coder adapter changes the repository; they are modelled as far as they decide anything.

  \<^bold>\<open>Parts and theories.\<close> Each theory models the files named in its own opening text.
  \<open>Prelude\<close>: lists as tables (first row, ORDER BY, UPDATE and DELETE with a WHERE), the collections of
  rewrite rules. \<open>Domain\<close>: the state types (\<open>core/src/domain/states.ts\<close>), the rows of the tables
  (\<open>entities.ts\<close>) and the \<open>store\<close>, a record of all tables with the clock and a sequence of drawn
  identifiers. \<open>StateMachine\<close>: all eight transition matrices and the validator
  (\<open>core/src/statemachine\<close>). \<open>Redaction\<close>: the secret redactor (\<open>auth/redaction.ts\<close>), its regular
  expressions as data with a matcher. \<open>Persistence\<close>: transactions as functions of the store that
  return an error or a result with a new store, \<open>transaction\<close> with its rollback, optimistic locking
  (\<open>core/src/persistence\<close>, \<open>persistence-sqlite/src/client.ts\<close>), and the weakest precondition \<open>wp\<close>
  the proofs compute with. \<open>Auth\<close>: roles, actors and the guard. \<open>Commands\<close>: envelopes, handlers,
  the executor, the registry and the helpers (\<open>core/src/commands\<close>): idempotency slots, log and
  outbox writers, the fence assertion. \<open>FeatureRuns\<close>: the statements the feature handlers share.
  \<open>Review\<close>, \<open>FeatureSelection\<close>, \<open>HumanDispositions\<close>, \<open>SkipFeature\<close>, \<open>GithubHandlers\<close>,
  \<open>Automation\<close>, \<open>MergeGate\<close>: the 28 command handlers of \<open>commands/handlers/feature\<close>,
  \<open>github\<close> and \<open>automation\<close>, each as a \<open>..._body\<close> and a \<open>...Handler\<close>, with findings,
  disagreements, budgets and the merge gate they use. \<open>EventSchemas\<close>: the payload schemas.
  \<open>Queue\<close>: backoff, batches and the statements of the pollers; \<open>Delivery\<close>: their polls
  (\<open>workflow/src/outbox\<close>, \<open>inbox\<close>). \<open>Locks\<close>: lock manager, execution lane, sweeper
  (\<open>workflow/src/locks\<close>, \<open>lanes\<close>, \<open>sweep\<close>). \<open>Execution\<close>: how a claimed transaction ends.
  \<open>PlanningStore\<close>, \<open>Clarification\<close>, \<open>Planning\<close>, \<open>Backlog\<close>, \<open>BacklogCommands\<close>: the commands of
  \<open>commands/handlers/clarification\<close>, \<open>planning\<close> and \<open>plan\<close>, the backlog's Markdown parser and writer
  (\<open>core/src/backlog\<close>) and its cycle search. \<open>DesignDoc\<close>, \<open>Project\<close>: the design document
  (\<open>core/src/design-doc\<close>), project acceptance (\<open>core/src/project\<close>) and the commands of
  \<open>commands/handlers/project\<close>. \<open>PlanningSystem\<close>: those 26 commands as one request type. \<open>Adapters\<close>: the
  capability tokens, the registry and the run recorder (\<open>core/src/adapters\<close>).
  \<open>System\<close>: one request per handler, and the step relation of the whole. \<open>Reconcile\<close>: the
  reconciliation pass (\<open>core/src/scm/reconcile.ts\<close>). \<open>Forge\<close>: the clients of GitHub, Gitea and
  GitLab (\<open>github/src\<close>, \<open>scm-gitea/src\<close>, \<open>scm-gitlab/src\<close>), what they make of a forge's answers. \<open>Tasks\<close>:
  start-next-feature, run-merge-gate and the budget preflight (\<open>triggerdev/src/tasks\<close>); \<open>ReconcileTask\<close>: the
  scheduled reconciliation; \<open>RunCoder\<close>: the coder's task, with \<open>Workspace\<close>, the git workspace and the diff
  guard of \<open>adapters-coder/src\<close>; \<open>RunReview\<close>: the reviewer's task with the arbiter, and the sanitizer of prompts. \<open>Webhooks\<close>: the receivers, the events they make of a delivery, and the
  inbox handlers of all three providers. \<open>MergeRoute\<close>: the routes and CLI commands around a merge, with
  the route's own idempotency slots and the HTTP form of errors (\<open>api/src\<close>, \<open>cli/src/commands/merge.ts\<close>).

  \<^bold>\<open>How the code corresponds.\<close> A SELECT is a function of the store, an UPDATE is \<open>update_where\<close>, an
  INSERT fails on a primary key that exists; a thrown error is \<open>Inl\<close> and rolls the transaction back.
  A handler's \<open>execute\<close> is \<open>claimed_transaction scope body\<close>: claim the slot, replay a stored result,
  or run the body and store its result. The two gated handlers are \<open>gated_execute\<close>, two
  transactions. Each transaction reads the clock once. Identifiers are drawn from an arbitrary
  sequence; a collision is an error of the model, so liveness statements name it. Strings are 8-bit,
  so that their length is their number of bytes, and lower-casing is ASCII; a long dash in a message is
  written as a hyphen. A forge is a record of functions of the store, a runner of
  commands a function of a state of its own: both are parameters, as are the signatures of webhooks and
  the adapters, and no property assumes more of them than its hypotheses say. Money is rational. A payload column holds the parsed JSON value.

  \<^bold>\<open>What the lemmas show.\<close> Three layers. First, guarantees: the locale \<open>store_guarantee\<close> is a reflexive and
  transitive relation between stores, with the rules by which statements, transactions, polls and
  steps keep one; its interpretations \<open>evo\<close> and \<open>body\<close> (logs only grow, runs and automation move
  along their matrices, one version per edge), \<open>slots\<close> (completed slots live until they expire),
  \<open>locks\<close> (fences never fall), \<open>core\<close> and \<open>hist\<close> carry one lemma per handler and per poller; \<open>plan\<close> does
  for the planning commands, which also create runs, and \<open>lc\<close> (theories \<open>Lifecycle\<close>, \<open>LifecycleSteps\<close>)
  says that plans, clarifications and projects move along their machines. The locale
  \<open>event_queue\<close> proves the pollers once, for the outbox and the inbox, \<open>moving_table\<close> what rows that take
  steps add up to. Second, \<open>steps_history\<close> and \<open>steps_lifecycle\<close>: what no
  sequence of steps undoes; the properties over time rest on them. Third, what one command does:
  \<open>FeatureFacts\<close>, \<open>RunFacts\<close>, \<open>GateFacts\<close>, \<open>AutomationFacts\<close> (a command that succeeds was justified
  and has its effect, by \<open>fresh_success\<close>; or exactly how it ends, by \<open>fresh_outcome\<close>), \<open>EdgeFacts\<close>
  (matrices, redaction, schemas), \<open>QueueFacts\<close> (locks, batches, polls), \<open>SystemFacts\<close> (who asks, replay,
  failure), \<open>ReconcileFacts\<close> (passes), \<open>PlanningFacts\<close> (plans, clarifications, projects),
  \<open>BacklogFacts\<close> and \<open>BacklogRoundtrip\<close> (cycles, lines, parsing what was written), \<open>ProjectFacts\<close>
  (acceptance). Around the core: \<open>TaskFacts\<close> and \<open>ReviewFacts\<close> show that tasks, inbox handlers, merge attempts and receivers are
  sequences of steps, so that all of the above holds of them, and \<open>ReviewFacts\<close> what a clean review leaves; \<open>ForgeFacts\<close> what an observation says,
  \<open>WebhookFacts\<close> that a delivery counts once, \<open>MergeFacts\<close> when and how often a merge is asked for,
  \<open>TaskOutcomes\<close> and \<open>CoderFacts\<close> what tasks report and what may be pushed, over \<open>LockFrame\<close>, what a lock
  leaves alone. \<open>Samples\<close> holds the concrete project of the witnesses.

  \<^bold>\<open>Bounds.\<close> Every definition terminates; the cycle search by the white nodes it has left. The loops of the code are bounded in the code: the cascade
  retries \<open>MAX_CASCADE_RETRIES\<close> = 3 times, a reconciliation pass takes \<open>MAX_RECONCILE_STEPS\<close> = 5 actions, a
  poll handles one batch. A handler of an event is a parameter: what it does between the renewals
  of its claim and after them is any composition of steps, so the pollers' properties hold for every
  interleaving with other commands at the granularity of single statements.

  \<^bold>\<open>Not modelled.\<close> Foreign keys, zod parsing of command payloads, \<open>guardDescription\<close> and \<open>recoveryPath\<close>
  of the matrices (no code reads them), nested transactions, and the PostgreSQL client. Of
  the forge clients, the transport; of the adapters, the language models, the sandbox and the
  planner's, the reviewer's and the fake ones; the tasks around the planner and the design document. The other HTTP
  routes, read models and user interfaces do no more to these tables than call the commands, but for
  two repair paths outside the step relation: \<open>state repair\<close> of \<open>cli/src/commands/state.ts\<close> writes
  a run's state directly, and the diagnostics routes of \<open>api\<close> reset events and locks. Outside it are also the
  slots of routes, which no command reads. \<open>JSON.parse\<close> and \<open>JSON.stringify\<close> are parameters of the sanitizer. The step
  \<open>outside\<close> lets the rest of the program do anything to the tables no modelled command writes
  under a guarantee: repositories, policies, costs, pull requests, disagreements, markers, the
  recorder's tables, artifact exports, and the sections, decisions and terms of the design
  document; \<open>arrive\<close> adds inbox events, \<open>review\<close> is the review task's own transaction. The planner's call in \<open>plan\<close> is any composition of steps.
\<close>

section \<open>Runs\<close>

lemma steps_core:
  assumes "(system_step bound)\<^sup>*\<^sup>* s t" "0 \<le> bound"
  shows "audit_grows s t" "runs_advance s t" "slots_kept s t" "locks_advance s t"
    "outbox_clean s \<Longrightarrow> outbox_clean t"
    "queue_advances outbox_table bound s t" "queue_advances inbox_table bound s t"
  using steps_history [OF assms] by (simp_all add: history_def core_history_def)

lemma request_steps: "(system_step bound)\<^sup>*\<^sup>* s (snd (run_request q s))"
  by (intro r_into_rtranclp system_step.command)

lemma request_wf: "run_request q s = (r, t) \<Longrightarrow> wf_store s \<Longrightarrow> wf_store t"
  using request_evolves [of q] unfolding evo.keepsA_def evolves_def by (metis snd_conv)

lemma tick_steps: "0 \<le> ms \<Longrightarrow> (system_step bound)\<^sup>*\<^sup>* s (s\<lparr>clock := clock s + ms\<rparr>)"
  by (intro r_into_rtranclp system_step.tick)

text \<open>
  C2. Whatever the system does, a run stays in its table under its identifier, and every version it
  gains is one edge of the feature matrix, taken from the state it was in.
\<close>

theorem runs_follow_matrix:
  assumes "(system_step bound)\<^sup>*\<^sup>* s t" "0 \<le> bound" "wf_store s" "r \<in> set (feature_runs s)"
  shows "\<exists>r' \<in> set (feature_runs t). run_id r' = run_id r
     \<and> (\<exists>n. (run_state r, run_state r') \<in> edges FEATURE_EXECUTION_MATRIX ^^ n \<and> run_version r' = run_version r + int n)"
proof -
  obtain r' where "r' \<in> set (feature_runs t)" "run_moves r r'"
    using steps_core(2) [OF assms(1,2)] assms(3,4) by (auto simp: runs_advance_def)
  with run_moves_path run_moves_frame show ?thesis unfolding fe_edges_def by blast
qed

text \<open>The sample project, and a selection that moves it.\<close>

definition waiting_store :: store where
  "waiting_store =
     sample_store [sample_run ''r2'' ''q2'' FE_APPROVED_PENDING_EXECUTION 0 4, sample_run ''r1'' ''q1'' FE_MERGED 2 9]
       (sample_ws None AU_RUNNING)"

definition select_request :: request where
  "select_request = SelectFeature (sample_envelope OPERATOR Human ''k'' (sample_payload ''r2'' 4))"

definition selected_store :: store where
  "selected_store = snd (run_request select_request waiting_store)"

lemma selected:
  "\<exists>res. run_request select_request waiting_store = (Inr res, selected_store)"
  "feature_runs selected_store =
     [sample_run ''r2'' ''q2'' FE_SELECTED 0 5 \<lparr>run_updated_at := 1000\<rparr>, sample_run ''r1'' ''q1'' FE_MERGED 2 9]"
  "length (workflow_events selected_store) = 1"
proof -
  have "\<exists>res t. run_request select_request waiting_store = (Inr res, t)
     \<and> feature_runs t = [sample_run ''r2'' ''q2'' FE_SELECTED 0 5 \<lparr>run_updated_at := 1000\<rparr>, sample_run ''r1'' ''q1'' FE_MERGED 2 9]
     \<and> length (workflow_events t) = 1"
    by (simp add: select_request_def waiting_store_def SelectFeatureHandler_def SelectFeature_body_def run_simps)
  then show "\<exists>res. run_request select_request waiting_store = (Inr res, selected_store)"
    "feature_runs selected_store =
       [sample_run ''r2'' ''q2'' FE_SELECTED 0 5 \<lparr>run_updated_at := 1000\<rparr>, sample_run ''r1'' ''q1'' FE_MERGED 2 9]"
    "length (workflow_events selected_store) = 1"
    by (auto simp: selected_store_def)
qed

lemma selected_steps: "(system_step bound)\<^sup>*\<^sup>* waiting_store selected_store"
  unfolding selected_store_def by (rule request_steps)

lemma waiting:
  "wf_store waiting_store" "wf_slots waiting_store" "wf_locks waiting_store" "workflow_events waiting_store = []"
  "outbox_events waiting_store = []" "clock waiting_store = 1000" "idempotency_keys waiting_store = []"
  "set (feature_runs waiting_store) =
     {sample_run ''r2'' ''q2'' FE_APPROVED_PENDING_EXECUTION 0 4, sample_run ''r1'' ''q1'' FE_MERGED 2 9}"
  by (simp_all add: waiting_store_def sample_store_def wf_store_def wf_slots_def wf_locks_def sample_run_def)

theorem runs_follow_matrix_witness:
  "(system_step 5)\<^sup>*\<^sup>* waiting_store selected_store
     \<and> (\<exists>r' \<in> set (feature_runs selected_store). run_id r' = ''r2''
         \<and> (\<exists>n. (FE_APPROVED_PENDING_EXECUTION, run_state r') \<in> edges FEATURE_EXECUTION_MATRIX ^^ n \<and> run_version r' = 4 + int n))"
  using runs_follow_matrix [OF selected_steps [of 5] _ waiting(1), of "sample_run ''r2'' ''q2'' FE_APPROVED_PENDING_EXECUTION 0 4"]
    selected_steps
  by (simp add: waiting sample_run_def)

text \<open>
  C12. A merged or skipped run is never touched again: its row is in the table exactly as it was.
\<close>

theorem settled_runs_stay:
  assumes "(system_step bound)\<^sup>*\<^sup>* s t" "0 \<le> bound" "wf_store s" "r \<in> set (feature_runs s)"
    "run_state r = FE_MERGED \<or> run_state r = FE_SKIPPED"
  shows "r \<in> set (feature_runs t)"
proof -
  obtain r' where "r' \<in> set (feature_runs t)" "run_moves r r'"
    using steps_core(2) [OF assms(1,2)] assms(3,4) by (auto simp: runs_advance_def)
  moreover have "(run_state r, b) \<notin> fe_edges" for b using assms(5) merged_terminal skipped_terminal by auto
  ultimately show ?thesis using run_moves_terminal by metis
qed

theorem settled_runs_stay_witness:
  "(system_step 5)\<^sup>*\<^sup>* waiting_store selected_store \<and> selected_store \<noteq> waiting_store
     \<and> sample_run ''r1'' ''q1'' FE_MERGED 2 9 \<in> set (feature_runs selected_store)"
proof -
  have "sample_run ''r1'' ''q1'' FE_MERGED 2 9 \<in> set (feature_runs selected_store)"
    by (rule settled_runs_stay [OF selected_steps [of 5] _ waiting(1)]) (simp_all add: waiting, simp add: sample_run_def)
  then show ?thesis using selected_steps selected(3) waiting(4) by force
qed

text \<open>
  C18. No run is ever fixed more often than the threshold: the bound holds of every run of every store
  the system reaches from one where it holds, new runs included.
\<close>

theorem fix_attempts_stay_bounded:
  assumes "(system_step bound)\<^sup>*\<^sup>* s t" "0 \<le> bound" "wf_store s"
    "\<forall>r \<in> set (feature_runs s). run_fix_attempt_count r \<le> FIX_ATTEMPT_THRESHOLD"
  shows "\<forall>r \<in> set (feature_runs t). run_fix_attempt_count r \<le> FIX_ATTEMPT_THRESHOLD"
  using steps_core(2) [OF assms(1,2)] assms(3,4) by (simp add: runs_advance_def fix_attempts_bounded_def)

theorem fix_attempts_stay_bounded_witness:
  "(system_step 5)\<^sup>*\<^sup>* waiting_store selected_store \<and> \<not> (\<exists>r \<in> set (feature_runs selected_store). 5 < run_fix_attempt_count r)"
  using fix_attempts_stay_bounded [OF selected_steps [of 5] _ waiting(1)] selected_steps
  by (simp add: waiting sample_run_def FIX_ATTEMPT_THRESHOLD_def not_less)

section \<open>Logs\<close>

text \<open>
  C25. The audit tables are append-only: no sequence of steps removes, reorders or changes an entry of
  the workflow log, the approvals, the policy decisions, the gate evaluations or the coder's
  responses.
\<close>

theorem audit_append_only:
  assumes "(system_step bound)\<^sup>*\<^sup>* s t" "0 \<le> bound"
  shows "prefix (workflow_events s) (workflow_events t) \<and> prefix (human_approvals s) (human_approvals t)
     \<and> prefix (policy_decisions s) (policy_decisions t)
     \<and> prefix (merge_gate_evaluations s) (merge_gate_evaluations t)
     \<and> prefix (coder_responses s) (coder_responses t)"
  using steps_core(1) [OF assms] by (simp add: audit_grows_def)

theorem audit_append_only_witness:
  "(system_step 5)\<^sup>*\<^sup>* waiting_store selected_store \<and> length (workflow_events selected_store) = 1
     \<and> prefix (workflow_events waiting_store) (workflow_events selected_store)"
  using audit_append_only [OF selected_steps [of 5]] selected_steps selected(3) by simp



section \<open>Events\<close>

definition keeps_events :: "int \<Rightarrow> 'm queue_row_scheme list \<Rightarrow> 'm queue_row_scheme list \<Rightarrow> bool" where
  "keeps_events bound old new =
     (distinct (map q_id new) \<and> (\<forall>r \<in> set new. q_attempts r \<le> bound)
      \<and> (\<forall>r \<in> set old.
           if q_status r = EV_DELIVERED \<or> q_status r = EV_PROCESSED then r \<in> set new
           else \<exists>r' \<in> set new. q_id r' = q_id r \<and> q_event_type r' = q_event_type r
                  \<and> q_payload r' = q_payload r \<and> q_attempts r \<le> q_attempts r'))"

lemma queue_keeps_events:
  assumes "queue_advances table bound s t" "distinct (map q_id (fst table s))" "\<forall>r \<in> set (fst table s). q_attempts r \<le> bound"
  shows "keeps_events bound (fst table s) (fst table t)"
proof -
  have adv: "distinct (map q_id (fst table t))" "\<forall>r \<in> set (fst table t). q_attempts r \<le> bound"
    "\<And>r. r \<in> set (fst table s) \<Longrightarrow> \<exists>r' \<in> set (fst table t). event_later r r'"
    using assms by (auto simp: queue_advances_def wf_queue_def)
  show ?thesis
    unfolding keeps_events_def
  proof (intro conjI adv ballI)
    fix r assume "r \<in> set (fst table s)"
    then obtain r' where "r' \<in> set (fst table t)" "event_later r r'" using adv(3) by blast
    then show "if q_status r = EV_DELIVERED \<or> q_status r = EV_PROCESSED then r \<in> set (fst table t)
        else \<exists>r' \<in> set (fst table t). q_id r' = q_id r \<and> q_event_type r' = q_event_type r
               \<and> q_payload r' = q_payload r \<and> q_attempts r \<le> q_attempts r'"
      by (auto simp: event_later_def event_final_def)
  qed
qed

text \<open>
  C17. A delivered or processed event is final, and no event is tried more often than the pollers'
  limit: whatever the pollers and everything between their statements do, a final row stays as
  it is, any other row keeps its type and payload and never loses an attempt, and identifiers
  stay unique; of the outbox and of the inbox.
\<close>

theorem events_advance:
  assumes "(system_step bound)\<^sup>*\<^sup>* s t" "0 \<le> bound"
    "distinct (map q_id (outbox_events s))" "\<forall>r \<in> set (outbox_events s). q_attempts r \<le> bound"
    "distinct (map q_id (inbox_events s))" "\<forall>r \<in> set (inbox_events s). q_attempts r \<le> bound"
  shows "keeps_events bound (outbox_events s) (outbox_events t) \<and> keeps_events bound (inbox_events s) (inbox_events t)"
  using queue_keeps_events [OF steps_core(6) [OF assms(1,2)]] queue_keeps_events [OF steps_core(7) [OF assms(1,2)]] assms(3-6)
  by (simp add: outbox_table_def inbox_table_def)

theorem events_advance_witness:
  "let s = outbox_store [(sample_event ''e1'' ''old'' 1)\<lparr>q_status := EV_DELIVERED\<rparr>, sample_event ''e2'' ''old'' 2];
       t = snd (pollAndDispatch DEFAULT_OPTIONS [(''old'', done_handler)] s)
   in (system_step 5)\<^sup>*\<^sup>* s t \<and> (sample_event ''e1'' ''old'' 1)\<lparr>q_status := EV_DELIVERED\<rparr> \<in> set (outbox_events t)
    \<and> distinct (map q_id (outbox_events t))"
proof -
  let ?s = "outbox_store [(sample_event ''e1'' ''old'' 1)\<lparr>q_status := EV_DELIVERED\<rparr>, sample_event ''e2'' ''old'' 2]"
  let ?t = "snd (pollAndDispatch DEFAULT_OPTIONS [(''old'', done_handler)] ?s)"
  have "handlers_keep (system_step 5)\<^sup>*\<^sup>* [(''old'', done_handler)]"
    using tick_steps [of 100 5] by (simp add: handlers_keep_def done_handler_def)
  then have steps: "(system_step 5)\<^sup>*\<^sup>* ?s ?t"
    by (intro r_into_rtranclp system_step.dispatch) (simp_all add: DEFAULT_OPTIONS_def)
  from events_advance [OF this] have "keeps_events 5 (outbox_events ?s) (outbox_events ?t)"
    by (simp add: outbox_store_def sample_event_def sample_store_def)
  with steps show ?thesis by (simp add: Let_def keeps_events_def outbox_store_def sample_event_def)
qed

section \<open>Requests\<close>

text \<open>
  C3. A finished command is finished once: within the time to live, whatever happens in between, any
  request of the same command under the same key from an actor that may send it is answered with
  the stored result and changes nothing, whatever its payload says.
\<close>

theorem command_replayed:
  assumes "run_request q s = (Inr res, t)" "wf_slots s"
    "checkIdempotencyKey (rq_key (request_meta_of q)) (rq_scope (request_meta_of q)) s = None"
    "(system_step bound)\<^sup>*\<^sup>* t u" "0 \<le> bound" "clock u < clock s + IDEMPOTENCY_TTL_MS"
    "rq_key (request_meta_of q') = rq_key (request_meta_of q)" "rq_scope (request_meta_of q') = rq_scope (request_meta_of q)"
    "rq_role (request_meta_of q') \<le> actor_role (rq_actor (request_meta_of q'))"
    "rq_kind (request_meta_of q') = Some (actorKind (rq_actor (request_meta_of q')))"
  shows "run_request q' u = (Inr res, u)"
proof (rule request_replays [OF _ assms(9,10)])
  show "checkIdempotencyKey (rq_key (request_meta_of q')) (rq_scope (request_meta_of q')) u = Some res"
    unfolding assms(7,8) using steps_core(3) [OF assms(4,5)] assms(6) by (rule request_replayed_later [OF assms(1-3)])
qed

theorem command_replayed_witness:
  "\<exists>res. run_request select_request waiting_store = (Inr res, selected_store)
     \<and> run_request (SelectFeature (sample_envelope ADMIN Human ''k'' (sample_payload ''r1'' 1)))
         (selected_store\<lparr>clock := clock selected_store + 5000\<rparr>) =
       (Inr res, selected_store\<lparr>clock := clock selected_store + 5000\<rparr>)"
proof -
  let ?u = "selected_store\<lparr>clock := clock selected_store + 5000\<rparr>"
  obtain res where run: "run_request select_request waiting_store = (Inr res, selected_store)" using selected(1) by blast
  have "clock selected_store = 1000"
    using request_evolves [of select_request] waiting(6)
    by (simp add: evo.keepsA_def evolves_def selected_store_def guarantee_defs)
  then have live: "clock ?u < clock waiting_store + IDEMPOTENCY_TTL_MS" using waiting(6) by (simp add: IDEMPOTENCY_TTL_MS_def)
  have "run_request (SelectFeature (sample_envelope ADMIN Human ''k'' (sample_payload ''r1'' 1))) ?u = (Inr res, ?u)"
    by (rule command_replayed [OF run waiting(2) _ tick_steps [of 5000 5] _ live])
      (simp_all add: select_request_def meta_def sample_envelope_def SelectFeatureHandler_def checkIdempotencyKey_def
        waiting less_eq_UserRole_def)
  with run show ?thesis by blast
qed





section \<open>Locks and gates across components\<close>

text \<open>
  C11. A worker whose lock has been taken over can do no more harm: once the lane has been acquired
  again, whatever happened in between, the first acquisition's fence is refused by the lock
  manager, and no command that works on the run's branch succeeds with it.
\<close>

theorem stale_worker_powerless:
  assumes "wf_locks s" "acquire p k o1 s = (Inr l1, s1)" "(system_step bound)\<^sup>*\<^sup>* s1 s2"
    "acquire p k o2 s2 = (Inr l2, s3)" "(system_step bound)\<^sup>*\<^sup>* s3 t" "0 \<le> bound"
    "h \<in> {StartCodingHandler, StartFixingHandler}" "fresh_key h e t" "lockContext e = Some ctx"
    "fresh_key RecordCodePushedHandler e' t" "lockContext e' = Some ctx"
    "lc_lockId ctx = al_lockId l1" "lc_fence ctx = al_fence l1"
  shows "al_fence l1 < al_fence l2 \<and> (\<exists>err. assertFence l1 t = Inl err)
     \<and> (\<exists>err. execute h e t = (Inl err, t)) \<and> (\<exists>err. execute RecordCodePushedHandler e' t = (Inl err, t))"
proof -
  note taken = fence_taken_over [OF assms(1,2) steps_core(4) [OF assms(3,6)] assms(4) steps_core(4) [OF assms(5,6)]]
  have lost: "\<not> lane_held e pr t" "\<not> lane_held e' pr t" for pr
    using taken(4) [of "ctx\<lparr>lc_projectId := Some pr, lc_resourceKey := Some (''execution-lane:'' @ pr)\<rparr>"] assms(9,11-13)
    by (simp_all add: lane_held_def)
  have "\<exists>err. execute h e t = (Inl err, t)"
  proof (cases "execute h e t")
    case (Pair r u)
    from assms(7) obtain body where b: "(h, body) \<in> {(StartCodingHandler, StartCoding_body), (StartFixingHandler, StartFixing_body)}"
      by auto
    have "r \<noteq> Inr res" for res
      using lane_required [OF _ assms(8) b] lost(1) Pair by blast
    moreover have "u = t" if "r = Inl err" for err
      using Pair that b by (auto dest: claimed_failures)
    ultimately show ?thesis using Pair by (cases r) auto
  qed
  moreover have "\<exists>err. execute RecordCodePushedHandler e' t = (Inl err, t)"
  proof (cases "execute RecordCodePushedHandler e' t")
    case (Pair r u)
    have "r \<noteq> Inr res" for res
      using push_needs_lane [OF _ assms(10)] lost(2) Pair by blast
    moreover have "u = t" if "r = Inl err" for err
      using Pair that by (auto dest: claimed_failures)
    ultimately show ?thesis using Pair by (cases r) auto
  qed
  ultimately show ?thesis using taken(2,3) by blast
qed

theorem stale_worker_powerless_witness:
  "\<exists>l1 s1 l2 t err. acquire ''p1'' ''execution-lane:p1'' \<lparr>lo_ttlMs = 500, lo_holderId = ''worker''\<rparr> waiting_store = (Inr l1, s1)
     \<and> acquire ''p1'' ''execution-lane:p1'' \<lparr>lo_ttlMs = 500, lo_holderId = ''other''\<rparr> (s1\<lparr>clock := clock s1 + 9000\<rparr>) = (Inr l2, t)
     \<and> al_fence l1 < al_fence l2 \<and> assertFence l1 t = Inl err"
proof -
  let ?k = "''execution-lane:p1''" and ?o1 = "\<lparr>lo_ttlMs = 500, lo_holderId = ''worker''\<rparr>" and ?o2 = "\<lparr>lo_ttlMs = 500, lo_holderId = ''other''\<rparr>"
  have "\<exists>l1 s1 l2 t. acquire ''p1'' ?k ?o1 waiting_store = (Inr l1, s1)
      \<and> acquire ''p1'' ?k ?o2 (s1\<lparr>clock := clock s1 + 9000\<rparr>) = (Inr l2, t) \<and> idempotency_keys t = []"
    by (simp add: acquire_run transaction_def acquire_body_unfold Let_def waiting_store_def sample_store_def sample_lane_def
        claimable_def lock_for_def grant_def)
  then obtain l1 s1 l2 t where l: "acquire ''p1'' ?k ?o1 waiting_store = (Inr l1, s1)"
      "acquire ''p1'' ?k ?o2 (s1\<lparr>clock := clock s1 + 9000\<rparr>) = (Inr l2, t)" "idempotency_keys t = []"
    by blast
  let ?e = "(sample_envelope OPERATOR SystemKind ''k'' (sample_payload ''r2'' 5))
      \<lparr>lockContext := Some (sample_lock_context\<lparr>lc_lockId := al_lockId l1, lc_fence := al_fence l1\<rparr>)\<rparr>"
  let ?e' = "(sample_envelope OPERATOR SystemKind ''k'' undefined)
      \<lparr>lockContext := Some (sample_lock_context\<lparr>lc_lockId := al_lockId l1, lc_fence := al_fence l1\<rparr>)\<rparr>"
  have fresh: "fresh_key StartCodingHandler ?e t" "fresh_key RecordCodePushedHandler ?e' t"
    using l(3) by (simp_all add: fresh_key_def idempotency_slot_def)
  have "al_fence l1 < al_fence l2 \<and> (\<exists>err. assertFence l1 t = Inl err)"
    using stale_worker_powerless [OF waiting(3) l(1) tick_steps [of 9000 5] l(2) rtranclp.rtrancl_refl _ _ fresh(1) _ fresh(2)]
    by simp
  with l show ?thesis by blast
qed

text \<open>
  C13. Blocking is for good: once a human has blocked a run, no later merge or approval by policy of
  that run succeeds, whatever happens in between, because the gate holds the deferred approval
  that the block records against the run for ever.
\<close>

theorem blocked_never_merges:
  assumes "execute BlockFeatureHandler e s = (Inr res, t)" "fresh_key BlockFeatureHandler e s" "wf_store s"
    "(system_step bound)\<^sup>*\<^sup>* t u" "0 \<le> bound"
    "h \<in> {MergeIfReadyHandler, RecordApprovedByPolicyHandler}" "fresh_key h e' u"
    "p_featureRunId (payload e') = p_featureRunId (payload e)"
  shows "\<exists>err. fst (execute h e' u) = Inl err"
proof (rule ccontr)
  assume "\<nexists>err. fst (execute h e' u) = Inl err"
  then obtain res' v where run: "execute h e' u = (Inr res', v)" by (metis prod.collapse sum.exhaust)
  obtain a where a: "a \<in> set (human_approvals t)" "ha_feature_run_id a = Some (p_featureRunId (payload e))"
      "ha_decision a = Some DEC_DEFERRED"
    using block_success [OF assms(1-3)] by blast
  have "a \<in> set (human_approvals u)"
    using steps_core(1) [OF assms(4,5)] a(1) set_mono_prefix by (fastforce simp: audit_grows_def)
  moreover have "wf_store u"
    using steps_core(2) [OF assms(4,5)] request_wf [of "BlockFeature e"] assms(1,3) by (simp add: runs_advance_def)
  ultimately show False
    using gated_success [OF run assms(6,7)] a(2,3) assms(8) by (auto simp: gate_open)
qed

theorem blocked_never_merges_witness:
  "\<exists>res t err. execute BlockFeatureHandler
       (sample_envelope APPROVER Human ''k'' \<lparr>p_featureRunId = ''r2'', p_projectId = ''p1'', p_expectedVersion = 4, np_notes = ''n''\<rparr>)
       waiting_store = (Inr res, t)
     \<and> fst (execute MergeIfReadyHandler (sample_envelope APPROVER Human ''k'' (sample_payload ''r2'' 9))
          (t\<lparr>clock := clock t + 5000\<rparr>)) = Inl err"
proof -
  let ?e = "sample_envelope APPROVER Human ''k''
      \<lparr>p_featureRunId = ''r2'', p_projectId = ''p1'', p_expectedVersion = 4, np_notes = ''n''\<rparr>"
  let ?e' = "sample_envelope APPROVER Human ''k'' (sample_payload ''r2'' 9)"
  have "\<exists>res t. execute BlockFeatureHandler ?e waiting_store = (Inr res, t)
      \<and> map ik_scope (idempotency_keys t) = [''block-feature'']"
    by (simp add: run_simps waiting_store_def BlockFeatureHandler_def BlockFeature_body_def)
  then obtain res t where run: "execute BlockFeatureHandler ?e waiting_store = (Inr res, t)"
      "map ik_scope (idempotency_keys t) = [''block-feature'']" by metis
  have "fresh_key BlockFeatureHandler ?e waiting_store"
    by (simp add: fresh_key_def idempotency_slot_def waiting)
  moreover have "fresh_key MergeIfReadyHandler ?e' (t\<lparr>clock := clock t + 5000\<rparr>)"
    using run(2) by (auto simp: fresh_key_def idempotency_slot_def MergeIfReadyHandler_def filter_empty_conv)
  ultimately have "\<exists>err. fst (execute MergeIfReadyHandler ?e' (t\<lparr>clock := clock t + 5000\<rparr>)) = Inl err"
    using blocked_never_merges [OF run(1) _ waiting(1) tick_steps [of 5000 5], of MergeIfReadyHandler ?e']
    by (simp add: sample_envelope_def sample_payload_def)
  with run(1) show ?thesis by blast
qed

end
